(* ===== verification/JSValue.thy ===== *)
theory JSValue
  imports Main "HOL-Library.AList" "HOL-Library.Char_ord" "HOL-Library.List_Lexorder"
begin

text \<open>
  Prelude of the development: the fragment of JavaScript that the RuleOak packages under
  \<^verbatim>\<open>src/packages\<close> compute with.

  \<^item> \<open>jval\<close> is a JavaScript value as the code sees it: \<open>undefined\<close>, \<open>null\<close>, booleans,
    numbers, strings, arrays and plain objects.  An object is the association list of its own
    enumerable properties in insertion order (a property name that is an array index, which
    JavaScript lists first, is not moved).  Numbers are integers (the code counts
    milliseconds, uses, bytes and sequence numbers) and the value \<open>JNaN\<close>; fractional
    numbers and the infinities are not represented.
  \<^item> A string is a list of characters, one per UTF-16 code unit below 256.
  \<^item> The operators the code uses on values (truthiness, \<open>||\<close>, \<open>??\<close>, \<open>?.\<close>, \<open>===\<close>,
    \<open>String(v)\<close>, object spread and rest, \<open>Array.prototype.includes\<close>) are definitions.
  \<^item> An exception is an error value: every function of the code that can throw returns
    \<open>'a res\<close>, whose left side is the thrown error.
  \<^item> \<open>host\<close> collects what the runtime supplies and the language does not determine: the
    digest functions of \<^verbatim>\<open>node:crypto\<close>, the clock, fresh UUIDs, the collation order
    behind \<^verbatim>\<open>localeCompare\<close> and the Unicode tables behind \<^verbatim>\<open>normalize('NFKC')\<close>.  The definitions that use one of them take a \<open>host\<close>.
\<close>

section \<open>Values\<close>

datatype jval =
    JUndef
  | JNull
  | JBool bool
  | JNum int
  | JNaN
  | JStr string
  | JArr "jval list"
  | JObj "(string \<times> jval) list"

type_synonym props = "(string \<times> jval) list"

named_theorems js_simps "evaluation of the JavaScript operators on constructor forms"

fun truthy :: "jval \<Rightarrow> bool" where
  "truthy JUndef = False"
| "truthy JNull = False"
| "truthy (JBool b) = b"
| "truthy (JNum n) = (n \<noteq> 0)"
| "truthy JNaN = False"
| "truthy (JStr s) = (s \<noteq> [])"
| "truthy (JArr xs) = True"
| "truthy (JObj ps) = True"

definition jor :: "jval \<Rightarrow> jval \<Rightarrow> jval" where
  "jor a b = (if truthy a then a else b)"

definition jnullish :: "jval \<Rightarrow> bool" where
  "jnullish v \<longleftrightarrow> v = JUndef \<or> v = JNull"

definition jcoalesce :: "jval \<Rightarrow> jval \<Rightarrow> jval" where
  "jcoalesce a b = (if jnullish a then b else a)"

definition is_str :: "jval \<Rightarrow> bool" where
  "is_str v = (case v of JStr _ \<Rightarrow> True | _ \<Rightarrow> False)"

definition is_bool :: "jval \<Rightarrow> bool" where
  "is_bool v = (case v of JBool _ \<Rightarrow> True | _ \<Rightarrow> False)"

definition is_arr :: "jval \<Rightarrow> bool" where
  "is_arr v = (case v of JArr _ \<Rightarrow> True | _ \<Rightarrow> False)"

definition is_int :: "jval \<Rightarrow> bool" where
  "is_int v = (case v of JNum _ \<Rightarrow> True | _ \<Rightarrow> False)"

definition is_obj :: "jval \<Rightarrow> bool" where
  "is_obj v = (case v of JObj _ \<Rightarrow> True | _ \<Rightarrow> False)"

definition nonempty_str :: "jval \<Rightarrow> bool" where
  "nonempty_str v = (case v of JStr s \<Rightarrow> s \<noteq> [] | _ \<Rightarrow> False)"

definition arr_of :: "jval \<Rightarrow> jval list" where
  "arr_of v = (case v of JArr xs \<Rightarrow> xs | _ \<Rightarrow> [])"

definition props_of :: "jval \<Rightarrow> props" where
  "props_of v = (case v of JObj ps \<Rightarrow> ps | _ \<Rightarrow> [])"

definition str_of :: "jval \<Rightarrow> string" where
  "str_of v = (case v of JStr s \<Rightarrow> s | _ \<Rightarrow> [])"

definition num_of :: "jval \<Rightarrow> int" where
  "num_of v = (case v of JNum n \<Rightarrow> n | _ \<Rightarrow> 0)"

text \<open>Property read: a missing property, and any property of a value that has none of its
  own, is \<open>undefined\<close>.  This is \<open>v?.k\<close>, and \<open>v.k\<close> where \<open>v\<close> is not nullish.\<close>

definition jget :: "jval \<Rightarrow> string \<Rightarrow> jval" where
  "jget v k = (case map_of (props_of v) k of None \<Rightarrow> JUndef | Some x \<Rightarrow> x)"

definition jhas :: "jval \<Rightarrow> string \<Rightarrow> bool" where
  "jhas v k = (map_of (props_of v) k \<noteq> None)"

definition jset :: "jval \<Rightarrow> string \<Rightarrow> jval \<Rightarrow> jval" where
  "jset v k x = JObj (AList.update k x (props_of v))"

text \<open>Rest destructuring \<open>const {k, ...rest} = v\<close> and spread \<open>{...a, ...b}\<close>.  The keys of an
  object are distinct, so \<open>clearjunk\<close> changes nothing on the property list of one.\<close>

definition jomit :: "string \<Rightarrow> jval \<Rightarrow> jval" where
  "jomit k v = JObj (AList.delete k (props_of v))"

definition jspread :: "jval \<Rightarrow> jval \<Rightarrow> jval" where
  "jspread a b = fold (\<lambda>(k, x) o'. jset o' k x) (AList.clearjunk (props_of b)) (JObj (props_of a))"

definition jkeys :: "jval \<Rightarrow> string list" where
  "jkeys v = map fst (props_of v)"

text \<open>\<^verbatim>\<open>Object.entries\<close>: the indices of an array or a string are its keys.\<close>

definition jentries :: "jval \<Rightarrow> (nat \<Rightarrow> string) \<Rightarrow> props" where
  "jentries v index =
     (case v of
        JObj ps \<Rightarrow> ps
      | JArr xs \<Rightarrow> map (\<lambda>(i, x). (index i, x)) (enumerate 0 xs)
      | JStr s \<Rightarrow> map (\<lambda>(i, c). (index i, JStr [c])) (enumerate 0 s)
      | _ \<Rightarrow> [])"

text \<open>A property that is written only under a condition: \<open>...(c ? {k: x} : {})\<close>.\<close>

definition when_prop :: "bool \<Rightarrow> string \<Rightarrow> jval \<Rightarrow> props" where
  "when_prop c k x = (if c then [(k, x)] else [])"

text \<open>Strict equality.  Two array or object values that the code compares are always
  different references, so they are never equal; \<open>NaN\<close> is not equal to itself.\<close>

definition strict_eq :: "jval \<Rightarrow> jval \<Rightarrow> bool" where
  "strict_eq a b \<longleftrightarrow> a = b \<and> a \<noteq> JNaN \<and> \<not> is_arr a \<and> \<not> is_obj a"

text \<open>The comparison of \<^verbatim>\<open>includes\<close> and of \<^verbatim>\<open>Set\<close>, for which \<open>NaN\<close> equals itself.\<close>

definition same_value :: "jval \<Rightarrow> jval \<Rightarrow> bool" where
  "same_value a b \<longleftrightarrow> a = b \<and> \<not> is_arr a \<and> \<not> is_obj a"

definition jincludes :: "jval list \<Rightarrow> jval \<Rightarrow> bool" where
  "jincludes xs v \<longleftrightarrow> (\<exists>x\<in>set xs. same_value x v)"

text \<open>\<open>new Set(xs).size !== xs.length\<close>.\<close>

fun has_dup :: "jval list \<Rightarrow> bool" where
  "has_dup [] = False"
| "has_dup (x # xs) = (jincludes xs x \<or> has_dup xs)"

text \<open>\<open>['a','b'].includes(v)\<close> for a literal list of strings.\<close>

definition one_of :: "string list \<Rightarrow> jval \<Rightarrow> bool" where
  "one_of ss v = (case v of JStr s \<Rightarrow> s \<in> set ss | _ \<Rightarrow> False)"

lemma jor_truthy [simp]: "truthy a \<Longrightarrow> jor a b = a"
  by (simp add: jor_def)

lemma jor_falsy [simp]: "\<not> truthy a \<Longrightarrow> jor a b = b"
  by (simp add: jor_def)

lemma jor_left_id [simp]: "jor a a = a"
  by (simp add: jor_def)

lemma truthy_jor [simp]: "truthy (jor a b) \<longleftrightarrow> truthy a \<or> truthy b"
  by (simp add: jor_def)

lemma is_simps [simp, js_simps]:
  "is_str (JStr s)" "\<not> is_str JUndef" "\<not> is_str JNull" "\<not> is_str (JBool b)" "\<not> is_str (JNum n)"
  "\<not> is_str JNaN" "\<not> is_str (JArr xs)" "\<not> is_str (JObj ps)"
  "is_arr (JArr xs)" "\<not> is_arr JUndef" "\<not> is_arr JNull" "\<not> is_arr (JBool b)" "\<not> is_arr (JNum n)"
  "\<not> is_arr JNaN" "\<not> is_arr (JStr s)" "\<not> is_arr (JObj ps)"
  "is_obj (JObj ps)" "\<not> is_obj JUndef" "\<not> is_obj JNull" "\<not> is_obj (JBool b)" "\<not> is_obj (JNum n)"
  "\<not> is_obj JNaN" "\<not> is_obj (JStr s)" "\<not> is_obj (JArr xs)"
  "is_int (JNum n)" "\<not> is_int JUndef" "\<not> is_int JNull" "\<not> is_int (JBool b)" "\<not> is_int JNaN"
  "\<not> is_int (JStr s)" "\<not> is_int (JArr xs)" "\<not> is_int (JObj ps)"
  "is_bool (JBool b)" "\<not> is_bool JUndef" "\<not> is_bool JNull" "\<not> is_bool (JNum n)" "\<not> is_bool JNaN"
  "\<not> is_bool (JStr s)" "\<not> is_bool (JArr xs)" "\<not> is_bool (JObj ps)"
  by (simp_all add: is_str_def is_arr_def is_obj_def is_int_def is_bool_def)

lemma of_simps [simp, js_simps]:
  "arr_of (JArr xs) = xs" "props_of (JObj ps) = ps" "str_of (JStr s) = s" "num_of (JNum n) = n"
  "arr_of JUndef = []" "props_of JUndef = []" "arr_of JNull = []" "props_of JNull = []"
  "props_of (JStr s) = []" "props_of (JArr xs) = []" "props_of (JNum n) = []"
  "props_of (JBool b) = []" "props_of JNaN = []"
  by (simp_all add: arr_of_def props_of_def str_of_def num_of_def)

lemma is_str_cases: "is_str v \<Longrightarrow> (\<And>s. v = JStr s \<Longrightarrow> P) \<Longrightarrow> P"
  by (cases v) auto

lemma is_arr_cases: "is_arr v \<Longrightarrow> (\<And>xs. v = JArr xs \<Longrightarrow> P) \<Longrightarrow> P"
  by (cases v) auto

lemma is_obj_cases: "is_obj v \<Longrightarrow> (\<And>ps. v = JObj ps \<Longrightarrow> P) \<Longrightarrow> P"
  by (cases v) auto

lemma is_int_cases: "is_int v \<Longrightarrow> (\<And>n. v = JNum n \<Longrightarrow> P) \<Longrightarrow> P"
  by (cases v) auto

lemma nonempty_str_iff: "nonempty_str v \<longleftrightarrow> (\<exists>s. v = JStr s \<and> s \<noteq> [])"
  by (cases v) (simp_all add: nonempty_str_def)

lemma nonempty_str_truthy: "nonempty_str v \<Longrightarrow> truthy v"
  by (auto simp: nonempty_str_iff)

lemma strict_eq_str [simp]: "strict_eq (JStr a) v \<longleftrightarrow> v = JStr a" "strict_eq v (JStr a) \<longleftrightarrow> v = JStr a"
  by (auto simp: strict_eq_def)

lemma strict_eq_num [simp]: "strict_eq (JNum a) v \<longleftrightarrow> v = JNum a" "strict_eq v (JNum a) \<longleftrightarrow> v = JNum a"
  by (auto simp: strict_eq_def)

lemma strict_eq_bool [simp]: "strict_eq (JBool a) v \<longleftrightarrow> v = JBool a" "strict_eq v (JBool a) \<longleftrightarrow> v = JBool a"
  by (auto simp: strict_eq_def)

lemma strict_eq_nil [simp]:
  "strict_eq JUndef v \<longleftrightarrow> v = JUndef" "strict_eq v JUndef \<longleftrightarrow> v = JUndef"
  "strict_eq JNull v \<longleftrightarrow> v = JNull" "strict_eq v JNull \<longleftrightarrow> v = JNull"
  by (auto simp: strict_eq_def)

lemma jincludes_str [simp]: "jincludes xs (JStr s) \<longleftrightarrow> JStr s \<in> set xs"
  by (auto simp: jincludes_def same_value_def)

lemma strict_eqD: "strict_eq a b \<Longrightarrow> a = b"
  by (simp add: strict_eq_def)

lemma one_of_iff: "one_of ss v \<longleftrightarrow> (\<exists>s\<in>set ss. v = JStr s)"
  by (cases v) (auto simp: one_of_def)

lemma one_of_str [simp]: "one_of ss (JStr s) \<longleftrightarrow> s \<in> set ss"
  by (simp add: one_of_def)

lemma jget_obj: "jget (JObj ps) k = (case map_of ps k of None \<Rightarrow> JUndef | Some x \<Rightarrow> x)"
  by (simp add: jget_def)

lemma jget_Nil [simp]: "jget (JObj []) k = JUndef"
  by (simp add: jget_def)

lemma jget_Cons [simp]: "jget (JObj ((k, v) # ps)) k' = (if k' = k then v else jget (JObj ps) k')"
  by (simp add: jget_def)

lemma jget_nil [simp]: "jget JUndef k = JUndef" "jget JNull k = JUndef" "jget (JStr s) k = JUndef"
  "jget (JArr xs) k = JUndef" "jget (JNum n) k = JUndef" "jget (JBool b) k = JUndef" "jget JNaN k = JUndef"
  by (simp_all add: jget_def)

lemma jget_jset: "jget (jset v k x) k' = (if k' = k then x else jget v k')"
  by (simp add: jget_def jset_def update_conv')

lemma jget_jset_same [simp]: "jget (jset v k x) k = x"
  by (simp add: jget_jset)

lemma jget_jset_other [simp]: "k' \<noteq> k \<Longrightarrow> jget (jset v k x) k' = jget v k'"
  by (simp add: jget_jset)

lemma jget_jomit: "jget (jomit k v) k' = (if k' = k then JUndef else jget v k')"
  by (simp add: jget_def jomit_def delete_conv')

lemma is_obj_jset [simp]: "is_obj (jset v k x)"
  by (simp add: jset_def)

lemma is_obj_jomit [simp]: "is_obj (jomit k v)"
  by (simp add: jomit_def)

lemma jset_same: "map_of (props_of v) k = Some x \<Longrightarrow> is_obj v \<Longrightarrow> jset v k x = v"
  by (cases v) (auto simp: jset_def map_of_eq_Some_iff update_Some_unfold update_triv)

lemma jget_fold_jset:
  "jget (fold (\<lambda>(k, x) o'. jset o' k x) ps o') k = (case map_of (rev ps) k of None \<Rightarrow> jget o' k | Some x \<Rightarrow> x)"
proof (induction ps arbitrary: o')
  case (Cons p ps)
  then show ?case by (cases p) (auto simp: jget_jset map_add_def split: option.splits)
qed simp

lemma map_of_rev_distinct: "distinct (map fst ps) \<Longrightarrow> map_of (rev ps) = map_of ps"
proof
  fix k assume d: "distinct (map fst ps)"
  then have d': "distinct (map fst (rev ps))" by (simp add: rev_map [symmetric])
  have "map_of (rev ps) k = Some v \<longleftrightarrow> map_of ps k = Some v" for v
    using map_of_eq_Some_iff [OF d] map_of_eq_Some_iff [OF d'] by simp
  then show "map_of (rev ps) k = map_of ps k" by (metis not_None_eq)
qed

lemma jhas_False: "\<not> jhas v k \<Longrightarrow> jget v k = JUndef"
  by (simp add: jhas_def jget_def)

lemma jget_JObj_props_of: "jget (JObj (props_of a)) k = jget a k"
  by (simp add: jget_def)

lemma jget_jspread:
  "jget (jspread a b) k = (if jhas b k then jget b k else jget a k)"
proof -
  have "map_of (rev (AList.clearjunk (props_of b))) = map_of (props_of b)"
    using map_of_rev_distinct [OF distinct_clearjunk, of "props_of b"] by (simp add: map_of_clearjunk)
  then show ?thesis
    unfolding jspread_def jget_fold_jset jget_JObj_props_of
    by (simp add: jhas_def jget_def split: option.split)
qed

lemma is_obj_fold_jset: "is_obj o' \<Longrightarrow> is_obj (fold (\<lambda>(k, x) o'. jset o' k x) ps o')"
  by (induction ps arbitrary: o') (auto split: prod.splits)

lemma is_obj_jspread [simp]: "is_obj (jspread a b)"
  by (simp add: jspread_def is_obj_fold_jset)

section \<open>Strings\<close>

fun starts_with :: "string \<Rightarrow> string \<Rightarrow> bool" where
  "starts_with [] s = True"
| "starts_with (p # ps) [] = False"
| "starts_with (p # ps) (c # s) = (p = c \<and> starts_with ps s)"

definition ends_with :: "string \<Rightarrow> string \<Rightarrow> bool" where
  "ends_with p s = starts_with (rev p) (rev s)"

fun str_includes :: "string \<Rightarrow> string \<Rightarrow> bool" where
  "str_includes p [] = (p = [])"
| "str_includes p (c # s) = (starts_with p (c # s) \<or> str_includes p s)"

fun str_join :: "string \<Rightarrow> string list \<Rightarrow> string" where
  "str_join sep [] = []"
| "str_join sep [x] = x"
| "str_join sep (x # y # xs) = x @ sep @ str_join sep (y # xs)"

fun str_split :: "char \<Rightarrow> string \<Rightarrow> string list" where
  "str_split sep [] = [[]]"
| "str_split sep (c # s) =
     (if c = sep then [] # str_split sep s
      else (case str_split sep s of [] \<Rightarrow> [[c]] | x # xs \<Rightarrow> (c # x) # xs))"

lemma starts_with_iff: "starts_with p s \<longleftrightarrow> (\<exists>t. s = p @ t)"
  by (induction p s rule: starts_with.induct) auto

lemma starts_with_append [simp]: "starts_with p (p @ t)"
  by (auto simp: starts_with_iff)

lemma ends_with_iff: "ends_with p s \<longleftrightarrow> (\<exists>t. s = t @ p)"
  unfolding ends_with_def starts_with_iff
  by (metis rev_append rev_rev_ident)

lemma str_includes_iff: "str_includes p s \<longleftrightarrow> (\<exists>a b. s = a @ p @ b)"
proof (induction s)
  case (Cons c s)
  then show ?case
    by (auto simp: starts_with_iff) (metis append_Cons append_Nil append_eq_Cons_conv)+
qed auto

lemma str_includes_char: "str_includes [c] s \<longleftrightarrow> c \<in> set s"
  by (auto simp: str_includes_iff in_set_conv_decomp)

lemma str_split_neq_Nil [simp]: "str_split sep s \<noteq> []"
  by (cases s) (auto split: list.splits)

text \<open>For evaluation: characters are compared by their bits, from the lowest.\<close>

fun bits_le :: "bool \<Rightarrow> bool list \<Rightarrow> bool list \<Rightarrow> bool" where
  "bits_le le (a # as) (b # bs) = bits_le (if a = b then le else b) as bs"
| "bits_le le _ _ = le"

lemma bits_le: "length as = length bs \<Longrightarrow>
  bits_le le as bs \<longleftrightarrow> horner_sum of_bool (2 :: nat) as + (if le then 0 else 1) \<le> horner_sum of_bool 2 bs"
  by (induction le as bs rule: bits_le.induct) (auto split: if_splits)

definition char_le :: "char \<Rightarrow> char \<Rightarrow> bool" where
  "char_le a b \<longleftrightarrow> (of_char a :: nat) \<le> of_char b"

lemma char_le_code [code]:
  "char_le (Char a0 a1 a2 a3 a4 a5 a6 a7) (Char b0 b1 b2 b3 b4 b5 b6 b7) =
     bits_le True [a0, a1, a2, a3, a4, a5, a6, a7] [b0, b1, b2, b3, b4, b5, b6, b7]"
  by (simp add: bits_le char_le_def of_char_def del: bits_le.simps)

lemma of_char_eq: "(of_char c :: nat) = of_char d \<longleftrightarrow> c = d"
  by simp

text \<open>Letters: the mappings of \<open>toLowerCase\<close> and \<open>toUpperCase\<close> on code units below 256.\<close>

definition char_lower :: "char \<Rightarrow> char" where
  "char_lower c = (let n = of_char c :: nat in
     if (65 \<le> n \<and> n \<le> 90) \<or> (192 \<le> n \<and> n \<le> 222 \<and> n \<noteq> 215) then char_of (n + 32) else c)"

lemma char_lower_code [code]:
  "char_lower c =
     (if (char_le CHR ''A'' c \<and> char_le c CHR ''Z'') \<or> (char_le CHR 0xC0 c \<and> char_le c CHR 0xDE \<and> c \<noteq> CHR 0xD7)
      then char_of ((of_char c :: nat) + 32) else c)"
  using of_char_eq [of c "CHR 0xD7"] by (simp add: char_lower_def char_le_def Let_def)

definition char_upper :: "char \<Rightarrow> char" where
  "char_upper c = (let n = of_char c :: nat in
     if (97 \<le> n \<and> n \<le> 122) \<or> (224 \<le> n \<and> n \<le> 254 \<and> n \<noteq> 247) then char_of (n - 32) else c)"

definition str_lower :: "string \<Rightarrow> string" where
  "str_lower = map char_lower"

definition str_upper :: "string \<Rightarrow> string" where
  "str_upper = map char_upper"

section \<open>Decimal numerals\<close>

definition digit_char :: "nat \<Rightarrow> char" where
  "digit_char d = char_of (48 + d)"

definition is_digit :: "char \<Rightarrow> bool" where
  "is_digit c \<longleftrightarrow> (48::nat) \<le> of_char c \<and> of_char c \<le> (57::nat)"

definition digit_val :: "char \<Rightarrow> nat" where
  "digit_val c = of_char c - 48"

fun nat_str :: "nat \<Rightarrow> string" where
  "nat_str n = (if n < 10 then [digit_char n] else nat_str (n div 10) @ [digit_char (n mod 10)])"

declare nat_str.simps [simp del]

definition int_str :: "int \<Rightarrow> string" where
  "int_str n = (if n < 0 then CHR ''-'' # nat_str (nat (- n)) else nat_str (nat n))"

definition nat_val :: "string \<Rightarrow> nat" where
  "nat_val s = foldl (\<lambda>acc c. acc * 10 + digit_val c) 0 s"

lemma digit_char_props [simp]:
  "d < 10 \<Longrightarrow> is_digit (digit_char d)" "d < 10 \<Longrightarrow> digit_val (digit_char d) = d"
  by (simp_all add: is_digit_def digit_char_def digit_val_def)

lemma nat_val_snoc [simp]: "nat_val (s @ [c]) = nat_val s * 10 + digit_val c"
  by (simp add: nat_val_def)

lemma nat_val_nat_str [simp]: "nat_val (nat_str n) = n"
proof (induction n rule: nat_str.induct)
  case (1 n)
  show ?case
  proof (cases "n < 10")
    case True
    then show ?thesis by (simp add: nat_str.simps [of n] nat_val_def)
  next
    case False
    then show ?thesis using 1 by (simp add: nat_str.simps [of n])
  qed
qed

lemma nat_str_digits: "c \<in> set (nat_str n) \<Longrightarrow> is_digit c"
proof (induction n rule: nat_str.induct)
  case (1 n)
  show ?case
  proof (cases "n < 10")
    case True
    then show ?thesis using 1 by (simp add: nat_str.simps [of n])
  next
    case False
    then show ?thesis using 1 by (auto simp: nat_str.simps [of n])
  qed
qed

lemma nat_str_neq_Nil [simp]: "nat_str n \<noteq> []"
  by (simp add: nat_str.simps [of n])

lemma nat_str_inject [simp]: "nat_str m = nat_str n \<longleftrightarrow> m = n"
  by (metis nat_val_nat_str)

lemma int_str_neq_Nil [simp]: "int_str n \<noteq> []"
  by (simp add: int_str_def)

text \<open>For evaluation: digits as bit patterns, and the digits of an integer, which is evaluated in binary.\<close>

lemma is_digit_code [code]:
  "is_digit (Char b0 b1 b2 b3 b4 b5 b6 b7) = (\<not> b7 \<and> \<not> b6 \<and> b5 \<and> b4 \<and> (b3 \<longrightarrow> \<not> b2 \<and> \<not> b1))"
  by (cases b0; cases b1; cases b2; cases b3; cases b4; cases b5; cases b6; cases b7) (simp_all add: is_digit_def)

definition digit_table :: "int \<Rightarrow> char" where
  "digit_table d = (if d = 0 then CHR ''0'' else if d = 1 then CHR ''1'' else if d = 2 then CHR ''2''
     else if d = 3 then CHR ''3'' else if d = 4 then CHR ''4'' else if d = 5 then CHR ''5''
     else if d = 6 then CHR ''6'' else if d = 7 then CHR ''7'' else if d = 8 then CHR ''8'' else CHR ''9'')"

lemma digit_chars:
  "char_of (48 :: nat) = CHR ''0''" "char_of (49 :: nat) = CHR ''1''" "char_of (50 :: nat) = CHR ''2''" "char_of (51 :: nat) = CHR ''3''" "char_of (52 :: nat) = CHR ''4''"
    "char_of (53 :: nat) = CHR ''5''" "char_of (54 :: nat) = CHR ''6''" "char_of (55 :: nat) = CHR ''7''" "char_of (56 :: nat) = CHR ''8''" "char_of (57 :: nat) = CHR ''9''"
  by (code_simp, code_simp, code_simp, code_simp, code_simp, code_simp, code_simp, code_simp, code_simp, code_simp)

lemma digit_table: "0 \<le> d \<Longrightarrow> d < 10 \<Longrightarrow> digit_table d = digit_char (nat d)"
proof -
  assume "0 \<le> d" "d < 10"
  then have "d = 0 \<or> d = 1 \<or> d = 2 \<or> d = 3 \<or> d = 4 \<or> d = 5 \<or> d = 6 \<or> d = 7 \<or> d = 8 \<or> d = 9"
    by presburger
  then show ?thesis by (elim disjE) (simp_all add: digit_table_def digit_char_def digit_chars)
qed

function int_digits :: "int \<Rightarrow> string" where
  "int_digits n = (if n < 10 then [digit_table n] else int_digits (n div 10) @ [digit_table (n mod 10)])"
  by auto

termination by (relation "measure nat") auto

declare int_digits.simps [simp del]

lemma int_digits_nat: "0 \<le> n \<Longrightarrow> int_digits n = nat_str (nat n)"
proof (induction n rule: int_digits.induct)
  case (1 n)
  then show ?case
    by (cases "n < 10")
      (simp_all add: int_digits.simps [of n] nat_str.simps [of "nat n"] digit_table nat_div_distrib nat_mod_distrib)
qed

lemma int_str_code [code]: "int_str n = (if n < 0 then CHR ''-'' # int_digits (- n) else int_digits n)"
  by (simp add: int_str_def int_digits_nat)

lemma nat_str_code [code]: "nat_str n = int_digits (int n)"
  by (simp add: int_digits_nat)

lemma nat_str_no_minus: "nat_str n = CHR ''-'' # s \<Longrightarrow> False"
  using nat_str_digits [of "CHR ''-''" n] by (simp add: is_digit_def)

lemma int_str_inject [simp]: "int_str m = int_str n \<longleftrightarrow> m = n"
  by (auto simp: int_str_def dest: nat_str_no_minus nat_str_no_minus [OF sym] split: if_splits)

section \<open>String conversion\<close>

text \<open>\<open>String(v)\<close>, also the conversion of an interpolated value in a template literal.\<close>

fun to_str :: "jval \<Rightarrow> string" where
  "to_str JUndef = ''undefined''"
| "to_str JNull = ''null''"
| "to_str (JBool b) = (if b then ''true'' else ''false'')"
| "to_str (JNum n) = int_str n"
| "to_str JNaN = ''NaN''"
| "to_str (JStr s) = s"
| "to_str (JArr xs) = str_join '','' (map (\<lambda>x. if jnullish x then [] else to_str x) xs)"
| "to_str (JObj ps) = ''[object Object]''"

section \<open>Numeric conversion\<close>

definition MAX_SAFE_INTEGER :: int where
  "MAX_SAFE_INTEGER = 9007199254740991"

definition is_safe_int :: "jval \<Rightarrow> bool" where
  "is_safe_int v \<longleftrightarrow> is_int v \<and> \<bar>num_of v\<bar> \<le> MAX_SAFE_INTEGER"

text \<open>\<open>Number(v)\<close>.  Of the numeric strings only those that denote an integer in decimal have a
  value here; a string with a fraction, an exponent or a radix prefix is \<open>NaN\<close>.\<close>

definition is_blank :: "char \<Rightarrow> bool" where
  "is_blank c = (let n = of_char c :: nat in (9 \<le> n \<and> n \<le> 13) \<or> n = 32 \<or> n = 160)"

lemma is_blank_code [code]:
  "is_blank c \<longleftrightarrow> c = CHR '' '' \<or> (char_le CHR 0x09 c \<and> char_le c CHR 0x0D) \<or> c = CHR 0xA0"
  using of_char_eq [of c "CHR '' ''"] of_char_eq [of c "CHR 0xA0"]
  by (auto simp: is_blank_def char_le_def Let_def)

definition str_trim :: "string \<Rightarrow> string" where
  "str_trim s = rev (dropWhile is_blank (rev (dropWhile is_blank s)))"

definition digits_to_num :: "string \<Rightarrow> jval" where
  "digits_to_num ds = (if ds \<noteq> [] \<and> list_all is_digit ds then JNum (int (nat_val ds)) else JNaN)"

definition str_to_num :: "string \<Rightarrow> jval" where
  "str_to_num s =
     (case str_trim s of
        [] \<Rightarrow> JNum 0
      | c # r \<Rightarrow>
          if c = CHR ''-'' then (case digits_to_num r of JNum n \<Rightarrow> JNum (- n) | _ \<Rightarrow> JNaN)
          else if c = CHR ''+'' then digits_to_num r
          else digits_to_num (c # r))"

definition to_number :: "jval \<Rightarrow> jval" where
  "to_number v =
     (case v of
        JUndef \<Rightarrow> JNaN
      | JNull \<Rightarrow> JNum 0
      | JBool b \<Rightarrow> JNum (if b then 1 else 0)
      | JNum n \<Rightarrow> JNum n
      | JNaN \<Rightarrow> JNaN
      | JStr s \<Rightarrow> str_to_num s
      | JArr xs \<Rightarrow> str_to_num (to_str (JArr xs))
      | JObj ps \<Rightarrow> JNaN)"

text \<open>\<open>a < b\<close>: by code unit on two strings, else on numbers, and false when either side is not
  one.\<close>

definition jlt :: "jval \<Rightarrow> jval \<Rightarrow> bool" where
  "jlt a b =
     (case (a, b) of
        (JStr s, JStr t) \<Rightarrow> s < t
      | _ \<Rightarrow> (case (to_number a, to_number b) of (JNum m, JNum n) \<Rightarrow> m < n | _ \<Rightarrow> False))"

definition jle :: "jval \<Rightarrow> jval \<Rightarrow> bool" where
  "jle a b =
     (case (a, b) of
        (JStr s, JStr t) \<Rightarrow> s \<le> t
      | _ \<Rightarrow> (case (to_number a, to_number b) of (JNum m, JNum n) \<Rightarrow> m \<le> n | _ \<Rightarrow> False))"

text \<open>\<open>v + 1\<close>.\<close>

definition jplus1 :: "jval \<Rightarrow> jval" where
  "jplus1 v =
     (case v of
        JStr s \<Rightarrow> JStr (s @ ''1'')
      | JArr xs \<Rightarrow> JStr (to_str v @ ''1'')
      | JObj ps \<Rightarrow> JStr (to_str v @ ''1'')
      | _ \<Rightarrow> (case to_number v of JNum n \<Rightarrow> JNum (n + 1) | _ \<Rightarrow> JNaN))"

lemma to_number_num [simp]: "to_number (JNum n) = JNum n"
  by (simp add: to_number_def)

lemma jlt_num [simp]: "jlt (JNum m) (JNum n) \<longleftrightarrow> m < n"
  by (simp add: jlt_def)

lemma jplus1_num [simp]: "jplus1 (JNum n) = JNum (n + 1)"
  by (simp add: jplus1_def)

section \<open>Sorting and removal of duplicates\<close>

text \<open>\<open>Array.prototype.sort\<close> with a comparator is stable: insertion sort, where \<open>le a b\<close> is
  \<open>cmp(a, b) <= 0\<close>.  Without a comparator strings are ordered by code unit, which is
  the library's \<open>sort\<close> on character lists.\<close>

fun insert_by :: "('a \<Rightarrow> 'a \<Rightarrow> bool) \<Rightarrow> 'a \<Rightarrow> 'a list \<Rightarrow> 'a list" where
  "insert_by le x [] = [x]"
| "insert_by le x (y # ys) = (if le x y then x # y # ys else y # insert_by le x ys)"

definition sort_by :: "('a \<Rightarrow> 'a \<Rightarrow> bool) \<Rightarrow> 'a list \<Rightarrow> 'a list" where
  "sort_by le xs = foldr (insert_by le) xs []"

lemma set_insert_by [simp]: "set (insert_by le x xs) = insert x (set xs)"
  by (induction xs) auto

lemma set_sort_by [simp]: "set (sort_by le xs) = set xs"
  by (induction xs) (simp_all add: sort_by_def)

lemma length_insert_by [simp]: "length (insert_by le x xs) = Suc (length xs)"
  by (induction xs) auto

lemma length_sort_by [simp]: "length (sort_by le xs) = length xs"
  by (induction xs) (simp_all add: sort_by_def)

lemma sort_by_Nil_iff [simp]: "sort_by le xs = [] \<longleftrightarrow> xs = []"
  by (metis length_0_conv length_sort_by)

definition total_preorder :: "('a \<Rightarrow> 'a \<Rightarrow> bool) \<Rightarrow> bool" where
  "total_preorder le \<longleftrightarrow> (\<forall>a b. le a b \<or> le b a) \<and> (\<forall>a b c. le a b \<longrightarrow> le b c \<longrightarrow> le a c)"

lemma sorted_insert_by:
  assumes "total_preorder le" "sorted_wrt le xs"
  shows "sorted_wrt le (insert_by le x xs)"
  using assms(2)
proof (induction xs)
  case (Cons y ys)
  have tot: "le a b \<or> le b a" and tr: "le a b \<Longrightarrow> le b c \<Longrightarrow> le a c" for a b c
    using assms(1) by (auto simp: total_preorder_def)
  from Cons show ?case
    using tot [of x y] by (auto intro: tr)
qed simp

lemma sorted_sort_by: "total_preorder le \<Longrightarrow> sorted_wrt le (sort_by le xs)"
  by (induction xs) (simp_all add: sort_by_def sorted_insert_by)

text \<open>\<open>[...new Set(xs)]\<close> keeps the first occurrence of each element.\<close>

fun uniq_acc :: "'a list \<Rightarrow> 'a list \<Rightarrow> 'a list" where
  "uniq_acc seen [] = []"
| "uniq_acc seen (x # xs) = (if x \<in> set seen then uniq_acc seen xs else x # uniq_acc (x # seen) xs)"

definition uniq :: "'a list \<Rightarrow> 'a list" where
  "uniq = uniq_acc []"

lemma set_uniq_acc: "set (uniq_acc seen xs) = set xs - set seen"
  by (induction xs arbitrary: seen) auto

lemma distinct_uniq_acc: "distinct (uniq_acc seen xs)"
  by (induction xs arbitrary: seen) (auto simp: set_uniq_acc)

lemma set_uniq [simp]: "set (uniq xs) = set xs"
  by (simp add: uniq_def set_uniq_acc)

lemma distinct_uniq [simp]: "distinct (uniq xs)"
  by (simp add: uniq_def distinct_uniq_acc)

lemma uniq_Nil [simp]: "uniq [] = []"
  by (simp add: uniq_def)

lemma uniq_Nil_iff [simp]: "uniq xs = [] \<longleftrightarrow> xs = []"
  using set_uniq [of xs] by (metis set_empty)

section \<open>Exceptions\<close>

datatype js_error = Error string | TypeError

type_synonym 'a res = "js_error + 'a"

definition bind_res :: "'a res \<Rightarrow> ('a \<Rightarrow> 'b res) \<Rightarrow> 'b res" where
  "bind_res r f = (case r of Inl e \<Rightarrow> Inl e | Inr a \<Rightarrow> f a)"

definition throw_if :: "bool \<Rightarrow> string \<Rightarrow> 'a res \<Rightarrow> 'a res" where
  "throw_if c msg r = (if c then Inl (Error msg) else r)"

fun map_res :: "('a \<Rightarrow> 'b res) \<Rightarrow> 'a list \<Rightarrow> 'b list res" where
  "map_res f [] = Inr []"
| "map_res f (x # xs) = bind_res (f x) (\<lambda>y. bind_res (map_res f xs) (\<lambda>ys. Inr (y # ys)))"

text \<open>The elements that \<open>[...v]\<close> and \<open>for (x of v)\<close> go through.\<close>

definition jiter :: "jval \<Rightarrow> jval list res" where
  "jiter v = (case v of JArr xs \<Rightarrow> Inr xs | JStr s \<Rightarrow> Inr (map (\<lambda>c. JStr [c]) s) | _ \<Rightarrow> Inl TypeError)"

text \<open>\<open>v?.includes(s)\<close>: on an array, on a string, and a throw on anything else that is not nullish.\<close>

definition jincludes_opt :: "jval \<Rightarrow> string \<Rightarrow> bool res" where
  "jincludes_opt v s =
     (case v of
        JUndef \<Rightarrow> Inr False
      | JNull \<Rightarrow> Inr False
      | JArr xs \<Rightarrow> Inr (jincludes xs (JStr s))
      | JStr t \<Rightarrow> Inr (str_includes s t)
      | _ \<Rightarrow> Inl TypeError)"

lemma jiter_arr [simp]: "jiter (JArr xs) = Inr xs"
  by (simp add: jiter_def)

text \<open>\<open>...(c ? [m] : [])\<close>: the errors that \<open>if (c) errors.push(m)\<close> adds.\<close>

definition err_if :: "bool \<Rightarrow> string \<Rightarrow> string list" where
  "err_if c msg = (if c then [msg] else [])"

lemma bind_res_simps [simp]: "bind_res (Inl e) f = Inl e" "bind_res (Inr a) f = f a"
  by (simp_all add: bind_res_def)

text \<open>Evaluation goes through the case analysis, so that no continuation is touched before its turn.\<close>

lemma bind_res_inline [code_unfold]: "bind_res r f = (case r of Inl e \<Rightarrow> Inl e | Inr x \<Rightarrow> f x)"
  by (cases r) simp_all

lemma throw_if_inline [code_unfold]: "throw_if c msg r = (if c then Inl (Error msg) else r)"
  by (simp add: throw_if_def)

lemma bind_res_eq_Inr: "bind_res r f = Inr b \<longleftrightarrow> (\<exists>a. r = Inr a \<and> f a = Inr b)"
  by (cases r) simp_all

lemma bind_res_eq_Inl: "bind_res r f = Inl e \<longleftrightarrow> r = Inl e \<or> (\<exists>a. r = Inr a \<and> f a = Inl e)"
  by (cases r) simp_all

lemma bind_res_cong [fundef_cong]:
  "r = r' \<Longrightarrow> (\<And>a. r' = Inr a \<Longrightarrow> f a = f' a) \<Longrightarrow> bind_res r f = bind_res r' f'"
  by (cases r) auto

lemma throw_if_eq_Inr: "throw_if c msg r = Inr b \<longleftrightarrow> \<not> c \<and> r = Inr b"
  by (simp add: throw_if_def)

lemma throw_if_simps [simp]: "throw_if True msg r = Inl (Error msg)" "throw_if False msg r = r"
  by (simp_all add: throw_if_def)

lemma err_if_Nil [simp]: "err_if c msg = [] \<longleftrightarrow> \<not> c" "[] = err_if c msg \<longleftrightarrow> \<not> c"
  by (auto simp: err_if_def)

lemma map_res_eq_Inr: "map_res f xs = Inr ys \<longleftrightarrow> list_all2 (\<lambda>x y. f x = Inr y) xs ys"
proof (induction xs arbitrary: ys)
  case (Cons x xs)
  then show ?case by (cases ys) (auto simp: bind_res_eq_Inr)
qed auto

lemma sum_case_pairE:
  assumes "case x of Inl _ \<Rightarrow> False | Inr (a, b) \<Rightarrow> P a b"
  obtains a b where "x = Inr (a, b)" "P a b"
  using assms by (cases x) (auto split: prod.splits)

lemmas res_simps = bind_res_eq_Inr bind_res_eq_Inl throw_if_eq_Inr

text \<open>A loop \<open>xs.forEach((x, i) => ...)\<close> that only pushes errors.\<close>

definition concat_idx :: "(nat \<Rightarrow> 'a \<Rightarrow> string list) \<Rightarrow> 'a list \<Rightarrow> string list" where
  "concat_idx f xs = concat (map (\<lambda>(i, x). f i x) (enumerate 0 xs))"

lemma concat_idx_Nil_iff: "concat_idx f xs = [] \<longleftrightarrow> (\<forall>i < length xs. f i (xs ! i) = [])"
  by (auto simp: concat_idx_def in_set_enumerate_eq all_set_conv_all_nth enumerate_eq_zip)

lemma concat_idx_Nil_all: "concat_idx f xs = [] \<Longrightarrow> x \<in> set xs \<Longrightarrow> \<exists>i. f i x = []"
  by (metis concat_idx_Nil_iff in_set_conv_nth)

section \<open>The host\<close>

text \<open>What the code asks of its runtime.  \<open>sha256\<close> gives the bytes of a digest, one per character;
  \<open>digest('hex')\<close> writes them in hexadecimal.\<close>

record host =
  sha256 :: "string \<Rightarrow> string"
  hmac_hex :: "string \<Rightarrow> string \<Rightarrow> string"
  now_ms :: int
  fresh_uuid :: "nat \<Rightarrow> string"
  locale_compare :: "string \<Rightarrow> string \<Rightarrow> int"
  nfkc :: "string \<Rightarrow> string"

definition hex_of_byte :: "char \<Rightarrow> string" where
  "hex_of_byte c = [''0123456789abcdef'' ! (of_char c div 16), ''0123456789abcdef'' ! (of_char c mod 16)]"

definition sha256_hex :: "host \<Rightarrow> string \<Rightarrow> string" where
  "sha256_hex H s = concat (map hex_of_byte (sha256 H s))"

lemma sha256_hex_update [simp]:
  "sha256_hex (H\<lparr>now_ms := n\<rparr>) = sha256_hex H" "sha256_hex (H\<lparr>fresh_uuid := f\<rparr>) = sha256_hex H"
  "sha256_hex (H\<lparr>hmac_hex := h\<rparr>) = sha256_hex H"
  by (intro ext, simp add: sha256_hex_def)+

lemma hex_of_byte_chars: "set (hex_of_byte c) \<subseteq> set ''0123456789abcdef''"
proof -
  have n: "''0123456789abcdef'' ! n \<in> set ''0123456789abcdef''" if "n < 16" for n :: nat
    using that by (intro nth_mem) simp
  have "(of_char c :: nat) div 16 < 16" using nat_of_char_less_256 [of c] by (simp add: less_mult_imp_div_less)
  from n [OF this] n [of "of_char c mod 16"] show ?thesis
    by (simp only: hex_of_byte_def list.set empty_subsetI insert_subset mod_less_divisor)
qed

lemma sha256_hex_chars: "set (sha256_hex H s) \<subseteq> set ''0123456789abcdef''"
  using hex_of_byte_chars by (fastforce simp: sha256_hex_def)

lemma sha256_hex_Nil [simp]: "sha256_hex H s = [] \<longleftrightarrow> sha256 H s = []"
  by (cases "sha256 H s") (simp_all add: sha256_hex_def hex_of_byte_def)

end
