(* ===== verification/JSDate.thy ===== *)
theory JSDate
  imports JSValue "HOL-Library.Monad_Syntax"
begin

text \<open>
  Time values.  \<open>date_parse\<close> reads the ECMAScript date-time string format (\<^verbatim>\<open>Date.parse\<close> and
  \<^verbatim>\<open>new Date(string)\<close>), \<open>iso_string\<close> is \<^verbatim>\<open>Date.prototype.toISOString\<close>, and \<open>to_date\<close> is
  \<^verbatim>\<open>new Date(v).getTime()\<close>.  A time value is \<open>Some\<close> of the milliseconds since the epoch;
  \<open>None\<close> is an invalid date (\<open>NaN\<close>), for which every comparison is false.

  The strings outside the specified format that an engine may also accept are invalid here,
  and a date-time without an offset is read as UTC.
\<close>

section \<open>The calendar\<close>

definition days_from_civil :: "int \<Rightarrow> int \<Rightarrow> int \<Rightarrow> int" where
  "days_from_civil y m d =
     (let y' = (if m \<le> 2 then y - 1 else y);
          era = y' div 400; yoe = y' mod 400;
          mp = (m + 9) mod 12;
          doy = (153 * mp + 2) div 5 + d - 1;
          doe = yoe * 365 + yoe div 4 - yoe div 100 + doy
      in era * 146097 + doe - 719468)"

text \<open>Day of a 400-year era to year of the era and day of the year, counted from 1 March, and
  day of such a year to month and day.\<close>

definition year_day :: "int \<Rightarrow> int \<times> int" where
  "year_day doe =
     (let c = min 3 (doe div 36524); r = doe - c * 36524;
          q = r div 1461; r2 = r - q * 1461;
          yq = min 3 (r2 div 365)
      in (100 * c + 4 * q + yq, r2 - yq * 365))"

definition month_day :: "int \<Rightarrow> int \<times> int" where
  "month_day doy =
     (let mp = (5 * doy + 2) div 153
      in (if mp < 10 then mp + 3 else mp - 9, doy - (153 * mp + 2) div 5 + 1))"

definition civil_from_days :: "int \<Rightarrow> int \<times> int \<times> int" where
  "civil_from_days z =
     (let era = (z + 719468) div 146097;
          (yoe, doy) = year_day ((z + 719468) mod 146097);
          (m, d) = month_day doy
      in (yoe + era * 400 + (if m \<le> 2 then 1 else 0), m, d))"

lemma year_day_props:
  assumes "0 \<le> doe" "doe < 146097" "year_day doe = (yoe, doy)"
  shows "0 \<le> yoe" "yoe < 400" "0 \<le> doy" "doy \<le> 365"
    "yoe * 365 + yoe div 4 - yoe div 100 + doy = doe"
proof -
  define c r q r2 yq where "c = min 3 (doe div 36524)" and "r = doe - c * 36524"
    and "q = r div 1461" and "r2 = r - q * 1461" and "yq = min 3 (r2 div 365)"
  have eqs: "yoe = 100 * c + 4 * q + yq" "doy = r2 - yq * 365"
    using assms(3) by (auto simp: year_day_def Let_def c_def r_def q_def r2_def yq_def)
  have c: "0 \<le> c" "c \<le> 3" using assms(1) by (simp_all add: c_def)
  have r: "0 \<le> r" "r \<le> 36524" using assms(1,2) by (auto simp: r_def c_def min_def)
  then have q: "0 \<le> q" "q \<le> 24" by (simp_all add: q_def)
  have "r2 = r mod 1461" by (simp add: r2_def q_def minus_div_mult_eq_mod)
  then have r2: "0 \<le> r2" "r2 \<le> 1460" by simp_all
  then have yq: "0 \<le> yq" "yq \<le> 3" by (simp_all add: yq_def)
  show "0 \<le> yoe" "yoe < 400" using c q yq eqs(1) by linarith+
  show "0 \<le> doy" "doy \<le> 365" using r2 by (auto simp: eqs(2) yq_def min_def)
  have v: "yoe div 4 = 25 * c + q" "yoe div 100 = c" using q yq unfolding eqs(1) by linarith+
  show "yoe * 365 + yoe div 4 - yoe div 100 + doy = doe"
    unfolding v unfolding eqs r2_def r_def by simp
qed

lemma month_day_props:
  assumes "0 \<le> doy" "doy \<le> 365" "month_day doy = (m, d)"
  shows "1 \<le> m" "m \<le> 12" "1 \<le> d" "d \<le> 31" "(153 * ((m + 9) mod 12) + 2) div 5 + d - 1 = doy"
proof -
  define mp where "mp = (5 * doy + 2) div 153"
  have a: "153 * mp \<le> 5 * doy + 2" "5 * doy + 2 < 153 * mp + 153"
    using div_mult_mod_eq [of "5 * doy + 2" 153] pos_mod_bound [of 153 "5 * doy + 2"]
      pos_mod_sign [of 153 "5 * doy + 2"] unfolding mp_def by linarith+
  then have mp: "0 \<le> mp" "mp \<le> 11" using assms(1,2) by linarith+
  define k where "k = (153 * mp + 2) div 5"
  have k: "5 * k \<le> 153 * mp + 2" "153 * mp + 2 < 5 * k + 5"
    using div_mult_mod_eq [of "153 * mp + 2" 5] pos_mod_bound [of 5 "153 * mp + 2"]
      pos_mod_sign [of 5 "153 * mp + 2"] unfolding k_def by linarith+
  have eqs: "m = (if mp < 10 then mp + 3 else mp - 9)" "d = doy - k + 1"
    using assms(3) by (auto simp: month_day_def Let_def mp_def k_def)
  show "1 \<le> m" "m \<le> 12" using mp eqs(1) by auto
  show "1 \<le> d" "d \<le> 31" using a k eqs(2) by linarith+
  have "(m + 9) mod 12 = mp" using mp eqs(1) by auto
  then show "(153 * ((m + 9) mod 12) + 2) div 5 + d - 1 = doy" using eqs(2) by (simp add: k_def)
qed

lemma era_bounds: "0 \<le> (z + 719468) mod 146097" "(z + 719468) mod 146097 < (146097 :: int)"
  by simp_all

lemma civil_cases:
  assumes "civil_from_days z = (y, m, d)"
  obtains yoe doy where "year_day ((z + 719468) mod 146097) = (yoe, doy)" "month_day doy = (m, d)"
    "y = yoe + (z + 719468) div 146097 * 400 + (if m \<le> 2 then 1 else 0)"
    "0 \<le> yoe" "yoe < 400" "0 \<le> doy" "doy \<le> 365"
proof -
  obtain yoe doy where yd: "year_day ((z + 719468) mod 146097) = (yoe, doy)" by force
  moreover have "month_day doy = (m, d)" "y = yoe + (z + 719468) div 146097 * 400 + (if m \<le> 2 then 1 else 0)"
    using assms yd by (auto simp: civil_from_days_def split: prod.splits)
  ultimately show ?thesis using year_day_props(1-4) [OF era_bounds yd] by (intro that)
qed

lemma civil_bounds:
  assumes "civil_from_days z = (y, m, d)"
  shows "1 \<le> m" "m \<le> 12" "1 \<le> d" "d \<le> 31"
  using assms by (auto elim!: civil_cases dest: month_day_props)

lemma days_civil_roundtrip:
  assumes "civil_from_days z = (y, m, d)"
  shows "days_from_civil y m d = z"
proof -
  obtain yoe doy where c: "year_day ((z + 719468) mod 146097) = (yoe, doy)" "month_day doy = (m, d)"
    "y = yoe + (z + 719468) div 146097 * 400 + (if m \<le> 2 then 1 else 0)"
    "0 \<le> yoe" "yoe < 400" "0 \<le> doy" "doy \<le> 365"
    using assms by (rule civil_cases)
  define era where "era = (z + 719468) div 146097"
  let ?y' = "if m \<le> 2 then y - 1 else y"
  have "?y' = yoe + era * 400" using c(3) by (simp add: era_def)
  then have y': "?y' div 400 = era" "?y' mod 400 = yoe" using c(4,5) by simp_all
  have "days_from_civil y m d = era * 146097 +
      (yoe * 365 + yoe div 4 - yoe div 100 + ((153 * ((m + 9) mod 12) + 2) div 5 + d - 1)) - 719468"
    unfolding days_from_civil_def Let_def y' ..
  also have "\<dots> = era * 146097 + (z + 719468) mod 146097 - 719468"
    using year_day_props(5) [OF era_bounds c(1)] month_day_props(5) [OF c(6,7,2)] by simp
  finally show ?thesis by (simp add: era_def)
qed

section \<open>toISOString\<close>

fun pad :: "nat \<Rightarrow> nat \<Rightarrow> string" where
  "pad 0 n = []"
| "pad (Suc w) n = pad w (n div 10) @ [digit_char (n mod 10)]"

definition year_str :: "int \<Rightarrow> string" where
  "year_str y =
     (if 0 \<le> y \<and> y \<le> 9999 then pad 4 (nat y)
      else if y < 0 then CHR ''-'' # pad 6 (nat (- y))
      else CHR ''+'' # pad 6 (nat y))"

definition iso_string :: "int \<Rightarrow> string" where
  "iso_string t =
     (let (y, m, d) = civil_from_days (t div 86400000); ms = nat (t mod 86400000)
      in year_str y @ ''-'' @ pad 2 (nat m) @ ''-'' @ pad 2 (nat d) @ ''T''
         @ pad 2 (ms div 3600000) @ '':'' @ pad 2 (ms div 60000 mod 60) @ '':''
         @ pad 2 (ms div 1000 mod 60) @ ''.'' @ pad 3 (ms mod 1000) @ ''Z'')"

text \<open>For evaluation: the same on integers, which are evaluated in binary.\<close>

fun int_pad :: "nat \<Rightarrow> int \<Rightarrow> string" where
  "int_pad 0 n = []"
| "int_pad (Suc w) n = int_pad w (n div 10) @ [digit_table (n mod 10)]"

lemma int_pad: "0 \<le> n \<Longrightarrow> int_pad w n = pad w (nat n)"
  by (induction w arbitrary: n) (simp_all add: digit_table nat_div_distrib nat_mod_distrib)

lemma year_str_code [code]:
  "year_str y =
     (if 0 \<le> y \<and> y \<le> 9999 then int_pad 4 y
      else if y < 0 then CHR ''-'' # int_pad 6 (- y)
      else CHR ''+'' # int_pad 6 y)"
  by (simp add: year_str_def int_pad)

lemma iso_string_code [code]:
  "iso_string t =
     (let (y, m, d) = civil_from_days (t div 86400000); ms = t mod 86400000
      in year_str y @ ''-'' @ int_pad 2 m @ ''-'' @ int_pad 2 d @ ''T''
         @ int_pad 2 (ms div 3600000) @ '':'' @ int_pad 2 (ms div 60000 mod 60) @ '':''
         @ int_pad 2 (ms div 1000 mod 60) @ ''.'' @ int_pad 3 (ms mod 1000) @ ''Z'')"
proof -
  obtain y m d where c: "civil_from_days (t div 86400000) = (y, m, d)" by (metis prod_cases3)
  show ?thesis using civil_bounds [OF c]
    by (simp add: iso_string_def Let_def c int_pad nat_div_distrib nat_mod_distrib)
qed

section \<open>Date.parse\<close>

definition max_time :: int where
  "max_time = 8640000000000000"

definition read_digits :: "nat \<Rightarrow> string \<Rightarrow> (nat \<times> string) option" where
  "read_digits n s =
     (if n \<le> length s \<and> list_all is_digit (take n s) then Some (nat_val (take n s), drop n s) else None)"

definition read_year :: "string \<Rightarrow> (int \<times> string) option" where
  "read_year s =
     (case s of
        [] \<Rightarrow> None
      | c # r \<Rightarrow>
          if c = CHR ''+'' then map_option (\<lambda>(n, r'). (int n, r')) (read_digits 6 r)
          else if c = CHR ''-'' then
            (case read_digits 6 r of Some (n, r') \<Rightarrow> if n = 0 then None else Some (- int n, r') | None \<Rightarrow> None)
          else map_option (\<lambda>(n, r'). (int n, r')) (read_digits 4 s))"

text \<open>An optional part: \<open>sep\<close> followed by \<open>n\<close> digits in a range, or the default.\<close>

definition read_part :: "char \<Rightarrow> nat \<Rightarrow> nat \<Rightarrow> nat \<Rightarrow> nat \<Rightarrow> string \<Rightarrow> (nat \<times> string) option" where
  "read_part sep lo hi dflt n s =
     (case s of
        c # r \<Rightarrow> if c = sep then
            (case read_digits n r of Some (k, r') \<Rightarrow> if lo \<le> k \<and> k \<le> hi then Some (k, r') else None | None \<Rightarrow> None)
          else Some (dflt, s)
      | [] \<Rightarrow> Some (dflt, s))"

definition read_fraction :: "string \<Rightarrow> (nat \<times> string) option" where
  "read_fraction s =
     (case s of
        c # r \<Rightarrow> if c = CHR ''.'' then
            (let ds = takeWhile is_digit r in
              if ds = [] then None else Some (nat_val (take 3 (ds @ ''00'')), dropWhile is_digit r))
          else Some (0, s)
      | [] \<Rightarrow> Some (0, s))"

text \<open>The offset from UTC in minutes.\<close>

definition read_zone :: "string \<Rightarrow> int option" where
  "read_zone s =
     (case s of
        [] \<Rightarrow> Some 0
      | c # r \<Rightarrow>
          if c = CHR ''Z'' then (if r = [] then Some 0 else None)
          else if c = CHR ''+'' \<or> c = CHR ''-'' then
            do { (h, r1) \<leftarrow> read_digits 2 r;
                 (m, r2) \<leftarrow> read_part CHR '':'' 0 59 100 2 r1;
                 if r2 = [] \<and> m < 100 \<and> h < 24
                 then Some ((if c = CHR ''-'' then -1 else 1) * (int h * 60 + int m)) else None }
          else None)"

definition read_time :: "string \<Rightarrow> (int \<times> int) option" where
  "read_time s =
     (case s of
        [] \<Rightarrow> Some (0, 0)
      | c # r \<Rightarrow>
          if c = CHR ''T'' then
            do { (h, r1) \<leftarrow> read_digits 2 r;
                 (mi, r2) \<leftarrow> read_part CHR '':'' 0 59 100 2 r1;
                 (sec, r3) \<leftarrow> read_part CHR '':'' 0 59 0 2 r2;
                 (ms, r4) \<leftarrow> read_fraction r3;
                 off \<leftarrow> read_zone r4;
                 if mi < 100 \<and> (h < 24 \<or> (h = 24 \<and> mi = 0 \<and> sec = 0 \<and> ms = 0))
                 then Some (((int h * 60 + int mi) * 60 + int sec) * 1000 + int ms, off) else None }
          else None)"

definition date_parse :: "string \<Rightarrow> int option" where
  "date_parse s =
     do { (y, r1) \<leftarrow> read_year s;
          (m, r2) \<leftarrow> read_part CHR ''-'' 1 12 1 2 r1;
          (d, r3) \<leftarrow> read_part CHR ''-'' 1 31 1 2 r2;
          (ms, off) \<leftarrow> read_time r3;
          let t = days_from_civil y (int m) (int d) * 86400000 + ms - off * 60000 in
          if \<bar>t\<bar> \<le> max_time then Some t else None }"

definition to_date :: "jval \<Rightarrow> int option" where
  "to_date v =
     (case v of
        JUndef \<Rightarrow> None
      | JNull \<Rightarrow> Some 0
      | JBool b \<Rightarrow> Some (if b then 1 else 0)
      | JNum n \<Rightarrow> (if \<bar>n\<bar> \<le> max_time then Some n else None)
      | JNaN \<Rightarrow> None
      | _ \<Rightarrow> date_parse (to_str v))"

section \<open>Comparisons that are false on an invalid date\<close>

definition time_lt :: "int option \<Rightarrow> int option \<Rightarrow> bool" where
  "time_lt a b = (case (a, b) of (Some x, Some y) \<Rightarrow> x < y | _ \<Rightarrow> False)"

definition time_le :: "int option \<Rightarrow> int option \<Rightarrow> bool" where
  "time_le a b = (case (a, b) of (Some x, Some y) \<Rightarrow> x \<le> y | _ \<Rightarrow> False)"

lemma time_cmp_simps [simp]:
  "time_lt (Some x) (Some y) \<longleftrightarrow> x < y" "\<not> time_lt None b" "\<not> time_lt a None"
  "time_le (Some x) (Some y) \<longleftrightarrow> x \<le> y" "\<not> time_le None b" "\<not> time_le a None"
  by (auto simp: time_lt_def time_le_def split: option.splits)

section \<open>Writing and reading a date\<close>

lemma pad_digits [simp]: "list_all is_digit (pad w n)" "length (pad w n) = w"
  by (induction w arbitrary: n) simp_all

lemma nat_val_pad [simp]: "n < 10 ^ w \<Longrightarrow> nat_val (pad w n) = n"
  by (induction w arbitrary: n) (simp_all add: nat_val_def less_mult_imp_div_less)

lemma read_digits_pad [simp]: "n < 10 ^ w \<Longrightarrow> read_digits w (pad w n @ r) = Some (n, r)"
  by (simp add: read_digits_def)

lemma hd_pad: "0 < w \<Longrightarrow> \<exists>c u. pad w n = c # u \<and> is_digit c"
  using pad_digits [of w n] by (cases "pad w n") auto

lemma read_year_str:
  assumes "\<bar>y\<bar> \<le> 999999"
  shows "read_year (year_str y @ r) = Some (y, r)"
proof -
  obtain c u where p: "pad 4 (nat y) = c # u" "is_digit c" using hd_pad [of 4 "nat y"] by auto
  have "read_digits 4 (pad 4 (nat y) @ r) = Some (nat y, r)" if "y \<le> 9999" using that by simp
  moreover have "read_digits 6 (pad 6 (nat y) @ r) = Some (nat y, r)" using assms by simp
  moreover have "read_digits 6 (pad 6 (nat (- y)) @ r) = Some (nat (- y), r)" using assms by simp
  ultimately show ?thesis
    using p by (auto simp: read_year_def year_str_def is_digit_def)
qed

lemma read_part_pad:
  "lo \<le> k \<Longrightarrow> k \<le> hi \<Longrightarrow> k < 10 ^ n \<Longrightarrow> read_part sep lo hi dflt n (sep # pad n k @ r) = Some (k, r)"
  by (simp add: read_part_def)

lemma read_fraction_pad: "k < 1000 \<Longrightarrow> read_fraction (CHR ''.'' # pad 3 k @ ''Z'') = Some (k, ''Z'')"
proof -
  assume k: "k < 1000"
  have d: "\<And>c. c \<in> set (pad 3 k) \<Longrightarrow> is_digit c" using pad_digits(1) [of 3 k] by (simp add: list_all_iff)
  have z: "\<not> is_digit CHR ''Z''" by (simp add: is_digit_def)
  have "takeWhile is_digit (pad 3 k @ ''Z'') = pad 3 k" "dropWhile is_digit (pad 3 k @ ''Z'') = ''Z''"
    using d z by (simp_all add: takeWhile_append2 dropWhile_append2)
  moreover have "pad 3 k \<noteq> []" using pad_digits(2) [of 3 k] by force
  moreover have "nat_val (pad 3 k) = k" using k by simp
  ultimately show ?thesis by (simp add: read_fraction_def Let_def)
qed

lemma day_time_split:
  fixes ms :: nat
  shows "((int (ms div 3600000) * 60 + int (ms div 60000 mod 60)) * 60 + int (ms div 1000 mod 60)) * 1000
    + int (ms mod 1000) = int ms"
proof -
  define a where "a = ms div 1000"
  have "ms div 60000 = a div 60" "ms div 3600000 = a div 60 div 60"
    by (simp_all add: a_def div_mult2_eq [symmetric])
  then have "((ms div 3600000 * 60 + ms div 60000 mod 60) * 60 + ms div 1000 mod 60) * 1000 + ms mod 1000 = ms"
    by (simp add: a_def)
  then show ?thesis by (metis of_nat_add of_nat_mult of_nat_numeral)
qed

lemma read_time_hms:
  assumes "h < 24" "mi \<le> 59" "sec \<le> 59" "ms < 1000"
  shows "read_time (CHR ''T'' # pad 2 h @ CHR '':'' # pad 2 mi @ CHR '':'' # pad 2 sec @ CHR ''.''
     # pad 3 ms @ ''Z'') = Some (((int h * 60 + int mi) * 60 + int sec) * 1000 + int ms, 0)"
proof -
  have h: "read_digits 2 (pad 2 h @ r) = Some (h, r)" for r using assms by simp
  have p: "read_part CHR '':'' 0 59 dflt 2 (CHR '':'' # pad 2 k @ r) = Some (k, r)" if "k \<le> 59" for dflt k r
    using that by (intro read_part_pad) auto
  have z: "read_zone ''Z'' = Some 0" by (simp add: read_zone_def)
  show ?thesis
    using assms by (simp add: read_time_def h p z read_fraction_pad)
qed

lemma iso_year_bound:
  assumes "\<bar>t\<bar> \<le> max_time" "civil_from_days (t div 86400000) = (y, m, d)"
  shows "\<bar>y\<bar> \<le> 999999"
proof -
  define z era where "z = t div 86400000" and "era = (z + 719468) div 146097"
  have "- 100000000 \<le> z" "z \<le> 100000000" using assms(1) by (auto simp: max_time_def z_def)
  then have era: "- 700 \<le> era" "era \<le> 700" by (auto simp: era_def)
  obtain yoe where "y = yoe + era * 400 + (if m \<le> 2 then 1 else 0)" "0 \<le> yoe" "yoe < 400"
    using civil_cases [OF assms(2)] unfolding z_def era_def by metis
  with era show ?thesis by (auto split: if_splits)
qed

text \<open>Every valid time value survives \<open>toISOString\<close> and \<open>Date.parse\<close>.\<close>

lemma date_parse_iso_string:
  assumes "\<bar>t\<bar> \<le> max_time"
  shows "date_parse (iso_string t) = Some t"
proof -
  obtain y m d where c: "civil_from_days (t div 86400000) = (y, m, d)" by (metis surj_pair)
  define ms where "ms = nat (t mod 86400000)"
  have ms: "ms < 86400000" "int ms = t mod 86400000" by (auto simp: ms_def)
  note b = civil_bounds [OF c]
  define tail where "tail = CHR ''T'' # pad 2 (ms div 3600000) @ CHR '':'' # pad 2 (ms div 60000 mod 60)
    @ CHR '':'' # pad 2 (ms div 1000 mod 60) @ CHR ''.'' # pad 3 (ms mod 1000) @ ''Z''"
  have tail: "read_time tail = Some (int ms, 0)"
    unfolding tail_def using ms(1) day_time_split [of ms]
    by (subst read_time_hms) (auto simp: less_mult_imp_div_less)
  have p: "read_part CHR ''-'' 1 12 1 2 (CHR ''-'' # pad 2 (nat m) @ r) = Some (nat m, r)"
    "read_part CHR ''-'' 1 31 1 2 (CHR ''-'' # pad 2 (nat d) @ r) = Some (nat d, r)" for r
    using b by (auto intro!: read_part_pad)
  have shape: "iso_string t = year_str y @ (CHR ''-'' # pad 2 (nat m) @ (CHR ''-'' # pad 2 (nat d) @ tail))"
    by (simp add: iso_string_def c Let_def ms_def [symmetric] tail_def)
  have t: "days_from_civil y m d * 86400000 + int ms = t"
    using days_civil_roundtrip [OF c] ms(2) by simp
  show ?thesis
    unfolding date_parse_def shape read_year_str [OF iso_year_bound [OF assms c]]
    using b assms t by (simp only: Option.bind.bind_lunit prod.case p tail) (simp add: Let_def)
qed

lemma to_date_iso [simp]: "\<bar>t\<bar> \<le> max_time \<Longrightarrow> to_date (JStr (iso_string t)) = Some t"
  by (simp add: to_date_def date_parse_iso_string)

lemma iso_string_neq_Nil [simp]: "iso_string t \<noteq> []"
  by (simp add: iso_string_def Let_def split: prod.split)

lemma date_parse_bound: "date_parse s = Some t \<Longrightarrow> \<bar>t\<bar> \<le> max_time"
  by (auto simp: date_parse_def Let_def bind_eq_Some_conv split: prod.splits if_splits)

lemma to_date_bound: "to_date v = Some t \<Longrightarrow> \<bar>t\<bar> \<le> max_time"
  by (auto simp: to_date_def max_time_def dest: date_parse_bound [unfolded max_time_def]
      split: jval.splits if_splits)

end
