(* ===== verification/Protocol.thy ===== *)
theory Protocol
  imports JSDate
begin

text \<open>
  The contract validators of \<^verbatim>\<open>packages/protocol/src/index.js\<close> that guard the policy engine
  and the authority core.  A validator returns the list of its error messages in the order in
  which the code pushes them; \<open>valid\<close> of the code's result is that the list is empty, and
  \<open>errors.join('; ')\<close> is \<open>join_errors\<close>.
\<close>

section \<open>Enumerations\<close>

definition CANONICAL_DECISIONS :: "string list" where
  "CANONICAL_DECISIONS = [''allow'', ''deny'', ''needs_approval'', ''dry_run_only'']"

definition RISK_LEVELS :: "string list" where
  "RISK_LEVELS = [''safe'', ''low'', ''medium'', ''high'', ''critical'']"

definition ACTOR_TYPES :: "string list" where
  "ACTOR_TYPES = [''agent'', ''user'', ''script'', ''service'']"

definition TOOL_CATEGORIES :: "string list" where
  "TOOL_CATEGORIES = [''file'', ''filesystem'', ''shell'', ''email'', ''web'', ''memory'', ''payment'',
     ''calendar'', ''custom'']"

definition TOOL_OPERATIONS :: "string list" where
  "TOOL_OPERATIONS = [''read'', ''write'', ''delete'', ''send'', ''execute'', ''search'', ''create'',
     ''update'', ''run'']"

definition SENSITIVITY_LEVELS :: "string list" where
  "SENSITIVITY_LEVELS = [''public'', ''internal'', ''private'', ''secret'', ''unknown'']"

definition DATA_FLOWS :: "string list" where
  "DATA_FLOWS = [''local'', ''external'', ''unknown'']"

definition SIDE_EFFECTS :: "string list" where
  "SIDE_EFFECTS = [''read_only'', ''mutating'', ''destructive'', ''unknown'']"

definition POLICY_EFFECTS :: "string list" where
  "POLICY_EFFECTS = [''allow'', ''deny'', ''block'', ''needs_approval'', ''dry_run_only'']"

definition AUTHORITY_PRINCIPAL_TYPES :: "string list" where
  "AUTHORITY_PRINCIPAL_TYPES = [''user'', ''agent'', ''script'', ''service'', ''organization'']"

definition POLICY_CONDITION_ENUMS :: "(string \<times> string list) list" where
  "POLICY_CONDITION_ENUMS =
     [(''categories'', TOOL_CATEGORIES), (''operations'', TOOL_OPERATIONS),
      (''sensitivities'', SENSITIVITY_LEVELS), (''dataFlows'', DATA_FLOWS),
      (''sideEffects'', SIDE_EFFECTS), (''actorTypes'', ACTOR_TYPES)]"

definition join_errors :: "string list \<Rightarrow> string" where
  "join_errors = str_join ''; ''"

definition normalizeDecisionAction :: "jval \<Rightarrow> jval" where
  "normalizeDecisionAction v = (if v = JStr ''block'' then JStr ''deny'' else v)"

section \<open>Shared checks\<close>

definition present :: "jval \<Rightarrow> bool" where
  "present v \<longleftrightarrow> v \<noteq> JUndef"

definition validateStringArray :: "jval \<Rightarrow> string \<Rightarrow> bool \<Rightarrow> string list" where
  "validateStringArray v path nonEmpty =
     (if \<not> is_arr v then [path @ '' must be an array'']
      else err_if (nonEmpty \<and> arr_of v = []) (path @ '' must not be empty'')
         @ err_if (list_ex (\<lambda>x. \<not> nonempty_str x) (arr_of v)) (path @ '' must contain non-empty strings''))"

text \<open>\<open>if (v[f] !== undefined && typeof v[f] !== 'string')\<close> for each field.\<close>

definition optional_strings :: "jval \<Rightarrow> string \<Rightarrow> string list \<Rightarrow> string list" where
  "optional_strings v prefix flds =
     concat (map (\<lambda>f. err_if (present (jget v f) \<and> \<not> is_str (jget v f))
       (prefix @ f @ '' must be a string when present'')) flds)"

definition required_strings :: "jval \<Rightarrow> string list \<Rightarrow> string \<Rightarrow> string list" where
  "required_strings v flds msg = concat (map (\<lambda>f. err_if (\<not> nonempty_str (jget v f)) (f @ msg)) flds)"

lemma validateStringArray_ok:
  "validateStringArray v path ne = [] \<longleftrightarrow>
     is_arr v \<and> (ne \<longrightarrow> arr_of v \<noteq> []) \<and> (\<forall>x\<in>set (arr_of v). nonempty_str x)"
  by (auto simp: validateStringArray_def list_ex_iff)

lemma required_strings_ok: "required_strings v fs msg = [] \<longleftrightarrow> (\<forall>f\<in>set fs. nonempty_str (jget v f))"
  by (auto simp: required_strings_def)

lemma optional_strings_ok:
  "optional_strings v p fs = [] \<longleftrightarrow> (\<forall>f\<in>set fs. jget v f = JUndef \<or> is_str (jget v f))"
  by (auto simp: optional_strings_def present_def)

section \<open>Action envelopes and policies\<close>

definition validateActionEnvelope :: "jval \<Rightarrow> string list" where
  "validateActionEnvelope action =
     (if \<not> is_obj action then [''action must be an object'']
      else
        err_if (\<not> nonempty_str (jget action ''type'') \<and> \<not> nonempty_str (jget action ''action''))
          ''action.type is required''
        @ optional_strings action ''action.'' [''type'', ''action'', ''target'']
        @ err_if (present (jget action ''arguments'') \<and> \<not> is_obj (jget action ''arguments''))
            ''action.arguments must be an object when present''
        @ err_if (present (jget action ''metadata'') \<and> \<not> is_obj (jget action ''metadata''))
            ''action.metadata must be an object when present'')"

definition validate_status :: "jval \<Rightarrow> string \<Rightarrow> string list" where
  "validate_status rule path =
     err_if (present (jget rule ''disabled'') \<and> \<not> is_bool (jget rule ''disabled''))
       (path @ ''.disabled must be a boolean when present'')
     @ err_if (present (jget rule ''status'') \<and> \<not> one_of [''enabled'', ''disabled''] (jget rule ''status''))
         (path @ ''.status is invalid'')
     @ err_if (present (jget rule ''allowCritical'') \<and> \<not> is_bool (jget rule ''allowCritical''))
         (path @ ''.allowCritical must be a boolean when present'')"

definition validate_exact_rule :: "nat \<Rightarrow> jval \<Rightarrow> string list" where
  "validate_exact_rule index rule =
     (let path = ''policy.exactActionRules['' @ nat_str index @ '']'' in
      if \<not> is_obj rule then [path @ '' must be an object'']
      else
        err_if (\<not> nonempty_str (jget rule ''decision_key'')) (path @ ''.decision_key is required'')
        @ err_if (\<not> one_of [''allow'', ''deny'', ''block'', ''needs_approval''] (jget rule ''effect''))
            (path @ ''.effect is invalid'')
        @ validate_status rule path
        @ optional_strings rule (path @ ''.'')
            [''id'', ''tool'', ''target'', ''source_suggestion_id'', ''source_approval_id'', ''created_at'',
             ''disabled_at'', ''reenabled_at'', ''description''])"

definition validateExactActionRules :: "jval \<Rightarrow> string list" where
  "validateExactActionRules rules =
     (if \<not> is_arr rules then [''policy.exactActionRules must be an array when present'']
      else concat_idx validate_exact_rule (arr_of rules))"

definition validate_conditions :: "jval \<Rightarrow> string \<Rightarrow> string list" where
  "validate_conditions cond path =
     (if cond = JUndef then []
      else if \<not> is_obj cond then [path @ ''.conditions must be an object when present'']
      else
        concat (map (\<lambda>(key, allowed).
          let v = jget cond key; p = path @ ''.conditions.'' @ key in
          if v = JUndef then []
          else validateStringArray v p True
             @ concat (map (\<lambda>x. err_if (\<not> one_of allowed x) (p @ '' contains invalid value: '' @ to_str x))
                 (arr_of v))) POLICY_CONDITION_ENUMS)
        @ concat (map (\<lambda>key.
            if jget cond key = JUndef then []
            else validateStringArray (jget cond key) (path @ ''.conditions.'' @ key) True)
          [''scopes'', ''actorNames'', ''sessionIds'', ''agentIds'', ''principalIds'', ''grantIds'',
           ''intentIds'', ''taskIds'']))"

definition validate_structured_rule :: "nat \<Rightarrow> jval \<Rightarrow> string list" where
  "validate_structured_rule index rule =
     (let path = ''policy.rules['' @ nat_str index @ '']'' in
      if \<not> is_obj rule then [path @ '' must be an object'']
      else
        err_if (\<not> nonempty_str (jget rule ''id'')) (path @ ''.id is required'')
        @ err_if (\<not> one_of POLICY_EFFECTS (jget rule ''effect'')) (path @ ''.effect is invalid'')
        @ (if present (jget rule ''actions'')
           then validateStringArray (jget rule ''actions'') (path @ ''.actions'') True else [])
        @ (if present (jget rule ''resources'')
           then validateStringArray (jget rule ''resources'') (path @ ''.resources'') True else [])
        @ err_if (present (jget rule ''priority'') \<and> \<not> is_int (jget rule ''priority''))
            (path @ ''.priority must be an integer when present'')
        @ validate_status rule path
        @ err_if (present (jget rule ''riskAtLeast'') \<and> \<not> one_of RISK_LEVELS (jget rule ''riskAtLeast''))
            (path @ ''.riskAtLeast is invalid'')
        @ err_if (present (jget rule ''riskAtMost'') \<and> \<not> one_of RISK_LEVELS (jget rule ''riskAtMost''))
            (path @ ''.riskAtMost is invalid'')
        @ optional_strings rule (path @ ''.'') [''description'', ''created_at'']
        @ validate_conditions (jget rule ''conditions'') path)"

definition validateStructuredRules :: "jval \<Rightarrow> string list" where
  "validateStructuredRules rules =
     (if \<not> is_arr rules then [''policy.rules must be an array when present'']
      else concat_idx validate_structured_rule (arr_of rules))"

definition validatePolicy :: "jval \<Rightarrow> string list" where
  "validatePolicy policy =
     (if \<not> is_obj policy then [''policy must be an object'']
      else
        err_if (present (jget policy ''policyVersion'')
            \<and> jget policy ''policyVersion'' \<noteq> JNum 1 \<and> jget policy ''policyVersion'' \<noteq> JNum 2)
          ''policy.policyVersion must be 1 or 2 when present''
        @ err_if (present (jget policy ''defaultAction'') \<and> \<not> one_of POLICY_EFFECTS (jget policy ''defaultAction''))
            ''policy.defaultAction is invalid''
        @ concat (map (\<lambda>key. if present (jget policy key)
            then validateStringArray (jget policy key) (''policy.'' @ key) False else [])
          [''allowedActions'', ''approvalRequired'', ''blockedActions''])
        @ (if present (jget policy ''exactActionRules'')
           then validateExactActionRules (jget policy ''exactActionRules'') else [])
        @ (if present (jget policy ''rules'') then validateStructuredRules (jget policy ''rules'') else []))"

text \<open>What validation establishes: the shapes the engine relies on.\<close>

definition exact_rule_ok :: "jval \<Rightarrow> bool" where
  "exact_rule_ok r \<longleftrightarrow> is_obj r \<and> nonempty_str (jget r ''decision_key'')
     \<and> one_of [''allow'', ''deny'', ''block'', ''needs_approval''] (jget r ''effect'')
     \<and> (jget r ''id'' = JUndef \<or> is_str (jget r ''id''))"

definition opt_strings_ok :: "jval \<Rightarrow> bool" where
  "opt_strings_ok v \<longleftrightarrow> v = JUndef \<or> (\<exists>ss. v = JArr (map JStr ss) \<and> ss \<noteq> [] \<and> [] \<notin> set ss)"

definition structured_rule_ok :: "jval \<Rightarrow> bool" where
  "structured_rule_ok r \<longleftrightarrow> is_obj r \<and> nonempty_str (jget r ''id'')
     \<and> one_of POLICY_EFFECTS (jget r ''effect'')
     \<and> opt_strings_ok (jget r ''actions'') \<and> opt_strings_ok (jget r ''resources'')
     \<and> (jget r ''priority'' = JUndef \<or> is_int (jget r ''priority''))
     \<and> (jget r ''conditions'' = JUndef \<or> is_obj (jget r ''conditions''))"

lemma all_nonempty_str: "(\<forall>x\<in>set xs. nonempty_str x) \<longleftrightarrow> (\<exists>ss. xs = map JStr ss \<and> [] \<notin> set ss)"
proof
  assume a: "\<forall>x\<in>set xs. nonempty_str x"
  then have "xs = map JStr (map str_of xs)" by (induction xs) (auto simp: nonempty_str_iff)
  moreover have "[] \<notin> set (map str_of xs)" using a by (auto simp: nonempty_str_iff)
  ultimately show "\<exists>ss. xs = map JStr ss \<and> [] \<notin> set ss" by blast
qed (auto simp: nonempty_str_iff)

lemma validateStringArray_strings:
  "validateStringArray v path True = [] \<longleftrightarrow> (\<exists>ss. v = JArr (map JStr ss) \<and> ss \<noteq> [] \<and> [] \<notin> set ss)"
  by (auto simp: validateStringArray_ok all_nonempty_str elim!: is_arr_cases)

lemma validateStringArray_strings_any:
  "validateStringArray v path False = [] \<longleftrightarrow> (\<exists>ss. v = JArr (map JStr ss) \<and> [] \<notin> set ss)"
  by (auto simp: validateStringArray_ok all_nonempty_str elim!: is_arr_cases)

lemma validate_exact_rule_ok: "validate_exact_rule i r = [] \<Longrightarrow> exact_rule_ok r"
  by (auto simp: validate_exact_rule_def exact_rule_ok_def Let_def optional_strings_ok split: if_splits)

lemma validate_structured_rule_ok: "validate_structured_rule i r = [] \<Longrightarrow> structured_rule_ok r"
  by (auto simp: validate_structured_rule_def structured_rule_ok_def Let_def present_def opt_strings_ok_def
      validateStringArray_strings validate_conditions_def split: if_splits)

definition policy_ok :: "jval \<Rightarrow> bool" where
  "policy_ok p \<longleftrightarrow> is_obj p
     \<and> (jget p ''defaultAction'' = JUndef \<or> one_of POLICY_EFFECTS (jget p ''defaultAction''))
     \<and> (\<forall>k\<in>{''allowedActions'', ''approvalRequired'', ''blockedActions''}.
          jget p k = JUndef \<or> (\<exists>ss. jget p k = JArr (map JStr ss)))
     \<and> (jget p ''exactActionRules'' = JUndef \<or> is_arr (jget p ''exactActionRules''))
     \<and> (\<forall>r\<in>set (arr_of (jget p ''exactActionRules'')). exact_rule_ok r)
     \<and> (jget p ''rules'' = JUndef \<or> is_arr (jget p ''rules''))
     \<and> (\<forall>r\<in>set (arr_of (jget p ''rules'')). structured_rule_ok r)"

lemma validatePolicy_Nil:
  "validatePolicy p = [] \<Longrightarrow> is_obj p
     \<and> (present (jget p ''defaultAction'') \<longrightarrow> one_of POLICY_EFFECTS (jget p ''defaultAction''))
     \<and> (\<forall>k\<in>{''allowedActions'', ''approvalRequired'', ''blockedActions''}. present (jget p k) \<longrightarrow>
          validateStringArray (jget p k) (''policy.'' @ k) False = [])
     \<and> (present (jget p ''exactActionRules'') \<longrightarrow> validateExactActionRules (jget p ''exactActionRules'') = [])
     \<and> (present (jget p ''rules'') \<longrightarrow> validateStructuredRules (jget p ''rules'') = [])"
  unfolding validatePolicy_def append_is_Nil_conv
  by (cases "is_obj p") (simp_all add: err_if_def del: append.simps split: if_splits)

lemma validatePolicy_ok:
  assumes "validatePolicy p = []"
  shows "policy_ok p"
proof -
  note nil = validatePolicy_Nil [OF assms, unfolded present_def]
  have l: "jget p k = JUndef \<or> (\<exists>ss. jget p k = JArr (map JStr ss))"
    if "k \<in> {''allowedActions'', ''approvalRequired'', ''blockedActions''}" for k
    using nil that unfolding validateStringArray_strings_any by blast
  have e: "is_arr v \<and> (\<forall>r\<in>set (arr_of v). exact_rule_ok r)" if "validateExactActionRules v = []" for v
    using that by (auto simp: validateExactActionRules_def split: if_splits
        dest: concat_idx_Nil_all validate_exact_rule_ok)
  have r: "is_arr v \<and> (\<forall>r\<in>set (arr_of v). structured_rule_ok r)" if "validateStructuredRules v = []" for v
    using that by (auto simp: validateStructuredRules_def split: if_splits
        dest: concat_idx_Nil_all validate_structured_rule_ok)
  have o: "is_obj p" and d: "jget p ''defaultAction'' = JUndef \<or> one_of POLICY_EFFECTS (jget p ''defaultAction'')"
    using nil by blast+
  have e': "(x = JUndef \<or> is_arr x) \<and> (\<forall>r\<in>set (arr_of x). exact_rule_ok r)"
    if "x \<noteq> JUndef \<longrightarrow> validateExactActionRules x = []" for x
    using that e [of x] by (cases "x = JUndef") simp_all
  have r': "(x = JUndef \<or> is_arr x) \<and> (\<forall>r\<in>set (arr_of x). structured_rule_ok r)"
    if "x \<noteq> JUndef \<longrightarrow> validateStructuredRules x = []" for x
    using that r [of x] by (cases "x = JUndef") simp_all
  have "jget p ''exactActionRules'' \<noteq> JUndef \<longrightarrow> validateExactActionRules (jget p ''exactActionRules'') = []"
    "jget p ''rules'' \<noteq> JUndef \<longrightarrow> validateStructuredRules (jget p ''rules'') = []" using nil by blast+
  note rules = e' [OF this(1)] r' [OF this(2)]
  show ?thesis unfolding policy_ok_def using o d rules by (intro conjI ballI l) blast+
qed

end
