(* ===== verification/JSRegex.thy ===== *)
theory JSRegex
  imports JSValue
begin

text \<open>
  The regular expressions of the code.  \<open>rx\<close> is the syntax the code's literals use;
  \<open>rx_m r (pv, s)\<close> lists the states a backtracking matcher reaches from the text position
  with previous character \<open>pv\<close> and remaining text \<open>s\<close>, in the order in which it tries them:
  the head is the match that \<open>exec\<close> and \<open>replace\<close> take, and the list is empty when there
  is none.  \<open>rx_test\<close> is \<^verbatim>\<open>RegExp.prototype.test\<close> and \<open>rx_replace_first\<close> is
  \<^verbatim>\<open>String.prototype.replace\<close> with a pattern that has no \<^verbatim>\<open>g\<close> flag.
\<close>

section \<open>Syntax and matching\<close>

datatype rx =
    REps
  | RCh "char \<Rightarrow> bool"
  | RSeq rx rx
  | RAlt rx rx
  | RStar rx
  | RBegin
  | REnd
  | RWordB

type_synonym rx_pos = "char option \<times> string"

text \<open>Repetition is greedy, and an iteration that consumes nothing is not taken; the
  remaining length bounds the number of iterations.\<close>

fun rx_star :: "(rx_pos \<Rightarrow> rx_pos list) \<Rightarrow> nat \<Rightarrow> rx_pos \<Rightarrow> rx_pos list" where
  "rx_star f 0 p = [p]"
| "rx_star f (Suc n) p =
     concat (map (rx_star f n) (filter (\<lambda>q. length (snd q) < length (snd p)) (f p))) @ [p]"

definition is_word :: "char \<Rightarrow> bool" where
  "is_word c = (let n = of_char c :: nat in
     (48 \<le> n \<and> n \<le> 57) \<or> (65 \<le> n \<and> n \<le> 90) \<or> (97 \<le> n \<and> n \<le> 122) \<or> n = 95)"

definition at_word_boundary :: "rx_pos \<Rightarrow> bool" where
  "at_word_boundary p =
     ((case fst p of None \<Rightarrow> False | Some c \<Rightarrow> is_word c) \<noteq>
      (case snd p of [] \<Rightarrow> False | c # _ \<Rightarrow> is_word c))"

fun rx_m :: "rx \<Rightarrow> rx_pos \<Rightarrow> rx_pos list" where
  "rx_m REps p = [p]"
| "rx_m (RCh P) p = (case snd p of [] \<Rightarrow> [] | c # cs \<Rightarrow> if P c then [(Some c, cs)] else [])"
| "rx_m (RSeq a b) p = concat (map (rx_m b) (rx_m a p))"
| "rx_m (RAlt a b) p = rx_m a p @ rx_m b p"
| "rx_m (RStar a) p = rx_star (rx_m a) (length (snd p)) p"
| "rx_m RBegin p = (if fst p = None then [p] else [])"
| "rx_m REnd p = (if snd p = [] then [p] else [])"
| "rx_m RWordB p = (if at_word_boundary p then [p] else [])"

fun rx_starts :: "char option \<Rightarrow> string \<Rightarrow> rx_pos list" where
  "rx_starts pv [] = [(pv, [])]"
| "rx_starts pv (c # s) = (pv, c # s) # rx_starts (Some c) s"

definition rx_test :: "rx \<Rightarrow> string \<Rightarrow> bool" where
  "rx_test r s = list_ex (\<lambda>p. rx_m r p \<noteq> []) (rx_starts None s)"

fun rx_replace_at :: "rx \<Rightarrow> string \<Rightarrow> char option \<Rightarrow> string \<Rightarrow> string" where
  "rx_replace_at r rep pv [] = (case rx_m r (pv, []) of [] \<Rightarrow> [] | q # _ \<Rightarrow> rep)"
| "rx_replace_at r rep pv (c # s) =
     (case rx_m r (pv, c # s) of
        [] \<Rightarrow> c # rx_replace_at r rep (Some c) s
      | q # _ \<Rightarrow> rep @ snd q)"

definition rx_replace_first :: "rx \<Rightarrow> string \<Rightarrow> string \<Rightarrow> string" where
  "rx_replace_first r rep s = rx_replace_at r rep None s"

section \<open>Derived forms\<close>

definition rx_lit :: "string \<Rightarrow> rx" where
  "rx_lit s = foldr (\<lambda>c r. RSeq (RCh (\<lambda>x. x = c)) r) s REps"

text \<open>A literal under the \<^verbatim>\<open>i\<close> flag.\<close>

definition rx_ilit :: "string \<Rightarrow> rx" where
  "rx_ilit s = foldr (\<lambda>c r. RSeq (RCh (\<lambda>x. char_lower x = char_lower c)) r) s REps"

definition rx_plus :: "rx \<Rightarrow> rx" where
  "rx_plus r = RSeq r (RStar r)"

definition rx_opt :: "rx \<Rightarrow> rx" where
  "rx_opt r = RAlt r REps"

fun rx_rep :: "nat \<Rightarrow> rx \<Rightarrow> rx" where
  "rx_rep 0 r = REps"
| "rx_rep (Suc n) r = RSeq r (rx_rep n r)"

definition rx_alts :: "rx list \<Rightarrow> rx" where
  "rx_alts rs = (case rs of [] \<Rightarrow> RCh (\<lambda>_. False) | r # rs' \<Rightarrow> foldl RAlt r rs')"

fun rx_seqs :: "rx list \<Rightarrow> rx" where
  "rx_seqs [] = REps"
| "rx_seqs [r] = r"
| "rx_seqs (r # rs) = RSeq r (rx_seqs rs)"

definition char_in :: "string \<Rightarrow> char \<Rightarrow> bool" where
  "char_in cs c \<longleftrightarrow> c \<in> set cs"

definition char_range :: "char \<Rightarrow> char \<Rightarrow> char \<Rightarrow> bool" where
  "char_range a b c \<longleftrightarrow> (of_char a :: nat) \<le> of_char c \<and> (of_char c :: nat) \<le> of_char b"

text \<open>\<^verbatim>\<open>\s\<close> on code units below 256, and the line terminators that \<^verbatim>\<open>.\<close> excludes.\<close>

definition is_space :: "char \<Rightarrow> bool" where
  "is_space c = (let n = of_char c :: nat in (9 \<le> n \<and> n \<le> 13) \<or> n = 32 \<or> n = 160)"

definition is_line_end :: "char \<Rightarrow> bool" where
  "is_line_end c = (let n = of_char c :: nat in n = 10 \<or> n = 13)"

lemma char_range_code [code]: "char_range a b c \<longleftrightarrow> char_le a c \<and> char_le c b"
  by (simp add: char_range_def char_le_def)

lemma is_word_code [code]:
  "is_word c \<longleftrightarrow> char_range CHR ''a'' CHR ''z'' c \<or> char_range CHR ''0'' CHR ''9'' c
     \<or> char_range CHR ''A'' CHR ''Z'' c \<or> c = CHR ''_''"
  using of_char_eq [of c "CHR ''_''"] by (auto simp: is_word_def char_range_def Let_def)

lemma is_space_code [code]:
  "is_space c \<longleftrightarrow> c = CHR '' '' \<or> char_range CHR 0x09 CHR 0x0D c \<or> c = CHR 0xA0"
  using of_char_eq [of c "CHR '' ''"] of_char_eq [of c "CHR 0xA0"]
  by (auto simp: is_space_def char_range_def Let_def)

lemma is_line_end_code [code]: "is_line_end c \<longleftrightarrow> c = CHR 0x0A \<or> c = CHR 0x0D"
  using of_char_eq [of c "CHR 0x0A"] of_char_eq [of c "CHR 0x0D"] by (auto simp: is_line_end_def Let_def)

section \<open>Facts about the matcher\<close>

lemma rx_m_RCh [simp]:
  "rx_m (RCh P) (pv, []) = []"
  "rx_m (RCh P) (pv, c # cs) = (if P c then [(Some c, cs)] else [])"
  by simp_all

declare rx_m.simps(2) [simp del]

lemma rx_starts_None_head: "rx_starts None s = (None, s) # tl (rx_starts None s)"
  by (cases s) simp_all

lemma rx_starts_fst_Some: "p \<in> set (rx_starts (Some c) s) \<Longrightarrow> fst p \<noteq> None"
  by (induction s arbitrary: c) auto

lemma rx_starts_tl_fst: "p \<in> set (tl (rx_starts None s)) \<Longrightarrow> fst p \<noteq> None"
  by (cases s) (auto dest: rx_starts_fst_Some)

text \<open>A pattern that starts with \<^verbatim>\<open>^\<close> matches at the beginning of the text or not at all.\<close>

lemma rx_test_anchored: "rx_test (RSeq RBegin r) s \<longleftrightarrow> rx_m r (None, s) \<noteq> []"
proof -
  have "rx_m (RSeq RBegin r) p = []" if "p \<in> set (tl (rx_starts None s))" for p
    using rx_starts_tl_fst [OF that] by (simp only: rx_m.simps) simp
  then have "list_ex (\<lambda>p. rx_m (RSeq RBegin r) p \<noteq> []) (tl (rx_starts None s)) = False"
    by (auto simp: list_ex_iff)
  then show ?thesis
    unfolding rx_test_def by (subst rx_starts_None_head) simp
qed

lemma rx_star_char:
  "length s \<le> n \<Longrightarrow>
   snd ` set (rx_star (rx_m (RCh P)) n (pv, s)) = {t. \<exists>u. s = u @ t \<and> list_all P u}"
proof (induction n arbitrary: pv s)
  case 0
  then show ?case by auto
next
  case (Suc n)
  show ?case
  proof (cases s)
    case Nil
    then show ?thesis by auto
  next
    case (Cons c cs)
    have ih: "snd ` set (rx_star (rx_m (RCh P)) n (Some c, cs)) = {t. \<exists>u. cs = u @ t \<and> list_all P u}"
      using Suc.prems Cons by (intro Suc.IH) simp
    have step: "{t. \<exists>u. c # cs = u @ t \<and> list_all P u} =
        insert (c # cs) (if P c then {t. \<exists>u. cs = u @ t \<and> list_all P u} else {})"
      by (auto simp: Cons_eq_append_conv)
    show ?thesis
      unfolding Cons step using ih by (simp add: image_Un)
  qed
qed

lemma rx_m_star_char:
  "snd ` set (rx_m (RStar (RCh P)) (pv, s)) = {t. \<exists>u. s = u @ t \<and> list_all P u}"
  by (simp add: rx_star_char)

lemma rx_star_suffix:
  assumes "\<And>p q. q \<in> set (f p) \<Longrightarrow> \<exists>u. snd p = u @ snd q"
  shows "q \<in> set (rx_star f n p) \<Longrightarrow> \<exists>u. snd p = u @ snd q"
proof (induction n arbitrary: p)
  case (Suc n)
  from Suc.prems consider "q = p" | r where "r \<in> set (f p)" "q \<in> set (rx_star f n r)"
    by auto
  then show ?case
  proof cases
    case 2
    obtain u v where "snd p = u @ snd r" "snd r = v @ snd q"
      using assms [OF 2(1)] Suc.IH [OF 2(2)] by auto
    then show ?thesis by simp
  qed simp
qed auto

text \<open>A match never looks backwards: what remains is a suffix of the text.\<close>

lemma rx_m_suffix: "q \<in> set (rx_m r p) \<Longrightarrow> \<exists>u. snd p = u @ snd q"
proof (induction r arbitrary: p q)
  case (RCh P)
  then show ?case by (cases p; cases "snd p") (auto split: if_splits)
next
  case (RSeq a b)
  then obtain m where m: "m \<in> set (rx_m a p)" "q \<in> set (rx_m b m)" by auto
  obtain u v where "snd p = u @ snd m" "snd m = v @ snd q"
    using RSeq.IH(1) [OF m(1)] RSeq.IH(2) [OF m(2)] by auto
  then show ?case by simp
next
  case (RStar a)
  then show ?case using rx_star_suffix [of "rx_m a"] by auto
qed (auto split: if_splits)

end
