(* ===== verification/Patterns.thy ===== *)
theory Patterns
  imports JSRegex
begin

text \<open>
  Wildcard patterns: the policy engine's action and resource patterns
  (\<^verbatim>\<open>engine/evaluator.js\<close>: \<open>patternSpecificity\<close>, \<open>matchesPattern\<close>, \<open>globToRegExp\<close>,
  \<open>matchesResourcePattern\<close>) and the authority patterns of grants and envelopes
  (\<^verbatim>\<open>authority/grant.js\<close>: \<open>wildcardToRegExp\<close>, \<open>authorityPatternMatches\<close>, \<open>staticPrefix\<close>,
  \<open>authorityPatternIsWithin\<close>).

  The code turns a pattern into the source of a regular expression, one fragment per
  pattern symbol; \<open>glob_tokens\<close> reads the symbols off in the same order and \<open>tok_rx\<close> is the
  expression of each fragment.  \<open>glob_accepts\<close> is an independent reference for what a pattern
  accepts; the lemmas show that the compiled expression accepts exactly that, when a
  delegated pattern is contained in its parent, and where the containment check is too weak.
\<close>

section \<open>Compilation of a pattern\<close>

datatype glob_tok = GSeg | GAll | GAny | GChar char

fun glob_tokens :: "string \<Rightarrow> glob_tok list" where
  "glob_tokens [] = []"
| "glob_tokens (c # s) =
     (if c = CHR ''*'' then
        (case s of
           [] \<Rightarrow> [GSeg]
         | d # s' \<Rightarrow> if d = CHR ''*'' then GAll # glob_tokens s' else GSeg # glob_tokens s)
      else if c = CHR ''?'' then GAny # glob_tokens s
      else GChar c # glob_tokens s)"

definition not_slash :: "char \<Rightarrow> bool" where
  "not_slash c \<longleftrightarrow> c \<noteq> CHR ''/''"

definition rx_dot :: "char \<Rightarrow> bool" where
  "rx_dot c \<longleftrightarrow> \<not> is_line_end c"

fun tok_rx :: "glob_tok \<Rightarrow> rx" where
  "tok_rx GSeg = RStar (RCh not_slash)"
| "tok_rx GAll = RStar (RCh rx_dot)"
| "tok_rx GAny = RCh rx_dot"
| "tok_rx (GChar c) = RCh (\<lambda>x. x = c)"

fun glob_rx :: "glob_tok list \<Rightarrow> rx" where
  "glob_rx [] = REnd"
| "glob_rx (t # ts) = RSeq (tok_rx t) (glob_rx ts)"

definition globToRegExp :: "string \<Rightarrow> rx" where
  "globToRegExp pattern = RSeq RBegin (glob_rx (glob_tokens pattern))"

definition wildcardToRegExp :: "string \<Rightarrow> rx" where
  "wildcardToRegExp pattern = RSeq RBegin (glob_rx (glob_tokens pattern))"

section \<open>Policy patterns\<close>

definition patternSpecificity :: "string \<Rightarrow> int" where
  "patternSpecificity pattern =
     (if pattern = ''*'' then 0
      else if ends_with ''.*'' pattern then 1
      else if str_includes ''*'' pattern \<or> str_includes ''?'' pattern then 1
      else 2)"

definition matchesPattern :: "string \<Rightarrow> string \<Rightarrow> bool" where
  "matchesPattern pattern key =
     (if pattern = ''*'' then True
      else if ends_with ''.*'' pattern \<and> \<not> str_includes ''*'' (take (length pattern - 2) pattern)
        then starts_with (butlast pattern) key
      else if \<not> str_includes ''*'' pattern \<and> \<not> str_includes ''?'' pattern then pattern = key
      else rx_test (globToRegExp pattern) key)"

definition matchesResourcePattern :: "string \<Rightarrow> string \<Rightarrow> bool" where
  "matchesResourcePattern pattern resource =
     (if pattern = ''*'' \<or> pattern = ''**'' then True
      else rx_test (globToRegExp pattern) resource)"

section \<open>Authority patterns\<close>

definition authorityPatternMatches :: "string \<Rightarrow> string \<Rightarrow> bool" where
  "authorityPatternMatches pattern value =
     (if pattern = ''*'' \<or> pattern = ''**'' then True
      else rx_test (wildcardToRegExp pattern) value)"

definition is_wild :: "char \<Rightarrow> bool" where
  "is_wild c \<longleftrightarrow> c = CHR ''?'' \<or> c = CHR ''*''"

definition staticPrefix :: "string \<Rightarrow> string" where
  "staticPrefix pattern = takeWhile (\<lambda>c. \<not> is_wild c) pattern"

definition has_wild :: "string \<Rightarrow> bool" where
  "has_wild = list_ex is_wild"

definition authorityPatternIsWithin :: "string \<Rightarrow> string \<Rightarrow> bool" where
  "authorityPatternIsWithin child parent =
     (if parent = ''*'' \<or> parent = ''**'' \<or> child = parent then True
      else if \<not> has_wild child then authorityPatternMatches parent child
      else if \<not> has_wild parent then False
      else if ends_with ''**'' parent then starts_with (staticPrefix parent) (staticPrefix child)
      else False)"

section \<open>What a pattern accepts\<close>

text \<open>The reference: \<open>GSeg\<close> stands for any run of characters other than a slash, \<open>GAll\<close>
  for any run without a line terminator, \<open>GAny\<close> for one character that is not a line terminator.\<close>

fun tok_accepts :: "glob_tok \<Rightarrow> string \<Rightarrow> bool" where
  "tok_accepts GSeg u = list_all not_slash u"
| "tok_accepts GAll u = list_all rx_dot u"
| "tok_accepts GAny u = (\<exists>c. u = [c] \<and> rx_dot c)"
| "tok_accepts (GChar c) u = (u = [c])"

fun glob_accepts :: "glob_tok list \<Rightarrow> string \<Rightarrow> bool" where
  "glob_accepts [] s = (s = [])"
| "glob_accepts (t # ts) s = (\<exists>u v. s = u @ v \<and> tok_accepts t u \<and> glob_accepts ts v)"

lemma tok_rx_ends: "snd ` set (rx_m (tok_rx t) (pv, s)) = {v. \<exists>u. s = u @ v \<and> tok_accepts t u}"
proof (cases t)
  case GSeg
  then show ?thesis by (simp only: tok_rx.simps rx_m_star_char) simp
next
  case GAll
  then show ?thesis by (simp only: tok_rx.simps rx_m_star_char) simp
next
  case GAny
  then show ?thesis by (cases s) auto
next
  case (GChar c)
  then show ?thesis by (cases s) auto
qed

lemma glob_rx_accepts: "rx_m (glob_rx ts) (pv, s) \<noteq> [] \<longleftrightarrow> glob_accepts ts s"
proof (induction ts arbitrary: pv s)
  case Nil
  then show ?case by simp
next
  case (Cons t ts)
  have "rx_m (glob_rx (t # ts)) (pv, s) \<noteq> [] \<longleftrightarrow>
      (\<exists>q \<in> set (rx_m (tok_rx t) (pv, s)). rx_m (glob_rx ts) q \<noteq> [])"
    by auto
  also have "\<dots> \<longleftrightarrow> (\<exists>v \<in> snd ` set (rx_m (tok_rx t) (pv, s)). glob_accepts ts v)"
    using Cons.IH by (metis (no_types, opaque_lifting) imageE image_eqI prod.collapse)
  also have "\<dots> \<longleftrightarrow> glob_accepts (t # ts) s"
    by (simp only: tok_rx_ends) auto
  finally show ?case .
qed

lemma globToRegExp_accepts:
  "rx_test (globToRegExp p) s \<longleftrightarrow> glob_accepts (glob_tokens p) s"
  by (simp only: globToRegExp_def rx_test_anchored glob_rx_accepts)

lemma wildcardToRegExp_accepts:
  "rx_test (wildcardToRegExp p) s \<longleftrightarrow> glob_accepts (glob_tokens p) s"
  by (simp only: wildcardToRegExp_def rx_test_anchored glob_rx_accepts)

section \<open>Literal patterns and literal prefixes\<close>

lemma is_wild_simps [simp]: "is_wild CHR ''*''" "is_wild CHR ''?''"
  by (simp_all add: is_wild_def)

lemma has_wild_simps [simp]:
  "\<not> has_wild []" "has_wild (c # s) \<longleftrightarrow> is_wild c \<or> has_wild s" "has_wild (s @ t) \<longleftrightarrow> has_wild s \<or> has_wild t"
  by (simp_all add: has_wild_def)

lemma glob_tokens_literal_append:
  "\<not> has_wild q \<Longrightarrow> glob_tokens (q @ r) = map GChar q @ glob_tokens r"
  by (induction q) (auto simp: is_wild_def)

lemma glob_accepts_chars: "glob_accepts (map GChar q @ ts) s \<longleftrightarrow> (\<exists>v. s = q @ v \<and> glob_accepts ts v)"
proof (induction q arbitrary: s)
  case (Cons c q)
  have "glob_accepts (map GChar (c # q) @ ts) s \<longleftrightarrow> (\<exists>w. s = c # w \<and> glob_accepts (map GChar q @ ts) w)"
    by auto
  then show ?case by (auto simp: Cons.IH)
qed simp

lemma glob_literal: "\<not> has_wild p \<Longrightarrow> glob_accepts (glob_tokens p) s \<longleftrightarrow> s = p"
  using glob_tokens_literal_append [of p "[]"] glob_accepts_chars [of p "[]" s] by simp

lemma authorityPatternMatches_literal:
  "\<not> has_wild p \<Longrightarrow> authorityPatternMatches p s \<longleftrightarrow> s = p"
  by (auto simp: authorityPatternMatches_def wildcardToRegExp_accepts glob_literal is_wild_def)

lemma not_wild_staticPrefix: "\<not> has_wild (staticPrefix p)"
  by (auto simp: has_wild_def list_ex_iff staticPrefix_def dest: set_takeWhileD)

lemma staticPrefix_split: "\<exists>r. p = staticPrefix p @ r"
  by (metis staticPrefix_def takeWhile_dropWhile_id)

lemma staticPrefix_append: "\<not> has_wild q \<Longrightarrow> staticPrefix (q @ CHR ''*'' # r) = q"
  unfolding staticPrefix_def has_wild_def list_ex_iff
  by (subst takeWhile_append2) (auto simp: is_wild_def)

lemma glob_accepts_staticPrefix:
  assumes "glob_accepts (glob_tokens p) s"
  shows "starts_with (staticPrefix p) s"
proof -
  obtain r where "p = staticPrefix p @ r" using staticPrefix_split by blast
  then have "glob_tokens p = map GChar (staticPrefix p) @ glob_tokens r"
    by (metis glob_tokens_literal_append not_wild_staticPrefix)
  with assms have "glob_accepts (map GChar (staticPrefix p) @ glob_tokens r) s" by simp
  then show ?thesis by (auto simp: glob_accepts_chars)
qed

lemma authorityPatternMatches_staticPrefix:
  "authorityPatternMatches p s \<Longrightarrow> starts_with (staticPrefix p) s"
  by (auto simp: authorityPatternMatches_def wildcardToRegExp_accepts staticPrefix_def is_wild_def
      dest: glob_accepts_staticPrefix split: if_splits)

lemma glob_accepts_all: "glob_accepts (map GChar q @ [GAll]) s \<longleftrightarrow> (\<exists>v. s = q @ v \<and> list_all rx_dot v)"
  by (auto simp: glob_accepts_chars)

text \<open>A subtree pattern: a literal followed by \<^verbatim>\<open>**\<close>.\<close>

definition subtree_pattern :: "string \<Rightarrow> bool" where
  "subtree_pattern p \<longleftrightarrow> (\<exists>q. \<not> has_wild q \<and> p = q @ ''**'')"

definition one_line :: "string \<Rightarrow> bool" where
  "one_line s \<longleftrightarrow> list_all rx_dot s"

lemma one_line_append [simp]: "one_line (s @ t) \<longleftrightarrow> one_line s \<and> one_line t"
  by (simp add: one_line_def)

lemma authorityPatternMatches_subtree:
  "\<not> has_wild q \<Longrightarrow> one_line s \<Longrightarrow> authorityPatternMatches (q @ ''**'') s \<longleftrightarrow> starts_with q s"
  by (auto simp: authorityPatternMatches_def wildcardToRegExp_accepts glob_tokens_literal_append
      glob_accepts_all starts_with_iff one_line_def simp del: glob_accepts.simps)

lemma has_wild_subtree [simp]: "has_wild (q @ ''**'')"
  by simp

text \<open>Parents for which the containment check is sound: literals, the two universal patterns,
  and subtree patterns.\<close>

definition plain_parent :: "string \<Rightarrow> bool" where
  "plain_parent p \<longleftrightarrow> p = ''*'' \<or> \<not> has_wild p \<or> subtree_pattern p"

lemma authorityPatternIsWithin_subtree:
  assumes "\<not> has_wild q" "has_wild c" "c \<noteq> q @ ''**''" "q \<noteq> []"
  shows "authorityPatternIsWithin c (q @ ''**'') \<longleftrightarrow> starts_with q (staticPrefix c)"
proof -
  have "staticPrefix (q @ ''**'') = q" using assms(1) by (simp add: staticPrefix_append)
  moreover have "ends_with ''**'' (q @ ''**'')" by (auto simp: ends_with_iff)
  ultimately show ?thesis
    using assms by (auto simp: authorityPatternIsWithin_def)
qed

lemma within_sound:
  assumes "plain_parent p" "authorityPatternIsWithin c p" "authorityPatternMatches c s" "one_line s"
  shows "authorityPatternMatches p s"
proof -
  consider "p = ''*'' \<or> p = ''**'' \<or> c = p" | "\<not> has_wild c" "authorityPatternMatches p c"
    | q where "p = q @ ''**''" "\<not> has_wild q" "has_wild c" "c \<noteq> p" "q \<noteq> []"
    using assms(1,2)
    by (auto simp: authorityPatternIsWithin_def plain_parent_def subtree_pattern_def split: if_splits)
  then show ?thesis
  proof cases
    case 1
    then show ?thesis using assms(3) by (auto simp: authorityPatternMatches_def)
  next
    case 2
    then show ?thesis using assms(3) by (simp add: authorityPatternMatches_literal)
  next
    case (3 q)
    have "starts_with q (staticPrefix c)"
      using 3 assms(2) by (simp add: authorityPatternIsWithin_subtree)
    moreover have "starts_with (staticPrefix c) s"
      using assms(3) by (rule authorityPatternMatches_staticPrefix)
    ultimately have "starts_with q s" by (auto simp: starts_with_iff)
    then show ?thesis using 3 assms(4) by (simp add: authorityPatternMatches_subtree)
  qed
qed

lemma within_refl [simp]: "authorityPatternIsWithin p p"
  by (simp add: authorityPatternIsWithin_def)

text \<open>Along a chain of delegations the check composes, as long as the outer patterns are plain
  and no pattern spans lines.\<close>

lemma within_trans:
  assumes "plain_parent b" "plain_parent a" "one_line c"
    and cb: "authorityPatternIsWithin c b" and ba: "authorityPatternIsWithin b a"
  shows "authorityPatternIsWithin c a"
proof (cases "has_wild c")
  case False
  then have "b = c \<or> authorityPatternMatches b c"
    using cb by (auto simp: authorityPatternIsWithin_def authorityPatternMatches_def split: if_splits)
  then have "b = c \<or> authorityPatternMatches a c"
    using within_sound [OF assms(2) ba _ assms(3)] by blast
  then show ?thesis using False ba by (auto simp: authorityPatternIsWithin_def)
next
  case True
  show ?thesis
  proof (cases "a = ''*'' \<or> a = ''**'' \<or> b = a \<or> c = b")
    case True
    then consider "a = ''*'' \<or> a = ''**''" | "b = a" | "c = b" by blast
    then show ?thesis
    proof cases
      case 1
      then show ?thesis by (elim disjE) (simp_all add: authorityPatternIsWithin_def)
    qed (use cb ba in simp_all)
  next
    case False
    have bw: "has_wild b" using cb \<open>has_wild c\<close> False by (auto simp: authorityPatternIsWithin_def split: if_splits)
    have b: "b = ''*'' \<or> subtree_pattern b" using assms(1) bw by (auto simp: plain_parent_def)
    have "subtree_pattern a" using assms(2) ba bw False
      by (auto simp: plain_parent_def authorityPatternIsWithin_def split: if_splits)
    then obtain q where a: "a = q @ ''**''" "\<not> has_wild q" "q \<noteq> []"
      using False by (auto simp: subtree_pattern_def)
    have sb: "starts_with q (staticPrefix b)"
      using ba bw False a by (simp add: authorityPatternIsWithin_subtree)
    have "b \<noteq> ''*''" using sb a(3) by (auto simp: staticPrefix_def is_wild_def starts_with_iff)
    with b obtain r where r: "b = r @ ''**''" "\<not> has_wild r" by (auto simp: subtree_pattern_def)
    have "r \<noteq> []" using sb a(3) r by (auto simp: staticPrefix_def is_wild_def starts_with_iff)
    then have "starts_with r (staticPrefix c)"
      using cb \<open>has_wild c\<close> False r by (simp add: authorityPatternIsWithin_subtree)
    moreover have "starts_with q r" using sb r staticPrefix_append [of r "''*''"] by simp
    ultimately have "starts_with q (staticPrefix c)" by (auto simp: starts_with_iff)
    then show ?thesis
      using a \<open>has_wild c\<close> by (cases "c = a") (simp_all add: authorityPatternIsWithin_subtree)
  qed
qed

end
