(* ===== verification/PolicyEngine.thy ===== *)
theory PolicyEngine
  imports Protocol Patterns
begin

text \<open>
  The policy engine, \<^verbatim>\<open>packages/core/src/engine/evaluator.js\<close>.  An action and a policy are the
  objects the code receives; a decision is the object it returns.  \<open>evaluatePolicy\<close> is the
  function of that name: it denies an invalid action, throws on an invalid policy, and
  otherwise goes through the exact rules, the structured rules and the three pattern lists in
  the code's order.
\<close>

section \<open>Preparation\<close>

definition RISK_RANK :: "(string \<times> int) list" where
  "RISK_RANK = [(''safe'', 0), (''low'', 1), (''medium'', 2), (''high'', 3), (''critical'', 4)]"

definition EFFECT_TIE_BREAK :: "(string \<times> int) list" where
  "EFFECT_TIE_BREAK = [(''deny'', 4), (''needs_approval'', 3), (''dry_run_only'', 2), (''allow'', 1)]"

text \<open>\<open>TABLE[key]\<close> for a table of numbers: \<open>undefined\<close> when the key is missing.\<close>

definition rank_of :: "(string \<times> int) list \<Rightarrow> jval \<Rightarrow> jval" where
  "rank_of tab v = (case map_of tab (to_str v) of None \<Rightarrow> JUndef | Some n \<Rightarrow> JNum n)"

definition assertValidPolicy :: "jval \<Rightarrow> bool res" where
  "assertValidPolicy policy =
     throw_if (validatePolicy policy \<noteq> [])
       (''RuleOak policy validation failed: '' @ join_errors (validatePolicy policy)) (Inr True)"

definition normalizePolicy :: "jval \<Rightarrow> jval" where
  "normalizePolicy policy =
     jset (jspread (JObj [(''policyVersion'',
         jor (jget policy ''policyVersion'') (JNum (if is_arr (jget policy ''rules'') then 2 else 1)))]) policy)
       ''defaultAction'' (normalizeDecisionAction (jor (jget policy ''defaultAction'') (JStr ''needs_approval'')))"

definition actionKey :: "jval \<Rightarrow> string" where
  "actionKey action =
     (if \<not> truthy action then []
      else if is_str (jget action ''type'') then str_of (jget action ''type'')
      else if is_str (jget action ''action'') then str_of (jget action ''action'')
      else [])"

text \<open>The strings of a validated pattern list; \<open>policy.k || []\<close>.\<close>

definition str_list :: "jval \<Rightarrow> string list" where
  "str_list v = map str_of (arr_of v)"

fun bestMatch_from :: "(string \<times> int) option \<Rightarrow> string list \<Rightarrow> string \<Rightarrow> (string \<times> int) option" where
  "bestMatch_from best [] key = best"
| "bestMatch_from best (pattern # ps) key =
     (if matchesPattern pattern key then
        (let specificity = patternSpecificity pattern in
          case best of
            None \<Rightarrow> bestMatch_from (Some (pattern, specificity)) ps key
          | Some (_, s) \<Rightarrow> if specificity > s then bestMatch_from (Some (pattern, specificity)) ps key
              else bestMatch_from best ps key)
      else bestMatch_from best ps key)"

definition bestMatch :: "string list \<Rightarrow> string \<Rightarrow> (string \<times> int) option" where
  "bestMatch patterns key = bestMatch_from None patterns key"

section \<open>Rules\<close>

definition enabled :: "jval \<Rightarrow> bool" where
  "enabled rule \<longleftrightarrow> truthy rule \<and> jget rule ''disabled'' \<noteq> JBool True
     \<and> jget rule ''status'' \<noteq> JStr ''disabled''"

definition exactActionRulesFor :: "jval list \<Rightarrow> jval \<Rightarrow> jval list" where
  "exactActionRulesFor rules action =
     (let metadata = jget action ''metadata'';
          key = jor (jget metadata ''approval_key'') (jget metadata ''decision_key'')
      in if \<not> truthy key then []
         else filter (\<lambda>rule. enabled rule \<and> strict_eq (jget rule ''decision_key'') key) rules)"

definition matchesAny :: "jval \<Rightarrow> jval \<Rightarrow> bool" where
  "matchesAny vals candidate =
     (if \<not> is_arr vals \<or> arr_of vals = [] then True else jincludes (arr_of vals) candidate)"

definition matchesAnyOverlap :: "jval \<Rightarrow> jval \<Rightarrow> bool" where
  "matchesAnyOverlap vals candidates =
     (if \<not> is_arr vals \<or> arr_of vals = [] then True
      else if \<not> is_arr candidates then False
      else list_ex (\<lambda>x. jincludes (arr_of candidates) x) (arr_of vals))"

record smatch =
  m_rule :: jval
  m_effect :: jval
  m_priority :: int
  m_specificity :: int
  m_actionPattern :: string
  m_resourcePattern :: string

definition patterns_or_star :: "jval \<Rightarrow> string list" where
  "patterns_or_star v = (if is_arr v \<and> arr_of v \<noteq> [] then str_list v else [''*''])"

definition list_max :: "int list \<Rightarrow> int" where
  "list_max xs = foldl max (hd xs) (tl xs)"

definition most_specific :: "string list \<Rightarrow> string" where
  "most_specific ps = hd (sort_by (\<lambda>a b. patternSpecificity b \<le> patternSpecificity a) ps)"

definition conditions_match :: "jval \<Rightarrow> jval \<Rightarrow> bool" where
  "conditions_match conditions metadata \<longleftrightarrow>
     matchesAny (jget conditions ''categories'') (jget metadata ''category'')
     \<and> matchesAny (jget conditions ''operations'') (jget metadata ''operation'')
     \<and> matchesAny (jget conditions ''sensitivities'') (jget metadata ''sensitivity'')
     \<and> matchesAny (jget conditions ''dataFlows'') (jget metadata ''data_flow'')
     \<and> matchesAny (jget conditions ''sideEffects'') (jget metadata ''side_effect'')
     \<and> matchesAny (jget conditions ''actorTypes'') (jget metadata ''actor_type'')
     \<and> matchesAny (jget conditions ''actorNames'') (jget metadata ''actor'')
     \<and> matchesAny (jget conditions ''sessionIds'') (jget metadata ''session_id'')
     \<and> matchesAny (jget conditions ''scopes'') (jget metadata ''scope'')
     \<and> matchesAny (jget conditions ''agentIds'') (jget metadata ''agent_id'')
     \<and> matchesAnyOverlap (jget conditions ''principalIds'') (jget metadata ''principal_ids'')
     \<and> matchesAny (jget conditions ''grantIds'') (jget metadata ''authority_grant_id'')
     \<and> matchesAny (jget conditions ''intentIds'') (jget metadata ''intent_id'')
     \<and> matchesAny (jget conditions ''taskIds'') (jget metadata ''task_id'')"

definition risk_in_range :: "jval \<Rightarrow> jval \<Rightarrow> bool" where
  "risk_in_range rule metadata =
     (let risk = jor (jget metadata ''risk'') (JStr ''safe'');
          lo = jget rule ''riskAtLeast''; hi = jget rule ''riskAtMost''
      in \<not> (truthy lo \<and> jlt (rank_of RISK_RANK risk) (rank_of RISK_RANK lo))
         \<and> \<not> (truthy hi \<and> jlt (rank_of RISK_RANK hi) (rank_of RISK_RANK risk)))"

definition structuredRuleMatch :: "jval \<Rightarrow> jval \<Rightarrow> smatch option" where
  "structuredRuleMatch rule action =
     (if \<not> enabled rule then None
      else let key = actionKey action;
               resource = str_of (jor (jget action ''target'') (JStr []));
               metadata = jor (jget action ''metadata'') (JObj []);
               actionMatches = filter (\<lambda>p. matchesPattern p key) (patterns_or_star (jget rule ''actions''));
               resourceMatches = filter (\<lambda>p. matchesResourcePattern p resource)
                 (patterns_or_star (jget rule ''resources''));
               conditions = jor (jget rule ''conditions'') (JObj [])
           in if actionMatches = [] then None
              else if resourceMatches = [] then None
              else if \<not> conditions_match conditions metadata then None
              else if \<not> risk_in_range rule metadata then None
              else Some \<lparr>
                m_rule = rule,
                m_effect = normalizeDecisionAction (jget rule ''effect''),
                m_priority = (if is_int (jget rule ''priority'') then num_of (jget rule ''priority'') else 0),
                m_specificity = list_max (map patternSpecificity actionMatches)
                  + list_max (map patternSpecificity resourceMatches)
                  + int (length (filter (\<lambda>(k, v). is_arr v \<and> arr_of v \<noteq> []) (props_of conditions))),
                m_actionPattern = most_specific actionMatches,
                m_resourcePattern = most_specific resourceMatches \<rparr>)"

definition tie_break :: "jval \<Rightarrow> int" where
  "tie_break effect = num_of (jor (rank_of EFFECT_TIE_BREAK effect) (JNum 0))"

definition compare_matches :: "host \<Rightarrow> smatch \<Rightarrow> smatch \<Rightarrow> int" where
  "compare_matches H a b =
     (if m_priority b - m_priority a \<noteq> 0 then m_priority b - m_priority a
      else if m_specificity b - m_specificity a \<noteq> 0 then m_specificity b - m_specificity a
      else if tie_break (m_effect b) - tie_break (m_effect a) \<noteq> 0
        then tie_break (m_effect b) - tie_break (m_effect a)
      else locale_compare H (to_str (jget (m_rule a) ''id'')) (to_str (jget (m_rule b) ''id'')))"

definition chooseStructuredMatch :: "host \<Rightarrow> smatch list \<Rightarrow> smatch option" where
  "chooseStructuredMatch H ms =
     (case sort_by (\<lambda>a b. compare_matches H a b \<le> 0) ms of [] \<Rightarrow> None | m # _ \<Rightarrow> Some m)"

section \<open>Decisions\<close>

definition structuredDecision :: "smatch \<Rightarrow> jval list \<Rightarrow> jval" where
  "structuredDecision m trace =
     (let rule = m_rule m; rid = to_str (jget rule ''id'') in
      JObj [(''action'', m_effect m),
        (''reason'', JStr (''matched structured rule '' @ rid
           @ (if truthy (jget rule ''description'') then '': '' @ to_str (jget rule ''description'') else []))),
        (''matchedPattern'', JStr (m_actionPattern m)),
        (''matchedRule'', JStr (''rules:'' @ rid)),
        (''matchedRules'', JArr [jget rule ''id'']),
        (''priority'', JNum (m_priority m)),
        (''specificity'', JNum (m_specificity m)),
        (''allowCritical'', JBool (jget rule ''allowCritical'' = JBool True)),
        (''trace'', JArr trace)])"

definition exactDecision :: "jval \<Rightarrow> jval list \<Rightarrow> jval" where
  "exactDecision rule trace =
     (let rid = jor (jget rule ''id'') (jget rule ''decision_key'') in
      JObj [(''action'', normalizeDecisionAction (jget rule ''effect'')),
        (''reason'', JStr (''matched exactActionRules: '' @ to_str rid)),
        (''matchedPattern'', jget rule ''decision_key''),
        (''matchedRule'', JStr (''exactActionRules:'' @ to_str rid)),
        (''matchedRules'', JArr [rid]),
        (''specificity'', JNum 100),
        (''allowCritical'', JBool (jget rule ''allowCritical'' = JBool True)),
        (''trace'', JArr trace)])"

definition exact_trace :: "jval \<Rightarrow> string \<Rightarrow> jval" where
  "exact_trace rule effect =
     JObj [(''stage'', JStr ''exact-action''), (''rule'', jor (jget rule ''id'') (jget rule ''decision_key'')),
       (''effect'', JStr effect), (''result'', JStr ''matched'')]"

definition structured_trace :: "smatch \<Rightarrow> jval" where
  "structured_trace m =
     JObj [(''stage'', JStr ''structured-rules''), (''rule'', jget (m_rule m) ''id''),
       (''effect'', m_effect m), (''result'', JStr ''matched''), (''priority'', JNum (m_priority m))]"

text \<open>The decisions that name a pattern of one of the three lists.\<close>

definition patternDecision :: "string \<Rightarrow> string \<Rightarrow> string \<times> int \<Rightarrow> jval \<Rightarrow> jval" where
  "patternDecision effect reason best entry =
     JObj [(''action'', JStr effect), (''reason'', JStr (reason @ fst best)),
       (''matchedPattern'', JStr (fst best)), (''matchedRule'', JStr (fst best)),
       (''matchedRules'', JArr [JStr (fst best)]), (''specificity'', JNum (snd best)),
       (''trace'', JArr [entry])]"

definition legacyDecision :: "jval \<Rightarrow> string \<Rightarrow> jval option" where
  "legacyDecision policy key =
     (case (bestMatch (str_list (jget policy ''allowedActions'')) key,
            bestMatch (str_list (jget policy ''approvalRequired'')) key) of
        (Some allowed, Some approval) \<Rightarrow>
          if snd allowed > snd approval then
            Some (patternDecision ''allow'' ''more-specific allowedActions match: '' allowed
              (JObj [(''stage'', JStr ''legacy-conflict''), (''result'', JStr ''allow''),
                 (''reason'', JStr ''more-specific allow'')]))
          else
            Some (patternDecision ''needs_approval''
              ((if snd approval > snd allowed then ''more-specific''
                else ''same-specificity allow/approval conflict;'') @ '' approvalRequired match: '') approval
              (JObj [(''stage'', JStr ''legacy-conflict''), (''result'', JStr ''needs_approval''),
                 (''reason'', JStr (if snd approval > snd allowed then ''more-specific approval''
                    else ''safe tie-break''))]))
      | (Some allowed, None) \<Rightarrow>
          Some (patternDecision ''allow'' ''matched allowedActions: '' allowed
            (JObj [(''stage'', JStr ''legacy-allowedActions''), (''pattern'', JStr (fst allowed)),
               (''result'', JStr ''allow'')]))
      | (None, Some approval) \<Rightarrow>
          Some (patternDecision ''needs_approval'' ''matched approvalRequired: '' approval
            (JObj [(''stage'', JStr ''legacy-approvalRequired''), (''pattern'', JStr (fst approval)),
               (''result'', JStr ''needs_approval'')]))
      | (None, None) \<Rightarrow> None)"

definition defaultDecision :: "jval \<Rightarrow> jval" where
  "defaultDecision policy =
     (let d = jor (jget policy ''defaultAction'') (JStr ''needs_approval'') in
      JObj [(''action'', d), (''reason'', JStr (''defaultAction: '' @ to_str d @ ''; no explicit policy match'')),
        (''matchedPattern'', JNull), (''matchedRule'', JStr ''defaultAction''), (''matchedRules'', JArr []),
        (''specificity'', JNum (- 1)),
        (''trace'', JArr [JObj [(''stage'', JStr ''default''), (''result'', d)]])])"

definition find_effect :: "string \<Rightarrow> jval list \<Rightarrow> jval option" where
  "find_effect effect rules = find (\<lambda>r. normalizeDecisionAction (jget r ''effect'') = JStr effect) rules"

definition structured_matches :: "jval \<Rightarrow> jval \<Rightarrow> smatch list" where
  "structured_matches policy action =
     List.map_filter (\<lambda>rule. structuredRuleMatch rule action) (arr_of (jget policy ''rules''))"

definition is_deny :: "smatch \<Rightarrow> bool" where
  "is_deny m \<longleftrightarrow> m_effect m = JStr ''deny''"

text \<open>The body of \<open>evaluatePolicy\<close> after validation, in the code's order.\<close>

definition decide :: "host \<Rightarrow> jval \<Rightarrow> jval \<Rightarrow> jval" where
  "decide H action policy =
     (let key = actionKey action;
          exacts = exactActionRulesFor (arr_of (jget policy ''exactActionRules'')) action;
          structured = structured_matches policy action
      in
      case find_effect ''deny'' exacts of Some r \<Rightarrow> exactDecision r [exact_trace r ''deny'']
      | None \<Rightarrow>
      (case chooseStructuredMatch H (filter is_deny structured) of
         Some m \<Rightarrow> structuredDecision m [structured_trace m]
       | None \<Rightarrow>
      (case bestMatch (str_list (jget policy ''blockedActions'')) key of
         Some blocked \<Rightarrow> patternDecision ''deny'' ''blockedActions always wins: '' blocked
           (JObj [(''stage'', JStr ''legacy-blockedActions''), (''pattern'', JStr (fst blocked)),
              (''effect'', JStr ''deny''), (''result'', JStr ''matched'')])
       | None \<Rightarrow>
      (case find_effect ''needs_approval'' exacts of
         Some r \<Rightarrow> exactDecision r [exact_trace r ''needs_approval'']
       | None \<Rightarrow>
      (case find_effect ''allow'' exacts of Some r \<Rightarrow> exactDecision r [exact_trace r ''allow'']
       | None \<Rightarrow>
      (case chooseStructuredMatch H structured of
         Some m \<Rightarrow> structuredDecision m [structured_trace m]
       | None \<Rightarrow>
      (case legacyDecision policy key of Some d \<Rightarrow> d
       | None \<Rightarrow> defaultDecision policy)))))))"

definition invalidActionDecision :: "string list \<Rightarrow> jval" where
  "invalidActionDecision errors =
     JObj [(''action'', JStr ''deny''), (''reason'', JStr (''invalid action: '' @ join_errors errors)),
       (''matchedPattern'', JNull), (''matchedRule'', JStr ''validation''),
       (''trace'', JArr [JObj [(''stage'', JStr ''validation''), (''result'', JStr ''deny'')]])]"

definition evaluatePolicy :: "host \<Rightarrow> jval \<Rightarrow> jval \<Rightarrow> jval res" where
  "evaluatePolicy H action rawPolicy =
     (if validateActionEnvelope action \<noteq> []
      then Inr (invalidActionDecision (validateActionEnvelope action))
      else bind_res (assertValidPolicy rawPolicy) (\<lambda>_. Inr (decide H action (normalizePolicy rawPolicy))))"

text \<open>\<open>RuleOakEngine\<close>: the constructor validates and stores the normalised policy, and
  \<open>evaluate\<close> evaluates against it.\<close>

record ruleoak_engine =
  engine_policy :: jval

definition new_engine :: "jval \<Rightarrow> ruleoak_engine res" where
  "new_engine policy = bind_res (assertValidPolicy policy) (\<lambda>_. Inr \<lparr>engine_policy = normalizePolicy policy\<rparr>)"

definition engine_evaluate :: "host \<Rightarrow> ruleoak_engine \<Rightarrow> jval \<Rightarrow> jval res" where
  "engine_evaluate H e action = evaluatePolicy H action (engine_policy e)"

end
