(* ===== verification/PolicyEngineProps.thy ===== *)
theory PolicyEngineProps
  imports PolicyEngine
begin

text \<open>
  What the policy engine guarantees.  \<open>rule_applies\<close> and \<open>denied_by\<close> say, without the
  engine's staging, when a structured rule applies to an action and when a policy has a reason
  to deny it; the properties relate the staged evaluation to them.
\<close>

section \<open>Pattern lists\<close>

lemma bestMatch_from_None: "bestMatch_from b ps key = None \<longleftrightarrow> b = None \<and> (\<forall>p\<in>set ps. \<not> matchesPattern p key)"
  by (induction b ps key rule: bestMatch_from.induct) (auto simp: Let_def split: option.splits)

lemma bestMatch_None [simp]: "bestMatch ps key = None \<longleftrightarrow> (\<forall>p\<in>set ps. \<not> matchesPattern p key)"
  by (simp add: bestMatch_def bestMatch_from_None)

lemma bestMatch_from_Some:
  "bestMatch_from b ps key = Some (p, s) \<Longrightarrow>
     (b = Some (p, s) \<or> (p \<in> set ps \<and> matchesPattern p key \<and> s = patternSpecificity p))
     \<and> (\<forall>p'\<in>set ps. matchesPattern p' key \<longrightarrow> patternSpecificity p' \<le> s)
     \<and> (\<forall>q t. b = Some (q, t) \<longrightarrow> t \<le> s)"
proof (induction b ps key rule: bestMatch_from.induct)
  case (2 best pattern ps key)
  show ?case
  proof (cases "matchesPattern pattern key")
    case m: True
    show ?thesis
    proof (cases best)
      case None
      then show ?thesis using 2 m by (auto simp: Let_def)
    next
      case (Some qt)
      obtain q t where "qt = (q, t)" by force
      then show ?thesis using 2 m Some by (fastforce simp: Let_def split: if_splits)
    qed
  next
    case False
    then show ?thesis using 2 by auto
  qed
qed auto

lemma bestMatch_Some:
  assumes "bestMatch ps key = Some (p, s)"
  shows "p \<in> set ps" "matchesPattern p key" "s = patternSpecificity p"
    "\<And>p'. p' \<in> set ps \<Longrightarrow> matchesPattern p' key \<Longrightarrow> patternSpecificity p' \<le> s"
  using bestMatch_from_Some [of None ps key p s] assms by (auto simp: bestMatch_def)

section \<open>Choice among structured rules\<close>

lemma chooseStructuredMatch_None [simp]: "chooseStructuredMatch H ms = None \<longleftrightarrow> ms = []"
proof -
  have "(case xs of [] \<Rightarrow> None | m # _ \<Rightarrow> Some m) = None \<longleftrightarrow> xs = []" for xs :: "smatch list"
    by (cases xs) simp_all
  then show ?thesis by (simp add: chooseStructuredMatch_def)
qed

lemma chooseStructuredMatch_Nil [simp]: "chooseStructuredMatch H [] = None"
  by simp

lemma chooseStructuredMatch_in: "chooseStructuredMatch H ms = Some m \<Longrightarrow> m \<in> set ms"
  unfolding chooseStructuredMatch_def
  by (metis (no_types, lifting) list.case_eq_if list.set_sel(1) option.distinct(1) option.inject set_sort_by)

definition collation_ok :: "host \<Rightarrow> bool" where
  "collation_ok H \<longleftrightarrow> total_preorder (\<lambda>a b. locale_compare H a b \<le> 0)"

lemma compare_matches_preorder:
  assumes "collation_ok H"
  shows "total_preorder (\<lambda>a b. compare_matches H a b \<le> 0)"
proof -
  let ?i = "\<lambda>a. to_str (jget (m_rule a) ''id'')"
  have tot: "locale_compare H x y \<le> 0 \<or> locale_compare H y x \<le> 0" for x y
    using assms by (auto simp: collation_ok_def total_preorder_def)
  have tr: "locale_compare H x y \<le> 0 \<Longrightarrow> locale_compare H y z \<le> 0 \<Longrightarrow> locale_compare H x z \<le> 0" for x y z
    using assms unfolding collation_ok_def total_preorder_def by blast
  have le: "compare_matches H a b \<le> 0 \<longleftrightarrow> m_priority b < m_priority a \<or> m_priority b = m_priority a \<and>
      (m_specificity b < m_specificity a \<or> m_specificity b = m_specificity a \<and>
       (tie_break (m_effect b) < tie_break (m_effect a) \<or> tie_break (m_effect b) = tie_break (m_effect a) \<and>
        locale_compare H (?i a) (?i b) \<le> 0))" for a b
    unfolding compare_matches_def by (auto split: if_splits)
  show ?thesis
    unfolding total_preorder_def
  proof (intro conjI allI impI)
    fix a b show "compare_matches H a b \<le> 0 \<or> compare_matches H b a \<le> 0"
      unfolding le using tot [of "?i a" "?i b"] by linarith
  next
    fix a b c assume "compare_matches H a b \<le> 0" "compare_matches H b c \<le> 0"
    then show "compare_matches H a c \<le> 0"
      unfolding le using tr [of "?i a" "?i b" "?i c"] by linarith
  qed
qed

lemma chooseStructuredMatch_least:
  assumes "collation_ok H" "chooseStructuredMatch H ms = Some m" "m' \<in> set ms"
  shows "compare_matches H m m' \<le> 0"
proof -
  let ?le = "\<lambda>a b. compare_matches H a b \<le> 0"
  note pre = compare_matches_preorder [OF assms(1)]
  obtain ms' where ms': "sort_by ?le ms = m # ms'"
    using assms(2) by (auto simp: chooseStructuredMatch_def split: list.splits)
  have "sorted_wrt ?le (m # ms')" using sorted_sort_by [OF pre, of ms] ms' by simp
  moreover have "m' \<in> set (m # ms')" using assms(3) ms' by (metis set_sort_by)
  ultimately show ?thesis using pre by (auto simp: total_preorder_def)
qed

section \<open>When a rule applies\<close>

definition rule_applies :: "jval \<Rightarrow> jval \<Rightarrow> bool" where
  "rule_applies rule action \<longleftrightarrow> enabled rule
     \<and> (\<exists>p\<in>set (patterns_or_star (jget rule ''actions'')). matchesPattern p (actionKey action))
     \<and> (\<exists>p\<in>set (patterns_or_star (jget rule ''resources'')).
          matchesResourcePattern p (str_of (jor (jget action ''target'') (JStr []))))
     \<and> conditions_match (jor (jget rule ''conditions'') (JObj [])) (jor (jget action ''metadata'') (JObj []))
     \<and> risk_in_range rule (jor (jget action ''metadata'') (JObj []))"

lemma structuredRuleMatch_None: "structuredRuleMatch rule action = None \<longleftrightarrow> \<not> rule_applies rule action"
  by (auto simp: structuredRuleMatch_def rule_applies_def Let_def filter_empty_conv)

lemma structuredRuleMatch_Some:
  "structuredRuleMatch rule action = Some m \<Longrightarrow>
     rule_applies rule action \<and> m_rule m = rule \<and> m_effect m = normalizeDecisionAction (jget rule ''effect'')
     \<and> m_priority m = (if is_int (jget rule ''priority'') then num_of (jget rule ''priority'') else 0)"
  using structuredRuleMatch_None [of rule action]
  by (auto simp: structuredRuleMatch_def Let_def split: if_splits)

lemma structured_matches_iff:
  "m \<in> set (structured_matches policy action) \<longleftrightarrow>
     (\<exists>rule\<in>set (arr_of (jget policy ''rules'')). structuredRuleMatch rule action = Some m)"
  unfolding structured_matches_def by (induction "arr_of (jget policy ''rules'')")
    (auto simp: List.map_filter_def image_iff)

text \<open>The effect of an applicable rule as the engine uses it.\<close>

definition effect_of :: "jval \<Rightarrow> jval" where
  "effect_of rule = normalizeDecisionAction (jget rule ''effect'')"

definition exact_rules_for :: "jval \<Rightarrow> jval \<Rightarrow> jval list" where
  "exact_rules_for policy action = exactActionRulesFor (arr_of (jget policy ''exactActionRules'')) action"

definition denied_by :: "jval \<Rightarrow> jval \<Rightarrow> bool" where
  "denied_by policy action \<longleftrightarrow>
     (\<exists>r\<in>set (exact_rules_for policy action). effect_of r = JStr ''deny'')
     \<or> (\<exists>r\<in>set (arr_of (jget policy ''rules'')). rule_applies r action \<and> effect_of r = JStr ''deny'')
     \<or> (\<exists>p\<in>set (str_list (jget policy ''blockedActions'')). matchesPattern p (actionKey action))"

text \<open>Some part of the policy says \<open>allow\<close> for the action.\<close>

definition allow_source :: "jval \<Rightarrow> jval \<Rightarrow> bool" where
  "allow_source policy action \<longleftrightarrow>
     (\<exists>r\<in>set (exact_rules_for policy action). effect_of r = JStr ''allow'')
     \<or> (\<exists>r\<in>set (arr_of (jget policy ''rules'')). rule_applies r action \<and> effect_of r = JStr ''allow'')
     \<or> (\<exists>p\<in>set (str_list (jget policy ''allowedActions'')). matchesPattern p (actionKey action))
     \<or> jget policy ''defaultAction'' = JStr ''allow''"

lemma find_effect_None: "find_effect e rs = None \<longleftrightarrow> (\<forall>r\<in>set rs. effect_of r \<noteq> JStr e)"
  by (auto simp: find_effect_def find_None_iff effect_of_def)

lemma find_effect_Some: "find_effect e rs = Some r \<Longrightarrow> r \<in> set rs \<and> effect_of r = JStr e"
  by (auto simp: find_effect_def find_Some_iff effect_of_def)

lemma deny_matches_Nil:
  "filter is_deny (structured_matches policy action) = [] \<longleftrightarrow>
     (\<forall>r\<in>set (arr_of (jget policy ''rules'')). rule_applies r action \<longrightarrow> effect_of r \<noteq> JStr ''deny'')"
proof -
  have "(\<exists>m\<in>set (structured_matches policy action). is_deny m) \<longleftrightarrow>
      (\<exists>r\<in>set (arr_of (jget policy ''rules'')). rule_applies r action \<and> effect_of r = JStr ''deny'')"
  proof
    assume "\<exists>m\<in>set (structured_matches policy action). is_deny m"
    then obtain m r where r: "r \<in> set (arr_of (jget policy ''rules''))"
      and m: "structuredRuleMatch r action = Some m" "is_deny m"
      using structured_matches_iff by blast
    have "rule_applies r action" "effect_of r = JStr ''deny''"
      using structuredRuleMatch_Some [OF m(1)] m(2) by (simp_all add: is_deny_def effect_of_def)
    with r show "\<exists>r\<in>set (arr_of (jget policy ''rules'')). rule_applies r action \<and> effect_of r = JStr ''deny''"
      by blast
  next
    assume "\<exists>r\<in>set (arr_of (jget policy ''rules'')). rule_applies r action \<and> effect_of r = JStr ''deny''"
    then obtain r m where r: "r \<in> set (arr_of (jget policy ''rules''))" "effect_of r = JStr ''deny''"
      "structuredRuleMatch r action = Some m"
      using structuredRuleMatch_None by blast
    then have "is_deny m" by (auto simp: is_deny_def effect_of_def dest: structuredRuleMatch_Some)
    with r show "\<exists>m\<in>set (structured_matches policy action). is_deny m"
      using structured_matches_iff by blast
  qed
  then show ?thesis by (auto simp: filter_empty_conv)
qed

section \<open>The verdict\<close>

abbreviation verdict :: "jval \<Rightarrow> jval" where
  "verdict d \<equiv> jget d ''action''"

lemma verdict_exact [simp]: "verdict (exactDecision r t) = effect_of r"
  by (simp add: exactDecision_def Let_def effect_of_def)

lemma verdict_structured [simp]: "verdict (structuredDecision m t) = m_effect m"
  by (simp add: structuredDecision_def Let_def)

lemma verdict_pattern [simp]: "verdict (patternDecision e rsn b x) = JStr e"
  by (simp add: patternDecision_def)

lemma verdict_default [simp]:
  "verdict (defaultDecision p) = jor (jget p ''defaultAction'') (JStr ''needs_approval'')"
  by (simp add: defaultDecision_def Let_def)

lemma verdict_invalid [simp]: "verdict (invalidActionDecision es) = JStr ''deny''"
  by (simp add: invalidActionDecision_def)

lemma decide_deny:
  assumes "denied_by policy action"
  shows "verdict (decide H action policy) = JStr ''deny''"
proof -
  let ?ex = "exact_rules_for policy action" and ?ms = "filter is_deny (structured_matches policy action)"
  have ex: "exactActionRulesFor (arr_of (jget policy ''exactActionRules'')) action = ?ex"
    by (simp add: exact_rules_for_def)
  note dec = decide_def [of H action policy, unfolded Let_def ex]
  show ?thesis
  proof (cases "find_effect ''deny'' ?ex")
    case (Some r)
    then show ?thesis by (auto simp: dec dest: find_effect_Some)
  next
    case e: None
    show ?thesis
    proof (cases "chooseStructuredMatch H ?ms")
      case (Some m)
      then have "is_deny m" using chooseStructuredMatch_in by force
      then show ?thesis using e Some by (simp add: dec is_deny_def)
    next
      case s: None
      have "\<exists>p\<in>set (str_list (jget policy ''blockedActions'')). matchesPattern p (actionKey action)"
        using assms e s by (auto simp: denied_by_def find_effect_None deny_matches_Nil)
      then obtain b where "bestMatch (str_list (jget policy ''blockedActions'')) (actionKey action) = Some b"
        using bestMatch_None by blast
      then show ?thesis using e s by (simp add: dec)
    qed
  qed
qed

lemma structured_verdict:
  assumes "chooseStructuredMatch H (structured_matches policy action) = Some m"
  obtains r where "r \<in> set (arr_of (jget policy ''rules''))" "rule_applies r action"
    "m_effect m = effect_of r" "m_rule m = r"
  using chooseStructuredMatch_in [OF assms]
  by (auto simp: structured_matches_iff effect_of_def dest: structuredRuleMatch_Some)

lemma legacy_verdict:
  assumes "legacyDecision policy key = Some d"
  shows "(\<exists>p\<in>set (str_list (jget policy ''allowedActions'')). matchesPattern p key \<and> verdict d = JStr ''allow'')
    \<or> (\<exists>p\<in>set (str_list (jget policy ''approvalRequired'')). matchesPattern p key \<and> verdict d = JStr ''needs_approval'')"
proof -
  let ?al = "bestMatch (str_list (jget policy ''allowedActions'')) key"
    and ?ap = "bestMatch (str_list (jget policy ''approvalRequired'')) key"
  have al: "?al = Some b \<Longrightarrow> fst b \<in> set (str_list (jget policy ''allowedActions'')) \<and> matchesPattern (fst b) key" for b
    using bestMatch_Some(1,2) by (cases b) auto
  have ap: "?ap = Some b \<Longrightarrow> fst b \<in> set (str_list (jget policy ''approvalRequired'')) \<and> matchesPattern (fst b) key" for b
    using bestMatch_Some(1,2) by (cases b) auto
  show ?thesis
  proof (cases ?al)
    case None
    then show ?thesis using assms ap
      by (cases ?ap) (auto simp: legacyDecision_def simp del: bestMatch_None)
  next
    case a: (Some a)
    show ?thesis
    proof (cases ?ap)
      case None
      then show ?thesis using assms a al [OF a] by (auto simp: legacyDecision_def simp del: bestMatch_None)
    next
      case (Some b)
      then show ?thesis using assms a al [OF a] ap [OF Some]
        by (auto simp: legacyDecision_def simp del: bestMatch_None split: if_splits)
    qed
  qed
qed

text \<open>Where the verdict of an undenied action comes from.\<close>

lemma decide_cases:
  assumes "\<not> denied_by policy action"
  obtains
    (exact) r where "r \<in> set (exact_rules_for policy action)" "verdict (decide H action policy) = effect_of r"
      "effect_of r = JStr ''needs_approval'' \<or> effect_of r = JStr ''allow''"
  | (rule) r where "r \<in> set (arr_of (jget policy ''rules''))" "rule_applies r action"
      "verdict (decide H action policy) = effect_of r"
  | (allowed) p where "p \<in> set (str_list (jget policy ''allowedActions''))"
      "matchesPattern p (actionKey action)" "verdict (decide H action policy) = JStr ''allow''"
  | (approval) p where "p \<in> set (str_list (jget policy ''approvalRequired''))"
      "matchesPattern p (actionKey action)" "verdict (decide H action policy) = JStr ''needs_approval''"
  | (default) "verdict (decide H action policy) = jor (jget policy ''defaultAction'') (JStr ''needs_approval'')"
proof -
  let ?ex = "exact_rules_for policy action" and ?ms = "structured_matches policy action"
  have ex: "exactActionRulesFor (arr_of (jget policy ''exactActionRules'')) action = ?ex"
    by (simp add: exact_rules_for_def)
  have 1: "find_effect ''deny'' ?ex = None" "chooseStructuredMatch H (filter is_deny ?ms) = None"
    "bestMatch (str_list (jget policy ''blockedActions'')) (actionKey action) = None"
    using assms by (auto simp: denied_by_def find_effect_None deny_matches_Nil)
  note dec = decide_def [of H action policy, unfolded Let_def ex 1 option.case]
  show ?thesis
  proof (cases "find_effect ''needs_approval'' ?ex")
    case (Some r)
    then show ?thesis by (intro exact [of r]) (auto simp: dec dest: find_effect_Some)
  next
    case na: None
    show ?thesis
    proof (cases "find_effect ''allow'' ?ex")
      case (Some r)
      then show ?thesis using na by (intro exact [of r]) (auto simp: dec dest: find_effect_Some)
    next
      case al: None
      show ?thesis
      proof (cases "chooseStructuredMatch H ?ms")
        case (Some m)
        obtain r where "r \<in> set (arr_of (jget policy ''rules''))" "rule_applies r action"
          "m_effect m = effect_of r"
          using Some by (rule structured_verdict)
        then show ?thesis using na al Some by (intro rule [of r]) (simp_all add: dec)
      next
        case st: None
        show ?thesis
        proof (cases "legacyDecision policy (actionKey action)")
          case None
          then show ?thesis using na al st by (intro default) (simp add: dec)
        next
          case (Some d)
          then have "decide H action policy = d" using na al st by (simp add: dec)
          then show ?thesis using legacy_verdict [OF Some] by (blast intro: allowed approval)
        qed
      qed
    qed
  qed
qed

section \<open>Normalisation of the policy\<close>

lemma jget_normalizePolicy:
  "k \<noteq> ''policyVersion'' \<Longrightarrow> k \<noteq> ''defaultAction'' \<Longrightarrow> jget (normalizePolicy p) k = jget p k"
  by (auto simp: normalizePolicy_def jget_jspread jhas_False)

lemma normalizePolicy_default:
  "jget (normalizePolicy p) ''defaultAction'' =
     normalizeDecisionAction (jor (jget p ''defaultAction'') (JStr ''needs_approval''))"
  by (simp add: normalizePolicy_def)

lemma normalizePolicy_version:
  "jget (normalizePolicy p) ''policyVersion'' =
     (if jhas p ''policyVersion'' then jget p ''policyVersion''
      else JNum (if is_arr (jget p ''rules'') then 2 else 1))"
  by (auto simp: normalizePolicy_def jget_jspread jhas_False)

lemma denied_by_normalizePolicy [simp]: "denied_by (normalizePolicy p) a = denied_by p a"
  by (simp add: denied_by_def exact_rules_for_def jget_normalizePolicy)

lemma evaluatePolicy_valid:
  assumes "validateActionEnvelope a = []" "validatePolicy p = []"
  shows "evaluatePolicy H a p = Inr (decide H a (normalizePolicy p))"
  using assms by (simp add: evaluatePolicy_def assertValidPolicy_def)

lemma evaluatePolicy_Inr:
  assumes "evaluatePolicy H a p = Inr d"
  shows "(validateActionEnvelope a \<noteq> [] \<and> d = invalidActionDecision (validateActionEnvelope a))
    \<or> (validateActionEnvelope a = [] \<and> validatePolicy p = [] \<and> d = decide H a (normalizePolicy p))"
  using assms by (auto simp: evaluatePolicy_def assertValidPolicy_def res_simps split: if_splits)

lemma effect_of_canonical:
  "one_of POLICY_EFFECTS (jget r ''effect'') \<Longrightarrow> one_of CANONICAL_DECISIONS (effect_of r)"
  by (auto simp: effect_of_def normalizeDecisionAction_def one_of_iff POLICY_EFFECTS_def CANONICAL_DECISIONS_def)

lemma normalize_canonical:
  "one_of POLICY_EFFECTS v \<Longrightarrow> one_of CANONICAL_DECISIONS (normalizeDecisionAction v)"
  by (auto simp: normalizeDecisionAction_def one_of_iff POLICY_EFFECTS_def CANONICAL_DECISIONS_def)

lemma normalizeDecisionAction_idem [simp]:
  "normalizeDecisionAction (normalizeDecisionAction v) = normalizeDecisionAction v"
  by (simp add: normalizeDecisionAction_def)

lemma truthy_normalizeDecisionAction [simp]: "truthy (normalizeDecisionAction v) = truthy v"
  by (auto simp: normalizeDecisionAction_def)

lemma exact_rules_for_enabled: "r \<in> set (exact_rules_for p a) \<Longrightarrow> r \<in> set (arr_of (jget p ''exactActionRules''))"
  by (auto simp: exact_rules_for_def exactActionRulesFor_def Let_def split: if_splits)

text \<open>\<open>decide\<close> reads six properties of the policy.\<close>

lemma decide_cong:
  assumes e: "jget p ''exactActionRules'' = jget q ''exactActionRules''" "jget p ''rules'' = jget q ''rules''"
    "jget p ''blockedActions'' = jget q ''blockedActions''" "jget p ''allowedActions'' = jget q ''allowedActions''"
    "jget p ''approvalRequired'' = jget q ''approvalRequired''" "jget p ''defaultAction'' = jget q ''defaultAction''"
  shows "decide H a p = decide H a q"
  unfolding decide_def legacyDecision_def defaultDecision_def structured_matches_def e by (rule refl)

lemma normalize_default_idem:
  "jget (normalizePolicy (normalizePolicy p)) ''defaultAction'' = jget (normalizePolicy p) ''defaultAction''"
proof -
  have "jor (normalizeDecisionAction (jor v (JStr ''needs_approval''))) (JStr ''needs_approval'')
      = normalizeDecisionAction (jor v (JStr ''needs_approval''))" for v
    by (rule jor_truthy) simp
  then show ?thesis by (simp only: normalizePolicy_default normalizeDecisionAction_idem)
qed

lemma decide_normalize_idem: "decide H a (normalizePolicy (normalizePolicy p)) = decide H a (normalizePolicy p)"
  by (rule decide_cong) (simp_all add: jget_normalizePolicy normalize_default_idem)

lemma validatePolicy_Nil_iff:
  "validatePolicy p = [] \<longleftrightarrow> is_obj p
    \<and> (present (jget p ''policyVersion'') \<longrightarrow> jget p ''policyVersion'' = JNum 1 \<or> jget p ''policyVersion'' = JNum 2)
    \<and> (present (jget p ''defaultAction'') \<longrightarrow> one_of POLICY_EFFECTS (jget p ''defaultAction''))
    \<and> (\<forall>key\<in>set [''allowedActions'', ''approvalRequired'', ''blockedActions''].
        present (jget p key) \<longrightarrow> validateStringArray (jget p key) (''policy.'' @ key) False = [])
    \<and> (present (jget p ''exactActionRules'') \<longrightarrow> validateExactActionRules (jget p ''exactActionRules'') = [])
    \<and> (present (jget p ''rules'') \<longrightarrow> validateStructuredRules (jget p ''rules'') = [])"
  unfolding validatePolicy_def by (simp only: append_is_Nil_conv err_if_Nil concat_eq_Nil_conv set_map ball_simps split: if_split) blast

lemma validatePolicy_cong:
  assumes "validatePolicy p = []" "is_obj q"
    and "present (jget q ''policyVersion'') \<longrightarrow> jget q ''policyVersion'' = JNum 1 \<or> jget q ''policyVersion'' = JNum 2"
    and "present (jget q ''defaultAction'') \<longrightarrow> one_of POLICY_EFFECTS (jget q ''defaultAction'')"
    and eq: "\<And>k. k \<noteq> ''policyVersion'' \<Longrightarrow> k \<noteq> ''defaultAction'' \<Longrightarrow> jget q k = jget p k"
  shows "validatePolicy q = []"
proof -
  have l: "\<forall>key\<in>set [''allowedActions'', ''approvalRequired'', ''blockedActions''].
      present (jget q key) \<longrightarrow> validateStringArray (jget q key) (''policy.'' @ key) False = []"
    if "\<forall>key\<in>set [''allowedActions'', ''approvalRequired'', ''blockedActions''].
      present (jget p key) \<longrightarrow> validateStringArray (jget p key) (''policy.'' @ key) False = []"
    using that by (simp add: eq)
  have e: "jget q ''exactActionRules'' = jget p ''exactActionRules''" "jget q ''rules'' = jget p ''rules''"
    by (simp_all add: eq)
  note v = assms(1) [unfolded validatePolicy_Nil_iff]
  show ?thesis
    unfolding validatePolicy_Nil_iff e
    using v by (intro conjI assms(2-4) l) (elim conjE, assumption)+
qed

lemma validatePolicy_normalize:
  assumes "validatePolicy p = []"
  shows "validatePolicy (normalizePolicy p) = []"
proof (rule validatePolicy_cong [OF assms])
  show "is_obj (normalizePolicy p)" by (simp add: normalizePolicy_def)
  note v = assms [unfolded validatePolicy_Nil_iff]
  have "present (jget p ''policyVersion'') \<longrightarrow> jget p ''policyVersion'' = JNum 1 \<or> jget p ''policyVersion'' = JNum 2"
    using v by blast
  then show "present (jget (normalizePolicy p) ''policyVersion'') \<longrightarrow>
      jget (normalizePolicy p) ''policyVersion'' = JNum 1 \<or> jget (normalizePolicy p) ''policyVersion'' = JNum 2"
    unfolding normalizePolicy_version by (simp add: present_def split: if_split)
  have "present (jget p ''defaultAction'') \<longrightarrow> one_of POLICY_EFFECTS (jget p ''defaultAction'')"
    using v by blast
  then have "jget p ''defaultAction'' = JUndef \<or> one_of POLICY_EFFECTS (jget p ''defaultAction'')"
    by (auto simp: present_def)
  then show "present (jget (normalizePolicy p) ''defaultAction'') \<longrightarrow>
      one_of POLICY_EFFECTS (jget (normalizePolicy p) ''defaultAction'')"
    by (auto simp: normalizePolicy_default normalizeDecisionAction_def one_of_iff POLICY_EFFECTS_def)
qed (rule jget_normalizePolicy)

section \<open>Properties\<close>

definition wit_host :: host where
  "wit_host = \<lparr>sha256 = (\<lambda>s. ''d''), hmac_hex = (\<lambda>k s. k @ '':'' @ s), now_ms = 1767225600000,
     fresh_uuid = (\<lambda>i. ''uuid'' @ nat_str i), locale_compare = (\<lambda>a b. if a = b then 0 else if a < b then -1 else 1), nfkc = (\<lambda>s. s)\<rparr>"

definition wit_action :: jval where
  "wit_action = JObj [(''type'', JStr ''file.delete''), (''target'', JStr ''/srv/data''),
     (''arguments'', JObj []), (''metadata'', JObj [(''category'', JStr ''file''), (''risk'', JStr ''high'')])]"

definition wit_policy :: jval where
  "wit_policy = JObj [(''rules'', JArr [
      JObj [(''id'', JStr ''open''), (''effect'', JStr ''allow''), (''priority'', JNum 100)],
      JObj [(''id'', JStr ''no-delete''), (''effect'', JStr ''block''), (''priority'', JNum (- 5)),
        (''actions'', JArr [JStr ''*.delete'']), (''riskAtLeast'', JStr ''medium'')]]),
     (''allowedActions'', JArr [JStr ''file.*''])]"

definition wit_open_policy :: jval where
  "wit_open_policy = JObj [(''allowedActions'', JArr [JStr ''file.*'']), (''approvalRequired'', JArr [JStr ''*''])]"

text \<open>C2: Deny overrides.  For a valid action and a valid policy, if any enabled exact rule, any
  applicable structured rule or any blocked-action pattern denies the action, the evaluation
  returns deny, whatever the priorities and specificities of the rules that allow it.\<close>

theorem deny_overrides:
  assumes "validateActionEnvelope a = []" "validatePolicy p = []" "denied_by p a"
  shows "\<exists>d. evaluatePolicy H a p = Inr d \<and> verdict d = JStr ''deny''"
  using assms by (simp add: evaluatePolicy_valid decide_deny)

theorem deny_overrides_witness:
  "denied_by wit_policy wit_action \<and>
   (\<exists>d. evaluatePolicy wit_host wit_action wit_policy = Inr d \<and> verdict d = JStr ''deny'')"
proof -
  have h: "validateActionEnvelope wit_action = []" "validatePolicy wit_policy = []" "denied_by wit_policy wit_action"
    by code_simp+
  show ?thesis using h(3) deny_overrides [OF h] by blast
qed

text \<open>C14: Nothing is allowed without a reason.  When the evaluation returns allow, the action is
  valid, nothing in the policy denies it, and an exact rule, an applicable structured rule, an
  allowed-action pattern or the policy's own default says allow.\<close>

theorem allow_has_source:
  assumes "evaluatePolicy H a p = Inr d" "verdict d = JStr ''allow''"
  shows "validateActionEnvelope a = [] \<and> \<not> denied_by p a \<and> allow_source p a"
proof -
  from evaluatePolicy_Inr [OF assms(1)] assms(2)
  have v: "validateActionEnvelope a = []" and d: "d = decide H a (normalizePolicy p)" by auto
  have nd: "\<not> denied_by (normalizePolicy p) a"
    using decide_deny [of "normalizePolicy p" a H] assms(2) d by auto
  have al: "verdict (decide H a (normalizePolicy p)) = JStr ''allow''" using assms(2) d by simp
  from nd have "allow_source p a"
  proof (cases rule: decide_cases [where H = H])
    case default
    then show ?thesis using al
      by (auto simp: allow_source_def normalizePolicy_default normalizeDecisionAction_def jor_def split: if_splits)
  qed (use al in \<open>auto simp: allow_source_def exact_rules_for_def jget_normalizePolicy\<close>)
  with v nd show ?thesis by simp
qed

theorem allow_has_source_witness:
  "allow_source wit_open_policy wit_action \<and> \<not> denied_by wit_open_policy wit_action"
proof -
  have h: "evaluatePolicy wit_host wit_action wit_open_policy =
      Inr (decide wit_host wit_action (normalizePolicy wit_open_policy))"
    "verdict (decide wit_host wit_action (normalizePolicy wit_open_policy)) = JStr ''allow''"
    by (rule evaluatePolicy_valid; code_simp) code_simp
  show ?thesis using allow_has_source [OF h] by blast
qed

text \<open>C34: Every decision the engine returns is one of allow, deny, needs approval and dry run:
  the alias block is always resolved, and an invalid action is a deny, not an exception.\<close>

theorem evaluatePolicy_canonical:
  assumes "evaluatePolicy H a p = Inr d"
  shows "one_of CANONICAL_DECISIONS (verdict d)"
proof -
  consider "d = invalidActionDecision (validateActionEnvelope a)"
    | "validatePolicy p = []" "d = decide H a (normalizePolicy p)"
    using evaluatePolicy_Inr [OF assms] by blast
  then show ?thesis
  proof cases
    case 2
    have ok: "policy_ok (normalizePolicy p)" using validatePolicy_ok validatePolicy_normalize 2(1) by blast
    have rule: "one_of CANONICAL_DECISIONS (effect_of r)" if "r \<in> set (arr_of (jget (normalizePolicy p) ''rules''))" for r
      using ok that by (intro effect_of_canonical) (simp add: policy_ok_def structured_rule_ok_def)
    have default: "one_of CANONICAL_DECISIONS (jor (jget (normalizePolicy p) ''defaultAction'') (JStr ''needs_approval''))"
      using validatePolicy_Nil [OF 2(1)]
      by (auto simp: present_def normalizePolicy_default normalizeDecisionAction_def one_of_iff
          POLICY_EFFECTS_def CANONICAL_DECISIONS_def)
    show ?thesis
    proof (cases "denied_by (normalizePolicy p) a")
      case True
      then show ?thesis by (simp only: 2(2) decide_deny) (simp add: CANONICAL_DECISIONS_def)
    next
      case False
      then show ?thesis unfolding 2(2)
        by (cases rule: decide_cases [where H = H])
          (use rule default in \<open>auto simp: CANONICAL_DECISIONS_def\<close>)
    qed
  qed (simp add: CANONICAL_DECISIONS_def)
qed

theorem evaluatePolicy_canonical_witness:
  "one_of CANONICAL_DECISIONS (verdict (decide wit_host wit_action (normalizePolicy wit_policy)))"
  by (rule evaluatePolicy_canonical [of wit_host wit_action wit_policy], rule evaluatePolicy_valid; code_simp)

text \<open>Fail closed.  A valid action that no exact rule, structured rule or pattern of the
  policy matches gets the policy's default action, and needs approval when there is none.\<close>

theorem unmatched_gets_default:
  assumes "validateActionEnvelope a = []" "validatePolicy p = []"
    and "exact_rules_for p a = []" "\<forall>r\<in>set (arr_of (jget p ''rules'')). \<not> rule_applies r a"
    and "\<forall>k\<in>{''blockedActions'', ''allowedActions'', ''approvalRequired''}.
      \<forall>q\<in>set (str_list (jget p k)). \<not> matchesPattern q (actionKey a)"
  shows "\<exists>d. evaluatePolicy H a p = Inr d \<and> verdict d =
    (if jget p ''defaultAction'' = JUndef then JStr ''needs_approval''
     else normalizeDecisionAction (jget p ''defaultAction''))"
proof -
  have "\<not> denied_by p a" using assms(3-5) by (auto simp: denied_by_def)
  then have nd: "\<not> denied_by (normalizePolicy p) a" by simp
  have def: "jget p ''defaultAction'' = JUndef \<or> one_of POLICY_EFFECTS (jget p ''defaultAction'')"
    using validatePolicy_ok [OF assms(2)] by (simp add: policy_ok_def)
  have "verdict (decide H a (normalizePolicy p)) =
      jor (jget (normalizePolicy p) ''defaultAction'') (JStr ''needs_approval'')"
    using nd by (cases rule: decide_cases [where H = H])
      (use assms(3-5) in \<open>auto simp: jget_normalizePolicy exact_rules_for_def\<close>)
  then show ?thesis
    using assms(1,2) def
    by (auto simp: evaluatePolicy_valid normalizePolicy_default normalizeDecisionAction_def one_of_iff
        POLICY_EFFECTS_def)
qed

theorem unmatched_gets_default_witness:
  "\<exists>d. evaluatePolicy wit_host (JObj [(''type'', JStr ''shell.execute'')]) (JObj [(''blockedActions'', JArr [JStr ''file.*''])])
     = Inr d \<and> verdict d = JStr ''needs_approval''"
proof -
  let ?a = "JObj [(''type'', JStr ''shell.execute'')]" and ?p = "JObj [(''blockedActions'', JArr [JStr ''file.*''])]"
  have h: "validateActionEnvelope ?a = []" "validatePolicy ?p = []" "exact_rules_for ?p ?a = []"
    "\<forall>r\<in>set (arr_of (jget ?p ''rules'')). \<not> rule_applies r ?a"
    "\<forall>k\<in>{''blockedActions'', ''allowedActions'', ''approvalRequired''}.
      \<forall>q\<in>set (str_list (jget ?p k)). \<not> matchesPattern q (actionKey ?a)"
    by code_simp+
  show ?thesis using unmatched_gets_default [OF h, of wit_host] by simp
qed

text \<open>C26: Among the structured rules that apply and do not deny, the engine decides by one that
  no other precedes: none has a higher priority, none of the same priority a higher
  specificity, and none of the same both a stricter effect.\<close>

theorem structured_choice_is_first:
  assumes "collation_ok H" "chooseStructuredMatch H (structured_matches p a) = Some m"
    and "r \<in> set (arr_of (jget p ''rules''))" "structuredRuleMatch r a = Some m'"
  shows "m_priority m' \<le> m_priority m
    \<and> (m_priority m' = m_priority m \<longrightarrow> m_specificity m' \<le> m_specificity m)
    \<and> (m_priority m' = m_priority m \<longrightarrow> m_specificity m' = m_specificity m \<longrightarrow>
        tie_break (m_effect m') \<le> tie_break (m_effect m))"
proof -
  have "m' \<in> set (structured_matches p a)" using assms(3,4) structured_matches_iff by blast
  from chooseStructuredMatch_least [OF assms(1,2) this] show ?thesis
    by (auto simp: compare_matches_def split: if_splits)
qed

theorem structured_choice_is_first_witness:
  "\<exists>m. chooseStructuredMatch wit_host (structured_matches wit_policy wit_action) = Some m
     \<and> -5 \<le> m_priority m"
proof -
  let ?r = "JObj [(''id'', JStr ''no-delete''), (''effect'', JStr ''block''), (''priority'', JNum (- 5)),
        (''actions'', JArr [JStr ''*.delete'']), (''riskAtLeast'', JStr ''medium'')]"
  have c: "collation_ok wit_host"
    by (auto simp: collation_ok_def total_preorder_def wit_host_def)
  obtain m where m: "chooseStructuredMatch wit_host (structured_matches wit_policy wit_action) = Some m"
    using chooseStructuredMatch_None [of wit_host "structured_matches wit_policy wit_action"]
    by (cases "chooseStructuredMatch wit_host (structured_matches wit_policy wit_action)") (simp, code_simp, simp)
  have r: "?r \<in> set (arr_of (jget wit_policy ''rules''))" by code_simp
  have "rule_applies ?r wit_action" by code_simp
  then obtain m' where m': "structuredRuleMatch ?r wit_action = Some m'"
    using structuredRuleMatch_None by blast
  have "m_priority m' = -5" using structuredRuleMatch_Some [OF m'] by simp
  then show ?thesis using structured_choice_is_first [OF c m r m'] m by auto
qed

text \<open>C33: An engine object answers as the function does: a policy the constructor accepts gives,
  for every action, the decision of evaluating the original policy, although the engine
  validates and normalises the stored policy a second time.\<close>

theorem engine_agrees:
  assumes "new_engine p = Inr e"
  shows "engine_evaluate H e a = evaluatePolicy H a p"
proof -
  have v: "validatePolicy p = []" and e: "engine_policy e = normalizePolicy p"
    using assms by (auto simp: new_engine_def assertValidPolicy_def res_simps)
  show ?thesis
    using v validatePolicy_normalize [OF v] decide_normalize_idem
    by (simp add: engine_evaluate_def e evaluatePolicy_def assertValidPolicy_def)
qed

theorem engine_agrees_witness:
  "\<exists>e. new_engine wit_policy = Inr e \<and> engine_evaluate wit_host e wit_action = evaluatePolicy wit_host wit_action wit_policy"
proof -
  have "validatePolicy wit_policy = []" by code_simp
  then have h: "new_engine wit_policy = Inr \<lparr>engine_policy = normalizePolicy wit_policy\<rparr>"
    by (simp add: new_engine_def assertValidPolicy_def)
  show ?thesis using h engine_agrees [OF h] by blast
qed

end
