(* ===== verification/Clock.thy ===== *)
theory Clock
  imports JSDate
begin

text \<open>
  Dates as the authority core uses them: \<open>new Date(v || new Date())\<close>, \<open>toISOString\<close> (which throws
  on an invalid date), and the interface of a narrowing order that budgets, obligations and
  resource patterns share.
\<close>

definition date_or_now :: "host \<Rightarrow> jval \<Rightarrow> int option" where
  "date_or_now H v = (if truthy v then to_date v else Some (now_ms H))"

text \<open>\<open>new Date(v || 0).getTime()\<close>.\<close>

definition date_or_zero :: "jval \<Rightarrow> int option" where
  "date_or_zero v = (if truthy v then to_date v else Some 0)"

definition to_iso :: "int option \<Rightarrow> string res" where
  "to_iso t = (case t of None \<Rightarrow> Inl (Error ''Invalid time value'') | Some n \<Rightarrow> Inr (iso_string n))"

text \<open>\<open>new Date(n)\<close> for a computed number of milliseconds, and \<open>String(new Date(n))\<close> read back:
  the text has no milliseconds.\<close>

definition time_clip :: "int \<Rightarrow> int option" where
  "time_clip n = (if \<bar>n\<bar> \<le> max_time then Some n else None)"

definition clock_ok :: "host \<Rightarrow> bool" where
  "clock_ok H \<longleftrightarrow> \<bar>now_ms H\<bar> \<le> max_time"

lemma date_or_now_bound: "date_or_now H v = Some t \<Longrightarrow> clock_ok H \<Longrightarrow> \<bar>t\<bar> \<le> max_time"
  by (auto simp: date_or_now_def clock_ok_def dest: to_date_bound split: if_splits)

lemma date_or_zero_bound: "date_or_zero v = Some t \<Longrightarrow> \<bar>t\<bar> \<le> max_time"
  by (auto simp: date_or_zero_def max_time_def dest: to_date_bound [unfolded max_time_def] split: if_splits)

lemma to_iso_eq_Inr: "to_iso t = Inr s \<longleftrightarrow> (\<exists>n. t = Some n \<and> s = iso_string n)"
  by (auto simp: to_iso_def split: option.splits)

lemma to_iso_Some [simp]: "to_iso (Some n) = Inr (iso_string n)"
  by (simp add: to_iso_def)

lemma truthy_iso [simp]: "truthy (JStr (iso_string t))"
  by simp

lemma time_clip_Some: "time_clip n = Some t \<longleftrightarrow> t = n \<and> \<bar>n\<bar> \<le> max_time"
  by (auto simp: time_clip_def)

section \<open>Narrowing\<close>

text \<open>The result of a containment test: its errors and the two normalised sides.\<close>

record 'a within =
  within_errors :: "string list"
  within_child :: 'a
  within_parent :: 'a

text \<open>A narrowing order: whatever the child permits the parent permits.  The chain law is proved
  once here and used for every kind of authority.\<close>

locale attenuation =
  fixes wf :: "'a \<Rightarrow> bool"
    and le :: "'a \<Rightarrow> 'a \<Rightarrow> bool"
    and permits :: "'a \<Rightarrow> 'x \<Rightarrow> bool"
  assumes sound: "wf c \<Longrightarrow> wf p \<Longrightarrow> le c p \<Longrightarrow> permits c x \<Longrightarrow> permits p x"
begin

fun chain :: "'a list \<Rightarrow> bool" where
  "chain (c # p # ps) = (le c p \<and> chain (p # ps))"
| "chain _ = True"

lemma chain_permits:
  "chain (c # ps) \<Longrightarrow> list_all wf (c # ps) \<Longrightarrow> permits c x \<Longrightarrow> p \<in> set (c # ps) \<Longrightarrow> permits p x"
proof (induction ps arbitrary: c)
  case (Cons q qs)
  then have "permits q x" using sound [of c q x] by auto
  with Cons show ?case by auto
qed simp

end

end
