(* ===== verification/CanonicalJson.thy ===== *)
theory CanonicalJson
  imports JSValue
begin

text \<open>
  JSON text.  \<open>json_quote\<close> and \<open>json_stringify\<close> are \<^verbatim>\<open>JSON.stringify\<close>;
  \<open>canonicalStringify\<close> is the key-sorting serialiser of \<^verbatim>\<open>decision/receipt.js\<close>, over which
  every digest and signature of the program is taken (the same function is written out again
  as \<open>stableStringify\<close> in \<^verbatim>\<open>permission/approval.js\<close> and as \<open>canonicalProtocolJson\<close> in
  \<^verbatim>\<open>protocol/src/index.js\<close>).

  The main result is that the text determines the value up to the order of object keys, for
  every value without \<open>NaN\<close> and without \<open>undefined\<close> inside an array: what a digest covers
  is the whole value.
\<close>

section \<open>Strings\<close>

definition hex_char :: "nat \<Rightarrow> char" where
  "hex_char n = (if n < 10 then char_of (48 + n) else char_of (87 + n))"

definition json_esc :: "char \<Rightarrow> string" where
  "json_esc c = (let n = of_char c :: nat in
     if c = CHR 0x22 then [CHR 0x5C, CHR 0x22]
     else if c = CHR 0x5C then [CHR 0x5C, CHR 0x5C]
     else if n = 8 then [CHR 0x5C, CHR ''b'']
     else if n = 12 then [CHR 0x5C, CHR ''f'']
     else if n = 10 then [CHR 0x5C, CHR ''n'']
     else if n = 13 then [CHR 0x5C, CHR ''r'']
     else if n = 9 then [CHR 0x5C, CHR ''t'']
     else if n < 32 then [CHR 0x5C, CHR ''u'', CHR ''0'', CHR ''0'', hex_char (n div 16), hex_char (n mod 16)]
     else [c])"

lemma json_esc_code [code]:
  "json_esc c =
     (if c = CHR 0x22 then [CHR 0x5C, CHR 0x22]
      else if c = CHR 0x5C then [CHR 0x5C, CHR 0x5C]
      else if char_le CHR 0x20 c then [c]
      else let n = of_char c :: nat in
        if n = 8 then [CHR 0x5C, CHR ''b'']
        else if n = 12 then [CHR 0x5C, CHR ''f'']
        else if n = 10 then [CHR 0x5C, CHR ''n'']
        else if n = 13 then [CHR 0x5C, CHR ''r'']
        else if n = 9 then [CHR 0x5C, CHR ''t'']
        else [CHR 0x5C, CHR ''u'', CHR ''0'', CHR ''0'', hex_char (n div 16), hex_char (n mod 16)])"
  by (simp add: json_esc_def char_le_def Let_def)

definition json_quote :: "string \<Rightarrow> string" where
  "json_quote s = CHR 0x22 # concat (map json_esc s) @ [CHR 0x22]"

section \<open>JSON.stringify\<close>

text \<open>\<open>undefined\<close> is left out of an object and written as \<open>null\<close> in an array.\<close>

fun json_text :: "jval \<Rightarrow> string" where
  "json_text JUndef = ''null''"
| "json_text JNull = ''null''"
| "json_text (JBool b) = (if b then ''true'' else ''false'')"
| "json_text (JNum n) = int_str n"
| "json_text JNaN = ''null''"
| "json_text (JStr s) = json_quote s"
| "json_text (JArr xs) = ''['' @ str_join '','' (map json_text xs) @ '']''"
| "json_text (JObj ps) = ''{'' @ str_join '',''
     (map (\<lambda>(k, s). json_quote k @ '':'' @ s)
       (map (\<lambda>(k, v). (k, json_text v)) (filter (\<lambda>(k, v). v \<noteq> JUndef) ps))) @ ''}''"

definition json_stringify :: "jval \<Rightarrow> jval" where
  "json_stringify v = (if v = JUndef then JUndef else JStr (json_text v))"

section \<open>The canonical serialiser\<close>

fun canonicalStringify :: "jval \<Rightarrow> string" where
  "canonicalStringify JUndef = ''undefined''"
| "canonicalStringify JNull = ''null''"
| "canonicalStringify (JBool b) = (if b then ''true'' else ''false'')"
| "canonicalStringify (JNum n) = int_str n"
| "canonicalStringify JNaN = ''null''"
| "canonicalStringify (JStr s) = json_quote s"
| "canonicalStringify (JArr xs) =
     ''['' @ str_join '','' (map (\<lambda>x. if x = JUndef then [] else canonicalStringify x) xs) @ '']''"
| "canonicalStringify (JObj ps) = ''{'' @ str_join '',''
     (map (\<lambda>(k, s). json_quote k @ '':'' @ s)
       (sort_key fst (map (\<lambda>(k, v). (k, canonicalStringify v)) ps))) @ ''}''"

definition stableStringify :: "jval \<Rightarrow> string" where
  "stableStringify = canonicalStringify"

definition canonicalProtocolJson :: "jval \<Rightarrow> string" where
  "canonicalProtocolJson = canonicalStringify"

definition canonicalDigest :: "host \<Rightarrow> jval \<Rightarrow> string" where
  "canonicalDigest H v = ''sha256:'' @ sha256_hex H (canonicalStringify v)"

section \<open>Key order\<close>

text \<open>The canonical representative of a value: the properties of every object sorted by key.\<close>

fun jnorm :: "jval \<Rightarrow> jval" where
  "jnorm (JArr xs) = JArr (map jnorm xs)"
| "jnorm (JObj ps) = JObj (sort_key fst (map (\<lambda>(k, v). (k, jnorm v)) ps))"
| "jnorm v = v"

text \<open>Values whose serialisation loses nothing.\<close>

fun json_clean :: "jval \<Rightarrow> bool" where
  "json_clean JNaN = False"
| "json_clean (JArr xs) = list_all (\<lambda>x. x \<noteq> JUndef \<and> json_clean x) xs"
| "json_clean (JObj ps) = list_all (\<lambda>(k, v). json_clean v) ps"
| "json_clean v = True"

text \<open>The serialiser without the sorting step.\<close>

fun jemit :: "jval \<Rightarrow> string" where
  "jemit JUndef = ''undefined''"
| "jemit JNull = ''null''"
| "jemit (JBool b) = (if b then ''true'' else ''false'')"
| "jemit (JNum n) = int_str n"
| "jemit JNaN = ''null''"
| "jemit (JStr s) = json_quote s"
| "jemit (JArr xs) = ''['' @ str_join '','' (map (\<lambda>x. if x = JUndef then [] else jemit x) xs) @ '']''"
| "jemit (JObj ps) = ''{'' @ str_join '','' (map (\<lambda>(k, v). json_quote k @ '':'' @ jemit v) ps) @ ''}''"

lemma insort_key_map_fst:
  "insort_key fst (f (k, v)) (map f ps) = map f (insort_key fst (k, v) ps)"
  if "\<And>k v. fst (f (k, v)) = k" for f :: "('a::linorder) \<times> 'b \<Rightarrow> 'a \<times> 'c"
proof (induction ps)
  case (Cons p ps)
  then show ?case by (cases p) (simp add: that)
qed simp

lemma sort_key_map_fst:
  "sort_key fst (map f ps) = map f (sort_key fst ps)"
  if "\<And>k v. fst (f (k, v)) = k" for f :: "('a::linorder) \<times> 'b \<Rightarrow> 'a \<times> 'c"
proof (induction ps)
  case (Cons p ps)
  then show ?case
    by (cases p) (simp only: list.map sort_key_simps insort_key_map_fst [OF that])
qed simp

lemma canonicalStringify_jnorm: "canonicalStringify v = jemit (jnorm v)"
proof (induction v rule: jnorm.induct)
  case (1 xs)
  have "jnorm x = JUndef \<longleftrightarrow> x = JUndef" for x by (cases x) simp_all
  with 1 show ?case by (auto intro!: arg_cong [where f = "str_join '',''"])
next
  case (2 ps)
  let ?c = "\<lambda>(k, v). (k, canonicalStringify v)" and ?n = "\<lambda>(k, v). (k, jnorm v)"
  have "map (\<lambda>(k, s). json_quote k @ '':'' @ s) (map ?c qs) =
      map (\<lambda>(k, v). json_quote k @ '':'' @ jemit v) (map ?n qs)" if "set qs \<subseteq> set ps" for qs
    using that by (induction qs) (auto simp: 2)
  from this [of "sort_key fst ps"]
  have "map (\<lambda>(k, s). json_quote k @ '':'' @ s) (map ?c (sort_key fst ps)) =
      map (\<lambda>(k, v). json_quote k @ '':'' @ jemit v) (map ?n (sort_key fst ps))" by simp
  moreover have "sort_key fst (map ?c ps) = map ?c (sort_key fst ps)" by (rule sort_key_map_fst) simp
  moreover have "sort_key fst (map ?n ps) = map ?n (sort_key fst ps)" by (rule sort_key_map_fst) simp
  ultimately show ?case by (simp only: canonicalStringify.simps jnorm.simps jemit.simps)
qed simp_all

lemma json_clean_jnorm: "json_clean (jnorm v) = json_clean v"
proof (induction v rule: jnorm.induct)
  case (1 xs)
  have "jnorm x = JUndef \<longleftrightarrow> x = JUndef" for x by (cases x) simp_all
  with 1 show ?case by (simp add: list_all_iff)
next
  case (2 ps)
  then show ?case by (fastforce simp: list_all_iff)
qed simp_all

section \<open>Unique reading\<close>

text \<open>Reading back one character of a quoted string.\<close>

definition hex_val :: "char \<Rightarrow> nat" where
  "hex_val c = (let n = of_char c :: nat in if n < 58 then n - 48 else n - 87)"

definition esc_read :: "string \<Rightarrow> char \<times> string" where
  "esc_read s =
     (if hd s \<noteq> CHR 0x5C then (hd s, tl s)
      else (let y = s ! 1; r = drop 2 s in
        if y = CHR ''b'' then (char_of (8::nat), r)
        else if y = CHR ''f'' then (char_of (12::nat), r)
        else if y = CHR ''n'' then (char_of (10::nat), r)
        else if y = CHR ''r'' then (char_of (13::nat), r)
        else if y = CHR ''t'' then (char_of (9::nat), r)
        else if y = CHR ''u'' then (char_of (16 * hex_val (s ! 4) + hex_val (s ! 5)), drop 6 s)
        else (y, r)))"

lemma hex_val_hex_char: "n < 16 \<Longrightarrow> hex_val (hex_char n) = n"
  by (simp add: hex_val_def hex_char_def)

lemma char_of_eq: "of_char c = (n::nat) \<Longrightarrow> char_of n = c"
  by auto

lemma esc_read_json_esc: "esc_read (json_esc c @ a) = (c, a)"
  by (simp add: json_esc_def esc_read_def Let_def hex_val_hex_char char_of_eq)

lemma json_esc_read: "json_esc c @ a = json_esc d @ b \<Longrightarrow> c = d \<and> a = b"
  by (metis esc_read_json_esc prod.inject)

lemma json_esc_neq_quote: "json_esc c @ a \<noteq> CHR 0x22 # b"
  by (simp add: json_esc_def Let_def)

lemma json_body_read:
  "concat (map json_esc s) @ CHR 0x22 # x = concat (map json_esc t) @ CHR 0x22 # y \<Longrightarrow> s = t \<and> x = y"
proof (induction s arbitrary: t)
  case Nil
  then show ?case using json_esc_neq_quote by (cases t) (auto, metis)
next
  case (Cons c s)
  then obtain d t' where t: "t = d # t'"
    using json_esc_neq_quote by (cases t) auto
  with Cons.prems have "json_esc c @ (concat (map json_esc s) @ CHR 0x22 # x) =
      json_esc d @ (concat (map json_esc t') @ CHR 0x22 # y)" by simp
  then show ?case using json_esc_read Cons.IH t by blast
qed

lemma json_quote_read: "json_quote s @ x = json_quote t @ y \<Longrightarrow> s = t \<and> x = y"
  using json_body_read [of s x t y] by (simp add: json_quote_def)

definition delim :: "string \<Rightarrow> bool" where
  "delim x \<longleftrightarrow> (case x of [] \<Rightarrow> True | c # _ \<Rightarrow> c \<in> set '',]}'')"

lemma digits_read:
  assumes "list_all is_digit u" "list_all is_digit v" "delim x" "delim y" "u @ x = v @ y"
  shows "u = v \<and> x = y"
proof -
  have nd: "takeWhile is_digit (u @ x) = u" if "list_all is_digit u" "delim x" for u x
    using that by (cases x) (auto simp: takeWhile_append2 list_all_iff delim_def is_digit_def)
  from nd [OF assms(1,3)] nd [OF assms(2,4)] assms(5) show ?thesis by auto
qed

lemma int_str_read:
  assumes "int_str m @ x = int_str n @ y" "delim x" "delim y"
  shows "m = n \<and> x = y"
proof -
  have d: "list_all is_digit (nat_str k)" for k by (auto simp: list_all_iff dest: nat_str_digits)
  have first: "nat_str k @ z = CHR ''-'' # w \<Longrightarrow> False" for k z w
    using nat_str_no_minus [of k] by (cases "nat_str k") auto
  from assms(1) have "nat_str (nat \<bar>m\<bar>) @ x = nat_str (nat \<bar>n\<bar>) @ y \<and> (m < 0 \<longleftrightarrow> n < 0)"
    by (auto simp: int_str_def dest: first first [OF sym] split: if_splits)
  then have "nat_str (nat \<bar>m\<bar>) = nat_str (nat \<bar>n\<bar>) \<and> x = y \<and> (m < 0 \<longleftrightarrow> n < 0)"
    using digits_read [OF d d assms(2,3)] by blast
  then show ?thesis by auto
qed

text \<open>A list of elements after the first, each preceded by a comma.\<close>

definition comma_list :: "('a \<Rightarrow> string) \<Rightarrow> 'a list \<Rightarrow> string" where
  "comma_list f xs = concat (map (\<lambda>x. CHR '','' # f x) xs)"

lemma str_join_comma: "str_join '','' (map f (x # xs)) = f x @ comma_list f xs"
  by (induction xs arbitrary: x) (simp_all add: comma_list_def)

lemma comma_list_delim: "z \<in> set '']}'' \<Longrightarrow> delim (comma_list f xs @ z # x)"
  by (cases xs) (auto simp: delim_def comma_list_def)

lemma comma_list_read:
  assumes "comma_list f us @ z # x = comma_list g vs @ z # y" "z \<in> set '']}''"
    and "\<And>u v p q. u \<in> set us \<Longrightarrow> v \<in> set vs \<Longrightarrow> f u @ p = g v @ q \<Longrightarrow> delim p \<Longrightarrow> delim q \<Longrightarrow> R u v \<and> p = q"
  shows "list_all2 R us vs \<and> x = y"
  using assms(1,3)
proof (induction us arbitrary: vs)
  case Nil
  then show ?case using assms(2) by (cases vs) (auto simp: comma_list_def)
next
  case (Cons u us)
  then obtain v vs' where vs: "vs = v # vs'"
    using assms(2) by (cases vs) (auto simp: comma_list_def)
  have "f u @ (comma_list f us @ z # x) = g v @ (comma_list g vs' @ z # y)"
    using Cons.prems(1) vs by (simp add: comma_list_def)
  then have "R u v \<and> comma_list f us @ z # x = comma_list g vs' @ z # y"
    using vs comma_list_delim [OF assms(2), of f] comma_list_delim [OF assms(2), of g]
    by (intro Cons.prems(2)) auto
  moreover have "comma_list f us @ z # x = comma_list g vs' @ z # y \<Longrightarrow> list_all2 R us vs' \<and> x = y"
    using Cons.prems(2) vs by (intro Cons.IH) auto
  ultimately show ?case using vs by simp
qed

text \<open>A whole bracketed list.  The first element must not start with the closing bracket.\<close>

lemma joined_read:
  assumes "str_join '','' (map f us) @ z # x = str_join '','' (map g vs) @ z # y" "z \<in> set '']}''"
    and "\<And>u v p q. u \<in> set us \<Longrightarrow> v \<in> set vs \<Longrightarrow> f u @ p = g v @ q \<Longrightarrow> delim p \<Longrightarrow> delim q \<Longrightarrow> R u v \<and> p = q"
    and "\<And>u p q. u \<in> set us \<Longrightarrow> f u @ p \<noteq> z # q" "\<And>v p q. v \<in> set vs \<Longrightarrow> g v @ p \<noteq> z # q"
  shows "list_all2 R us vs \<and> x = y"
proof (cases us)
  case Nil
  have "vs = []"
  proof (cases vs)
    case (Cons v vs')
    then show ?thesis using assms(1) Nil assms(5) [of v] by (simp only: str_join_comma) (simp, metis)
  qed simp
  then show ?thesis using assms(1) Nil by simp
next
  case u: (Cons u us')
  obtain v vs' where v: "vs = v # vs'"
    using assms(1) u assms(4) [of u] by (cases vs) (simp_all only: str_join_comma, auto)
  have "f u @ (comma_list f us' @ z # x) = g v @ (comma_list g vs' @ z # y)"
    using assms(1) unfolding u v str_join_comma by simp
  then have "R u v \<and> comma_list f us' @ z # x = comma_list g vs' @ z # y"
    using u v comma_list_delim [OF assms(2), of f] comma_list_delim [OF assms(2), of g]
    by (intro assms(3)) auto
  moreover have "comma_list f us' @ z # x = comma_list g vs' @ z # y \<Longrightarrow> list_all2 R us' vs' \<and> x = y"
    using u v assms(2,3) by (intro comma_list_read) auto
  ultimately show ?thesis using u v by simp
qed

lemma int_str_lead: "int_str n @ x = c # w \<Longrightarrow> is_digit c \<or> c = CHR ''-''"
proof -
  assume a: "int_str n @ x = c # w"
  have "nat_str k @ x = c # w \<Longrightarrow> is_digit c" for k
    using nat_str_digits [of c k] by (cases "nat_str k") auto
  with a show ?thesis by (auto simp: int_str_def split: if_splits)
qed

lemma not_digit [simp]:
  "\<not> is_digit CHR ''u''" "\<not> is_digit CHR ''n''" "\<not> is_digit CHR ''t''" "\<not> is_digit CHR ''f''"
  "\<not> is_digit CHR ''[''" "\<not> is_digit CHR ''{''" "\<not> is_digit CHR 0x22" "\<not> is_digit CHR '']''"
  "\<not> is_digit CHR ''}''"
  by (simp_all add: is_digit_def)

lemma jemit_lead: "jemit v @ x \<noteq> CHR '']'' # y" "jemit v @ x \<noteq> CHR ''}'' # y"
  by (cases v; auto simp: json_quote_def dest: int_str_lead)+

lemma json_quote_lead: "json_quote k @ x \<noteq> CHR ''}'' # y"
  by (simp add: json_quote_def)

lemma list_all2_eq_list: "list_all2 (=) xs ys \<longleftrightarrow> xs = ys"
  by (simp add: list.rel_eq)

text \<open>A serialised value followed by a delimiter can be read back in one way only.\<close>

lemma jemit_read:
  "json_clean u \<Longrightarrow> json_clean v \<Longrightarrow> jemit u @ x = jemit v @ y \<Longrightarrow> delim x \<Longrightarrow> delim y \<Longrightarrow> u = v \<and> x = y"
proof (induction u arbitrary: v x y)
  case (JArr us)
  from JArr.prems(2,3) obtain vs where v: "v = JArr vs"
    by (cases v) (auto simp: json_quote_def dest: int_str_lead [OF sym] split: if_splits)
  let ?f = "\<lambda>x. if x = JUndef then [] else jemit x"
  have "str_join '','' (map ?f us) @ CHR '']'' # x = str_join '','' (map ?f vs) @ CHR '']'' # y"
    using JArr.prems(3) v by simp
  then have "list_all2 (=) us vs \<and> x = y"
  proof (rule joined_read)
    fix a b p q
    assume m: "a \<in> set us" "b \<in> set vs" and e: "?f a @ p = ?f b @ q" and d: "delim p" "delim q"
    have n: "a \<noteq> JUndef" "b \<noteq> JUndef" and c: "json_clean a" "json_clean b"
      using m JArr.prems(1,2) v by (auto simp: list_all_iff)
    have "jemit a @ p = jemit b @ q" using e n by simp
    from JArr.IH [OF m(1) c this d] show "a = b \<and> p = q" .
  next
    fix a p q assume "a \<in> set us"
    then show "?f a @ p \<noteq> CHR '']'' # q" using JArr.prems(1) jemit_lead(1) by (auto simp: list_all_iff)
  next
    fix a p q assume "a \<in> set vs"
    then show "?f a @ p \<noteq> CHR '']'' # q" using JArr.prems(2) v jemit_lead(1) by (auto simp: list_all_iff)
  qed simp
  then show ?case using v by (simp add: list_all2_eq_list)
next
  case (JObj us)
  from JObj.prems(2,3) obtain vs where v: "v = JObj vs"
    by (cases v) (auto simp: json_quote_def dest: int_str_lead [OF sym] split: if_splits)
  let ?f = "\<lambda>(k, v). json_quote k @ '':'' @ jemit v"
  have "str_join '','' (map ?f us) @ CHR ''}'' # x = str_join '','' (map ?f vs) @ CHR ''}'' # y"
    using JObj.prems(3) v by simp
  then have "list_all2 (=) us vs \<and> x = y"
  proof (rule joined_read)
    fix a b p q
    assume m: "a \<in> set us" "b \<in> set vs" and e: "?f a @ p = ?f b @ q" and d: "delim p" "delim q"
    obtain k w k' w' where ab: "a = (k, w)" "b = (k', w')" by (metis surj_pair)
    have "json_quote k @ (CHR '':'' # jemit w @ p) = json_quote k' @ (CHR '':'' # jemit w' @ q)"
      using e ab by simp
    then have k: "k = k'" and w: "jemit w @ p = jemit w' @ q" by (auto dest: json_quote_read)
    have "json_clean w" "json_clean w'" using m ab JObj.prems(1,2) v by (auto simp: list_all_iff)
    then have "w = w' \<and> p = q"
      using JObj.IH [OF m(1), of w w' p q] w d ab by simp
    then show "a = b \<and> p = q" using k ab by simp
  next
    fix a p q
    show "?f a @ p \<noteq> CHR ''}'' # q" by (cases a) (simp add: json_quote_def)
  next
    fix a p q
    show "?f a @ p \<noteq> CHR ''}'' # q" by (cases a) (simp add: json_quote_def)
  qed simp
  then show ?case using v by (simp add: list_all2_eq_list)
next
  case (JNum n)
  then show ?case
    by (cases v) (auto simp: json_quote_def dest: int_str_lead int_str_read split: if_splits)
next
  case (JStr s)
  then show ?case
    by (cases v) (auto simp: json_quote_def dest: int_str_lead [OF sym] json_body_read split: if_splits)
next
  case (JBool b)
  then show ?case
    by (cases v) (auto simp: json_quote_def dest: int_str_lead [OF sym] split: if_splits)
next
  case JUndef
  then show ?case
    by (cases v) (auto simp: json_quote_def dest: int_str_lead [OF sym] split: if_splits)
next
  case JNull
  then show ?case
    by (cases v) (auto simp: json_quote_def dest: int_str_lead [OF sym] split: if_splits)
next
  case JNaN
  then show ?case by simp
qed

text \<open>The canonical text determines the value up to key order.\<close>

lemma canonicalStringify_inject:
  assumes "json_clean u" "json_clean v" "canonicalStringify u = canonicalStringify v"
  shows "jnorm u = jnorm v"
  using jemit_read [of "jnorm u" "jnorm v" "[]" "[]"] assms
  by (simp add: canonicalStringify_jnorm json_clean_jnorm delim_def)

text \<open>Reordering the properties of an object at any depth does not change the text.\<close>

lemma canonicalStringify_iff:
  assumes "json_clean u" "json_clean v"
  shows "canonicalStringify u = canonicalStringify v \<longleftrightarrow> jnorm u = jnorm v"
  using canonicalStringify_inject [OF assms] by (auto simp: canonicalStringify_jnorm)

end
