(* ===== verification/JsonParse.thy ===== *)
theory JsonParse
  imports CanonicalJson
begin

text \<open>
  \<^verbatim>\<open>JSON.parse\<close> on the texts the program reads back: a recursive-descent reader with fuel, where
  the length of the text is always fuel enough.  A text that JSON rejects has no value; a number
  with a fraction or an exponent, and a \<open>\u\<close> escape beyond code unit 255, are outside the values
  of the model and have none either.  The result is the round trip: what \<^verbatim>\<open>JSON.stringify\<close> writes
  for a value without \<open>undefined\<close> and \<open>NaN\<close> is read back as that value.
\<close>

section \<open>The reader\<close>

definition json_ws :: "char \<Rightarrow> bool" where
  "json_ws c \<longleftrightarrow> (of_char c :: nat) \<in> {9, 10, 13, 32}"

lemma json_ws_code [code]: "json_ws c \<longleftrightarrow> c = CHR '' '' \<or> c = CHR 0x09 \<or> c = CHR 0x0A \<or> c = CHR 0x0D"
  using of_char_eq [of c "CHR '' ''"] of_char_eq [of c "CHR 0x09"] of_char_eq [of c "CHR 0x0A"] of_char_eq [of c "CHR 0x0D"]
  by (auto simp: json_ws_def)

definition skip_ws :: "string \<Rightarrow> string" where
  "skip_ws = dropWhile json_ws"

definition hex_digit_val :: "char \<Rightarrow> nat option" where
  "hex_digit_val c = (let n = of_char c :: nat in
     if 48 \<le> n \<and> n \<le> 57 then Some (n - 48)
     else if 97 \<le> n \<and> n \<le> 102 then Some (n - 87)
     else if 65 \<le> n \<and> n \<le> 70 then Some (n - 55) else None)"

definition hex4 :: "char \<Rightarrow> char \<Rightarrow> char \<Rightarrow> char \<Rightarrow> char option" where
  "hex4 a b c d =
     (case (hex_digit_val a, hex_digit_val b, hex_digit_val c, hex_digit_val d) of
        (Some w, Some x, Some y, Some z) \<Rightarrow>
          (let n = ((w * 16 + x) * 16 + y) * 16 + z in if n < 256 then Some (char_of n) else None)
      | _ \<Rightarrow> None)"

definition unescape :: "char \<Rightarrow> char option" where
  "unescape e =
     (if e = CHR 0x22 \<or> e = CHR 0x5C \<or> e = CHR 0x2F then Some e
      else if e = CHR ''b'' then Some (char_of (8::nat))
      else if e = CHR ''f'' then Some (char_of (12::nat))
      else if e = CHR ''n'' then Some (char_of (10::nat))
      else if e = CHR ''r'' then Some (char_of (13::nat))
      else if e = CHR ''t'' then Some (char_of (9::nat)) else None)"

definition cons_fst :: "char \<Rightarrow> (string \<times> string) option \<Rightarrow> (string \<times> string) option" where
  "cons_fst c r = map_option (\<lambda>(t, u). (c # t, u)) r"

text \<open>The rest of a string after its opening quote.\<close>

fun parse_str :: "string \<Rightarrow> (string \<times> string) option" where
  "parse_str [] = None"
| "parse_str (c # s) =
     (if c = CHR 0x22 then Some ([], s)
      else if c = CHR 0x5C then
        (case s of
           [] \<Rightarrow> None
         | e # r \<Rightarrow>
             if e = CHR ''u'' then
               (case r of
                  a # b # d # f # r' \<Rightarrow> (case hex4 a b d f of None \<Rightarrow> None | Some x \<Rightarrow> cons_fst x (parse_str r'))
                | _ \<Rightarrow> None)
             else (case unescape e of None \<Rightarrow> None | Some x \<Rightarrow> cons_fst x (parse_str r)))
      else if (of_char c :: nat) < 32 then None
      else cons_fst c (parse_str s))"

definition parse_num :: "string \<Rightarrow> (jval \<times> string) option" where
  "parse_num s =
     (let neg = starts_with ''-'' s; t = (if neg then tl s else s);
          ds = takeWhile is_digit t; r = dropWhile is_digit t
      in if ds = [] \<or> (length ds > 1 \<and> hd ds = CHR ''0'') \<or> (r \<noteq> [] \<and> hd r \<in> set ''.eE'') then None
         else Some (JNum (if neg then - int (nat_val ds) else int (nat_val ds)), r))"

definition parse_word :: "string \<Rightarrow> jval \<Rightarrow> string \<Rightarrow> (jval \<times> string) option" where
  "parse_word w v s = (if starts_with w s then Some (v, drop (length w) s) else None)"

text \<open>The elements of an array after \<open>[\<close>, and the members of an object after \<open>{\<close>, given a
  reader of values; then one level of a value, and the reader itself.\<close>

definition then_next :: "char \<Rightarrow> 'a \<Rightarrow> (string \<Rightarrow> ('a list \<times> string) option) \<Rightarrow> string \<Rightarrow> ('a list \<times> string) option" where
  "then_next close x nxt r =
     (case skip_ws r of
        [] \<Rightarrow> None
      | d # r' \<Rightarrow>
          if d = close then Some ([x], r')
          else if d = CHR '','' then map_option (\<lambda>(xs, u). (x # xs, u)) (nxt r')
          else None)"

primrec parse_elems :: "(string \<Rightarrow> (jval \<times> string) option) \<Rightarrow> nat \<Rightarrow> string \<Rightarrow> (jval list \<times> string) option" where
  "parse_elems pv 0 s = None"
| "parse_elems pv (Suc n) s =
     (case pv s of None \<Rightarrow> None | Some (v, r) \<Rightarrow> then_next CHR '']'' v (parse_elems pv n) r)"

definition parse_key :: "string \<Rightarrow> (string \<times> string) option" where
  "parse_key s =
     (case skip_ws s of
        [] \<Rightarrow> None
      | c # r \<Rightarrow>
          if c \<noteq> CHR 0x22 then None
          else (case parse_str r of
             None \<Rightarrow> None
           | Some (k, r1) \<Rightarrow>
               (case skip_ws r1 of [] \<Rightarrow> None | e # r2 \<Rightarrow> if e = CHR '':'' then Some (k, r2) else None)))"

primrec parse_members :: "(string \<Rightarrow> (jval \<times> string) option) \<Rightarrow> nat \<Rightarrow> string \<Rightarrow> (props \<times> string) option" where
  "parse_members pv 0 s = None"
| "parse_members pv (Suc n) s =
     (case parse_key s of
        None \<Rightarrow> None
      | Some (k, r) \<Rightarrow>
          (case pv r of None \<Rightarrow> None | Some (v, r') \<Rightarrow> then_next CHR ''}'' (k, v) (parse_members pv n) r'))"

definition from_members :: "props \<Rightarrow> jval" where
  "from_members ps = fold (\<lambda>(k, x) o'. jset o' k x) ps (JObj [])"

definition parse_seq :: "char \<Rightarrow> 'b \<Rightarrow> ('a \<Rightarrow> 'b) \<Rightarrow> (string \<Rightarrow> ('a \<times> string) option) \<Rightarrow> string \<Rightarrow> ('b \<times> string) option" where
  "parse_seq close none mk nxt r =
     (case skip_ws r of
        [] \<Rightarrow> None
      | d # r' \<Rightarrow> if d = close then Some (none, r') else map_option (\<lambda>(xs, u). (mk xs, u)) (nxt r))"

definition parse_step :: "(string \<Rightarrow> (jval \<times> string) option) \<Rightarrow> nat \<Rightarrow> string \<Rightarrow> (jval \<times> string) option" where
  "parse_step pv n s =
     (case skip_ws s of
        [] \<Rightarrow> None
      | c # r \<Rightarrow>
          if c = CHR 0x22 then map_option (\<lambda>(t, u). (JStr t, u)) (parse_str r)
          else if c = CHR ''['' then parse_seq CHR '']'' (JArr []) JArr (parse_elems pv n) r
          else if c = CHR ''{'' then parse_seq CHR ''}'' (JObj []) from_members (parse_members pv n) r
          else if c = CHR ''t'' then parse_word ''true'' (JBool True) (c # r)
          else if c = CHR ''f'' then parse_word ''false'' (JBool False) (c # r)
          else if c = CHR ''n'' then parse_word ''null'' JNull (c # r)
          else parse_num (c # r))"

primrec parse_value :: "nat \<Rightarrow> string \<Rightarrow> (jval \<times> string) option" where
  "parse_value 0 s = None"
| "parse_value (Suc n) s = parse_step (parse_value n) n s"

definition json_parse :: "string \<Rightarrow> jval option" where
  "json_parse s =
     (case parse_value (length s) s of
        None \<Rightarrow> None
      | Some (v, r) \<Rightarrow> if skip_ws r = [] then Some v else None)"

section \<open>Round trip\<close>

text \<open>The values that survive: no \<open>undefined\<close>, no \<open>NaN\<close>, distinct keys.  Without distinct keys a text is
  still read, each object as its members put one after the other.\<close>

fun json_storable :: "jval \<Rightarrow> bool" where
  "json_storable JUndef = False"
| "json_storable JNaN = False"
| "json_storable (JArr xs) = list_all json_storable xs"
| "json_storable (JObj ps) = (distinct (map fst ps) \<and> list_all (\<lambda>(k, v). json_storable v) ps)"
| "json_storable v = True"

fun json_defined :: "jval \<Rightarrow> bool" where
  "json_defined JUndef = False"
| "json_defined JNaN = False"
| "json_defined (JArr xs) = list_all json_defined xs"
| "json_defined (JObj ps) = list_all (\<lambda>(k, v). json_defined v) ps"
| "json_defined v = True"

fun read_as :: "jval \<Rightarrow> jval" where
  "read_as (JArr xs) = JArr (map read_as xs)"
| "read_as (JObj ps) = from_members (map (\<lambda>(k, v). (k, read_as v)) ps)"
| "read_as v = v"

lemma storable_defined: "json_storable v \<Longrightarrow> json_defined v"
  by (induction v) (auto simp: list_all_iff snds.simps)

lemma storable_members: "list_all (\<lambda>(k, v). json_storable v) ps \<Longrightarrow> list_all (\<lambda>(k, v). json_defined v) ps"
  using storable_defined by (auto simp: list_all_iff)

fun jcost :: "jval \<Rightarrow> nat" where
  "jcost (JArr xs) = Suc (sum_list (map (\<lambda>x. Suc (jcost x)) xs))"
| "jcost (JObj ps) = Suc (sum_list (map (\<lambda>(k, v). Suc (jcost v)) ps))"
| "jcost v = 1"

lemma skip_ws_Cons: "\<not> json_ws c \<Longrightarrow> skip_ws (c # s) = c # s"
  by (simp add: skip_ws_def)

lemma skip_ws_plain [simp]:
  "skip_ws (CHR 0x22 # s) = CHR 0x22 # s" "skip_ws (CHR ''['' # s) = CHR ''['' # s"
  "skip_ws (CHR ''{'' # s) = CHR ''{'' # s" "skip_ws (CHR '']'' # s) = CHR '']'' # s"
  "skip_ws (CHR ''}'' # s) = CHR ''}'' # s" "skip_ws (CHR '','' # s) = CHR '','' # s"
  "skip_ws (CHR '':'' # s) = CHR '':'' # s" "skip_ws (CHR ''t'' # s) = CHR ''t'' # s"
  "skip_ws (CHR ''f'' # s) = CHR ''f'' # s" "skip_ws (CHR ''n'' # s) = CHR ''n'' # s"
  "skip_ws [] = []"
  by (simp_all add: skip_ws_def json_ws_def)

lemma hex_digit_val_hex_char: "n < 16 \<Longrightarrow> hex_digit_val (hex_char n) = Some n"
  by (simp add: hex_digit_val_def hex_char_def)

lemma control_codes:
  "char_of (8::nat) = CHR 0x08" "char_of (12::nat) = CHR 0x0C" "char_of (10::nat) = CHR 0x0A"
  "char_of (13::nat) = CHR 0x0D" "char_of (9::nat) = CHR 0x09"
  by (rule char_of_eq, simp)+

lemma parse_str_esc: "parse_str (json_esc c @ s) = cons_fst c (parse_str s)"
proof -
  have h: "hex4 CHR ''0'' CHR ''0'' (hex_char (of_char c div 16)) (hex_char (of_char c mod 16)) = Some c"
    if "(of_char c :: nat) < 32"
  proof -
    have z: "hex_digit_val CHR ''0'' = Some 0" by (simp add: hex_digit_val_def)
    have "hex_digit_val (hex_char (of_char c div 16)) = Some (of_char c div 16)"
      "hex_digit_val (hex_char (of_char c mod 16)) = Some (of_char c mod 16)"
      by (rule hex_digit_val_hex_char; use that in linarith)+
    then show ?thesis using that by (simp add: hex4_def z)
  qed
  let ?n = "of_char c :: nat"
  have codes: "?n = 8 \<Longrightarrow> c = CHR 0x08" "?n = 12 \<Longrightarrow> c = CHR 0x0C" "?n = 10 \<Longrightarrow> c = CHR 0x0A"
    "?n = 13 \<Longrightarrow> c = CHR 0x0D" "?n = 9 \<Longrightarrow> c = CHR 0x09"
    by (auto dest!: char_of_eq simp: control_codes)
  consider "c = CHR 0x22" | "c = CHR 0x5C" | "c = CHR 0x08" | "c = CHR 0x0C" | "c = CHR 0x0A" | "c = CHR 0x0D" | "c = CHR 0x09"
    | (ctl) "c \<noteq> CHR 0x22" "c \<noteq> CHR 0x5C" "c \<noteq> CHR 0x08" "c \<noteq> CHR 0x0C" "c \<noteq> CHR 0x0A" "c \<noteq> CHR 0x0D" "c \<noteq> CHR 0x09" "?n < 32"
    | (plain) "c \<noteq> CHR 0x22" "c \<noteq> CHR 0x5C" "\<not> ?n < 32"
    by blast
  then show ?thesis
  proof cases
    case ctl
    then have e: "json_esc c = [CHR 0x5C, CHR ''u'', CHR ''0'', CHR ''0'', hex_char (?n div 16), hex_char (?n mod 16)]"
      using codes by (auto simp: json_esc_def Let_def)
    show ?thesis unfolding e by (simp add: h ctl(8))
  next
    case plain
    then have e: "json_esc c = [c]" by (auto simp: json_esc_def Let_def)
    show ?thesis unfolding e using plain by simp
  qed (simp_all add: json_esc_def unescape_def control_codes)
qed

lemma parse_str_body: "parse_str (concat (map json_esc t) @ CHR 0x22 # s) = Some (t, s)"
  by (induction t) (simp_all add: parse_str_esc cons_fst_def)

lemma digits_split:
  assumes "delim x"
  shows "takeWhile is_digit (nat_str n @ x) = nat_str n" "dropWhile is_digit (nat_str n @ x) = x"
proof -
  have d: "\<And>c. c \<in> set (nat_str n) \<Longrightarrow> is_digit c" by (rule nat_str_digits)
  have "x = [] \<or> \<not> is_digit (hd x)"
    using assms by (cases x) (auto simp: delim_def is_digit_def)
  then show "takeWhile is_digit (nat_str n @ x) = nat_str n" "dropWhile is_digit (nat_str n @ x) = x"
    using d by (cases x; auto simp: takeWhile_append2 dropWhile_append2)+
qed

lemma nat_str_lead: "length (nat_str n) > 1 \<Longrightarrow> hd (nat_str n) \<noteq> CHR ''0''"
proof (induction n rule: nat_str.induct)
  case (1 n)
  show ?case
  proof (cases "n < 10")
    case True
    then show ?thesis using 1 by (simp add: nat_str.simps [of n])
  next
    case False
    then have e: "nat_str n = nat_str (n div 10) @ [digit_char (n mod 10)]" by (simp add: nat_str.simps [of n])
    show ?thesis
    proof (cases "n div 10 < 10")
      case True
      then have "nat_str (n div 10) = [digit_char (n div 10)]" by (simp add: nat_str.simps)
      moreover have "digit_char (n div 10) \<noteq> CHR ''0''"
      proof
        assume "digit_char (n div 10) = CHR ''0''"
        then have "digit_val (digit_char (n div 10)) = digit_val CHR ''0''" by (rule arg_cong)
        then have "n div 10 = 0" using True by (simp add: digit_val_def [of "CHR ''0''"])
        then show False using False by simp
      qed
      ultimately show ?thesis using e by simp
    next
      case False2: False
      then have "length (nat_str (n div 10)) > 1"
        by (simp add: nat_str.simps [of "n div 10"] Suc_lessI)
      then show ?thesis using 1 False e by (simp add: hd_append)
    qed
  qed
qed

lemma json_ws_lead: "is_digit c \<or> c = CHR ''-'' \<Longrightarrow> \<not> json_ws c"
  by (auto simp: is_digit_def json_ws_def)

lemma parse_num_int_str:
  assumes "delim x"
  shows "parse_num (int_str n @ x) = Some (JNum n, x)"
proof -
  have r: "\<not> (x \<noteq> [] \<and> hd x \<in> set ''.eE'')" using assms by (cases x) (auto simp: delim_def)
  have l: "\<not> (length (nat_str k) > 1 \<and> hd (nat_str k) = CHR ''0'')" for k using nat_str_lead by blast
  have neg: "\<not> starts_with ''-'' (nat_str k @ x)" for k
    using nat_str_no_minus [of k] by (cases "nat_str k") auto
  show ?thesis
  proof (cases "n < 0")
    case True
    then have e: "int_str n = CHR ''-'' # nat_str (nat (- n))" by (simp add: int_str_def)
    have sw: "starts_with ''-'' (CHR ''-'' # z)" for z by simp
    show ?thesis
      unfolding parse_num_def Let_def e append_Cons
      by (simp only: sw if_True list.sel digits_split [OF assms]) (use True r l [of "nat (- n)"] in auto)
  next
    case False
    then have e: "int_str n = nat_str (nat n)" by (simp add: int_str_def)
    show ?thesis
      unfolding parse_num_def Let_def e
      by (simp only: neg if_False digits_split [OF assms]) (use False r l [of "nat n"] in auto)
  qed
qed

lemma parse_step_int_str:
  assumes "delim x"
  shows "parse_step pv m (int_str n @ x) = Some (JNum n, x)"
proof -
  obtain c w where e: "int_str n @ x = c # w"
    using int_str_neq_Nil [of n] by (cases "int_str n @ x") auto
  with int_str_lead have c: "is_digit c \<or> c = CHR ''-''" by blast
  then have "skip_ws (int_str n @ x) = int_str n @ x"
    unfolding e by (intro skip_ws_Cons json_ws_lead)
  moreover have "c \<notin> set [CHR 0x22, CHR ''['', CHR ''{'', CHR ''t'', CHR ''f'', CHR ''n'']"
    using c by (auto simp: is_digit_def)
  ultimately show ?thesis
    using parse_num_int_str [OF assms, of n] unfolding e by (simp add: parse_step_def)
qed

lemma comma_list_Cons: "comma_list f (x # xs) = CHR '','' # f x @ comma_list f xs"
  by (simp add: comma_list_def)

lemma parse_elems_ok:
  assumes "\<And>x y. x \<in> set (v # vs) \<Longrightarrow> delim y \<Longrightarrow> pv (json_text x @ y) = Some (f x, y)" "length vs < n"
  shows "parse_elems pv n (json_text v @ comma_list json_text vs @ CHR '']'' # r) = Some (map f (v # vs), r)"
  using assms
proof (induction vs arbitrary: v n)
  case Nil
  then show ?case by (cases n) (simp_all add: then_next_def comma_list_def delim_def)
next
  case (Cons w vs)
  from Cons.prems(2) obtain m where n: "n = Suc m" "length vs < m" by (cases n) auto
  have "pv (json_text v @ CHR '','' # z) = Some (f v, CHR '','' # z)" for z
    by (rule Cons.prems(1)) (simp_all add: delim_def)
  moreover have "parse_elems pv m (json_text w @ comma_list json_text vs @ CHR '']'' # r) = Some (map f (w # vs), r)"
    by (rule Cons.IH) (use Cons.prems(1) n in auto)
  ultimately show ?case by (simp add: n comma_list_Cons then_next_def)
qed

definition member_text :: "string \<times> jval \<Rightarrow> string" where
  "member_text p = json_quote (fst p) @ '':'' @ json_text (snd p)"

lemma parse_key_ok: "parse_key (json_quote k @ '':'' @ r) = Some (k, r)"
  using parse_str_body [of k "CHR '':'' # r"] by (simp add: parse_key_def json_quote_def)

lemma parse_members_ok:
  assumes "\<And>p y. p \<in> set (q # ps) \<Longrightarrow> delim y \<Longrightarrow> pv (json_text (snd p) @ y) = Some (f (snd p), y)" "length ps < n"
  shows "parse_members pv n (member_text q @ comma_list member_text ps @ CHR ''}'' # r)
    = Some (map (\<lambda>(k, v). (k, f v)) (q # ps), r)"
  using assms
proof (induction ps arbitrary: q n)
  case Nil
  then show ?case
    by (cases n) (simp_all add: then_next_def comma_list_def delim_def member_text_def parse_key_ok [simplified] split_beta)
next
  case (Cons w ps)
  from Cons.prems(2) obtain m where n: "n = Suc m" "length ps < m" by (cases n) auto
  have "pv (json_text (snd q) @ CHR '','' # z) = Some (f (snd q), CHR '','' # z)" for z
    by (rule Cons.prems(1)) (simp_all add: delim_def)
  moreover have "parse_members pv m (member_text w @ comma_list member_text ps @ CHR ''}'' # r)
      = Some (map (\<lambda>(k, v). (k, f v)) (w # ps), r)"
    by (rule Cons.IH) (use Cons.prems(1) n in auto)
  moreover have "parse_key (member_text q @ z) = Some (fst q, json_text (snd q) @ z)" for z
    using parse_key_ok [of "fst q" "json_text (snd q) @ z"] by (simp add: member_text_def)
  ultimately show ?case by (simp add: n comma_list_Cons then_next_def split_beta)
qed

lemma from_members_distinct:
  assumes "distinct (map fst ps)"
  shows "from_members ps = JObj ps"
proof -
  have "fold (\<lambda>(k, x) o'. jset o' k x) ps (JObj qs) = JObj (qs @ ps)"
    if "distinct (map fst (qs @ ps))" for qs
    using that
  proof (induction ps arbitrary: qs)
    case (Cons p ps)
    obtain k x where p: "p = (k, x)" by force
    have "k \<notin> fst ` set qs" using Cons.prems p by force
    then have "AList.update k x qs = qs @ [(k, x)]" by (induction qs) auto
    then show ?case using Cons.IH [of "qs @ [(k, x)]"] Cons.prems by (simp add: p jset_def)
  qed simp
  from this [of "[]"] assms show ?thesis by (simp add: from_members_def)
qed

lemma read_as_storable: "json_storable v \<Longrightarrow> read_as v = v"
proof (induction v)
  case (JArr xs)
  then show ?case by (simp add: list_all_iff map_idI)
next
  case (JObj ps)
  have "(\<lambda>(k, v). (k, read_as v)) p = p" if "p \<in> set ps" for p
    using JObj that by (auto simp: list_all_iff snds.simps)
  then have "map (\<lambda>(k, v). (k, read_as v)) ps = ps" by (rule map_idI)
  then show ?case using JObj.prems from_members_distinct [of ps] by simp
qed simp_all

lemma sum_list_Suc_length: "length xs \<le> sum_list (map (\<lambda>x. Suc (f x)) xs)"
  by (induction xs) auto

lemma member_sum_list: "x \<in> set xs \<Longrightarrow> f x \<le> sum_list (map f xs)" for f :: "'a \<Rightarrow> nat"
  by (induction xs) auto

lemma json_text_obj:
  assumes "list_all (\<lambda>(k, v). json_defined v) ps"
  shows "json_text (JObj ps) = ''{'' @ str_join '','' (map member_text ps) @ ''}''"
proof -
  have "filter (\<lambda>(k, v). v \<noteq> JUndef) ps = ps"
    using assms by (intro filter_True) (auto simp: list_all_iff)
  then show ?thesis by (simp add: member_text_def [abs_def] split_beta comp_def)
qed

lemma json_text_lead: "json_text v @ x \<noteq> CHR '']'' # y" "json_text v @ x \<noteq> CHR ''}'' # y"
  by (cases v; auto simp: json_quote_def dest: int_str_lead)+

lemma json_text_Cons: "json_defined v \<Longrightarrow> \<exists>c s. json_text v = c # s \<and> \<not> json_ws c \<and> c \<noteq> CHR '']'' \<and> c \<noteq> CHR ''}''"
proof (cases v)
  case (JNum n)
  obtain c s where "int_str n = c # s" using int_str_neq_Nil [of n] by (cases "int_str n") auto
  moreover from this have c: "is_digit c \<or> c = CHR ''-''" using int_str_lead [of n "[]"] by auto
  moreover have "\<not> json_ws c" by (rule json_ws_lead [OF c])
  moreover have "c \<noteq> CHR '']'' \<and> c \<noteq> CHR ''}''" using c by auto
  ultimately show ?thesis using JNum by simp
qed (auto simp: json_quote_def json_ws_def)

lemma parse_value_scalar:
  assumes "json_defined v" "\<not> is_arr v" "\<not> is_obj v" "delim r" "0 < n"
  shows "parse_value n (json_text v @ r) = Some (read_as v, r)"
proof -
  obtain m where n: "n = Suc m" using assms(5) by (cases n) auto
  show ?thesis
  proof (cases v)
    case (JNum k)
    then show ?thesis by (simp add: n parse_step_int_str [OF assms(4)])
  next
    case (JStr s)
    then show ?thesis using parse_str_body [of s r] by (simp add: n parse_step_def json_quote_def)
  qed (use assms in \<open>auto simp: n parse_step_def parse_word_def\<close>)
qed

theorem parse_value_json_text:
  "json_defined v \<Longrightarrow> delim r \<Longrightarrow> jcost v \<le> n \<Longrightarrow> parse_value n (json_text v @ r) = Some (read_as v, r)"
proof (induction v arbitrary: n r rule: jcost.induct)
  case (1 xs)
  from 1(4) obtain m where n: "n = Suc m" by (cases n) auto
  show ?case
  proof (cases xs)
    case Nil
    then show ?thesis by (simp add: n parse_step_def parse_seq_def)
  next
    case (Cons v vs)
    have IH: "parse_value m (json_text x @ y) = Some (read_as x, y)" if "x \<in> set (v # vs)" "delim y" for x y
    proof (rule 1(1))
      show "x \<in> set xs" using that Cons by simp
      show "json_defined x" using that Cons 1(2) by (auto simp: list_all_iff)
      show "jcost x \<le> m"
        using 1(4) member_sum_list [of x xs "\<lambda>x. Suc (jcost x)"] that Cons by (simp add: n)
    qed (rule that)
    have len: "length vs < m" using 1(4) sum_list_Suc_length [of xs jcost] by (simp add: n Cons)
    obtain c s where c: "json_text v = c # s" "\<not> json_ws c" "c \<noteq> CHR '']''"
      using json_text_Cons [of v] 1(2) Cons by auto
    have t: "json_text (JArr xs) @ r = CHR ''['' # (json_text v @ comma_list json_text vs @ CHR '']'' # r)"
      by (simp add: Cons str_join_comma [of json_text v vs, simplified])
    have e: "parse_elems (parse_value m) m (json_text v @ comma_list json_text vs @ CHR '']'' # r) = Some (map read_as (v # vs), r)"
      by (rule parse_elems_ok [OF IH len])
    have "parse_seq CHR '']'' (JArr []) JArr (parse_elems (parse_value m) m)
        (json_text v @ comma_list json_text vs @ CHR '']'' # r) = Some (read_as (JArr xs), r)"
      using e c unfolding parse_seq_def by (simp add: skip_ws_Cons Cons)
    then show ?thesis by (simp only: t n parse_value.simps) (simp add: parse_step_def)
  qed
next
  case (2 ps)
  from 2(4) obtain m where n: "n = Suc m" by (cases n) auto
  have st: "list_all (\<lambda>(k, v). json_defined v) ps" using 2(2) by simp
  show ?case
  proof (cases ps)
    case Nil
    then show ?thesis by (simp add: n parse_step_def parse_seq_def from_members_def)
  next
    case (Cons q qs)
    have IH: "parse_value m (json_text (snd p) @ y) = Some (read_as (snd p), y)" if "p \<in> set (q # qs)" "delim y" for p y
    proof (rule 2(1) [of p "fst p" "snd p"])
      show "p \<in> set ps" using that Cons by simp
      then show "json_defined (snd p)" using st by (auto simp: list_all_iff)
      show "jcost (snd p) \<le> m"
        using 2(4) member_sum_list [of p ps "\<lambda>(k, v). Suc (jcost v)"] \<open>p \<in> set ps\<close> by (simp add: n split_beta)
    qed (simp_all add: that)
    have len: "length qs < m"
      using 2(4) sum_list_Suc_length [of ps "\<lambda>p. jcost (snd p)"] by (simp add: n Cons case_prod_beta')
    obtain c s where c: "member_text q = c # s" "\<not> json_ws c" "c \<noteq> CHR ''}''"
      by (simp add: member_text_def json_quote_def json_ws_def)
    have t: "json_text (JObj ps) @ r = CHR ''{'' # (member_text q @ comma_list member_text qs @ CHR ''}'' # r)"
      unfolding json_text_obj [OF st] by (simp add: Cons str_join_comma [of member_text q qs, simplified])
    have e: "parse_members (parse_value m) m (member_text q @ comma_list member_text qs @ CHR ''}'' # r) = Some (map (\<lambda>(k, v). (k, read_as v)) (q # qs), r)"
      by (rule parse_members_ok [OF IH len])
    have "parse_seq CHR ''}'' (JObj []) from_members (parse_members (parse_value m) m)
        (member_text q @ comma_list member_text qs @ CHR ''}'' # r) = Some (read_as (JObj ps), r)"
      using e c unfolding parse_seq_def by (simp add: skip_ws_Cons Cons)
    then show ?thesis by (simp only: t n parse_value.simps) (simp add: parse_step_def)
  qed
qed (rule parse_value_scalar; simp)+

lemma jcost_le_length: "json_defined v \<Longrightarrow> jcost v \<le> length (json_text v)"
proof (induction v rule: jcost.induct)
  case (1 xs)
  have "length (str_join '','' (map json_text ys)) + 1 \<ge> sum_list (map (\<lambda>x. Suc (jcost x)) ys)"
    if "set ys \<subseteq> set xs" for ys
    using that
  proof (induction ys)
    case (Cons y ys)
    then have "jcost y \<le> length (json_text y)" using 1 by (auto simp: list_all_iff)
    with Cons show ?case by (cases ys) auto
  qed simp
  from this [of xs] show ?case by simp
next
  case (2 ps)
  have st: "list_all (\<lambda>(k, v). json_defined v) ps" using 2 by simp
  have "length (str_join '','' (map member_text ys)) + 1 \<ge> sum_list (map (\<lambda>(k, v). Suc (jcost v)) ys)"
    if "set ys \<subseteq> set ps" for ys
    using that
  proof (induction ys)
    case (Cons y ys)
    have "json_defined (snd y)" using st Cons.prems by (auto simp: list_all_iff)
    then have "jcost (snd y) \<le> length (json_text (snd y))"
      using 2(1) [of y "fst y" "snd y"] Cons.prems by simp
    then have "Suc (jcost (snd y)) \<le> length (member_text y)" by (simp add: member_text_def)
    with Cons show ?case by (cases ys) (auto simp: split_beta)
  qed simp
  from this [of ps] show ?case unfolding json_text_obj [OF st] by simp
qed (auto simp: int_str_neq_Nil Suc_le_eq json_quote_def)

theorem json_parse_defined: "json_defined v \<Longrightarrow> json_parse (json_text v) = Some (read_as v)"
  using parse_value_json_text [of v "[]" "length (json_text v)"] jcost_le_length [of v]
  by (simp add: json_parse_def delim_def)

theorem json_parse_text: "json_storable v \<Longrightarrow> json_parse (json_text v) = Some v"
  using json_parse_defined [of v] by (simp add: storable_defined read_as_storable)

section \<open>What is read is storable\<close>

lemma from_members_storable:
  assumes "list_all (\<lambda>(k, v). json_storable v) ps"
  shows "json_storable (from_members ps)"
proof -
  have "json_storable (fold (\<lambda>(k, x) o'. jset o' k x) ps o')" if "json_storable o'" "is_obj o'" for o'
    using assms that
  proof (induction ps arbitrary: o')
    case (Cons p ps)
    obtain k x where p: "p = (k, x)" by force
    have x: "json_storable x" using Cons.prems(1) p by simp
    obtain qs where o: "o' = JObj qs" using Cons.prems(3) by (rule is_obj_cases)
    have qs: "distinct (map fst qs)" "\<forall>q\<in>set qs. json_storable (snd q)"
      using Cons.prems(2) o by (simp_all add: list_all_iff split_beta)
    have m: "json_storable (snd q)" if "q \<in> set (AList.update k x qs)" for q
    proof -
      have "q = (k, x) \<or> q \<in> set qs" using that by (induction qs) (auto split: if_splits)
      then show ?thesis using x qs(2) by auto
    qed
    have e: "jset o' k x = JObj (AList.update k x qs)" by (simp only: o jset_def of_simps)
    have "json_storable (jset o' k x)"
      unfolding e using distinct_update [OF qs(1)] m by (simp add: list_all_iff split_beta)
    then show ?case using Cons.IH [of "jset o' k x"] Cons.prems(1) by (simp add: p)
  qed simp
  then show ?thesis by (simp add: from_members_def)
qed

lemma then_next_Some:
  assumes "then_next close x nxt r = Some (ys, u)"
  shows "\<exists>zs. ys = x # zs \<and> (zs = [] \<or> (\<exists>r' u'. nxt r' = Some (zs, u')))"
  using assms by (auto simp: then_next_def split: list.splits if_splits)

lemma parse_elems_storable:
  assumes "\<And>s v r. pv s = Some (v, r) \<Longrightarrow> json_storable v"
  shows "parse_elems pv n s = Some (xs, r) \<Longrightarrow> list_all json_storable xs"
proof (induction n arbitrary: s xs r)
  case (Suc n)
  from Suc.prems obtain v r1 where v: "pv s = Some (v, r1)"
    and t: "then_next CHR '']'' v (parse_elems pv n) r1 = Some (xs, r)" by (auto split: option.splits)
  from then_next_Some [OF t] obtain zs where z: "xs = v # zs" "zs = [] \<or> (\<exists>r' u'. parse_elems pv n r' = Some (zs, u'))" by blast
  have "list_all json_storable zs" using z(2) Suc.IH by auto
  then show ?case using z(1) assms [OF v] by simp
qed simp

lemma parse_members_storable:
  assumes "\<And>s v r. pv s = Some (v, r) \<Longrightarrow> json_storable v"
  shows "parse_members pv n s = Some (ps, r) \<Longrightarrow> list_all (\<lambda>(k, v). json_storable v) ps"
proof (induction n arbitrary: s ps r)
  case (Suc n)
  from Suc.prems obtain k r1 v r2 where v: "pv r1 = Some (v, r2)"
    and t: "then_next CHR ''}'' (k, v) (parse_members pv n) r2 = Some (ps, r)" by (auto split: option.splits)
  from then_next_Some [OF t] obtain zs where z: "ps = (k, v) # zs" "zs = [] \<or> (\<exists>r' u'. parse_members pv n r' = Some (zs, u'))" by blast
  have "list_all (\<lambda>(k, v). json_storable v) zs" using z(2) Suc.IH by auto
  then show ?case using z(1) assms [OF v] by simp
qed simp

lemma parse_seq_Some:
  assumes "parse_seq close none mk nxt r = Some (v, u)"
  shows "v = none \<or> (\<exists>xs u'. nxt r = Some (xs, u') \<and> v = mk xs)"
  using assms by (auto simp: parse_seq_def split: list.splits if_splits)

lemma parse_step_storable:
  assumes pv: "\<And>s v r. pv s = Some (v, r) \<Longrightarrow> json_storable v"
    and s: "parse_step pv n s = Some (v, r)"
  shows "json_storable v"
proof -
  obtain c t where ct: "skip_ws s = c # t" using s by (auto simp: parse_step_def split: list.splits)
  note st = s [unfolded parse_step_def ct list.case]
  have w: "json_storable v" if "parse_word w x z = Some (v, r)" "json_storable x" for w x z
    using that by (simp add: parse_word_def split: if_splits)
  show ?thesis
  proof (cases "c = CHR 0x22")
    case True
    then show ?thesis using st by auto
  next
    case q: False
    show ?thesis
    proof (cases "c = CHR ''['' \<or> c = CHR ''{''")
      case True
      then consider "parse_seq CHR '']'' (JArr []) JArr (parse_elems pv n) t = Some (v, r)"
        | "parse_seq CHR ''}'' (JObj []) from_members (parse_members pv n) t = Some (v, r)"
        using st by auto
      then show ?thesis
      proof cases
        case 1
        from parse_seq_Some [OF this] show ?thesis using parse_elems_storable [OF pv] by auto
      next
        case 2
        from parse_seq_Some [OF this] show ?thesis
          using from_members_storable [OF parse_members_storable [OF pv]] by auto
      qed
    next
      case b: False
      show ?thesis
      proof (cases "c = CHR ''t'' \<or> c = CHR ''f'' \<or> c = CHR ''n''")
        case True
        then show ?thesis using st q by (elim disjE) (auto intro: w)
      next
        case False
        then have "parse_num (c # t) = Some (v, r)" using st q b by simp
        then have "is_int v" unfolding parse_num_def Let_def by (force split: if_split_asm)
        then show ?thesis by (cases v) simp_all
      qed
    qed
  qed
qed

lemma parse_value_storable: "parse_value n s = Some (v, r) \<Longrightarrow> json_storable v"
proof (induction n arbitrary: s v r)
  case (Suc n)
  then show ?case using parse_step_storable [of "parse_value n" n s v r] by simp
qed simp

lemma json_parse_storable: "json_parse s = Some v \<Longrightarrow> json_storable v"
  using parse_value_storable by (auto simp: json_parse_def split: option.splits if_splits)

end
