(* ===== verification/Files.thy ===== *)
theory Files
  imports JsonParse
begin

text \<open>
  The files the program keeps, \<^verbatim>\<open>packages/core/src/io/durable-file.js\<close>.  A file system is a map
  from paths to contents.  The two writers are given as the list of their file-system calls, so
  that a crash is a prefix of that list: \<open>atomicWriteFileSync\<close> writes a temporary file and renames
  it, \<open>durableExclusiveCreateSync\<close> creates the target with the exclusive flag and fills it.
  Permissions, directory creation, \<open>fsync\<close> and descriptors leave the contents alone and have no
  counterpart, and no call fails for a reason outside the program.

  The locale \<open>one_use\<close> is what the callers of the exclusive create rely on: a key can be claimed
  once.
\<close>

section \<open>The file system\<close>

type_synonym files = "string \<Rightarrow> string option"

datatype fs_op = FCreate string | FWrite string string | FRename string string | FUnlink string

text \<open>One call; \<open>None\<close> is the exclusive flag's \<open>EEXIST\<close>, the only failure in the model.\<close>

fun fs_exec :: "fs_op \<Rightarrow> files \<Rightarrow> files option" where
  "fs_exec (FCreate p) fs = (case fs p of None \<Rightarrow> Some (fs(p \<mapsto> [])) | Some _ \<Rightarrow> None)"
| "fs_exec (FWrite p s) fs = Some (fs(p \<mapsto> s))"
| "fs_exec (FRename p q) fs = Some ((fs(q := fs p))(p := None))"
| "fs_exec (FUnlink p) fs = Some (fs(p := None))"

fun fs_run :: "fs_op list \<Rightarrow> files \<Rightarrow> files option" where
  "fs_run [] fs = Some fs"
| "fs_run (x # xs) fs = (case fs_exec x fs of None \<Rightarrow> None | Some fs' \<Rightarrow> fs_run xs fs')"

definition utf8_length :: "string \<Rightarrow> int" where
  "utf8_length s = int (sum_list (map (\<lambda>c. if (of_char c :: nat) < 128 then 1 else 2) s))"

definition MAX_FILE_BYTES :: int where
  "MAX_FILE_BYTES = 8 * 1024 * 1024"

text \<open>The value is \<open>None\<close> for a missing file (\<open>options.missingValue\<close> is not set by any caller).\<close>

definition readBoundedFileSync :: "files \<Rightarrow> string \<Rightarrow> int \<Rightarrow> string \<Rightarrow> string option res" where
  "readBoundedFileSync fs path maxBytes0 label =
     (let maxBytes = (if maxBytes0 > 0 then maxBytes0 else MAX_FILE_BYTES) in
      case fs path of
        None \<Rightarrow> Inr None
      | Some s \<Rightarrow> throw_if (utf8_length s > maxBytes)
          (label @ '' exceeds maxBytes ('' @ int_str maxBytes @ '')'') (Inr (Some s)))"

text \<open>The calls of a write, and the write itself: \<open>temp\<close> is the name built from a fresh UUID.  A
  failure unlinks the temporary file and is thrown on.\<close>

definition atomic_ops :: "string \<Rightarrow> string \<Rightarrow> string \<Rightarrow> fs_op list" where
  "atomic_ops path temp s = [FCreate temp, FWrite temp s, FRename temp path]"

definition atomicWriteFileSync :: "files \<Rightarrow> string \<Rightarrow> string \<Rightarrow> string \<Rightarrow> int \<Rightarrow> string \<Rightarrow> files \<times> js_error option" where
  "atomicWriteFileSync fs path temp s maxBytes label =
     (if maxBytes > 0 \<and> utf8_length s > maxBytes
      then (fs, Some (Error (label @ '' exceeds maxBytes ('' @ int_str maxBytes @ '')'')))
      else case fs_run (atomic_ops path temp s) fs of
        Some fs' \<Rightarrow> (fs', None)
      | None \<Rightarrow> (fs(temp := None), Some (Error ''EEXIST'')))"

definition exclusive_ops :: "string \<Rightarrow> string \<Rightarrow> fs_op list" where
  "exclusive_ops path s = [FCreate path, FWrite path s]"

text \<open>The flag is \<open>created\<close> of the result.\<close>

definition durableExclusiveCreateSync :: "files \<Rightarrow> string \<Rightarrow> string \<Rightarrow> bool \<times> files" where
  "durableExclusiveCreateSync fs path s =
     (case fs_run (exclusive_ops path s) fs of Some fs' \<Rightarrow> (True, fs') | None \<Rightarrow> (False, fs))"

lemma durableExclusiveCreateSync_simp:
  "durableExclusiveCreateSync fs path s =
     (case fs path of None \<Rightarrow> (True, fs(path \<mapsto> s)) | Some _ \<Rightarrow> (False, fs))"
  by (simp add: durableExclusiveCreateSync_def exclusive_ops_def split: option.split)

lemma atomicWriteFileSync_ok:
  assumes "fs temp = None" "temp \<noteq> path" "maxBytes > 0 \<longrightarrow> utf8_length s \<le> maxBytes"
  shows "atomicWriteFileSync fs path temp s maxBytes label = (fs(path \<mapsto> s), None)"
proof -
  have "fs_run (atomic_ops path temp s) fs = Some (fs(path \<mapsto> s))"
    using assms by (auto simp: atomic_ops_def)
  then show ?thesis using assms(3) by (auto simp: atomicWriteFileSync_def)
qed

section \<open>Crashes\<close>

text \<open>What a crash can leave: the result of any number of the calls.\<close>

definition crash_states :: "fs_op list \<Rightarrow> files \<Rightarrow> files set" where
  "crash_states xs fs = {fs'. \<exists>n. fs_run (take n xs) fs = Some fs'}"

lemma atomic_crash:
  assumes "fs' \<in> crash_states (atomic_ops path temp s) fs" "temp \<noteq> path"
  shows "fs' path = fs path \<or> fs' path = Some s"
proof -
  from assms(1) obtain n where r: "fs_run (take n (atomic_ops path temp s)) fs = Some fs'"
    by (auto simp: crash_states_def)
  consider "n = 0" | "n = 1" | "n = 2" | "n \<ge> 3" by linarith
  then show ?thesis
    using r assms(2) by cases (auto simp: atomic_ops_def numeral_2_eq_2 split: option.splits)
qed

lemma exclusive_crash:
  assumes "fs' \<in> crash_states (exclusive_ops path s) fs"
  shows "fs' = fs \<or> (fs path = None \<and> fs' path \<noteq> None)"
proof -
  from assms obtain n where r: "fs_run (take n (exclusive_ops path s)) fs = Some fs'"
    by (auto simp: crash_states_def)
  consider "n = 0" | "n = 1" | "n \<ge> 2" by linarith
  then show ?thesis
    using r by cases (auto simp: exclusive_ops_def split: option.splits)
qed

section \<open>One use\<close>

text \<open>A store in which a key can be claimed once: \<open>claim\<close> answers whether the caller got it.\<close>

locale one_use =
  fixes claim :: "'s \<Rightarrow> 'k \<Rightarrow> 'v \<Rightarrow> bool \<times> 's"
    and used :: "'s \<Rightarrow> 'k \<Rightarrow> bool"
  assumes claim_iff: "fst (claim s k v) \<longleftrightarrow> \<not> used s k"
    and used_claim: "used (snd (claim s k v)) k' \<longleftrightarrow> k' = k \<or> used s k'"
begin

text \<open>A run of claims, whoever makes them, with the answers in order.\<close>

fun claims :: "'s \<Rightarrow> ('k \<times> 'v) list \<Rightarrow> bool list" where
  "claims s [] = []"
| "claims s ((k, v) # xs) = (case claim s k v of (b, s') \<Rightarrow> b # claims s' xs)"

definition wins :: "'s \<Rightarrow> ('k \<times> 'v) list \<Rightarrow> 'k \<Rightarrow> nat" where
  "wins s xs k = length (filter (\<lambda>(x, b). fst x = k \<and> b) (zip xs (claims s xs)))"

lemma wins_used: "used s k \<Longrightarrow> wins s xs k = 0"
proof (induction xs arbitrary: s)
  case (Cons x xs)
  obtain j v where x: "x = (j, v)" by force
  obtain b s' where c: "claim s j v = (b, s')" by force
  have "used s' k" using used_claim [of s j v k] Cons.prems c by simp
  moreover have "j = k \<Longrightarrow> \<not> b" using claim_iff [of s j v] Cons.prems c by simp
  ultimately show ?case using Cons.IH [of s'] by (simp add: wins_def x c)
qed (simp add: wins_def)

lemma wins_le_one: "wins s xs k \<le> 1"
proof (induction xs arbitrary: s)
  case (Cons x xs)
  obtain j v where x: "x = (j, v)" by force
  obtain b s' where c: "claim s j v = (b, s')" by force
  have w: "wins s (x # xs) k = (if j = k \<and> b then Suc (wins s' xs k) else wins s' xs k)"
    by (simp add: wins_def x c)
  have "j = k \<Longrightarrow> used s' k" using used_claim [of s j v k] c by simp
  then show ?case using w Cons.IH [of s'] wins_used [of s' k xs] by auto
qed (simp add: wins_def)

text \<open>A client: each request either leaves the store alone and fails, or is one claim.\<close>

fun outcomes :: "('s \<Rightarrow> 'q \<Rightarrow> bool \<times> 's) \<Rightarrow> 's \<Rightarrow> 'q list \<Rightarrow> ('q \<times> bool) list" where
  "outcomes f s [] = []"
| "outcomes f s (q # qs) = (q, fst (f s q)) # outcomes f (snd (f s q)) qs"

definition serves_claims :: "('q \<Rightarrow> ('k \<times> 'v) option) \<Rightarrow> ('s \<Rightarrow> 'q \<Rightarrow> bool \<times> 's) \<Rightarrow> bool" where
  "serves_claims attempt f \<longleftrightarrow>
     (\<forall>s q. case attempt q of None \<Rightarrow> \<not> fst (f s q) \<and> snd (f s q) = s | Some (k, v) \<Rightarrow> f s q = claim s k v)"

lemma client_used:
  assumes "serves_claims attempt f" "used s k"
  shows "filter (\<lambda>(q, b). b \<and> map_option fst (attempt q) = Some k) (outcomes f s qs) = []"
  using assms(2)
proof (induction qs arbitrary: s)
  case (Cons q qs)
  have f: "case attempt q of None \<Rightarrow> \<not> fst (f s q) \<and> snd (f s q) = s | Some (k, v) \<Rightarrow> f s q = claim s k v"
    using assms(1) by (auto simp: serves_claims_def)
  have "used (snd (f s q)) k" "\<not> (fst (f s q) \<and> map_option fst (attempt q) = Some k)"
    using f Cons.prems claim_iff used_claim by (auto split: option.splits)
  then show ?case using Cons.IH by simp
qed simp

lemma client_once:
  assumes "serves_claims attempt f"
  shows "length (filter (\<lambda>(q, b). b \<and> map_option fst (attempt q) = Some k) (outcomes f s qs)) \<le> 1"
proof (induction qs arbitrary: s)
  case (Cons q qs)
  have f: "case attempt q of None \<Rightarrow> \<not> fst (f s q) \<and> snd (f s q) = s | Some (k, v) \<Rightarrow> f s q = claim s k v"
    using assms by (auto simp: serves_claims_def)
  show ?case
  proof (cases "fst (f s q) \<and> map_option fst (attempt q) = Some k")
    case True
    then have "used (snd (f s q)) k" using f used_claim by (auto split: option.splits)
    then show ?thesis using client_used [OF assms] True by simp
  next
    case False
    then have "\<not> (case (q, fst (f s q)) of (q, b) \<Rightarrow> b \<and> map_option fst (attempt q) = Some k)" by simp
    then show ?thesis using Cons.IH [of "snd (f s q)"] by (simp only: outcomes.simps filter.simps if_False)
  qed
qed simp

end

interpretation marker: one_use durableExclusiveCreateSync "\<lambda>fs path. fs path \<noteq> None"
  by unfold_locales (auto simp: durableExclusiveCreateSync_simp split: option.splits)

section \<open>Line files\<close>

text \<open>\<open>text.split(/\r?\n/)\<close>, without the empty lines.\<close>

definition strip_cr :: "string \<Rightarrow> string" where
  "strip_cr s = (if s \<noteq> [] \<and> last s = CHR 0x0D then butlast s else s)"

definition split_lines :: "string \<Rightarrow> string list" where
  "split_lines s = (let ps = str_split CHR 0x0A s in map strip_cr (butlast ps) @ [last ps])"

definition file_lines :: "string \<Rightarrow> string list" where
  "file_lines s = filter (\<lambda>l. l \<noteq> []) (split_lines s)"

definition lines_text :: "jval list \<Rightarrow> string" where
  "lines_text rs = (if rs = [] then [] else str_join [CHR 0x0A] (map json_text rs) @ [CHR 0x0A])"

lemma str_split_no_sep: "c \<notin> set s \<Longrightarrow> str_split c (s @ c # t) = s # str_split c t"
  by (induction s) auto

lemma split_lines_Cons:
  assumes "CHR 0x0A \<notin> set s" "CHR 0x0D \<notin> set s"
  shows "split_lines (s @ CHR 0x0A # t) = s # split_lines t"
proof -
  have "strip_cr s = s" using assms(2) by (metis last_in_set strip_cr_def)
  then show ?thesis by (simp add: split_lines_def str_split_no_sep [OF assms(1)] Let_def)
qed

lemma str_join_snoc: "str_join sep (map f (x # xs)) @ sep = concat (map (\<lambda>x. f x @ sep) (x # xs))"
  by (induction xs arbitrary: x) simp_all

lemma lines_text_concat: "lines_text rs = concat (map (\<lambda>r. json_text r @ [CHR 0x0A]) rs)"
  using str_join_snoc [where f = json_text and sep = "[CHR 0x0A]"] by (cases rs) (simp_all add: lines_text_def)

lemma int_str_chars: "c \<in> set (int_str n) \<Longrightarrow> is_digit c \<or> c = CHR ''-''"
  by (auto simp: int_str_def dest: nat_str_digits split: if_splits)

lemma json_quote_no_newline: "CHR 0x0A \<notin> set (json_quote s)" "CHR 0x0D \<notin> set (json_quote s)"
proof -
  have hex: "hex_char k \<noteq> CHR 0x0A" "hex_char k \<noteq> CHR 0x0D" if "k < 16" for k
    using hex_digit_val_hex_char [OF that] by (auto simp: hex_digit_val_def)
  have lt: "(of_char c :: nat) < 32 \<Longrightarrow> of_char c div 16 < (16 :: nat)" for c :: char by simp
  have "CHR 0x0A \<notin> set (json_esc c)" "CHR 0x0D \<notin> set (json_esc c)" for c
    using hex [OF lt, of c] hex [of "of_char c mod 16"]
    by (auto simp: json_esc_def Let_def)
  then show "CHR 0x0A \<notin> set (json_quote s)" "CHR 0x0D \<notin> set (json_quote s)"
    by (auto simp: json_quote_def)
qed

lemma set_str_join: "set (str_join sep xs) \<subseteq> set sep \<union> (\<Union>x\<in>set xs. set x)"
  by (induction sep xs rule: str_join.induct) auto

lemma json_text_no_newline:
  "json_storable v \<Longrightarrow> c = CHR 0x0A \<or> c = CHR 0x0D \<Longrightarrow> c \<notin> set (json_text v)"
proof (induction v)
  case (JNum n)
  then show ?case using int_str_chars [of c n] by (auto simp: is_digit_def)
next
  case (JStr s)
  then show ?case using json_quote_no_newline [of s] by auto
next
  case (JArr xs)
  then have "c \<notin> set (str_join '','' (map json_text xs))"
    using set_str_join [of "'',''" "map json_text xs"] by (auto simp: list_all_iff)
  then show ?case using JArr.prems(2) by auto
next
  case (JObj ps)
  have "c \<notin> set (member_text p)" if "p \<in> set ps" for p
    using JObj.IH [of p "snd p"] JObj.prems that json_quote_no_newline [of "fst p"]
    by (auto simp: member_text_def list_all_iff)
  then have "c \<notin> set (str_join '','' (map member_text ps))"
    using set_str_join [of "'',''" "map member_text ps"] JObj.prems(2) by auto
  then show ?case using JObj.prems json_text_obj [OF storable_members, of ps] by auto
qed auto

lemma file_lines_text:
  "list_all json_storable rs \<Longrightarrow> file_lines (lines_text rs) = map json_text rs"
proof (induction rs)
  case Nil
  show ?case by (simp add: file_lines_def lines_text_def split_lines_def)
next
  case (Cons r rs)
  have s: "json_storable r" using Cons.prems by simp
  have "split_lines (json_text r @ CHR 0x0A # lines_text rs) = json_text r # split_lines (lines_text rs)"
    by (rule split_lines_Cons) (simp_all add: json_text_no_newline [OF s])
  then have "split_lines (lines_text (r # rs)) = json_text r # split_lines (lines_text rs)"
    by (simp add: lines_text_concat)
  moreover have "json_text r \<noteq> []" using json_text_Cons [OF storable_defined [OF s]] by auto
  ultimately show ?case using Cons by (simp add: file_lines_def)
qed

section \<open>Markers\<close>

text \<open>\<open>JSON.stringify(v, null, 2)\<close> of a marker: a flat object or a value with further depth.\<close>

definition indent :: "nat \<Rightarrow> string" where
  "indent n = replicate (2 * n) (CHR '' '')"

fun json_pretty :: "nat \<Rightarrow> jval \<Rightarrow> string" where
  "json_pretty n (JArr xs) =
     (if xs = [] then ''[]'' else ''['' @ [CHR 0x0A] @ str_join ('','' @ [CHR 0x0A]) (map (\<lambda>x. indent (n + 1) @ json_pretty (n + 1) x) xs)
        @ [CHR 0x0A] @ indent n @ '']'')"
| "json_pretty n (JObj ps) =
     (let qs = map (\<lambda>(k, v). (k, v = JUndef, json_pretty (n + 1) v)) ps; kept = filter (\<lambda>(k, u, t). \<not> u) qs in
      if kept = [] then ''{}'' else ''{'' @ [CHR 0x0A]
        @ str_join ('','' @ [CHR 0x0A]) (map (\<lambda>(k, u, t). indent (n + 1) @ json_quote k @ '': '' @ t) kept)
        @ [CHR 0x0A] @ indent n @ ''}'')"
| "json_pretty n v = json_text v"

text \<open>A marker that cannot be read, for whatever reason, is \<open>null\<close>.\<close>

definition MAX_MARKER_BYTES :: int where
  "MAX_MARKER_BYTES = 64 * 1024"

definition readMarker :: "files \<Rightarrow> string \<Rightarrow> string \<Rightarrow> jval" where
  "readMarker fs path label =
     (case readBoundedFileSync fs path MAX_MARKER_BYTES label of
        Inr (Some s) \<Rightarrow> (case json_parse s of Some v \<Rightarrow> v | None \<Rightarrow> JNull)
      | _ \<Rightarrow> JNull)"

end
