(* ===== verification/Journal.thy ===== *)
theory Journal
  imports Files
begin

text \<open>
  The registry file that the delegation-budget registry (\<^verbatim>\<open>authority/budget.js\<close>) and the
  revocation registry (\<^verbatim>\<open>authority/revocation.js\<close>) both keep: a JSON-lines file that is loaded,
  checked line by line and rewritten whole, or, without a path, a list in memory.  The two
  differ in their messages and in the check of a line, which are arguments here.  The check
  threads a state (the last sequence number of the revocation registry).

  The locale \<open>journal\<close> states what makes such a file reliable: what the check accepts can be
  stored, and then loading gives back what was persisted.
\<close>

record limits =
  maxBytes :: int
  maxLineBytes :: int
  maxRecords :: int

record registry =
  reg_path :: "string option"
  reg_records :: "jval list"
  reg_limits :: limits

record jwords =
  w_label :: string
  w_line :: string
  w_corrupt :: string

definition REGISTRY_LIMITS :: limits where
  "REGISTRY_LIMITS = \<lparr>maxBytes = 8 * 1024 * 1024, maxLineBytes = 64 * 1024, maxRecords = 50000\<rparr>"

text \<open>The loop over the lines: size, JSON, then the check of the record.\<close>

primrec load_lines :: "jwords \<Rightarrow> limits \<Rightarrow> ('s \<Rightarrow> nat \<Rightarrow> jval \<Rightarrow> 's res) \<Rightarrow> string list \<Rightarrow> 's \<Rightarrow> nat \<Rightarrow> jval list res" where
  "load_lines W L chk [] st i = Inr []"
| "load_lines W L chk (l # ls) st i =
     throw_if (utf8_length l > maxLineBytes L)
       (w_line W @ nat_str (i + 1) @ '' exceeds maxLineBytes ('' @ int_str (maxLineBytes L) @ '')'')
       (case json_parse l of
          None \<Rightarrow> Inl (Error (w_corrupt W @ nat_str (i + 1)))
        | Some r \<Rightarrow> bind_res (chk st i r) (\<lambda>st'.
            bind_res (load_lines W L chk ls st' (i + 1)) (\<lambda>rs. Inr (r # rs))))"

definition too_many :: "jwords \<Rightarrow> limits \<Rightarrow> string" where
  "too_many W L = w_label W @ '' exceeds maxRecords ('' @ int_str (maxRecords L) @ '')''"

definition load_registry :: "jwords \<Rightarrow> ('s \<Rightarrow> nat \<Rightarrow> jval \<Rightarrow> 's res) \<Rightarrow> 's \<Rightarrow> files \<Rightarrow> registry \<Rightarrow> jval list res" where
  "load_registry W chk st0 fs reg =
     (case reg_path reg of
        None \<Rightarrow> Inr (reg_records reg)
      | Some p \<Rightarrow>
          bind_res (readBoundedFileSync fs p (maxBytes (reg_limits reg)) (w_label W)) (\<lambda>v.
            case v of
              None \<Rightarrow> Inr []
            | Some s \<Rightarrow>
                (let ls = file_lines s in
                 throw_if (int (length ls) > maxRecords (reg_limits reg)) (too_many W (reg_limits reg))
                   (load_lines W (reg_limits reg) chk ls st0 0))))"

text \<open>The state after a write; \<open>temp\<close> is the fresh name of the temporary file.\<close>

definition persist_registry :: "jwords \<Rightarrow> string \<Rightarrow> files \<Rightarrow> registry \<Rightarrow> jval list \<Rightarrow> (files \<times> registry) res" where
  "persist_registry W temp fs reg rs =
     (case reg_path reg of
        None \<Rightarrow> Inr (fs, reg\<lparr>reg_records := rs\<rparr>)
      | Some p \<Rightarrow>
          throw_if (int (length rs) > maxRecords (reg_limits reg)) (too_many W (reg_limits reg))
            (case atomicWriteFileSync fs p temp (lines_text rs) (maxBytes (reg_limits reg)) (w_label W) of
               (fs', None) \<Rightarrow> Inr (fs', reg)
             | (fs', Some e) \<Rightarrow> Inl e))"

text \<open>The check along a whole list of records.\<close>

primrec accepts :: "('s \<Rightarrow> nat \<Rightarrow> jval \<Rightarrow> 's res) \<Rightarrow> jval list \<Rightarrow> 's \<Rightarrow> nat \<Rightarrow> bool" where
  "accepts chk [] st i = True"
| "accepts chk (r # rs) st i = (case chk st i r of Inl e \<Rightarrow> False | Inr st' \<Rightarrow> accepts chk rs st' (i + 1))"

definition fits :: "limits \<Rightarrow> jval list \<Rightarrow> bool" where
  "fits L rs \<longleftrightarrow> int (length rs) \<le> maxRecords L
     \<and> list_all (\<lambda>r. utf8_length (json_text r) \<le> maxLineBytes L) rs
     \<and> utf8_length (lines_text rs) \<le> (if maxBytes L > 0 then maxBytes L else MAX_FILE_BYTES)"

lemma load_lines_accepts:
  assumes "list_all json_storable rs" "accepts chk rs st i"
    and "list_all (\<lambda>r. utf8_length (json_text r) \<le> maxLineBytes L) rs"
  shows "load_lines W L chk (map json_text rs) st i = Inr rs"
  using assms
proof (induction rs arbitrary: st i)
  case (Cons r rs)
  then obtain st' where "chk st i r = Inr st'" "accepts chk rs st' (i + 1)" by (auto split: sum.splits)
  with Cons show ?case by (simp add: json_parse_text)
qed simp

lemma load_lines_accepted: "load_lines W L chk ls st i = Inr rs \<Longrightarrow> accepts chk rs st i"
  by (induction ls arbitrary: st i rs) (auto simp: res_simps split: option.splits)

locale journal =
  fixes W :: jwords
    and chk :: "'s \<Rightarrow> nat \<Rightarrow> jval \<Rightarrow> 's res"
    and st0 :: 's
    and ok :: "jval \<Rightarrow> bool"
  assumes chk_ok: "chk st i r = Inr st' \<Longrightarrow> ok r"
begin

lemma loaded_ok:
  assumes "load_registry W chk st0 fs reg = Inr rs" "list_all ok (reg_records reg)" "r \<in> set rs"
  shows "ok r"
proof -
  have acc: "accepts chk rs st i \<Longrightarrow> r \<in> set rs \<Longrightarrow> ok r" for rs st i
  proof (induction rs arbitrary: st i)
    case (Cons a as)
    then show ?case using chk_ok by (auto split: sum.splits)
  qed simp
  from assms show ?thesis
  proof (cases "reg_path reg")
    case None
    then show ?thesis using assms by (simp add: load_registry_def list_all_iff)
  next
    case (Some p)
    then show ?thesis
      using assms(1,3)
      by (auto simp: load_registry_def res_simps Let_def split: option.splits
          dest!: load_lines_accepted intro: acc)
  qed
qed

text \<open>The round trip.  Without a path it is immediate; with one the records must be storable, the
  check must accept them in order, and every limit must hold.\<close>

lemma load_persist:
  assumes "persist_registry W temp fs reg rs = Inr (fs', reg')"
    and "fs temp = None" "reg_path reg \<noteq> Some temp"
    and "list_all json_storable rs" "accepts chk rs st0 0" "fits (reg_limits reg) rs"
  shows "load_registry W chk st0 fs' reg' = Inr rs"
proof (cases "reg_path reg")
  case None
  then show ?thesis using assms(1) by (auto simp: persist_registry_def load_registry_def)
next
  case (Some p)
  have w: "atomicWriteFileSync fs p temp (lines_text rs) (maxBytes (reg_limits reg)) (w_label W) =
      (fs(p \<mapsto> lines_text rs), None)"
    using assms(2,3,6) Some by (intro atomicWriteFileSync_ok) (auto simp: fits_def)
  then have e: "fs' = fs(p \<mapsto> lines_text rs)" "reg' = reg"
    using assms(1) Some by (auto simp: persist_registry_def res_simps)
  have "load_lines W (reg_limits reg) chk (map json_text rs) st0 0 = Inr rs"
    using assms(4,5,6) by (intro load_lines_accepts) (auto simp: fits_def)
  then show ?thesis
    using assms(4,6) Some e
    by (auto simp: load_registry_def readBoundedFileSync_def file_lines_text fits_def)
qed

text \<open>Whatever the limits and the check say, loading never gives anything else than what was
  persisted: it may only fail.\<close>

lemma load_persist_unique:
  assumes "persist_registry W temp fs reg rs = Inr (fs', reg')"
    and "fs temp = None" "reg_path reg \<noteq> Some temp" "reg_path reg = None \<or> list_all json_storable rs"
    and "load_registry W chk st0 fs' reg' = Inr rs'"
  shows "rs' = rs"
proof (cases "reg_path reg")
  case None
  then show ?thesis using assms(1,5) by (auto simp: persist_registry_def load_registry_def)
next
  case (Some p)
  then have st: "list_all json_storable rs" and pt: "temp \<noteq> p" using assms(3,4) by auto
  from assms(1) Some have "snd (atomicWriteFileSync fs p temp (lines_text rs) (maxBytes (reg_limits reg)) (w_label W)) = None"
    by (auto simp: persist_registry_def res_simps split: prod.splits option.splits)
  then have w: "maxBytes (reg_limits reg) > 0 \<longrightarrow> utf8_length (lines_text rs) \<le> maxBytes (reg_limits reg)"
    by (auto simp: atomicWriteFileSync_def split: if_splits)
  have "fs' p = Some (lines_text rs)" "reg' = reg"
    using assms(1) Some atomicWriteFileSync_ok [where fs = fs and path = p and temp = temp, OF assms(2) pt w]
    by (auto simp: persist_registry_def res_simps)
  then have "load_lines W (reg_limits reg) chk (map json_text rs) st0 0 = Inr rs'"
    using assms(5) Some file_lines_text [OF st]
    by (auto simp: load_registry_def readBoundedFileSync_def res_simps Let_def split: if_splits)
  moreover have "load_lines W L chk (map json_text qs) st i = Inr rs' \<Longrightarrow> list_all json_storable qs \<Longrightarrow> rs' = qs" for L qs st i
    by (induction qs arbitrary: st i rs') (auto simp: res_simps json_parse_text)
  ultimately show ?thesis using st by blast
qed

lemma loaded_storable:
  assumes "load_registry W chk st0 fs reg = Inr rs" "reg_path reg \<noteq> None"
  shows "list_all json_storable rs"
proof -
  have "load_lines W L chk ls st i = Inr qs \<Longrightarrow> list_all json_storable qs" for L ls st i qs
    by (induction ls arbitrary: st i qs) (auto simp: res_simps split: option.splits dest: json_parse_storable)
  then show ?thesis
    using assms by (auto simp: load_registry_def res_simps Let_def split: option.splits)
qed

lemma persist_frame:
  assumes "persist_registry W temp fs reg rs = Inr (fs', reg')" "fs temp = None"
    "reg_path reg \<noteq> Some q" "q \<noteq> temp"
  shows "fs' q = fs q"
  using assms
  by (auto simp: persist_registry_def res_simps atomicWriteFileSync_def atomic_ops_def
      split: option.splits if_splits prod.splits)

end

section \<open>The state of the check\<close>

primrec run_check :: "('s \<Rightarrow> nat \<Rightarrow> jval \<Rightarrow> 's res) \<Rightarrow> jval list \<Rightarrow> 's \<Rightarrow> nat \<Rightarrow> 's res" where
  "run_check chk [] st i = Inr st"
| "run_check chk (r # rs) st i = bind_res (chk st i r) (\<lambda>st'. run_check chk rs st' (i + 1))"

lemma accepts_run: "accepts chk rs st i \<longleftrightarrow> (\<exists>st'. run_check chk rs st i = Inr st')"
  by (induction rs arbitrary: st i) (auto split: sum.splits)

lemma run_check_append:
  "run_check chk (rs @ qs) st i = bind_res (run_check chk rs st i) (\<lambda>st'. run_check chk qs st' (i + length rs))"
proof (induction rs arbitrary: st i)
  case (Cons r rs)
  then show ?case by (cases "chk st i r") simp_all
qed simp

lemma load_registry_accepted:
  assumes "load_registry W chk st0 fs reg = Inr rs" "reg_path reg \<noteq> None"
  shows "accepts chk rs st0 0"
  using assms by (auto simp: load_registry_def res_simps Let_def split: option.splits dest: load_lines_accepted)

lemma persist_temp_free:
  assumes "persist_registry W temp fs reg rs = Inr (fs', reg')" "reg_path reg = Some p"
  shows "fs temp = None"
  using assms by (auto simp: persist_registry_def res_simps atomicWriteFileSync_def atomic_ops_def
      split: if_splits option.splits prod.splits)

lemma persist_present:
  assumes "persist_registry W temp fs reg rs = Inr (fs', reg')" "reg_path reg = Some p" "p \<noteq> temp"
  shows "fs' p \<noteq> None" "reg' = reg"
  using assms by (auto simp: persist_registry_def res_simps atomicWriteFileSync_def atomic_ops_def
      split: if_splits option.splits prod.splits)

section \<open>Blocking\<close>

text \<open>A store of prohibitions: no admissible operation lifts one, so a prohibition that holds after
  some operation holds after any further run of them.\<close>

locale blocklist =
  fixes step :: "'op \<Rightarrow> 's \<Rightarrow> 's"
    and admissible :: "'op \<Rightarrow> 's \<Rightarrow> bool"
    and blocks :: "'s \<Rightarrow> 'q \<Rightarrow> bool"
  assumes admissible_step: "admissible x s \<Longrightarrow> admissible y s \<Longrightarrow> admissible x (step y s)"
    and blocks_step: "admissible x s \<Longrightarrow> blocks s q \<Longrightarrow> blocks (step x s) q"
begin

lemma blocks_run:
  "blocks s q \<Longrightarrow> \<forall>x\<in>set xs. admissible x s \<Longrightarrow> blocks (fold step xs s) q"
proof (induction xs arbitrary: s)
  case (Cons x xs)
  then have "blocks (step x s) q" using blocks_step by simp
  moreover have "\<forall>y\<in>set xs. admissible y (step x s)" using Cons.prems admissible_step by simp
  ultimately show ?case using Cons.IH by simp
qed simp

end

end
