(* ===== verification/ProtocolAuthority.thy ===== *)
theory ProtocolAuthority
  imports Protocol
begin

text \<open>
  The validators of \<^verbatim>\<open>packages/protocol/src/index.js\<close> for the objects of the authority core:
  normalised tool calls, authority grants and envelopes, execution leases, effect and decision
  receipts and revocation records.  As in \<open>Protocol\<close>, a validator is the list of its errors in
  the code's order.
\<close>

section \<open>Shared checks\<close>

definition hex_digit :: "char \<Rightarrow> bool" where
  "hex_digit c \<longleftrightarrow> is_digit c \<or> c \<in> set ''abcdef''"

text \<open>\<open>/^sha256:[0-9a-f]{64}$/\<close>.\<close>

definition is_sha256_id :: "jval \<Rightarrow> bool" where
  "is_sha256_id v = (case v of
     JStr s \<Rightarrow> starts_with ''sha256:'' s \<and> length s = 71 \<and> list_all hex_digit (drop 7 s)
   | _ \<Rightarrow> False)"

text \<open>\<open>/^[a-z0-9][a-z0-9._:-]*$/\<close>, at most 128 characters.\<close>

definition token_char :: "char \<Rightarrow> bool" where
  "token_char c \<longleftrightarrow> is_digit c \<or> c \<in> set ''abcdefghijklmnopqrstuvwxyz''"

definition machine_token :: "jval \<Rightarrow> bool" where
  "machine_token v = (case v of
     JStr (c # s) \<Rightarrow> length (c # s) \<le> 128 \<and> token_char c
       \<and> list_all (\<lambda>d. token_char d \<or> d \<in> set ''._:-'') s
   | _ \<Rightarrow> False)"

definition iso_errors :: "jval \<Rightarrow> string \<Rightarrow> string list" where
  "iso_errors v path =
     (if \<not> nonempty_str v then [path @ '' is required'']
      else err_if (date_parse (str_of v) = None) (path @ '' must be a valid date-time''))"

definition iso_time :: "jval \<Rightarrow> int option" where
  "iso_time v = (if \<not> nonempty_str v then None else date_parse (str_of v))"

definition validateIsoField :: "jval \<Rightarrow> string \<Rightarrow> string list \<times> int option" where
  "validateIsoField v path = (iso_errors v path, iso_time v)"

lemma iso_errors_ok: "iso_errors v path = [] \<longleftrightarrow> (\<exists>t. iso_time v = Some t)"
  by (auto simp: iso_errors_def iso_time_def)

lemma iso_time_Some: "iso_time v = Some t \<Longrightarrow> \<exists>s. v = JStr s \<and> s \<noteq> [] \<and> date_parse s = Some t"
  by (auto simp: iso_time_def nonempty_str_iff split: if_splits)

text \<open>The three fields of a validity period, and the order the code demands of them.\<close>

definition period_errors :: "jval \<Rightarrow> string \<Rightarrow> string list" where
  "period_errors v start =
     iso_errors (jget v start) start
     @ iso_errors (jget v ''not_before'') ''not_before''
     @ iso_errors (jget v ''expires_at'') ''expires_at''
     @ err_if (time_lt (iso_time (jget v ''not_before'')) (iso_time (jget v start)))
         (''not_before must not precede '' @ start)
     @ err_if (time_le (iso_time (jget v ''expires_at'')) (iso_time (jget v ''not_before'')))
         ''expires_at must be after not_before''"

lemma period_errors_ok:
  "period_errors v start = [] \<longleftrightarrow>
     (\<exists>a b c. iso_time (jget v start) = Some a \<and> iso_time (jget v ''not_before'') = Some b
       \<and> iso_time (jget v ''expires_at'') = Some c \<and> a \<le> b \<and> b < c)"
  by (auto simp: period_errors_def iso_errors_ok)

definition unknown_keys :: "jval \<Rightarrow> string list \<Rightarrow> (string \<Rightarrow> string) \<Rightarrow> string list" where
  "unknown_keys v allowed msg = map msg (filter (\<lambda>k. k \<notin> set allowed) (jkeys v))"

definition jlast :: "jval list \<Rightarrow> jval" where
  "jlast xs = (if xs = [] then JUndef else last xs)"

definition string_list_ok :: "jval \<Rightarrow> bool" where
  "string_list_ok v \<longleftrightarrow> is_arr v \<and> list_all nonempty_str (arr_of v)"

section \<open>Normalised tool calls\<close>

definition optional_nonempty :: "jval \<Rightarrow> string \<Rightarrow> string list" where
  "optional_nonempty v path =
     err_if (present v \<and> \<not> nonempty_str v) (path @ '' must be a non-empty string when present'')"

definition validateNormalizedToolCall :: "jval \<Rightarrow> string list" where
  "validateNormalizedToolCall call =
     (if \<not> is_obj call then [''normalized tool call must be an object'']
      else
        required_strings call [''call_id'', ''timestamp''] '' is required''
        @ (let actor = jget call ''actor'' in
           if \<not> is_obj actor then [''actor is required'']
           else err_if (\<not> one_of ACTOR_TYPES (jget actor ''type'')) ''actor.type is invalid''
             @ err_if (\<not> nonempty_str (jget actor ''name'')) ''actor.name is required''
             @ err_if (\<not> nonempty_str (jget actor ''session_id'')) ''actor.session_id is required''
             @ optional_nonempty (jget actor ''id'') ''actor.id''
             @ optional_nonempty (jget actor ''issuer'') ''actor.issuer'')
        @ (let tool = jget call ''tool'' in
           if \<not> is_obj tool then [''tool is required'']
           else err_if (\<not> nonempty_str (jget tool ''name'')) ''tool.name is required''
             @ err_if (\<not> one_of TOOL_CATEGORIES (jget tool ''category'')) ''tool.category is invalid''
             @ err_if (\<not> one_of TOOL_OPERATIONS (jget tool ''operation'')) ''tool.operation is invalid'')
        @ (let target = jget call ''target'' in
           if \<not> is_obj target then [''target is required'']
           else err_if (\<not> is_str (jget target ''resource'')) ''target.resource must be a string''
             @ err_if (\<not> is_str (jget target ''scope'')) ''target.scope must be a string''
             @ err_if (\<not> one_of SENSITIVITY_LEVELS (jget target ''sensitivity'')) ''target.sensitivity is invalid'')
        @ err_if (present (jget call ''arguments'') \<and> \<not> is_obj (jget call ''arguments''))
            ''arguments must be an object when present''
        @ err_if (present (jget call ''context'') \<and> \<not> is_obj (jget call ''context''))
            ''context must be an object when present'')"

section \<open>Authority grants\<close>

definition AUTHORITY_BUDGET_FIELDS :: "string list" where
  "AUTHORITY_BUDGET_FIELDS = [''max_executions'', ''max_objects'', ''max_bytes'', ''max_amount'', ''max_external_calls'']"

definition AUTHORITY_OBLIGATION_TYPES :: "string list" where
  "AUTHORITY_OBLIGATION_TYPES = [''require_approval'', ''require_effect_receipt'', ''require_recorder'',
     ''execution_before'', ''target_verified'']"

definition DELEGATION_BUDGET_MODES :: "string list" where
  "DELEGATION_BUDGET_MODES = [''inherit'', ''partition'']"

definition MAX_AUTHORITY_DELEGATION_DEPTH :: int where
  "MAX_AUTHORITY_DELEGATION_DEPTH = 32"

text \<open>\<open>max_amount\<close> may be fractional in the code; every number of the model is an integer, so the
  test for an integer never fails after the test for a finite number.\<close>

definition validateAuthorityBudgetShape :: "jval \<Rightarrow> string \<Rightarrow> string list" where
  "validateAuthorityBudgetShape v path =
     (if \<not> is_obj v then [path @ '' must be an object'']
      else unknown_keys v AUTHORITY_BUDGET_FIELDS (\<lambda>k. path @ ''.'' @ k @ '' is not supported'')
        @ concat (map (\<lambda>f.
            if jget v f = JUndef then []
            else (case to_number (jget v f) of
                JNum n \<Rightarrow> err_if (n < 0) (path @ ''.'' @ f @ '' must be a non-negative finite number'')
              | _ \<Rightarrow> [path @ ''.'' @ f @ '' must be a non-negative finite number'']))
          AUTHORITY_BUDGET_FIELDS))"

definition validate_obligation :: "string \<Rightarrow> nat \<Rightarrow> jval \<Rightarrow> string list" where
  "validate_obligation path i ob =
     (let p = path @ ''['' @ nat_str i @ '']'' in
      if \<not> is_obj ob then [p @ '' must be an object'']
      else err_if (\<not> one_of AUTHORITY_OBLIGATION_TYPES (jget ob ''type'')) (p @ ''.type is invalid'')
        @ unknown_keys ob (if jget ob ''type'' = JStr ''execution_before'' then [''type'', ''deadline''] else [''type''])
            (\<lambda>k. p @ ''.'' @ k @ '' is not supported'')
        @ err_if (jget ob ''type'' = JStr ''execution_before''
              \<and> (\<not> is_str (jget ob ''deadline'') \<or> date_parse (str_of (jget ob ''deadline'')) = None))
            (p @ ''.deadline must be a valid date-time''))"

definition validateAuthorityObligationsShape :: "jval \<Rightarrow> string \<Rightarrow> string list" where
  "validateAuthorityObligationsShape v path =
     (if \<not> is_arr v then [path @ '' must be an array''] else concat_idx (validate_obligation path) (arr_of v))"

definition validate_principal :: "nat \<Rightarrow> jval \<Rightarrow> string list" where
  "validate_principal index pr =
     (let path = ''principal_chain['' @ nat_str index @ '']'' in
      if \<not> is_obj pr then [path @ '' must be an object'']
      else err_if (\<not> one_of AUTHORITY_PRINCIPAL_TYPES (jget pr ''type'')) (path @ ''.type is invalid'')
        @ err_if (\<not> nonempty_str (jget pr ''id'')) (path @ ''.id is required''))"

definition validate_cap_lists :: "jval \<Rightarrow> string \<Rightarrow> string list" where
  "validate_cap_lists cap path =
     validateStringArray (jget cap ''actions'') (path @ ''.actions'') True
     @ validateStringArray (jget cap ''resources'') (path @ ''.resources'') True"

definition validate_capability :: "nat \<Rightarrow> jval \<Rightarrow> string list" where
  "validate_capability index cap =
     (let path = ''capabilities['' @ nat_str index @ '']'' in
      if \<not> is_obj cap then [path @ '' must be an object'']
      else err_if (present (jget cap ''id'') \<and> \<not> nonempty_str (jget cap ''id''))
          (path @ ''.id must be a non-empty string when present'')
        @ validate_cap_lists cap path)"

definition depth_ok :: "jval \<Rightarrow> bool" where
  "depth_ok v \<longleftrightarrow> is_int v \<and> 0 \<le> num_of v \<and> num_of v \<le> MAX_AUTHORITY_DELEGATION_DEPTH"

definition validate_grant_subject :: "jval \<Rightarrow> string list" where
  "validate_grant_subject subject =
     (if \<not> is_obj subject then [''subject is required'']
      else err_if (\<not> one_of AUTHORITY_PRINCIPAL_TYPES (jget subject ''type'')) ''subject.type is invalid''
        @ err_if (\<not> nonempty_str (jget subject ''id'')) ''subject.id is required''
        @ optional_strings subject ''subject.'' [''name'', ''issuer''])"

definition validate_chain_end :: "jval \<Rightarrow> string list" where
  "validate_chain_end grant =
     (let chain = jget grant ''principal_chain''; subject = jget grant ''subject'' in
      err_if (is_arr chain \<and> arr_of chain \<noteq> [] \<and> is_obj subject
          \<and> (let l = last (arr_of chain) in
             is_obj l \<and> (\<not> strict_eq (jget l ''id'') (jget subject ''id'')
               \<or> \<not> strict_eq (jget l ''type'') (jget subject ''type''))))
        ''principal_chain must end with subject'')"

text \<open>The fields that version 1.1 adds.\<close>

definition validate_ancestors :: "jval \<Rightarrow> string list" where
  "validate_ancestors grant =
     (let ids = jget grant ''ancestor_grant_ids''; depth = jget grant ''delegation_depth'' in
      if \<not> is_arr ids then [''ancestor_grant_ids must be an array for grant_version 1.1'']
      else err_if (\<not> list_all nonempty_str (arr_of ids)) ''ancestor_grant_ids must contain non-empty strings''
        @ err_if (has_dup (arr_of ids)) ''ancestor_grant_ids must not contain duplicates''
        @ err_if (is_int depth \<and> int (length (arr_of ids)) \<noteq> num_of depth)
            ''ancestor_grant_ids length must equal delegation_depth''
        @ err_if (jlt (JNum 0) depth \<and> \<not> strict_eq (jlast (arr_of ids)) (jget grant ''parent_grant_id''))
            ''ancestor_grant_ids must end with parent_grant_id'')"

definition validate_delegation :: "jval \<Rightarrow> string list" where
  "validate_delegation grant =
     (let del = jget grant ''delegation''; depth = jget grant ''delegation_depth'' in
      if \<not> is_obj del then [''delegation is required for grant_version 1.1'']
      else err_if (\<not> is_bool (jget del ''allowed'')) ''delegation.allowed must be boolean''
        @ (if \<not> depth_ok (jget del ''max_depth'') then [''delegation.max_depth must be an integer from 0 to 32'']
           else err_if (is_int depth \<and> num_of (jget del ''max_depth'') < num_of depth)
             ''delegation.max_depth must not be below delegation_depth'')
        @ err_if (jget del ''allowed'' = JBool True \<and> is_int (jget del ''max_depth'') \<and> is_int depth
              \<and> num_of (jget del ''max_depth'') \<le> num_of depth)
            ''delegation.allowed requires max_depth greater than delegation_depth''
        @ err_if (\<not> one_of DELEGATION_BUDGET_MODES (jget del ''budget_mode''))
            ''delegation.budget_mode must be inherit or partition'')"

definition validate_grant_11 :: "jval \<Rightarrow> string list" where
  "validate_grant_11 grant =
     validate_ancestors grant
     @ err_if (is_arr (jget grant ''principal_chain'')
          \<and> has_dup (filter is_str (map (\<lambda>p. jget p ''id'') (arr_of (jget grant ''principal_chain'')))))
         ''principal_chain principal IDs must be unique for grant_version 1.1''
     @ err_if (is_arr (jget grant ''ancestor_grant_ids'')
          \<and> jincludes (arr_of (jget grant ''ancestor_grant_ids'')) (jget grant ''grant_id''))
         ''ancestor_grant_ids must not include grant_id''
     @ validateAuthorityBudgetShape (jget grant ''budget'') ''budget''
     @ validateAuthorityObligationsShape (jget grant ''obligations'') ''obligations''
     @ validate_delegation grant"

definition validateAuthorityGrant :: "jval \<Rightarrow> string list" where
  "validateAuthorityGrant grant =
     (if \<not> is_obj grant then [''authority grant must be an object'']
      else
        err_if (\<not> one_of [''1.0'', ''1.1''] (jget grant ''grant_version'')) ''grant_version must be 1.0 or 1.1''
        @ required_strings grant [''grant_id'', ''issuer''] '' is required''
        @ period_errors grant ''issued_at''
        @ validate_grant_subject (jget grant ''subject'')
        @ (let chain = jget grant ''principal_chain'' in
           if \<not> is_arr chain \<or> arr_of chain = [] then [''principal_chain must be a non-empty array'']
           else concat_idx validate_principal (arr_of chain))
        @ validate_chain_end grant
        @ (let caps = jget grant ''capabilities'' in
           if \<not> is_arr caps \<or> arr_of caps = [] then [''capabilities must be a non-empty array'']
           else concat_idx validate_capability (arr_of caps))
        @ (let parent = jget grant ''parent_grant_id''; depth = jget grant ''delegation_depth'' in
           err_if (parent \<noteq> JUndef \<and> parent \<noteq> JNull \<and> \<not> nonempty_str parent)
             ''parent_grant_id must be a non-empty string or null when present''
           @ err_if (\<not> depth_ok depth) ''delegation_depth must be an integer from 0 to 32''
           @ err_if (jnullish parent \<and> depth \<noteq> JNum 0) ''root authority grant must have delegation_depth 0''
           @ err_if (nonempty_str parent \<and> jlt depth (JNum 1))
               ''delegated authority grant must have delegation_depth >= 1'')
        @ optional_strings grant [] [''task_id'', ''intent_id'', ''session_id'', ''signature'']
        @ (if jget grant ''grant_version'' = JStr ''1.1'' then validate_grant_11 grant else []))"

section \<open>Envelopes, leases and receipts\<close>

definition validate_env_capability :: "nat \<Rightarrow> jval \<Rightarrow> string list" where
  "validate_env_capability index cap =
     (let path = ''capabilities['' @ nat_str index @ '']'' in
      if \<not> is_obj cap then [path @ '' must be an object''] else validate_cap_lists cap path)"

definition validateAuthorityEnvelope :: "jval \<Rightarrow> string list" where
  "validateAuthorityEnvelope envelope =
     (if \<not> is_obj envelope then [''authority envelope must be an object'']
      else
        err_if (\<not> one_of [''1.0''] (jget envelope ''envelope_version'')) ''envelope_version must be 1.0''
        @ required_strings envelope [''envelope_id'', ''grant_id'', ''issued_at'', ''not_before'', ''expires_at''] '' is required''
        @ err_if (\<not> is_arr (jget envelope ''principal_chain'') \<or> arr_of (jget envelope ''principal_chain'') = [])
            ''principal_chain must be a non-empty array''
        @ (let caps = jget envelope ''capabilities'' in
           if \<not> is_arr caps \<or> arr_of caps = [] then [''capabilities must be a non-empty array'']
           else concat_idx validate_env_capability (arr_of caps))
        @ err_if (\<not> is_obj (jget envelope ''constraints'')) ''constraints must be an object''
        @ err_if (\<not> is_arr (jget envelope ''obligations'')) ''obligations must be an array''
        @ period_errors envelope ''issued_at''
        @ optional_strings envelope [] [''signature''])"

definition validateExecutionLease :: "jval \<Rightarrow> string list" where
  "validateExecutionLease lease =
     (if \<not> is_obj lease then [''execution lease must be an object'']
      else
        err_if (\<not> one_of [''1.0'', ''1.1'', ''1.2''] (jget lease ''lease_version''))
          ''lease_version must be 1.0, 1.1, or 1.2''
        @ required_strings lease [''lease_id'', ''decision_id'', ''principal_id'', ''action_digest'', ''policy_digest'',
            ''canonical_action'', ''canonical_resource'', ''issued_at'', ''not_before'', ''expires_at'', ''nonce''] '' is required''
        @ err_if (jget lease ''max_uses'' \<noteq> JNum 1) ''max_uses must be exactly 1 for one-use ExecutionLease v1''
        @ err_if (present (jget lease ''budget'') \<and> \<not> is_obj (jget lease ''budget'')) ''budget must be an object when present''
        @ err_if (present (jget lease ''obligations'') \<and> \<not> is_arr (jget lease ''obligations''))
            ''obligations must be an array when present''
        @ optional_strings lease [] [''signature'']
        @ (if jget lease ''lease_version'' = JStr ''1.2''
           then required_strings lease [''approval_id'', ''approval_result_id''] '' is required for lease_version 1.2'' else [])
        @ period_errors lease ''issued_at''
        @ (if one_of [''1.1'', ''1.2''] (jget lease ''lease_version'')
           then err_if (\<not> string_list_ok (jget lease ''authority_ancestor_grant_ids''))
               ''authority_ancestor_grant_ids must be an array of non-empty strings for lease_version 1.1''
             @ err_if (\<not> string_list_ok (jget lease ''authority_principal_ids''))
               ''authority_principal_ids must be an array of non-empty strings for lease_version 1.1''
           else []))"

definition LEGACY_OBSERVATION_QUALITIES :: "string list" where
  "LEGACY_OBSERVATION_QUALITIES = [''complete-for-adapter'', ''partial'', ''inferred'', ''unavailable'']"

definition OBSERVATION_QUALITIES :: "string list" where
  "OBSERVATION_QUALITIES = [''requested_only'', ''process_return_observed'', ''local_state_observed'',
     ''remote_response_observed'', ''complete_for_adapter'', ''partial'', ''ambiguous'']"

definition EFFECT_STATUSES :: "string list" where
  "EFFECT_STATUSES = [''success'', ''failure'', ''partial'', ''unknown'']"

definition validate_effect_10 :: "jval \<Rightarrow> string list" where
  "validate_effect_10 receipt =
     err_if (truthy (jget receipt ''observation_quality'')
         \<and> \<not> one_of LEGACY_OBSERVATION_QUALITIES (jget receipt ''observation_quality''))
       ''observation_quality is invalid for effect_version 1.0''
     @ err_if (present (jget receipt ''observation_boundary'')) ''observation_boundary is not allowed for effect_version 1.0''
     @ err_if (present (jget receipt ''adapter_contract_version''))
         ''adapter_contract_version is not allowed for effect_version 1.0''"

definition validate_effect_11 :: "jval \<Rightarrow> string list" where
  "validate_effect_11 receipt =
     (let q = jget receipt ''observation_quality''; st = jget receipt ''status'' in
      err_if (truthy q \<and> \<not> one_of OBSERVATION_QUALITIES q) ''observation_quality is invalid for effect_version 1.1''
      @ err_if (jget receipt ''adapter_contract_version'' \<noteq> JStr ''1.1'')
          ''adapter_contract_version must be 1.1 for effect_version 1.1''
      @ err_if (\<not> machine_token (jget receipt ''observation_boundary''))
          ''observation_boundary must be a bounded machine-readable token for effect_version 1.1''
      @ err_if (q = JStr ''requested_only'' \<and> st \<noteq> JStr ''unknown'') ''requested_only observation requires status unknown''
      @ err_if (q = JStr ''ambiguous'' \<and> st \<noteq> JStr ''unknown'') ''ambiguous observation requires status unknown''
      @ err_if (q = JStr ''partial'' \<and> \<not> one_of [''partial'', ''unknown''] st)
          ''partial observation requires status partial or unknown''
      @ err_if (q = JStr ''complete_for_adapter'' \<and> st = JStr ''unknown'')
          ''complete_for_adapter observation must resolve to success, failure, or partial status'')"

definition validateEffectReceipt :: "jval \<Rightarrow> string list" where
  "validateEffectReceipt receipt =
     (if \<not> is_obj receipt then [''effect receipt must be an object'']
      else
        unknown_keys receipt [''effect_version'', ''effect_id'', ''lease_id'', ''decision_id'', ''adapter'',
            ''adapter_contract_version'', ''started_at'', ''completed_at'', ''status'', ''observation_quality'',
            ''observation_boundary'', ''requested'', ''observed'', ''error'', ''signature'']
          (\<lambda>k. ''effect receipt field '' @ k @ '' is not allowed'')
        @ err_if (\<not> one_of [''1.0'', ''1.1''] (jget receipt ''effect_version'')) ''effect_version must be 1.0 or 1.1''
        @ required_strings receipt [''effect_id'', ''lease_id'', ''decision_id'', ''adapter'', ''started_at'',
            ''completed_at'', ''status'', ''observation_quality''] '' is required''
        @ err_if (truthy (jget receipt ''status'') \<and> \<not> one_of EFFECT_STATUSES (jget receipt ''status'')) ''status is invalid''
        @ (if jget receipt ''effect_version'' = JStr ''1.0'' then validate_effect_10 receipt else [])
        @ (if jget receipt ''effect_version'' = JStr ''1.1'' then validate_effect_11 receipt else [])
        @ err_if (\<not> is_obj (jget receipt ''observed'')) ''observed must be an object''
        @ err_if (present (jget receipt ''requested'') \<and> \<not> is_obj (jget receipt ''requested''))
            ''requested must be an object when present''
        @ err_if (\<not> jnullish (jget receipt ''error'') \<and> \<not> is_obj (jget receipt ''error''))
            ''error must be an object or null when present''
        @ optional_strings receipt [] [''signature'']
        @ iso_errors (jget receipt ''started_at'') ''started_at''
        @ iso_errors (jget receipt ''completed_at'') ''completed_at''
        @ err_if (time_lt (iso_time (jget receipt ''completed_at'')) (iso_time (jget receipt ''started_at'')))
            ''completed_at must not precede started_at'')"

definition validateDecisionReceipt :: "jval \<Rightarrow> string list" where
  "validateDecisionReceipt receipt =
     (if \<not> is_obj receipt then [''decision receipt must be an object'']
      else
        err_if (\<not> one_of [''1.0'', ''1.1'', ''1.2''] (jget receipt ''receipt_version''))
          ''receipt_version must be 1.0, 1.1, or 1.2''
        @ required_strings receipt [''decision_id'', ''evaluated_at'', ''expires_at'', ''action_digest'',
            ''policy_digest'', ''decision'', ''risk''] '' is required''
        @ (if one_of [''1.1'', ''1.2''] (jget receipt ''receipt_version'')
           then required_strings receipt [''nonce'', ''issuer'', ''audience'', ''not_before''] '' is required for receipt_version 1.1''
             @ err_if (jget receipt ''one_time'' \<noteq> JBool True) ''one_time must be true for receipt_version 1.1+''
           else [])
        @ (if jget receipt ''receipt_version'' = JStr ''1.2''
           then required_strings receipt [''approval_id'', ''approval_result_id'', ''approval_request_decision_id'',
               ''approval_provider_id''] '' is required for receipt_version 1.2''
           else [])
        @ err_if (present (jget receipt ''decision'')
              \<and> \<not> one_of CANONICAL_DECISIONS (normalizeDecisionAction (jget receipt ''decision''))) ''decision is invalid''
        @ err_if (present (jget receipt ''risk'') \<and> \<not> one_of RISK_LEVELS (jget receipt ''risk'')) ''risk is invalid''
        @ optional_strings receipt [] [''signature'']
        @ concat (map (\<lambda>f. err_if (\<not> jnullish (jget receipt f) \<and> \<not> is_str (jget receipt f))
              (f @ '' must be a string when present''))
            [''authority_grant_id'', ''authority_envelope_id'', ''principal_id'', ''canonical_action'',
             ''canonical_resource'', ''intent_id'', ''task_id'']))"

section \<open>Revocation records\<close>

definition REVOCATION_SUBJECT_TYPES :: "string list" where
  "REVOCATION_SUBJECT_TYPES = [''principal'', ''authority_grant'', ''authority_envelope'', ''execution_lease'', ''session'']"

definition validateRevocationRecord :: "jval \<Rightarrow> string list" where
  "validateRevocationRecord record =
     (if \<not> is_obj record then [''revocation record must be an object'']
      else
        unknown_keys record [''revocation_version'', ''revocation_id'', ''sequence'', ''subject_type'', ''subject_id'',
            ''revoked_at'', ''reason'', ''cascade'', ''parent_id'', ''record_digest'']
          (\<lambda>k. ''revocation.'' @ k @ '' is not allowed'')
        @ err_if (\<not> one_of [''1.0'', ''1.1''] (jget record ''revocation_version'')) ''revocation_version must be 1.0 or 1.1''
        @ required_strings record [''revocation_id''] '' is required''
        @ err_if (\<not> one_of REVOCATION_SUBJECT_TYPES (jget record ''subject_type'')) ''subject_type is invalid''
        @ required_strings record [''subject_id''] '' is required''
        @ err_if (date_parse (to_str (jor (jget record ''revoked_at'') (JStr []))) = None) ''revoked_at is invalid''
        @ err_if (\<not> is_str (jget record ''reason'')) ''reason must be a string''
        @ err_if (\<not> is_bool (jget record ''cascade'')) ''cascade must be boolean''
        @ err_if (\<not> jnullish (jget record ''parent_id'') \<and> \<not> is_str (jget record ''parent_id''))
            ''parent_id must be a string or null''
        @ (if jget record ''revocation_version'' = JStr ''1.1''
           then err_if (\<not> is_int (jget record ''sequence'') \<or> num_of (jget record ''sequence'') < 1)
               ''sequence must be a positive integer''
             @ err_if (\<not> is_sha256_id (jget record ''record_digest'')) ''record_digest must be a sha256 digest''
           else []))"

definition revocationRecordDigestPayload :: "jval \<Rightarrow> jval" where
  "revocationRecordDigestPayload record = (if \<not> is_obj record then record else jomit ''record_digest'' record)"

end
