(* ===== verification/Budget.thy ===== *)
theory Budget
  imports Clock Journal ProtocolAuthority
begin

text \<open>
  Authority budgets and the delegation-budget registry, \<^verbatim>\<open>packages/core/src/authority/budget.js\<close>.
  A budget is an object with up to five numeric limits; a missing limit is unbounded.  The
  registry partitions a parent's budget among its children.  \<open>max_amount\<close> may be fractional in
  the code; here it is an integer like the others.
\<close>

section \<open>Normalisation and comparison\<close>

definition finiteBoundedNumber :: "jval \<Rightarrow> string \<Rightarrow> bool \<Rightarrow> int res" where
  "finiteBoundedNumber v label integer =
     (case to_number v of
        JNum n \<Rightarrow>
          if n < 0 \<or> \<bar>n\<bar> > MAX_SAFE_INTEGER
          then Inl (Error (label @ '' must be a non-negative finite safe number''))
          else if integer \<and> \<bar>n\<bar> > MAX_SAFE_INTEGER then Inl (Error (label @ '' must be a safe integer''))
          else Inr n
      | _ \<Rightarrow> Inl (Error (label @ '' must be a non-negative finite safe number'')))"

primrec normalize_from :: "jval \<Rightarrow> string list \<Rightarrow> props \<Rightarrow> props res" where
  "normalize_from input [] out = Inr out"
| "normalize_from input (field # fs) out =
     (if jnullish (jget input field) then normalize_from input fs out
      else bind_res (finiteBoundedNumber (jget input field) field (field \<noteq> ''max_amount''))
        (\<lambda>n. normalize_from input fs (out @ [(field, JNum n)])))"

definition normalizeAuthorityBudget :: "jval \<Rightarrow> jval res" where
  "normalizeAuthorityBudget input =
     (if input = JNull then Inl TypeError
      else bind_res (normalize_from input AUTHORITY_BUDGET_FIELDS []) (\<lambda>out. Inr (JObj out)))"

definition budgetIsWithin :: "jval \<Rightarrow> jval \<Rightarrow> jval within res" where
  "budgetIsWithin child parent =
     bind_res (normalizeAuthorityBudget child) (\<lambda>c.
     bind_res (normalizeAuthorityBudget parent) (\<lambda>p.
       Inr \<lparr>within_errors = concat (map (\<lambda>f.
              if present (jget p f) \<and> \<not> present (jget c f) then [f @ '' omits parent-limited budget'']
              else err_if (present (jget c f) \<and> present (jget p f) \<and> jlt (jget p f) (jget c f))
                (f @ '' exceeds parent budget'')) AUTHORITY_BUDGET_FIELDS),
            within_child = c, within_parent = p\<rparr>))"

definition inheritAuthorityBudget :: "jval \<Rightarrow> jval \<Rightarrow> jval res" where
  "inheritAuthorityBudget parent requested =
     bind_res (normalizeAuthorityBudget parent) (\<lambda>p.
     bind_res (normalizeAuthorityBudget requested) (\<lambda>r.
       let merged = jspread p r in
       bind_res (budgetIsWithin merged p) (\<lambda>check.
         throw_if (within_errors check \<noteq> [])
           (''delegated budget exceeds parent: '' @ join_errors (within_errors check)) (Inr merged))))"

primrec add_from :: "jval \<Rightarrow> jval \<Rightarrow> string list \<Rightarrow> props \<Rightarrow> props res" where
  "add_from a b [] out = Inr out"
| "add_from a b (field # fs) out =
     (if \<not> present (jget a field) \<and> \<not> present (jget b field) then add_from a b fs out
      else let v = num_of (jor (jget a field) (JNum 0)) + num_of (jor (jget b field) (JNum 0)) in
        throw_if (\<bar>v\<bar> > MAX_SAFE_INTEGER) (field @ '' budget addition exceeds safe numeric range'')
          (add_from a b fs (out @ [(field, JNum v)])))"

definition addAuthorityBudgets :: "jval \<Rightarrow> jval \<Rightarrow> jval res" where
  "addAuthorityBudgets left right =
     bind_res (normalizeAuthorityBudget left) (\<lambda>a.
     bind_res (normalizeAuthorityBudget right) (\<lambda>b.
     bind_res (add_from a b AUTHORITY_BUDGET_FIELDS []) (\<lambda>out. Inr (JObj out))))"

record budget_eval =
  be_errors :: "string list"
  be_budget :: jval

definition USAGE_FIELDS :: "(string \<times> string) list" where
  "USAGE_FIELDS = [(''max_executions'', ''executions''), (''max_objects'', ''objects''), (''max_bytes'', ''bytes''),
     (''max_amount'', ''amount''), (''max_external_calls'', ''external_calls'')]"

definition usage_error :: "jval \<Rightarrow> jval \<Rightarrow> string \<Rightarrow> string \<Rightarrow> string list" where
  "usage_error b usage maxField useField =
     (if \<not> present (jget b maxField) \<or> \<not> present (jget usage useField) then []
      else (case finiteBoundedNumber (jget usage useField) (useField @ '' usage'') (maxField \<noteq> ''max_amount'') of
          Inl e \<Rightarrow> [useField @ '' usage is invalid'']
        | Inr used \<Rightarrow> err_if (used > num_of (jget b maxField))
            (useField @ '' usage '' @ int_str used @ '' exceeds '' @ maxField @ '' '' @ to_str (jget b maxField))))"

definition evaluateAuthorityBudget :: "jval \<Rightarrow> jval \<Rightarrow> budget_eval res" where
  "evaluateAuthorityBudget budget usage =
     bind_res (normalizeAuthorityBudget budget) (\<lambda>b.
       if usage = JNull \<and> list_ex (\<lambda>(m, u). present (jget b m)) USAGE_FIELDS then Inl TypeError
       else Inr \<lparr>be_errors = concat (map (\<lambda>(m, u). usage_error b usage m u) USAGE_FIELDS), be_budget = b\<rparr>)"

section \<open>The registry\<close>

definition allocationDigest :: "host \<Rightarrow> jval \<Rightarrow> string" where
  "allocationDigest H record = canonicalDigest H (jomit ''allocation_id'' record)"

definition budget_words :: jwords where
  "budget_words = \<lparr>w_label = ''delegation budget registry'', w_line = ''delegation budget registry line '',
     w_corrupt = ''corrupt delegation budget registry JSON at line ''\<rparr>"

text \<open>The check of one line of the file.\<close>

definition check_allocation :: "host \<Rightarrow> unit \<Rightarrow> nat \<Rightarrow> jval \<Rightarrow> unit res" where
  "check_allocation H st i r =
     (let at = '' at line '' @ nat_str (i + 1) in
      throw_if (jget r ''allocation_version'' \<noteq> JStr ''1.0'') (''invalid delegation budget registry version'' @ at)
     (throw_if (\<not> nonempty_str (jget r ''parent_grant_id'')) (''invalid parent_grant_id'' @ at)
     (throw_if (\<not> nonempty_str (jget r ''child_grant_id'')) (''invalid child_grant_id'' @ at)
     (bind_res (normalizeAuthorityBudget (jor (jget r ''budget'') (JObj []))) (\<lambda>_.
      throw_if (jget r ''allocation_id'' \<noteq> JStr (allocationDigest H r))
        (''delegation budget allocation digest mismatch'' @ at) (Inr ()))))))"

definition new_budget_registry :: "string option \<Rightarrow> limits \<Rightarrow> registry" where
  "new_budget_registry path lims = \<lparr>reg_path = path, reg_records = [], reg_limits = lims\<rparr>"

definition list_allocations :: "host \<Rightarrow> files \<Rightarrow> registry \<Rightarrow> jval list res" where
  "list_allocations H fs reg = load_registry budget_words (check_allocation H) () fs reg"

record reserve_result =
  rr_reserved :: bool
  rr_duplicate :: bool
  rr_record :: jval

definition of_parent :: "jval \<Rightarrow> jval \<Rightarrow> bool" where
  "of_parent pid r \<longleftrightarrow> strict_eq (jget r ''parent_grant_id'') pid"

text \<open>\<open>Object.assign(used, addAuthorityBudgets(used, record.budget || {}))\<close> over the records.\<close>

primrec used_from :: "jval \<Rightarrow> jval list \<Rightarrow> jval res" where
  "used_from used [] = Inr used"
| "used_from used (r # rs) =
     bind_res (addAuthorityBudgets used (jor (jget r ''budget'') (JObj []))) (\<lambda>s. used_from (jspread used s) rs)"

definition over_fields :: "jval \<Rightarrow> jval \<Rightarrow> string list" where
  "over_fields parentBudget projected =
     filter (\<lambda>f. present (jget parentBudget f)
       \<and> num_of (jor (jget projected f) (JNum 0)) > num_of (jget parentBudget f)) AUTHORITY_BUDGET_FIELDS"

definition allocation_payload :: "jval \<Rightarrow> jval \<Rightarrow> jval \<Rightarrow> int \<Rightarrow> jval" where
  "allocation_payload pid cid budget at =
     JObj [(''allocation_version'', JStr ''1.0''), (''parent_grant_id'', pid), (''child_grant_id'', cid),
       (''budget'', budget), (''allocated_at'', JStr (iso_string at))]"

definition allocation_record :: "host \<Rightarrow> jval \<Rightarrow> jval" where
  "allocation_record H payload = jset payload ''allocation_id'' (JStr (allocationDigest H payload))"

text \<open>\<open>reserve\<close>, with the file lock as one step.\<close>

definition reserve ::
  "host \<Rightarrow> string \<Rightarrow> files \<times> registry \<Rightarrow> jval \<Rightarrow> jval \<Rightarrow> jval \<Rightarrow> ((files \<times> registry) \<times> reserve_result) res" where
  "reserve H temp st parentGrant childGrant options =
     (case st of (fs, reg) \<Rightarrow>
      let pid = jget parentGrant ''grant_id''; cid = jget childGrant ''grant_id'' in
      throw_if (\<not> truthy pid \<or> \<not> truthy cid) ''parent and child grant IDs are required for budget allocation''
     (bind_res (normalizeAuthorityBudget (jor (jget parentGrant ''budget'') (JObj []))) (\<lambda>parentBudget.
      bind_res (normalizeAuthorityBudget (jor (jget childGrant ''budget'') (JObj []))) (\<lambda>childBudget.
      bind_res (budgetIsWithin childBudget parentBudget) (\<lambda>check.
      throw_if (within_errors check \<noteq> [])
        (''delegated partition budget exceeds parent: '' @ join_errors (within_errors check))
     (bind_res (list_allocations H fs reg) (\<lambda>existing.
      case find (\<lambda>r. of_parent pid r \<and> strict_eq (jget r ''child_grant_id'') cid) existing of
        Some same \<Rightarrow>
          throw_if (canonicalStringify (jget same ''budget'') \<noteq> canonicalStringify childBudget)
            ''delegation budget allocation conflicts with existing child allocation''
            (Inr ((fs, reg), \<lparr>rr_reserved = False, rr_duplicate = True, rr_record = same\<rparr>))
      | None \<Rightarrow>
          bind_res (used_from (JObj []) (filter (of_parent pid) existing)) (\<lambda>used.
          bind_res (addAuthorityBudgets used childBudget) (\<lambda>projected.
          (let over = over_fields parentBudget projected in
           throw_if (over \<noteq> []) (hd over @ '' partition allocation exceeds remaining parent budget'')
          (case date_or_now H (jor (jget options ''allocatedAt'') (jget options ''now'')) of
             None \<Rightarrow> Inl (Error ''delegation budget allocatedAt must be a valid date-time'')
           | Some at \<Rightarrow>
               (let record = allocation_record H (allocation_payload pid cid childBudget at) in
                bind_res (persist_registry budget_words temp fs reg (existing @ [record])) (\<lambda>st'.
                  Inr (st', \<lparr>rr_reserved = True, rr_duplicate = False, rr_record = record\<rparr>))))))))))))))"

section \<open>Lemmas on budgets\<close>

text \<open>The limit a normalised budget sets on a field.\<close>

definition lim :: "jval \<Rightarrow> string \<Rightarrow> int option" where
  "lim b f = (case jget b f of JNum n \<Rightarrow> Some n | _ \<Rightarrow> None)"

definition budget_ok :: "jval \<Rightarrow> bool" where
  "budget_ok b \<longleftrightarrow> b \<noteq> JNull \<and> (\<forall>f\<in>set AUTHORITY_BUDGET_FIELDS.
     jget b f = JUndef \<or> (\<exists>n. jget b f = JNum n \<and> 0 \<le> n \<and> n \<le> MAX_SAFE_INTEGER))"

lemma fields_distinct [simp]: "distinct AUTHORITY_BUDGET_FIELDS"
  by (simp add: AUTHORITY_BUDGET_FIELDS_def)

lemma jget_append: "jget (JObj (ps @ qs)) k = (if k \<in> fst ` set ps then jget (JObj ps) k else jget (JObj qs) k)"
proof (induction ps)
  case (Cons p ps)
  then show ?case by (cases p) auto
qed simp

lemma jget_notin: "k \<notin> fst ` set ps \<Longrightarrow> jget (JObj ps) k = JUndef"
  by (induction ps) auto

lemma finiteBoundedNumber_Inr:
  "finiteBoundedNumber v l i = Inr n \<longleftrightarrow> to_number v = JNum n \<and> 0 \<le> n \<and> n \<le> MAX_SAFE_INTEGER"
  by (auto simp: finiteBoundedNumber_def split: jval.splits)

lemma normalize_from_get:
  assumes "normalize_from x fs out = Inr ps" "distinct fs" "set fs \<inter> fst ` set out = {}" "f \<in> set fs"
  shows "if jnullish (jget x f) then jget (JObj ps) f = JUndef
    else \<exists>n. to_number (jget x f) = JNum n \<and> 0 \<le> n \<and> n \<le> MAX_SAFE_INTEGER \<and> jget (JObj ps) f = JNum n"
  using assms
proof (induction fs arbitrary: out)
  case (Cons g gs)
  have keep: "normalize_from x gs out' = Inr ps \<Longrightarrow> set gs \<inter> {f} = {} \<Longrightarrow> jget (JObj ps) f = jget (JObj out') f" for out'
  proof (induction gs arbitrary: out')
    case (Cons h hs)
    then show ?case
      by (auto simp: res_simps jget_append jget_notin split: if_splits)
  qed auto
  show ?case
  proof (cases "f = g")
    case True
    then have "set gs \<inter> {f} = {}" using Cons.prems by auto
    then show ?thesis
      using Cons.prems True keep
      by (auto simp: res_simps finiteBoundedNumber_Inr jget_append jget_notin)
  next
    case False
    have "\<exists>out'. normalize_from x gs out' = Inr ps \<and> set gs \<inter> fst ` set out' = {}"
    proof (cases "jnullish (jget x g)")
      case True
      then show ?thesis using Cons.prems by auto
    next
      case False
      then obtain n where "normalize_from x gs (out @ [(g, JNum n)]) = Inr ps"
        using Cons.prems by (auto simp: res_simps)
      then show ?thesis using Cons.prems by (intro exI [of _ "out @ [(g, JNum n)]"]) auto
    qed
    then show ?thesis using Cons.IH Cons.prems False by auto
  qed
qed simp

lemma normalize_get:
  assumes "normalizeAuthorityBudget x = Inr b" "f \<in> set AUTHORITY_BUDGET_FIELDS"
  shows "if jnullish (jget x f) then jget b f = JUndef
    else \<exists>n. to_number (jget x f) = JNum n \<and> 0 \<le> n \<and> n \<le> MAX_SAFE_INTEGER \<and> jget b f = JNum n"
  using assms by (auto simp: normalizeAuthorityBudget_def res_simps split: if_splits dest!: normalize_from_get)

lemma normalize_ok: "normalizeAuthorityBudget x = Inr b \<Longrightarrow> budget_ok b"
proof -
  assume n: "normalizeAuthorityBudget x = Inr b"
  have "jget b f = JUndef \<or> (\<exists>n. jget b f = JNum n \<and> 0 \<le> n \<and> n \<le> MAX_SAFE_INTEGER)"
    if "f \<in> set AUTHORITY_BUDGET_FIELDS" for f
    using normalize_get [OF n that] by (auto split: if_splits)
  moreover have "b \<noteq> JNull" using n by (auto simp: normalizeAuthorityBudget_def res_simps split: if_splits)
  ultimately show ?thesis by (simp add: budget_ok_def)
qed

text \<open>A normalised budget is its own normal form, as far as its limits go.\<close>

lemma normalize_from_total:
  assumes "\<forall>f\<in>set fs. jget b f = JUndef \<or> (\<exists>n. jget b f = JNum n \<and> 0 \<le> n \<and> n \<le> MAX_SAFE_INTEGER)"
  shows "\<exists>ps. normalize_from b fs out = Inr ps"
  using assms by (induction fs arbitrary: out) (auto simp: jnullish_def finiteBoundedNumber_def)

lemma normalize_again:
  assumes "budget_ok b"
  shows "\<exists>b'. normalizeAuthorityBudget b = Inr b' \<and> (\<forall>f\<in>set AUTHORITY_BUDGET_FIELDS. jget b' f = jget b f)"
proof -
  obtain ps where ps: "normalize_from b AUTHORITY_BUDGET_FIELDS [] = Inr ps"
    using normalize_from_total [of AUTHORITY_BUDGET_FIELDS b "[]"] assms by (auto simp: budget_ok_def)
  then have n: "normalizeAuthorityBudget b = Inr (JObj ps)"
    using assms by (simp add: normalizeAuthorityBudget_def budget_ok_def)
  moreover have "jget (JObj ps) f = jget b f" if "f \<in> set AUTHORITY_BUDGET_FIELDS" for f
    using normalize_get [OF n that] assms that by (auto simp: budget_ok_def jnullish_def split: if_splits)
  ultimately show ?thesis by blast
qed

lemma lim_simps: "budget_ok b \<Longrightarrow> f \<in> set AUTHORITY_BUDGET_FIELDS \<Longrightarrow>
    (jget b f = JUndef \<longleftrightarrow> lim b f = None) \<and> (jget b f = JNum n \<longleftrightarrow> lim b f = Some n)"
  by (auto simp: lim_def budget_ok_def split: jval.splits)

lemma budget_field_cases:
  assumes "budget_ok b" "f \<in> set AUTHORITY_BUDGET_FIELDS"
  obtains "jget b f = JUndef" "lim b f = None" | n where "jget b f = JNum n" "lim b f = Some n" "0 \<le> n" "n \<le> MAX_SAFE_INTEGER"
  using assms by (auto simp: budget_ok_def lim_def)

text \<open>Containment of limits: the child keeps every limit of the parent, no larger.\<close>

definition limits_within :: "jval \<Rightarrow> jval \<Rightarrow> bool" where
  "limits_within c p \<longleftrightarrow> (\<forall>f\<in>set AUTHORITY_BUDGET_FIELDS. \<forall>n. lim p f = Some n \<longrightarrow> (\<exists>m. lim c f = Some m \<and> m \<le> n))"

lemma within_field_iff:
  assumes "budget_ok c" "budget_ok p" "f \<in> set AUTHORITY_BUDGET_FIELDS"
  shows "(if present (jget p f) \<and> \<not> present (jget c f) then [f @ '' omits parent-limited budget'']
      else err_if (present (jget c f) \<and> present (jget p f) \<and> jlt (jget p f) (jget c f)) (f @ '' exceeds parent budget'')) = []
    \<longleftrightarrow> (\<forall>n. lim p f = Some n \<longrightarrow> (\<exists>m. lim c f = Some m \<and> m \<le> n))"
  by (cases rule: budget_field_cases [OF assms(1,3)]; cases rule: budget_field_cases [OF assms(2,3)])
    (auto simp: present_def)

lemma budgetIsWithin_iff:
  assumes "budgetIsWithin child parent = Inr w"
  shows "normalizeAuthorityBudget child = Inr (within_child w) \<and> normalizeAuthorityBudget parent = Inr (within_parent w)
    \<and> (within_errors w = [] \<longleftrightarrow> limits_within (within_child w) (within_parent w))"
proof -
  obtain c p where n: "normalizeAuthorityBudget child = Inr c" "normalizeAuthorityBudget parent = Inr p"
    using assms by (auto simp: budgetIsWithin_def res_simps)
  have w: "within_child w = c" "within_parent w = p"
    using assms n by (auto simp: budgetIsWithin_def)
  have "within_errors w = [] \<longleftrightarrow> limits_within c p"
    using assms n within_field_iff [OF normalize_ok [OF n(1)] normalize_ok [OF n(2)]]
    by (auto simp: budgetIsWithin_def limits_within_def simp del: split_paired_All)
  then show ?thesis using n w by simp
qed

section \<open>What a budget permits\<close>

definition budget_permits :: "jval \<Rightarrow> jval \<Rightarrow> bool" where
  "budget_permits b usage \<longleftrightarrow> (case evaluateAuthorityBudget b usage of Inl _ \<Rightarrow> False | Inr e \<Rightarrow> be_errors e = [])"

lemma USAGE_FIELDS_fst: "(m, u) \<in> set USAGE_FIELDS \<Longrightarrow> m \<in> set AUTHORITY_BUDGET_FIELDS"
  by (auto simp: USAGE_FIELDS_def AUTHORITY_BUDGET_FIELDS_def)

text \<open>A usage is permitted when every reported amount of a limited field is a valid number within
  the limit.\<close>

lemma budget_permits_iff:
  assumes "normalizeAuthorityBudget b = Inr b'" "usage \<noteq> JNull"
  shows "budget_permits b usage \<longleftrightarrow> (\<forall>(m, u)\<in>set USAGE_FIELDS. \<forall>n. lim b' m = Some n \<longrightarrow> jget usage u \<noteq> JUndef \<longrightarrow>
      (\<exists>k. to_number (jget usage u) = JNum k \<and> 0 \<le> k \<and> k \<le> n))"
proof -
  have ok: "budget_ok b'" using assms(1) by (rule normalize_ok)
  have e: "usage_error b' usage m u = [] \<longleftrightarrow> (\<forall>n. lim b' m = Some n \<longrightarrow> jget usage u \<noteq> JUndef \<longrightarrow>
      (\<exists>k. to_number (jget usage u) = JNum k \<and> 0 \<le> k \<and> k \<le> n))" if "(m, u) \<in> set USAGE_FIELDS" for m u
  proof (cases rule: budget_field_cases [OF ok USAGE_FIELDS_fst [OF that]])
    case 1
    then show ?thesis by (simp add: usage_error_def present_def)
  next
    case (2 n)
    show ?thesis
    proof (cases "finiteBoundedNumber (jget usage u) (u @ '' usage'') (m \<noteq> ''max_amount'')")
      case (Inl e)
      have "\<not> (\<exists>k. to_number (jget usage u) = JNum k \<and> 0 \<le> k \<and> k \<le> n)"
      proof
        assume "\<exists>k. to_number (jget usage u) = JNum k \<and> 0 \<le> k \<and> k \<le> n"
        then obtain k where "to_number (jget usage u) = JNum k" "0 \<le> k" "k \<le> MAX_SAFE_INTEGER" using 2(4) by force
        then have "finiteBoundedNumber (jget usage u) (u @ '' usage'') (m \<noteq> ''max_amount'') = Inr k"
          by (simp add: finiteBoundedNumber_Inr)
        then show False using Inl by simp
      qed
      then show ?thesis using 2 Inl by (auto simp: usage_error_def present_def)
    next
      case (Inr k)
      then have "to_number (jget usage u) = JNum k" "0 \<le> k" by (simp_all add: finiteBoundedNumber_Inr)
      then show ?thesis using 2 Inr by (auto simp: usage_error_def present_def)
    qed
  qed
  have "budget_permits b usage \<longleftrightarrow> (\<forall>(m, u)\<in>set USAGE_FIELDS. usage_error b' usage m u = [])"
    by (auto simp: budget_permits_def evaluateAuthorityBudget_def assms)
  then show ?thesis using e by fast
qed

section \<open>Adding up\<close>

definition amount :: "jval \<Rightarrow> string \<Rightarrow> int" where
  "amount b f = (case lim b f of None \<Rightarrow> 0 | Some n \<Rightarrow> n)"

lemma amount_nonneg: "budget_ok b \<Longrightarrow> f \<in> set AUTHORITY_BUDGET_FIELDS \<Longrightarrow> 0 \<le> amount b f"
  by (erule (1) budget_field_cases) (simp_all add: amount_def)

lemma amount_num_of: "budget_ok b \<Longrightarrow> f \<in> set AUTHORITY_BUDGET_FIELDS \<Longrightarrow> num_of (jor (jget b f) (JNum 0)) = amount b f"
  by (erule (1) budget_field_cases) (auto simp: amount_def jor_def)

lemma add_from_get:
  assumes "add_from a b fs out = Inr ps" "distinct fs" "set fs \<inter> fst ` set out = {}" "f \<in> set fs"
  shows "jget (JObj ps) f = (if present (jget a f) \<or> present (jget b f)
      then JNum (num_of (jor (jget a f) (JNum 0)) + num_of (jor (jget b f) (JNum 0))) else JUndef)"
  using assms
proof (induction fs arbitrary: out)
  case (Cons g gs)
  have keep: "add_from a b hs out' = Inr ps \<Longrightarrow> f \<notin> set hs \<Longrightarrow> jget (JObj ps) f = jget (JObj out') f" for hs out'
    by (induction hs arbitrary: out') (auto simp: res_simps Let_def jget_append jget_notin split: if_splits)
  obtain out' where o: "add_from a b gs out' = Inr ps" "out' = (if present (jget a g) \<or> present (jget b g)
      then out @ [(g, JNum (num_of (jor (jget a g) (JNum 0)) + num_of (jor (jget b g) (JNum 0))))] else out)"
    using Cons.prems(1) by (auto simp: res_simps Let_def split: if_splits)
  show ?case
  proof (cases "f = g")
    case True
    then have "f \<notin> set gs" "f \<notin> fst ` set out" using Cons.prems by auto
    then show ?thesis using keep [OF o(1)] o(2) True by (auto simp: jget_append jget_notin)
  next
    case False
    have "set gs \<inter> fst ` set out' = {}" using Cons.prems o(2) by auto
    then show ?thesis using Cons.IH [OF o(1)] Cons.prems False by auto
  qed
qed simp

lemma add_from_total: "add_from a b fs out = Inr ps \<Longrightarrow> f \<in> set fs \<Longrightarrow> present (jget a f) \<or> present (jget b f) \<Longrightarrow>
    \<bar>num_of (jor (jget a f) (JNum 0)) + num_of (jor (jget b f) (JNum 0))\<bar> \<le> MAX_SAFE_INTEGER"
  by (induction fs arbitrary: out) (auto simp: res_simps Let_def split: if_splits)

text \<open>What one record takes of a field.\<close>

definition spent :: "jval \<Rightarrow> string \<Rightarrow> int" where
  "spent budget f = (case normalizeAuthorityBudget budget of Inl _ \<Rightarrow> 0 | Inr b \<Rightarrow> amount b f)"

lemma addAuthorityBudgets_amount:
  assumes "addAuthorityBudgets l r = Inr s"
  shows "budget_ok s \<and> is_obj s
    \<and> (\<forall>f\<in>set AUTHORITY_BUDGET_FIELDS. amount s f = spent l f + spent r f)
    \<and> (\<forall>f\<in>set AUTHORITY_BUDGET_FIELDS. jget s f = JUndef \<longrightarrow> spent l f = 0 \<and> spent r f = 0)"
proof -
  obtain a b ps where n: "normalizeAuthorityBudget l = Inr a" "normalizeAuthorityBudget r = Inr b"
    and add: "add_from a b AUTHORITY_BUDGET_FIELDS [] = Inr ps" and s: "s = JObj ps"
    using assms by (auto simp: addAuthorityBudgets_def res_simps)
  note ok = normalize_ok [OF n(1)] normalize_ok [OF n(2)]
  have g: "jget s f = (if present (jget a f) \<or> present (jget b f) then JNum (amount a f + amount b f) else JUndef)"
    if "f \<in> set AUTHORITY_BUDGET_FIELDS" for f
    using add_from_get [OF add _ _ that] amount_num_of [OF ok(1) that] amount_num_of [OF ok(2) that] s by simp
  have z: "amount c f = 0" if "\<not> present (jget c f)" for c f
    using that by (simp add: amount_def lim_def present_def)
  have "budget_ok s"
    unfolding budget_ok_def
  proof (intro conjI ballI)
    fix f assume f: "f \<in> set AUTHORITY_BUDGET_FIELDS"
    show "jget s f = JUndef \<or> (\<exists>n. jget s f = JNum n \<and> 0 \<le> n \<and> n \<le> MAX_SAFE_INTEGER)"
      using g [OF f] amount_nonneg [OF ok(1) f] amount_nonneg [OF ok(2) f] add_from_total [OF add f]
        amount_num_of [OF ok(1) f] amount_num_of [OF ok(2) f] by auto
  qed (simp add: s)
  moreover have "amount s f = spent l f + spent r f \<and> (jget s f = JUndef \<longrightarrow> spent l f = 0 \<and> spent r f = 0)"
    if "f \<in> set AUTHORITY_BUDGET_FIELDS" for f
    using g [OF that] z [of a f] z [of b f] by (simp add: spent_def n amount_def [of s] lim_def [of s])
  ultimately show ?thesis by (simp add: s)
qed

lemma spent_ok: "budget_ok b \<Longrightarrow> f \<in> set AUTHORITY_BUDGET_FIELDS \<Longrightarrow> spent b f = amount b f"
  using normalize_again [of b] by (auto simp: spent_def amount_def lim_def)

lemma is_obj_not_null: "is_obj v \<Longrightarrow> v \<noteq> JNull"
  by (cases v) simp_all

lemma used_from_amount:
  assumes "used_from u rs = Inr u'" "budget_ok u" "f \<in> set AUTHORITY_BUDGET_FIELDS"
  shows "budget_ok u' \<and> amount u' f = amount u f + (\<Sum>r\<leftarrow>rs. spent (jor (jget r ''budget'') (JObj [])) f)"
  using assms
proof (induction rs arbitrary: u)
  case (Cons r rs)
  let ?b = "jor (jget r ''budget'') (JObj [])"
  obtain s where s: "addAuthorityBudgets u ?b = Inr s" and r: "used_from (jspread u s) rs = Inr u'"
    using Cons.prems(1) by (auto simp: res_simps)
  note S = addAuthorityBudgets_amount [OF s]
  have j: "jget (jspread u s) g = (if jget s g = JUndef then jget u g else jget s g)"
    if "jget s g = JUndef \<longrightarrow> jget u g = JUndef" for g
    using that by (auto simp: jget_jspread jhas_False)
  have u0: "jget u g = JUndef \<or> jget u g = JNum 0" if "g \<in> set AUTHORITY_BUDGET_FIELDS" "jget s g = JUndef" for g
    using S that Cons.prems(2) by (auto simp: spent_ok amount_def elim!: budget_field_cases)
  have sp: "jget (jspread u s) g = jget s g \<or> (jget s g = JUndef \<and> jget (jspread u s) g = jget u g)" for g
    by (auto simp: jget_jspread jhas_False)
  have ok: "budget_ok (jspread u s)"
    unfolding budget_ok_def
  proof (intro conjI ballI)
    fix g assume g: "g \<in> set AUTHORITY_BUDGET_FIELDS"
    show "jget (jspread u s) g = JUndef \<or> (\<exists>n. jget (jspread u s) g = JNum n \<and> 0 \<le> n \<and> n \<le> MAX_SAFE_INTEGER)"
      using sp [of g] S Cons.prems(2) g by (auto simp: budget_ok_def)
  qed (rule is_obj_not_null, simp)
  have am: "amount (jspread u s) f = amount u f + spent ?b f"
  proof (cases "jget s f = JUndef")
    case True
    have "amount (jspread u s) f = 0"
      using sp [of f] True u0 [OF Cons.prems(3) True] by (auto simp: amount_def lim_def)
    moreover have "amount u f = 0 \<and> spent ?b f = 0"
      using S True Cons.prems(2,3) by (auto simp: spent_ok)
    ultimately show ?thesis by simp
  next
    case False
    then have "jget (jspread u s) f = jget s f" using sp by blast
    then have "amount (jspread u s) f = amount s f" by (simp add: amount_def lim_def)
    then show ?thesis using S Cons.prems(2,3) by (simp add: spent_ok)
  qed
  show ?case using Cons.IH [OF r ok Cons.prems(3)] am by simp
qed simp

end
