(* ===== verification/BudgetProps.thy ===== *)
theory BudgetProps
  imports Budget PolicyEngineProps
begin

text \<open>
  The properties of authority budgets: containment is narrowing (an instance of the locale
  \<open>attenuation\<close>), inheritance stays within the parent, and the registry never lets the children
  of a grant hold more than its budget, whatever requests come in whatever order, in memory or
  through its file.
\<close>

section \<open>Containment\<close>

definition budget_normal :: "jval \<Rightarrow> bool" where
  "budget_normal b \<longleftrightarrow> (\<exists>b'. normalizeAuthorityBudget b = Inr b')"

definition budget_le :: "jval \<Rightarrow> jval \<Rightarrow> bool" where
  "budget_le c p \<longleftrightarrow> (\<exists>w. budgetIsWithin c p = Inr w \<and> within_errors w = [])"

lemma budget_permits_narrow:
  assumes "budget_le c p" "budget_permits c u"
  shows "budget_permits p u"
proof (cases "u = JNull")
  case True
  obtain w where w: "budgetIsWithin c p = Inr w" "within_errors w = []" using assms(1) by (auto simp: budget_le_def)
  note b = budgetIsWithin_iff [OF w(1)]
  have cp: "normalizeAuthorityBudget c = Inr (within_child w)" "normalizeAuthorityBudget p = Inr (within_parent w)"
    and le: "limits_within (within_child w) (within_parent w)" using b w(2) by auto
  have "\<not> present (jget (within_child w) m)" if "(m, x) \<in> set USAGE_FIELDS" for m x
    using assms(2) cp(1) True that
    by (auto simp: budget_permits_def evaluateAuthorityBudget_def list_ex_iff split: if_splits)
  then have "\<not> present (jget (within_parent w) m)" if "(m, x) \<in> set USAGE_FIELDS" for m x
    using that le normalize_ok [OF cp(1)] normalize_ok [OF cp(2)] USAGE_FIELDS_fst [OF that]
    by (auto simp: limits_within_def present_def lim_def elim!: budget_field_cases)
  then show ?thesis
    using cp(2) True
    by (auto simp: budget_permits_def evaluateAuthorityBudget_def list_ex_iff usage_error_def)
next
  case False
  obtain w where w: "budgetIsWithin c p = Inr w" "within_errors w = []" using assms(1) by (auto simp: budget_le_def)
  note b = budgetIsWithin_iff [OF w(1)]
  have cp: "normalizeAuthorityBudget c = Inr (within_child w)" "normalizeAuthorityBudget p = Inr (within_parent w)"
    and le: "limits_within (within_child w) (within_parent w)" using b w(2) by auto
  have "\<exists>k. to_number (jget u x) = JNum k \<and> 0 \<le> k \<and> k \<le> n"
    if m: "(m, x) \<in> set USAGE_FIELDS" and n: "lim (within_parent w) m = Some n" and x: "jget u x \<noteq> JUndef" for m x n
  proof -
    obtain j where j: "lim (within_child w) m = Some j" "j \<le> n"
      using le USAGE_FIELDS_fst [OF m] n by (auto simp: limits_within_def)
    then show ?thesis
      using assms(2) budget_permits_iff [OF cp(1) False] m x by fastforce
  qed
  then show ?thesis using budget_permits_iff [OF cp(2) False] by blast
qed

interpretation budgets: attenuation "\<lambda>_. True" budget_le budget_permits
  by unfold_locales (rule budget_permits_narrow)

section \<open>The registry\<close>

definition allocation_ok :: "jval \<Rightarrow> bool" where
  "allocation_ok r \<longleftrightarrow> nonempty_str (jget r ''parent_grant_id'') \<and> nonempty_str (jget r ''child_grant_id'')
     \<and> budget_normal (jor (jget r ''budget'') (JObj []))"

interpretation allocs: journal budget_words "check_allocation H" "()" allocation_ok for H
  by unfold_locales (auto simp: check_allocation_def allocation_ok_def budget_normal_def res_simps Let_def)

text \<open>What the children of a grant hold of a field.\<close>

definition allocated :: "jval \<Rightarrow> jval list \<Rightarrow> string \<Rightarrow> int" where
  "allocated pid rs f = (\<Sum>r\<leftarrow>filter (of_parent pid) rs. spent (jor (jget r ''budget'') (JObj [])) f)"

lemma spent_nonneg: "f \<in> set AUTHORITY_BUDGET_FIELDS \<Longrightarrow> 0 \<le> spent b f"
  by (auto simp: spent_def amount_nonneg normalize_ok split: sum.splits)

lemma over_fields_Nil:
  assumes "over_fields b pr = []" "budget_ok b" "budget_ok pr" "f \<in> set AUTHORITY_BUDGET_FIELDS" "lim b f = Some n"
  shows "amount pr f \<le> n"
proof -
  have "jget b f = JNum n" using lim_simps [OF assms(2,4)] assms(5) by blast
  then have "\<not> amount pr f > n"
    using assms(1,4) amount_num_of [OF assms(3,4)] by (auto simp: over_fields_def filter_empty_conv present_def)
  then show ?thesis by simp
qed

text \<open>A successful call of \<open>reserve\<close>: either a repeat that changes nothing, or one new record.\<close>

lemma reserve_cases:
  assumes "reserve H temp (fs, reg) P C opts = Inr (st', r)"
  obtains (repeat) "st' = (fs, reg)" "\<not> rr_reserved r"
  | (fresh) rs pb cb used pr at where
      "rr_reserved r" "list_allocations H fs reg = Inr rs"
      "normalizeAuthorityBudget (jor (jget P ''budget'') (JObj [])) = Inr pb"
      "normalizeAuthorityBudget (jor (jget C ''budget'') (JObj [])) = Inr cb"
      "used_from (JObj []) (filter (of_parent (jget P ''grant_id'')) rs) = Inr used"
      "addAuthorityBudgets used cb = Inr pr" "over_fields pb pr = []"
      "rr_record r = allocation_record H (allocation_payload (jget P ''grant_id'') (jget C ''grant_id'') cb at)"
      "persist_registry budget_words temp fs reg (rs @ [rr_record r]) = Inr st'"
  using assms
  by (auto simp: reserve_def res_simps Let_def split: option.splits)

lemma allocation_record_get:
  "jget (allocation_record H (allocation_payload pid cid cb at)) ''budget'' = cb"
  "jget (allocation_record H (allocation_payload pid cid cb at)) ''parent_grant_id'' = pid"
  by (simp_all add: allocation_record_def allocation_payload_def)

lemma reserve_bound:
  assumes "reserve H temp (fs, reg) P C opts = Inr ((fs', reg'), r)" "rr_reserved r"
    and "list_allocations H fs reg = Inr rs"
    and "normalizeAuthorityBudget (jor (jget P ''budget'') (JObj [])) = Inr pb"
    and "f \<in> set AUTHORITY_BUDGET_FIELDS" "lim pb f = Some n"
  shows "allocated (jget P ''grant_id'') (rs @ [rr_record r]) f \<le> n
    \<and> persist_registry budget_words temp fs reg (rs @ [rr_record r]) = Inr (fs', reg')"
  using assms(1)
proof (cases rule: reserve_cases)
  case repeat
  then show ?thesis using assms(2) by simp
next
  case (fresh rs' pb' cb used pr at)
  have eq: "rs' = rs" "pb' = pb" using fresh assms(3,4) by simp_all
  have cb: "budget_ok cb" "is_obj cb" "truthy cb"
    using fresh(4) normalize_ok by (auto simp: normalizeAuthorityBudget_def res_simps split: if_splits)
  have "budget_ok (JObj [])" by (simp add: budget_ok_def)
  from used_from_amount [OF fresh(5) this assms(5)]
  have u: "budget_ok used" "amount used f = allocated (jget P ''grant_id'') rs f"
    by (simp_all add: allocated_def eq amount_def [of "JObj []"] lim_def [of "JObj []"])
  have p: "budget_ok pr" "amount pr f = amount used f + amount cb f"
    using addAuthorityBudgets_amount [OF fresh(6)] assms(5) spent_ok [OF u(1) assms(5)] spent_ok [OF cb(1) assms(5)] by auto
  have pb: "budget_ok pb" using normalize_ok [OF assms(4)] .
  have "amount pr f \<le> n" using over_fields_Nil [OF fresh(7) [unfolded eq] pb p(1) assms(5,6)] .
  moreover have "spent (jor (jget (rr_record r) ''budget'') (JObj [])) f = amount cb f"
    unfolding fresh(8) allocation_record_get using cb spent_ok [OF cb(1) assms(5)] by simp
  then have "allocated (jget P ''grant_id'') (rs @ [rr_record r]) f \<le> allocated (jget P ''grant_id'') rs f + amount cb f"
    using amount_nonneg [OF cb(1) assms(5)] by (simp add: allocated_def)
  ultimately show ?thesis using p u fresh(9) eq by simp
qed

section \<open>Runs of requests\<close>

record reserve_request =
  q_parent :: jval
  q_child :: jval
  q_options :: jval
  q_temp :: string

text \<open>Requests served one after the other; one that throws leaves the state alone.\<close>

fun reserve_all :: "host \<Rightarrow> files \<times> registry \<Rightarrow> reserve_request list \<Rightarrow> files \<times> registry" where
  "reserve_all H st [] = st"
| "reserve_all H st (q # qs) =
     (case reserve H (q_temp q) st (q_parent q) (q_child q) (q_options q) of
        Inl e \<Rightarrow> reserve_all H st qs
      | Inr (st', r) \<Rightarrow> reserve_all H st' qs)"

text \<open>The state before and between requests: the temporary names are free, and the records of the
  file can be stored.\<close>

definition temps_free :: "reserve_request list \<Rightarrow> files \<times> registry \<Rightarrow> bool" where
  "temps_free qs st \<longleftrightarrow> (\<forall>q\<in>set qs. fst st (q_temp q) = None \<and> reg_path (snd st) \<noteq> Some (q_temp q))"

lemma persist_shape:
  assumes "persist_registry W temp fs reg rs = Inr (fs', reg')" "fs temp = None" "reg_path reg \<noteq> Some temp"
  shows "reg_path reg' = reg_path reg \<and> (\<forall>t. reg_path reg \<noteq> Some t \<longrightarrow> fs t = None \<longrightarrow> fs' t = None)"
  using assms
  by (auto simp: persist_registry_def res_simps atomicWriteFileSync_def atomic_ops_def
      split: option.splits if_splits prod.splits)

definition holds_budget :: "host \<Rightarrow> jval \<Rightarrow> jval \<Rightarrow> files \<times> registry \<Rightarrow> bool" where
  "holds_budget H pid pb st \<longleftrightarrow> (\<forall>rs f n. list_allocations H (fst st) (snd st) = Inr rs \<longrightarrow>
     f \<in> set AUTHORITY_BUDGET_FIELDS \<longrightarrow> lim pb f = Some n \<longrightarrow> allocated pid rs f \<le> n)"

definition request_ok :: "reserve_request \<Rightarrow> bool" where
  "request_ok q \<longleftrightarrow> json_storable (jget (q_parent q) ''grant_id'') \<and> json_storable (jget (q_child q) ''grant_id'')"

lemma normalize_storable: "normalizeAuthorityBudget x = Inr b \<Longrightarrow> json_storable b"
proof -
  have "normalize_from x fs out = Inr ps \<Longrightarrow> distinct (map fst out @ fs) \<Longrightarrow> list_all (\<lambda>(k, v). json_storable v) out
      \<Longrightarrow> distinct (map fst ps) \<and> list_all (\<lambda>(k, v). json_storable v) ps" for fs out ps
    by (induction fs arbitrary: out) (auto simp: res_simps split: if_splits)
  from this [of AUTHORITY_BUDGET_FIELDS "[]"] show "normalizeAuthorityBudget x = Inr b \<Longrightarrow> json_storable b"
    by (auto simp: normalizeAuthorityBudget_def res_simps split: if_splits)
qed

lemma allocation_record_storable:
  "json_storable pid \<Longrightarrow> json_storable cid \<Longrightarrow> json_storable cb
    \<Longrightarrow> json_storable (allocation_record H (allocation_payload pid cid cb at))"
  by (simp add: allocation_record_def allocation_payload_def jset_def)

lemma reserve_keeps:
  assumes r: "reserve H (q_temp q) (fs, reg) (q_parent q) (q_child q) (q_options q) = Inr ((fs', reg'), r)"
    and free: "fs (q_temp q) = None" "reg_path reg \<noteq> Some (q_temp q)" and ok: "request_ok q"
    and same: "jget (q_parent q) ''grant_id'' = pid \<Longrightarrow> normalizeAuthorityBudget (jor (jget (q_parent q) ''budget'') (JObj [])) = Inr pb"
    and inv: "holds_budget H pid pb (fs, reg)"
  shows "holds_budget H pid pb (fs', reg')"
  using r
proof (cases rule: reserve_cases)
  case repeat
  then show ?thesis using inv by simp
next
  case (fresh rs pb' cb used pr at)
  let ?rs = "rs @ [rr_record r]"
  have st: "reg_path reg = None \<or> list_all json_storable ?rs"
  proof (cases "reg_path reg")
    case (Some p)
    then have "list_all json_storable rs"
      using allocs.loaded_storable [of H fs reg rs] fresh(2) by (simp add: list_allocations_def)
    moreover have "json_storable (rr_record r)"
      unfolding fresh(8) using ok normalize_storable [OF fresh(4)] by (intro allocation_record_storable) (simp_all add: request_ok_def)
    ultimately show ?thesis by simp
  qed simp
  have only: "qs = ?rs" if "list_allocations H fs' reg' = Inr qs" for qs
    using allocs.load_persist_unique [OF fresh(9) free st] that by (simp add: list_allocations_def)
  show ?thesis
  proof (cases "jget (q_parent q) ''grant_id'' = pid")
    case True
    have "pb' = pb" using same [OF True] fresh(3) by simp
    then show ?thesis
      using reserve_bound [OF r fresh(1,2,3)] only True by (auto simp: holds_budget_def)
  next
    case False
    have "jget (rr_record r) ''parent_grant_id'' \<noteq> pid"
      unfolding fresh(8) allocation_record_get using False .
    then have "\<not> of_parent pid (rr_record r)" by (auto simp: of_parent_def dest: strict_eqD)
    then have "allocated pid ?rs f = allocated pid rs f" for f by (simp add: allocated_def)
    then show ?thesis using inv only fresh(2) by (auto simp: holds_budget_def)
  qed
qed

lemma reserve_all_keeps:
  assumes "holds_budget H pid pb st" "temps_free qs st" "\<forall>q\<in>set qs. request_ok q"
    and "\<forall>q\<in>set qs. jget (q_parent q) ''grant_id'' = pid \<longrightarrow>
      normalizeAuthorityBudget (jor (jget (q_parent q) ''budget'') (JObj [])) = Inr pb"
  shows "holds_budget H pid pb (reserve_all H st qs)"
  using assms
proof (induction qs arbitrary: st)
  case (Cons q qs)
  obtain fs reg where st: "st = (fs, reg)" by force
  have free: "fs (q_temp q) = None" "reg_path reg \<noteq> Some (q_temp q)" and more: "temps_free qs st"
    using Cons.prems(2) st by (auto simp: temps_free_def)
  show ?case
  proof (cases "reserve H (q_temp q) st (q_parent q) (q_child q) (q_options q)")
    case (Inl e)
    then show ?thesis using Cons more by simp
  next
    case (Inr x)
    obtain fs' reg' r where x: "x = ((fs', reg'), r)" by (cases x) force
    have r: "reserve H (q_temp q) (fs, reg) (q_parent q) (q_child q) (q_options q) = Inr ((fs', reg'), r)"
      using Inr x st by simp
    have "holds_budget H pid pb (fs', reg')"
      using reserve_keeps [OF r free] Cons.prems st by simp
    moreover have "temps_free qs (fs', reg')"
      using r
    proof (cases rule: reserve_cases)
      case repeat
      then show ?thesis using more st by simp
    next
      case fresh
      then show ?thesis using persist_shape [OF fresh(9) free] more st by (auto simp: temps_free_def)
    qed
    ultimately show ?thesis using Cons.IH [of "(fs', reg')"] Cons.prems Inr x by simp
  qed
qed simp

section \<open>Properties\<close>

definition wit_parent :: jval where
  "wit_parent = JObj [(''grant_id'', JStr ''p''), (''budget'', JObj [(''max_executions'', JNum 5), (''max_bytes'', JNum 100)])]"

definition wit_child :: "string \<Rightarrow> int \<Rightarrow> jval" where
  "wit_child cid k = JObj [(''grant_id'', JStr cid), (''budget'', JObj [(''max_executions'', JNum k), (''max_bytes'', JNum 40)])]"

definition wit_registry :: registry where
  "wit_registry = new_budget_registry None REGISTRY_LIMITS"

definition wit_requests :: "reserve_request list" where
  "wit_requests = map (\<lambda>(c, k). \<lparr>q_parent = wit_parent, q_child = wit_child c k, q_options = JObj [], q_temp = ''tmp''\<rparr>)
     [(''a'', 2), (''b'', 4), (''c'', 3), (''a'', 2)]"

text \<open>C10: A partitioned budget is never exceeded.  Starting from a registry without allocations, in
  memory or in a file, after any sequence of reservations, for any parents and children and
  successful or not, the children of a grant together hold no more of any limited field than
  the budget with which every reservation for that grant was made.\<close>

theorem partition_never_exceeded:
  assumes "list_allocations H fs reg = Inr []" "temps_free qs (fs, reg)" "\<forall>q\<in>set qs. request_ok q"
    and "\<forall>q\<in>set qs. jget (q_parent q) ''grant_id'' = pid \<longrightarrow>
      normalizeAuthorityBudget (jor (jget (q_parent q) ''budget'') (JObj [])) = Inr pb"
    and "budget_ok pb"
    and "reserve_all H (fs, reg) qs = (fs', reg')" "list_allocations H fs' reg' = Inr rs"
    and "f \<in> set AUTHORITY_BUDGET_FIELDS" "lim pb f = Some n"
  shows "allocated pid rs f \<le> n"
proof -
  have "holds_budget H pid pb (fs, reg)"
    using assms(1,5) by (auto simp: holds_budget_def allocated_def lim_def budget_ok_def split: jval.splits)
  from reserve_all_keeps [OF this assms(2,3,4)] show ?thesis
    using assms(6-9) by (auto simp: holds_budget_def)
qed

theorem partition_never_exceeded_witness:
  "\<exists>fs' reg' rs. reserve_all wit_host (Map.empty, wit_registry) wit_requests = (fs', reg')
     \<and> list_allocations wit_host fs' reg' = Inr rs \<and> length rs = 2 \<and> allocated (JStr ''p'') rs ''max_executions'' \<le> 5"
proof -
  let ?pb = "JObj [(''max_executions'', JNum 5), (''max_bytes'', JNum 100)]"
  obtain fs' reg' where run: "reserve_all wit_host (Map.empty, wit_registry) wit_requests = (fs', reg')" by force
  have len: "case list_allocations wit_host fs (snd (reserve_all wit_host (Map.empty, wit_registry) wit_requests)) of
      Inl _ \<Rightarrow> False | Inr rs \<Rightarrow> length rs = 2" for fs by code_simp
  then obtain rs where rs: "list_allocations wit_host fs' reg' = Inr rs" "length rs = 2"
    using len [of fs'] run by (cases "list_allocations wit_host fs' reg'") auto
  have q: "\<forall>q\<in>set wit_requests. request_ok q" by code_simp
  have p: "\<forall>q\<in>set wit_requests. jget (q_parent q) ''grant_id'' = JStr ''p'' \<longrightarrow>
      normalizeAuthorityBudget (jor (jget (q_parent q) ''budget'') (JObj [])) = Inr ?pb" by code_simp
  have l: "list_allocations wit_host Map.empty wit_registry = Inr []" by code_simp
  have t: "temps_free wit_requests (Map.empty, wit_registry)" by (simp add: temps_free_def wit_registry_def new_budget_registry_def)
  have o: "budget_ok ?pb" by (simp add: budget_ok_def AUTHORITY_BUDGET_FIELDS_def MAX_SAFE_INTEGER_def)
  have f: "''max_executions'' \<in> set AUTHORITY_BUDGET_FIELDS" "lim ?pb ''max_executions'' = Some 5" by code_simp+
  show ?thesis using partition_never_exceeded [OF l t q p o run rs(1) f] run rs by blast
qed

text \<open>C18: Budget containment is narrowing along a whole chain of delegations: what the last grant
  of a chain permits, every grant above it permits, where each link is accepted by the code's
  containment test and a usage is judged by the code's evaluation.\<close>

theorem budget_chain_narrows:
  assumes "budgets.chain (c # ps)" "budget_permits c usage" "p \<in> set ps"
  shows "budget_permits p usage"
  using budgets.chain_permits [OF assms(1) _ assms(2)] assms(3) by (simp add: list_all_iff)

theorem budget_chain_narrows_witness:
  "budget_permits (JObj [(''max_bytes'', JNum 100)]) (JObj [(''bytes'', JNum 30), (''executions'', JNum 1)])"
proof -
  let ?c = "JObj [(''max_bytes'', JNum 40), (''max_executions'', JNum 1)]" and ?m = "JObj [(''max_bytes'', JNum 50)]"
    and ?p = "JObj [(''max_bytes'', JNum 100)]" and ?u = "JObj [(''bytes'', JNum 30), (''executions'', JNum 1)]"
  have w: "case budgetIsWithin ?c ?m of Inl _ \<Rightarrow> False | Inr w \<Rightarrow> within_errors w = []"
    "case budgetIsWithin ?m ?p of Inl _ \<Rightarrow> False | Inr w \<Rightarrow> within_errors w = []" by code_simp+
  then have "budgets.chain [?c, ?m, ?p]"
    by (auto simp: budget_le_def split: sum.splits)
  moreover have "budget_permits ?c ?u" by code_simp
  ultimately show ?thesis by (rule budget_chain_narrows) simp
qed

text \<open>C37: A delegated budget computed by inheritance keeps every limit the child asked for and stays
  within its parent.\<close>

theorem inherit_within_parent:
  assumes "inheritAuthorityBudget p r = Inr m" "normalizeAuthorityBudget p = Inr pb" "normalizeAuthorityBudget r = Inr rb"
  shows "limits_within m pb \<and> (\<forall>f\<in>set AUTHORITY_BUDGET_FIELDS. \<forall>n. lim rb f = Some n \<longrightarrow> lim m f = Some n)"
proof -
  have m: "m = jspread pb rb" using assms by (auto simp: inheritAuthorityBudget_def res_simps Let_def)
  obtain w where w: "budgetIsWithin m pb = Inr w" "within_errors w = []"
    using assms by (auto simp: inheritAuthorityBudget_def res_simps Let_def)
  note b = budgetIsWithin_iff [OF w(1)]
  have ok: "budget_ok m"
    unfolding budget_ok_def m
    using normalize_ok [OF assms(2)] normalize_ok [OF assms(3)] is_obj_not_null [OF is_obj_jspread]
    by (auto simp: jget_jspread budget_ok_def)
  have "\<forall>f\<in>set AUTHORITY_BUDGET_FIELDS. jget (within_child w) f = jget m f"
    using normalize_again [OF ok] b by auto
  moreover have "\<forall>f\<in>set AUTHORITY_BUDGET_FIELDS. jget (within_parent w) f = jget pb f"
    using normalize_again [OF normalize_ok [OF assms(2)]] b by auto
  ultimately have "limits_within m pb"
    using b w(2) by (simp add: limits_within_def lim_def)
  moreover have "lim m f = Some n" if "lim rb f = Some n" for f n
  proof -
    have "jget rb f \<noteq> JUndef" using that by (auto simp: lim_def)
    then have "jhas rb f" using jhas_False by blast
    then show ?thesis using that by (simp add: m lim_def jget_jspread)
  qed
  ultimately show ?thesis by blast
qed

theorem inherit_within_parent_witness:
  "\<exists>m. inheritAuthorityBudget (JObj [(''max_bytes'', JNum 100)]) (JObj [(''max_bytes'', JStr ''40'')]) = Inr m
     \<and> limits_within m (JObj [(''max_bytes'', JNum 100)])"
proof -
  let ?p = "JObj [(''max_bytes'', JNum 100)]" and ?r = "JObj [(''max_bytes'', JStr ''40'')]" and ?m = "JObj [(''max_bytes'', JNum 40)]"
  have h: "inheritAuthorityBudget ?p ?r = Inr ?m" "normalizeAuthorityBudget ?p = Inr ?p" "normalizeAuthorityBudget ?r = Inr ?m"
    by code_simp+
  show ?thesis using inherit_within_parent [OF h] h(1) by blast
qed

text \<open>C36: Reserving is idempotent.  Let a reservation between two grants with string ids have succeeded, in memory or
  in a file.  Repeating it, with any options, is answered as a duplicate with the stored record and changes
  nothing whenever the registry can be read back; when a file cannot, because a persisted line breaks a limit
  of the reader, the repeat throws the reader's error.  In no case is the budget used twice, and in memory the
  answer is always the duplicate.\<close>

theorem reserve_idempotent:
  assumes "reserve H temp (fs, reg) P C opts = Inr ((fs', reg'), r)" "rr_reserved r" "reg_path reg \<noteq> Some temp"
    and "is_str (jget P ''grant_id'')" "is_str (jget C ''grant_id'')"
  shows "(case list_allocations H fs' reg' of
        Inl e \<Rightarrow> reserve H temp' (fs', reg') P C opts' = Inl e
      | Inr rs \<Rightarrow> reserve H temp' (fs', reg') P C opts' =
          Inr ((fs', reg'), \<lparr>rr_reserved = False, rr_duplicate = True, rr_record = rr_record r\<rparr>))
    \<and> (reg_path reg = None \<longrightarrow> (\<exists>rs. list_allocations H fs' reg' = Inr rs))"
proof -
  let ?pid = "jget P ''grant_id''" and ?cid = "jget C ''grant_id''"
  from assms(1) obtain pb cb w rs at where
    ids: "truthy ?pid" "truthy ?cid"
    and nb: "normalizeAuthorityBudget (jor (jget P ''budget'') (JObj [])) = Inr pb"
      "normalizeAuthorityBudget (jor (jget C ''budget'') (JObj [])) = Inr cb"
      "budgetIsWithin cb pb = Inr w" "within_errors w = []"
    and rs: "list_allocations H fs reg = Inr rs"
      "find (\<lambda>r. of_parent ?pid r \<and> strict_eq (jget r ''child_grant_id'') ?cid) rs = None"
    and rec: "rr_record r = allocation_record H (allocation_payload ?pid ?cid cb at)"
      "persist_registry budget_words temp fs reg (rs @ [rr_record r]) = Inr (fs', reg')"
    using assms(2) by (auto simp: reserve_def res_simps Let_def split: option.splits)
  have "json_storable ?pid" "json_storable ?cid" using assms(4,5) by (auto elim!: is_str_cases)
  then have "json_storable (rr_record r)" unfolding rec(1) using normalize_storable [OF nb(2)] by (rule allocation_record_storable)
  then have st: "reg_path reg = None \<or> list_all json_storable (rs @ [rr_record r])"
    using allocs.loaded_storable [of H fs reg rs] rs(1) by (cases "reg_path reg") (simp_all add: list_allocations_def)
  have listed: "list_allocations H fs' reg' = Inr qs \<Longrightarrow> qs = rs @ [rr_record r]" for qs
  proof (cases "reg_path reg")
    case None
    then show "list_allocations H fs' reg' = Inr qs \<Longrightarrow> qs = rs @ [rr_record r]"
      using rec(2) by (auto simp: persist_registry_def list_allocations_def load_registry_def)
  next
    case (Some p)
    then show "list_allocations H fs' reg' = Inr qs \<Longrightarrow> qs = rs @ [rr_record r]"
      using allocs.load_persist_unique [OF rec(2) persist_temp_free [OF rec(2)] assms(3) st] by (simp add: list_allocations_def)
  qed
  have g: "jget (rr_record r) ''child_grant_id'' = ?cid" "jget (rr_record r) ''parent_grant_id'' = ?pid"
    "jget (rr_record r) ''budget'' = cb"
    by (simp_all add: rec(1) allocation_record_def allocation_payload_def)
  have se: "strict_eq v v" if "is_str v" for v using that by (cases v) simp_all
  have find: "find (\<lambda>r. of_parent ?pid r \<and> strict_eq (jget r ''child_grant_id'') ?cid) (rs @ [rr_record r]) = Some (rr_record r)"
    using rs(2) se [OF assms(4)] se [OF assms(5)] by (induction rs) (auto simp: of_parent_def g split: if_splits)
  have "case list_allocations H fs' reg' of
        Inl e \<Rightarrow> reserve H temp' (fs', reg') P C opts' = Inl e
      | Inr rs \<Rightarrow> reserve H temp' (fs', reg') P C opts' =
          Inr ((fs', reg'), \<lparr>rr_reserved = False, rr_duplicate = True, rr_record = rr_record r\<rparr>)"
  proof (cases "list_allocations H fs' reg'")
    case (Inr qs)
    then show ?thesis using find listed [OF Inr] by (simp add: reserve_def ids nb g Let_def)
  qed (simp add: reserve_def ids nb Let_def)
  moreover have "reg_path reg = None \<Longrightarrow> \<exists>rs. list_allocations H fs' reg' = Inr rs"
    using rec(2) by (auto simp: persist_registry_def list_allocations_def load_registry_def)
  ultimately show ?thesis by blast
qed

definition wit_file_registry :: registry where
  "wit_file_registry = new_budget_registry (Some ''reg'') REGISTRY_LIMITS"

text \<open>A registry in a file.\<close>

theorem reserve_idempotent_witness:
  "\<exists>st' r. reserve wit_host ''t'' (Map.empty, wit_file_registry) wit_parent (wit_child ''a'' 2) (JObj []) = Inr (st', r)
     \<and> reserve wit_host ''t'' st' wit_parent (wit_child ''a'' 2) (JObj []) =
        Inr (st', \<lparr>rr_reserved = False, rr_duplicate = True, rr_record = rr_record r\<rparr>)"
proof -
  have run: "case reserve wit_host ''t'' (\<lambda>_. None, wit_file_registry) wit_parent (wit_child ''a'' 2) (JObj []) of
      Inl _ \<Rightarrow> False | Inr (st', r) \<Rightarrow> rr_reserved r
        \<and> (case list_allocations wit_host (fst st') (snd st') of Inl _ \<Rightarrow> False | Inr rs \<Rightarrow> length rs = 1)" by code_simp
  then obtain fs' reg' r where h: "reserve wit_host ''t'' (Map.empty, wit_file_registry) wit_parent (wit_child ''a'' 2) (JObj []) = Inr ((fs', reg'), r)"
    "rr_reserved r" "case list_allocations wit_host fs' reg' of Inl _ \<Rightarrow> False | Inr rs \<Rightarrow> length rs = 1"
    by (auto split: sum.splits prod.splits)
  have "reg_path wit_file_registry \<noteq> Some ''t''" "is_str (jget wit_parent ''grant_id'')" "is_str (jget (wit_child ''a'' 2) ''grant_id'')"
    by code_simp+
  from reserve_idempotent [OF h(1,2) this, of "''t''" "JObj []"] show ?thesis using h(1,3) by (auto split: sum.splits)
qed

end
