(* ===== verification/Revocation.thy ===== *)
theory Revocation
  imports Clock Journal ProtocolAuthority
begin

text \<open>
  The revocation registry, \<^verbatim>\<open>packages/core/src/authority/revocation.js\<close>: an append-only list of
  records with strictly increasing sequence numbers and a digest each, in memory or in a
  JSON-lines file (\<open>Journal\<close>).  The options objects are JavaScript objects; the file lock makes
  each operation one step.
\<close>

section \<open>Records\<close>

definition digestPayload :: "jval \<Rightarrow> jval" where
  "digestPayload record = jomit ''record_digest'' record"

definition recordDigest :: "host \<Rightarrow> jval \<Rightarrow> string" where
  "recordDigest H record = ''sha256:'' @ sha256_hex H (canonicalStringify (digestPayload record))"

definition validTime :: "jval \<Rightarrow> int option" where
  "validTime v = date_parse (to_str (jor v (JStr [])))"

text \<open>\<open>validTime(v || new Date())\<close>: the text of a \<^verbatim>\<open>Date\<close> has no milliseconds.\<close>

definition time_or_now :: "host \<Rightarrow> jval \<Rightarrow> int option" where
  "time_or_now H v = (if truthy v then date_parse (to_str v) else Some (now_ms H div 1000 * 1000))"

definition normalizeReason :: "host \<Rightarrow> jval \<Rightarrow> string" where
  "normalizeReason H v =
     (let s = take 512 (str_trim (nfkc H (to_str (jor v (JStr ''revoked'')))))
      in if s = [] then ''revoked'' else s)"

definition record_errors :: "host \<Rightarrow> string \<Rightarrow> jval \<Rightarrow> string list" where
  "record_errors H prefix record =
     (if \<not> is_obj record then [prefix @ '' must be an object'']
      else
        err_if (\<not> one_of [''1.0'', ''1.1''] (jget record ''revocation_version'')) (prefix @ '' revocation_version is invalid'')
        @ err_if (\<not> nonempty_str (jget record ''revocation_id'')) (prefix @ '' revocation_id is required'')
        @ err_if (\<not> one_of REVOCATION_SUBJECT_TYPES (jget record ''subject_type'')) (prefix @ '' subject_type is invalid'')
        @ err_if (\<not> nonempty_str (jget record ''subject_id'')) (prefix @ '' subject_id is required'')
        @ err_if (validTime (jget record ''revoked_at'') = None) (prefix @ '' revoked_at is invalid'')
        @ err_if (\<not> is_str (jget record ''reason'')) (prefix @ '' reason must be a string'')
        @ err_if (\<not> is_bool (jget record ''cascade'')) (prefix @ '' cascade must be boolean'')
        @ err_if (\<not> jnullish (jget record ''parent_id'') \<and> \<not> is_str (jget record ''parent_id''))
            (prefix @ '' parent_id must be a string or null'')
        @ (if jget record ''revocation_version'' = JStr ''1.1''
           then err_if (\<not> is_safe_int (jget record ''sequence'') \<or> num_of (jget record ''sequence'') < 1)
               (prefix @ '' sequence must be a positive safe integer'')
             @ err_if (jget record ''record_digest'' \<noteq> JStr (recordDigest H record)) (prefix @ '' record_digest mismatch'')
           else []))"

definition validateRecord :: "host \<Rightarrow> string \<Rightarrow> jval \<Rightarrow> jval res" where
  "validateRecord H prefix record =
     (let errors = record_errors H prefix record in
      throw_if (errors \<noteq> []) (join_errors errors) (Inr record))"

text \<open>An ancestor of the checked subject; an old caller gives the bare id.\<close>

record ancestor =
  an_type :: jval
  an_id :: string
  an_legacy :: bool

definition normalizeAncestor :: "jval \<Rightarrow> ancestor option" where
  "normalizeAncestor v =
     (if nonempty_str v then Some \<lparr>an_type = JNull, an_id = str_of v, an_legacy = True\<rparr>
      else if is_obj v \<and> nonempty_str (jget v ''id'')
      then Some \<lparr>an_type = jor (jget v ''type'') JNull, an_id = str_of (jget v ''id''), an_legacy = False\<rparr>
      else None)"

section \<open>The registry\<close>

definition new_revocation_registry :: "string option \<Rightarrow> limits \<Rightarrow> registry" where
  "new_revocation_registry path lims = \<lparr>reg_path = path, reg_records = [], reg_limits = lims\<rparr>"

definition revocation_words :: jwords where
  "revocation_words = \<lparr>w_label = ''revocation registry'', w_line = ''revocation line '',
     w_corrupt = ''corrupt revocation JSON at line ''\<rparr>"

text \<open>The check of a line, given the last sequence number.\<close>

definition check_revocation :: "host \<Rightarrow> int \<Rightarrow> nat \<Rightarrow> jval \<Rightarrow> int res" where
  "check_revocation H lastSequence i record =
     bind_res (validateRecord H (''revocation line '' @ nat_str (i + 1)) record) (\<lambda>_.
       if jget record ''revocation_version'' = JStr ''1.1''
       then throw_if (num_of (jget record ''sequence'') \<le> lastSequence)
           (''revocation line '' @ nat_str (i + 1) @ '' sequence is not strictly increasing'')
           (Inr (num_of (jget record ''sequence'')))
       else Inr lastSequence)"

definition list_revocations :: "host \<Rightarrow> files \<Rightarrow> registry \<Rightarrow> jval list res" where
  "list_revocations H fs reg = load_registry revocation_words (check_revocation H) 0 fs reg"

definition lastSequence :: "jval list \<Rightarrow> int" where
  "lastSequence existing =
     fold max (map (\<lambda>r. num_of (jor (jget r ''sequence'') (JNum 0)))
       (filter (\<lambda>r. jget r ''revocation_version'' = JStr ''1.1'') existing)) 0"

definition revocation_payload :: "host \<Rightarrow> jval \<Rightarrow> jval \<Rightarrow> jval \<Rightarrow> int \<Rightarrow> int \<Rightarrow> jval" where
  "revocation_payload H type sid options seq when =
     JObj [(''revocation_version'', JStr ''1.1''),
       (''revocation_id'', jor (jget options ''revocationId'') (JStr (''revoke_'' @ fresh_uuid H 0))),
       (''sequence'', JNum seq), (''subject_type'', JStr (to_str type)), (''subject_id'', JStr (to_str sid)),
       (''revoked_at'', JStr (iso_string when)), (''reason'', JStr (normalizeReason H (jget options ''reason''))),
       (''cascade'', JBool (truthy (jget options ''cascade''))), (''parent_id'', jor (jget options ''parentId'') JNull)]"

definition revocation_record :: "host \<Rightarrow> jval \<Rightarrow> jval" where
  "revocation_record H payload = jset payload ''record_digest'' (JStr (recordDigest H payload))"

definition revoke ::
  "host \<Rightarrow> string \<Rightarrow> files \<times> registry \<Rightarrow> jval \<Rightarrow> jval \<Rightarrow> jval \<Rightarrow> ((files \<times> registry) \<times> jval) res" where
  "revoke H temp st type sid options =
     (case st of (fs, reg) \<Rightarrow>
      throw_if (\<not> one_of REVOCATION_SUBJECT_TYPES type) (''unsupported revocation subject type: '' @ to_str type)
     (throw_if (\<not> truthy sid) ''revocation id is required''
     (bind_res (list_revocations H fs reg) (\<lambda>existing.
      case time_or_now H (jor (jget options ''revokedAt'') (jget options ''now'')) of
        None \<Rightarrow> Inl (Error ''revocation time must be a valid date-time'')
      | Some when \<Rightarrow>
          throw_if (lastSequence existing \<ge> MAX_SAFE_INTEGER) ''revocation sequence exceeds safe integer range''
          (let record = revocation_record H
                 (revocation_payload H type sid options (lastSequence existing + 1) when) in
           bind_res (validateRecord H ''revocation record'' record) (\<lambda>_.
           bind_res (persist_registry revocation_words temp fs reg (existing @ [record])) (\<lambda>st'.
             Inr (st', record))))))))"

section \<open>The check\<close>

record revocation_view =
  rv_revoked :: bool
  rv_record :: jval
  rv_via :: jval

definition not_revoked :: revocation_view where
  "not_revoked = \<lparr>rv_revoked = False, rv_record = JNull, rv_via = JNull\<rparr>"

definition revoked_before :: "int \<Rightarrow> jval \<Rightarrow> bool" where
  "revoked_before at record = time_le (date_parse (to_str (jget record ''revoked_at''))) (Some at)"

definition direct_hit :: "jval \<Rightarrow> jval \<Rightarrow> int \<Rightarrow> jval \<Rightarrow> bool" where
  "direct_hit type sid at record \<longleftrightarrow>
     strict_eq (jget record ''subject_type'') type \<and> strict_eq (jget record ''subject_id'') sid \<and> revoked_before at record"

definition cascade_hit :: "int \<Rightarrow> ancestor \<Rightarrow> jval \<Rightarrow> bool" where
  "cascade_hit at a record \<longleftrightarrow>
     truthy (jget record ''cascade'') \<and> jget record ''subject_id'' = JStr (an_id a) \<and> revoked_before at record
     \<and> (an_legacy a \<or> \<not> truthy (an_type a) \<or> strict_eq (jget record ''subject_type'') (an_type a))"

primrec find_cascade :: "int \<Rightarrow> jval list \<Rightarrow> ancestor list \<Rightarrow> jval option" where
  "find_cascade at records [] = None"
| "find_cascade at records (a # as) =
     (case find (cascade_hit at a) records of Some r \<Rightarrow> Some r | None \<Rightarrow> find_cascade at records as)"

definition isRevokedUnlocked :: "host \<Rightarrow> files \<times> registry \<Rightarrow> jval \<Rightarrow> jval \<Rightarrow> jval \<Rightarrow> revocation_view res" where
  "isRevokedUnlocked H st type sid options =
     (case st of (fs, reg) \<Rightarrow>
      case time_or_now H (jor (jget options ''at'') (jget options ''now'')) of
        None \<Rightarrow> Inl (Error ''revocation check time must be a valid date-time'')
      | Some at \<Rightarrow>
          bind_res (list_revocations H fs reg) (\<lambda>records.
            case find (direct_hit type sid at) records of
              Some r \<Rightarrow> Inr \<lparr>rv_revoked = True, rv_record = r, rv_via = JStr ''direct''\<rparr>
            | None \<Rightarrow>
                (let raw = jor (jget options ''ancestors'') (JArr []) in
                 if \<not> is_arr raw then Inl TypeError
                 else (case find_cascade at records (List.map_filter normalizeAncestor (arr_of raw)) of
                     Some r \<Rightarrow> Inr \<lparr>rv_revoked = True, rv_record = r, rv_via = JStr ''cascade''\<rparr>
                   | None \<Rightarrow> Inr not_revoked))))"

definition isRevoked :: "host \<Rightarrow> files \<times> registry \<Rightarrow> jval \<Rightarrow> jval \<Rightarrow> jval \<Rightarrow> revocation_view res" where
  "isRevoked H st type sid options =
     (case reg_path (snd st) of
        Some p \<Rightarrow> if fst st p = None then Inr not_revoked else isRevokedUnlocked H st type sid options
      | None \<Rightarrow> isRevokedUnlocked H st type sid options)"

end
