(* ===== verification/RevocationProps.thy ===== *)
theory RevocationProps
  imports Revocation
begin

text \<open>
  What the revocation registry guarantees: new records are numbered one by one and carry their
  digest; a revocation is seen by every later check and no later operation undoes
  it; a cascading revocation reaches every subject that names the revoked one as an ancestor;
  the file holds exactly the records that were accepted.
\<close>

section \<open>The check of a record\<close>

lemma record_errors_prefix: "record_errors H p r = [] \<longleftrightarrow> record_errors H q r = []"
  by (simp add: record_errors_def)

lemma validateRecord_Inr: "validateRecord H p r = Inr r' \<longleftrightarrow> r' = r \<and> record_errors H p r = []"
  by (auto simp: validateRecord_def res_simps Let_def)

definition is_11 :: "jval \<Rightarrow> bool" where
  "is_11 r \<longleftrightarrow> jget r ''revocation_version'' = JStr ''1.1''"

definition seq_of :: "jval \<Rightarrow> int" where
  "seq_of r = num_of (jget r ''sequence'')"

lemma check_revocation_Inr:
  "check_revocation H s i r = Inr s' \<longleftrightarrow>
     record_errors H ''revocation record'' r = []
     \<and> (if is_11 r then s < seq_of r \<and> s' = seq_of r else s' = s)"
proof -
  have "record_errors H (''revocation line '' @ nat_str (i + 1)) r = [] \<longleftrightarrow> record_errors H ''revocation record'' r = []"
    by (rule record_errors_prefix)
  then show ?thesis
    unfolding check_revocation_def is_11_def seq_of_def
    by (auto simp add: res_simps validateRecord_Inr)
qed

lemma record_errors_11:
  assumes "record_errors H p r = []" "is_11 r"
  shows "jget r ''sequence'' = JNum (seq_of r)" "1 \<le> seq_of r" "jget r ''record_digest'' = JStr (recordDigest H r)"
  using assms by (auto simp: record_errors_def is_11_def seq_of_def is_safe_int_def split: if_splits elim!: is_int_cases)

lemma run_check_seq:
  assumes "run_check (check_revocation H) rs s i = Inr s'"
  shows "s \<le> s'" "s' = fold max (map (\<lambda>r. num_of (jor (jget r ''sequence'') (JNum 0))) (filter is_11 rs)) s"
    "sorted_wrt (<) (map seq_of (filter is_11 rs))" "\<forall>r\<in>set (filter is_11 rs). s < seq_of r"
    "\<forall>r\<in>set rs. record_errors H ''revocation record'' r = []"
  using assms
proof (induction rs arbitrary: s i)
  case (Cons r rs)
  {
    case 1
    then show ?case using Cons.IH(1) by (force simp: res_simps check_revocation_Inr split: if_splits)
  next
    case 2
    then obtain s1 where s1: "check_revocation H s i r = Inr s1" "run_check (check_revocation H) rs s1 (i + 1) = Inr s'"
      by (auto simp: res_simps)
    have "is_11 r \<Longrightarrow> num_of (jor (jget r ''sequence'') (JNum 0)) = seq_of r"
      using s1(1) record_errors_11 [of H "''revocation record''" r] by (auto simp: check_revocation_Inr jor_def)
    then show ?case using Cons.IH(2) [OF s1(2)] s1(1) by (auto simp: check_revocation_Inr max_def split: if_splits)
  next
    case 3
    then obtain s1 where s1: "check_revocation H s i r = Inr s1" "run_check (check_revocation H) rs s1 (i + 1) = Inr s'"
      by (auto simp: res_simps)
    show ?case using Cons.IH(3,4) [OF s1(2)] s1(1) by (auto simp: check_revocation_Inr split: if_splits)
  next
    case 4
    then obtain s1 where s1: "check_revocation H s i r = Inr s1" "run_check (check_revocation H) rs s1 (i + 1) = Inr s'"
      by (auto simp: res_simps)
    show ?case using Cons.IH(4) [OF s1(2)] s1(1) by (force simp: check_revocation_Inr split: if_splits)
  next
    case 5
    then obtain s1 where s1: "check_revocation H s i r = Inr s1" "run_check (check_revocation H) rs s1 (i + 1) = Inr s'"
      by (auto simp: res_simps)
    show ?case using Cons.IH(5) [OF s1(2)] s1(1) by (auto simp: check_revocation_Inr)
  }
qed simp_all

definition record_ok :: "host \<Rightarrow> jval \<Rightarrow> bool" where
  "record_ok H r \<longleftrightarrow> record_errors H ''revocation record'' r = []"

interpretation revocations: journal revocation_words "check_revocation H" 0 "record_ok H" for H
  by unfold_locales (simp add: check_revocation_Inr record_ok_def)

section \<open>A successful revocation\<close>

lemma revoke_cases:
  assumes "revoke H temp (fs, reg) type sid opts = Inr (st', r)"
  obtains existing w where
    "list_revocations H fs reg = Inr existing" "one_of REVOCATION_SUBJECT_TYPES type" "truthy sid"
    "time_or_now H (jor (jget opts ''revokedAt'') (jget opts ''now'')) = Some w"
    "r = revocation_record H (revocation_payload H type sid opts (lastSequence existing + 1) w)"
    "record_errors H ''revocation record'' r = []"
    "persist_registry revocation_words temp fs reg (existing @ [r]) = Inr st'"
  using assms
  by (auto simp: revoke_def res_simps Let_def validateRecord_Inr split: option.splits)

lemma revocation_record_get:
  fixes H type sid opts n t
  defines "r \<equiv> revocation_record H (revocation_payload H type sid opts n t)"
  shows "is_11 r" "seq_of r = n" "jget r ''subject_type'' = JStr (to_str type)" "jget r ''subject_id'' = JStr (to_str sid)"
    "jget r ''revoked_at'' = JStr (iso_string t)" "jget r ''cascade'' = JBool (truthy (jget opts ''cascade''))"
  by (simp_all add: r_def revocation_record_def revocation_payload_def is_11_def seq_of_def)

text \<open>The last sequence number after one more record of version 1.1.\<close>

lemma lastSequence_nonneg: "0 \<le> lastSequence rs"
proof -
  have "s \<le> fold max (xs :: int list) s" for xs s
    by (induction xs arbitrary: s) (simp_all, meson max.cobounded2 order_trans)
  then show ?thesis by (simp add: lastSequence_def)
qed

lemma lastSequence_snoc:
  assumes "is_11 r" "jget r ''sequence'' = JNum (lastSequence rs + 1)"
  shows "lastSequence (rs @ [r]) = lastSequence rs + 1"
  using assms lastSequence_nonneg [of rs] by (simp add: is_11_def lastSequence_def jor_def)

lemma revocation_storable:
  assumes "record_errors H p r = []" "r = revocation_record H (revocation_payload H type sid opts n t)"
  shows "json_storable r"
proof -
  have rid: "is_str (jor (jget opts ''revocationId'') (JStr (''revoke_'' @ fresh_uuid H 0)))"
    and par: "jnullish (jor (jget opts ''parentId'') JNull) \<or> is_str (jor (jget opts ''parentId'') JNull)"
    using assms by (auto simp: record_errors_def revocation_record_def revocation_payload_def nonempty_str_iff split: if_splits)
  have "truthy (jget opts ''parentId'') \<Longrightarrow> is_str (jget opts ''parentId'')"
    using par by (auto simp: jnullish_def)
  then have "json_storable (jor (jget opts ''parentId'') JNull)"
    by (cases "truthy (jget opts ''parentId'')") (auto elim!: is_str_cases)
  then show ?thesis
    using rid assms(2) by (auto simp: revocation_record_def revocation_payload_def jset_def elim!: is_str_cases)
qed

text \<open>What the registry lists after a revocation, if it lists anything.\<close>

lemma revoke_lists:
  assumes "revoke H temp (fs, reg) type sid opts = Inr ((fs', reg'), r)" "reg_path reg \<noteq> Some temp"
    and "list_revocations H fs reg = Inr existing" "list_revocations H fs' reg' = Inr rs"
  shows "rs = existing @ [r]"
  using assms(1)
proof (cases rule: revoke_cases)
  case (1 ex w)
  have e: "ex = existing" using 1 assms(3) by simp
  have st: "reg_path reg = None \<or> list_all json_storable (existing @ [r])"
    using revocations.loaded_storable [of H fs reg existing] assms(3) revocation_storable [OF 1(6,5)]
    by (cases "reg_path reg") (auto simp: list_revocations_def)
  show ?thesis
  proof (cases "reg_path reg")
    case None
    then show ?thesis using 1(7) assms(4) e by (auto simp: persist_registry_def list_revocations_def load_registry_def)
  next
    case (Some p)
    have "fs temp = None" using persist_temp_free 1(7) Some e by blast
    from revocations.load_persist_unique [OF 1(7) [unfolded e] this assms(2) st]
    show ?thesis using assms(4) by (simp add: list_revocations_def)
  qed
qed

lemma revoke_state:
  assumes "revoke H temp (fs, reg) type sid opts = Inr ((fs', reg'), r)" "reg_path reg \<noteq> Some temp"
  shows "reg_path reg' = reg_path reg \<and> reg_limits reg' = reg_limits reg \<and> (\<forall>p. reg_path reg = Some p \<longrightarrow> fs' p \<noteq> None)"
  using assms(1)
proof (cases rule: revoke_cases)
  case (1 ex w)
  show ?thesis
  proof (cases "reg_path reg")
    case None
    then show ?thesis using 1(7) by (auto simp: persist_registry_def)
  next
    case (Some p)
    then show ?thesis using persist_present [OF 1(7) Some] assms(2) by auto
  qed
qed

section \<open>Runs\<close>

record revocation_request =
  v_now :: int
  v_type :: jval
  v_id :: jval
  v_options :: jval
  v_temp :: string

text \<open>One request, at its own time; one that throws leaves the registry alone.\<close>

definition serve :: "host \<Rightarrow> revocation_request \<Rightarrow> files \<times> registry \<Rightarrow> files \<times> registry" where
  "serve H q st =
     (case revoke (H\<lparr>now_ms := v_now q\<rparr>) (v_temp q) st (v_type q) (v_id q) (v_options q) of
        Inl e \<Rightarrow> st | Inr (st', r) \<Rightarrow> st')"

definition serves :: "revocation_request \<Rightarrow> files \<times> registry \<Rightarrow> bool" where
  "serves q st \<longleftrightarrow> reg_path (snd st) \<noteq> Some (v_temp q)"

lemma clock_simps [simp]:
  "list_revocations (H\<lparr>now_ms := n\<rparr>) = list_revocations H" "check_revocation (H\<lparr>now_ms := n\<rparr>) = check_revocation H"
proof -
  have "record_errors (H\<lparr>now_ms := n\<rparr>) = record_errors H"
    by (intro ext) (simp add: record_errors_def recordDigest_def)
  then show c: "check_revocation (H\<lparr>now_ms := n\<rparr>) = check_revocation H"
    by (intro ext) (simp add: check_revocation_def validateRecord_def)
  show "list_revocations (H\<lparr>now_ms := n\<rparr>) = list_revocations H"
    by (intro ext) (simp add: list_revocations_def c)
qed

lemma serve_cases:
  obtains "serve H q st = st"
  | r where "revoke (H\<lparr>now_ms := v_now q\<rparr>) (v_temp q) st (v_type q) (v_id q) (v_options q) = Inr (serve H q st, r)"
  by (cases "revoke (H\<lparr>now_ms := v_now q\<rparr>) (v_temp q) st (v_type q) (v_id q) (v_options q)")
    (auto simp: serve_def)

lemma serves_serve: "serves x st \<Longrightarrow> serves y st \<Longrightarrow> serves x (serve H y st)"
proof (cases rule: serve_cases [of H y st])
  case (2 r)
  assume "serves x st" "serves y st"
  then show ?thesis
    using 2 revoke_state [of _ "v_temp y" "fst st" "snd st" _ _ _ "fst (serve H y st)" "snd (serve H y st)" r]
    by (simp add: serves_def)
qed simp

text \<open>A prohibition: the registry file exists, and any list of records it gives has one that
  satisfies \<open>Q\<close>.\<close>

definition lists_some :: "host \<Rightarrow> files \<times> registry \<Rightarrow> (jval \<Rightarrow> bool) \<Rightarrow> bool" where
  "lists_some H st Q \<longleftrightarrow> (\<forall>p. reg_path (snd st) = Some p \<longrightarrow> fst st p \<noteq> None)
     \<and> (\<forall>rs. list_revocations H (fst st) (snd st) = Inr rs \<longrightarrow> (\<exists>r\<in>set rs. Q r))"

lemma serve_lists:
  assumes "serves q st" "revoke (H\<lparr>now_ms := v_now q\<rparr>) (v_temp q) st (v_type q) (v_id q) (v_options q) = Inr (st', r)"
    and "list_revocations H (fst st') (snd st') = Inr rs"
  obtains existing where "list_revocations H (fst st) (snd st) = Inr existing" "rs = existing @ [r]"
proof -
  obtain fs reg fs' reg' where st: "st = (fs, reg)" "st' = (fs', reg')" by force
  have r: "revoke (H\<lparr>now_ms := v_now q\<rparr>) (v_temp q) (fs, reg) (v_type q) (v_id q) (v_options q) = Inr ((fs', reg'), r)"
    using assms(2) st by simp
  obtain existing where e: "list_revocations H fs reg = Inr existing"
    using r by (cases rule: revoke_cases) simp
  have "rs = existing @ [r]"
    using revoke_lists [OF r] assms(1,3) e st by (simp add: serves_def)
  then show ?thesis using that e st by simp
qed

interpretation ledger: blocklist "serve H" serves "lists_some H" for H
proof
  fix x y :: revocation_request and s
  show "serves x s \<Longrightarrow> serves y s \<Longrightarrow> serves x (serve H y s)" by (rule serves_serve)
next
  fix x :: revocation_request and s Q
  assume x: "serves x s" and b: "lists_some H s Q"
  show "lists_some H (serve H x s) Q"
  proof (cases rule: serve_cases [of H x s])
    case (2 r)
    have "\<exists>r\<in>set rs. Q r" if "list_revocations H (fst (serve H x s)) (snd (serve H x s)) = Inr rs" for rs
      by (rule serve_lists [OF x 2 that]) (use b in \<open>auto simp: lists_some_def\<close>)
    then show ?thesis
      using revoke_state [of _ "v_temp x" "fst s" "snd s" _ _ _ "fst (serve H x s)" "snd (serve H x s)" r] 2 x
      by (auto simp: lists_some_def serves_def)
  qed (use b in simp)
qed

lemma isRevoked_listed:
  assumes "lists_some H st (direct_hit type sid at)" "time_or_now H (jor (jget opts ''at'') (jget opts ''now'')) = Some at"
  shows "(\<forall>v. isRevoked H st type sid opts = Inr v \<longrightarrow> rv_revoked v)
    \<and> (reg_path (snd st) = None \<longrightarrow> (\<exists>v. isRevoked H st type sid opts = Inr v))"
proof -
  obtain fs reg where st: "st = (fs, reg)" by force
  have u: "isRevoked H st type sid opts = isRevokedUnlocked H st type sid opts"
    using assms(1) st by (auto simp: isRevoked_def lists_some_def split: option.split)
  show ?thesis
  proof (cases "list_revocations H fs reg")
    case (Inl e)
    then have "reg_path reg \<noteq> None" by (cases "reg_path reg") (auto simp: list_revocations_def load_registry_def)
    then show ?thesis using Inl assms(2) unfolding u by (simp add: isRevokedUnlocked_def st)
  next
    case (Inr rs)
    then have "\<exists>r\<in>set rs. direct_hit type sid at r" using assms(1) st by (auto simp: lists_some_def)
    then have "find (direct_hit type sid at) rs \<noteq> None" by (auto simp: find_None_iff)
    then obtain r where "find (direct_hit type sid at) rs = Some r" by blast
    then show ?thesis using Inr assms(2) unfolding u by (simp add: isRevokedUnlocked_def st)
  qed
qed

lemma revoke_lists_some:
  assumes "serves q st" "revoke (H\<lparr>now_ms := v_now q\<rparr>) (v_temp q) st (v_type q) (v_id q) (v_options q) = Inr (st', r)" "Q r"
  shows "lists_some H st' Q"
proof -
  have "\<exists>r\<in>set rs. Q r" if "list_revocations H (fst st') (snd st') = Inr rs" for rs
    by (rule serve_lists [OF assms(1,2) that]) (use assms(3) in simp)
  then show ?thesis
    using revoke_state [of _ "v_temp q" "fst st" "snd st" _ _ _ "fst st'" "snd st'" r] assms(1,2)
    by (auto simp: lists_some_def serves_def)
qed

section \<open>Properties\<close>

definition wit_revoke :: revocation_request where
  "wit_revoke = \<lparr>v_now = 1767225600000, v_type = JStr ''authority_grant'', v_id = JStr ''g1'',
     v_options = JObj [(''cascade'', JBool True)], v_temp = ''tmp''\<rparr>"

definition wit_hosting :: host where
  "wit_hosting = \<lparr>sha256 = (\<lambda>s. ''d''), hmac_hex = (\<lambda>k s. s), now_ms = 1767225600000, fresh_uuid = (\<lambda>n. ''u''),
     locale_compare = (\<lambda>a b. if a = b then 0 else if a < b then - 1 else 1), nfkc = (\<lambda>s. s)\<rparr>"

definition wit_revocations :: registry where
  "wit_revocations = new_revocation_registry None REGISTRY_LIMITS"

text \<open>C8: A revocation cannot be escaped.  After a subject has been revoked, and after any further
  run of revocation requests at any times, whether they succeed or not, every check of the
  subject at the time of the revocation or later either reports it revoked or throws; it throws
  only if the registry file is unreadable, never with a registry in memory.\<close>

theorem revocation_stands:
  assumes "serves q st" "revoke (H\<lparr>now_ms := v_now q\<rparr>) (v_temp q) st (v_type q) (v_id q) (v_options q) = Inr (st', r)"
    and "is_str (v_id q)" "\<forall>x\<in>set later. serves x st'"
    and "date_parse (to_str (jget r ''revoked_at'')) = Some t" "t \<le> at"
    and "time_or_now H (jor (jget opts ''at'') (jget opts ''now'')) = Some at"
  shows "(\<forall>v. isRevoked H (fold (serve H) later st') (v_type q) (v_id q) opts = Inr v \<longrightarrow> rv_revoked v)
    \<and> (reg_path (snd (fold (serve H) later st')) = None \<longrightarrow>
        (\<exists>v. isRevoked H (fold (serve H) later st') (v_type q) (v_id q) opts = Inr v))"
proof -
  obtain w n where r: "r = revocation_record (H\<lparr>now_ms := v_now q\<rparr>) (revocation_payload (H\<lparr>now_ms := v_now q\<rparr>) (v_type q) (v_id q) (v_options q) n w)"
    and ty: "one_of REVOCATION_SUBJECT_TYPES (v_type q)"
    using assms(2) by (cases st) (auto elim!: revoke_cases)
  have "direct_hit (v_type q) (v_id q) at r"
    using assms(3,5,6) ty revocation_record_get(3,4) [of "H\<lparr>now_ms := v_now q\<rparr>" "v_type q" "v_id q" "v_options q" n w]
    by (auto simp: direct_hit_def revoked_before_def r one_of_iff elim!: is_str_cases)
  then have "lists_some H st' (direct_hit (v_type q) (v_id q) at)"
    using revoke_lists_some [of q st H st' r "direct_hit (v_type q) (v_id q) at"] assms(1,2) by simp
  then have "lists_some H (fold (serve H) later st') (direct_hit (v_type q) (v_id q) at)"
    using ledger.blocks_run assms(4) by blast
  then show ?thesis using isRevoked_listed assms(7) by blast
qed

theorem revocation_stands_witness:
  "\<exists>st v. isRevoked wit_hosting (fold (serve wit_hosting) [wit_revoke] st) (JStr ''authority_grant'') (JStr ''g1'')
       (JObj [(''now'', JStr ''2026-06-01T00:00:00Z'')]) = Inr v \<and> rv_revoked v"
proof -
  let ?H = "wit_hosting\<lparr>now_ms := v_now wit_revoke\<rparr>"
  have "case revoke ?H ''tmp'' (Map.empty, wit_revocations) (v_type wit_revoke) (v_id wit_revoke) (v_options wit_revoke) of
      Inl _ \<Rightarrow> False | Inr (st', r) \<Rightarrow> reg_path (snd st') = None
        \<and> date_parse (to_str (jget r ''revoked_at'')) = Some 1767225600000" by code_simp
  then obtain st' r where tmp: "revoke ?H ''tmp'' (Map.empty, wit_revocations) (v_type wit_revoke)
        (v_id wit_revoke) (v_options wit_revoke) = Inr (st', r)"
    and pt: "reg_path (snd st') = None \<and> date_parse (to_str (jget r ''revoked_at'')) = Some 1767225600000"
    by (rule sum_case_pairE)
  have temp: "v_temp wit_revoke = ''tmp''" by (simp add: wit_revoke_def)
  have rv: "revoke ?H (v_temp wit_revoke) (Map.empty, wit_revocations) (v_type wit_revoke)
        (v_id wit_revoke) (v_options wit_revoke) = Inr (st', r)"
    unfolding temp by (rule tmp)
  note p = conjunct1 [OF pt] and t = conjunct2 [OF pt]
  have s: "serves wit_revoke (Map.empty, wit_revocations)" by code_simp
  have later: "\<forall>x\<in>set [wit_revoke]. serves x st'" using p by (simp add: serves_def)
  have at: "time_or_now wit_hosting (jor (jget (JObj [(''now'', JStr ''2026-06-01T00:00:00Z'')]) ''at'')
      (jget (JObj [(''now'', JStr ''2026-06-01T00:00:00Z'')]) ''now'')) = Some 1780272000000" by code_simp
  have i: "is_str (v_id wit_revoke)" "v_type wit_revoke = JStr ''authority_grant''" "v_id wit_revoke = JStr ''g1''"
    by (simp_all add: wit_revoke_def)
  have "reg_path (snd (fold (serve wit_hosting) [wit_revoke] st')) = None"
    using p by (cases rule: serve_cases [of wit_hosting wit_revoke st'])
      (use revoke_state [of _ "v_temp wit_revoke" "fst st'" "snd st'"] in \<open>auto, metis option.distinct(1) prod.collapse\<close>)
  then show ?thesis using revocation_stands [OF s rv i(1) later t _ at] i(2,3) by (intro exI [of _ st']) auto
qed

text \<open>A run adds records at the end, numbered on from the last one.\<close>

lemma serves_run: "serves x st \<Longrightarrow> \<forall>q\<in>set qs. serves q st \<Longrightarrow> serves x (fold (serve H) qs st)"
  by (induction qs arbitrary: st) (simp_all add: serves_serve)

definition numbered :: "host \<Rightarrow> int \<Rightarrow> jval list \<Rightarrow> bool" where
  "numbered H s new \<longleftrightarrow> map seq_of new = [s + 1..s + int (length new)]
     \<and> (\<forall>r\<in>set new. is_11 r \<and> jget r ''record_digest'' = JStr (recordDigest H r))"

lemma run_numbered:
  assumes "\<forall>q\<in>set qs. serves q st" "list_revocations H (fst st) (snd st) = Inr old"
    and "list_revocations H (fst (fold (serve H) qs st)) (snd (fold (serve H) qs st)) = Inr rs"
  shows "\<exists>new. rs = old @ new \<and> numbered H (lastSequence old) new \<and> lastSequence rs = lastSequence old + int (length new)"
  using assms(1,3)
proof (induction qs arbitrary: rs rule: rev_induct)
  case Nil
  then show ?case using assms(2) by (simp add: numbered_def)
next
  case (snoc q qs)
  let ?st = "fold (serve H) qs st"
  have q: "serves q ?st" using snoc.prems(1) by (simp add: serves_run)
  have after: "list_revocations H (fst (serve H q ?st)) (snd (serve H q ?st)) = Inr rs" using snoc.prems(2) by simp
  show ?case
  proof (cases rule: serve_cases [of H q ?st])
    case 1
    then show ?thesis using snoc.IH after snoc.prems(1) by simp
  next
    case (2 r)
    obtain ex where ex: "list_revocations H (fst ?st) (snd ?st) = Inr ex" "rs = ex @ [r]"
      by (rule serve_lists [OF q 2 after])
    obtain new where new: "ex = old @ new" "numbered H (lastSequence old) new" "lastSequence ex = lastSequence old + int (length new)"
      using snoc.IH [OF _ ex(1)] snoc.prems(1) by auto
    let ?H = "H\<lparr>now_ms := v_now q\<rparr>"
    have rv: "revoke ?H (v_temp q) (fst ?st, snd ?st) (v_type q) (v_id q) (v_options q) = Inr (serve H q ?st, r)" using 2 by simp
    obtain w where r: "r = revocation_record ?H (revocation_payload ?H (v_type q) (v_id q) (v_options q) (lastSequence ex + 1) w)"
        "record_errors ?H ''revocation record'' r = []"
      using rv ex(1) by (cases rule: revoke_cases) simp
    have r11: "is_11 r" "seq_of r = lastSequence ex + 1" using r(1) revocation_record_get by simp_all
    have d: "jget r ''record_digest'' = JStr (recordDigest H r)" "jget r ''sequence'' = JNum (lastSequence ex + 1)"
      using record_errors_11 [OF r(2) r11(1)] r11(2) by (simp_all add: recordDigest_def)
    have "numbered H (lastSequence old) (new @ [r])"
      using new(2,3) r11 d(1) upto_rec2 [of "lastSequence old + 1" "lastSequence old + int (Suc (length new))"]
      by (auto simp: numbered_def algebra_simps)
    then show ?thesis using ex(2) new(1,3) lastSequence_snoc [OF r11(1) d(2)] by auto
  qed
qed

text \<open>C30: The registry is a ledger.  Take any registry, in memory or in a file, that lists some records, and let any
  requests be served, none of which writes its temporary file over the registry.  What is listed after them is
  the old list unchanged with new records at its end; every new record is of version 1.1, carries the digest of
  its own content, and the new records are numbered one by one from the last sequence number of the old list,
  without a gap or a repetition; from an empty registry they are 1, 2, and so on.\<close>

theorem ledger_ordered:
  assumes "list_revocations H fs reg = Inr old" "\<forall>q\<in>set qs. serves q (fs, reg)"
    and "list_revocations H (fst (fold (serve H) qs (fs, reg))) (snd (fold (serve H) qs (fs, reg))) = Inr rs"
  shows "\<exists>new. rs = old @ new
    \<and> (\<forall>r\<in>set new. is_11 r \<and> jget r ''record_digest'' = JStr (recordDigest H r))
    \<and> map seq_of new = [lastSequence old + 1..lastSequence old + int (length new)]"
  using run_numbered [of qs "(fs, reg)" H old rs] assms by (auto simp: numbered_def)

text \<open>Two revocations in memory.\<close>

theorem ledger_ordered_witness:
  "\<exists>rs. list_revocations wit_hosting (fst (fold (serve wit_hosting) [wit_revoke, wit_revoke] (Map.empty, wit_revocations)))
      (snd (fold (serve wit_hosting) [wit_revoke, wit_revoke] (Map.empty, wit_revocations))) = Inr rs
    \<and> map seq_of rs = [1, 2]"
proof -
  have "case list_revocations wit_hosting (fst (fold (serve wit_hosting) [wit_revoke, wit_revoke] (\<lambda>_. None, wit_revocations)))
      (snd (fold (serve wit_hosting) [wit_revoke, wit_revoke] (\<lambda>_. None, wit_revocations))) of Inl _ \<Rightarrow> False | Inr rs \<Rightarrow> length rs = 2"
    by code_simp
  then obtain rs where rs: "list_revocations wit_hosting (fst (fold (serve wit_hosting) [wit_revoke, wit_revoke] (Map.empty, wit_revocations)))
      (snd (fold (serve wit_hosting) [wit_revoke, wit_revoke] (Map.empty, wit_revocations))) = Inr rs" "length rs = 2"
    by (fastforce split: sum.splits)
  have "list_revocations wit_hosting (\<lambda>_. None) wit_revocations = Inr []" by code_simp
  moreover have "\<forall>q\<in>set [wit_revoke, wit_revoke]. serves q (Map.empty, wit_revocations)"
    by (simp add: serves_def wit_revoke_def wit_revocations_def new_revocation_registry_def)
  ultimately obtain new where "rs = new" "map seq_of new = [lastSequence [] + 1..lastSequence [] + int (length new)]"
    using ledger_ordered [of wit_hosting Map.empty wit_revocations "[]" "[wit_revoke, wit_revoke]" rs] rs(1) by auto
  moreover have "lastSequence [] = 0" by (simp add: lastSequence_def)
  moreover have "[1..2] = [1, 2 :: int]" by (simp add: upto.simps)
  ultimately show ?thesis using rs by auto
qed

end
