(* ===== verification/Redactor.thy ===== *)
theory Redactor
  imports JSRegex
begin

text \<open>
  Detection and redaction of secrets, \<^verbatim>\<open>packages/core/src/permission/redactor.js\<close>.
\<close>

section \<open>Patterns\<close>

definition ws_star :: rx where
  "ws_star = RStar (RCh is_space)"

definition ws_plus :: rx where
  "ws_plus = rx_plus (RCh is_space)"

definition rx_class :: "string \<Rightarrow> rx" where
  "rx_class cs = RCh (char_in cs)"

text \<open>\<open>api[_-]?key\<close> and the like, under the \<^verbatim>\<open>i\<close> flag.\<close>

definition two_words :: "string \<Rightarrow> string \<Rightarrow> rx" where
  "two_words a b = rx_seqs [rx_ilit a, rx_opt (rx_class ''_-''), rx_ilit b]"

definition alnum :: "char \<Rightarrow> bool" where
  "alnum c \<longleftrightarrow> char_range CHR ''A'' CHR ''Z'' c \<or> char_range CHR ''a'' CHR ''z'' c \<or> char_range CHR ''0'' CHR ''9'' c"

definition SECRET_PATTERNS :: "rx list" where
  "SECRET_PATTERNS =
     [rx_seqs [rx_lit ''sk-'', rx_rep 20 (RCh alnum), RStar (RCh alnum)],
      rx_seqs [rx_lit ''AKIA'', rx_rep 16 (RCh (\<lambda>c. char_range CHR ''0'' CHR ''9'' c \<or> char_range CHR ''A'' CHR ''Z'' c))],
      rx_seqs [rx_lit ''-----BEGIN '', rx_alts [rx_lit ''RSA'', rx_lit ''OPENSSH'', rx_lit ''PRIVATE''], rx_lit '' KEY-----''],
      rx_seqs [RWordB, rx_alts [rx_ilit ''password'', rx_ilit ''secret'', two_words ''api'' ''key'', rx_ilit ''token''],
        RWordB, ws_star, rx_class '':='', ws_star, rx_plus (RCh (\<lambda>c. \<not> is_space c \<and> c \<notin> set '',;''))]]"

definition SECRET_KEY_PATTERN :: rx where
  "SECRET_KEY_PATTERN =
     rx_seqs [RAlt RBegin (rx_class ''_-''),
       rx_alts [rx_ilit ''password'', rx_ilit ''passwd'', rx_ilit ''secret'', rx_ilit ''token'', two_words ''api'' ''key'',
         two_words ''access'' ''key'', two_words ''private'' ''key''],
       RAlt REnd (rx_class ''_-'')]"

definition REDACTED :: string where
  "REDACTED = ''[REDACTED_SECRET]''"

section \<open>Detection\<close>

definition containsSecretLikeString :: "jval \<Rightarrow> bool" where
  "containsSecretLikeString v = list_ex (\<lambda>p. rx_test p (to_str (jcoalesce v (JStr [])))) SECRET_PATTERNS"

definition secret_key :: "string \<Rightarrow> bool" where
  "secret_key key = rx_test SECRET_KEY_PATTERN key"

fun containsSecretLike :: "jval \<Rightarrow> bool" where
  "containsSecretLike (JStr s) = containsSecretLikeString (JStr s)"
| "containsSecretLike (JNum n) = containsSecretLikeString (JNum n)"
| "containsSecretLike JNaN = containsSecretLikeString JNaN"
| "containsSecretLike (JBool b) = containsSecretLikeString (JBool b)"
| "containsSecretLike (JArr xs) = list_ex containsSecretLike xs"
| "containsSecretLike (JObj ps) = list_ex (\<lambda>(key, item). secret_key key \<or> containsSecretLike item) ps"
| "containsSecretLike v = False"

section \<open>Redaction\<close>

definition redactString :: "string \<Rightarrow> string" where
  "redactString s = fold (\<lambda>p output. rx_replace_first p REDACTED output) SECRET_PATTERNS s"

fun redactValue :: "jval \<Rightarrow> string \<Rightarrow> jval" where
  "redactValue (JObj ps) key =
     (if secret_key key then JStr REDACTED else JObj (map (\<lambda>(k, item). (k, redactValue item k)) ps))"
| "redactValue (JArr xs) key = (if secret_key key then JStr REDACTED else JArr (map (\<lambda>item. redactValue item []) xs))"
| "redactValue (JStr s) key = (if secret_key key then JStr REDACTED else JStr (redactString s))"
| "redactValue v key = (if secret_key key then JStr REDACTED else v)"

definition redactObject :: "jval \<Rightarrow> jval" where
  "redactObject v =
     JObj (map (\<lambda>(key, item). (key, redactValue item key)) (jentries (jor v (JObj [])) nat_str))"

section \<open>What redaction guarantees\<close>

lemma not_secret_empty [simp]: "\<not> secret_key []"
  by code_simp

text \<open>No value under a secret key survives, at any depth.\<close>

fun no_secret_values :: "jval \<Rightarrow> bool" where
  "no_secret_values (JObj ps) = list_all (\<lambda>(k, v). (secret_key k \<longrightarrow> v = JStr REDACTED) \<and> no_secret_values v) ps"
| "no_secret_values (JArr xs) = list_all no_secret_values xs"
| "no_secret_values v = True"

lemma redactValue_secret: "secret_key key \<Longrightarrow> redactValue v key = JStr REDACTED"
  by (cases v) simp_all

lemma redactValue_clean: "no_secret_values (redactValue v key)"
proof (induction v key rule: redactValue.induct)
  case (1 ps key)
  then show ?case by (auto simp: list_all_iff redactValue_secret)
qed (auto simp: list_all_iff)

text \<open>Redaction keeps the shape of a value: the keys of every object and the length of every array
  outside the secret keys.\<close>

lemma redactObject_keys: "is_obj v \<Longrightarrow> jkeys (redactObject v) = jkeys v"
  by (cases v) (auto simp: redactObject_def jentries_def jkeys_def comp_def split_beta)

end
