(* ===== verification/Classifier.thy ===== *)
theory Classifier
  imports Redactor CanonicalJson
begin

text \<open>
  Risk classification of a normalised tool call, \<^verbatim>\<open>packages/core/src/permission/classifier.js\<close>.
  A risk level is a datatype whose order is the table \<open>RISK_RANK\<close>; \<open>risk_str\<close> is the string that
  the code stores.
\<close>

section \<open>Risk levels\<close>

datatype risk = Safe | Low | Medium | High | Critical

fun risk_rank :: "risk \<Rightarrow> nat" where
  "risk_rank Safe = 0"
| "risk_rank Low = 1"
| "risk_rank Medium = 2"
| "risk_rank High = 3"
| "risk_rank Critical = 4"

fun risk_str :: "risk \<Rightarrow> string" where
  "risk_str Safe = ''safe''"
| "risk_str Low = ''low''"
| "risk_str Medium = ''medium''"
| "risk_str High = ''high''"
| "risk_str Critical = ''critical''"

lemma risk_rank_inject [simp]: "risk_rank a = risk_rank b \<longleftrightarrow> a = b"
  by (cases a; cases b) simp_all

lemma risk_str_inject [simp]: "risk_str a = risk_str b \<longleftrightarrow> a = b"
  by (cases a; cases b) simp_all

instantiation risk :: linorder
begin

definition less_eq_risk :: "risk \<Rightarrow> risk \<Rightarrow> bool" where
  "less_eq_risk a b \<longleftrightarrow> risk_rank a \<le> risk_rank b"

definition less_risk :: "risk \<Rightarrow> risk \<Rightarrow> bool" where
  "less_risk a b \<longleftrightarrow> risk_rank a < risk_rank b"

instance
  by standard (auto simp: less_eq_risk_def less_risk_def)

end

lemma risk_bounds [simp]: "r \<le> Critical" "Safe \<le> r" for r :: risk
  by (cases r; simp add: less_eq_risk_def)+

text \<open>\<open>maxRisk(...levels)\<close>; every call passes levels only.\<close>

definition maxRisk :: "risk list \<Rightarrow> risk" where
  "maxRisk levels = foldl (\<lambda>best level. if level > best then level else best) Safe levels"

lemma maxRisk_two: "maxRisk [a, b] = max a b"
  by (cases a; cases b) (simp_all add: maxRisk_def max_def less_eq_risk_def less_risk_def)

section \<open>Prompt injection\<close>

definition the_opt :: rx where
  "the_opt = rx_opt (RSeq (rx_ilit ''the'') ws_plus)"

definition PROMPT_INJECTION_PATTERNS :: "rx list" where
  "PROMPT_INJECTION_PATTERNS =
     [rx_seqs [rx_ilit ''ignore'', ws_plus, rx_opt (RSeq (rx_ilit ''all'') ws_plus), rx_ilit ''previous'', ws_plus,
        rx_ilit ''instructions''],
      rx_seqs [rx_ilit ''disregard'', ws_plus, the_opt, rx_ilit ''system'', ws_plus, rx_ilit ''prompt''],
      rx_seqs [rx_ilit ''reveal'', ws_plus, the_opt, rx_ilit ''system'', ws_plus, rx_ilit ''prompt''],
      rx_seqs [rx_ilit ''send'', ws_plus, RStar (RCh (\<lambda>c. \<not> is_line_end c)), rx_ilit ''secret''],
      rx_ilit ''exfiltrate'',
      rx_seqs [rx_ilit ''bypass'', ws_plus, the_opt,
        rx_alts [rx_ilit ''safety'', rx_ilit ''policy'', rx_ilit ''permission'']],
      rx_seqs [rx_ilit ''do'', ws_plus, rx_ilit ''not'', ws_plus, rx_ilit ''ask'', ws_plus, the_opt, rx_ilit ''user'']]"

text \<open>\<open>JSON.stringify\<close> does not fail on a value of the model.\<close>

definition stringifyForHeuristics :: "jval \<Rightarrow> string" where
  "stringifyForHeuristics v = json_text (jcoalesce v (JStr []))"

definition containsPromptInjection :: "jval \<Rightarrow> bool" where
  "containsPromptInjection v = list_ex (\<lambda>p. rx_test p (stringifyForHeuristics v)) PROMPT_INJECTION_PATTERNS"

section \<open>Data flow and side effect\<close>

definition splitActionType :: "jval \<Rightarrow> string \<times> string" where
  "splitActionType actionType =
     (let parts = str_split CHR ''.'' (to_str (if actionType = JUndef then JStr [] else actionType)) in
      case parts of [] \<Rightarrow> (''custom'', ''execute'') | [c] \<Rightarrow> (c, ''execute'') | c # op' # _ \<Rightarrow> (c, op'))"

definition READ_ONLY_OPERATIONS :: "string list" where
  "READ_ONLY_OPERATIONS = [''read'', ''search'', ''list'', ''get'']"

definition DESTRUCTIVE_OPERATIONS :: "string list" where
  "DESTRUCTIVE_OPERATIONS = [''delete'', ''remove'', ''destroy'']"

definition EXTERNAL_CATEGORIES :: "string list" where
  "EXTERNAL_CATEGORIES = [''email'', ''web'', ''payment'', ''calendar'']"

definition EXTERNAL_SCOPE :: rx where
  "EXTERNAL_SCOPE = rx_alts [rx_lit ''external'', rx_lit ''remote'', rx_lit ''network'', rx_lit ''internet'',
     rx_lit ''cloud'', rx_seqs [rx_lit ''third'', rx_opt (rx_class ''-_ ''), rx_lit ''party'']]"

definition LOCAL_SCOPE :: rx where
  "LOCAL_SCOPE = rx_alts [rx_lit ''local'', rx_lit ''workspace'', rx_lit ''device'', rx_lit ''host'', rx_lit ''process'']"

definition call_category :: "jval \<Rightarrow> jval" where
  "call_category call = jor (jget (jget call ''tool'') ''category'') (JStr ''custom'')"

definition call_operation :: "jval \<Rightarrow> jval" where
  "call_operation call = jor (jget (jget call ''tool'') ''operation'') (JStr ''execute'')"

definition classifyDataFlow :: "jval \<Rightarrow> string" where
  "classifyDataFlow call =
     (let category = call_category call; operation = call_operation call;
          scope = str_lower (to_str (jor (jget (jget call ''target'') ''scope'') (JStr [])))
      in if operation = JStr ''send'' \<or> one_of EXTERNAL_CATEGORIES category \<or> rx_test EXTERNAL_SCOPE scope
         then ''external''
         else if one_of [''file'', ''filesystem'', ''shell'', ''memory''] category \<or> rx_test LOCAL_SCOPE scope
         then ''local''
         else ''unknown'')"

definition classifySideEffect :: "jval \<Rightarrow> string" where
  "classifySideEffect call =
     (let operation = call_operation call in
      if one_of READ_ONLY_OPERATIONS operation then ''read_only''
      else if one_of DESTRUCTIVE_OPERATIONS operation then ''destructive''
      else if one_of [''write'', ''update'', ''create'', ''send'', ''execute'', ''run''] operation then ''mutating''
      else ''unknown'')"

section \<open>The classification\<close>

record classification =
  cl_risk :: risk
  cl_reasons :: "string list"
  cl_secrets :: bool
  cl_injection :: bool
  cl_exfiltration :: bool
  cl_injection_effect :: bool
  cl_flow :: string
  cl_effect :: string

text \<open>A signal is one \<open>if (c) { risk = maxRisk(risk, level); reasons.push(reason); }\<close> of the code: its
  condition, level and reason.\<close>

type_synonym signal = "bool \<times> risk \<times> string"

fun raise_signal :: "signal \<Rightarrow> risk \<times> string list \<Rightarrow> risk \<times> string list" where
  "raise_signal (c, level, reason) (risk, reasons) =
     (if c then (maxRisk [risk, level], reasons @ [reason]) else (risk, reasons))"

definition name_of :: "jval \<Rightarrow> jval" where
  "name_of call = jor (jget (jget call ''tool'') ''name'') (JStr [])"

definition category_of :: "jval \<Rightarrow> jval" where
  "category_of call = jor (jget (jget call ''tool'') ''category'') (JStr (fst (splitActionType (name_of call))))"

definition operation_of :: "jval \<Rightarrow> jval" where
  "operation_of call = jor (jget (jget call ''tool'') ''operation'') (JStr (snd (splitActionType (name_of call))))"

definition sensitivity_of :: "jval \<Rightarrow> jval" where
  "sensitivity_of call = jor (jget (jget call ''target'') ''sensitivity'') (JStr ''unknown'')"

definition args_of :: "jval \<Rightarrow> jval" where
  "args_of call = jor (jget call ''arguments'') (JObj [])"

definition sensitive :: "jval \<Rightarrow> bool" where
  "sensitive call \<longleftrightarrow> sensitivity_of call = JStr ''private'' \<or> sensitivity_of call = JStr ''secret''"

text \<open>The branch for files: its three cases exclude each other.\<close>

definition file_signal :: "jval \<Rightarrow> signal" where
  "file_signal call =
     (let operation = operation_of call; sensitivity = sensitivity_of call in
      if operation = JStr ''read'' then
        (one_of [''file'', ''filesystem''] (category_of call),
         if sensitivity = JStr ''public'' then Safe else if sensitive call then Medium else Low,
         if sensitivity = JStr ''public'' then ''read-only public resource''
         else ''read-only '' @ to_str sensitivity @ '' resource access'')
      else if one_of [''write'', ''update'', ''create''] operation then
        (one_of [''file'', ''filesystem''] (category_of call), Medium, ''local file modification'')
      else
        (one_of [''file'', ''filesystem''] (category_of call) \<and> operation = JStr ''delete'',
         if sensitive call then Critical else High, ''destructive file operation''))"

definition detectedSecrets :: "jval \<Rightarrow> bool" where
  "detectedSecrets call \<longleftrightarrow> containsSecretLike (args_of call)
     \<or> containsSecretLike (jor (jget (jget call ''target'') ''resource'') (JStr []))"

definition secretExfiltrationRisk :: "jval \<Rightarrow> bool" where
  "secretExfiltrationRisk call \<longleftrightarrow> detectedSecrets call \<and> classifyDataFlow call = ''external''"

definition detectedPromptInjection :: "jval \<Rightarrow> bool" where
  "detectedPromptInjection call \<longleftrightarrow> containsPromptInjection (args_of call)
     \<or> containsPromptInjection (jor (jget call ''context'') (JObj []))"

definition promptInjectionSideEffectRisk :: "jval \<Rightarrow> bool" where
  "promptInjectionSideEffectRisk call \<longleftrightarrow> detectedPromptInjection call
     \<and> (classifySideEffect call \<noteq> ''read_only'' \<or> classifyDataFlow call = ''external'')"

definition signals :: "jval \<Rightarrow> signal list" where
  "signals call =
     (let category = category_of call; operation = operation_of call; external = classifyDataFlow call = ''external'' in
      [file_signal call,
       (category = JStr ''email'' \<or> operation = JStr ''send'', High, ''external communication''),
       (category = JStr ''shell'' \<or> operation = JStr ''execute'' \<or> operation = JStr ''run'', High, ''local command execution''),
       (category = JStr ''payment'', Critical, ''payment-like side effect''),
       (sensitivity_of call = JStr ''private'', Medium, ''private resource''),
       (sensitivity_of call = JStr ''secret'', if external then Critical else High,
        if external then ''secret crossing an external boundary'' else ''secret resource handled locally''),
       (detectedSecrets call, if secretExfiltrationRisk call then Critical else High,
        if secretExfiltrationRisk call then ''credential-like secret may leave the local trust boundary''
        else ''credential-like secret detected in a local or unknown flow''),
       (detectedPromptInjection call, if promptInjectionSideEffectRisk call then Critical else High,
        if promptInjectionSideEffectRisk call then ''prompt-injection-like instruction combined with a side effect''
        else ''prompt-injection-like content detected in a read-only flow''),
       (classifyDataFlow call = ''unknown'' \<and> classifySideEffect call \<noteq> ''read_only'', Medium,
        ''unknown trust-boundary direction'')])"

definition classifyRisk :: "jval \<Rightarrow> classification" where
  "classifyRisk call =
     (let st = fold raise_signal (signals call) (Safe, []);
          st' = raise_signal (snd st = [], Medium, ''unknown tool action'') st
      in \<lparr>cl_risk = fst st', cl_reasons = uniq (snd st'), cl_secrets = detectedSecrets call,
          cl_injection = detectedPromptInjection call, cl_exfiltration = secretExfiltrationRisk call,
          cl_injection_effect = promptInjectionSideEffectRisk call, cl_flow = classifyDataFlow call,
          cl_effect = classifySideEffect call\<rparr>)"

section \<open>Facts\<close>

lemma raise_signal_mono: "fst st \<le> fst (raise_signal x st)"
  by (cases x; cases st) (simp add: maxRisk_two)

lemma fold_signals_mono: "fst st \<le> fst (fold raise_signal xs st)"
  by (induction xs arbitrary: st) (simp, metis fold_simps(2) order_trans raise_signal_mono)

lemma fold_signals_level:
  "(True, l, r) \<in> set xs \<Longrightarrow> l \<le> fst (fold raise_signal xs st)"
proof (induction xs arbitrary: st)
  case (Cons x xs)
  show ?case
  proof (cases "x = (True, l, r)")
    case True
    have "l \<le> fst (raise_signal x st)" unfolding True by (cases st) (simp add: maxRisk_two)
    then show ?thesis using fold_signals_mono [of "raise_signal x st" xs] by simp
  next
    case False
    then show ?thesis using Cons by simp
  qed
qed simp

lemma classifyRisk_simps [simp]:
  "cl_flow (classifyRisk call) = classifyDataFlow call" "cl_effect (classifyRisk call) = classifySideEffect call"
  "cl_secrets (classifyRisk call) = detectedSecrets call" "cl_injection (classifyRisk call) = detectedPromptInjection call"
  "cl_exfiltration (classifyRisk call) = secretExfiltrationRisk call"
  "cl_injection_effect (classifyRisk call) = promptInjectionSideEffectRisk call"
  by (simp_all add: classifyRisk_def Let_def)

lemma classifyRisk_signal:
  assumes "(True, l, r) \<in> set (signals call)"
  shows "l \<le> cl_risk (classifyRisk call)"
proof -
  let ?st = "fold raise_signal (signals call) (Safe, [])"
  have "fst ?st \<le> cl_risk (classifyRisk call)"
    using raise_signal_mono [of ?st] by (simp add: classifyRisk_def Let_def)
  then show ?thesis using fold_signals_level [OF assms, of "(Safe, [])"] by simp
qed

lemma classifyRisk_reasons: "cl_reasons (classifyRisk call) \<noteq> []"
  by (cases "fold raise_signal (signals call) (Safe, [])") (auto simp: classifyRisk_def Let_def)

text \<open>The level each signal of danger forces.\<close>

lemma signals_members:
  "(detectedSecrets call, if secretExfiltrationRisk call then Critical else High,
      if secretExfiltrationRisk call then ''credential-like secret may leave the local trust boundary''
      else ''credential-like secret detected in a local or unknown flow'') \<in> set (signals call)"
  "(detectedPromptInjection call, if promptInjectionSideEffectRisk call then Critical else High,
      if promptInjectionSideEffectRisk call then ''prompt-injection-like instruction combined with a side effect''
      else ''prompt-injection-like content detected in a read-only flow'') \<in> set (signals call)"
  "(category_of call = JStr ''payment'', Critical, ''payment-like side effect'') \<in> set (signals call)"
  unfolding signals_def Let_def list.set by (blast+)

lemma signals_danger:
  "detectedSecrets call \<Longrightarrow> \<exists>r. (True, if secretExfiltrationRisk call then Critical else High, r) \<in> set (signals call)"
  "detectedPromptInjection call \<Longrightarrow>
     \<exists>r. (True, if promptInjectionSideEffectRisk call then Critical else High, r) \<in> set (signals call)"
  "category_of call = JStr ''payment'' \<Longrightarrow> \<exists>r. (True, Critical, r) \<in> set (signals call)"
proof -
  have *: "(c, l, r) \<in> S \<Longrightarrow> c \<Longrightarrow> \<exists>r. (True, l, r) \<in> S" for c l r and S :: "signal set" by auto
  show "detectedSecrets call \<Longrightarrow> \<exists>r. (True, if secretExfiltrationRisk call then Critical else High, r) \<in> set (signals call)"
    by (rule * [OF signals_members(1)])
  show "detectedPromptInjection call \<Longrightarrow>
     \<exists>r. (True, if promptInjectionSideEffectRisk call then Critical else High, r) \<in> set (signals call)"
    by (rule * [OF signals_members(2)])
  show "category_of call = JStr ''payment'' \<Longrightarrow> \<exists>r. (True, Critical, r) \<in> set (signals call)"
    by (rule * [OF signals_members(3)])
qed

lemma Critical_le [simp]: "Critical \<le> r \<longleftrightarrow> r = Critical"
  by (cases r) (simp_all add: less_eq_risk_def)

lemma classifyRisk_critical:
  "secretExfiltrationRisk call \<or> promptInjectionSideEffectRisk call \<or> category_of call = JStr ''payment''
    \<Longrightarrow> cl_risk (classifyRisk call) = Critical"
  using signals_danger [of call] classifyRisk_signal [of Critical _ call]
  by (auto simp: secretExfiltrationRisk_def promptInjectionSideEffectRisk_def)

lemma classifyRisk_high: "detectedSecrets call \<or> detectedPromptInjection call \<Longrightarrow> High \<le> cl_risk (classifyRisk call)"
  using signals_danger(1,2) [of call] classifyRisk_signal [of High _ call] classifyRisk_signal [of Critical _ call]
  by (auto split: if_splits)

end
