(* ===== verification/Normalizer.thy ===== *)
theory Normalizer
  imports Classifier Clock ProtocolAuthority
begin

text \<open>
  Normalisation of tool calls and the session approval cache:
  \<^verbatim>\<open>packages/core/src/permission/normalizer.js\<close> and \<^verbatim>\<open>permission/approval.js\<close>.  A valid normalised
  call passes unchanged; a valid action envelope is turned into one; everything else throws.
\<close>

section \<open>Normalisation\<close>

definition categoryFromActionType :: "jval \<Rightarrow> string" where
  "categoryFromActionType type =
     (let category = fst (splitActionType type) in
      if category = ''filesystem'' then ''file'' else if category = [] then ''custom'' else category)"

definition operationFromActionType :: "jval \<Rightarrow> string" where
  "operationFromActionType type =
     (let operation = snd (splitActionType type) in
      if operation = ''run'' then ''execute'' else if operation = [] then ''execute'' else operation)"

definition normalize_actor :: "jval \<Rightarrow> jval \<Rightarrow> jval" where
  "normalize_actor input options =
     (let actor = jget input ''actor''; metadata = jget input ''metadata'';
          aid = jor (jor (jget actor ''id'') (jget metadata ''agentId'')) (jget options ''agentId'');
          issuer = jor (jor (jget actor ''issuer'') (jget metadata ''agentIssuer'')) (jget options ''agentIssuer'')
      in JObj ([(''type'', jor (jor (jget actor ''type'') (jget metadata ''actorType'')) (JStr ''agent'')),
          (''name'', jor (jor (jget actor ''name'') (jget metadata ''agent'')) (JStr ''unknown-agent'')),
          (''session_id'', jor (jor (jor (jget actor ''session_id'') (jget metadata ''sessionId''))
             (jget options ''sessionId'')) (JStr ''default-session''))]
        @ when_prop (truthy aid) ''id'' aid @ when_prop (truthy issuer) ''issuer'' issuer))"

definition normalize_tool :: "jval \<Rightarrow> jval" where
  "normalize_tool input =
     (let metadata = jget input ''metadata''; type = jor (jget input ''type'') (jget input ''action'') in
      JObj [(''name'', type),
        (''category'', jor (jget metadata ''category'') (JStr (categoryFromActionType type))),
        (''operation'', jor (jget metadata ''operation'') (JStr (operationFromActionType type)))])"

definition normalize_target :: "jval \<Rightarrow> jval \<Rightarrow> jval" where
  "normalize_target input options =
     (let metadata = jget input ''metadata''; args = jget input ''arguments'' in
      JObj [(''resource'', jor (jor (jor (jget input ''target'') (jget args ''path'')) (jget args ''target'')) (JStr [])),
        (''scope'', jor (jor (jget metadata ''scope'') (jget options ''scope'')) (JStr ''local'')),
        (''sensitivity'', jor (jor (jget metadata ''sensitivity'') (jget input ''sensitivity'')) (JStr ''unknown''))])"

definition normalized_from :: "host \<Rightarrow> jval \<Rightarrow> jval \<Rightarrow> jval" where
  "normalized_from H input options =
     JObj [(''call_id'', jor (jor (jget input ''call_id'') (jget input ''id'')) (JStr (''call_'' @ int_str (now_ms H)))),
       (''timestamp'', jor (jget input ''timestamp'') (JStr (iso_string (now_ms H)))),
       (''actor'', normalize_actor input options), (''tool'', normalize_tool input),
       (''target'', normalize_target input options),
       (''arguments'', jor (jget input ''arguments'') (JObj [])),
       (''context'', jor (jor (jget input ''context'') (jget input ''metadata'')) (JObj []))]"

definition normalizeToolCall :: "host \<Rightarrow> jval \<Rightarrow> jval \<Rightarrow> jval res" where
  "normalizeToolCall H input options =
     (if validateNormalizedToolCall input = [] then Inr input
      else throw_if (validateActionEnvelope input \<noteq> [])
        (''invalid tool call: '' @ join_errors (validateNormalizedToolCall input @ validateActionEnvelope input))
        (Inr (normalized_from H input options)))"

definition actionFromNormalizedToolCall :: "jval \<Rightarrow> jval \<Rightarrow> jval" where
  "actionFromNormalizedToolCall call redactedArguments =
     (let actor = jget call ''actor''; tool = jget call ''tool''; target = jget call ''target'';
          context = jget call ''context''; grant = jget context ''authority_grant'' in
      JObj [
        (''type'', jor (jget tool ''name'') (JStr (to_str (jor (jget tool ''category'') (JStr ''custom'')) @ ''.''
           @ to_str (jor (jget tool ''operation'') (JStr ''execute''))))),
        (''target'', jor (jget target ''resource'') (JStr [])),
        (''arguments'', jcoalesce (jcoalesce redactedArguments (jget call ''arguments'')) (JObj [])),
        (''metadata'', JObj [
          (''call_id'', jget call ''call_id''), (''actor'', jget actor ''name''),
          (''session_id'', jget actor ''session_id''), (''category'', jget tool ''category''),
          (''operation'', jget tool ''operation''), (''sensitivity'', jget target ''sensitivity''),
          (''scope'', jget target ''scope''), (''model'', jget context ''model''), (''app'', jget context ''app''),
          (''source_prompt_hash'', jget context ''source_prompt_hash''), (''agent_id'', jget actor ''id''),
          (''agent_issuer'', jget actor ''issuer''),
          (''authority_grant_id'', jor (jget grant ''grant_id'') (jget context ''authority_grant_id'')),
          (''intent_id'', jor (jget context ''intent_id'') (jget grant ''intent_id'')),
          (''task_id'', jor (jget context ''task_id'') (jget grant ''task_id''))])])"

section \<open>The session approval cache\<close>

definition normalizeForApproval :: "jval \<Rightarrow> jval" where
  "normalizeForApproval call =
     (let tool = jget call ''tool''; target = jget call ''target''; str = (\<lambda>v d. jor v (JStr d)) in
      JObj [
        (''tool'', JObj [(''name'', str (jget tool ''name'') []), (''category'', str (jget tool ''category'') []),
          (''operation'', str (jget tool ''operation'') [])]),
        (''target'', JObj [(''resource'', str (jget target ''resource'') []), (''scope'', str (jget target ''scope'') []),
          (''sensitivity'', str (jget target ''sensitivity'') ''unknown'')]),
        (''arguments'', jor (jget call ''arguments'') (JObj []))])"

definition approvalFingerprint :: "host \<Rightarrow> jval \<Rightarrow> string" where
  "approvalFingerprint H call = ''sha256:'' @ sha256_hex H (stableStringify (normalizeForApproval call))"

definition approvalSummary :: "jval \<Rightarrow> string" where
  "approvalSummary call =
     to_str (jor (jget (jget call ''tool'') ''name'') (JStr ''unknown.tool'')) @ '' -> ''
     @ to_str (jor (jget (jget call ''target'') ''resource'') (JStr ''unknown target''))"

definition cached_decision :: "host \<Rightarrow> jval \<Rightarrow> jval \<Rightarrow> jval \<Rightarrow> string \<Rightarrow> string \<Rightarrow> string \<Rightarrow> jval" where
  "cached_decision H decision call cached action verb rule =
     jspread decision (JObj [(''action'', JStr action),
       (''reason'', JStr (verb @ '' by session approval cache: ''
          @ to_str (jor (jget cached ''summary'') (JStr (approvalSummary call))))),
       (''matchedRule'', JStr (''approval-cache:'' @ rule)),
       (''approvalCacheKey'', JStr (approvalFingerprint H call))])"

definition applySessionDecision :: "host \<Rightarrow> jval \<Rightarrow> jval \<Rightarrow> jval \<Rightarrow> jval" where
  "applySessionDecision H decision call cache =
     (if \<not> truthy decision \<or> jget decision ''action'' \<noteq> JStr ''needs_approval'' then decision
      else let cached = jget cache (approvalFingerprint H call) in
        if \<not> truthy cached then decision
        else if jget cached ''decision'' = JStr ''allow_session''
        then cached_decision H decision call cached ''allow'' ''allowed'' ''allow_session''
        else if jget cached ''decision'' = JStr ''deny_session''
        then cached_decision H decision call cached ''deny'' ''denied'' ''deny_session''
        else decision)"

section \<open>Facts\<close>

lemma normalizeToolCall_normal: "validateNormalizedToolCall call = [] \<Longrightarrow> normalizeToolCall H call options = Inr call"
  by (simp add: normalizeToolCall_def)

lemma normalizeToolCall_cases:
  assumes "normalizeToolCall H input options = Inr call"
  obtains (same) "call = input" "validateNormalizedToolCall input = []"
  | (made) "call = normalized_from H input options" "validateActionEnvelope input = []" "validateNormalizedToolCall input \<noteq> []"
  using assms by (auto simp: normalizeToolCall_def res_simps split: if_splits)

lemma normalized_from_get [simp]:
  "jget (normalized_from H input options) ''actor'' = normalize_actor input options"
  "jget (normalized_from H input options) ''tool'' = normalize_tool input"
  "jget (normalized_from H input options) ''target'' = normalize_target input options"
  "jget (normalized_from H input options) ''arguments'' = jor (jget input ''arguments'') (JObj [])"
  "jget (normalized_from H input options) ''context'' = jor (jor (jget input ''context'') (jget input ''metadata'')) (JObj [])"
  by (simp_all add: normalized_from_def)

text \<open>A cached session decision only ever answers a request for approval.\<close>

lemma applySessionDecision_other:
  "jget decision ''action'' \<noteq> JStr ''needs_approval'' \<Longrightarrow> applySessionDecision H decision call cache = decision"
  by (simp add: applySessionDecision_def)

lemma cached_decision_action [simp]:
  "jget (cached_decision H decision call cached action verb rule) ''action'' = JStr action"
  by (simp add: cached_decision_def jget_jspread jhas_def)

lemma applySessionDecision_action:
  "jget (applySessionDecision H decision call cache) ''action'' = jget decision ''action''
   \<or> (jget decision ''action'' = JStr ''needs_approval''
      \<and> (\<exists>e\<in>{''allow'', ''deny''}. jget (jget cache (approvalFingerprint H call)) ''decision'' = JStr (e @ ''_session'')
          \<and> jget (applySessionDecision H decision call cache) ''action'' = JStr e))"
  by (auto simp: applySessionDecision_def Let_def)

end
