(* ===== verification/Resources.thy ===== *)
theory Resources
  imports Normalizer Patterns
begin

text \<open>
  The vocabulary in which authority is expressed, \<^verbatim>\<open>packages/core/src/authority/grant.js\<close>: the
  canonical action and the canonical resource identity of a call.  \<open>encodeURIComponent\<close> and
  \<^verbatim>\<open>path.posix.normalize\<close> are standard library functions of the runtime.
\<close>

section \<open>Standard library functions\<close>

definition uri_unreserved :: "char \<Rightarrow> bool" where
  "uri_unreserved c \<longleftrightarrow> alnum c \<or> c \<in> set ''-_.!~*'' \<or> c \<in> set [CHR 0x27, CHR ''('', CHR '')'']"

definition hex_upper :: "nat \<Rightarrow> char" where
  "hex_upper n = (if n < 10 then char_of (48 + n) else char_of (55 + n))"

definition percent :: "nat \<Rightarrow> string" where
  "percent n = [CHR ''%'', hex_upper (n div 16), hex_upper (n mod 16)]"

text \<open>The UTF-8 bytes of a code unit below 256.\<close>

definition encode_char :: "char \<Rightarrow> string" where
  "encode_char c = (let n = of_char c :: nat in
     if uri_unreserved c then [c]
     else if n < 128 then percent n
     else percent (192 + n div 64) @ percent (128 + n mod 64))"

lemma encode_char_code [code]:
  "encode_char c =
     (if uri_unreserved c then [c]
      else let n = of_char c :: nat in if n < 128 then percent n
      else percent (192 + n div 64) @ percent (128 + n mod 64))"
  by (simp add: encode_char_def Let_def)

definition encodeURIComponent :: "string \<Rightarrow> string" where
  "encodeURIComponent s = concat (map encode_char s)"

text \<open>\<open>posix.normalize\<close> of an absolute path, without the leading separators: empty and \<^verbatim>\<open>.\<close>
  segments go, \<^verbatim>\<open>..\<close> removes the segment before it, never the root, and a separator at the end
  of the path stays.\<close>

definition push_segment :: "string \<Rightarrow> string list \<Rightarrow> string list" where
  "push_segment seg stack =
     (if seg = [] \<or> seg = ''.'' then stack
      else if seg = ''..'' then (if stack = [] then [] else butlast stack)
      else stack @ [seg])"

definition path_segments :: "string \<Rightarrow> string list" where
  "path_segments s = fold push_segment (str_split CHR ''/'' s) []"

definition normalize_absolute :: "string \<Rightarrow> string" where
  "normalize_absolute s =
     (let p = str_join ''/'' (path_segments s) in
      if p = [] then [] else if ends_with ''/'' (CHR ''/'' # s) then p @ ''/'' else p)"

section \<open>Canonical identities\<close>

definition ACTION_MAP :: "(string \<times> string) list" where
  "ACTION_MAP =
     [(''file.read'', ''resource.read''), (''filesystem.read'', ''resource.read''),
      (''file.write'', ''resource.write''), (''filesystem.write'', ''resource.write''),
      (''file.create'', ''resource.create''), (''filesystem.create'', ''resource.create''),
      (''file.update'', ''resource.write''), (''filesystem.update'', ''resource.write''),
      (''file.delete'', ''resource.delete''), (''filesystem.delete'', ''resource.delete''),
      (''shell.execute'', ''process.execute''), (''shell.run'', ''process.execute''),
      (''email.read'', ''communication.message.read''), (''email.send'', ''communication.message.send''),
      (''email.create'', ''communication.message.create''), (''email.update'', ''communication.message.update''),
      (''web.read'', ''network.read''), (''web.search'', ''network.search''), (''web.write'', ''network.write''),
      (''payment.create'', ''financial.transaction.create''), (''payment.send'', ''financial.transaction.send''),
      (''payment.update'', ''financial.transaction.update''),
      (''calendar.read'', ''calendar.event.read''), (''calendar.create'', ''calendar.event.create''),
      (''calendar.update'', ''calendar.event.update''), (''calendar.delete'', ''calendar.event.delete''),
      (''memory.read'', ''memory.read''), (''memory.write'', ''memory.write''), (''memory.delete'', ''memory.delete'')]"

fun slashes_back :: "string \<Rightarrow> string" where
  "slashes_back (a # b # c # s) =
     (if a = CHR ''%'' \<and> b = CHR ''2'' \<and> (c = CHR ''F'' \<or> c = CHR ''f'') then CHR ''/'' # slashes_back s
      else a # slashes_back (b # c # s))"
| "slashes_back s = s"

definition encodeResourcePart :: "string \<Rightarrow> string" where
  "encodeResourcePart s = slashes_back (encodeURIComponent s)"

definition URL_SCHEME :: rx where
  "URL_SCHEME =
     rx_seqs [RBegin, RCh (\<lambda>c. char_range CHR ''a'' CHR ''z'' (char_lower c)),
       RStar (RCh (\<lambda>c. alnum c \<or> c \<in> set ''+.-'')), rx_lit ''://'']"

definition URN_SCHEME :: rx where
  "URN_SCHEME = RSeq RBegin (rx_ilit ''urn:'')"

definition slash_normalized :: "string \<Rightarrow> string" where
  "slash_normalized raw = map (\<lambda>c. if c = CHR 0x5C then CHR ''/'' else c) raw"

definition resource_identity :: "jval \<Rightarrow> string" where
  "resource_identity call =
     (let raw = to_str (jor (jget (jget call ''target'') ''resource'') (JStr []));
          category = call_category call;
          normalized = (if one_of [''file'', ''filesystem''] category then normalize_absolute (slash_normalized raw) else raw)
      in if rx_test URL_SCHEME raw \<or> rx_test URN_SCHEME raw then raw
         else ''ruleoak://'' @ encodeURIComponent (to_str category) @ ''/'' @ encodeResourcePart normalized)"

definition canonicalResourceIdentity :: "host \<Rightarrow> jval \<Rightarrow> jval \<Rightarrow> string res" where
  "canonicalResourceIdentity H input options =
     bind_res (normalizeToolCall H input options) (\<lambda>call. Inr (resource_identity call))"

definition action_vocabulary :: "jval \<Rightarrow> string" where
  "action_vocabulary call =
     (let key = to_str (call_category call) @ ''.'' @ to_str (call_operation call) in
      case map_of ACTION_MAP key of Some a \<Rightarrow> a | None \<Rightarrow> key)"

definition canonicalActionVocabulary :: "host \<Rightarrow> jval \<Rightarrow> jval \<Rightarrow> string res" where
  "canonicalActionVocabulary H input options =
     bind_res (normalizeToolCall H input options) (\<lambda>call. Inr (action_vocabulary call))"

section \<open>Paths cannot climb\<close>

lemma push_segment_clean:
  "list_all (\<lambda>x. x \<noteq> [] \<and> x \<noteq> ''.'' \<and> x \<noteq> ''..'') stack
    \<Longrightarrow> list_all (\<lambda>x. x \<noteq> [] \<and> x \<noteq> ''.'' \<and> x \<noteq> ''..'') (push_segment seg stack)"
  by (auto simp: push_segment_def list_all_iff dest: in_set_butlastD)

lemma path_segments_clean: "list_all (\<lambda>x. x \<noteq> [] \<and> x \<noteq> ''.'' \<and> x \<noteq> ''..'') (path_segments s)"
proof -
  have "list_all (\<lambda>x. x \<noteq> [] \<and> x \<noteq> ''.'' \<and> x \<noteq> ''..'') stack \<Longrightarrow>
      list_all (\<lambda>x. x \<noteq> [] \<and> x \<noteq> ''.'' \<and> x \<noteq> ''..'') (fold push_segment segs stack)" for segs stack
    by (induction segs arbitrary: stack) (simp_all add: push_segment_clean)
  then show ?thesis by (simp add: path_segments_def)
qed

lemma str_split_chars: "x \<in> set (str_split c s) \<Longrightarrow> c \<notin> set x"
  by (induction s arbitrary: x) (auto split: list.splits if_splits)

lemma path_segments_chars: "x \<in> set (path_segments s) \<Longrightarrow> CHR ''/'' \<notin> set x"
proof -
  have "x \<in> set (fold push_segment segs stack) \<Longrightarrow> (\<forall>y\<in>set segs \<union> set stack. CHR ''/'' \<notin> set y) \<Longrightarrow> CHR ''/'' \<notin> set x" for segs stack
  proof (induction segs arbitrary: stack)
    case (Cons y ys)
    have "\<forall>z\<in>set ys \<union> set (push_segment y stack). CHR ''/'' \<notin> set z"
      using Cons.prems(2) by (auto simp: push_segment_def dest: in_set_butlastD split: if_splits)
    then show ?case using Cons.IH Cons.prems(1) by simp
  qed auto
  then show "x \<in> set (path_segments s) \<Longrightarrow> CHR ''/'' \<notin> set x"
    using str_split_chars by (auto simp: path_segments_def)
qed

lemma str_split_join:
  "xs \<noteq> [] \<Longrightarrow> \<forall>x\<in>set xs. c \<notin> set x \<Longrightarrow> str_split c (str_join [c] xs) = xs"
proof (induction "[c]" xs rule: str_join.induct)
  case (2 x)
  then have "str_split c x = [x]"
    by (induction x) auto
  then show ?case by simp
next
  case (3 x y xs)
  then have "str_split c (str_join [c] (y # xs)) = y # xs" by simp
  moreover have "c \<notin> set x \<Longrightarrow> str_split c (x @ c # r) = x # str_split c r" for r
    by (induction x) auto
  ultimately show ?case using 3 by simp
qed simp

lemma str_join_snoc_empty: "xs \<noteq> [] \<Longrightarrow> str_join sep (xs @ [[]]) = str_join sep xs @ sep"
  by (induction sep xs rule: str_join.induct) auto

text \<open>The canonical path of a file is made of proper segments: it never contains a \<^verbatim>\<open>..\<close> that a
  file system would follow upwards.\<close>

lemma normalize_absolute_segments:
  assumes "normalize_absolute s \<noteq> []" "x \<in> set (str_split CHR ''/'' (normalize_absolute s))"
  shows "x \<noteq> ''..'' \<and> x \<noteq> ''.''"
proof -
  let ?xs = "path_segments s"
  have ne: "?xs \<noteq> []" using assms(1) by (auto simp: normalize_absolute_def Let_def)
  have j: "str_split CHR ''/'' (str_join ''/'' ?xs) = ?xs"
    using str_split_join [OF ne] path_segments_chars by blast
  have j2: "str_split CHR ''/'' (str_join ''/'' ?xs @ ''/'') = ?xs @ [[]]"
  proof -
    have "str_join ''/'' (?xs @ [[]]) = str_join ''/'' ?xs @ ''/''"
      using ne by (rule str_join_snoc_empty)
    then show ?thesis
      using str_split_join [of "?xs @ [[]]" "CHR ''/''"] path_segments_chars by fastforce
  qed
  have "set (str_split CHR ''/'' (normalize_absolute s)) \<subseteq> set ?xs \<union> {[]}"
    using assms(1) j j2 by (auto simp: normalize_absolute_def Let_def)
  then show ?thesis using assms(2) path_segments_clean [of s] by (auto simp: list_all_iff)
qed

end
