(* ===== verification/Signing.thy ===== *)
theory Signing
  imports CanonicalJson Protocol
begin

text \<open>
  Signed objects.  Decision receipts, authority grants and envelopes, execution leases and effect
  receipts are all signed in the same way (the functions \<open>unsigned...\<close>, \<open>sign...\<close>, \<open>safeEqualString\<close>
  and the signature block of \<open>verify...\<close> in \<^verbatim>\<open>decision/receipt.js\<close>, \<^verbatim>\<open>authority/grant.js\<close>,
  \<^verbatim>\<open>authority/envelope.js\<close>, \<^verbatim>\<open>execution/lease.js\<close> and \<^verbatim>\<open>execution/effect-receipt.js\<close>): the
  signature is an HMAC of the canonical text of the object without its \<open>signature\<close>.  The locale
  \<open>signer\<close> is the contract of the signing functions.
\<close>

section \<open>Signing and checking\<close>

definition unsigned :: "jval \<Rightarrow> jval" where
  "unsigned v = jomit ''signature'' v"

definition hmac_signature :: "host \<Rightarrow> jval \<Rightarrow> jval \<Rightarrow> string" where
  "hmac_signature H secret payload = ''hmac-sha256:'' @ hmac_hex H (to_str secret) (canonicalStringify payload)"

definition with_signature :: "host \<Rightarrow> jval \<Rightarrow> jval \<Rightarrow> jval" where
  "with_signature H v secret = jset (unsigned v) ''signature'' (JStr (hmac_signature H secret (unsigned v)))"

text \<open>The functions that validate what they sign.\<close>

definition sign_validated :: "host \<Rightarrow> string \<Rightarrow> (jval \<Rightarrow> string list) \<Rightarrow> jval \<Rightarrow> jval \<Rightarrow> jval res" where
  "sign_validated H what validate v secret =
     throw_if (\<not> truthy secret) (what @ '' signing secret is required'')
     (throw_if (validate (unsigned v) \<noteq> []) (''invalid '' @ what @ '': '' @ join_errors (validate (unsigned v)))
     (Inr (with_signature H v secret)))"

definition safeEqualString :: "jval \<Rightarrow> jval \<Rightarrow> bool" where
  "safeEqualString left right \<longleftrightarrow> to_str left = to_str right"

definition signature_errors ::
  "(jval \<Rightarrow> jval \<Rightarrow> jval res) \<Rightarrow> string \<Rightarrow> string \<Rightarrow> bool \<Rightarrow> jval \<Rightarrow> jval \<Rightarrow> string list res" where
  "signature_errors sign missing mismatch required v secret =
     (if truthy secret then
        (if \<not> truthy (jget v ''signature'') then Inr [missing]
         else bind_res (sign (unsigned v) secret) (\<lambda>s.
           Inr (err_if (\<not> safeEqualString (jget v ''signature'') (jget s ''signature'')) mismatch)))
      else Inr (err_if (required \<and> \<not> truthy (jget v ''signature'')) missing))"

section \<open>Facts\<close>

lemma unsigned_unsigned [simp]: "unsigned (unsigned v) = unsigned v"
  by (simp add: unsigned_def jomit_def delete_idem)

lemma unsigned_with_signature [simp]: "unsigned (with_signature H v secret) = unsigned v"
  by (simp add: with_signature_def unsigned_def jset_def jomit_def delete_update_same delete_idem)

lemma unsigned_jset_signature [simp]: "unsigned (jset v ''signature'' s) = unsigned v"
  by (simp add: unsigned_def jset_def jomit_def delete_update_same)

lemma jget_unsigned: "jget (unsigned v) k = (if k = ''signature'' then JUndef else jget v k)"
  by (simp add: unsigned_def jget_jomit)

lemma is_obj_unsigned [simp]: "is_obj (unsigned v)"
  by (simp add: unsigned_def)

lemma jget_with_signature:
  "jget (with_signature H v secret) k = (if k = ''signature'' then JStr (hmac_signature H secret (unsigned v)) else jget v k)"
  by (simp add: with_signature_def jget_jset jget_unsigned)

lemma is_obj_with_signature [simp]: "is_obj (with_signature H v secret)"
  by (simp add: with_signature_def)

lemma with_signature_unsigned [simp]: "with_signature H (unsigned v) secret = with_signature H v secret"
  by (simp add: with_signature_def)

lemma hmac_signature_nonempty [simp]: "hmac_signature H secret p \<noteq> []"
  by (simp add: hmac_signature_def)

lemma sign_validated_Inr:
  "sign_validated H what validate v secret = Inr s \<longleftrightarrow>
     truthy secret \<and> validate (unsigned v) = [] \<and> s = with_signature H v secret"
  by (auto simp: sign_validated_def res_simps)

section \<open>The contract\<close>

locale signer =
  fixes H :: host
    and sign :: "jval \<Rightarrow> jval \<Rightarrow> jval res"
    and valid :: "jval \<Rightarrow> bool"
  assumes sign_signs: "sign v secret = Inr s \<Longrightarrow> truthy secret \<and> valid (unsigned v) \<and> s = with_signature H v secret"
    and sign_total: "truthy secret \<Longrightarrow> valid (unsigned v) \<Longrightarrow> sign (unsigned v) secret = Inr (with_signature H v secret)"
begin

text \<open>What was signed is accepted with the same secret.\<close>

lemma signed_accepted:
  assumes "sign v secret = Inr s"
  shows "signature_errors sign missing mismatch required s secret = Inr []"
proof -
  have s: "truthy secret" "valid (unsigned v)" "s = with_signature H v secret" using sign_signs [OF assms] by auto
  have "sign (unsigned s) secret = Inr (with_signature H (unsigned s) secret)"
    using s sign_total [of secret s] by (simp add: with_signature_def)
  then show ?thesis
    using s by (simp add: signature_errors_def safeEqualString_def jget_with_signature)
qed

text \<open>What is accepted with a secret carries the signature of its own content.\<close>

lemma accepted_signature:
  assumes "signature_errors sign missing mismatch required v secret = Inr []" "truthy secret"
  shows "to_str (jget v ''signature'') = hmac_signature H secret (unsigned v)" "valid (unsigned v)"
proof -
  obtain s where s: "sign (unsigned v) secret = Inr s" "to_str (jget v ''signature'') = to_str (jget s ''signature'')"
    using assms by (auto simp: signature_errors_def res_simps safeEqualString_def split: if_splits)
  from sign_signs [OF s(1)] have "valid (unsigned v)" "s = with_signature H (unsigned v) secret" by simp_all
  then show "to_str (jget v ''signature'') = hmac_signature H secret (unsigned v)" "valid (unsigned v)"
    using s by (simp_all add: jget_with_signature)
qed

text \<open>Two objects accepted with one signature have the same content, up to the order of keys, when
  the HMAC under that secret does not collide on their texts.\<close>

lemma same_signature_same_content:
  assumes "signature_errors sign missing mismatch required v secret = Inr []"
    and "signature_errors sign missing mismatch required w secret = Inr []"
    and "truthy secret" "to_str (jget v ''signature'') = to_str (jget w ''signature'')"
    and "json_clean (unsigned v)" "json_clean (unsigned w)"
    and "inj_on (hmac_hex H (to_str secret)) {canonicalStringify (unsigned v), canonicalStringify (unsigned w)}"
  shows "jnorm (unsigned v) = jnorm (unsigned w)"
proof -
  have a: "to_str (jget v ''signature'') = hmac_signature H secret (unsigned v)"
    by (rule accepted_signature(1) [OF assms(1,3)])
  have b: "to_str (jget w ''signature'') = hmac_signature H secret (unsigned w)"
    by (rule accepted_signature(1) [OF assms(2,3)])
  from assms(4) have "hmac_signature H secret (unsigned v) = hmac_signature H secret (unsigned w)"
    unfolding a b .
  then have "hmac_hex H (to_str secret) (canonicalStringify (unsigned v)) = hmac_hex H (to_str secret) (canonicalStringify (unsigned w))"
    unfolding hmac_signature_def same_append_eq .
  then have "canonicalStringify (unsigned v) = canonicalStringify (unsigned w)"
    by (rule inj_onD [OF assms(7)]) simp_all
  then show ?thesis by (rule canonicalStringify_inject [OF assms(5,6)])
qed

end

end
