(* ===== verification/Obligations.thy ===== *)
theory Obligations
  imports Clock CanonicalJson ProtocolAuthority
begin

text \<open>
  Authority obligations, \<^verbatim>\<open>packages/core/src/authority/obligations.js\<close>: normalisation to a sorted
  list without repetitions, merging, the test that a child keeps its parent's obligations, and
  the evaluation before and after an execution.
\<close>

section \<open>Normalisation\<close>

definition normalizeOne :: "nat \<Rightarrow> jval \<Rightarrow> jval res" where
  "normalizeOne index item =
     throw_if (\<not> is_obj item) (''obligations['' @ nat_str index @ ''] must be an object'')
     (throw_if (\<not> one_of AUTHORITY_OBLIGATION_TYPES (jget item ''type''))
       (''unsupported obligation type: '' @ to_str (jget item ''type''))
     (if jget item ''type'' = JStr ''execution_before''
      then (case (if truthy (jget item ''deadline'') then to_date (jget item ''deadline'') else None) of
          None \<Rightarrow> Inl (Error ''execution_before obligation requires a valid deadline'')
        | Some t \<Rightarrow> Inr (JObj [(''type'', JStr ''execution_before''), (''deadline'', JStr (iso_string t))]))
      else Inr (JObj [(''type'', jget item ''type'')])))"

text \<open>The loop with the set of seen texts.\<close>

primrec normalize_loop :: "jval list \<Rightarrow> nat \<Rightarrow> string list \<Rightarrow> jval list \<Rightarrow> jval list res" where
  "normalize_loop [] index seen out = Inr out"
| "normalize_loop (item # items) index seen out =
     bind_res (normalizeOne index item) (\<lambda>normalized.
       let key = canonicalStringify normalized in
       if key \<in> set seen then normalize_loop items (index + 1) seen out
       else normalize_loop items (index + 1) (key # seen) (out @ [normalized]))"

definition by_text :: "host \<Rightarrow> jval \<Rightarrow> jval \<Rightarrow> bool" where
  "by_text H a b \<longleftrightarrow> locale_compare H (canonicalStringify a) (canonicalStringify b) \<le> 0"

definition normalizeObligations :: "host \<Rightarrow> jval \<Rightarrow> jval list res" where
  "normalizeObligations H obligations =
     (let v = (if obligations = JUndef then JArr [] else obligations) in
      throw_if (\<not> is_arr v) ''obligations must be an array''
        (bind_res (normalize_loop (arr_of v) 0 [] []) (\<lambda>out. Inr (sort_by (by_text H) out))))"

definition mergeAuthorityObligations :: "host \<Rightarrow> jval \<Rightarrow> jval \<Rightarrow> jval list res" where
  "mergeAuthorityObligations H parent requested =
     bind_res (normalizeObligations H parent) (\<lambda>p.
     bind_res (normalizeObligations H requested) (\<lambda>r. normalizeObligations H (JArr (p @ r))))"

section \<open>Containment and evaluation\<close>

definition deadline_of :: "jval \<Rightarrow> int option" where
  "deadline_of ob = date_parse (to_str (jget ob ''deadline''))"

definition kept :: "jval list \<Rightarrow> jval \<Rightarrow> bool" where
  "kept c ob \<longleftrightarrow>
     (if jget ob ''type'' = JStr ''execution_before''
      then list_ex (\<lambda>x. time_le (deadline_of x) (deadline_of ob))
        (filter (\<lambda>x. jget x ''type'' = JStr ''execution_before'') c)
      else list_ex (\<lambda>x. strict_eq (jget x ''type'') (jget ob ''type'')) c)"

definition obligationsAreWithin :: "host \<Rightarrow> jval \<Rightarrow> jval \<Rightarrow> jval list within res" where
  "obligationsAreWithin H child parent =
     bind_res (normalizeObligations H child) (\<lambda>c.
     bind_res (normalizeObligations H parent) (\<lambda>p.
       Inr \<lparr>within_errors = concat (map (\<lambda>ob. err_if (\<not> kept c ob)
              (if jget ob ''type'' = JStr ''execution_before''
               then ''child obligations must preserve execution_before <= '' @ to_str (jget ob ''deadline'')
               else ''child obligations must preserve '' @ to_str (jget ob ''type''))) p),
            within_child = c, within_parent = p\<rparr>))"

record obligation_eval =
  oe_errors :: "string list"
  oe_obligations :: "jval list"

text \<open>\<open>now\<close> is compared with \<open>getTime()\<close> of the two dates: an invalid \<open>context.now\<close> compares as false.\<close>

definition obligation_error :: "host \<Rightarrow> jval \<Rightarrow> string \<Rightarrow> jval \<Rightarrow> string list" where
  "obligation_error H context phase ob =
     (let t = jget ob ''type''; pre = (phase = ''pre'') in
      err_if (t = JStr ''require_approval'' \<and> pre \<and> \<not> truthy (jget context ''approved''))
        ''human approval obligation not satisfied''
      @ err_if (t = JStr ''require_recorder'' \<and> pre \<and> \<not> truthy (jget context ''recorderAvailable''))
          ''recorder obligation not satisfied''
      @ err_if (t = JStr ''target_verified'' \<and> pre \<and> \<not> truthy (jget context ''targetVerified''))
          ''target verification obligation not satisfied''
      @ err_if (t = JStr ''execution_before'' \<and> pre
            \<and> time_le (to_date (jget ob ''deadline'')) (date_or_now H (jget context ''now'')))
          ''execution_before obligation deadline has passed''
      @ err_if (t = JStr ''require_effect_receipt'' \<and> phase = ''post'' \<and> \<not> truthy (jget context ''effectReceipt''))
          ''effect receipt obligation not satisfied'')"

text \<open>The obligations whose test reads a property of \<open>context\<close> in this phase: \<open>null\<close> has none to read.\<close>

definition reads_context :: "string \<Rightarrow> jval \<Rightarrow> bool" where
  "reads_context phase ob \<longleftrightarrow>
     (if phase = ''pre'' then one_of [''require_approval'', ''require_recorder'', ''target_verified'', ''execution_before''] (jget ob ''type'')
      else phase = ''post'' \<and> jget ob ''type'' = JStr ''require_effect_receipt'')"

definition evaluateObligations :: "host \<Rightarrow> jval \<Rightarrow> jval \<Rightarrow> string \<Rightarrow> obligation_eval res" where
  "evaluateObligations H obligations context phase =
     bind_res (normalizeObligations H obligations) (\<lambda>obs.
       if context = JNull \<and> list_ex (reads_context phase) obs then Inl TypeError
       else Inr \<lparr>oe_errors = concat (map (obligation_error H context phase) obs), oe_obligations = obs\<rparr>)"

section \<open>Normal obligations\<close>

text \<open>The shapes \<open>normalizeOne\<close> produces.\<close>

definition ob_before :: "int \<Rightarrow> jval" where
  "ob_before t = JObj [(''type'', JStr ''execution_before''), (''deadline'', JStr (iso_string t))]"

definition ob_plain :: "string \<Rightarrow> jval" where
  "ob_plain ty = JObj [(''type'', JStr ty)]"

definition ob_normal :: "jval \<Rightarrow> bool" where
  "ob_normal ob \<longleftrightarrow> (\<exists>t. \<bar>t\<bar> \<le> max_time \<and> ob = ob_before t)
     \<or> (\<exists>ty\<in>set AUTHORITY_OBLIGATION_TYPES. ty \<noteq> ''execution_before'' \<and> ob = ob_plain ty)"

lemma ob_simps [simp]:
  "jget (ob_before t) ''type'' = JStr ''execution_before''" "jget (ob_before t) ''deadline'' = JStr (iso_string t)"
  "jget (ob_plain ty) ''type'' = JStr ty" "is_obj (ob_before t)" "is_obj (ob_plain ty)"
  by (simp_all add: ob_before_def ob_plain_def)

lemma normalizeOne_normal:
  assumes "normalizeOne i item = Inr ob"
  shows "ob_normal ob"
proof (cases "jget item ''type'' = JStr ''execution_before''")
  case True
  with assms obtain t where "truthy (jget item ''deadline'')" "to_date (jget item ''deadline'') = Some t" "ob = ob_before t"
    by (auto simp: normalizeOne_def ob_before_def res_simps split: option.splits if_splits)
  then show ?thesis using to_date_bound by (auto simp: ob_normal_def)
next
  case False
  with assms have "one_of AUTHORITY_OBLIGATION_TYPES (jget item ''type'')" "ob = JObj [(''type'', jget item ''type'')]"
    by (auto simp: normalizeOne_def res_simps)
  then show ?thesis using False by (auto simp: ob_normal_def ob_plain_def one_of_iff)
qed

lemma normalizeOne_id:
  assumes "ob_normal ob"
  shows "normalizeOne i ob = Inr ob"
  using assms unfolding ob_normal_def
proof (elim disjE exE conjE bexE)
  fix t assume "\<bar>t\<bar> \<le> max_time" "ob = ob_before t"
  then show ?thesis
    by (simp add: normalizeOne_def AUTHORITY_OBLIGATION_TYPES_def) (simp add: ob_before_def)
next
  fix ty assume "ty \<in> set AUTHORITY_OBLIGATION_TYPES" "ty \<noteq> ''execution_before''" "ob = ob_plain ty"
  then show ?thesis by (simp add: normalizeOne_def) (simp add: ob_plain_def)
qed

lemma normalize_loop_normal:
  "normalize_loop items i seen out = Inr out' \<Longrightarrow> list_all ob_normal out \<Longrightarrow> list_all ob_normal out'"
  by (induction items arbitrary: i seen out) (auto simp: res_simps Let_def normalizeOne_normal split: if_splits)

text \<open>The loop collects exactly the normalised items.\<close>

lemma normalize_loop_set:
  assumes "normalize_loop items i (map canonicalStringify seen) out = Inr out'" "set seen = set out"
    and "list_all ob_normal out"
    and inj: "\<And>a b. ob_normal a \<Longrightarrow> ob_normal b \<Longrightarrow> canonicalStringify a = canonicalStringify b \<Longrightarrow> a = b"
  shows "set out' = set out \<union> {ob. \<exists>x\<in>set items. \<exists>j. normalizeOne j x = Inr ob}"
  using assms(1-3)
proof (induction items arbitrary: i seen out)
  case (Cons x xs)
  obtain ob where ob: "normalizeOne i x = Inr ob" using Cons.prems(1) by (auto simp: res_simps)
  have same: "normalizeOne j x = Inr ob' \<longleftrightarrow> ob' = ob" for j ob'
    using ob by (auto simp: normalizeOne_def throw_if_def split: if_splits option.splits)
  have n: "ob_normal ob" using ob by (rule normalizeOne_normal)
  show ?case
  proof (cases "canonicalStringify ob \<in> canonicalStringify ` set seen")
    case True
    then have "ob \<in> set out" using inj n Cons.prems(2,3) by (auto simp: list_all_iff)
    moreover have "normalize_loop xs (i + 1) (map canonicalStringify seen) out = Inr out'"
      using Cons.prems(1) ob True by simp
    ultimately show ?thesis using Cons.IH [of "i + 1" seen out] Cons.prems same by auto
  next
    case False
    then have "normalize_loop xs (i + 1) (map canonicalStringify (ob # seen)) (out @ [ob]) = Inr out'"
      using Cons.prems(1) ob by simp
    then show ?thesis
      using Cons.IH [of "i + 1" "ob # seen" "out @ [ob]"] Cons.prems(2,3) n same by auto
  qed
qed simp

lemma iso_string_inject: "\<bar>s\<bar> \<le> max_time \<Longrightarrow> \<bar>t\<bar> \<le> max_time \<Longrightarrow> iso_string s = iso_string t \<Longrightarrow> s = t"
  by (metis date_parse_iso_string option.inject)

lemma ob_text_inject:
  assumes "ob_normal a" "ob_normal b" "canonicalStringify a = canonicalStringify b"
  shows "a = b"
proof -
  have c: "json_clean ob" if "ob_normal ob" for ob using that by (auto simp: ob_normal_def ob_before_def ob_plain_def)
  have j: "jnorm (ob_before t) = JObj [(''deadline'', JStr (iso_string t)), (''type'', JStr ''execution_before'')]"
    "jnorm (ob_plain ty) = ob_plain ty" for t ty
    by (simp_all add: ob_before_def ob_plain_def)
  have "jnorm a = jnorm b" using canonicalStringify_inject [OF c c] assms by blast
  then show ?thesis
    using assms(1,2) by (auto simp: ob_normal_def j ob_plain_def dest: iso_string_inject)
qed

lemma normalizeObligations_set:
  assumes "normalizeObligations H v = Inr obs"
  shows "list_all ob_normal obs" "set obs = {ob. \<exists>x\<in>set (arr_of v). \<exists>j. normalizeOne j x = Inr ob}"
proof -
  obtain out where out: "normalize_loop (arr_of v) 0 [] [] = Inr out" "obs = sort_by (by_text H) out"
    using assms by (auto simp: normalizeObligations_def res_simps Let_def split: if_splits)
  then show "list_all ob_normal obs"
    using normalize_loop_normal [OF out(1)] by (simp add: list_all_iff)
  show "set obs = {ob. \<exists>x\<in>set (arr_of v). \<exists>j. normalizeOne j x = Inr ob}"
    using normalize_loop_set [of "arr_of v" 0 "[]" "[]" out] out ob_text_inject by simp
qed

lemma normalize_loop_total:
  "list_all ob_normal items \<Longrightarrow> \<exists>out'. normalize_loop items i seen out = Inr out'"
  by (induction items arbitrary: i seen out) (auto simp: normalizeOne_id Let_def)

lemma normalizeObligations_normal:
  assumes "list_all ob_normal xs"
  shows "\<exists>obs. normalizeObligations H (JArr xs) = Inr obs \<and> set obs = set xs"
proof -
  obtain out where "normalize_loop xs 0 [] [] = Inr out" using normalize_loop_total [OF assms] by blast
  then have n: "normalizeObligations H (JArr xs) = Inr (sort_by (by_text H) out)"
    by (simp add: normalizeObligations_def)
  have "{ob. \<exists>x\<in>set xs. \<exists>j. normalizeOne j x = Inr ob} = set xs"
    using assms by (auto simp: list_all_iff normalizeOne_id)
  then show ?thesis using normalizeObligations_set(2) [OF n] n by auto
qed

section \<open>Narrowing of obligations\<close>

text \<open>Obligations as an authority: what an evaluation context satisfies.  The order is the
  containment test, the observation a pair of context and phase.\<close>

definition obligations_le :: "jval list \<Rightarrow> jval list \<Rightarrow> bool" where
  "obligations_le c p \<longleftrightarrow> list_all (kept c) p"

definition obligations_permit :: "host \<Rightarrow> jval list \<Rightarrow> jval \<times> string \<Rightarrow> bool" where
  "obligations_permit H obs x \<longleftrightarrow> list_all (\<lambda>ob. obligation_error H (fst x) (snd x) ob = []) obs"

lemma deadline_of_before [simp]: "\<bar>t\<bar> \<le> max_time \<Longrightarrow> deadline_of (ob_before t) = Some t"
  by (simp add: deadline_of_def date_parse_iso_string)

lemma ob_normal_cases:
  assumes "ob_normal ob"
  obtains t where "\<bar>t\<bar> \<le> max_time" "ob = ob_before t"
  | ty where "ty \<in> set AUTHORITY_OBLIGATION_TYPES" "ty \<noteq> ''execution_before''" "ob = ob_plain ty"
  using assms by (auto simp: ob_normal_def)

lemma kept_before:
  assumes "list_all ob_normal c" "\<bar>t\<bar> \<le> max_time"
  shows "kept c (ob_before t) \<longleftrightarrow> (\<exists>s. \<bar>s\<bar> \<le> max_time \<and> s \<le> t \<and> ob_before s \<in> set c)"
proof
  assume "kept c (ob_before t)"
  then obtain x where x: "x \<in> set c" "jget x ''type'' = JStr ''execution_before''" "time_le (deadline_of x) (Some t)"
    using assms(2) by (auto simp: kept_def list_ex_iff)
  then have "ob_normal x" using assms(1) by (auto simp: list_all_iff)
  then show "\<exists>s. \<bar>s\<bar> \<le> max_time \<and> s \<le> t \<and> ob_before s \<in> set c"
    using x by (elim ob_normal_cases) auto
next
  assume "\<exists>s. \<bar>s\<bar> \<le> max_time \<and> s \<le> t \<and> ob_before s \<in> set c"
  then show "kept c (ob_before t)" using assms(2) by (force simp: kept_def list_ex_iff)
qed

lemma kept_plain:
  assumes "list_all ob_normal c" "ty \<noteq> ''execution_before''"
  shows "kept c (ob_plain ty) \<longleftrightarrow> ob_plain ty \<in> set c"
proof
  assume "kept c (ob_plain ty)"
  then obtain x where x: "x \<in> set c" "jget x ''type'' = JStr ty"
    using assms(2) by (auto simp: kept_def list_ex_iff)
  then have "ob_normal x" using assms(1) by (auto simp: list_all_iff)
  then show "ob_plain ty \<in> set c" using x assms(2) by (elim ob_normal_cases) auto
next
  assume "ob_plain ty \<in> set c"
  then show "kept c (ob_plain ty)" using assms(2) by (force simp: kept_def list_ex_iff)
qed

lemma obligation_error_mono:
  assumes "s \<le> t" "\<bar>s\<bar> \<le> max_time" "\<bar>t\<bar> \<le> max_time" "obligation_error H ctx ph (ob_before s) = []"
  shows "obligation_error H ctx ph (ob_before t) = []"
  using assms by (cases "date_or_now H (jget ctx ''now'')") (auto simp: obligation_error_def Let_def)

interpretation obligations: attenuation "list_all ob_normal" obligations_le "obligations_permit H" for H
proof
  fix c p x
  assume c: "list_all ob_normal c" and p: "list_all ob_normal p"
    and le: "obligations_le c p" and ok: "obligations_permit H c x"
  have "obligation_error H (fst x) (snd x) ob = []" if "ob \<in> set p" for ob
  proof -
    have k: "kept c ob" and n: "ob_normal ob"
      using that le p by (auto simp: obligations_le_def list_all_iff)
    from n show ?thesis
    proof (cases rule: ob_normal_cases)
      case (1 t)
      then show ?thesis
        using k ok by (auto simp: kept_before [OF c] obligations_permit_def list_all_iff intro: obligation_error_mono)
    next
      case (2 ty)
      then show ?thesis using k ok by (simp add: kept_plain [OF c] obligations_permit_def list_all_iff)
    qed
  qed
  then show "obligations_permit H p x" by (simp add: obligations_permit_def list_all_iff)
qed

lemma obligationsAreWithin_ok:
  assumes "obligationsAreWithin H child parent = Inr w"
  obtains c p where "normalizeObligations H child = Inr c" "normalizeObligations H parent = Inr p"
    "within_child w = c" "within_parent w = p" "within_errors w = [] \<longleftrightarrow> obligations_le c p"
  using assms by (auto simp: obligationsAreWithin_def res_simps obligations_le_def list_all_iff)

lemma kept_same_type: "kept c ob \<Longrightarrow> \<exists>x\<in>set c. jget x ''type'' = jget ob ''type''"
  by (auto simp: kept_def list_ex_iff strict_eq_def split: if_splits)

text \<open>What the parent's obligations read, the child's read too.\<close>

lemma reads_context_le:
  assumes "obligations_le c p" "list_ex (reads_context ph) p"
  shows "list_ex (reads_context ph) c"
proof -
  obtain ob where ob: "ob \<in> set p" "reads_context ph ob" using assms(2) by (auto simp: list_ex_iff)
  then obtain x where "x \<in> set c" "jget x ''type'' = jget ob ''type''"
    using assms(1) kept_same_type by (fastforce simp: obligations_le_def list_all_iff)
  moreover from this have "reads_context ph x" using ob(2) by (simp add: reads_context_def)
  ultimately show ?thesis by (auto simp: list_ex_iff)
qed

lemma evaluateObligations_ok:
  assumes "normalizeObligations H v = Inr obs"
  shows "(\<exists>e. evaluateObligations H v ctx ph = Inr e \<and> oe_errors e = [])
    \<longleftrightarrow> (ctx = JNull \<longrightarrow> \<not> list_ex (reads_context ph) obs) \<and> obligations_permit H obs (ctx, ph)"
  using assms by (auto simp: evaluateObligations_def obligations_permit_def list_all_iff)

lemma obligations_narrow:
  assumes "obligationsAreWithin H child parent = Inr w" "within_errors w = []"
    and "evaluateObligations H child ctx ph = Inr e" "oe_errors e = []"
  shows "\<exists>e'. evaluateObligations H parent ctx ph = Inr e' \<and> oe_errors e' = []"
proof -
  obtain c p where n: "normalizeObligations H child = Inr c" "normalizeObligations H parent = Inr p"
    and le: "obligations_le c p"
    using obligationsAreWithin_ok [OF assms(1)] assms(2) by metis
  have ok: "ctx = JNull \<longrightarrow> \<not> list_ex (reads_context ph) c" "obligations_permit H c (ctx, ph)"
    using evaluateObligations_ok [OF n(1)] assms(3,4) by blast+
  have "obligations_permit H p (ctx, ph)"
    using obligations.sound [OF normalizeObligations_set(1) [OF n(1)] normalizeObligations_set(1) [OF n(2)] le ok(2)] .
  then show ?thesis using evaluateObligations_ok [OF n(2)] ok(1) reads_context_le [OF le] by blast
qed

text \<open>C17: Obligations only tighten along a delegation.  If the containment test accepts a child's
  obligations against the parent's, then every context and phase in which the child's
  obligations are all satisfied satisfies all of the parent's as well.\<close>

theorem obligations_tighten:
  assumes "obligationsAreWithin H child parent = Inr w" "within_errors w = []"
    and "evaluateObligations H child ctx ph = Inr e" "oe_errors e = []"
  shows "\<exists>e'. evaluateObligations H parent ctx ph = Inr e' \<and> oe_errors e' = []"
  by (rule obligations_narrow [OF assms])

definition wit_clock :: host where
  "wit_clock = \<lparr>sha256 = (\<lambda>s. ''d''), hmac_hex = (\<lambda>k s. k @ s), now_ms = 0, fresh_uuid = (\<lambda>n. ''u''),
     locale_compare = (\<lambda>a b. if a = b then 0 else if a < b then - 1 else 1), nfkc = (\<lambda>s. s)\<rparr>"

definition wit_obligations :: "string \<Rightarrow> jval" where
  "wit_obligations d = JArr [JObj [(''type'', JStr ''execution_before''), (''deadline'', JStr d)],
     JObj [(''type'', JStr ''require_recorder'')]]"

theorem obligations_tighten_witness:
  "\<exists>e'. evaluateObligations wit_clock (wit_obligations ''2026-02-01T00:00:00Z'')
       (JObj [(''now'', JStr ''2026-01-01T00:00:00Z''), (''recorderAvailable'', JBool True)]) ''pre'' = Inr e'
     \<and> oe_errors e' = []"
proof -
  let ?c = "wit_obligations ''2026-01-15T00:00:00Z''"
  let ?ctx = "JObj [(''now'', JStr ''2026-01-01T00:00:00Z''), (''recorderAvailable'', JBool True)]"
  have "case obligationsAreWithin wit_clock ?c (wit_obligations ''2026-02-01T00:00:00Z'') of
      Inl _ \<Rightarrow> False | Inr w \<Rightarrow> within_errors w = []" by code_simp
  then obtain w where w: "obligationsAreWithin wit_clock ?c (wit_obligations ''2026-02-01T00:00:00Z'') = Inr w"
    "within_errors w = []" by (auto split: sum.splits)
  have "case evaluateObligations wit_clock ?c ?ctx ''pre'' of Inl _ \<Rightarrow> False | Inr e \<Rightarrow> oe_errors e = []" by code_simp
  then obtain e where e: "evaluateObligations wit_clock ?c ?ctx ''pre'' = Inr e" "oe_errors e = []"
    by (auto split: sum.splits)
  show ?thesis by (rule obligations_tighten [OF w e])
qed

text \<open>C35: Merging keeps every parent obligation: whenever the parent's and the requested obligations
  are both well formed, the merge succeeds and is within the parent.\<close>

theorem merge_keeps_parent:
  assumes "normalizeObligations H parent = Inr p" "normalizeObligations H requested = Inr r"
  shows "\<exists>m w. mergeAuthorityObligations H parent requested = Inr m \<and> set m = set p \<union> set r
     \<and> obligationsAreWithin H (JArr m) parent = Inr w \<and> within_errors w = []"
proof -
  have np: "list_all ob_normal p" and nr: "list_all ob_normal r"
    using assms by (auto dest: normalizeObligations_set(1))
  then obtain m where m: "normalizeObligations H (JArr (p @ r)) = Inr m" "set m = set p \<union> set r"
    using normalizeObligations_normal [of "p @ r" H] by auto
  have nm: "list_all ob_normal m" using normalizeObligations_set(1) [OF m(1)] .
  then obtain m' where m': "normalizeObligations H (JArr m) = Inr m'" "set m' = set m"
    using normalizeObligations_normal by blast
  then have nm': "list_all ob_normal m'" using nm by (simp add: list_all_iff)
  have "kept m' ob" if "ob \<in> set p" for ob
  proof -
    have n: "ob_normal ob" and i: "ob \<in> set m'" using that np m m' by (auto simp: list_all_iff)
    from n show ?thesis
      by (cases rule: ob_normal_cases) (use i in \<open>auto simp: kept_before [OF nm'] kept_plain [OF nm']\<close>)
  qed
  then have "obligations_le m' p" by (simp add: obligations_le_def list_all_iff)
  then show ?thesis
    using assms m m' by (auto simp: mergeAuthorityObligations_def obligationsAreWithin_def obligations_le_def list_all_iff)
qed

theorem merge_keeps_parent_witness:
  "\<exists>m w. mergeAuthorityObligations wit_clock (wit_obligations ''2026-02-01T00:00:00Z'') (JArr []) = Inr m
     \<and> obligationsAreWithin wit_clock (JArr m) (wit_obligations ''2026-02-01T00:00:00Z'') = Inr w \<and> within_errors w = []"
proof -
  have "case normalizeObligations wit_clock (wit_obligations ''2026-02-01T00:00:00Z'') of Inl _ \<Rightarrow> False | Inr p \<Rightarrow> True"
    "normalizeObligations wit_clock (JArr []) = Inr []" by code_simp+
  then obtain p where p: "normalizeObligations wit_clock (wit_obligations ''2026-02-01T00:00:00Z'') = Inr p"
    "normalizeObligations wit_clock (JArr []) = Inr []" by (auto split: sum.splits)
  from merge_keeps_parent [OF p] show ?thesis by blast
qed

end
