(* ===== verification/Grant.thy ===== *)
theory Grant
  imports Resources Signing Budget Obligations Revocation
begin

text \<open>
  Authority grants, \<^verbatim>\<open>packages/core/src/authority/grant.js\<close>: building, signing, verifying,
  attenuation, delegation and authorisation.  A verification is the list of its errors.  The
  revocation registry of the options is the argument \<open>rvk\<close>, a function that answers a check;
  the budget registry is the argument \<open>budgets\<close>.  The fields of a grant that hold lists are
  read as arrays, which validation establishes before every use inside this file.
\<close>

section \<open>Building\<close>

type_synonym revocation_source = "jval \<Rightarrow> jval \<Rightarrow> jval \<Rightarrow> revocation_view res"

definition uniqueSorted :: "jval \<Rightarrow> string list res" where
  "uniqueSorted vals =
     (if vals = JUndef then Inr []
      else if \<not> is_arr vals then Inl TypeError
      else Inr (sort (uniq (map str_of (filter nonempty_str (arr_of vals))))))"

text \<open>\<open>c.many || (c.one ? [c.one] : [])\<close>.\<close>

definition many_or_one :: "jval \<Rightarrow> string \<Rightarrow> string \<Rightarrow> jval" where
  "many_or_one c many one = jor (jget c many) (JArr (if truthy (jget c one) then [jget c one] else []))"

definition normalizeCapability :: "nat \<Rightarrow> jval \<Rightarrow> jval res" where
  "normalizeCapability index c =
     bind_res (uniqueSorted (many_or_one c ''actions'' ''action'')) (\<lambda>actions.
     bind_res (uniqueSorted (many_or_one c ''resources'' ''resource'')) (\<lambda>resources.
       throw_if (actions = []) (''capabilities['' @ nat_str index @ ''].actions must not be empty'')
      (throw_if (resources = []) (''capabilities['' @ nat_str index @ ''].resources must not be empty'')
      (Inr (JObj [(''id'', jor (jget c ''id'') (JStr (''cap_'' @ nat_str (index + 1)))),
         (''actions'', JArr (map JStr actions)), (''resources'', JArr (map JStr resources))])))))"

definition normalizeCapabilities :: "jval \<Rightarrow> jval list res" where
  "normalizeCapabilities caps =
     (if \<not> is_arr caps then Inl TypeError
      else map_res (\<lambda>(i, c). normalizeCapability i c) (enumerate 0 (arr_of caps)))"

definition normalizePrincipal :: "jval \<Rightarrow> jval \<Rightarrow> jval" where
  "normalizePrincipal pr fallbackType =
     (if is_str pr then JObj [(''type'', fallbackType), (''id'', pr)]
      else JObj ([(''type'', jor (jget pr ''type'') fallbackType),
          (''id'', jor (jor (jget pr ''id'') (jget pr ''subject'')) (jget pr ''name''))]
        @ when_prop (truthy (jget pr ''name'')) ''name'' (jget pr ''name'')
        @ when_prop (truthy (jget pr ''issuer'')) ''issuer'' (jget pr ''issuer'')))"

definition grantVersionFor :: "jval \<Rightarrow> jval" where
  "grantVersionFor spec =
     (if truthy (jget spec ''grant_version'') then jget spec ''grant_version''
      else JStr (if list_ex (\<lambda>k. present (jget spec k)) [''delegation'', ''budget'', ''obligations'', ''ancestor_grant_ids'']
        then ''1.1'' else ''1.0''))"

definition normalizeDelegationPolicy :: "jval \<Rightarrow> int \<Rightarrow> jval" where
  "normalizeDelegationPolicy spec depth =
     (let allowed = truthy (jget spec ''allowed'') in
      JObj [(''allowed'', JBool allowed),
        (''max_depth'', if is_int (jget spec ''max_depth'') then jget spec ''max_depth''
           else JNum (if allowed then depth + 1 else depth)),
        (''budget_mode'', jor (jget spec ''budget_mode'') (JStr ''inherit''))])"

definition typed_refs :: "string \<Rightarrow> jval list \<Rightarrow> jval list" where
  "typed_refs type ids = map (\<lambda>i. JObj [(''type'', JStr type), (''id'', i)]) ids"

definition revocationAncestorsForGrant :: "jval \<Rightarrow> jval list res" where
  "revocationAncestorsForGrant grant =
     bind_res (jiter (jor (jget grant ''ancestor_grant_ids'') (JArr []))) (\<lambda>ids.
     bind_res (jiter (jor (jget grant ''principal_chain'') (JArr []))) (\<lambda>chain.
       Inr (typed_refs ''authority_grant'' ids
         @ typed_refs ''principal'' (filter truthy (map (\<lambda>p. jget p ''id'') chain)))))"

definition signAuthorityGrant :: "host \<Rightarrow> jval \<Rightarrow> jval \<Rightarrow> jval res" where
  "signAuthorityGrant H grant secret = sign_validated H ''authority grant'' validateAuthorityGrant grant secret"

interpretation grant_signer: signer H "signAuthorityGrant H" "\<lambda>v. validateAuthorityGrant v = []" for H
  by unfold_locales (auto simp: signAuthorityGrant_def sign_validated_Inr)

text \<open>\<open>Number.isFinite(v) ? Math.max(1000, v) : otherwise\<close>.\<close>

definition ttl_or :: "jval \<Rightarrow> int \<Rightarrow> int" where
  "ttl_or v otherwise = (if is_int v then max 1000 (num_of v) else otherwise)"

definition date_or_error :: "int option \<Rightarrow> string \<Rightarrow> int res" where
  "date_or_error t msg = (case t of None \<Rightarrow> Inl (Error msg) | Some n \<Rightarrow> Inr n)"

definition grant_11_fields :: "host \<Rightarrow> jval \<Rightarrow> int \<Rightarrow> props res" where
  "grant_11_fields H spec depth =
     bind_res (jiter (jor (jget spec ''ancestor_grant_ids'') (JArr []))) (\<lambda>ids.
     bind_res (normalizeAuthorityBudget (jor (jget spec ''budget'') (JObj []))) (\<lambda>budget.
     bind_res (normalizeObligations H (jor (jget spec ''obligations'') (JArr []))) (\<lambda>obligations.
       Inr [(''ancestor_grant_ids'', JArr ids), (''budget'', budget), (''obligations'', JArr obligations),
         (''delegation'', normalizeDelegationPolicy (jor (jget spec ''delegation'') (JObj [])) depth)])))"

definition principals_of :: "jval \<Rightarrow> jval \<Rightarrow> jval list" where
  "principals_of spec subject =
     (let supplied = (if is_arr (jget spec ''principal_chain'')
        then map (\<lambda>p. normalizePrincipal p (jor (jget p ''type'') (JStr ''agent''))) (arr_of (jget spec ''principal_chain''))
        else [])
      in if supplied = [] then [subject] else supplied)"

definition grant_subject :: "jval \<Rightarrow> jval \<Rightarrow> jval" where
  "grant_subject spec options =
     normalizePrincipal (jor (jor (jget spec ''subject'') (jget options ''subject''))
       (JObj [(''type'', JStr ''agent''), (''id'', JStr ''unknown-agent'')])) (JStr ''agent'')"

definition grant_fields ::
  "host \<Rightarrow> jval \<Rightarrow> jval \<Rightarrow> jval \<Rightarrow> jval list \<Rightarrow> int \<Rightarrow> int \<Rightarrow> int \<Rightarrow> int \<Rightarrow> props" where
  "grant_fields H spec options subject caps issued notBefore expires depth =
     [(''grant_version'', grantVersionFor spec),
      (''grant_id'', jor (jor (jget spec ''grant_id'') (jget options ''grantId'')) (JStr (''grant_'' @ fresh_uuid H 0))),
      (''issuer'', jor (jor (jget spec ''issuer'') (jget options ''issuer'')) (JStr ''ruleoak'')),
      (''subject'', subject),
      (''principal_chain'', JArr (principals_of spec subject)),
      (''capabilities'', JArr caps),
      (''issued_at'', JStr (iso_string issued)), (''not_before'', JStr (iso_string notBefore)),
      (''expires_at'', JStr (iso_string expires)),
      (''parent_grant_id'', jor (jget spec ''parent_grant_id'') JNull),
      (''delegation_depth'', JNum depth)]
     @ when_prop (truthy (jget spec ''task_id'')) ''task_id'' (jget spec ''task_id'')
     @ when_prop (truthy (jget spec ''intent_id'')) ''intent_id'' (jget spec ''intent_id'')
     @ when_prop (truthy (jget spec ''session_id'')) ''session_id'' (jget spec ''session_id'')"

definition buildAuthorityGrant :: "host \<Rightarrow> jval \<Rightarrow> jval \<Rightarrow> jval res" where
  "buildAuthorityGrant H spec options =
     bind_res (date_or_error (date_or_now H (jor (jor (jget options ''issuedAt'') (jget options ''now'')) (jget spec ''issued_at'')))
       ''authority grant issued_at must be a valid date-time'') (\<lambda>issued.
     let ttl = ttl_or (jget options ''ttlMs'') (ttl_or (jget spec ''ttl_ms'') (60 * 60 * 1000)) in
     bind_res (date_or_error (to_date (jor (jor (jget spec ''not_before'') (jget options ''notBefore'')) (JStr (iso_string issued))))
       ''authority grant not_before must be a valid date-time'') (\<lambda>notBefore.
     bind_res (date_or_error (if truthy (jget spec ''expires_at'') then to_date (jget spec ''expires_at'')
         else time_clip (issued + ttl))
       ''authority grant expires_at must be a valid date-time'') (\<lambda>expires.
     let subject = grant_subject spec options;
         depth = (if is_int (jget spec ''delegation_depth'') then num_of (jget spec ''delegation_depth'') else 0) in
     throw_if (\<not> truthy (jget subject ''id'')) ''authority grant subject.id is required''
    (bind_res (normalizeCapabilities (jor (jget spec ''capabilities'') (JArr []))) (\<lambda>caps.
     bind_res (if grantVersionFor spec = JStr ''1.1'' then grant_11_fields H spec depth else Inr []) (\<lambda>extra.
     let grant = JObj (grant_fields H spec options subject caps issued notBefore expires depth @ extra) in
     throw_if (validateAuthorityGrant grant \<noteq> [])
       (''invalid authority grant: '' @ join_errors (validateAuthorityGrant grant))
    (if truthy (jget options ''secret'') then signAuthorityGrant H grant (jget options ''secret'') else Inr grant))))))) "

section \<open>Verification\<close>

text \<open>\<open>options.k !== false\<close>.\<close>

definition not_false :: "jval \<Rightarrow> bool" where
  "not_false v \<longleftrightarrow> v \<noteq> JBool False"

text \<open>The errors of the revocation check; the ancestors are collected first.\<close>

definition revocation_errors ::
  "revocation_source option \<Rightarrow> string \<Rightarrow> jval \<Rightarrow> jval list res \<Rightarrow> jval \<Rightarrow> string \<Rightarrow> string list res" where
  "revocation_errors rvk type sid ancestors options what =
     (case rvk of
        None \<Rightarrow> Inr []
      | Some isRevoked' \<Rightarrow>
          if \<not> truthy sid then Inr []
          else bind_res ancestors (\<lambda>as.
            bind_res (isRevoked' (JStr type) sid (JObj [(''now'', jget options ''now''), (''ancestors'', JArr as),
                (''assumeLocked'', jget options ''revocationAssumeLocked'')])) (\<lambda>v.
              Inr (err_if (rv_revoked v) (what @ '' revoked: '' @ to_str (jget (rv_record v) ''reason''))))))"

definition grant_time_errors :: "host \<Rightarrow> jval \<Rightarrow> jval \<Rightarrow> string list" where
  "grant_time_errors H grant options =
     (let now = date_or_now H (jget options ''now'');
          notBefore = date_or_zero (jget grant ''not_before''); expiresAt = date_or_zero (jget grant ''expires_at'') in
      err_if (now = None) ''authority grant verification time is invalid''
      @ err_if (notBefore = None \<or> time_lt now notBefore) ''authority grant is not active yet''
      @ err_if (expiresAt = None \<or> time_le expiresAt now) ''authority grant has expired'')"

definition grant_binding_errors :: "jval \<Rightarrow> jval \<Rightarrow> string list" where
  "grant_binding_errors grant options =
     err_if (truthy (jget options ''expectedSubjectId'')
         \<and> \<not> strict_eq (jget (jget grant ''subject'') ''id'') (jget options ''expectedSubjectId''))
       (''authority grant subject mismatch: expected '' @ to_str (jget options ''expectedSubjectId''))
     @ err_if (truthy (jget options ''expectedSessionId'') \<and> truthy (jget grant ''session_id'')
         \<and> \<not> strict_eq (jget grant ''session_id'') (jget options ''expectedSessionId''))
       (''authority grant session mismatch: expected '' @ to_str (jget options ''expectedSessionId''))"

definition verifyAuthorityGrant :: "host \<Rightarrow> revocation_source option \<Rightarrow> jval \<Rightarrow> jval \<Rightarrow> string list res" where
  "verifyAuthorityGrant H rvk grant options =
     (let required = not_false (jget options ''requireSignature''); secret = jget options ''secret'' in
      bind_res (revocation_errors rvk ''authority_grant'' (jget grant ''grant_id'')
          (revocationAncestorsForGrant grant) options ''authority grant'') (\<lambda>revoked.
      bind_res (signature_errors (signAuthorityGrant H) ''signed authority grant required''
          ''authority grant signature mismatch'' required grant secret) (\<lambda>sig.
        Inr (validateAuthorityGrant grant @ grant_time_errors H grant options @ grant_binding_errors grant options
          @ revoked @ err_if (required \<and> \<not> truthy secret) ''authority grant verification secret is required'' @ sig))))"

section \<open>Attenuation\<close>

definition delegationPolicyIsWithin :: "jval \<Rightarrow> jval \<Rightarrow> string list" where
  "delegationPolicyIsWithin parent child =
     (if jget parent ''grant_version'' \<noteq> JStr ''1.1'' \<or> jget child ''grant_version'' \<noteq> JStr ''1.1'' then []
      else let p = jor (jget parent ''delegation'') (JObj []); c = jor (jget child ''delegation'') (JObj []) in
        err_if (\<not> truthy (jget p ''allowed'')) ''parent grant does not allow delegation''
        @ err_if (jlt (jget p ''max_depth'') (jcoalesce (jget child ''delegation_depth'') (JNum 0)))
            ''child delegation_depth exceeds parent max_depth''
        @ err_if (jlt (jget p ''max_depth'') (jget c ''max_depth''))
            ''child delegation.max_depth exceeds parent max_depth''
        @ err_if (jget p ''budget_mode'' = JStr ''partition'' \<and> jget c ''budget_mode'' \<noteq> JStr ''partition'')
            ''child delegation budget_mode cannot widen partition to inherit'')"

definition patterns_within :: "jval \<Rightarrow> jval \<Rightarrow> bool" where
  "patterns_within childs parents =
     list_all (\<lambda>c. list_ex (\<lambda>p. authorityPatternIsWithin (to_str c) (to_str p)) (arr_of parents)) (arr_of childs)"

definition capability_within :: "jval \<Rightarrow> jval \<Rightarrow> bool" where
  "capability_within c p \<longleftrightarrow>
     patterns_within (jget c ''actions'') (jget p ''actions'') \<and> patterns_within (jget c ''resources'') (jget p ''resources'')"

definition capability_errors :: "jval \<Rightarrow> jval \<Rightarrow> string list" where
  "capability_errors parent child =
     concat (map (\<lambda>c. err_if (\<not> list_ex (capability_within c) (arr_of (jget parent ''capabilities'')))
         (''child capability '' @ to_str (jor (jget c ''id'') (JStr ''<unnamed>'')) @ '' exceeds parent authority''))
       (arr_of (jget child ''capabilities'')))"

definition chain_errors :: "jval \<Rightarrow> jval \<Rightarrow> string list" where
  "chain_errors parent child =
     (let parentChain = arr_of (jget parent ''principal_chain''); childChain = arr_of (jget child ''principal_chain'') in
      if length childChain \<noteq> length parentChain + 1
      then [''child principal_chain must extend parent chain by exactly one principal'']
      else
        concat (map (\<lambda>(c, p). err_if (canonicalStringify c \<noteq> canonicalStringify p)
            ''child principal_chain does not preserve parent chain'') (zip childChain parentChain))
        @ err_if (\<not> strict_eq (jget (jlast childChain) ''id'') (jget (jget child ''subject'') ''id'')
              \<or> \<not> strict_eq (jget (jlast childChain) ''type'') (jget (jget child ''subject'') ''type''))
            ''child principal_chain must end with child subject'')"

text \<open>The comparisons of version 1.1.\<close>

definition attenuation_11_errors :: "host \<Rightarrow> jval \<Rightarrow> jval \<Rightarrow> string list res" where
  "attenuation_11_errors H parent child =
     (if jget parent ''grant_version'' \<noteq> JStr ''1.1'' then Inr []
      else if jget child ''grant_version'' \<noteq> JStr ''1.1''
      then Inr [''Authority Grant v1.1 may delegate only to v1.1 child grants'']
      else
        bind_res (jiter (jor (jget parent ''ancestor_grant_ids'') (JArr []))) (\<lambda>ids.
        bind_res (budgetIsWithin (jor (jget child ''budget'') (JObj [])) (jor (jget parent ''budget'') (JObj []))) (\<lambda>b.
        bind_res (obligationsAreWithin H (jor (jget child ''obligations'') (JArr [])) (jor (jget parent ''obligations'') (JArr []))) (\<lambda>o'.
          Inr (err_if (canonicalStringify (jor (jget child ''ancestor_grant_ids'') (JArr []))
                \<noteq> canonicalStringify (JArr (ids @ [jget parent ''grant_id''])))
              ''child ancestor_grant_ids must extend parent ancestry exactly''
            @ within_errors b @ within_errors o' @ delegationPolicyIsWithin parent child)))))"

definition isAuthorityGrantAttenuated :: "host \<Rightarrow> jval \<Rightarrow> jval \<Rightarrow> string list res" where
  "isAuthorityGrantAttenuated H parent child =
     bind_res (attenuation_11_errors H parent child) (\<lambda>errors11.
       Inr (err_if (\<not> strict_eq (jget child ''parent_grant_id'') (jget parent ''grant_id''))
           ''child parent_grant_id does not reference parent grant''
         @ err_if (\<not> strict_eq (jcoalesce (jget child ''delegation_depth'') (JNum 0))
               (jplus1 (jcoalesce (jget parent ''delegation_depth'') (JNum 0))))
           ''child delegation_depth must equal parent delegation_depth + 1''
         @ err_if (\<not> strict_eq (jget child ''issuer'') (jget (jget parent ''subject'') ''id''))
           ''child issuer must equal parent subject.id''
         @ err_if (time_lt (date_or_zero (jget child ''not_before'')) (date_or_zero (jget parent ''not_before'')))
           ''child authority starts before parent authority''
         @ err_if (time_lt (date_or_zero (jget parent ''expires_at'')) (date_or_zero (jget child ''expires_at'')))
           ''child authority expires after parent authority''
         @ chain_errors parent child @ capability_errors parent child @ errors11))"

section \<open>Delegation\<close>

type_synonym budget_source = "files \<times> registry"

text \<open>The part of the child's specification that version 1.1 adds.\<close>

definition child_11_fields :: "host \<Rightarrow> jval \<Rightarrow> jval \<Rightarrow> int \<Rightarrow> props res" where
  "child_11_fields H parent spec childDepth =
     (let del = jget parent ''delegation''; requested = jor (jget spec ''delegation'') (JObj []);
          allowed = truthy (jget requested ''allowed'') in
      bind_res (inheritAuthorityBudget (jor (jget parent ''budget'') (JObj [])) (jor (jget spec ''budget'') (JObj []))) (\<lambda>budget.
      bind_res (mergeAuthorityObligations H (jor (jget parent ''obligations'') (JArr [])) (jor (jget spec ''obligations'') (JArr []))) (\<lambda>obligations.
      bind_res (jiter (jor (jget parent ''ancestor_grant_ids'') (JArr []))) (\<lambda>ids.
        Inr [(''ancestor_grant_ids'', JArr (ids @ [jget parent ''grant_id''])), (''budget'', budget),
          (''obligations'', JArr obligations),
          (''delegation'', JObj [(''allowed'', JBool allowed),
             (''max_depth'', if is_int (jget requested ''max_depth'') then jget requested ''max_depth''
                else if allowed then jget del ''max_depth'' else JNum childDepth),
             (''budget_mode'', jor (jget requested ''budget_mode'') (jget del ''budget_mode''))])]))))"

definition child_spec :: "jval \<Rightarrow> jval \<Rightarrow> jval \<Rightarrow> int \<Rightarrow> string \<Rightarrow> props \<Rightarrow> jval" where
  "child_spec parent spec subject childDepth notBefore extra =
     jspread spec (JObj ([
       (''grant_version'', JStr (if jget parent ''grant_version'' = JStr ''1.1'' then ''1.1'' else ''1.0'')),
       (''issuer'', jor (jget (jget parent ''subject'') ''id'') (jget parent ''issuer'')),
       (''subject'', subject),
       (''principal_chain'', JArr (arr_of (jget parent ''principal_chain'') @ [subject])),
       (''parent_grant_id'', jget parent ''grant_id''),
       (''delegation_depth'', JNum childDepth)] @ extra @ [
       (''not_before'', JStr notBefore),
       (''expires_at'', jor (jget spec ''expires_at'') (jget parent ''expires_at'')),
       (''task_id'', jor (jget spec ''task_id'') (jget parent ''task_id'')),
       (''intent_id'', jor (jget spec ''intent_id'') (jget parent ''intent_id'')),
       (''session_id'', jor (jget spec ''session_id'') (jget parent ''session_id''))]))"

text \<open>The start of the child: the latest of now, the parent's start and the requested one.\<close>

definition child_start :: "host \<Rightarrow> jval \<Rightarrow> jval \<Rightarrow> jval \<Rightarrow> int res" where
  "child_start H parent spec options =
     bind_res (date_or_error (date_or_now H (jget options ''now'')) ''delegation time must be a valid date-time'') (\<lambda>issuance.
     let requested = (if truthy (jget spec ''not_before'') then to_date (jget spec ''not_before'') else None) in
     throw_if (truthy (jget spec ''not_before'') \<and> requested = None) ''delegated authority not_before must be a valid date-time''
    (bind_res (date_or_error (to_date (jget parent ''not_before'')) ''Invalid time value'') (\<lambda>parentStart.
       Inr (case requested of None \<Rightarrow> max issuance parentStart | Some r \<Rightarrow> max (max issuance parentStart) r))))"

definition is_v11 :: "jval \<Rightarrow> bool" where
  "is_v11 grant \<longleftrightarrow> jget grant ''grant_version'' = JStr ''1.1''"

text \<open>The unsigned child, checked against its parent.\<close>

definition build_child :: "host \<Rightarrow> jval \<Rightarrow> jval \<Rightarrow> jval \<Rightarrow> jval res" where
  "build_child H parent spec options =
     (let subject = normalizePrincipal (jor (jget spec ''subject'') (JObj [(''type'', JStr ''agent''), (''id'', JStr ''unknown-agent'')]))
            (JStr ''agent'');
          childDepth = num_of (jor (jget parent ''delegation_depth'') (JNum 0)) + 1 in
      throw_if (\<not> truthy (jget subject ''id'')) ''delegated authority subject.id is required''
     (bind_res (child_start H parent spec options) (\<lambda>start.
      throw_if (is_v11 parent \<and> jget (jget parent ''delegation'') ''allowed'' \<noteq> JBool True)
        ''parent authority does not allow delegation''
     (throw_if (is_v11 parent \<and> jlt (jget (jget parent ''delegation'') ''max_depth'') (jplus1 (jget parent ''delegation_depth'')))
        ''parent authority delegation max_depth reached''
     (bind_res (if is_v11 parent then child_11_fields H parent spec childDepth else Inr []) (\<lambda>extra.
      bind_res (buildAuthorityGrant H (child_spec parent spec subject childDepth (iso_string start) extra)
          (jset options ''secret'' JUndef)) (\<lambda>child.
      bind_res (isAuthorityGrantAttenuated H parent child) (\<lambda>errors.
        throw_if (errors \<noteq> []) (''delegated authority exceeds parent: '' @ join_errors errors) (Inr child)))))))))"

definition delegateAuthorityGrant ::
  "host \<Rightarrow> string \<Rightarrow> revocation_source option \<Rightarrow> budget_source option \<Rightarrow> jval \<Rightarrow> jval \<Rightarrow> jval \<Rightarrow> jval
    \<Rightarrow> (jval \<times> budget_source option) res" where
  "delegateAuthorityGrant H temp rvk budgets parent spec secret options =
     bind_res (verifyAuthorityGrant H rvk parent (jset (jset options ''secret'' secret) ''requireSignature''
         (JBool (not_false (jget options ''requireSignature''))))) (\<lambda>errors.
     throw_if (errors \<noteq> []) (''cannot delegate invalid parent authority: '' @ join_errors errors)
    (bind_res (build_child H parent spec options) (\<lambda>child.
     bind_res (if truthy secret then signAuthorityGrant H child secret else Inr child) (\<lambda>signed.
       if is_v11 parent \<and> jget (jget parent ''delegation'') ''budget_mode'' = JStr ''partition''
       then (case budgets of
           None \<Rightarrow> Inl (Error ''partition delegation requires a DelegationBudgetRegistry'')
         | Some st \<Rightarrow> bind_res (reserve H temp st parent signed (JObj [(''now'', jget options ''now'')])) (\<lambda>(st', r).
             Inr (signed, Some st')))
       else Inr (signed, budgets)))))"

section \<open>Authorisation\<close>

record authorization =
  az_errors :: "string list"
  az_grant :: jval
  az_envelope :: jval
  az_action :: string
  az_resource :: string
  az_capability :: jval

definition patterns_match :: "jval \<Rightarrow> string \<Rightarrow> bool" where
  "patterns_match patterns v = list_ex (\<lambda>p. authorityPatternMatches (to_str p) v) (arr_of patterns)"

definition capability_permits :: "string \<Rightarrow> string \<Rightarrow> jval \<Rightarrow> bool" where
  "capability_permits action resource c \<longleftrightarrow>
     patterns_match (jget c ''actions'') action \<and> patterns_match (jget c ''resources'') resource"

definition find_or_null :: "('a \<Rightarrow> bool) \<Rightarrow> ('a \<Rightarrow> jval) \<Rightarrow> 'a list \<Rightarrow> jval" where
  "find_or_null P f xs = (case find P xs of None \<Rightarrow> JNull | Some x \<Rightarrow> f x)"

definition authorizeWithAuthorityGrant :: "host \<Rightarrow> revocation_source option \<Rightarrow> jval \<Rightarrow> jval \<Rightarrow> jval \<Rightarrow> authorization res" where
  "authorizeWithAuthorityGrant H rvk grant input options =
     bind_res (normalizeToolCall H input options) (\<lambda>call.
     let actor = jget call ''actor''; actorId = jor (jget actor ''id'') (jget actor ''name'') in
     bind_res (verifyAuthorityGrant H rvk grant (JObj [(''now'', jget options ''now''), (''secret'', jget options ''secret''),
         (''requireSignature'', JBool (not_false (jget options ''requireSignature''))),
         (''expectedSubjectId'', if jget options ''bindSubject'' = JBool False then JUndef else actorId),
         (''expectedSessionId'', jget actor ''session_id''),
         (''revocationAssumeLocked'', jget options ''revocationAssumeLocked'')])) (\<lambda>errors.
     bind_res (canonicalActionVocabulary H call (JObj [])) (\<lambda>action.
     bind_res (canonicalResourceIdentity H call (JObj [])) (\<lambda>resource.
       let matched = find_or_null (capability_permits action resource) (\<lambda>c. c) (arr_of (jget grant ''capabilities'')) in
       Inr (if errors \<noteq> []
         then \<lparr>az_errors = errors, az_grant = grant, az_envelope = JUndef, az_action = action, az_resource = resource,
           az_capability = JNull\<rparr>
         else \<lparr>az_errors = (if truthy matched then [] else [''authority grant does not permit '' @ action @ '' on '' @ resource]),
           az_grant = grant, az_envelope = JUndef, az_action = action, az_resource = resource, az_capability = matched\<rparr>)))))"

end
