(* ===== verification/Receipt.thy ===== *)
theory Receipt
  imports Normalizer Signing Files
begin

text \<open>
  Decision receipts and their consumption: \<^verbatim>\<open>packages/core/src/decision/receipt.js\<close> and
  \<^verbatim>\<open>decision/consumer.js\<close>.  A receipt binds a decision to the digests of the action and of the
  policy; a consumer accepts an allow receipt once, by the exclusive creation of a marker file.
  A store directory is an absolute path, so \<^verbatim>\<open>resolve\<close> only joins it with the marker's name.
\<close>

section \<open>Digests\<close>

definition actionDigest :: "host \<Rightarrow> jval \<Rightarrow> jval \<Rightarrow> string res" where
  "actionDigest H input options =
     bind_res (normalizeToolCall H input options) (\<lambda>call.
       Inr (canonicalDigest H (JObj [(''actor'', jget call ''actor''), (''tool'', jget call ''tool''),
         (''target'', jget call ''target''), (''arguments'', jget call ''arguments''), (''context'', jget call ''context'')])))"

text \<open>The default \<open>policy = {}\<close> of the functions that take a policy.\<close>

definition given_policy :: "jval \<Rightarrow> jval" where
  "given_policy policy = (if policy = JUndef then JObj [] else policy)"

definition policyDigest :: "host \<Rightarrow> jval \<Rightarrow> string" where
  "policyDigest H policy = canonicalDigest H (given_policy policy)"

definition signDecisionReceipt :: "host \<Rightarrow> jval \<Rightarrow> jval \<Rightarrow> jval res" where
  "signDecisionReceipt H receipt secret =
     throw_if (\<not> truthy secret) ''receipt signing secret is required'' (Inr (with_signature H receipt secret))"

interpretation receipt_signer: signer H "signDecisionReceipt H" "\<lambda>_. True" for H
  by unfold_locales (auto simp: signDecisionReceipt_def res_simps)

section \<open>Building\<close>

definition ttl_of :: "jval \<Rightarrow> int" where
  "ttl_of v = (if is_int v then max 1000 (num_of v) else 5 * 60 * 1000)"

text \<open>\<open>expires_at\<close>: the default lifetime, capped by \<open>options.expiresAt\<close> where that is a date.\<close>

definition receipt_expiry :: "jval \<Rightarrow> jval \<Rightarrow> string res" where
  "receipt_expiry evaluatedAt options =
     (case to_date evaluatedAt of
        None \<Rightarrow> Inl (Error ''Invalid time value'')
      | Some e \<Rightarrow>
          (let default_expires = e + ttl_of (jget options ''ttlMs'');
               cap = (if truthy (jget options ''expiresAt'') then to_date (jget options ''expiresAt'') else None)
           in to_iso (time_clip (case cap of None \<Rightarrow> default_expires | Some c \<Rightarrow> min default_expires c))))"

definition or_null :: "jval list \<Rightarrow> jval" where
  "or_null vs = foldr jor vs JNull"

definition receipt_subject :: "jval \<Rightarrow> props" where
  "receipt_subject result =
     (let call = jget result ''normalizedCall''; actor = jget call ''actor''; authority = jget result ''authority'';
          metadata = jget (jget result ''action'') ''metadata''; decision = jget result ''decision'';
          grant = jget authority ''grant'' in
      [(''decision'', jor (jget decision ''action'') (JStr ''deny'')),
       (''risk'', jor (jor (jget (jget result ''classification'') ''risk'') (jget decision ''risk'')) (JStr ''unknown'')),
       (''source'', jor (jget decision ''source'') (JStr ''policy'')),
       (''matched_rule'', or_null [jget decision ''matchedRule'']),
       (''call_id'', or_null [jget call ''call_id'', jget metadata ''call_id'']),
       (''session_id'', or_null [jget actor ''session_id'', jget metadata ''session_id'']),
       (''authority_grant_id'', or_null [jget grant ''grant_id'', jget metadata ''authority_grant_id'']),
       (''authority_envelope_id'', or_null [jget (jget authority ''envelope'') ''envelope_id'', jget metadata ''authority_envelope_id'']),
       (''principal_id'', or_null [jget actor ''id'', jget actor ''name'']),
       (''canonical_action'', or_null [jget authority ''canonicalAction'', jget metadata ''canonical_action'']),
       (''canonical_resource'', or_null [jget authority ''canonicalResource'', jget metadata ''canonical_resource'']),
       (''intent_id'', or_null [jget grant ''intent_id'', jget metadata ''intent_id'']),
       (''task_id'', or_null [jget grant ''task_id'', jget metadata ''task_id''])])"

definition receipt_approval :: "jval \<Rightarrow> props" where
  "receipt_approval options =
     (let result = jget options ''approvalResult'' in
      if \<not> truthy result then []
      else [(''approval_id'', jor (jget (jget options ''approvalRequest'') ''approval_id'') (jget result ''approval_id'')),
        (''approval_result_id'', jget result ''approval_result_id''),
        (''approval_request_decision_id'', jget result ''request_decision_id''),
        (''approval_provider_id'', jget result ''provider_id'')])"

definition buildDecisionReceipt :: "host \<Rightarrow> jval \<Rightarrow> jval \<Rightarrow> jval \<Rightarrow> jval res" where
  "buildDecisionReceipt H result policy options =
     (let evaluatedAt = jor (jget options ''evaluatedAt'') (JStr (iso_string (now_ms H))) in
      bind_res (receipt_expiry evaluatedAt options) (\<lambda>expiresAt.
      bind_res (actionDigest H (jor (jor (jget result ''normalizedCall'') (jget result ''action'')) (JObj [])) options) (\<lambda>digest.
      let receipt = JObj ([
          (''receipt_version'', JStr (if truthy (jget options ''approvalResult'') then ''1.2'' else ''1.1'')),
          (''decision_id'', jor (jget options ''decisionId'') (JStr (''dec_'' @ fresh_uuid H 0))),
          (''nonce'', jor (jget options ''nonce'') (JStr (fresh_uuid H 1))),
          (''issuer'', jor (jget options ''issuer'') (JStr ''ruleoak'')),
          (''audience'', jor (jget options ''audience'') (JStr ''ruleoak-executor'')),
          (''one_time'', JBool (jget options ''oneTime'' \<noteq> JBool False)),
          (''evaluated_at'', evaluatedAt),
          (''not_before'', jor (jget options ''notBefore'') evaluatedAt),
          (''expires_at'', JStr expiresAt),
          (''action_digest'', JStr digest),
          (''policy_digest'', JStr (policyDigest H policy))]
        @ receipt_subject result @ receipt_approval options)
      in if truthy (jget options ''secret'') then signDecisionReceipt H receipt (jget options ''secret'') else Inr receipt)))"

section \<open>Verification\<close>

definition receipt_time_errors :: "host \<Rightarrow> jval \<Rightarrow> jval \<Rightarrow> string list" where
  "receipt_time_errors H receipt options =
     (let now = date_or_now H (jget options ''now'');
          notBefore = date_or_zero (jor (jget receipt ''not_before'') (jget receipt ''evaluated_at''));
          expires = date_or_zero (jget receipt ''expires_at'') in
      err_if (notBefore = None \<or> time_lt now notBefore) ''decision receipt is not active yet''
      @ err_if (expires = None \<or> time_le expires now) ''decision receipt has expired'')"

definition action_mismatch :: "host \<Rightarrow> jval \<Rightarrow> jval \<Rightarrow> string list res" where
  "action_mismatch H receipt options =
     (if \<not> truthy (jget options ''input'') then Inr []
      else bind_res (actionDigest H (jget options ''input'')
          (jset options ''sessionId'' (jor (jget options ''sessionId'') (jget receipt ''session_id'')))) (\<lambda>d.
        Inr (err_if (jget receipt ''action_digest'' \<noteq> JStr d) ''action digest mismatch'')))"

definition verifyDecisionReceipt :: "host \<Rightarrow> jval \<Rightarrow> jval \<Rightarrow> string list res" where
  "verifyDecisionReceipt H receipt options =
     (let secret = jget options ''secret''; required = truthy (jget options ''requireSignature'') in
      bind_res (action_mismatch H receipt options) (\<lambda>action_errors.
      bind_res (signature_errors (signDecisionReceipt H) ''signed receipt required'' ''receipt signature mismatch''
          required receipt secret) (\<lambda>sig.
        Inr (validateDecisionReceipt receipt @ receipt_time_errors H receipt options @ action_errors
          @ err_if (truthy (jget options ''policy'') \<and> jget receipt ''policy_digest'' \<noteq> JStr (policyDigest H (jget options ''policy'')))
              ''policy digest mismatch''
          @ err_if (truthy (jget options ''audience'') \<and> truthy (jget receipt ''audience'')
                \<and> \<not> strict_eq (jget receipt ''audience'') (jget options ''audience''))
              (''receipt audience mismatch: expected '' @ to_str (jget options ''audience''))
          @ err_if (required \<and> \<not> truthy secret) ''receipt verification secret is required''
          @ sig
          @ err_if (truthy (jget options ''requireAllow'') \<and> jget receipt ''decision'' \<noteq> JStr ''allow'')
              (''receipt decision is not allow: '' @ to_str (jget receipt ''decision''))))))"

definition verifyExecutionGrant :: "host \<Rightarrow> jval \<Rightarrow> jval \<Rightarrow> jval \<Rightarrow> jval \<Rightarrow> jval \<Rightarrow> string list res" where
  "verifyExecutionGrant H receipt input policy secret options =
     verifyDecisionReceipt H receipt (jspread options (JObj [(''input'', input), (''policy'', policy), (''secret'', secret),
       (''requireAllow'', JBool True), (''requireSignature'', JBool (jget options ''requireSignature'' \<noteq> JBool False))]))"

section \<open>Consumption\<close>

record consumption =
  co_ok :: bool
  co_consumed :: bool
  co_replayed :: bool
  co_errors :: "string list"
  co_marker :: jval

definition refused :: "bool \<Rightarrow> string list \<Rightarrow> consumption" where
  "refused replayed errors = \<lparr>co_ok = False, co_consumed = False, co_replayed = replayed, co_errors = errors, co_marker = JUndef\<rparr>"

definition safeMarkerName :: "host \<Rightarrow> jval \<Rightarrow> string" where
  "safeMarkerName H receipt =
     sha256_hex H (to_str (jor (jget receipt ''decision_id'') (JStr [])) @ '':'' @ to_str (jor (jget receipt ''nonce'') (JStr []))
       @ '':'' @ to_str (jor (jget receipt ''action_digest'') (JStr [])))"

definition executionGrantMarkerPath :: "host \<Rightarrow> jval \<Rightarrow> jval \<Rightarrow> string res" where
  "executionGrantMarkerPath H storeDir receipt =
     throw_if (\<not> truthy storeDir) ''execution grant storeDir is required for replay protection''
       (Inr (to_str storeDir @ ''/'' @ safeMarkerName H receipt @ ''.json''))"

definition grant_marker :: "host \<Rightarrow> jval \<Rightarrow> jval \<Rightarrow> int \<Rightarrow> jval" where
  "grant_marker H receipt options consumed =
     JObj [(''consumption_version'', JStr ''1.0''), (''decision_id'', jget receipt ''decision_id''),
       (''nonce'', or_null [jget receipt ''nonce'']), (''action_digest'', jget receipt ''action_digest''),
       (''policy_digest'', jget receipt ''policy_digest''), (''consumed_at'', JStr (iso_string consumed)),
       (''expires_at'', jget receipt ''expires_at''), (''executor'', jor (jget options ''executor'') (JStr ''unknown-executor'')),
       (''audience'', or_null [jget receipt ''audience'']),
       (''receipt_signature_present'', JBool (truthy (jget receipt ''signature''))),
       (''receipt_digest'', JStr (''sha256:'' @ sha256_hex H (canonicalStringify receipt)))]"

definition marker_text :: "jval \<Rightarrow> string" where
  "marker_text marker = json_pretty 0 marker @ [CHR 0x0A]"

definition consumeExecutionGrant ::
  "host \<Rightarrow> files \<Rightarrow> jval \<Rightarrow> jval \<Rightarrow> jval \<Rightarrow> jval \<Rightarrow> jval \<Rightarrow> (consumption \<times> files) res" where
  "consumeExecutionGrant H fs receipt input policy secret options =
     (let required = jget options ''requireSignature'' \<noteq> JBool False in
      if required \<and> \<not> truthy secret
      then Inr (refused False [''RULEOAK_RECEIPT_SECRET is required to consume a signed execution grant''], fs)
      else bind_res (verifyExecutionGrant H receipt input policy secret (JObj [(''now'', jget options ''now''),
          (''requireSignature'', JBool required), (''audience'', jget options ''audience'')])) (\<lambda>errors.
        if errors \<noteq> [] then Inr (refused False errors, fs)
        else if \<not> truthy (jget options ''storeDir'')
        then Inr (refused False [''execution grant storeDir is required for replay protection''], fs)
        else bind_res (executionGrantMarkerPath H (jget options ''storeDir'') receipt) (\<lambda>path.
          case date_or_now H (jor (jget options ''consumedAt'') (jget options ''now'')) of
            None \<Rightarrow> Inr (refused False [''execution grant consumedAt is invalid''], fs)
          | Some consumed \<Rightarrow>
              (let marker = grant_marker H receipt options consumed in
               case durableExclusiveCreateSync fs path (marker_text marker) of
                 (False, fs') \<Rightarrow> Inr (refused True [''execution grant already consumed: '' @ to_str (jget receipt ''decision_id'')
                     @ (if truthy (readMarker fs' path ''execution grant marker'') then [] else '' (marker unreadable)'')], fs')
               | (True, fs') \<Rightarrow> Inr (\<lparr>co_ok = True, co_consumed = True, co_replayed = False, co_errors = [],
                   co_marker = marker\<rparr>, fs')))))"

text \<open>\<open>ExecutionGrantConsumer\<close>: the options of the object, overridden by those of the call.\<close>

definition new_consumer :: "jval \<Rightarrow> jval res" where
  "new_consumer options =
     throw_if (\<not> truthy (jget options ''storeDir'')) ''ExecutionGrantConsumer requires storeDir''
       (Inr (JObj [(''storeDir'', jget options ''storeDir''), (''secret'', jget options ''secret''),
         (''requireSignature'', JBool (jget options ''requireSignature'' \<noteq> JBool False)),
         (''audience'', jget options ''audience''), (''executor'', jor (jget options ''executor'') (JStr ''unknown-executor''))]))"

definition consumer_consume ::
  "host \<Rightarrow> files \<Rightarrow> jval \<Rightarrow> jval \<Rightarrow> jval \<Rightarrow> jval \<Rightarrow> jval \<Rightarrow> (consumption \<times> files) res" where
  "consumer_consume H fs self receipt input policy options =
     consumeExecutionGrant H fs receipt input policy (jcoalesce (jget options ''secret'') (jget self ''secret''))
       (jspread options (JObj [(''storeDir'', jor (jget options ''storeDir'') (jget self ''storeDir'')),
         (''requireSignature'', jcoalesce (jget options ''requireSignature'') (jget self ''requireSignature'')),
         (''audience'', jcoalesce (jget options ''audience'') (jget self ''audience'')),
         (''executor'', jor (jget options ''executor'') (jget self ''executor''))]))"

end
