(* ===== verification/Envelope.thy ===== *)
theory Envelope
  imports Grant Receipt
begin

text \<open>
  Authority envelopes, \<^verbatim>\<open>packages/core/src/authority/envelope.js\<close>: a signed narrowing of a grant for
  one task.  A grant here is a verified one or \<open>undefined\<close>; its lists are arrays.
\<close>

section \<open>Capabilities\<close>

definition env_uniq :: "jval \<Rightarrow> string list res" where
  "env_uniq vals = uniqueSorted vals"

definition env_capability :: "nat \<Rightarrow> jval \<Rightarrow> jval res" where
  "env_capability index cap =
     (if jnullish cap then Inl TypeError
      else bind_res (env_uniq (jor (jget cap ''actions'') (JArr []))) (\<lambda>actions.
        bind_res (env_uniq (jor (jget cap ''resources'') (JArr []))) (\<lambda>resources.
          Inr (JObj [(''id'', jor (jget cap ''id'') (JStr (''env_cap_'' @ nat_str (index + 1)))),
            (''actions'', JArr (map JStr actions)), (''resources'', JArr (map JStr resources))]))))"

definition env_capabilities :: "jval \<Rightarrow> jval list res" where
  "env_capabilities caps =
     (if \<not> is_arr caps then Inl TypeError
      else map_res (\<lambda>(i, c). env_capability i c) (enumerate 0 (arr_of caps)))"

definition envelopeCapabilitiesAreWithin :: "jval list \<Rightarrow> jval list \<Rightarrow> string list" where
  "envelopeCapabilitiesAreWithin capabilities grantCapabilities =
     concat (map (\<lambda>c. err_if (\<not> list_ex (capability_within c) grantCapabilities)
       (''envelope capability '' @ to_str (jor (jget c ''id'') (JStr ''<unnamed>'')) @ '' exceeds authority grant'')) capabilities)"

section \<open>Building\<close>

definition signAuthorityEnvelope :: "host \<Rightarrow> jval \<Rightarrow> jval \<Rightarrow> jval res" where
  "signAuthorityEnvelope H envelope secret =
     sign_validated H ''authority envelope'' validateAuthorityEnvelope envelope secret"

interpretation envelope_signer: signer H "signAuthorityEnvelope H" "\<lambda>v. validateAuthorityEnvelope v = []" for H
  by unfold_locales (auto simp: signAuthorityEnvelope_def sign_validated_Inr)

text \<open>The constraints: the requested budget inside the parent's, the network mode and the right to
  delegate.\<close>

definition envelope_constraints :: "jval \<Rightarrow> jval \<Rightarrow> jval \<Rightarrow> jval res" where
  "envelope_constraints grant spec options =
     bind_res (normalizeAuthorityBudget (jor (jor (jget spec ''parent_budget'') (jget options ''parentBudget''))
         (if is_v11 grant then jor (jget grant ''budget'') (JObj []) else JObj []))) (\<lambda>parentBudget.
     bind_res (normalizeAuthorityBudget (jor (jget spec ''constraints'') (JObj []))) (\<lambda>requested.
     bind_res (if jkeys parentBudget \<noteq> [] then inheritAuthorityBudget parentBudget requested else Inr requested) (\<lambda>inherited.
     let delegation = jcoalesce (jget (jget spec ''constraints'') ''delegation_allowed'') (JBool False) in
     throw_if (is_v11 grant \<and> truthy delegation \<and> jget (jget grant ''delegation'') ''allowed'' \<noteq> JBool True)
       ''authority envelope cannot allow delegation when parent grant forbids delegation''
    (let constraints = jspread inherited (JObj [(''network'', jor (jget (jget spec ''constraints'') ''network'') (JStr ''inherit'')),
         (''delegation_allowed'', delegation)]) in
     bind_res (budgetIsWithin constraints parentBudget) (\<lambda>check.
       throw_if (jkeys parentBudget \<noteq> [] \<and> within_errors check \<noteq> [])
         (''envelope budget exceeds parent: '' @ join_errors (within_errors check)) (Inr constraints))))))"

record window =
  w_issued :: int
  w_start :: int
  w_end :: int

definition envelope_window :: "host \<Rightarrow> jval \<Rightarrow> jval \<Rightarrow> jval \<Rightarrow> window res" where
  "envelope_window H grant spec options =
     bind_res (date_or_error (date_or_now H (jor (jor (jget spec ''issued_at'') (jget options ''issuedAt'')) (jget options ''now'')))
       ''authority envelope issued_at must be a valid date-time'') (\<lambda>issued.
     let requestedStart = (if truthy (jget spec ''not_before'') then to_date (jget spec ''not_before'') else None) in
     throw_if (truthy (jget spec ''not_before'') \<and> requestedStart = None) ''authority envelope not_before must be a valid date-time''
    (bind_res (date_or_error (if truthy (jget spec ''expires_at'') then to_date (jget spec ''expires_at'') else to_date (jget grant ''expires_at''))
       ''authority envelope expires_at must be a valid date-time'') (\<lambda>end_ms.
     bind_res (date_or_error (to_date (jget grant ''not_before'')) ''Invalid time value'') (\<lambda>parentStart.
     let start = (case requestedStart of None \<Rightarrow> max issued parentStart | Some r \<Rightarrow> max (max issued parentStart) r) in
     throw_if (start < parentStart \<or> time_lt (to_date (jget grant ''expires_at'')) (Some end_ms) \<or> end_ms \<le> start)
       ''authority envelope temporal bounds exceed authority grant or have no positive validity window''
       (Inr \<lparr>w_issued = issued, w_start = start, w_end = end_ms\<rparr>)))))"

text \<open>\<open>...(grant.k || spec.k ? {k: spec.k || grant.k} : {})\<close>.\<close>

definition carried :: "jval \<Rightarrow> jval \<Rightarrow> string \<Rightarrow> props" where
  "carried grant spec k = when_prop (truthy (jget grant k) \<or> truthy (jget spec k)) k (jor (jget spec k) (jget grant k))"

definition envelope_fields :: "host \<Rightarrow> jval \<Rightarrow> jval \<Rightarrow> jval list \<Rightarrow> jval \<Rightarrow> window \<Rightarrow> jval list \<Rightarrow> props" where
  "envelope_fields H grant spec caps constraints w obligations =
     [(''envelope_version'', JStr ''1.0''),
      (''envelope_id'', jor (jget spec ''envelope_id'') (JStr (''env_'' @ fresh_uuid H 0))),
      (''grant_id'', jget grant ''grant_id''), (''principal_chain'', jget grant ''principal_chain''),
      (''capabilities'', JArr caps), (''issued_at'', JStr (iso_string (w_issued w))),
      (''not_before'', JStr (iso_string (w_start w))), (''expires_at'', JStr (iso_string (w_end w))),
      (''constraints'', constraints), (''obligations'', JArr obligations)]
     @ carried grant spec ''intent_id'' @ carried grant spec ''task_id'' @ carried grant spec ''session_id''
     @ (if truthy (jget spec ''policy'') then [(''policy_digest'', JStr (policyDigest H (jget spec ''policy'')))]
        else when_prop (truthy (jget spec ''policy_digest'')) ''policy_digest'' (jget spec ''policy_digest''))
     @ when_prop (truthy (jget spec ''revocation_ref'')) ''revocation_ref'' (jget spec ''revocation_ref'')
     @ when_prop (truthy (jget spec ''attestation'')) ''attestation'' (jget spec ''attestation'')"

definition buildAuthorityEnvelope :: "host \<Rightarrow> revocation_source option \<Rightarrow> jval \<Rightarrow> jval \<Rightarrow> jval \<Rightarrow> jval res" where
  "buildAuthorityEnvelope H rvk grant spec options =
     throw_if (\<not> truthy grant) ''authority grant is required''
    (bind_res (verifyAuthorityGrant H rvk grant (JObj [(''now'', jor (jget options ''now'') (jget spec ''issued_at'')),
       (''secret'', jget options ''authoritySecret''),
       (''requireSignature'', JBool (not_false (jget options ''requireAuthoritySignature'')))])) (\<lambda>errors.
     throw_if (errors \<noteq> []) (''cannot build envelope from invalid authority grant: '' @ join_errors errors)
    (bind_res (env_capabilities (jor (jget spec ''capabilities'') (jget grant ''capabilities''))) (\<lambda>caps.
     let beyond = envelopeCapabilitiesAreWithin caps (arr_of (jget grant ''capabilities'')) in
     throw_if (beyond \<noteq> []) (join_errors beyond)
    (bind_res (envelope_constraints grant spec options) (\<lambda>constraints.
     bind_res (envelope_window H grant spec options) (\<lambda>w.
     bind_res (if is_v11 grant
         then mergeAuthorityObligations H (jor (jget grant ''obligations'') (JArr [])) (jor (jget spec ''obligations'') (JArr []))
         else normalizeObligations H (jor (jget spec ''obligations'') (JArr []))) (\<lambda>obligations.
     let envelope = JObj (envelope_fields H grant spec caps constraints w obligations) in
     throw_if (validateAuthorityEnvelope envelope \<noteq> [])
       (''invalid authority envelope: '' @ join_errors (validateAuthorityEnvelope envelope))
    (if truthy (jget options ''envelopeSecret'') then signAuthorityEnvelope H envelope (jget options ''envelopeSecret'')
     else Inr envelope)))))))))"

section \<open>Verification\<close>

text \<open>Unlike for a grant, no test fails when \<open>now\<close> or a date of the envelope is invalid here.\<close>

definition envelope_time_errors :: "host \<Rightarrow> jval \<Rightarrow> jval \<Rightarrow> string list" where
  "envelope_time_errors H envelope options =
     (let now = date_or_now H (jget options ''now'') in
      err_if (time_lt now (date_or_zero (jget envelope ''not_before''))) ''authority envelope is not active yet''
      @ err_if (time_le (date_or_zero (jget envelope ''expires_at'')) now) ''authority envelope has expired'')"

definition envelope_11_errors :: "host \<Rightarrow> jval \<Rightarrow> jval \<Rightarrow> string list res" where
  "envelope_11_errors H envelope grant =
     (if \<not> is_v11 grant then Inr []
      else bind_res (budgetIsWithin (jor (jget envelope ''constraints'') (JObj [])) (jor (jget grant ''budget'') (JObj []))) (\<lambda>b.
        bind_res (obligationsAreWithin H (jor (jget envelope ''obligations'') (JArr [])) (jor (jget grant ''obligations'') (JArr []))) (\<lambda>o'.
          Inr (within_errors b @ within_errors o'
            @ err_if (truthy (jget (jget envelope ''constraints'') ''delegation_allowed'')
                \<and> jget (jget grant ''delegation'') ''allowed'' \<noteq> JBool True)
              ''authority envelope delegation exceeds parent grant''))))"

definition envelope_grant_errors :: "host \<Rightarrow> jval \<Rightarrow> jval \<Rightarrow> string list res" where
  "envelope_grant_errors H envelope grant =
     (if \<not> truthy grant then Inr []
      else bind_res (envelope_11_errors H envelope grant) (\<lambda>errors11.
        Inr (err_if (\<not> strict_eq (jget envelope ''grant_id'') (jget grant ''grant_id'')) ''authority envelope grant_id mismatch''
          @ envelopeCapabilitiesAreWithin (arr_of (jget envelope ''capabilities'')) (arr_of (jget grant ''capabilities''))
          @ err_if (time_lt (date_or_zero (jget envelope ''not_before'')) (date_or_zero (jget grant ''not_before'')))
              ''authority envelope starts before grant''
          @ err_if (time_lt (date_or_zero (jget grant ''expires_at'')) (date_or_zero (jget envelope ''expires_at'')))
              ''authority envelope expires after grant''
          @ errors11)))"

definition envelope_binding_errors :: "jval \<Rightarrow> jval \<Rightarrow> string list" where
  "envelope_binding_errors envelope options =
     err_if (truthy (jget options ''expectedPrincipalId'')
         \<and> \<not> strict_eq (jget (jlast (arr_of (jget envelope ''principal_chain''))) ''id'') (jget options ''expectedPrincipalId''))
       (''authority envelope principal mismatch: expected '' @ to_str (jget options ''expectedPrincipalId''))
     @ err_if (truthy (jget options ''expectedSessionId'') \<and> truthy (jget envelope ''session_id'')
         \<and> \<not> strict_eq (jget envelope ''session_id'') (jget options ''expectedSessionId''))
       (''authority envelope session mismatch: expected '' @ to_str (jget options ''expectedSessionId''))"

definition envelope_ancestors :: "jval \<Rightarrow> jval \<Rightarrow> jval list" where
  "envelope_ancestors envelope grant =
     typed_refs ''authority_grant'' (arr_of (jor (jget grant ''ancestor_grant_ids'') (JArr [])))
     @ typed_refs ''principal'' (filter truthy (map (\<lambda>p. jget p ''id'') (arr_of (jor (jget grant ''principal_chain'') (JArr [])))))
     @ (if truthy (jget envelope ''grant_id'') then typed_refs ''authority_grant'' [jget envelope ''grant_id''] else [])"

text \<open>The envelope and its grant are both looked up, also when the id is missing.\<close>

definition envelope_revocation_errors :: "revocation_source option \<Rightarrow> jval \<Rightarrow> jval \<Rightarrow> string list res" where
  "envelope_revocation_errors rvk envelope options =
     (case rvk of
        None \<Rightarrow> Inr []
      | Some check \<Rightarrow>
          (let request = JObj [(''now'', jget options ''now''),
                 (''ancestors'', JArr (envelope_ancestors envelope (jget options ''grant''))),
                 (''assumeLocked'', jget options ''revocationAssumeLocked'')] in
           bind_res (check (JStr ''authority_envelope'') (jget envelope ''envelope_id'') request) (\<lambda>v.
           bind_res (check (JStr ''authority_grant'') (jget envelope ''grant_id'') request) (\<lambda>g.
             Inr (err_if (rv_revoked v) (''authority envelope revoked: '' @ to_str (jget (rv_record v) ''reason''))
               @ err_if (rv_revoked g) (''authority grant revoked: '' @ to_str (jget (rv_record g) ''reason'')))))))"

definition verifyAuthorityEnvelope :: "host \<Rightarrow> revocation_source option \<Rightarrow> jval \<Rightarrow> jval \<Rightarrow> string list res" where
  "verifyAuthorityEnvelope H rvk envelope options =
     (let required = not_false (jget options ''requireSignature''); secret = jget options ''secret'' in
      bind_res (envelope_grant_errors H envelope (jget options ''grant'')) (\<lambda>grant_errors.
      bind_res (envelope_revocation_errors rvk envelope options) (\<lambda>revoked.
      bind_res (signature_errors (signAuthorityEnvelope H) ''signed authority envelope required''
          ''authority envelope signature mismatch'' False envelope secret) (\<lambda>sig.
        Inr (validateAuthorityEnvelope envelope @ envelope_time_errors H envelope options @ grant_errors
          @ envelope_binding_errors envelope options @ revoked
          @ err_if (required \<and> \<not> truthy secret) ''authority envelope verification secret is required'' @ sig)))))"

section \<open>Authorisation\<close>

definition authorizeWithAuthorityEnvelope :: "host \<Rightarrow> revocation_source option \<Rightarrow> jval \<Rightarrow> jval \<Rightarrow> jval \<Rightarrow> authorization res" where
  "authorizeWithAuthorityEnvelope H rvk envelope input options =
     (let grant = jget options ''grant'' in
      if \<not> truthy grant then
        bind_res (canonicalActionVocabulary H input (JObj [])) (\<lambda>action.
        bind_res (canonicalResourceIdentity H input (JObj [])) (\<lambda>resource.
          Inr \<lparr>az_errors = [''authority grant is required to verify an authority envelope''], az_grant = JNull,
            az_envelope = envelope, az_action = action, az_resource = resource, az_capability = JNull\<rparr>))
      else
        bind_res (authorizeWithAuthorityGrant H rvk grant input (JObj [(''now'', jget options ''now''),
          (''secret'', jget options ''authoritySecret''),
          (''requireSignature'', JBool (not_false (jget options ''requireAuthoritySignature''))),
          (''bindSubject'', jget options ''bindSubject''),
          (''revocationAssumeLocked'', jget options ''revocationAssumeLocked'')])) (\<lambda>auth.
        bind_res (verifyAuthorityEnvelope H rvk envelope (JObj [(''now'', jget options ''now''),
          (''secret'', jget options ''envelopeSecret''),
          (''requireSignature'', JBool (not_false (jget options ''requireEnvelopeSignature''))),
          (''grant'', grant), (''revocationAssumeLocked'', jget options ''revocationAssumeLocked''),
          (''expectedPrincipalId'', if jget options ''bindSubject'' = JBool False then JUndef else jget (jget grant ''subject'') ''id''),
          (''expectedSessionId'', jget (jget input ''actor'') ''session_id'')])) (\<lambda>errors.
          let action = az_action auth; resource = az_resource auth;
              matched = find_or_null (capability_permits action resource) (\<lambda>c. c) (arr_of (jget envelope ''capabilities'')) in
          Inr \<lparr>az_errors = uniq (az_errors auth @ errors
               @ err_if (\<not> truthy matched) (''authority envelope does not permit '' @ action @ '' on '' @ resource)),
             az_grant = grant, az_envelope = envelope, az_action = action, az_resource = resource, az_capability = matched\<rparr>)))"

section \<open>Preview\<close>

definition all_patterns :: "jval \<Rightarrow> string \<Rightarrow> string list res" where
  "all_patterns v k =
     uniqueSorted (JArr (concat (map (\<lambda>c. arr_of (jor (jget c k) (JArr []))) (arr_of (jor (jget v ''capabilities'') (JArr []))))))"

definition removed_patterns :: "string list \<Rightarrow> string list \<Rightarrow> jval" where
  "removed_patterns parent requested =
     JObj [(''parent'', JArr (map JStr parent)), (''requested'', JArr (map JStr requested)),
       (''removed_count'', JNum (max 0 (int (length parent) - int (length requested))))]"

definition preview_attenuation :: "jval \<Rightarrow> jval \<Rightarrow> jval res" where
  "preview_attenuation grant envelope =
     bind_res (all_patterns grant ''actions'') (\<lambda>pa. bind_res (all_patterns grant ''resources'') (\<lambda>pr.
     bind_res (all_patterns envelope ''actions'') (\<lambda>ra. bind_res (all_patterns envelope ''resources'') (\<lambda>rr.
       Inr (JObj [(''action_patterns'', removed_patterns pa ra), (''resource_patterns'', removed_patterns pr rr),
         (''temporal'', JObj [(''parent_not_before'', jget grant ''not_before''), (''parent_expires_at'', jget grant ''expires_at''),
            (''requested_not_before'', jget envelope ''not_before''), (''requested_expires_at'', jget envelope ''expires_at''),
            (''narrows_start'', JBool (time_le (to_date (jget grant ''not_before'')) (to_date (jget envelope ''not_before'')))),
            (''narrows_expiry'', JBool (time_le (to_date (jget envelope ''expires_at'')) (to_date (jget grant ''expires_at''))))]),
         (''constraints'', jor (jget envelope ''constraints'') (JObj [])),
         (''obligations'', jor (jget envelope ''obligations'') (JArr []))])))))"

definition error_message :: "js_error \<Rightarrow> string" where
  "error_message e = (case e of Error m \<Rightarrow> m | TypeError \<Rightarrow> ''TypeError'')"

record preview =
  pv_errors :: "string list"
  pv_envelope :: jval
  pv_attenuation :: jval

definition previewAuthorityEnvelope :: "host \<Rightarrow> revocation_source option \<Rightarrow> jval \<Rightarrow> jval \<Rightarrow> jval \<Rightarrow> preview" where
  "previewAuthorityEnvelope H rvk grant spec options =
     (case bind_res (buildAuthorityEnvelope H rvk grant spec (jset options ''envelopeSecret'' JUndef)) (\<lambda>envelope.
          bind_res (preview_attenuation grant envelope) (\<lambda>a. Inr (envelope, a))) of
        Inr (envelope, a) \<Rightarrow> \<lparr>pv_errors = [], pv_envelope = envelope, pv_attenuation = a\<rparr>
      | Inl e \<Rightarrow> \<lparr>pv_errors = [error_message e], pv_envelope = JNull, pv_attenuation = JNull\<rparr>)"

end
