(* ===== verification/ProtocolApproval.thy ===== *)
theory ProtocolApproval
  imports ProtocolAuthority
begin

text \<open>
  The validators of \<^verbatim>\<open>packages/protocol/src/index.js\<close> for approval requests and results.
\<close>

section \<open>Shared checks\<close>

definition digest_errors :: "jval \<Rightarrow> string \<Rightarrow> string list" where
  "digest_errors v path = err_if (\<not> is_sha256_id v) (path @ '' must be a sha256 digest'')"

definition approvalAllowedKeys :: "jval \<Rightarrow> string list \<Rightarrow> string \<Rightarrow> string list" where
  "approvalAllowedKeys v allowed path = unknown_keys v allowed (\<lambda>k. path @ ''.'' @ k @ '' is not allowed'')"

definition approvalRequiredKeys :: "jval \<Rightarrow> string list \<Rightarrow> string \<Rightarrow> string list" where
  "approvalRequiredKeys v required path =
     (if \<not> is_obj v then [] else concat (map (\<lambda>k. err_if (\<not> jhas v k) (path @ ''.'' @ k @ '' is required'')) required))"

definition approvalString :: "jval \<Rightarrow> string \<Rightarrow> nat \<Rightarrow> bool \<Rightarrow> bool \<Rightarrow> string list" where
  "approvalString v path mx required nullable =
     (if v = JNull \<and> nullable then []
      else if v = JUndef then err_if required (path @ '' is required'')
      else if \<not> is_str v \<or> (required \<and> str_of v = [])
      then [path @ (if required then '' is required'' else '' must be a string when present'')]
      else err_if (length (str_of v) > mx) (path @ '' must be at most '' @ nat_str mx @ '' characters''))"

text \<open>A call of \<open>approvalString\<close> per listed field; \<open>prefix\<close> is the path of the object.\<close>

definition ap_fields :: "jval \<Rightarrow> string \<Rightarrow> bool \<Rightarrow> bool \<Rightarrow> (string \<times> nat) list \<Rightarrow> string list" where
  "ap_fields v prefix required nullable flds =
     concat (map (\<lambda>(f, mx). approvalString (jget v f) (prefix @ f) mx required nullable) flds)"

text \<open>\<open>if (x !== null && x !== undefined && !LIST.includes(x))\<close>.\<close>

definition nullable_enum :: "string list \<Rightarrow> jval \<Rightarrow> string \<Rightarrow> string list" where
  "nullable_enum allowed v path = err_if (\<not> jnullish v \<and> \<not> one_of allowed v) (path @ '' is invalid'')"

section \<open>Parts\<close>

definition validateApprovalPrincipal :: "jval \<Rightarrow> string \<Rightarrow> string list" where
  "validateApprovalPrincipal v path =
     (if \<not> is_obj v then [path @ '' must be an object'']
      else approvalAllowedKeys v [''type'', ''id'', ''name'', ''issuer''] path
        @ err_if (\<not> one_of AUTHORITY_PRINCIPAL_TYPES (jget v ''type'')) (path @ ''.type is invalid'')
        @ ap_fields v (path @ ''.'') True False [(''id'', 256)]
        @ ap_fields v (path @ ''.'') False False [(''name'', 256), (''issuer'', 256)])"

definition validate_ap_actor :: "jval \<Rightarrow> string \<Rightarrow> string list" where
  "validate_ap_actor actor path =
     (if \<not> is_obj actor then [path @ '' must be an object'']
      else let keys = [''type'', ''id'', ''name'', ''issuer'', ''session_id''] in
        approvalAllowedKeys actor keys path @ approvalRequiredKeys actor keys path
        @ ap_fields actor (path @ ''.'') False True [(''type'', 32)]
        @ nullable_enum ACTOR_TYPES (jget actor ''type'') (path @ ''.type'')
        @ ap_fields actor (path @ ''.'') False True [(''id'', 256), (''name'', 256), (''issuer'', 256), (''session_id'', 256)])"

definition validate_ap_tool :: "jval \<Rightarrow> string \<Rightarrow> string list" where
  "validate_ap_tool tool path =
     (if \<not> is_obj tool then [path @ '' must be an object'']
      else let keys = [''name'', ''category'', ''operation''] in
        approvalAllowedKeys tool keys path @ approvalRequiredKeys tool keys path
        @ ap_fields tool (path @ ''.'') False True [(''name'', 256), (''category'', 64), (''operation'', 64)]
        @ nullable_enum TOOL_CATEGORIES (jget tool ''category'') (path @ ''.category'')
        @ nullable_enum TOOL_OPERATIONS (jget tool ''operation'') (path @ ''.operation''))"

definition validate_ap_target :: "jval \<Rightarrow> string \<Rightarrow> string list" where
  "validate_ap_target target path =
     (if \<not> is_obj target then [path @ '' must be an object'']
      else let keys = [''resource'', ''scope'', ''sensitivity''] in
        approvalAllowedKeys target keys path @ approvalRequiredKeys target keys path
        @ ap_fields target (path @ ''.'') False True [(''resource'', 512), (''scope'', 128), (''sensitivity'', 64)]
        @ nullable_enum SENSITIVITY_LEVELS (jget target ''sensitivity'') (path @ ''.sensitivity''))"

definition validateApprovalNormalizedCall :: "jval \<Rightarrow> string \<Rightarrow> string list" where
  "validateApprovalNormalizedCall v path =
     (if \<not> is_obj v then [path @ '' must be an object'']
      else let keys = [''call_id'', ''actor'', ''tool'', ''target''] in
        approvalAllowedKeys v keys path @ approvalRequiredKeys v keys path
        @ ap_fields v (path @ ''.'') False True [(''call_id'', 256)]
        @ validate_ap_actor (jget v ''actor'') (path @ ''.actor'')
        @ validate_ap_tool (jget v ''tool'') (path @ ''.tool'')
        @ validate_ap_target (jget v ''target'') (path @ ''.target''))"

definition validateApprovalAction :: "jval \<Rightarrow> string \<Rightarrow> string list" where
  "validateApprovalAction v path =
     (if \<not> is_obj v then [path @ '' must be an object'']
      else approvalAllowedKeys v [''type'', ''target'', ''metadata''] path
        @ ap_fields v (path @ ''.'') True False [(''type'', 256), (''target'', 512)]
        @ (let m = jget v ''metadata'' in
           if \<not> is_obj m then [path @ ''.metadata must be an object'']
           else approvalAllowedKeys m [''canonical_action'', ''canonical_resource''] (path @ ''.metadata'')
             @ ap_fields m (path @ ''.metadata.'') False True [(''canonical_action'', 256), (''canonical_resource'', 512)]))"

definition validateApprovalClassification :: "jval \<Rightarrow> string \<Rightarrow> string list" where
  "validateApprovalClassification v path =
     (if \<not> is_obj v then [path @ '' must be an object'']
      else approvalAllowedKeys v [''risk'', ''data_flow'', ''side_effect'', ''detected_secrets'', ''detected_prompt_injection''] path
        @ err_if (\<not> one_of RISK_LEVELS (jget v ''risk'')) (path @ ''.risk is invalid'')
        @ err_if (\<not> one_of DATA_FLOWS (jget v ''data_flow'')) (path @ ''.data_flow is invalid'')
        @ err_if (\<not> one_of SIDE_EFFECTS (jget v ''side_effect'')) (path @ ''.side_effect is invalid'')
        @ err_if (\<not> is_bool (jget v ''detected_secrets'')) (path @ ''.detected_secrets must be a boolean'')
        @ err_if (\<not> is_bool (jget v ''detected_prompt_injection'')) (path @ ''.detected_prompt_injection must be a boolean''))"

section \<open>Requests and results\<close>

definition validateApprovalRequest :: "jval \<Rightarrow> string list" where
  "validateApprovalRequest request =
     (if \<not> is_obj request then [''approval request must be an object'']
      else
        approvalAllowedKeys request [''approval_request_version'', ''approval_id'', ''request_decision_id'', ''request_digest'',
          ''issuer'', ''audience'', ''provider_id'', ''requested_at'', ''not_before'', ''expires_at'', ''one_time'',
          ''request_nonce'', ''action_digest'', ''policy_digest'', ''principal_id'', ''risk'', ''call_id'', ''session_id'',
          ''summary'', ''canonical_action'', ''canonical_resource'', ''decision_key'', ''decision_channel'', ''reason'',
          ''classification'', ''normalized_call'', ''action''] ''approval request''
        @ err_if (jget request ''approval_request_version'' \<noteq> JStr ''1.0'') ''approval_request_version must be 1.0''
        @ ap_fields request [] True False [(''approval_id'', 256), (''request_decision_id'', 256), (''request_nonce'', 256),
            (''principal_id'', 256), (''issuer'', 128), (''audience'', 128), (''provider_id'', 128),
            (''requested_at'', 64), (''not_before'', 64), (''expires_at'', 64)]
        @ digest_errors (jget request ''action_digest'') ''action_digest''
        @ digest_errors (jget request ''policy_digest'') ''policy_digest''
        @ digest_errors (jget request ''request_digest'') ''request_digest''
        @ err_if (jget request ''one_time'' \<noteq> JBool True) ''one_time must be true''
        @ period_errors request ''requested_at''
        @ err_if (present (jget request ''risk'') \<and> \<not> one_of RISK_LEVELS (jget request ''risk'')) ''risk is invalid''
        @ ap_fields request [] False True [(''call_id'', 256), (''session_id'', 256)]
        @ ap_fields request [] False False [(''summary'', 512)]
        @ ap_fields request [] False True [(''canonical_action'', 256), (''canonical_resource'', 512)]
        @ ap_fields request [] False False [(''decision_key'', 128), (''decision_channel'', 128), (''reason'', 512)]
        @ (if present (jget request ''normalized_call'')
           then validateApprovalNormalizedCall (jget request ''normalized_call'') ''normalized_call'' else [])
        @ (if present (jget request ''action'') then validateApprovalAction (jget request ''action'') ''action'' else [])
        @ (if present (jget request ''classification'')
           then validateApprovalClassification (jget request ''classification'') ''classification'' else []))"

text \<open>\<open>/^hmac-sha256:[0-9a-f]{64}$/\<close>, tested on the string of the value.\<close>

definition is_hmac_text :: "string \<Rightarrow> bool" where
  "is_hmac_text s \<longleftrightarrow> starts_with ''hmac-sha256:'' s \<and> length s = 76 \<and> list_all hex_digit (drop 12 s)"

definition validateApprovalResult :: "jval \<Rightarrow> string list" where
  "validateApprovalResult result =
     (if \<not> is_obj result then [''approval result must be an object'']
      else
        approvalAllowedKeys result [''approval_result_version'', ''approval_result_id'', ''approval_id'', ''request_decision_id'',
          ''request_digest'', ''result_digest'', ''action_digest'', ''policy_digest'', ''principal_id'', ''provider_id'',
          ''provider_name'', ''approver'', ''decision'', ''decision_scope'', ''reason'', ''decided_at'', ''not_before'',
          ''expires_at'', ''one_time'', ''result_nonce'', ''signature''] ''approval result''
        @ err_if (jget result ''approval_result_version'' \<noteq> JStr ''1.0'') ''approval_result_version must be 1.0''
        @ ap_fields result [] True False [(''approval_result_id'', 256), (''approval_id'', 256), (''request_decision_id'', 256),
            (''result_nonce'', 256), (''principal_id'', 256), (''provider_id'', 128),
            (''decided_at'', 64), (''not_before'', 64), (''expires_at'', 64)]
        @ digest_errors (jget result ''action_digest'') ''action_digest''
        @ digest_errors (jget result ''policy_digest'') ''policy_digest''
        @ digest_errors (jget result ''request_digest'') ''request_digest''
        @ digest_errors (jget result ''result_digest'') ''result_digest''
        @ err_if (\<not> one_of [''allow'', ''deny''] (jget result ''decision'')) ''decision must be allow or deny''
        @ err_if (jget result ''one_time'' \<noteq> JBool True) ''one_time must be true''
        @ period_errors result ''decided_at''
        @ validateApprovalPrincipal (jget result ''approver'') ''approver''
        @ ap_fields result [] False False [(''provider_name'', 128), (''reason'', 512), (''decision_scope'', 64), (''signature'', 128)]
        @ err_if (present (jget result ''signature'') \<and> \<not> is_hmac_text (to_str (jget result ''signature'')))
            ''signature must be hmac-sha256:<64 hex> when present'')"

lemma validateApprovalRequest_period:
  "validateApprovalRequest r = [] \<Longrightarrow> is_obj r \<and> period_errors r ''requested_at'' = [] \<and> jget r ''one_time'' = JBool True"
  by (auto simp: validateApprovalRequest_def split: if_splits)

lemma validateApprovalResult_period:
  "validateApprovalResult r = [] \<Longrightarrow> is_obj r \<and> period_errors r ''decided_at'' = [] \<and> one_of [''allow'', ''deny''] (jget r ''decision'')"
  by (auto simp: validateApprovalResult_def split: if_splits)

end
