(* ===== verification/ProtocolEvidence.thy ===== *)
theory ProtocolEvidence
  imports ProtocolAuthority
begin

text \<open>
  The validators of \<^verbatim>\<open>packages/protocol/src/index.js\<close> for evidence events, API responses,
  capability records, adapter and extension descriptors.  The manifest validator reads fields of
  \<open>identity\<close> and of the tools without testing them first, so it can throw; its value is a
  result.
\<close>

section \<open>Shared checks\<close>

definition iso_ok :: "jval \<Rightarrow> bool" where
  "iso_ok v \<longleftrightarrow> is_str v \<and> date_parse (str_of v) \<noteq> None"

definition validIsoOrNull :: "jval \<Rightarrow> bool" where
  "validIsoOrNull v \<longleftrightarrow> v = JNull \<or> iso_ok v"

definition bounded_str :: "nat \<Rightarrow> jval \<Rightarrow> bool" where
  "bounded_str n v \<longleftrightarrow> nonempty_str v \<and> length (str_of v) \<le> n"

definition starts_sha256 :: "jval \<Rightarrow> bool" where
  "starts_sha256 v \<longleftrightarrow> is_str v \<and> starts_with ''sha256:'' (str_of v)"

text \<open>A loop over values with the set of those seen: \<open>f\<close> gets whether the value is a repetition.\<close>

primrec each_value :: "(bool \<Rightarrow> jval \<Rightarrow> string list) \<Rightarrow> jval list \<Rightarrow> jval list \<Rightarrow> string list" where
  "each_value f seen [] = []"
| "each_value f seen (x # xs) = f (jincludes seen x) x @ each_value f (seen @ [x]) xs"

text \<open>The same over objects with an index, where \<open>key\<close> is what is remembered; what is not an object
  is reported and skipped.\<close>

primrec each_object ::
  "(nat \<Rightarrow> string) \<Rightarrow> (nat \<Rightarrow> bool \<Rightarrow> jval \<Rightarrow> string list) \<Rightarrow> (jval \<Rightarrow> jval) \<Rightarrow> nat \<Rightarrow> jval list \<Rightarrow> jval list \<Rightarrow> string list" where
  "each_object path f key i seen [] = []"
| "each_object path f key i seen (x # xs) =
     (if \<not> is_obj x then (path i @ '' must be an object'') # each_object path f key (i + 1) seen xs
      else f i (jincludes seen (key x)) x @ each_object path f key (i + 1) (seen @ [key x]) xs)"

lemma each_object_Nil:
  "each_object path f key i seen xs = [] \<Longrightarrow> x \<in> set xs \<Longrightarrow> is_obj x \<and> (\<exists>j d. f j d x = [])"
proof (induction xs arbitrary: i seen)
  case (Cons y ys)
  then have "is_obj y" "f i (jincludes seen (key y)) y = []" "each_object path f key (i + 1) (seen @ [key y]) ys = []"
    by (auto split: if_splits)
  with Cons show ?case by auto
qed simp

lemma each_object_distinct:
  assumes "each_object path f key i seen xs = []" "\<forall>j d x. f j d x = [] \<longrightarrow> \<not> d \<and> is_str (key x)"
  shows "distinct (map key xs) \<and> set (map key xs) \<inter> set seen = {}"
  using assms(1)
proof (induction xs arbitrary: i seen)
  case (Cons x xs)
  then have x: "f i (jincludes seen (key x)) x = []" "each_object path f key (i + 1) (seen @ [key x]) xs = []"
    by (auto split: if_splits)
  have s: "\<not> jincludes seen (key x)" "is_str (key x)" using assms(2) x(1) by blast+
  have "distinct (map key xs) \<and> set (map key xs) \<inter> set (seen @ [key x]) = {}" using Cons.IH [OF x(2)] .
  moreover have "key x \<notin> set seen" using s by (auto elim!: is_str_cases)
  ultimately show ?case by auto
qed simp

section \<open>Evidence events and API values\<close>

definition DECISIONS :: "string list" where
  "DECISIONS = [''allow'', ''deny'', ''block'', ''needs_approval'', ''dry_run_only'']"

definition optional_string :: "jval \<Rightarrow> string \<Rightarrow> string list" where
  "optional_string v path = err_if (present v \<and> \<not> is_str v) (path @ '' must be a string when present'')"

definition validateEvidenceEvent :: "jval \<Rightarrow> string list" where
  "validateEvidenceEvent event =
     (if \<not> is_obj event then [''event must be an object'']
      else
        err_if (\<not> is_int (jget event ''index'') \<or> num_of (jget event ''index'') < 1) ''event.index must be a positive integer''
        @ err_if (\<not> is_str (jget event ''timestamp'')) ''event.timestamp is required''
        @ optional_string (jget event ''schema_version'') ''event.schema_version''
        @ optional_string (jget event ''event_id'') ''event.event_id''
        @ map (\<lambda>e. ''event.action.'' @ e) (validateActionEnvelope (jget event ''action''))
        @ err_if (\<not> is_obj (jget event ''decision'') \<or> \<not> one_of DECISIONS (jget (jget event ''decision'') ''action''))
            ''event.decision.action is invalid''
        @ err_if (\<not> is_str (jget event ''previousHash'')) ''event.previousHash is required''
        @ err_if (\<not> is_str (jget event ''hash'')) ''event.hash is required''
        @ (let receipt = jget (jget event ''decision'') ''receipt'' in
           if \<not> present receipt then [] else map (\<lambda>e. ''event.decision.receipt.'' @ e) (validateDecisionReceipt receipt))
        @ (let effect = jget event ''effect_receipt'' in
           if \<not> present effect then [] else map (\<lambda>e. ''event.effect_receipt.'' @ e) (validateEffectReceipt effect))
        @ optional_string (jget event ''event_type'') ''event.event_type'')"

definition validateAuthorizationApiResponse :: "jval \<Rightarrow> string list" where
  "validateAuthorizationApiResponse v =
     (if \<not> is_obj v then [''authorization API response must be an object'']
      else
        err_if (jget v ''api_version'' \<noteq> JStr ''1.0'') ''api_version must be 1.0''
        @ (let d = jget v ''decision'' in
           if \<not> is_obj d then [''decision is required'']
           else err_if (\<not> one_of CANONICAL_DECISIONS (normalizeDecisionAction (jget d ''action''))) ''decision.action is invalid''
             @ err_if (\<not> is_str (jget d ''reason'')) ''decision.reason is required'')
        @ (let a = jget v ''approval'' in
           if jnullish a then []
           else if \<not> is_obj a then [''approval must be an object or null'']
           else err_if (\<not> is_str (jget a ''approval_id'')) ''approval.approval_id is required''))"

definition validateAuthorizationApiError :: "jval \<Rightarrow> string list" where
  "validateAuthorizationApiError v =
     (if \<not> is_obj v \<or> \<not> is_obj (jget v ''error'') then [''error object is required'']
      else err_if (\<not> nonempty_str (jget (jget v ''error'') ''code'')) ''error.code is required''
        @ err_if (\<not> nonempty_str (jget (jget v ''error'') ''message'')) ''error.message is required'')"

section \<open>Capability records\<close>

definition CAPABILITY_EVIDENCE_CLASSES :: "string list" where
  "CAPABILITY_EVIDENCE_CLASSES = [''registry_metadata'', ''declared_manifest'', ''runtime_discovery'',
     ''local_package_evidence'', ''inferred_classification'', ''operator_annotation'', ''historical_observation'']"

definition CAPABILITY_IDENTITY_BASES :: "string list" where
  "CAPABILITY_IDENTITY_BASES = [''explicit'', ''package-identifier'', ''source-anchor'', ''name-transport'']"

definition CAPABILITY_LIFECYCLE_STATES :: "string list" where
  "CAPABILITY_LIFECYCLE_STATES = [''first_seen'', ''present'', ''removed'', ''reintroduced'']"

definition CAPABILITY_DRIFT_CATEGORIES :: "string list" where
  "CAPABILITY_DRIFT_CATEGORIES = [''metadata_change'', ''schema_change'', ''capability_expansion'', ''capability_contraction'',
     ''consequence_escalation'', ''consequence_reduction'', ''provenance_change'', ''transport_change'',
     ''classification_basis_change'']"

definition validateCapabilityIdentity :: "jval \<Rightarrow> string list" where
  "validateCapabilityIdentity identity =
     (if \<not> is_obj identity then [''capability identity must be an object'']
      else
        err_if (jget identity ''identity_version'' \<noteq> JStr ''1.0'') ''identity_version must be 1.0''
        @ err_if (\<not> is_sha256_id (jget identity ''integration_id'')) ''integration_id must be a sha256 digest''
        @ err_if (\<not> is_sha256_id (jget identity ''capability_id'')) ''capability_id must be a sha256 digest''
        @ required_strings identity [''integration_name'', ''action_name'', ''transport''] '' is required''
        @ err_if (\<not> one_of CAPABILITY_IDENTITY_BASES (jget identity ''identity_basis'')) ''identity_basis is invalid'')"

text \<open>The loops over a list of class names.\<close>

definition class_errors :: "string list \<Rightarrow> string \<Rightarrow> string \<Rightarrow> bool \<Rightarrow> jval \<Rightarrow> string list" where
  "class_errors allowed path what dup v =
     err_if (\<not> one_of allowed v) (path @ '' contains invalid '' @ what @ '': '' @ to_str v)
     @ err_if dup (path @ '' contains duplicate '' @ what @ '': '' @ to_str v)"

definition validateCapabilityEvidence :: "jval \<Rightarrow> string list" where
  "validateCapabilityEvidence evidence =
     (if \<not> is_obj evidence then [''capability evidence must be an object'']
      else
        err_if (jget evidence ''evidence_version'' \<noteq> JStr ''1.0'') ''evidence_version must be 1.0''
        @ err_if (\<not> is_sha256_id (jget evidence ''evidence_id'')) ''evidence_id must be a sha256 digest''
        @ (let classes = jget evidence ''evidence_classes'' in
           if \<not> is_arr classes \<or> arr_of classes = [] then [''evidence_classes must be a non-empty array'']
           else each_value (class_errors CAPABILITY_EVIDENCE_CLASSES ''evidence_classes'' ''class'') [] (arr_of classes))
        @ err_if (\<not> validIsoOrNull (jget evidence ''observed_at'')) ''observed_at must be an ISO date-time or null''
        @ (let source = jget evidence ''source'' in
           if \<not> is_obj source then [''source is required'']
           else err_if (\<not> nonempty_str (jget source ''source_kind'')) ''source.source_kind is required''
             @ concat (map (\<lambda>f. err_if (\<not> jnullish (jget source f) \<and> \<not> is_str (jget source f))
                 (''source.'' @ f @ '' must be a string or null'')) [''source_digest'', ''declared_version'', ''protocol_version'']))
        @ err_if (\<not> nonempty_str (jget evidence ''mutability'')) ''mutability is required''
        @ err_if (\<not> is_obj (jget evidence ''classification_basis'')) ''classification_basis is required'')"

definition snapshot_errors :: "jval \<Rightarrow> jval \<Rightarrow> string list" where
  "snapshot_errors observation snapshot =
     (if \<not> is_obj snapshot then [''snapshot is required'']
      else let evidence = jget snapshot ''evidence'' in
        err_if (\<not> one_of [''read_only'', ''state_changing'', ''unknown'', ''removed''] (jget snapshot ''state''))
          ''snapshot.state is invalid''
        @ err_if (\<not> one_of [''read_only'', ''high_consequence'', ''destructive'', ''unknown'', ''removed''] (jget snapshot ''consequence''))
            ''snapshot.consequence is invalid''
        @ err_if (\<not> is_bool (jget snapshot ''secret_or_identity_related'')) ''snapshot.secret_or_identity_related must be boolean''
        @ err_if (jget snapshot ''schema_digest'' \<noteq> JNull \<and> \<not> starts_sha256 (jget snapshot ''schema_digest''))
            ''snapshot.schema_digest must be a sha256 digest or null''
        @ err_if (\<not> is_obj (jget snapshot ''classification_basis'')) ''snapshot.classification_basis is required''
        @ err_if (\<not> nonempty_str (jget snapshot ''transport'')) ''snapshot.transport is required''
        @ map (\<lambda>e. ''snapshot.evidence: '' @ e) (validateCapabilityEvidence evidence)
        @ (if \<not> is_obj evidence then []
           else err_if (\<not> strict_eq (jget evidence ''observed_at'') (jget observation ''observed_at''))
               ''snapshot.evidence.observed_at must equal observed_at''
             @ err_if (\<not> is_arr (jget evidence ''evidence_classes'')
                 \<or> \<not> jincludes (arr_of (jget evidence ''evidence_classes'')) (JStr ''historical_observation''))
               ''snapshot.evidence must include historical_observation evidence class'')
        @ err_if (jget observation ''lifecycle_state'' = JStr ''removed''
              \<and> (jget snapshot ''state'' \<noteq> JStr ''removed'' \<or> jget snapshot ''consequence'' \<noteq> JStr ''removed''))
            ''removed observation must use removed state/consequence'')"

definition validateCapabilityObservation :: "jval \<Rightarrow> string list" where
  "validateCapabilityObservation observation =
     (if \<not> is_obj observation then [''capability observation must be an object'']
      else
        err_if (jget observation ''observation_version'' \<noteq> JStr ''1.0'') ''observation_version must be 1.0''
        @ concat (map (\<lambda>f. err_if (\<not> is_sha256_id (jget observation f)) (f @ '' must be a sha256 digest''))
            [''observation_id'', ''integration_id'', ''capability_id''])
        @ concat (map (\<lambda>f. err_if (\<not> bounded_str 256 (jget observation f)) (f @ '' is required and must be <= 256 characters''))
            [''integration_name'', ''action_name''])
        @ err_if (\<not> iso_ok (jget observation ''observed_at'')) ''observed_at must be an ISO date-time''
        @ err_if (\<not> one_of CAPABILITY_LIFECYCLE_STATES (jget observation ''lifecycle_state'')) ''lifecycle_state is invalid''
        @ (let drift = jget observation ''drift_categories'' in
           if \<not> is_arr drift then [''drift_categories must be an array'']
           else each_value (class_errors CAPABILITY_DRIFT_CATEGORIES ''drift_categories'' ''category'') [] (arr_of drift))
        @ err_if (\<not> jnullish (jget observation ''previous_observation_id'')
              \<and> \<not> is_sha256_id (jget observation ''previous_observation_id''))
            ''previous_observation_id must be a sha256 digest or null''
        @ snapshot_errors observation (jget observation ''snapshot''))"

definition manifest_tool_errors :: "nat \<Rightarrow> jval \<Rightarrow> string list" where
  "manifest_tool_errors index tool =
     (let path = ''tools['' @ nat_str index @ '']'' in
      if \<not> is_obj tool then [path @ '' must be an object'']
      else err_if (\<not> nonempty_str (jget tool ''name'')) (path @ ''.name is required'')
        @ err_if (\<not> one_of [''read_only'', ''state_changing'', ''unknown''] (jget tool ''state'')) (path @ ''.state is invalid'')
        @ err_if (\<not> one_of [''read_only'', ''high_consequence'', ''destructive'', ''unknown''] (jget tool ''consequence''))
            (path @ ''.consequence is invalid'')
        @ err_if (\<not> starts_sha256 (jget tool ''schema_digest'')) (path @ ''.schema_digest is required''))"

definition manifest_provenance_errors :: "jval \<Rightarrow> string list" where
  "manifest_provenance_errors manifest =
     (let provenance = jget manifest ''provenance'' in
      if \<not> one_of [''1.1'', ''1.2''] (jget manifest ''manifest_version'') then []
      else if \<not> is_obj provenance
      then [''provenance is required for manifest_version '' @ to_str (jget manifest ''manifest_version'')]
      else err_if (\<not> nonempty_str (jget provenance ''source_kind'')) ''provenance.source_kind is required''
        @ err_if (\<not> nonempty_str (jget provenance ''mutability'')) ''provenance.mutability is required'')"

definition manifest_12_tool_errors :: "jval \<Rightarrow> nat \<Rightarrow> jval \<Rightarrow> string list" where
  "manifest_12_tool_errors identity index tool =
     (let path = ''tools['' @ nat_str index @ '']''; cid = jget tool ''capability_identity'' in
      err_if (\<not> is_sha256_id (jget tool ''capability_id'')) (path @ ''.capability_id is required for manifest_version 1.2'')
      @ map (\<lambda>e. path @ ''.capability_identity: '' @ e) (validateCapabilityIdentity cid)
      @ map (\<lambda>e. path @ ''.evidence: '' @ e) (validateCapabilityEvidence (jget tool ''evidence''))
      @ err_if (\<not> strict_eq (jget cid ''capability_id'') (jget tool ''capability_id''))
          (path @ ''.capability_id must match capability_identity.capability_id'')
      @ err_if (\<not> strict_eq (jget cid ''integration_id'') (jget identity ''integration_id''))
          (path @ ''.capability_identity.integration_id must match identity.integration_id''))"

definition manifest_12_errors :: "jval \<Rightarrow> string list res" where
  "manifest_12_errors manifest =
     (let identity = jget manifest ''identity''; tools = jget manifest ''tools'' in
      if jget manifest ''manifest_version'' \<noteq> JStr ''1.2'' then Inr []
      else if jnullish identity \<or> (is_arr tools \<and> list_ex jnullish (arr_of tools)) then Inl TypeError
      else Inr (err_if (\<not> is_sha256_id (jget identity ''integration_id''))
            ''identity.integration_id is required for manifest_version 1.2''
          @ err_if (\<not> one_of CAPABILITY_IDENTITY_BASES (jget identity ''identity_basis''))
            ''identity.identity_basis is invalid for manifest_version 1.2''
          @ (if is_arr tools then concat_idx (manifest_12_tool_errors identity) (arr_of tools) else [])))"

definition validateCapabilityManifest :: "jval \<Rightarrow> string list res" where
  "validateCapabilityManifest manifest =
     (if \<not> is_obj manifest then Inr [''capability manifest must be an object'']
      else bind_res (manifest_12_errors manifest) (\<lambda>errors12.
        Inr (err_if (\<not> one_of [''1.0'', ''1.1'', ''1.2''] (jget manifest ''manifest_version''))
            ''manifest_version must be 1.0, 1.1, or 1.2''
          @ err_if (\<not> is_obj (jget manifest ''identity'') \<or> \<not> nonempty_str (jget (jget manifest ''identity'') ''name''))
              ''identity.name is required''
          @ (if \<not> is_arr (jget manifest ''tools'') then [''tools must be an array'']
             else concat_idx manifest_tool_errors (arr_of (jget manifest ''tools'')))
          @ err_if (\<not> is_obj (jget manifest ''summary'')) ''summary is required''
          @ err_if (\<not> starts_sha256 (jget manifest ''fingerprint'')) ''fingerprint is required''
          @ manifest_provenance_errors manifest @ errors12)))"

section \<open>Adapter and extension descriptors\<close>

definition status_ok :: "jval \<Rightarrow> bool" where
  "status_ok v = one_of EFFECT_STATUSES v"

definition observation_capability_errors :: "jval \<Rightarrow> nat \<Rightarrow> bool \<Rightarrow> jval \<Rightarrow> string list" where
  "observation_capability_errors descriptor index dup c =
     (let path = ''observation_capabilities['' @ nat_str index @ '']''; q = jget c ''quality''; sts = jget c ''statuses'';
          beyond = (\<lambda>allowed. is_arr sts \<and> list_ex (\<lambda>s. \<not> one_of allowed s) (arr_of sts)) in
      unknown_keys c [''quality'', ''boundary'', ''statuses''] (\<lambda>k. path @ ''.'' @ k @ '' is not allowed'')
      @ err_if (\<not> one_of OBSERVATION_QUALITIES q) (path @ ''.quality is invalid'')
      @ err_if (\<not> machine_token (jget c ''boundary'')) (path @ ''.boundary must be a bounded machine-readable token'')
      @ err_if (\<not> is_arr sts \<or> arr_of sts = [] \<or> list_ex (\<lambda>s. \<not> status_ok s) (arr_of sts))
          (path @ ''.statuses must be a non-empty array of effect statuses'')
      @ err_if (q = JStr ''requested_only'' \<and> beyond [''unknown'']) (path @ '' requested_only may declare only unknown status'')
      @ err_if (q = JStr ''ambiguous'' \<and> beyond [''unknown'']) (path @ '' ambiguous may declare only unknown status'')
      @ err_if (q = JStr ''partial'' \<and> beyond [''partial'', ''unknown''])
          (path @ '' partial may declare only partial or unknown status'')
      @ err_if (jget descriptor ''mode'' = JStr ''normalize'' \<and> q \<noteq> JStr ''requested_only'')
          (path @ '' normalize-mode adapters may declare only requested_only observation'')
      @ err_if dup (path @ ''.quality duplicates an earlier observation capability''))"

definition validateAdapterDescriptor :: "jval \<Rightarrow> string list" where
  "validateAdapterDescriptor descriptor =
     (if \<not> is_obj descriptor then [''adapter descriptor must be an object'']
      else
        unknown_keys descriptor [''contract_version'', ''adapter_id'', ''mode'', ''observation_qualities'', ''observation_capabilities'']
          (\<lambda>k. ''adapter.'' @ k @ '' is not allowed'')
        @ err_if (\<not> one_of [''1.0'', ''1.1''] (jget descriptor ''contract_version'')) ''contract_version must be 1.0 or 1.1''
        @ err_if (\<not> nonempty_str (jget descriptor ''adapter_id'')) ''adapter_id is required''
        @ err_if (\<not> one_of [''normalize'', ''execute''] (jget descriptor ''mode'')) ''mode must be normalize or execute''
        @ (let qs = jget descriptor ''observation_qualities'' in
           if jget descriptor ''contract_version'' \<noteq> JStr ''1.0'' then []
           else if \<not> is_arr qs \<or> arr_of qs = [] then [''observation_qualities must be a non-empty array'']
           else concat (map (\<lambda>q. err_if (\<not> one_of LEGACY_OBSERVATION_QUALITIES q)
             (''unsupported legacy observation quality: '' @ to_str q)) (arr_of qs)))
        @ (let cs = jget descriptor ''observation_capabilities'' in
           if jget descriptor ''contract_version'' \<noteq> JStr ''1.1'' then []
           else if \<not> is_arr cs \<or> arr_of cs = [] then [''observation_capabilities must be a non-empty array'']
           else each_object (\<lambda>i. ''observation_capabilities['' @ nat_str i @ '']'') (observation_capability_errors descriptor)
             (\<lambda>c. jget c ''quality'') 0 [] (arr_of cs)))"

definition EXTENSION_KINDS :: "string list" where
  "EXTENSION_KINDS = [''organization_policy'', ''approval'', ''event_sink'', ''inspector_intelligence'', ''crashlab_scenario'']"

definition EXTENSION_DATA_CLASSES :: "string list" where
  "EXTENSION_DATA_CLASSES = [''normalized_actions'', ''authority_metadata'', ''effect_metadata'', ''capability_metadata'',
     ''scenario_metadata'']"

definition validateExtensionDescriptor :: "jval \<Rightarrow> string list" where
  "validateExtensionDescriptor descriptor =
     (if \<not> is_obj descriptor then [''extension descriptor must be an object'']
      else
        err_if (jget descriptor ''spi_version'' \<noteq> JStr ''1.0'') ''spi_version must be 1.0''
        @ err_if (\<not> nonempty_str (jget descriptor ''extension_id'')) ''extension_id is required''
        @ err_if (\<not> one_of EXTENSION_KINDS (jget descriptor ''kind'')) ''kind is invalid''
        @ (if \<not> is_arr (jget descriptor ''data_access'') then [''data_access must be an array'']
           else concat (map (\<lambda>x. err_if (\<not> one_of EXTENSION_DATA_CLASSES x) (''data_access contains invalid class: '' @ to_str x))
             (arr_of (jget descriptor ''data_access''))))
        @ err_if (\<not> one_of [''none'', ''optional'', ''required''] (jget descriptor ''network'')) ''network is invalid''
        @ err_if (present (jget descriptor ''description'') \<and> \<not> is_str (jget descriptor ''description''))
            ''description must be a string when present'')"

end
