(* ===== verification/ProtocolGraph.thy ===== *)
theory ProtocolGraph
  imports ProtocolEvidence
begin

text \<open>
  The validators of \<^verbatim>\<open>packages/protocol/src/index.js\<close> for authority graphs, evidence graphs and
  evidence bundle manifests.  The two graph validators are the same up to the node kinds, the
  header and two further tests of the evidence graph.
\<close>

section \<open>Shared checks\<close>

definition is_hex64 :: "string \<Rightarrow> bool" where
  "is_hex64 s \<longleftrightarrow> length s = 64 \<and> list_all hex_digit s"

definition final_hash_ok :: "jval \<Rightarrow> bool" where
  "final_hash_ok v \<longleftrightarrow> is_str v \<and> (str_of v = ''GENESIS'' \<or> is_hex64 (str_of v))"

definition iso_or_nullish :: "jval \<Rightarrow> bool" where
  "iso_or_nullish v \<longleftrightarrow> jnullish v \<or> iso_ok v"

definition natural :: "jval \<Rightarrow> bool" where
  "natural v \<longleftrightarrow> is_int v \<and> 0 \<le> num_of v"

definition idx :: "string \<Rightarrow> nat \<Rightarrow> string" where
  "idx name i = name @ ''['' @ nat_str i @ '']''"

section \<open>Graphs\<close>

definition AUTHORITY_GRAPH_NODE_KINDS :: "string list" where
  "AUTHORITY_GRAPH_NODE_KINDS = [''principal'', ''grant'', ''envelope'', ''decision'', ''approval'', ''lease'', ''effect'']"

definition EVIDENCE_GRAPH_NODE_KINDS :: "string list" where
  "EVIDENCE_GRAPH_NODE_KINDS = [''principal'', ''grant'', ''envelope'', ''decision'', ''approval'', ''lease'', ''adapter'',
     ''effect'', ''recorder_event'']"

definition graph_node_errors :: "string list \<Rightarrow> bool \<Rightarrow> nat \<Rightarrow> bool \<Rightarrow> jval \<Rightarrow> string list" where
  "graph_node_errors kinds dated i dup node =
     err_if (\<not> bounded_str 512 (jget node ''node_id'')) (idx ''nodes'' i @ ''.node_id is invalid'')
     @ err_if dup (idx ''nodes'' i @ ''.node_id is duplicate'')
     @ err_if (\<not> one_of kinds (jget node ''kind'')) (idx ''nodes'' i @ ''.kind is invalid'')
     @ err_if (\<not> bounded_str 256 (jget node ''ref_id'')) (idx ''nodes'' i @ ''.ref_id is invalid'')
     @ err_if (dated \<and> \<not> iso_or_nullish (jget node ''occurred_at'')) (idx ''nodes'' i @ ''.occurred_at must be an ISO date-time or null'')
     @ err_if (\<not> is_obj (jget node ''data'')) (idx ''nodes'' i @ ''.data must be an object'')"

definition node_ids :: "jval \<Rightarrow> jval list" where
  "node_ids graph = map (\<lambda>n. jget n ''node_id'') (arr_of (jget graph ''nodes''))"

definition graph_edge_errors :: "jval list \<Rightarrow> nat \<Rightarrow> bool \<Rightarrow> jval \<Rightarrow> string list" where
  "graph_edge_errors ids i dup edge =
     err_if (\<not> is_sha256_id (jget edge ''edge_id'')) (idx ''edges'' i @ ''.edge_id must be a sha256 digest'')
     @ err_if dup (idx ''edges'' i @ ''.edge_id is duplicate'')
     @ err_if (\<not> is_str (jget edge ''from'') \<or> \<not> jincludes ids (jget edge ''from''))
         (idx ''edges'' i @ ''.from must reference an existing node'')
     @ err_if (\<not> is_str (jget edge ''to'') \<or> \<not> jincludes ids (jget edge ''to''))
         (idx ''edges'' i @ ''.to must reference an existing node'')
     @ err_if (\<not> bounded_str 128 (jget edge ''relation'')) (idx ''edges'' i @ ''.relation is invalid'')"

definition unresolved_errors :: "string list \<Rightarrow> bool \<Rightarrow> jval \<Rightarrow> nat \<Rightarrow> bool \<Rightarrow> jval \<Rightarrow> string list" where
  "unresolved_errors kinds bounded graph i dup ref =
     (let at = idx ''unresolved_references'' i; source = jget ref ''source_node_id''; relation = jget ref ''relation'' in
      (if \<not> nonempty_str source then [at @ ''.source_node_id is invalid'']
       else err_if (is_arr (jget graph ''nodes'') \<and> source \<notin> set (node_ids graph))
         (at @ ''.source_node_id must reference an existing node''))
      @ err_if (if bounded then \<not> bounded_str 128 relation else \<not> nonempty_str relation) (at @ ''.relation is invalid'')
      @ err_if (\<not> one_of kinds (jget ref ''target_kind'')) (at @ ''.target_kind is invalid'')
      @ err_if (\<not> bounded_str 256 (jget ref ''target_ref_id'')) (at @ ''.target_ref_id is invalid''))"

definition graph_body_errors :: "string list \<Rightarrow> bool \<Rightarrow> jval \<Rightarrow> string list" where
  "graph_body_errors kinds evidence graph =
     (if \<not> is_arr (jget graph ''nodes'') then [''nodes must be an array'']
      else each_object (idx ''nodes'') (graph_node_errors kinds evidence) (\<lambda>n. jget n ''node_id'') 0 []
        (arr_of (jget graph ''nodes'')))
     @ (if \<not> is_arr (jget graph ''edges'') then [''edges must be an array'']
        else each_object (idx ''edges'') (graph_edge_errors (node_ids graph)) (\<lambda>e. jget e ''edge_id'') 0 []
          (arr_of (jget graph ''edges'')))
     @ (if \<not> is_arr (jget graph ''unresolved_references'') then [''unresolved_references must be an array'']
        else each_object (idx ''unresolved_references'') (unresolved_errors kinds evidence graph) (\<lambda>r. JUndef) 0 []
          (arr_of (jget graph ''unresolved_references'')))"

definition graph_head_errors :: "string \<Rightarrow> jval \<Rightarrow> string list" where
  "graph_head_errors version graph =
     err_if (jget graph version \<noteq> JStr ''1.0'') (version @ '' must be 1.0'')
     @ err_if (\<not> is_sha256_id (jget graph ''graph_id'')) ''graph_id must be a sha256 digest''
     @ err_if (\<not> iso_or_nullish (jget graph ''generated_at'')) ''generated_at must be an ISO date-time or null''"

definition validateAuthorityGraph :: "jval \<Rightarrow> string list" where
  "validateAuthorityGraph graph =
     (if \<not> is_obj graph then [''authority graph must be an object'']
      else graph_head_errors ''graph_version'' graph @ graph_body_errors AUTHORITY_GRAPH_NODE_KINDS False graph)"

definition evidence_source_errors :: "jval \<Rightarrow> string list" where
  "evidence_source_errors source =
     (if \<not> is_obj source then [''source must be an object'']
      else err_if (\<not> is_sha256_id (jget source ''authority_graph_id'')) ''source.authority_graph_id must be a sha256 digest''
        @ err_if (\<not> natural (jget source ''evidence_event_count'')) ''source.evidence_event_count must be a non-negative integer''
        @ err_if (\<not> final_hash_ok (jget source ''evidence_chain_final_hash'')) ''source.evidence_chain_final_hash is invalid''
        @ err_if (jget source ''evidence_verified'' \<noteq> JBool True) ''source.evidence_verified must be true'')"

definition validateEvidenceGraph :: "jval \<Rightarrow> string list" where
  "validateEvidenceGraph graph =
     (if \<not> is_obj graph then [''evidence graph must be an object'']
      else graph_head_errors ''evidence_graph_version'' graph @ evidence_source_errors (jget graph ''source'')
        @ graph_body_errors EVIDENCE_GRAPH_NODE_KINDS True graph)"

section \<open>Evidence bundle manifests\<close>

definition EVIDENCE_PRIVACY_PROFILES :: "string list" where
  "EVIDENCE_PRIVACY_PROFILES = [''minimal'', ''operational'', ''forensic_local'']"

definition EVIDENCE_BUNDLE_FILE_ROLES :: "string list" where
  "EVIDENCE_BUNDLE_FILE_ROLES = [''minimal_timeline'', ''raw_evidence'', ''graph_summary'', ''authority_graph'',
     ''evidence_graph'', ''policy'', ''workspace'', ''approval_state'', ''session_state'', ''authority_state'',
     ''supporting_state'', ''report'', ''other'']"

definition bundle_source_errors :: "jval \<Rightarrow> string list" where
  "bundle_source_errors source =
     (if \<not> is_obj source then [''source must be an object'']
      else err_if (\<not> is_sha256_id (jget source ''evidence_sha256'')) ''source.evidence_sha256 must be a sha256 digest''
        @ err_if (\<not> natural (jget source ''event_count'')) ''source.event_count must be a non-negative integer''
        @ err_if (\<not> final_hash_ok (jget source ''final_hash'')) ''source.final_hash is invalid''
        @ concat (map (\<lambda>k. err_if (\<not> validIsoOrNull (jget source k)) (''source.'' @ k @ '' must be an ISO date-time or null''))
            [''first_event_at'', ''last_event_at''])
        @ err_if (jget source ''chain_verified_at_export'' \<noteq> JBool True) ''source.chain_verified_at_export must be true''
        @ err_if (\<not> is_bool (jget source ''raw_evidence_included'')) ''source.raw_evidence_included must be boolean'')"

definition bundle_adapter_errors :: "nat \<Rightarrow> bool \<Rightarrow> jval \<Rightarrow> string list" where
  "bundle_adapter_errors i dup a =
     (let v = jget a ''adapter_contract_version'' in
      err_if (\<not> bounded_str 128 (jget a ''adapter_id'')) (idx ''adapters'' i @ ''.adapter_id is invalid'')
      @ err_if dup (idx ''adapters'' i @ ''.adapter_id is duplicate'')
      @ err_if (\<not> jnullish v \<and> (\<not> is_str v \<or> length (str_of v) > 32))
          (idx ''adapters'' i @ ''.adapter_contract_version is invalid''))"

definition safe_path :: "jval \<Rightarrow> bool" where
  "safe_path v \<longleftrightarrow> nonempty_str v \<and> \<not> starts_with ''/'' (str_of v) \<and> \<not> str_includes [CHR 0x5C] (str_of v)
     \<and> list_all (\<lambda>x. x \<noteq> [] \<and> x \<noteq> ''.'' \<and> x \<noteq> ''..'') (str_split CHR ''/'' (str_of v))"

definition bundle_file_errors :: "nat \<Rightarrow> bool \<Rightarrow> jval \<Rightarrow> string list" where
  "bundle_file_errors i dup f =
     err_if (\<not> safe_path (jget f ''path'')) (idx ''files'' i @ ''.path is unsafe'')
     @ err_if dup (idx ''files'' i @ ''.path is duplicate'')
     @ err_if (\<not> natural (jget f ''size'')) (idx ''files'' i @ ''.size must be a non-negative integer'')
     @ err_if (\<not> is_sha256_id (jget f ''sha256'')) (idx ''files'' i @ ''.sha256 must be a sha256 digest'')
     @ err_if (\<not> one_of EVIDENCE_BUNDLE_FILE_ROLES (jget f ''role'')) (idx ''files'' i @ ''.role is invalid'')"

definition bundle_verification_errors :: "jval \<Rightarrow> string list" where
  "bundle_verification_errors v =
     (let modes = [''reverify_from_bundle'', ''verified_at_export_only''] in
      if \<not> is_obj v then [''verification must be an object'']
      else err_if (\<not> one_of modes (jget v ''source_chain'')) ''verification.source_chain is invalid''
        @ err_if (\<not> one_of modes (jget v ''graphs'')) ''verification.graphs is invalid''
        @ err_if (\<not> string_list_ok (jget v ''instructions'')) ''verification.instructions must be an array of strings'')"

definition bundle_signature_errors :: "jval \<Rightarrow> string list" where
  "bundle_signature_errors v =
     (if v = JUndef then []
      else if \<not> is_obj v then [''signature must be an object'']
      else err_if (jget v ''algorithm'' \<noteq> JStr ''hmac-sha256'') ''signature.algorithm must be hmac-sha256''
        @ err_if (\<not> nonempty_str (jget v ''key_hint'')) ''signature.key_hint is required''
        @ err_if (\<not> is_str (jget v ''value'') \<or> \<not> (starts_with ''hmac-sha256:'' (str_of (jget v ''value''))
              \<and> is_hex64 (drop 12 (str_of (jget v ''value''))))) ''signature.value is invalid'')"

definition validateEvidenceBundleManifest :: "jval \<Rightarrow> string list" where
  "validateEvidenceBundleManifest manifest =
     (if \<not> is_obj manifest then [''evidence bundle manifest must be an object'']
      else
        err_if (jget manifest ''bundle_version'' \<noteq> JStr ''3.0'') ''bundle_version must be 3.0''
        @ err_if (\<not> is_sha256_id (jget manifest ''bundle_id'')) ''bundle_id must be a sha256 digest''
        @ err_if (\<not> iso_ok (jget manifest ''created_at'')) ''created_at must be an ISO date-time''
        @ err_if (\<not> one_of EVIDENCE_PRIVACY_PROFILES (jget manifest ''privacy_profile'')) ''privacy_profile is invalid''
        @ bundle_source_errors (jget manifest ''source'')
        @ (let graphs = jget manifest ''graphs'' in
           if \<not> is_obj graphs then [''graphs must be an object'']
           else concat (map (\<lambda>k. err_if (\<not> is_sha256_id (jget graphs k)) (''graphs.'' @ k @ '' must be a sha256 digest''))
             [''authority_graph_id'', ''evidence_graph_id'']))
        @ (if \<not> is_arr (jget manifest ''adapters'') then [''adapters must be an array'']
           else each_object (idx ''adapters'') bundle_adapter_errors (\<lambda>a. jget a ''adapter_id'') 0 []
             (arr_of (jget manifest ''adapters'')))
        @ (if \<not> is_arr (jget manifest ''files'') \<or> arr_of (jget manifest ''files'') = []
           then [''files must be a non-empty array'']
           else each_object (idx ''files'') bundle_file_errors (\<lambda>f. jget f ''path'') 0 [] (arr_of (jget manifest ''files'')))
        @ bundle_verification_errors (jget manifest ''verification'')
        @ (let privacy = jget manifest ''privacy'' in
           if \<not> is_obj privacy then [''privacy must be an object'']
           else concat (map (\<lambda>k. err_if (\<not> is_bool (jget privacy k)) (''privacy.'' @ k @ '' must be boolean''))
             [''includes_raw_evidence'', ''includes_policy'', ''includes_workspace_state'', ''includes_approval_state'',
              ''includes_session_state'']))
        @ bundle_signature_errors (jget manifest ''signature''))"

section \<open>Referential integrity\<close>

text \<open>What an accepted graph body guarantees: node ids are distinct and every edge joins two of its
  nodes.\<close>

lemma graph_body_ok:
  assumes "graph_body_errors kinds evidence graph = []"
  shows "distinct (node_ids graph)"
    "\<forall>e\<in>set (arr_of (jget graph ''edges'')). jget e ''from'' \<in> set (node_ids graph) \<and> jget e ''to'' \<in> set (node_ids graph)"
    "\<forall>r\<in>set (arr_of (jget graph ''unresolved_references'')). jget r ''source_node_id'' \<in> set (node_ids graph)"
proof -
  have n: "is_arr (jget graph ''nodes'')"
    "each_object (idx ''nodes'') (graph_node_errors kinds evidence) (\<lambda>n. jget n ''node_id'') 0 [] (arr_of (jget graph ''nodes'')) = []"
    and e: "each_object (idx ''edges'') (graph_edge_errors (node_ids graph)) (\<lambda>e. jget e ''edge_id'') 0 [] (arr_of (jget graph ''edges'')) = []"
    and u: "each_object (idx ''unresolved_references'') (unresolved_errors kinds evidence graph) (\<lambda>r. JUndef) 0 []
          (arr_of (jget graph ''unresolved_references'')) = []"
    using assms by (auto simp: graph_body_errors_def split: if_splits)
  have k: "\<forall>j d x. graph_node_errors kinds evidence j d x = [] \<longrightarrow> \<not> d \<and> is_str (jget x ''node_id'')"
    by (auto simp: graph_node_errors_def bounded_str_def nonempty_str_iff)
  show "distinct (node_ids graph)" using each_object_distinct [OF n(2) k] by (simp add: node_ids_def)
  have "graph_edge_errors ids j d x = [] \<Longrightarrow> jget x ''from'' \<in> set ids \<and> jget x ''to'' \<in> set ids" for ids j d x
    by (auto simp: graph_edge_errors_def elim!: is_str_cases)
  then show "\<forall>e\<in>set (arr_of (jget graph ''edges'')). jget e ''from'' \<in> set (node_ids graph) \<and> jget e ''to'' \<in> set (node_ids graph)"
    using each_object_Nil [OF e] by blast
  have "unresolved_errors kinds evidence graph j d x = [] \<Longrightarrow> jget x ''source_node_id'' \<in> set (node_ids graph)" for j d x
    using n(1) by (auto simp: unresolved_errors_def Let_def split: if_splits)
  then show "\<forall>r\<in>set (arr_of (jget graph ''unresolved_references'')). jget r ''source_node_id'' \<in> set (node_ids graph)"
    using each_object_Nil [OF u] by blast
qed

end
