(* ===== verification/ProtocolCrashLab.thy ===== *)
theory ProtocolCrashLab
  imports ProtocolGraph
begin

text \<open>
  The validator of reliability scenarios of \<^verbatim>\<open>packages/protocol/src/index.js\<close>
  (\<open>validateCrashLabScenario\<close>).  A scenario is read with optional chaining throughout; only
  \<open>expect.invariants.includes\<close> can throw, on a value that is neither a list nor a string.
\<close>

section \<open>Enumerations\<close>

definition CRASHLAB_FAILURE_PHASES :: "string list" where
  "CRASHLAB_FAILURE_PHASES = [''before_authorization'', ''after_authorization_before_effect'', ''before_effect'',
     ''after_effect_before_response'', ''partial_effect'', ''before_response'']"

definition CRASHLAB_FAILURE_CLASSES :: "string list" where
  "CRASHLAB_FAILURE_CLASSES = [''timeout'', ''response_loss'', ''token_expiry'', ''revocation_race'', ''concurrent_race'',
     ''stale_capability'', ''stale_policy'', ''stale_approved_baseline'', ''eventual_consistency'', ''transport_failure'',
     ''local_process_crash'', ''duplicate_retry'', ''synthetic_error'']"

definition CRASHLAB_FAILURE_CLASS_PHASES :: "(string \<times> string list) list" where
  "CRASHLAB_FAILURE_CLASS_PHASES =
     [(''timeout'', CRASHLAB_FAILURE_PHASES),
      (''response_loss'', [''after_effect_before_response'', ''before_response'']),
      (''token_expiry'', [''before_authorization'', ''after_authorization_before_effect'', ''before_effect'']),
      (''revocation_race'', [''after_authorization_before_effect'', ''before_effect'']),
      (''concurrent_race'', [''before_effect'', ''after_effect_before_response'', ''partial_effect'']),
      (''stale_capability'', [''before_authorization'', ''after_authorization_before_effect'', ''before_effect'']),
      (''stale_policy'', [''before_authorization'', ''after_authorization_before_effect'', ''before_effect'']),
      (''stale_approved_baseline'', [''before_authorization'', ''after_authorization_before_effect'', ''before_effect'']),
      (''eventual_consistency'', [''after_effect_before_response'', ''before_response'']),
      (''transport_failure'', [''before_effect'', ''after_effect_before_response'', ''before_response'']),
      (''local_process_crash'', CRASHLAB_FAILURE_PHASES),
      (''duplicate_retry'', [''after_effect_before_response'', ''before_response'']),
      (''synthetic_error'', CRASHLAB_FAILURE_PHASES)]"

definition CRASHLAB_RETRY_STRATEGIES :: "string list" where
  "CRASHLAB_RETRY_STRATEGIES = [''none'', ''immediate'']"

definition CRASHLAB_IDEMPOTENCY_MODES :: "string list" where
  "CRASHLAB_IDEMPOTENCY_MODES = [''none'', ''supported'', ''required'']"

definition CRASHLAB_AUTHORITY_STATES :: "string list" where
  "CRASHLAB_AUTHORITY_STATES = [''valid'', ''denied'', ''revoked'']"

definition CRASHLAB_AUTHORITY_EXPECTATIONS :: "string list" where
  "CRASHLAB_AUTHORITY_EXPECTATIONS = [''allow'', ''deny'', ''deny_after_revoke'', ''unchanged'', ''one_winner'']"

definition CRASHLAB_AMBIGUITY_EXPECTATIONS :: "string list" where
  "CRASHLAB_AMBIGUITY_EXPECTATIONS = [''none'', ''preserve'']"

definition CRASHLAB_EXPECTED_EVIDENCE_QUALITIES :: "string list" where
  "CRASHLAB_EXPECTED_EVIDENCE_QUALITIES = ''none_observed'' # OBSERVATION_QUALITIES"

definition CRASHLAB_INVARIANTS :: "string list" where
  "CRASHLAB_INVARIANTS = [''duplicate_effect_resistance'', ''retry_boundedness'', ''authority_containment'',
     ''revocation_compliance'', ''ambiguity_preservation'', ''evidence_completeness'', ''recovery_correctness'',
     ''one_use_authority'', ''stale_state_rejection'', ''eventual_consistency_handling'']"

section \<open>Shared checks\<close>

definition crashlabAllowedKeys :: "jval \<Rightarrow> string list \<Rightarrow> string \<Rightarrow> string list" where
  "crashlabAllowedKeys v allowed path = unknown_keys v allowed (\<lambda>k. path @ ''.'' @ k @ '' is not allowed'')"

definition crashlabString :: "jval \<Rightarrow> string \<Rightarrow> nat \<Rightarrow> string list" where
  "crashlabString v path mx =
     err_if (\<not> bounded_str mx v) (path @ '' must be a non-empty string no longer than '' @ nat_str mx)"

text \<open>\<open>/^[a-z0-9][a-z0-9._-]*$/\<close>.\<close>

definition scenario_token :: "string \<Rightarrow> bool" where
  "scenario_token s = (case s of [] \<Rightarrow> False | c # r \<Rightarrow> token_char c \<and> list_all (\<lambda>d. token_char d \<or> d \<in> set ''._-'') r)"

definition positive :: "jval \<Rightarrow> bool" where
  "positive v \<longleftrightarrow> is_int v \<and> 1 \<le> num_of v"

definition crashlabPositiveInt :: "jval \<Rightarrow> string \<Rightarrow> string list" where
  "crashlabPositiveInt v path = err_if (\<not> positive v) (path @ '' must be a positive integer'')"

definition enum_errors :: "string list \<Rightarrow> jval \<Rightarrow> string \<Rightarrow> string list" where
  "enum_errors allowed v path = err_if (\<not> one_of allowed v) (path @ '' is invalid'')"

section \<open>Version 1\<close>

definition validate_scenario_1 :: "jval \<Rightarrow> string list" where
  "validate_scenario_1 s =
     (let target = jget s ''target''; fault = jget s ''fault''; revoke_on = jget (jget s ''authority'') ''revoke_on_attempt'' in
      err_if (\<not> nonempty_str (jget s ''name'')) ''name is required''
      @ err_if (\<not> is_obj target \<or> \<not> nonempty_str (jget target ''action'')) ''target.action is required''
      @ err_if (\<not> is_obj fault \<or> \<not> one_of CRASHLAB_FAILURE_PHASES (jget fault ''point'')) ''fault.point is invalid''
      @ err_if (\<not> is_obj fault \<or> \<not> nonempty_str (jget fault ''type'')) ''fault.type is required''
      @ err_if (present revoke_on \<and> \<not> positive revoke_on) ''authority.revoke_on_attempt must be a positive integer'')"

section \<open>Version 2\<close>

definition target_errors :: "jval \<Rightarrow> string list" where
  "target_errors t =
     (let key = jget t ''idempotency_key'' in
      if \<not> is_obj t then [''target must be an object'']
      else crashlabAllowedKeys t [''adapter_id'', ''domain'', ''action'', ''resource'', ''idempotency'', ''idempotency_key''] ''target''
        @ crashlabString (jget t ''adapter_id'') ''target.adapter_id'' 128
        @ crashlabString (jget t ''domain'') ''target.domain'' 128
        @ crashlabString (jget t ''action'') ''target.action'' 256
        @ (if present (jget t ''resource'') then crashlabString (jget t ''resource'') ''target.resource'' 1024 else [])
        @ enum_errors CRASHLAB_IDEMPOTENCY_MODES (jget t ''idempotency'') ''target.idempotency''
        @ (if \<not> jnullish key then crashlabString key ''target.idempotency_key'' 256 else [])
        @ err_if (jget t ''idempotency'' = JStr ''required'' \<and> \<not> is_str key)
            ''target.idempotency_key is required when idempotency is required''
        @ err_if (jget t ''idempotency'' = JStr ''none'' \<and> \<not> jnullish key)
            ''target.idempotency_key must be absent when idempotency is none'')"

definition authority_errors :: "jval \<Rightarrow> string list" where
  "authority_errors a =
     (if \<not> is_obj a then [''authority must be an object'']
      else crashlabAllowedKeys a [''initial_state'', ''revoke_on_attempt''] ''authority''
        @ enum_errors CRASHLAB_AUTHORITY_STATES (jget a ''initial_state'') ''authority.initial_state''
        @ (if present (jget a ''revoke_on_attempt'')
           then crashlabPositiveInt (jget a ''revoke_on_attempt'') ''authority.revoke_on_attempt'' else []))"

definition fault_errors :: "jval \<Rightarrow> string list" where
  "fault_errors f =
     (let cls = jget f ''class''; phase = jget f ''phase'' in
      if \<not> is_obj f then [''fault must be an object'']
      else crashlabAllowedKeys f [''phase'', ''class'', ''on_attempt'', ''repeat''] ''fault''
        @ enum_errors CRASHLAB_FAILURE_PHASES phase ''fault.phase''
        @ (if \<not> one_of CRASHLAB_FAILURE_CLASSES cls then [''fault.class is invalid'']
           else (case map_of CRASHLAB_FAILURE_CLASS_PHASES (str_of cls) of
               None \<Rightarrow> []
             | Some phases \<Rightarrow> err_if (\<not> one_of phases phase)
                 (''fault.class '' @ to_str cls @ '' is incompatible with phase '' @ to_str phase)))
        @ crashlabPositiveInt (jget f ''on_attempt'') ''fault.on_attempt''
        @ enum_errors [''once'', ''every_attempt''] (jget f ''repeat'') ''fault.repeat'')"

definition retry_errors :: "jval \<Rightarrow> jval \<Rightarrow> string list" where
  "retry_errors s r =
     (let attempts = jget r ''max_attempts''; on = jget (jget s ''fault'') ''on_attempt'' in
      if \<not> is_obj r then [''retry must be an object'']
      else crashlabAllowedKeys r [''max_attempts'', ''strategy'', ''preserve_idempotency_key''] ''retry''
        @ crashlabPositiveInt attempts ''retry.max_attempts''
        @ enum_errors CRASHLAB_RETRY_STRATEGIES (jget r ''strategy'') ''retry.strategy''
        @ err_if (\<not> is_bool (jget r ''preserve_idempotency_key'')) ''retry.preserve_idempotency_key must be boolean''
        @ err_if (jget r ''strategy'' = JStr ''none'' \<and> attempts \<noteq> JNum 1)
            ''retry.max_attempts must be 1 when retry.strategy is none''
        @ err_if (is_int on \<and> is_int attempts \<and> num_of on > num_of attempts)
            ''fault.on_attempt must be reachable within retry.max_attempts''
        @ err_if (jget (jget s ''target'') ''idempotency'' = JStr ''required'' \<and> jget r ''preserve_idempotency_key'' \<noteq> JBool True)
            ''retry.preserve_idempotency_key must be true when target.idempotency is required'')"

definition effect_count_errors :: "jval \<Rightarrow> string list" where
  "effect_count_errors c =
     (let lo = jget c ''min''; hi = jget c ''max'' in
      if \<not> is_obj c then [''expect.effect_count must be an object'']
      else crashlabAllowedKeys c [''min'', ''max''] ''expect.effect_count''
        @ err_if (\<not> natural lo) ''expect.effect_count.min must be a non-negative integer''
        @ err_if (\<not> natural hi) ''expect.effect_count.max must be a non-negative integer''
        @ err_if (is_int lo \<and> is_int hi \<and> num_of lo > num_of hi) ''expect.effect_count.min must not exceed max'')"

definition expected_authority_errors :: "jval \<Rightarrow> jval \<Rightarrow> string list" where
  "expected_authority_errors s behavior =
     (let authority = jget s ''authority''; revoke_on = jget authority ''revoke_on_attempt'';
          attempts = jget (jget s ''retry'') ''max_attempts'' in
      enum_errors CRASHLAB_AUTHORITY_EXPECTATIONS behavior ''expect.authority_behavior''
      @ err_if (behavior = JStr ''allow'' \<and> one_of [''denied'', ''revoked''] (jget authority ''initial_state''))
          ''expect.authority_behavior allow is incompatible with denied/revoked initial authority''
      @ (if behavior \<noteq> JStr ''deny_after_revoke'' then []
         else if \<not> is_int revoke_on then [''authority.revoke_on_attempt is required for deny_after_revoke'']
         else err_if (is_int attempts \<and> num_of revoke_on > num_of attempts)
           ''authority.revoke_on_attempt must be reachable within retry.max_attempts for deny_after_revoke''))"

definition expected_evidence_errors :: "jval \<Rightarrow> string list" where
  "expected_evidence_errors e =
     (let q = jget e ''quality''; st = jget e ''status'' in
      if \<not> is_obj e then [''expect.evidence must be an object'']
      else crashlabAllowedKeys e [''quality'', ''status'', ''ambiguity''] ''expect.evidence''
        @ enum_errors CRASHLAB_EXPECTED_EVIDENCE_QUALITIES q ''expect.evidence.quality''
        @ enum_errors [''none'', ''success'', ''failure'', ''partial'', ''unknown''] st ''expect.evidence.status''
        @ enum_errors CRASHLAB_AMBIGUITY_EXPECTATIONS (jget e ''ambiguity'') ''expect.evidence.ambiguity''
        @ err_if (q = JStr ''none_observed'' \<and> st \<noteq> JStr ''none'') ''expect.evidence.status must be none when quality is none_observed''
        @ err_if (one_of [''requested_only'', ''ambiguous''] q \<and> st \<noteq> JStr ''unknown'')
            (''expect.evidence.status must be unknown for '' @ to_str q))"

definition expect_errors :: "jval \<Rightarrow> bool \<Rightarrow> jval \<Rightarrow> string list" where
  "expect_errors s isV21 e =
     (let invariants = jget e ''invariants'' in
      if \<not> is_obj e then [''expect must be an object'']
      else crashlabAllowedKeys e [''effect_count'', ''authority_behavior'', ''evidence'', ''invariants''] ''expect''
        @ effect_count_errors (jget e ''effect_count'')
        @ expected_authority_errors s (jget e ''authority_behavior'')
        @ expected_evidence_errors (jget e ''evidence'')
        @ (if \<not> is_arr invariants \<or> arr_of invariants = [] then [''expect.invariants must be a non-empty array'']
           else each_value (class_errors CRASHLAB_INVARIANTS ''expect.invariants'' ''invariant'') [] (arr_of invariants)
             @ err_if (\<not> isV21 \<and> list_ex (one_of [''one_use_authority'', ''stale_state_rejection'', ''eventual_consistency_handling''])
                   (arr_of invariants))
                 ''concurrency/staleness reliability invariants require scenario_version 2.1'')
        @ err_if (\<not> isV21 \<and> jget e ''authority_behavior'' = JStr ''one_winner'')
            ''expect.authority_behavior one_winner requires scenario_version 2.1'')"

section \<open>Version 2.1\<close>

definition pair_errors :: "jval \<Rightarrow> string \<Rightarrow> string list" where
  "pair_errors v path =
     (if \<not> is_obj v then [path @ '' must be an object'']
      else crashlabAllowedKeys v [''expected'', ''current''] path
        @ err_if (\<not> is_sha256_id (jget v ''expected'')) (path @ ''.expected must be a sha256 digest'')
        @ err_if (\<not> is_sha256_id (jget v ''current'')) (path @ ''.current must be a sha256 digest'')
        @ err_if (strict_eq (jget v ''expected'') (jget v ''current'')) (path @ '' must describe a stale mismatch''))"

definition concurrency_errors :: "jval \<Rightarrow> string list" where
  "concurrency_errors c =
     (if c = JUndef then []
      else if \<not> is_obj c then [''concurrency must be an object'']
      else crashlabAllowedKeys c [''actors'', ''schedule'', ''shared_authority''] ''concurrency''
        @ err_if (\<not> is_int (jget c ''actors'') \<or> num_of (jget c ''actors'') < 2 \<or> num_of (jget c ''actors'') > 16)
            ''concurrency.actors must be an integer from 2 to 16''
        @ err_if (jget c ''schedule'' \<noteq> JStr ''deterministic_barrier'') ''concurrency.schedule must be deterministic_barrier''
        @ enum_errors [''one_use'', ''revocable''] (jget c ''shared_authority'') ''concurrency.shared_authority'')"

definition state_errors :: "jval \<Rightarrow> string list" where
  "state_errors st =
     (if st = JUndef then []
      else if \<not> is_obj st then [''state must be an object'']
      else crashlabAllowedKeys st [''capability'', ''policy'', ''approved_baseline'', ''consistency''] ''state''
        @ concat (map (\<lambda>k. if present (jget st k) then pair_errors (jget st k) (''state.'' @ k) else [])
            [''capability'', ''policy'', ''approved_baseline''])
        @ (let c = jget st ''consistency'' in
           if c = JUndef then []
           else if \<not> is_obj c then [''state.consistency must be an object'']
           else crashlabAllowedKeys c [''visible_on_attempt''] ''state.consistency''
             @ crashlabPositiveInt (jget c ''visible_on_attempt'') ''state.consistency.visible_on_attempt''))"

text \<open>\<open>if (!scenario.expect?.invariants?.includes(name))\<close>.\<close>

definition needs_invariant :: "jval \<Rightarrow> string \<Rightarrow> string \<Rightarrow> string list res" where
  "needs_invariant s name cls =
     bind_res (jincludes_opt (jget (jget s ''expect'') ''invariants'') name) (\<lambda>b.
       Inr (err_if (\<not> b) (cls @ '' requires '' @ name @ '' invariant'')))"

definition stale_errors :: "jval \<Rightarrow> string \<Rightarrow> string \<Rightarrow> string list res" where
  "stale_errors s cls key =
     bind_res (needs_invariant s ''stale_state_rejection'' cls) (\<lambda>inv.
       Inr (err_if (\<not> is_obj (jget (jget s ''state'') key)) (cls @ '' requires state.'' @ key) @ inv))"

definition class_21_errors :: "jval \<Rightarrow> string list res" where
  "class_21_errors s =
     (let cls = jget (jget s ''fault'') ''class''; con = jget s ''concurrency''; shared = jget con ''shared_authority'';
          revoke_on = jget (jget s ''authority'') ''revoke_on_attempt'' in
      if cls = JStr ''concurrent_race'' then
        bind_res (needs_invariant s ''one_use_authority'' ''concurrent_race'') (\<lambda>inv.
          Inr ((if \<not> is_obj con then [''concurrency is required for concurrent_race'']
              else err_if (shared \<noteq> JStr ''one_use'') ''concurrent_race requires concurrency.shared_authority one_use'')
            @ err_if (jget (jget s ''expect'') ''authority_behavior'' \<noteq> JStr ''one_winner'')
                ''concurrent_race requires expect.authority_behavior one_winner''
            @ inv))
      else if cls = JStr ''revocation_race'' then
        Inr ((if \<not> is_obj con then [''concurrency is required for revocation_race'']
            else err_if (shared \<noteq> JStr ''revocable'') ''revocation_race requires concurrency.shared_authority revocable'')
          @ (if \<not> is_int revoke_on then [''revocation_race requires authority.revoke_on_attempt'']
             else err_if (is_int (jget con ''actors'') \<and> num_of revoke_on > num_of (jget con ''actors''))
               ''authority.revoke_on_attempt must be reachable within concurrency.actors''))
      else if cls = JStr ''stale_capability'' then stale_errors s ''stale_capability'' ''capability''
      else if cls = JStr ''stale_policy'' then stale_errors s ''stale_policy'' ''policy''
      else if cls = JStr ''stale_approved_baseline'' then stale_errors s ''stale_approved_baseline'' ''approved_baseline''
      else if cls = JStr ''eventual_consistency'' then
        bind_res (needs_invariant s ''eventual_consistency_handling'' ''eventual_consistency'') (\<lambda>inv.
          let visible = jget (jget (jget s ''state'') ''consistency'') ''visible_on_attempt'';
              attempts = jget (jget s ''retry'') ''max_attempts'' in
          Inr ((if \<not> is_int visible then [''eventual_consistency requires state.consistency.visible_on_attempt'']
              else err_if (jle visible (jget (jget s ''fault'') ''on_attempt''))
                  ''state.consistency.visible_on_attempt must be later than fault.on_attempt''
                @ err_if (is_int attempts \<and> num_of visible > num_of attempts)
                  ''state.consistency.visible_on_attempt must be reachable within retry.max_attempts'')
            @ err_if (jget (jget s ''fault'') ''repeat'' \<noteq> JStr ''once'') ''eventual_consistency requires fault.repeat once''
            @ inv))
      else Inr [])"

section \<open>The validator\<close>

definition validateCrashLabScenario :: "jval \<Rightarrow> string list res" where
  "validateCrashLabScenario s =
     (let version = jget s ''scenario_version''; isV21 = (version = JStr ''2.1'');
          head = err_if (\<not> one_of [''1.0'', ''1.1'', ''2.0'', ''2.1''] version) ''scenario_version must be 1.0, 1.1, 2.0, or 2.1'';
          keys = [''scenario_version'', ''scenario_id'', ''name'', ''target'', ''authority'', ''fault'', ''retry'', ''expect''] in
      if \<not> is_obj s then Inr [''CrashLab scenario must be an object'']
      else if \<not> one_of [''2.0'', ''2.1''] version then Inr (head @ validate_scenario_1 s)
      else bind_res (if isV21 then class_21_errors s else Inr []) (\<lambda>errors21.
        Inr (head
          @ crashlabAllowedKeys s (if isV21 then keys @ [''concurrency'', ''state''] else keys) ''scenario''
          @ (if \<not> bounded_str 128 (jget s ''scenario_id'') then crashlabString (jget s ''scenario_id'') ''scenario_id'' 128
             else err_if (\<not> scenario_token (str_of (jget s ''scenario_id''))) ''scenario_id has invalid format'')
          @ crashlabString (jget s ''name'') ''name'' 200
          @ target_errors (jget s ''target'') @ authority_errors (jget s ''authority'') @ fault_errors (jget s ''fault'')
          @ retry_errors s (jget s ''retry'') @ expect_errors s isV21 (jget s ''expect'')
          @ (if isV21 then concurrency_errors (jget s ''concurrency'') @ state_errors (jget s ''state'') else [])
          @ errors21)))"

end
