(* ===== verification/Gateway.thy ===== *)
theory Gateway
  imports Envelope PolicyEngineProps
begin

text \<open>
  The permission gateway, \<^verbatim>\<open>packages/core/src/permission/gateway.js\<close>: one call is normalised,
  classified, checked against the caller's authority and the risk guards, decided by the policy
  engine, upgraded by its risk, resolved from the session cache and receipted.  The guards and
  upgrades are separate definitions, in the code's order; the result is the object the code returns.
\<close>

section \<open>Parts of the result\<close>

definition strs :: "string list \<Rightarrow> jval" where
  "strs ss = JArr (map JStr ss)"

definition classification_value :: "classification \<Rightarrow> jval" where
  "classification_value c =
     JObj [(''risk'', JStr (risk_str (cl_risk c))), (''reasons'', strs (cl_reasons c)),
       (''detectedSecrets'', JBool (cl_secrets c)), (''detectedPromptInjection'', JBool (cl_injection c)),
       (''secretExfiltrationRisk'', JBool (cl_exfiltration c)),
       (''promptInjectionSideEffectRisk'', JBool (cl_injection_effect c)),
       (''dataFlow'', JStr (cl_flow c)), (''sideEffect'', JStr (cl_effect c)), (''untrustedInput'', JBool (cl_injection c))]"

definition authority_value :: "authorization option \<Rightarrow> jval" where
  "authority_value az =
     (case az of
        None \<Rightarrow> JNull
      | Some a \<Rightarrow> JObj ([(''ok'', JBool (az_errors a = [])), (''errors'', strs (az_errors a)), (''grant'', az_grant a)]
          @ when_prop (az_envelope a \<noteq> JUndef) ''envelope'' (az_envelope a)
          @ [(''canonicalAction'', JStr (az_action a)), (''canonicalResource'', JStr (az_resource a)),
             (''matchedCapability'', az_capability a)]))"

definition firstReason :: "classification \<Rightarrow> string" where
  "firstReason c = (case cl_reasons c of [] \<Rightarrow> ''RuleOak policy evaluation'' | r # _ \<Rightarrow> if r = [] then ''RuleOak policy evaluation'' else r)"

definition withRisk :: "jval \<Rightarrow> classification \<Rightarrow> string \<Rightarrow> jval" where
  "withRisk decision c source =
     jspread decision (JObj [(''risk'', JStr (risk_str (cl_risk c))), (''riskReasons'', strs (cl_reasons c)),
       (''detectedSecrets'', JBool (cl_secrets c)), (''detectedPromptInjection'', JBool (cl_injection c)),
       (''secretExfiltrationRisk'', JBool (cl_exfiltration c)),
       (''promptInjectionSideEffectRisk'', JBool (cl_injection_effect c)),
       (''dataFlow'', JStr (cl_flow c)), (''sideEffect'', JStr (cl_effect c)), (''untrustedInput'', JBool (cl_injection c)),
       (''source'', JStr source)])"

definition isExplicitAllow :: "jval \<Rightarrow> bool" where
  "isExplicitAllow decision \<longleftrightarrow>
     (let rule = to_str (jor (jget decision ''matchedRule'') (JStr [])) in
      jget decision ''action'' = JStr ''allow'' \<and> (starts_with ''exactActionRules:'' rule \<or> starts_with ''rules:'' rule))"

text \<open>The decision a guard puts in place: its action, its reason and its name, which is also the
  matched rule.\<close>

definition guard_decision :: "string \<Rightarrow> string \<Rightarrow> string \<Rightarrow> jval list \<Rightarrow> jval" where
  "guard_decision action reason rule trace =
     JObj [(''action'', JStr action), (''reason'', JStr reason), (''matchedRule'', JStr rule),
       (''matchedRules'', strs [rule]), (''trace'', JArr trace)]"

definition risk_guard_trace :: "string \<Rightarrow> string \<Rightarrow> jval" where
  "risk_guard_trace guard result =
     JObj [(''stage'', JStr ''risk-guard''), (''guard'', JStr guard), (''result'', JStr result)]"

section \<open>Authority\<close>

definition or_three :: "jval \<Rightarrow> jval \<Rightarrow> jval \<Rightarrow> jval" where
  "or_three a b c = or_null [a, b, c]"

definition gateway_authority ::
  "host \<Rightarrow> revocation_source option \<Rightarrow> jval \<Rightarrow> jval \<Rightarrow> jval \<Rightarrow> jval \<Rightarrow> authorization option res" where
  "gateway_authority H rvk call grant envelope options =
     (if truthy envelope then
        bind_res (authorizeWithAuthorityEnvelope H rvk envelope call (JObj [(''grant'', grant),
          (''authoritySecret'', jget options ''authoritySecret''),
          (''envelopeSecret'', jor (jget options ''envelopeSecret'') (jget options ''authoritySecret'')),
          (''requireAuthoritySignature'', JBool (not_false (jget options ''requireAuthoritySignature''))),
          (''requireEnvelopeSignature'', JBool (not_false (jget options ''requireEnvelopeSignature''))),
          (''bindSubject'', JBool (not_false (jget options ''bindAuthoritySubject''))),
          (''now'', jget options ''evaluatedAt'')])) (\<lambda>a. Inr (Some a))
      else if truthy grant then
        bind_res (authorizeWithAuthorityGrant H rvk grant call (JObj [(''secret'', jget options ''authoritySecret''),
          (''requireSignature'', JBool (not_false (jget options ''requireAuthoritySignature''))),
          (''bindSubject'', JBool (not_false (jget options ''bindAuthoritySubject''))),
          (''now'', jget options ''evaluatedAt'')])) (\<lambda>a. Inr (Some a))
      else Inr None)"

definition principal_ids :: "jval \<Rightarrow> jval list res" where
  "principal_ids grant =
     (let chain = jget grant ''principal_chain'' in
      if jnullish chain then Inr []
      else if \<not> is_arr chain then Inl TypeError
      else Inr (filter truthy (map (\<lambda>p. jget p ''id'') (arr_of chain))))"

definition gateway_metadata ::
  "host \<Rightarrow> jval \<Rightarrow> classification \<Rightarrow> jval \<Rightarrow> jval \<Rightarrow> authorization option \<Rightarrow> jval list \<Rightarrow> jval" where
  "gateway_metadata H call c grant envelope az pids =
     (let actor = jget call ''actor''; context = jget call ''context''; a = authority_value az in
      JObj [(''actor_type'', jget actor ''type''), (''approval_key'', JStr (approvalFingerprint H call)),
        (''risk'', JStr (risk_str (cl_risk c))), (''data_flow'', JStr (cl_flow c)), (''side_effect'', JStr (cl_effect c)),
        (''untrusted_input'', JBool (cl_injection c)), (''agent_id'', jor (jget actor ''id'') (jget actor ''name'')),
        (''principal_ids'', JArr pids), (''authority_grant_id'', jget grant ''grant_id''),
        (''authority_envelope_id'', jget envelope ''envelope_id''), (''canonical_action'', jget a ''canonicalAction''),
        (''canonical_resource'', jget a ''canonicalResource''),
        (''intent_id'', jor (jget grant ''intent_id'') (jget context ''intent_id'')),
        (''task_id'', jor (jget grant ''task_id'') (jget context ''task_id''))])"

definition gateway_action ::
  "host \<Rightarrow> jval \<Rightarrow> classification \<Rightarrow> jval \<Rightarrow> jval \<Rightarrow> authorization option \<Rightarrow> jval list \<Rightarrow> jval" where
  "gateway_action H call c grant envelope az pids =
     (let action = actionFromNormalizedToolCall call (redactObject (jor (jget call ''arguments'') (JObj []))) in
      jset action ''metadata'' (jspread (jor (jget action ''metadata'') (JObj [])) (gateway_metadata H call c grant envelope az pids)))"

section \<open>The decision\<close>

definition authority_denial :: "jval \<Rightarrow> authorization \<Rightarrow> jval" where
  "authority_denial grant a =
     guard_decision ''deny'' (''blocked by authority grant: '' @ join_errors (az_errors a)) ''authority-grant''
       [JObj [(''stage'', JStr ''authority-grant''), (''grant_id'', or_null [jget grant ''grant_id'']),
         (''result'', JStr ''deny''), (''errors'', strs (az_errors a))]]"

definition exfiltration_denial :: jval where
  "exfiltration_denial =
     guard_decision ''deny'' ''blocked because a credential-like secret may cross an external trust boundary''
       ''secret-exfiltration-guard'' [risk_guard_trace ''secret-exfiltration'' ''deny'']"

definition injection_denial :: jval where
  "injection_denial =
     guard_decision ''deny'' ''blocked because prompt-injection-like content is combined with a side effect or external flow''
       ''prompt-injection-side-effect-guard'' [risk_guard_trace ''prompt-injection-side-effect'' ''deny'']"

text \<open>The decision of the policy after the risk upgrades.\<close>

definition risk_upgraded :: "classification \<Rightarrow> jval \<Rightarrow> jval" where
  "risk_upgraded c policyDecision =
     (let act = jget policyDecision ''action''; trace = arr_of (jor (jget policyDecision ''trace'') (JArr []));
          decision = withRisk policyDecision c ''policy'' in
      if cl_injection c \<and> cl_effect c = ''read_only'' \<and> act \<noteq> JStr ''deny'' then
        withRisk (guard_decision ''needs_approval''
          ''approval required because prompt-injection-like content was detected in a read-only flow''
          ''prompt-injection-read-guard'' (trace @ [risk_guard_trace ''prompt-injection-read'' ''needs_approval''])) c ''risk-guard''
      else if cl_risk c = Critical then
        (if \<not> (isExplicitAllow policyDecision \<and> jget policyDecision ''allowCritical'' = JBool True) \<and> act \<noteq> JStr ''deny'' then
           withRisk (guard_decision ''deny''
             (''blocked because '' @ firstReason c @ ''; critical actions require an explicit rule with allowCritical=true'')
             ''critical-risk-default'' (trace @ [risk_guard_trace ''critical-risk-default'' ''deny''])) c ''risk-guard''
         else decision)
      else if act = JStr ''allow'' \<and> (cl_risk c = Medium \<or> cl_risk c = High) \<and> \<not> isExplicitAllow policyDecision then
        withRisk (guard_decision ''needs_approval'' (''approval required because '' @ firstReason c) ''risk-upgrade''
          (trace @ [risk_guard_trace ''risk-upgrade'' ''needs_approval''])) c ''risk-guard''
      else decision)"

definition policy_stage :: "host \<Rightarrow> jval \<Rightarrow> jval \<Rightarrow> classification \<Rightarrow> jval \<Rightarrow> jval \<Rightarrow> jval res" where
  "policy_stage H call action c policy options =
     bind_res (evaluatePolicy H action policy) (\<lambda>policyDecision.
       let decision = risk_upgraded c policyDecision in
       Inr (if cl_risk c = Critical then decision
            else applySessionDecision H decision call
              (jor (jor (jget options ''sessionDecisionCache'') (jget options ''sessionDecisions'')) (JObj []))))"

definition gateway_decision ::
  "host \<Rightarrow> jval \<Rightarrow> jval \<Rightarrow> classification \<Rightarrow> jval \<Rightarrow> authorization option \<Rightarrow> jval \<Rightarrow> jval \<Rightarrow> jval res" where
  "gateway_decision H call action c grant az policy options =
     (case az of
        Some a \<Rightarrow>
          if az_errors a \<noteq> [] then Inr (withRisk (authority_denial grant a) c ''authority-grant'')
          else if cl_exfiltration c then Inr (withRisk exfiltration_denial c ''risk-guard'')
          else if cl_injection_effect c then Inr (withRisk injection_denial c ''risk-guard'')
          else policy_stage H call action c policy options
      | None \<Rightarrow>
          if cl_exfiltration c then Inr (withRisk exfiltration_denial c ''risk-guard'')
          else if cl_injection_effect c then Inr (withRisk injection_denial c ''risk-guard'')
          else policy_stage H call action c policy options)"

definition with_cache_key :: "host \<Rightarrow> jval \<Rightarrow> jval \<Rightarrow> jval" where
  "with_cache_key H call decision =
     (if jget decision ''action'' = JStr ''needs_approval''
      then jset decision ''approvalCacheKey'' (JStr (approvalFingerprint H call)) else decision)"

definition receipt_options :: "jval \<Rightarrow> jval" where
  "receipt_options options =
     JObj [(''evaluatedAt'', jget options ''evaluatedAt''), (''ttlMs'', jget options ''receiptTtlMs''),
       (''secret'', jget options ''receiptSecret''), (''audience'', jget options ''receiptAudience''),
       (''issuer'', jget options ''receiptIssuer''), (''oneTime'', jget options ''receiptOneTime'')]"

definition evaluatePermissionRequest ::
  "host \<Rightarrow> revocation_source option \<Rightarrow> jval \<Rightarrow> jval \<Rightarrow> jval \<Rightarrow> jval res" where
  "evaluatePermissionRequest H rvk input policy options =
     bind_res (normalizeToolCall H input options) (\<lambda>call.
     let c = classifyRisk call; context = jget call ''context'';
         grant = or_three (jget options ''authorityGrant'') (jget context ''authority_grant'') (jget input ''authority_grant'');
         envelope = or_three (jget options ''authorityEnvelope'') (jget context ''authority_envelope'') (jget input ''authority_envelope'') in
     bind_res (gateway_authority H rvk call grant envelope options) (\<lambda>az.
     bind_res (principal_ids grant) (\<lambda>pids.
     let action = gateway_action H call c grant envelope az pids in
     bind_res (gateway_decision H call action c grant az policy options) (\<lambda>decided.
     let decision = with_cache_key H call decided;
         result = JObj [(''normalizedCall'', call), (''action'', action), (''classification'', classification_value c),
           (''decision'', decision), (''authority'', authority_value az)] in
     bind_res (buildDecisionReceipt H result policy (receipt_options options)) (\<lambda>receipt.
       Inr (jset result ''decision'' (jset decision ''receipt'' receipt)))))))"

end
