(* ===== verification/PolicyTools.thy ===== *)
theory PolicyTools
  imports Gateway
begin

text \<open>
  Tools around policies: the linter of \<^verbatim>\<open>packages/core/src/engine/policy-lint.js\<close>, and the simulation of
  one call and the comparison of two policies of \<^verbatim>\<open>policy-simulation.js\<close>.
\<close>

section \<open>The linter\<close>

primrec duplicates_from :: "string list \<Rightarrow> string list \<Rightarrow> string list" where
  "duplicates_from seen [] = []"
| "duplicates_from seen (v # vs) = (if v \<in> set seen then [v] else []) @ duplicates_from (v # seen) vs"

definition duplicateValues :: "string list \<Rightarrow> string list" where
  "duplicateValues vs = sort (uniq (duplicates_from [] vs))"

definition overlap :: "string list \<Rightarrow> string list \<Rightarrow> string list" where
  "overlap a b = sort (uniq (filter (\<lambda>v. v \<in> set b) a))"

record lint =
  li_errors :: "string list"
  li_warnings :: "string list"
  li_notes :: "string list"
  li_rules :: nat
  li_exact :: nat
  li_patterns :: nat

definition patterns_of :: "jval \<Rightarrow> string \<Rightarrow> string list" where
  "patterns_of policy k = str_list (jor (jget policy k) (JArr []))"

definition pattern_warnings :: "jval \<Rightarrow> string list" where
  "pattern_warnings policy =
     (let allowed = patterns_of policy ''allowedActions''; approval = patterns_of policy ''approvalRequired'';
          blocked = patterns_of policy ''blockedActions'' in
      err_if (normalizeDecisionAction (jor (jget policy ''defaultAction'') (JStr ''needs_approval'')) = JStr ''allow'')
        ''defaultAction is allow; unknown actions will run unless another rule blocks them''
      @ err_if (''*'' \<in> set allowed) ''allowedActions contains *; this permits every unmatched action''
      @ concat (map (\<lambda>k. map (\<lambda>d. k @ '' contains duplicate pattern: '' @ d) (duplicateValues (patterns_of policy k)))
          [''allowedActions'', ''approvalRequired'', ''blockedActions''])
      @ map (\<lambda>v. ''pattern appears in both allowedActions and blockedActions; deny will win: '' @ v) (overlap allowed blocked)
      @ map (\<lambda>v. ''pattern appears in both allowedActions and approvalRequired; specificity/tie rules apply: '' @ v)
          (overlap allowed approval))"

definition exact_label :: "jval \<Rightarrow> string" where
  "exact_label rule = to_str (jor (jget rule ''id'') (jget rule ''decision_key''))"

definition inconsistent :: "jval \<Rightarrow> bool" where
  "inconsistent rule \<longleftrightarrow> jget rule ''disabled'' = JBool True \<and> jget rule ''status'' = JStr ''enabled''"

definition exact_note :: "jval \<Rightarrow> string list" where
  "exact_note rule =
     err_if (normalizeDecisionAction (jget rule ''effect'') = JStr ''allow'' \<and> jget rule ''allowCritical'' \<noteq> JBool True)
       (''exact allow rule '' @ exact_label rule @ '' does not opt in to critical-risk override'')"

definition exact_warning :: "jval \<Rightarrow> string list" where
  "exact_warning rule =
     err_if (inconsistent rule) (''exact rule '' @ exact_label rule @ '' has inconsistent disabled=true and status=enabled'')"

definition lint_rank :: "jval \<Rightarrow> jval" where
  "lint_rank v = jget (JObj [(''safe'', JNum 0), (''low'', JNum 1), (''medium'', JNum 2), (''high'', JNum 3), (''critical'', JNum 4)]) (to_str v)"

definition structured_warnings :: "jval \<Rightarrow> string list" where
  "structured_warnings rule =
     (let allows = normalizeDecisionAction (jget rule ''effect'') = JStr ''allow''; rid = to_str (jget rule ''id'');
          actions = str_list (jor (jget rule ''actions'') (JArr [JStr ''*'']));
          resources = str_list (jor (jget rule ''resources'') (JArr [JStr ''*''])) in
      err_if (allows \<and> ''*'' \<in> set actions \<and> ''*'' \<in> set resources)
        (''structured rule '' @ rid @ '' allows every action and resource'')
      @ err_if (allows \<and> jget rule ''riskAtLeast'' = JStr ''critical'' \<and> jget rule ''allowCritical'' \<noteq> JBool True)
        (''structured rule '' @ rid @ '' targets critical risk but allowCritical is not true'')
      @ err_if (inconsistent rule) (''structured rule '' @ rid @ '' has inconsistent disabled=true and status=enabled''))"

definition structured_error :: "jval \<Rightarrow> string list" where
  "structured_error rule =
     err_if (truthy (jget rule ''riskAtLeast'') \<and> truthy (jget rule ''riskAtMost'')
         \<and> jlt (lint_rank (jget rule ''riskAtMost'')) (lint_rank (jget rule ''riskAtLeast'')))
       (''structured rule '' @ to_str (jget rule ''id'') @ '' has riskAtLeast above riskAtMost'')"

definition ids_of :: "string \<Rightarrow> jval list \<Rightarrow> string list" where
  "ids_of k rules = map (\<lambda>r. to_str (jget r k)) rules"

definition lintPolicy :: "jval \<Rightarrow> lint" where
  "lintPolicy policy =
     (if validatePolicy policy \<noteq> []
      then \<lparr>li_errors = validatePolicy policy, li_warnings = [], li_notes = [], li_rules = 0, li_exact = 0, li_patterns = 0\<rparr>
      else
        let exact = arr_of (jor (jget policy ''exactActionRules'') (JArr [])); rules = arr_of (jor (jget policy ''rules'') (JArr []));
            patterns = concat (map (patterns_of policy) [''allowedActions'', ''approvalRequired'', ''blockedActions'']) in
        \<lparr>li_errors =
           map (\<lambda>d. ''exactActionRules contains duplicate decision_key: '' @ d) (duplicateValues (ids_of ''decision_key'' exact))
           @ map (\<lambda>d. ''rules contains duplicate id: '' @ d) (duplicateValues (ids_of ''id'' rules))
           @ concat (map structured_error rules),
         li_warnings = pattern_warnings policy @ concat (map exact_warning exact) @ concat (map structured_warnings rules)
           @ err_if (rules = [] \<and> patterns = [] \<and> exact = []) ''policy has no explicit rules and relies only on defaultAction'',
         li_notes = err_if (''*'' \<in> set (patterns_of policy ''approvalRequired''))
             ''approvalRequired contains *; this is a safe fallback for legacy policies''
           @ concat (map exact_note exact),
         li_rules = length rules, li_exact = length exact, li_patterns = length patterns\<rparr>)"

section \<open>Simulation\<close>

record simulation =
  si_errors :: "string list"
  si_digest :: jval
  si_decision :: jval
  si_classification :: jval
  si_approval :: jval
  si_explanation :: jval

definition simulatePolicy :: "host \<Rightarrow> revocation_source option \<Rightarrow> jval \<Rightarrow> jval \<Rightarrow> jval \<Rightarrow> simulation res" where
  "simulatePolicy H rvk input policy options =
     (if validatePolicy policy \<noteq> []
      then Inr \<lparr>si_errors = validatePolicy policy, si_digest = JNull, si_decision = JNull, si_classification = JUndef,
        si_approval = JUndef, si_explanation = JNull\<rparr>
      else bind_res (evaluatePermissionRequest H rvk input policy options) (\<lambda>result.
        let d = jget result ''decision'' in
        Inr \<lparr>si_errors = [], si_digest = JStr (policyDigest H policy), si_decision = d,
          si_classification = or_null [jget result ''classification''], si_approval = or_null [jget result ''approval''],
          si_explanation = JObj [(''action'', jget d ''action''), (''reason'', jget d ''reason''),
            (''matched_rule'', or_null [jget d ''matchedRule'']), (''matched_rules'', jor (jget d ''matchedRules'') (JArr [])),
            (''trace'', jor (jget d ''trace'') (JArr []))]\<rparr>))"

section \<open>Comparison\<close>

text \<open>\<open>byId\<close>: a \<^verbatim>\<open>Map\<close> in insertion order, where a later item with the same identifier replaces the
  value of an earlier one.\<close>

definition item_id :: "nat \<Rightarrow> jval \<Rightarrow> jval" where
  "item_id i item = jor (jor (jget item ''id'') (jget item ''decision_key'')) (JStr (''index:'' @ nat_str i))"

definition byId :: "jval list \<Rightarrow> (jval \<times> jval) list" where
  "byId items = fold (\<lambda>(i, item) m. AList.update (item_id i item) item m) (enumerate 0 (filter truthy items)) []"

definition changedFields :: "jval \<Rightarrow> jval \<Rightarrow> string list" where
  "changedFields before after =
     sort (filter (\<lambda>k. canonicalStringify (jget before k) \<noteq> canonicalStringify (jget after k))
       (uniq (jkeys before @ jkeys after)))"

record collection_diff =
  cd_added :: "jval list"
  cd_removed :: "jval list"
  cd_modified :: "(jval \<times> string list \<times> jval \<times> jval) list"

definition diffRuleCollection :: "jval list \<Rightarrow> jval list \<Rightarrow> collection_diff" where
  "diffRuleCollection before after =
     (let b = byId before; a = byId after in
      \<lparr>cd_added = map snd (filter (\<lambda>(i, x). map_of b i = None) a),
       cd_removed = map snd (filter (\<lambda>(i, x). map_of a i = None) b),
       cd_modified = List.map_filter (\<lambda>(i, x). case map_of b i of
           None \<Rightarrow> None
         | Some y \<Rightarrow> (let fs = changedFields y x in if fs = [] then None else Some (i, fs, y, x))) a\<rparr>)"

record policy_diff =
  pd_errors :: "string list"
  pd_changed :: jval
  pd_digests :: "string \<times> string"
  pd_broad :: "(string \<times> jval \<times> jval) list"
  pd_exact :: collection_diff
  pd_structured :: collection_diff

definition broad_changes :: "jval \<Rightarrow> jval \<Rightarrow> (string \<times> jval \<times> jval) list" where
  "broad_changes before after =
     List.map_filter (\<lambda>k. if canonicalStringify (jget before k) = canonicalStringify (jget after k) then None
         else Some (k, jcoalesce (jget before k) JNull, jcoalesce (jget after k) JNull))
       [''defaultAction'', ''allowedActions'', ''approvalRequired'', ''blockedActions'']"

text \<open>The value of the chain of \<^verbatim>\<open>||\<close> over the counts.\<close>

definition changed_value :: "(string \<times> jval \<times> jval) list \<Rightarrow> collection_diff \<Rightarrow> collection_diff \<Rightarrow> jval" where
  "changed_value broad e s =
     foldr jor (JBool (broad \<noteq> []) # map (\<lambda>n. JNum (int n))
       [length (cd_added e), length (cd_removed e), length (cd_modified e), length (cd_added s), length (cd_removed s)])
       (JNum (int (length (cd_modified s))))"

definition diff_errors :: "jval \<Rightarrow> jval \<Rightarrow> string list" where
  "diff_errors before after =
     map (\<lambda>e. ''before: '' @ e) (validatePolicy before) @ map (\<lambda>e. ''after: '' @ e) (validatePolicy after)"

definition diffPolicies :: "host \<Rightarrow> jval \<Rightarrow> jval \<Rightarrow> string list + policy_diff" where
  "diffPolicies H before after =
     (if diff_errors before after \<noteq> [] then Inl (diff_errors before after)
      else
        let broad = broad_changes before after;
            rules = (\<lambda>v k. arr_of (jor (jget v k) (JArr [])));
            e = diffRuleCollection (rules before ''exactActionRules'') (rules after ''exactActionRules'');
            s = diffRuleCollection (rules before ''rules'') (rules after ''rules'') in
        Inr \<lparr>pd_errors = [], pd_changed = changed_value broad e s,
          pd_digests = (policyDigest H before, policyDigest H after), pd_broad = broad, pd_exact = e, pd_structured = s\<rparr>)"

section \<open>Facts\<close>

lemma duplicates_from_set: "set (duplicates_from seen vs) = {v \<in> set vs. v \<in> set seen \<or> 2 \<le> count_list vs v}"
  by (induction vs arbitrary: seen) (auto simp: count_list_0_iff numeral_2_eq_2 Suc_le_eq)

lemma duplicateValues_set: "set (duplicateValues vs) = {v. 2 \<le> count_list vs v}"
proof -
  have "2 \<le> count_list vs v \<Longrightarrow> v \<in> set vs" for v
    using count_list_0_iff [of vs v] by (cases "v \<in> set vs") simp_all
  then show ?thesis by (auto simp: duplicateValues_def duplicates_from_set)
qed

lemma duplicates_from_distinct: "duplicates_from seen vs = [] \<longleftrightarrow> distinct vs \<and> set vs \<inter> set seen = {}"
  by (induction vs arbitrary: seen) auto

lemma sort_Nil_iff: "sort (xs :: string list) = [] \<longleftrightarrow> xs = []"
  by (metis set_empty set_sort)

lemma duplicateValues_distinct: "duplicateValues vs = [] \<longleftrightarrow> distinct vs"
  by (simp add: duplicateValues_def sort_Nil_iff duplicates_from_distinct)

end
