(* ===== verification/Approval.thy ===== *)
theory Approval
  imports Receipt Revocation ProtocolApproval
begin

text \<open>
  Approvals, \<^verbatim>\<open>packages/core/src/approval/contract.js\<close>: a request bound to a receipt that needs
  approval, a result bound to the request, and the use of a result for one execution lease, which
  is recorded by the exclusive creation of a file.
\<close>

section \<open>Helpers\<close>

definition ap_time :: "jval \<Rightarrow> string \<Rightarrow> int res" where
  "ap_time v label =
     (case date_parse (to_str v) of None \<Rightarrow> Inl (Error (label @ '' must be a valid date-time'')) | Some t \<Rightarrow> Inr t)"

text \<open>\<open>time(v || new Date(), label)\<close>.\<close>

definition ap_time_or_now :: "host \<Rightarrow> jval \<Rightarrow> string \<Rightarrow> int res" where
  "ap_time_or_now H v label =
     (case time_or_now H v of None \<Rightarrow> Inl (Error (label @ '' must be a valid date-time'')) | Some t \<Rightarrow> Inr t)"

text \<open>\<open>Date.parse(v || '')\<close>.\<close>

definition ap_parse :: "jval \<Rightarrow> int option" where
  "ap_parse v = date_parse (to_str (jor v (JStr [])))"

definition safeString :: "host \<Rightarrow> jval \<Rightarrow> nat \<Rightarrow> jval" where
  "safeString H v max_len =
     (if jnullish v then JNull
      else let s = str_trim (nfkc H (to_str v)) in if s = [] then JNull else JStr (take max_len s))"

definition requestUnsigned :: "jval \<Rightarrow> jval" where
  "requestUnsigned v = jomit ''request_digest'' v"

definition resultUnsigned :: "jval \<Rightarrow> jval" where
  "resultUnsigned v = jomit ''result_digest'' (jomit ''signature'' v)"

definition mapDecision :: "jval \<Rightarrow> string res" where
  "mapDecision v =
     (if one_of [''allow'', ''allow_once'', ''allow_session'', ''always_allow''] v then Inr ''allow''
      else if one_of [''deny'', ''deny_once'', ''deny_session'', ''always_ask'', ''always_block'', ''block''] v then Inr ''deny''
      else Inl (Error (''unsupported approval decision: '' @ to_str v)))"

definition safeAction :: "host \<Rightarrow> jval \<Rightarrow> jval" where
  "safeAction H action =
     (let metadata = jget action ''metadata'' in
      JObj [(''type'', jor (safeString H (jor (jget action ''type'') (jget action ''action'')) 256) (JStr ''unknown.action'')),
        (''target'', jor (safeString H (jget action ''target'') 512) (JStr [])),
        (''metadata'', JObj [(''canonical_action'', safeString H (jget metadata ''canonical_action'') 256),
          (''canonical_resource'', safeString H (jget metadata ''canonical_resource'') 512)])])"

definition safe_fields :: "host \<Rightarrow> jval \<Rightarrow> (string \<times> nat) list \<Rightarrow> jval" where
  "safe_fields H v fs = JObj (map (\<lambda>(k, n). (k, safeString H (jget v k) n)) fs)"

definition safeCall :: "host \<Rightarrow> jval \<Rightarrow> jval" where
  "safeCall H call =
     JObj [(''call_id'', safeString H (jget call ''call_id'') 256),
       (''actor'', safe_fields H (jget call ''actor'') [(''type'', 32), (''id'', 256), (''name'', 256), (''issuer'', 256), (''session_id'', 256)]),
       (''tool'', safe_fields H (jget call ''tool'') [(''name'', 256), (''category'', 64), (''operation'', 64)]),
       (''target'', safe_fields H (jget call ''target'') [(''resource'', 512), (''scope'', 128), (''sensitivity'', 64)])]"

definition approvalRequestDigest :: "host \<Rightarrow> jval \<Rightarrow> string" where
  "approvalRequestDigest H request = canonicalDigest H (requestUnsigned request)"

definition approvalResultDigest :: "host \<Rightarrow> jval \<Rightarrow> string" where
  "approvalResultDigest H result = canonicalDigest H (resultUnsigned result)"

section \<open>Requests\<close>

definition safe_or :: "host \<Rightarrow> jval \<Rightarrow> nat \<Rightarrow> string \<Rightarrow> jval" where
  "safe_or H v n d = jor (safeString H v n) (JStr d)"

definition request_classification :: "jval \<Rightarrow> jval" where
  "request_classification c =
     JObj [(''risk'', jor (jget c ''risk'') (JStr ''unknown'')), (''data_flow'', jor (jget c ''dataFlow'') (JStr ''unknown'')),
       (''side_effect'', jor (jget c ''sideEffect'') (JStr ''unknown'')),
       (''detected_secrets'', JBool (truthy (jget c ''detectedSecrets''))),
       (''detected_prompt_injection'', JBool (truthy (jget c ''detectedPromptInjection'')))]"

definition request_fields :: "host \<Rightarrow> jval \<Rightarrow> jval \<Rightarrow> jval \<Rightarrow> jval \<Rightarrow> jval \<Rightarrow> int \<Rightarrow> int \<Rightarrow> int \<Rightarrow> jval" where
  "request_fields H pr options call pid provider requested nb ex =
     (let receipt = jget (jget pr ''decision'') ''receipt''; authority = jget pr ''authority'' in
      JObj [
        (''approval_request_version'', JStr ''1.0''),
        (''approval_id'', jor (jget options ''approvalId'') (JStr (''appr_'' @ fresh_uuid H 0))),
        (''request_decision_id'', jget receipt ''decision_id''), (''request_digest'', JStr []),
        (''issuer'', safe_or H (jget options ''issuer'') 128 ''ruleoak''),
        (''audience'', safe_or H (jget options ''audience'') 128 ''ruleoak-approval-provider''),
        (''provider_id'', provider),
        (''requested_at'', JStr (iso_string requested)), (''not_before'', JStr (iso_string nb)), (''expires_at'', JStr (iso_string ex)),
        (''one_time'', JBool True), (''request_nonce'', jor (jget options ''requestNonce'') (JStr (fresh_uuid H 1))),
        (''action_digest'', jget receipt ''action_digest''), (''policy_digest'', jget receipt ''policy_digest''),
        (''principal_id'', pid),
        (''call_id'', safeString H (jor (jget receipt ''call_id'') (jget call ''call_id'')) 256),
        (''session_id'', safeString H (jor (jget receipt ''session_id'') (jget (jget call ''actor'') ''session_id'')) 256),
        (''summary'', safe_or H (JStr (approvalSummary call)) 512 ''RuleOak approval request''),
        (''risk'', jor (jor (jget (jget pr ''classification'') ''risk'') (jget receipt ''risk'')) (JStr ''unknown'')),
        (''canonical_action'', safeString H (jor (jget receipt ''canonical_action'') (jget authority ''canonicalAction'')) 256),
        (''canonical_resource'', safeString H (jor (jget receipt ''canonical_resource'') (jget authority ''canonicalResource'')) 512),
        (''decision_key'', JStr (approvalFingerprint H call)),
        (''decision_channel'', safe_or H (jget options ''decisionChannel'') 128 ''unknown''),
        (''reason'', safe_or H (jget (jget pr ''decision'') ''reason'') 512 ''approval required''),
        (''classification'', request_classification (jget pr ''classification'')),
        (''normalized_call'', safeCall H call), (''action'', safeAction H (jor (jget pr ''action'') (JObj [])))])"

definition buildApprovalRequest :: "host \<Rightarrow> jval \<Rightarrow> jval \<Rightarrow> jval res" where
  "buildApprovalRequest H pr options =
     (let receipt = jget (jget pr ''decision'') ''receipt''; call = jor (jget pr ''normalizedCall'') (JObj []) in
      throw_if (jget (jget pr ''decision'') ''action'' \<noteq> JStr ''needs_approval'') ''approval request requires a needs_approval decision''
     (throw_if (\<not> truthy (jget receipt ''decision_id'') \<or> jget receipt ''decision'' \<noteq> JStr ''needs_approval'')
        ''approval request requires a needs_approval DecisionReceipt''
     (bind_res (ap_time_or_now H (jget options ''requestedAt'') ''approval requestedAt'') (\<lambda>requested.
      bind_res (ap_time (jor (jget receipt ''not_before'') (jget receipt ''evaluated_at'')) ''decision receipt not_before'') (\<lambda>start.
      bind_res (ap_time (jget receipt ''expires_at'') ''decision receipt expires_at'') (\<lambda>receipt_end.
      let nb = max requested start; ex = min (requested + ttl_of (jget options ''ttlMs'')) receipt_end;
          pid = safeString H (jor (jor (jget receipt ''principal_id'') (jget (jget call ''actor'') ''id'')) (jget (jget call ''actor'') ''name'')) 256;
          provider = safeString H (jget options ''providerId'') 128 in
      throw_if (ex \<le> nb) ''approval request has no positive validity window within DecisionReceipt''
     (throw_if (\<not> truthy pid) ''approval request principal_id is required''
     (throw_if (\<not> truthy provider) ''approval providerId is required''
     (let draft = request_fields H pr options call pid provider requested nb ex;
          request = jset draft ''request_digest'' (JStr (approvalRequestDigest H draft)) in
      throw_if (validateApprovalRequest request \<noteq> [])
        (''invalid ApprovalRequest: '' @ join_errors (validateApprovalRequest request)) (Inr request))))))))))"

definition active_errors :: "jval \<Rightarrow> int \<Rightarrow> string \<Rightarrow> string list" where
  "active_errors v now what =
     (let nb = ap_parse (jget v ''not_before''); ex = ap_parse (jget v ''expires_at'') in
      err_if (nb = None \<or> time_lt (Some now) nb) (what @ '' is not active yet'')
      @ err_if (ex = None \<or> time_le ex (Some now)) (what @ '' has expired''))"

definition permission_binding_errors :: "jval \<Rightarrow> jval \<Rightarrow> string list" where
  "permission_binding_errors pr request =
     (if \<not> truthy pr then []
      else let receipt = jget (jget pr ''decision'') ''receipt''; actor = jget (jget pr ''normalizedCall'') ''actor'';
               who = jor (jor (jget receipt ''principal_id'') (jget actor ''id'')) (jget actor ''name'') in
        err_if (\<not> strict_eq (jget receipt ''decision_id'') (jget request ''request_decision_id'')) ''approval request decision mismatch''
        @ err_if (\<not> strict_eq (jget receipt ''action_digest'') (jget request ''action_digest'')) ''approval request action digest mismatch''
        @ err_if (\<not> strict_eq (jget receipt ''policy_digest'') (jget request ''policy_digest'')) ''approval request policy digest mismatch''
        @ err_if (truthy who \<and> \<not> strict_eq who (jget request ''principal_id'')) ''approval request principal mismatch'')"

definition verifyApprovalRequest :: "host \<Rightarrow> jval \<Rightarrow> jval \<Rightarrow> string list res" where
  "verifyApprovalRequest H request options =
     (let errors = validateApprovalRequest request in
      bind_res (ap_time_or_now H (jget options ''now'') ''approval verification time'') (\<lambda>now.
        Inr (errors
          @ err_if (errors = [] \<and> jget request ''request_digest'' \<noteq> JStr (approvalRequestDigest H request)) ''approval request digest mismatch''
          @ (if truthy (jget options ''ignoreTime'') then [] else active_errors request now ''approval request'')
          @ permission_binding_errors (jget options ''permissionResult'') request)))"

section \<open>Results\<close>

definition signApprovalResult :: "host \<Rightarrow> jval \<Rightarrow> jval \<Rightarrow> jval res" where
  "signApprovalResult H result secret =
     throw_if (\<not> truthy secret) ''approval result signing secret is required''
    (throw_if (validateApprovalResult result \<noteq> []) (''invalid ApprovalResult: '' @ join_errors (validateApprovalResult result))
    (Inr (with_signature H result secret)))"

definition result_fields :: "host \<Rightarrow> jval \<Rightarrow> jval \<Rightarrow> jval \<Rightarrow> jval \<Rightarrow> string \<Rightarrow> jval \<Rightarrow> int \<Rightarrow> int \<Rightarrow> int \<Rightarrow> jval" where
  "result_fields H request decision options providerId mapped approver decided nb ex =
     JObj [
       (''approval_result_version'', JStr ''1.0''),
       (''approval_result_id'', jor (jget options ''approvalResultId'') (JStr (''apprr_'' @ fresh_uuid H 0))),
       (''approval_id'', jget request ''approval_id''), (''request_decision_id'', jget request ''request_decision_id''),
       (''request_digest'', jget request ''request_digest''), (''result_digest'', JStr []),
       (''action_digest'', jget request ''action_digest''), (''policy_digest'', jget request ''policy_digest''),
       (''principal_id'', jget request ''principal_id''), (''provider_id'', providerId),
       (''provider_name'', jor (safeString H (jget options ''providerName'') 128) providerId),
       (''approver'', approver), (''decision'', JStr mapped), (''decision_scope'', safeString H decision 64),
       (''reason'', jor (safeString H (jget options ''reason'') 512) (JStr (mapped @ '' by '' @ to_str providerId))),
       (''decided_at'', JStr (iso_string decided)), (''not_before'', JStr (iso_string nb)), (''expires_at'', JStr (iso_string ex)),
       (''one_time'', JBool True), (''result_nonce'', jor (jget options ''resultNonce'') (JStr (fresh_uuid H 1)))]"

definition buildApprovalResult :: "host \<Rightarrow> jval \<Rightarrow> jval \<Rightarrow> jval \<Rightarrow> jval res" where
  "buildApprovalResult H request decision options =
     bind_res (ap_time_or_now H (jget options ''decidedAt'') ''approval decidedAt'') (\<lambda>decided.
     bind_res (verifyApprovalRequest H request (JObj [(''now'', JStr (iso_string decided))])) (\<lambda>errors.
     throw_if (errors \<noteq> []) (''invalid ApprovalRequest: '' @ join_errors errors)
    (bind_res (ap_time (jget request ''not_before'') ''approval request not_before'') (\<lambda>start.
     bind_res (ap_time (jget request ''expires_at'') ''approval request expires_at'') (\<lambda>request_end.
     let nb = max decided start; ex = min (decided + ttl_of (jget options ''ttlMs'')) request_end;
         providerId = jor (safeString H (jget options ''providerId'') 128) (jget request ''provider_id'');
         approver = jor (jget options ''approver'') (JObj [(''type'', JStr ''service''), (''id'', providerId),
           (''name'', jor (jget options ''providerName'') providerId)]) in
     throw_if (ex \<le> nb) ''ApprovalResult has no positive validity window within ApprovalRequest''
    (throw_if (\<not> truthy providerId) ''approval provider_id is required''
    (throw_if (\<not> strict_eq providerId (jget request ''provider_id''))
       (''ApprovalRequest provider mismatch: expected '' @ to_str (jget request ''provider_id''))
    (bind_res (mapDecision decision) (\<lambda>mapped.
     let draft = result_fields H request decision options providerId mapped approver decided nb ex;
         result = jset draft ''result_digest'' (JStr (approvalResultDigest H draft)) in
     bind_res (if truthy (jget options ''secret'') then signApprovalResult H result (jget options ''secret'') else Inr result) (\<lambda>signed.
       throw_if (validateApprovalResult signed \<noteq> [])
         (''invalid ApprovalResult: '' @ join_errors (validateApprovalResult signed)) (Inr signed)))))))))))"

definition APPROVAL_BOUND_FIELDS :: "string list" where
  "APPROVAL_BOUND_FIELDS = [''approval_id'', ''request_decision_id'', ''request_digest'', ''action_digest'', ''policy_digest'',
     ''principal_id'', ''provider_id'']"

definition verifyApprovalResult :: "host \<Rightarrow> jval \<Rightarrow> jval \<Rightarrow> jval \<Rightarrow> string list res" where
  "verifyApprovalResult H result request options =
     (let errors = validateApprovalResult result; secret = jget options ''secret'';
          required = truthy (jget options ''requireSignature'');
          ex = ap_parse (jget result ''expires_at''); request_end = ap_parse (jget request ''expires_at'') in
      bind_res (verifyApprovalRequest H request (JObj [(''now'', jor (jget options ''now'') (jget result ''decided_at'')),
          (''ignoreTime'', JBool (truthy (jget options ''ignoreRequestTime'')))])) (\<lambda>request_errors.
      bind_res (ap_time_or_now H (jget options ''now'') ''approval result verification time'') (\<lambda>now.
      bind_res (signature_errors (signApprovalResult H) ''signed ApprovalResult required'' ''approval result signature mismatch''
          required result secret) (\<lambda>sig.
        Inr (errors
          @ err_if (errors = [] \<and> jget result ''result_digest'' \<noteq> JStr (approvalResultDigest H result)) ''approval result digest mismatch''
          @ map (\<lambda>e. ''request: '' @ e) request_errors
          @ concat (map (\<lambda>f. err_if (\<not> strict_eq (jget result f) (jget request f)) (''approval result '' @ f @ '' mismatch'')) APPROVAL_BOUND_FIELDS)
          @ (if truthy (jget options ''ignoreTime'') then [] else active_errors result now ''approval result'')
          @ err_if (time_lt request_end ex) ''approval result outlives ApprovalRequest''
          @ err_if (truthy (jget options ''providerId'') \<and> \<not> strict_eq (jget result ''provider_id'') (jget options ''providerId''))
              (''approval provider mismatch: expected '' @ to_str (jget options ''providerId''))
          @ err_if (required \<and> \<not> truthy secret) ''approval result verification secret is required''
          @ sig)))))"

section \<open>Resolving a decision\<close>

definition approved_decision :: "jval \<Rightarrow> jval \<Rightarrow> jval \<Rightarrow> jval list \<Rightarrow> jval" where
  "approved_decision decision request result trace =
     jspread decision (JObj [
       (''action'', jget result ''decision''),
       (''reason'', jor (jget result ''reason'') (JStr (to_str (jget result ''decision'') @ '' by approval provider '' @ to_str (jget result ''provider_id'')))),
       (''source'', JStr ''approval''),
       (''matchedRule'', JStr (''approval:'' @ to_str (jget result ''provider_id''))),
       (''approvalId'', jget request ''approval_id''), (''approvalResultId'', jget result ''approval_result_id''),
       (''trace'', JArr (trace @ [JObj [(''stage'', JStr ''approval''), (''provider_id'', jget result ''provider_id''),
          (''approval_id'', jget request ''approval_id''), (''approval_result_id'', jget result ''approval_result_id''),
          (''decision'', jget result ''decision'')]]))])"

definition applyApprovalResult :: "host \<Rightarrow> jval \<Rightarrow> jval \<Rightarrow> jval \<Rightarrow> jval \<Rightarrow> jval \<Rightarrow> jval res" where
  "applyApprovalResult H pr request result policy options =
     throw_if (jget (jget pr ''decision'') ''action'' \<noteq> JStr ''needs_approval'')
       ''ApprovalResult can only resolve a needs_approval permission result''
    (bind_res (ap_time_or_now H (jget options ''now'') ''approval resolution time'') (\<lambda>resolved.
     let now = JStr (iso_string resolved) in
     bind_res (verifyApprovalResult H result request (JObj [(''now'', now), (''secret'', jget options ''secret''),
         (''requireSignature'', JBool (truthy (jget options ''requireSignature''))), (''providerId'', jget options ''providerId'')])) (\<lambda>errors.
     throw_if (errors \<noteq> []) (''invalid ApprovalResult: '' @ join_errors errors)
    (bind_res (verifyApprovalRequest H request (JObj [(''now'', now), (''permissionResult'', pr)])) (\<lambda>bound.
     throw_if (bound \<noteq> []) (''ApprovalRequest does not bind permission result: '' @ join_errors bound)
    (throw_if (jget request ''policy_digest'' \<noteq> JStr (policyDigest H policy)) ''ApprovalRequest is stale because policy changed''
    (bind_res (jiter (jor (jget (jget pr ''decision'') ''trace'') (JArr []))) (\<lambda>trace.
     bind_res (ap_time (jget result ''expires_at'') ''Invalid time value'') (\<lambda>result_end.
     let decision = approved_decision (jget pr ''decision'') request result trace in
     throw_if (result_end \<le> resolved) ''ApprovalResult has expired before resolution''
    (bind_res (buildDecisionReceipt H (jset pr ''decision'' decision) policy (JObj [(''evaluatedAt'', now),
         (''ttlMs'', JNum (result_end - resolved)), (''secret'', jget options ''receiptSecret''),
         (''audience'', jget options ''receiptAudience''), (''issuer'', jor (jget options ''receiptIssuer'') (JStr ''ruleoak'')),
         (''oneTime'', JBool True), (''approvalRequest'', request), (''approvalResult'', result),
         (''expiresAt'', jget result ''expires_at'')])) (\<lambda>receipt.
       Inr (jspread pr (JObj [(''approval'', request), (''approval_result'', result),
         (''decision'', jset decision ''receipt'' receipt)])))))))))))))"

section \<open>Use for a lease\<close>

record approval_use =
  au_ok :: bool
  au_consumed :: bool
  au_replayed :: bool
  au_errors :: "string list"
  au_record :: jval

definition use_refused :: "bool \<Rightarrow> string list \<Rightarrow> jval \<Rightarrow> approval_use" where
  "use_refused replayed errors r =
     \<lparr>au_ok = False, au_consumed = False, au_replayed = replayed, au_errors = errors, au_record = r\<rparr>"

definition approvalUseDigest :: "host \<Rightarrow> jval \<Rightarrow> string" where
  "approvalUseDigest H r = canonicalDigest H (jomit ''use_digest'' (jor r (JObj [])))"

definition approval_use_path :: "host \<Rightarrow> jval \<Rightarrow> jval \<Rightarrow> string" where
  "approval_use_path H storeDir resultId = to_str storeDir @ ''/'' @ sha256_hex H (to_str resultId) @ ''.json''"

definition use_record :: "host \<Rightarrow> jval \<Rightarrow> jval \<Rightarrow> int \<Rightarrow> jval" where
  "use_record H result options consumed =
     (let draft = JObj [(''approval_use_version'', JStr ''1.0''),
        (''approval_result_id'', jget result ''approval_result_id''), (''approval_id'', jget result ''approval_id''),
        (''lease_id'', JStr (to_str (jget options ''leaseId''))), (''lease_nonce'', JStr (to_str (jget options ''leaseNonce''))),
        (''action_digest'', jget result ''action_digest''), (''consumed_at'', JStr (iso_string consumed)), (''use_digest'', JStr [])]
      in jset draft ''use_digest'' (JStr (approvalUseDigest H draft)))"

text \<open>The marker of an earlier use: a file that cannot be read or parsed is \<open>None\<close>.\<close>

definition read_use :: "files \<Rightarrow> string \<Rightarrow> jval option" where
  "read_use fs path =
     (case readBoundedFileSync fs path MAX_MARKER_BYTES ''approval use marker'' of
        Inr (Some s) \<Rightarrow> json_parse s
      | _ \<Rightarrow> None)"

definition already_used :: "files \<Rightarrow> string \<Rightarrow> approval_use res" where
  "already_used fs path =
     (case read_use fs path of
        None \<Rightarrow> Inr (use_refused True [''approval result was already consumed and its marker is unreadable''] JUndef)
      | Some prior \<Rightarrow>
          if prior = JNull then Inl TypeError
          else Inr (use_refused True [''approval result already consumed for lease '' @ to_str (jor (jget prior ''lease_id'') (JStr ''unknown''))] prior))"

definition consumeApprovalResultForLease :: "host \<Rightarrow> files \<Rightarrow> jval \<Rightarrow> jval \<Rightarrow> jval \<Rightarrow> (approval_use \<times> files) res" where
  "consumeApprovalResultForLease H fs request result options =
     throw_if (\<not> truthy (jget options ''storeDir'')) ''approval use storeDir is required''
    (throw_if (\<not> truthy (jget options ''leaseId'') \<or> \<not> truthy (jget options ''leaseNonce''))
       ''approval lease binding requires leaseId and leaseNonce''
    (bind_res (verifyApprovalResult H result request (JObj [(''now'', jget options ''now''), (''secret'', jget options ''secret''),
         (''requireSignature'', JBool (truthy (jget options ''requireSignature''))), (''providerId'', jget options ''providerId'')])) (\<lambda>errors.
     if errors \<noteq> [] then Inr (use_refused False errors JUndef, fs)
     else if jget result ''decision'' \<noteq> JStr ''allow''
     then Inr (use_refused False [''ApprovalResult decision is not allow''] JUndef, fs)
     else bind_res (ap_time_or_now H (jor (jget options ''consumedAt'') (jget options ''now'')) ''approval consumedAt'') (\<lambda>consumed.
       let path = approval_use_path H (jget options ''storeDir'') (jget result ''approval_result_id'');
           r = use_record H result options consumed in
       case durableExclusiveCreateSync fs path (marker_text r) of
         (True, fs') \<Rightarrow> Inr (\<lparr>au_ok = True, au_consumed = True, au_replayed = False, au_errors = [], au_record = r\<rparr>, fs')
       | (False, fs') \<Rightarrow> bind_res (already_used fs' path) (\<lambda>u. Inr (u, fs'))))))"

definition loadApprovalUseRecord :: "host \<Rightarrow> files \<Rightarrow> jval \<Rightarrow> jval \<Rightarrow> jval option res" where
  "loadApprovalUseRecord H fs resultId storeDir =
     throw_if (\<not> truthy storeDir) ''approval use storeDir is required''
    (let path = approval_use_path H storeDir resultId in
     if fs path = None then Inr None
     else case read_use fs path of
       None \<Rightarrow> Inl (Error ''approval use marker is unreadable'')
     | Some r \<Rightarrow>
         if r = JNull then Inl TypeError
         else throw_if (jget r ''use_digest'' \<noteq> JStr (approvalUseDigest H r)) ''approval use marker digest mismatch'' (Inr (Some r)))"

definition verifyApprovalUseBinding :: "host \<Rightarrow> jval \<Rightarrow> jval \<Rightarrow> jval \<Rightarrow> jval \<Rightarrow> string list" where
  "verifyApprovalUseBinding H use request result options =
     (if \<not> is_obj use \<and> \<not> is_arr use then [''approval use record is required'']
      else
        err_if (jget use ''use_digest'' \<noteq> JStr (approvalUseDigest H use)) ''approval use digest mismatch''
        @ err_if (\<not> strict_eq (jget use ''approval_result_id'') (jget result ''approval_result_id'')) ''approval use result mismatch''
        @ err_if (\<not> strict_eq (jget use ''approval_id'') (jget request ''approval_id'')) ''approval use request mismatch''
        @ err_if (\<not> strict_eq (jget use ''action_digest'') (jget result ''action_digest'')) ''approval use action mismatch''
        @ err_if (truthy (jget options ''leaseId'') \<and> \<not> strict_eq (jget use ''lease_id'') (jget options ''leaseId'')) ''approval use lease mismatch''
        @ err_if (truthy (jget options ''leaseNonce'') \<and> \<not> strict_eq (jget use ''lease_nonce'') (jget options ''leaseNonce''))
            ''approval use lease nonce mismatch'')"

end
