(* ===== verification/Lease.thy ===== *)
theory Lease
  imports Approval Envelope
begin

text \<open>
  Execution leases, \<^verbatim>\<open>packages/core/src/execution/lease.js\<close>: the one-use permission to execute that an
  allow decision yields, inside the time window, budget and obligations of the authority it comes
  from, and its consumption by the exclusive creation of a marker file.
\<close>

section \<open>Issuing\<close>

definition lease_time :: "jval \<Rightarrow> string \<Rightarrow> int res" where
  "lease_time v label = date_or_error (to_date v) (label @ '' must be a valid date-time'')"

text \<open>\<open>v ? time(v, label) : NaN\<close>.\<close>

definition lease_time_opt :: "jval \<Rightarrow> string \<Rightarrow> int option res" where
  "lease_time_opt v label = (if truthy v then bind_res (lease_time v label) (\<lambda>t. Inr (Some t)) else Inr None)"

definition max_time_of :: "int \<Rightarrow> int option list \<Rightarrow> int" where
  "max_time_of t ts = fold (\<lambda>x m. case x of None \<Rightarrow> m | Some y \<Rightarrow> max m y) ts t"

definition min_time_of :: "int \<Rightarrow> int option list \<Rightarrow> int" where
  "min_time_of t ts = fold (\<lambda>x m. case x of None \<Rightarrow> m | Some y \<Rightarrow> min m y) ts t"

definition unique_ids :: "jval list \<Rightarrow> jval list" where
  "unique_ids vs = uniq (filter nonempty_str vs)"

definition is_approval_bound :: "jval \<Rightarrow> bool" where
  "is_approval_bound receipt \<longleftrightarrow>
     jget receipt ''receipt_version'' = JStr ''1.2'' \<or> truthy (jget receipt ''approval_result_id'')"

text \<open>The checks of a receipt that carries an approval, in the code's order.\<close>

definition lease_approval_check :: "host \<Rightarrow> files \<Rightarrow> jval \<Rightarrow> jval \<Rightarrow> int \<Rightarrow> unit res" where
  "lease_approval_check H fs receipt options issued =
     (let request = jget options ''approvalRequest''; result = jget options ''approvalResult'' in
      throw_if (\<not> truthy request \<or> \<not> truthy result)
        ''approval-bound execution lease requires ApprovalRequest and ApprovalResult''
     (bind_res (verifyApprovalResult H result request (JObj [(''now'', JStr (iso_string issued)),
          (''secret'', jget options ''approvalSecret''),
          (''requireSignature'', JBool (truthy (jget options ''requireApprovalSignature''))),
          (''providerId'', jget receipt ''approval_provider_id'')])) (\<lambda>errors.
      throw_if (errors \<noteq> []) (''invalid approval binding: '' @ join_errors errors)
     (throw_if (jget result ''decision'' \<noteq> JStr ''allow'') ''approval-bound execution lease requires allow ApprovalResult''
     (throw_if (\<not> strict_eq (jget receipt ''approval_id'') (jget request ''approval_id'')
          \<or> \<not> strict_eq (jget receipt ''approval_result_id'') (jget result ''approval_result_id'')
          \<or> \<not> strict_eq (jget receipt ''approval_request_decision_id'') (jget request ''request_decision_id''))
        ''DecisionReceipt approval binding mismatch''
     (throw_if (\<not> strict_eq (jget receipt ''action_digest'') (jget result ''action_digest'')
          \<or> \<not> strict_eq (jget receipt ''policy_digest'') (jget result ''policy_digest''))
        ''DecisionReceipt approval digest mismatch''
     (throw_if (\<not> truthy (jget options ''approvalUseStoreDir'')) ''approval-bound execution lease requires approvalUseStoreDir''
     (bind_res (loadApprovalUseRecord H fs (jget result ''approval_result_id'') (jget options ''approvalUseStoreDir'')) (\<lambda>stored.
        case stored of
          None \<Rightarrow> Inl (Error ''approval result has not been atomically consumed for lease issuance'')
        | Some use \<Rightarrow>
            (let errors = verifyApprovalUseBinding H use request result (JObj [(''leaseId'', jget options ''leaseId''),
               (''leaseNonce'', jget options ''nonce'')]) in
             throw_if (errors \<noteq> []) (''invalid approval use binding: '' @ join_errors errors) (Inr ())))))))))))"

definition lease_ancestry :: "jval \<Rightarrow> jval list res" where
  "lease_ancestry grant = revocationAncestorsForGrant grant"

definition lease_revocation_check :: "revocation_source option \<Rightarrow> jval \<Rightarrow> jval \<Rightarrow> int \<Rightarrow> unit res" where
  "lease_revocation_check rvk grant env issued =
     (case rvk of
        None \<Rightarrow> Inr ()
      | Some isRevoked' \<Rightarrow>
          bind_res (lease_ancestry grant) (\<lambda>ancestry.
          let now = JStr (iso_string issued);
              ask = (\<lambda>type sid ancestors. isRevoked' (JStr type) sid (JObj [(''now'', now), (''ancestors'', JArr ancestors)])) in
          bind_res (if truthy (jget grant ''grant_id'') then ask ''authority_grant'' (jget grant ''grant_id'') ancestry else Inr not_revoked) (\<lambda>g.
          throw_if (rv_revoked g) (''cannot issue execution lease from revoked authority grant: '' @ to_str (jget (rv_record g) ''reason''))
         (bind_res (if truthy (jget env ''envelope_id'') then ask ''authority_envelope'' (jget env ''envelope_id'')
             (ancestry @ (if truthy (jget grant ''grant_id'') then typed_refs ''authority_grant'' [jget grant ''grant_id''] else []))
            else Inr not_revoked) (\<lambda>e.
          throw_if (rv_revoked e) (''cannot issue execution lease from revoked authority envelope: '' @ to_str (jget (rv_record e) ''reason''))
           (Inr ()))))))"

text \<open>The window: it starts at the latest start and ends at the earliest end of what the lease is
  issued from.\<close>

definition lease_window :: "jval \<Rightarrow> jval \<Rightarrow> jval \<Rightarrow> jval \<Rightarrow> int \<Rightarrow> (int \<times> int) res" where
  "lease_window env grant receipt options issued =
     bind_res (lease_time_opt (jget options ''notBefore'') ''execution lease notBefore'') (\<lambda>requested.
     bind_res (lease_time_opt (jget env ''not_before'') ''authority envelope not_before'') (\<lambda>es.
     bind_res (lease_time_opt (jget grant ''not_before'') ''authority grant not_before'') (\<lambda>gs.
     bind_res (lease_time_opt (jget receipt ''not_before'') ''decision receipt not_before'') (\<lambda>rs.
     bind_res (lease_time_opt (jget env ''expires_at'') ''authority envelope expires_at'') (\<lambda>ee.
     bind_res (lease_time_opt (jget grant ''expires_at'') ''authority grant expires_at'') (\<lambda>ge.
     bind_res (lease_time_opt (jget receipt ''expires_at'') ''decision receipt expires_at'') (\<lambda>re.
     let start = max_time_of issued [requested, es, gs, rs];
         end_ms = min_time_of (issued + ttl_of (jget options ''ttlMs'')) [ee, ge, re] in
     throw_if (end_ms \<le> start) ''execution lease has no positive validity window within parent authority''
       (Inr (start, end_ms)))))))))"

definition lease_version :: "bool \<Rightarrow> bool \<Rightarrow> string" where
  "lease_version bound v11 = (if bound then ''1.2'' else if v11 then ''1.1'' else ''1.0'')"

definition lease_fields ::
  "host \<Rightarrow> jval \<Rightarrow> jval \<Rightarrow> jval \<Rightarrow> jval \<Rightarrow> jval \<Rightarrow> jval \<Rightarrow> int \<Rightarrow> string \<Rightarrow> string \<Rightarrow> string \<Rightarrow> jval \<Rightarrow> jval list \<Rightarrow> jval" where
  "lease_fields H result policy options receipt env grant issued start_iso end_iso digest budget obligations =
     (let bound = is_approval_bound receipt; authority = jget result ''authority''; actor = jget (jget result ''normalizedCall'') ''actor'' in
      JObj ([
        (''lease_version'', JStr (lease_version bound (is_v11 grant))),
        (''lease_id'', jor (jget options ''leaseId'') (JStr (''lease_'' @ fresh_uuid H 0))),
        (''decision_id'', jget receipt ''decision_id''),
        (''principal_id'', jor (jor (jor (jget receipt ''principal_id'') (jget actor ''id'')) (jget actor ''name'')) (JStr ''unknown-principal'')),
        (''authority_envelope_id'', or_null [jget env ''envelope_id'']),
        (''authority_grant_id'', or_null [jget receipt ''authority_grant_id'', jget grant ''grant_id'']),
        (''action_digest'', JStr digest),
        (''policy_digest'', jor (jget receipt ''policy_digest'') (JStr (policyDigest H policy))),
        (''canonical_action'', jor (jor (jget receipt ''canonical_action'') (jget authority ''canonicalAction'')) (JStr ''custom.execute'')),
        (''canonical_resource'', jor (jor (jget receipt ''canonical_resource'') (jget authority ''canonicalResource'')) (JStr ''ruleoak://custom/unknown'')),
        (''issued_at'', JStr (iso_string issued)), (''not_before'', JStr start_iso), (''expires_at'', JStr end_iso),
        (''max_uses'', JNum 1)]
      @ (if bound then [(''approval_id'', jget receipt ''approval_id''), (''approval_result_id'', jget receipt ''approval_result_id'')] else [])
      @ [(''budget'', budget), (''obligations'', JArr obligations), (''nonce'', jor (jget options ''nonce'') (JStr (fresh_uuid H 1)))]
      @ (if is_v11 grant \<or> bound
         then [(''authority_ancestor_grant_ids'', JArr (unique_ids (arr_of (jget grant ''ancestor_grant_ids'')))),
           (''authority_principal_ids'', JArr (unique_ids (map (\<lambda>p. jget p ''id'') (arr_of (jget grant ''principal_chain'')))))]
         else [])))"

text \<open>\<open>receipt.action_digest || actionDigest(...)\<close>, as a string.\<close>

definition lease_digest :: "host \<Rightarrow> jval \<Rightarrow> jval \<Rightarrow> string res" where
  "lease_digest H receipt result =
     (if truthy (jget receipt ''action_digest'') then Inr (to_str (jget receipt ''action_digest''))
      else actionDigest H (jor (jor (jget result ''normalizedCall'') (jget result ''action'')) (JObj [])) (JObj []))"

definition signExecutionLease :: "host \<Rightarrow> jval \<Rightarrow> jval \<Rightarrow> jval res" where
  "signExecutionLease H lease secret = sign_validated H ''execution lease'' validateExecutionLease lease secret"

interpretation lease_signer: signer H "signExecutionLease H" "\<lambda>v. validateExecutionLease v = []" for H
  by unfold_locales (auto simp: signExecutionLease_def sign_validated_Inr)

definition buildExecutionLease ::
  "host \<Rightarrow> files \<Rightarrow> revocation_source option \<Rightarrow> jval \<Rightarrow> jval \<Rightarrow> jval \<Rightarrow> jval res" where
  "buildExecutionLease H fs rvk result policy options =
     (let receipt = jget (jget result ''decision'') ''receipt'';
          env = or_null [jget (jget result ''authority'') ''envelope'', jget options ''authorityEnvelope''];
          grant = or_null [jget (jget result ''authority'') ''grant'', jget options ''authorityGrant''];
          constraints = jor (jor (jget env ''constraints'') (jget grant ''budget'')) (JObj []) in
      throw_if (present (jget options ''maxUses'') \<and> jget options ''maxUses'' \<noteq> JNum 1)
        ''ExecutionLease is one-use; maxUses must be 1 when supplied''
     (throw_if (jget (jget result ''decision'') ''action'' \<noteq> JStr ''allow'') ''execution lease requires an allow decision''
     (throw_if (\<not> truthy (jget receipt ''decision_id'')) ''execution lease requires a decision receipt''
     (bind_res (date_or_error (date_or_now H (jget options ''issuedAt'')) ''execution lease issuedAt must be a valid date-time'') (\<lambda>issued.
      bind_res (if is_approval_bound receipt then lease_approval_check H fs receipt options issued else Inr ()) (\<lambda>_.
      bind_res (lease_revocation_check rvk grant env issued) (\<lambda>_.
      bind_res (lease_window env grant receipt options issued) (\<lambda>(start, end_ms).
      bind_res (lease_digest H receipt result) (\<lambda>digest.
      bind_res (to_iso (time_clip end_ms)) (\<lambda>end_iso.
      bind_res (normalizeAuthorityBudget (jor (jget options ''budget'') constraints)) (\<lambda>budget.
      bind_res (normalizeObligations H (jor (jor (jor (jget options ''obligations'') (jget env ''obligations'')) (jget grant ''obligations''))
          (JArr []))) (\<lambda>obligations.
      let lease = lease_fields H result policy options receipt env grant issued (iso_string start) end_iso digest budget obligations in
      throw_if (validateExecutionLease lease \<noteq> []) (''invalid execution lease: '' @ join_errors (validateExecutionLease lease))
     (if truthy (jget options ''secret'') then signExecutionLease H lease (jget options ''secret'') else Inr lease)))))))))))))"

text \<open>Issuing from an approval first consumes it; the consumption stands even if the lease then is
  refused.\<close>

definition issueExecutionLease ::
  "host \<Rightarrow> files \<Rightarrow> revocation_source option \<Rightarrow> jval \<Rightarrow> jval \<Rightarrow> jval \<Rightarrow> files \<times> jval res" where
  "issueExecutionLease H fs rvk result policy options =
     (let receipt = jget (jget result ''decision'') ''receipt'' in
      if \<not> is_approval_bound receipt then (fs, buildExecutionLease H fs rvk result policy options)
      else if \<not> truthy (jget options ''approvalRequest'') \<or> \<not> truthy (jget options ''approvalResult'')
      then (fs, Inl (Error ''approval-bound lease issuance requires ApprovalRequest and ApprovalResult''))
      else if \<not> truthy (jget options ''approvalUseStoreDir'')
      then (fs, Inl (Error ''approval-bound lease issuance requires approvalUseStoreDir''))
      else
        let leaseId = jor (jget options ''leaseId'') (JStr (''lease_'' @ fresh_uuid H 0));
            nonce = jor (jget options ''nonce'') (JStr (fresh_uuid H 1));
            now = jor (jget options ''issuedAt'') (JStr (iso_string (now_ms H div 1000 * 1000))) in
        case consumeApprovalResultForLease H fs (jget options ''approvalRequest'') (jget options ''approvalResult'')
            (JObj [(''storeDir'', jget options ''approvalUseStoreDir''), (''leaseId'', leaseId), (''leaseNonce'', nonce),
              (''now'', now), (''consumedAt'', now), (''secret'', jget options ''approvalSecret''),
              (''requireSignature'', JBool (truthy (jget options ''requireApprovalSignature''))),
              (''providerId'', jget receipt ''approval_provider_id'')]) of
          Inl e \<Rightarrow> (fs, Inl e)
        | Inr (use, fs') \<Rightarrow>
            if \<not> au_ok use then (fs', Inl (Error (''approval result cannot issue lease: '' @ join_errors (au_errors use))))
            else (fs', buildExecutionLease H fs' rvk result policy (jspread options (JObj [(''leaseId'', leaseId), (''nonce'', nonce),
              (''approvalUseStoreDir'', jget options ''approvalUseStoreDir'')]))))"

section \<open>Verification\<close>

record lease_check =
  lc_errors :: "string list"
  lc_budget :: budget_eval
  lc_obligations :: obligation_eval

definition lease_revocation_ancestors :: "jval \<Rightarrow> jval list res" where
  "lease_revocation_ancestors lease =
     bind_res (jiter (jor (jget lease ''authority_ancestor_grant_ids'') (JArr []))) (\<lambda>ids.
     bind_res (jiter (jor (jget lease ''authority_principal_ids'') (JArr []))) (\<lambda>pids.
       let own = (\<lambda>type k. if truthy (jget lease k) then typed_refs type [jget lease k] else []) in
       Inr (own ''authority_envelope'' ''authority_envelope_id'' @ own ''authority_grant'' ''authority_grant_id''
         @ typed_refs ''authority_grant'' ids @ typed_refs ''principal'' pids @ own ''principal'' ''principal_id'')))"

definition lease_revocation_errors :: "revocation_source option \<Rightarrow> jval \<Rightarrow> jval \<Rightarrow> string list res" where
  "lease_revocation_errors rvk lease options =
     (case rvk of
        None \<Rightarrow> Inr []
      | Some isRevoked' \<Rightarrow>
          bind_res (lease_revocation_ancestors lease) (\<lambda>ancestors.
          bind_res (isRevoked' (JStr ''execution_lease'') (jget lease ''lease_id'') (JObj [(''now'', jget options ''now''),
              (''ancestors'', JArr ancestors), (''assumeLocked'', jget options ''revocationAssumeLocked'')])) (\<lambda>v.
            Inr (err_if (rv_revoked v) (''execution lease revoked: '' @ to_str (jget (rv_record v) ''reason''))))))"

definition lease_time_errors :: "host \<Rightarrow> jval \<Rightarrow> jval \<Rightarrow> string list" where
  "lease_time_errors H lease options =
     (let now = date_or_now H (jget options ''now''); notBefore = ap_parse (jget lease ''not_before'');
          expires = ap_parse (jget lease ''expires_at'') in
      err_if (now = None) ''execution lease verification time is invalid''
      @ err_if (notBefore = None \<or> time_lt now notBefore) ''execution lease is not active yet''
      @ err_if (expires = None \<or> time_le expires now) ''execution lease has expired'')"

definition lease_action_errors :: "host \<Rightarrow> jval \<Rightarrow> jval \<Rightarrow> jval \<Rightarrow> string list res" where
  "lease_action_errors H lease input options =
     (if \<not> truthy input then Inr []
      else bind_res (actionDigest H input (JObj [(''sessionId'', jget options ''sessionId'')])) (\<lambda>d.
        Inr (err_if (jget lease ''action_digest'' \<noteq> JStr d) ''execution lease action mismatch'')))"

definition lease_binding_errors :: "host \<Rightarrow> jval \<Rightarrow> jval \<Rightarrow> jval \<Rightarrow> string list" where
  "lease_binding_errors H lease policy options =
     err_if (truthy policy \<and> jget lease ''policy_digest'' \<noteq> JStr (policyDigest H policy)) ''execution lease policy mismatch''
     @ err_if (truthy (jget options ''principalId'') \<and> \<not> strict_eq (jget lease ''principal_id'') (jget options ''principalId''))
         (''execution lease principal mismatch: expected '' @ to_str (jget options ''principalId''))
     @ err_if (truthy (jget options ''authorityEnvelopeId'')
         \<and> \<not> strict_eq (jget lease ''authority_envelope_id'') (jget options ''authorityEnvelopeId''))
         ''execution lease authority envelope mismatch''"

definition verifyExecutionLease ::
  "host \<Rightarrow> revocation_source option \<Rightarrow> jval \<Rightarrow> jval \<Rightarrow> jval \<Rightarrow> jval \<Rightarrow> lease_check res" where
  "verifyExecutionLease H rvk lease input policy options =
     (let required = not_false (jget options ''requireSignature''); secret = jget options ''secret'' in
      bind_res (lease_action_errors H lease input options) (\<lambda>action.
      bind_res (lease_revocation_errors rvk lease options) (\<lambda>revoked.
      bind_res (evaluateAuthorityBudget (jor (jget lease ''budget'') (JObj [])) (jor (jget options ''usage'') (JObj []))) (\<lambda>budget.
      bind_res (evaluateObligations H (jor (jget lease ''obligations'') (JArr [])) (jor (jget options ''obligationContext'') (JObj []))
          ''pre'') (\<lambda>obligations.
      bind_res (signature_errors (signExecutionLease H) ''signed execution lease required'' ''execution lease signature mismatch''
          False lease secret) (\<lambda>sig.
        Inr \<lparr>lc_errors = validateExecutionLease lease @ lease_time_errors H lease options @ action
               @ lease_binding_errors H lease (given_policy policy) options @ revoked @ be_errors budget @ oe_errors obligations
               @ err_if (required \<and> \<not> truthy secret) ''execution lease verification secret is required'' @ sig,
             lc_budget = budget, lc_obligations = obligations\<rparr>))))))"

section \<open>Consumption\<close>

record lease_use =
  lu_ok :: bool
  lu_consumed :: bool
  lu_replayed :: bool
  lu_errors :: "string list"
  lu_marker :: jval

definition lease_refused :: "bool \<Rightarrow> string list \<Rightarrow> lease_use" where
  "lease_refused replayed errors =
     \<lparr>lu_ok = False, lu_consumed = False, lu_replayed = replayed, lu_errors = errors, lu_marker = JUndef\<rparr>"

definition lease_marker_name :: "host \<Rightarrow> jval \<Rightarrow> string" where
  "lease_marker_name H lease =
     sha256_hex H (to_str (jget lease ''lease_id'') @ '':'' @ to_str (jget lease ''nonce'') @ '':'' @ to_str (jget lease ''action_digest''))"

definition lease_marker_path :: "host \<Rightarrow> jval \<Rightarrow> jval \<Rightarrow> string" where
  "lease_marker_path H storeDir lease = to_str storeDir @ ''/'' @ lease_marker_name H lease @ ''.json''"

definition lease_marker :: "host \<Rightarrow> jval \<Rightarrow> int \<Rightarrow> jval" where
  "lease_marker H lease consumed =
     JObj [(''consumption_version'', JStr ''1.0''), (''lease_id'', jget lease ''lease_id''), (''decision_id'', jget lease ''decision_id''),
       (''consumed_at'', JStr (iso_string consumed)), (''principal_id'', jget lease ''principal_id''),
       (''action_digest'', jget lease ''action_digest''), (''policy_digest'', jget lease ''policy_digest''),
       (''receipt_digest'', JStr (''sha256:'' @ sha256_hex H (canonicalStringify lease)))]"

definition lease_consumed_already :: "jval \<Rightarrow> bool \<Rightarrow> lease_use" where
  "lease_consumed_already lease unreadable =
     lease_refused True [''execution lease already consumed: '' @ to_str (jget lease ''lease_id'')
       @ (if unreadable then '' (marker unreadable)'' else [])]"

definition consumeUnlocked ::
  "host \<Rightarrow> files \<Rightarrow> revocation_source option \<Rightarrow> jval \<Rightarrow> jval \<Rightarrow> jval \<Rightarrow> jval \<Rightarrow> (lease_use \<times> files) res" where
  "consumeUnlocked H fs rvk lease input policy options =
     bind_res (verifyExecutionLease H rvk lease input policy (jset options ''revocationAssumeLocked'' (JBool (rvk \<noteq> None)))) (\<lambda>check.
     if lc_errors check \<noteq> [] then Inr (lease_refused False (lc_errors check), fs)
     else if \<not> truthy (jget options ''storeDir'')
     then Inr (lease_refused False [''execution lease storeDir is required for replay protection''], fs)
     else
       let path = lease_marker_path H (jget options ''storeDir'') lease in
       if fs path \<noteq> None
       then Inr (lease_consumed_already lease (\<not> truthy (readMarker fs path ''execution lease consumption marker'')), fs)
       else case date_or_now H (jor (jget options ''consumedAt'') (jget options ''now'')) of
         None \<Rightarrow> Inr (lease_refused False [''execution lease consumedAt is invalid''], fs)
       | Some consumed \<Rightarrow>
           (let marker = lease_marker H lease consumed in
            case durableExclusiveCreateSync fs path (marker_text marker) of
              (False, fs') \<Rightarrow> Inr (lease_consumed_already lease False, fs')
            | (True, fs') \<Rightarrow> Inr (\<lparr>lu_ok = True, lu_consumed = True, lu_replayed = False, lu_errors = [], lu_marker = marker\<rparr>, fs')))"

text \<open>With a registry the check and the creation happen under the registry's lock.\<close>

definition consumeExecutionLease ::
  "host \<Rightarrow> files \<Rightarrow> revocation_source option \<Rightarrow> jval \<Rightarrow> jval \<Rightarrow> jval \<Rightarrow> jval \<Rightarrow> (lease_use \<times> files) res" where
  "consumeExecutionLease H fs rvk lease input policy options = consumeUnlocked H fs rvk lease input (given_policy policy) options"

end
