(* ===== verification/FileLock.thy ===== *)
theory FileLock
  imports Main
begin

text \<open>
  The inter-process lock \<open>withFileLock\<close> of \<^verbatim>\<open>packages/core/src/io/file-lock.js\<close> as a transition system:
  the callers interleave at every access to the lock file.  A caller is a number, which is also its
  token and the identity of the file it creates; \<open>host_of\<close> gives the host of a caller.  The
  judgement \<open>stale\<close> is one step; a file whose holder is not written yet has no content.
\<close>

section \<open>Callers and the lock file\<close>

text \<open>Where a caller stands: about to open, after the open, inside \<open>fn\<close>, after \<open>EEXIST\<close>, after judging
  the lock stale, about to remove the holder it read, about to unlink what it just checked, asleep,
  and on the way out.\<close>

datatype place = Idle | Trying | Opened | Critical | Refused | Judged | Breaking "nat option" | BreakChecked
  | Waiting | Leaving | LeaveChecked | Finished | TimedOut | Failed | Crashed

record lock_options =
  lo_timeout :: int
  lo_retry :: int
  lo_stale :: int

definition lock_options_of :: "int option \<Rightarrow> int option \<Rightarrow> int option \<Rightarrow> lock_options" where
  "lock_options_of timeoutMs retryMs staleMs =
     \<lparr>lo_timeout = (case timeoutMs of Some t \<Rightarrow> max 0 t | None \<Rightarrow> 5000),
      lo_retry = (case retryMs of Some t \<Rightarrow> max 1 t | None \<Rightarrow> 10),
      lo_stale = (case staleMs of Some t \<Rightarrow> max 1000 t | None \<Rightarrow> 30000)\<rparr>"

record lock_file =
  lf_creator :: nat
  lf_holder :: "nat option"
  lf_mtime :: int

record lock_state =
  lk_file :: "lock_file option"
  lk_now :: int
  lk_place :: "nat \<Rightarrow> place"
  lk_started :: "nat \<Rightarrow> int"
  lk_wake :: "nat \<Rightarrow> int"
  lk_dead :: "nat set"

definition lock_init :: lock_state where
  "lock_init = \<lparr>lk_file = None, lk_now = 0, lk_place = (\<lambda>_. Idle), lk_started = (\<lambda>_. 0), lk_wake = (\<lambda>_. 0), lk_dead = {}\<rparr>"

definition move :: "nat \<Rightarrow> place \<Rightarrow> lock_state \<Rightarrow> lock_state" where
  "move p x s = s\<lparr>lk_place := (lk_place s)(p := x)\<rparr>"

definition readHolder :: "lock_state \<Rightarrow> nat option" where
  "readHolder s = (case lk_file s of None \<Rightarrow> None | Some f \<Rightarrow> lf_holder f)"

definition stale :: "(nat \<Rightarrow> nat) \<Rightarrow> int \<Rightarrow> nat \<Rightarrow> lock_state \<Rightarrow> bool" where
  "stale host_of staleMs p s =
     (case lk_file s of
        None \<Rightarrow> False
      | Some f \<Rightarrow>
          lk_now s - lf_mtime f > staleMs
          \<and> \<not> (case lf_holder f of None \<Rightarrow> False | Some q \<Rightarrow> host_of q = host_of p \<and> q \<notin> lk_dead s))"

section \<open>The steps\<close>

text \<open>One action of a caller, or the passing of time.  \<open>Open\<close> is \<open>openSync(path, 'wx')\<close>, \<open>Write\<close> the write
  of the holder through the descriptor, \<open>Judge\<close> the branch on \<open>stale\<close> with the timeout after it and
  the start of a sleep, \<open>Wake\<close> its end, which comes no sooner than \<open>retryMs\<close> later,
  \<open>Read\<close> the second \<open>readHolder\<close>, \<open>Check\<close> and \<open>Unlink\<close> the two halves of \<open>unlinkIfOwned\<close>.\<close>

datatype lock_act = Begin nat | Open nat | Write nat | WriteFails nat | Judge nat | Read nat | Check nat | Unlink nat
  | Wake nat | Leave nat | Crash nat | Tick int

definition when_at :: "nat \<Rightarrow> place \<Rightarrow> lock_state \<Rightarrow> lock_state \<Rightarrow> lock_state option" where
  "when_at p x s s' = (if lk_place s p = x then Some s' else None)"

fun lock_step :: "(nat \<Rightarrow> nat) \<Rightarrow> lock_options \<Rightarrow> lock_act \<Rightarrow> lock_state \<Rightarrow> lock_state option" where
  "lock_step host_of opt (Begin p) s =
     when_at p Idle s ((move p Trying s)\<lparr>lk_started := (lk_started s)(p := lk_now s)\<rparr>)"
| "lock_step host_of opt (Open p) s =
     when_at p Trying s
       (case lk_file s of
          None \<Rightarrow> (move p Opened s)\<lparr>lk_file := Some \<lparr>lf_creator = p, lf_holder = None, lf_mtime = lk_now s\<rparr>\<rparr>
        | Some f \<Rightarrow> move p Refused s)"
| "lock_step host_of opt (Write p) s =
     when_at p Opened s
       ((move p Critical s)\<lparr>lk_file := (case lk_file s of
            Some f \<Rightarrow> Some (if lf_creator f = p then f\<lparr>lf_holder := Some p, lf_mtime := lk_now s\<rparr> else f)
          | None \<Rightarrow> None)\<rparr>)"
| "lock_step host_of opt (WriteFails p) s = when_at p Opened s (move p Failed s)"
| "lock_step host_of opt (Judge p) s =
     when_at p Refused s
       (if stale host_of (lo_stale opt) p s then move p Judged s
        else if lk_now s - lk_started s p \<ge> lo_timeout opt then move p TimedOut s
        else (move p Waiting s)\<lparr>lk_wake := (lk_wake s)(p := lk_now s + lo_retry opt)\<rparr>)"
| "lock_step host_of opt (Read p) s = when_at p Judged s (move p (Breaking (readHolder s)) s)"
| "lock_step host_of opt (Check p) s =
     (case lk_place s p of
        Breaking (Some t) \<Rightarrow> Some (move p (if readHolder s = Some t then BreakChecked else Trying) s)
      | Leaving \<Rightarrow> Some (move p (if readHolder s = Some p then LeaveChecked else Finished) s)
      | _ \<Rightarrow> None)"
| "lock_step host_of opt (Unlink p) s =
     (case lk_place s p of
        Breaking None \<Rightarrow> Some ((move p Trying s)\<lparr>lk_file := None\<rparr>)
      | BreakChecked \<Rightarrow> Some ((move p Trying s)\<lparr>lk_file := None\<rparr>)
      | LeaveChecked \<Rightarrow> Some ((move p Finished s)\<lparr>lk_file := None\<rparr>)
      | _ \<Rightarrow> None)"
| "lock_step host_of opt (Wake p) s = (if lk_wake s p \<le> lk_now s then when_at p Waiting s (move p Trying s) else None)"
| "lock_step host_of opt (Leave p) s = when_at p Critical s (move p Leaving s)"
| "lock_step host_of opt (Crash p) s = Some ((move p Crashed s)\<lparr>lk_dead := insert p (lk_dead s)\<rparr>)"
| "lock_step host_of opt (Tick d) s = (if d \<ge> 0 then Some (s\<lparr>lk_now := lk_now s + d\<rparr>) else None)"

fun lock_run :: "(nat \<Rightarrow> nat) \<Rightarrow> lock_options \<Rightarrow> lock_act list \<Rightarrow> lock_state \<Rightarrow> lock_state option" where
  "lock_run host_of opt [] s = Some s"
| "lock_run host_of opt (a # as) s =
     (case lock_step host_of opt a s of None \<Rightarrow> None | Some s' \<Rightarrow> lock_run host_of opt as s')"

section \<open>Mutual exclusion\<close>

text \<open>A state is timely while no lock file is older than the staleness limit: every holder leaves, and
  no holder crashes for longer, within that time.\<close>

definition young :: "lock_options \<Rightarrow> lock_state \<Rightarrow> bool" where
  "young opt s \<longleftrightarrow> (case lk_file s of None \<Rightarrow> True | Some f \<Rightarrow> lk_now s - lf_mtime f \<le> lo_stale opt)"

inductive timely :: "(nat \<Rightarrow> nat) \<Rightarrow> lock_options \<Rightarrow> lock_state \<Rightarrow> bool" for host_of opt where
  start: "timely host_of opt lock_init"
| step: "timely host_of opt s \<Longrightarrow> lock_step host_of opt a s = Some s' \<Longrightarrow> young opt s' \<Longrightarrow> timely host_of opt s'"

definition owning :: "place \<Rightarrow> bool" where
  "owning x \<longleftrightarrow> x = Critical \<or> x = Leaving \<or> x = LeaveChecked"

definition breaking :: "place \<Rightarrow> bool" where
  "breaking x \<longleftrightarrow> x = Judged \<or> x = BreakChecked \<or> (\<exists>t. x = Breaking t)"

definition at_place :: "lock_file option \<Rightarrow> nat \<Rightarrow> place \<Rightarrow> bool" where
  "at_place file p x \<longleftrightarrow>
     (x = Opened \<longrightarrow> (\<exists>f. file = Some f \<and> lf_creator f = p))
     \<and> (owning x \<longrightarrow> (\<exists>f. file = Some f \<and> lf_creator f = p \<and> lf_holder f = Some p))
     \<and> \<not> breaking x"

definition lock_inv :: "lock_state \<Rightarrow> bool" where
  "lock_inv s \<longleftrightarrow> (\<forall>p. at_place (lk_file s) p (lk_place s p))"

lemma at_place_simps [simp]:
  "at_place file p Idle" "at_place file p Trying" "at_place file p Refused" "at_place file p Waiting"
  "at_place file p Finished" "at_place file p TimedOut" "at_place file p Failed" "at_place file p Crashed"
  "\<not> at_place file p Judged" "\<not> at_place file p BreakChecked" "\<not> at_place file p (Breaking t)"
  "at_place file p Opened \<longleftrightarrow> (\<exists>f. file = Some f \<and> lf_creator f = p)"
  "at_place file p Critical \<longleftrightarrow> (\<exists>f. file = Some f \<and> lf_creator f = p \<and> lf_holder f = Some p)"
  "at_place file p Leaving \<longleftrightarrow> (\<exists>f. file = Some f \<and> lf_creator f = p \<and> lf_holder f = Some p)"
  "at_place file p LeaveChecked \<longleftrightarrow> (\<exists>f. file = Some f \<and> lf_creator f = p \<and> lf_holder f = Some p)"
  by (simp_all add: at_place_def owning_def breaking_def)

lemma lock_inv_at: "lock_inv s \<Longrightarrow> lk_place s p = x \<Longrightarrow> at_place (lk_file s) p x"
  by (auto simp: lock_inv_def)

lemma lock_inv_move: "lock_inv s \<Longrightarrow> at_place (lk_file s) p x \<Longrightarrow> lock_inv (move p x s)"
  by (auto simp: lock_inv_def move_def)

lemma lock_inv_frame [simp]:
  "lock_inv (s\<lparr>lk_started := g\<rparr>) = lock_inv s" "lock_inv (s\<lparr>lk_wake := w\<rparr>) = lock_inv s"
  "lock_inv (s\<lparr>lk_dead := d\<rparr>) = lock_inv s" "lock_inv (s\<lparr>lk_now := n\<rparr>) = lock_inv s"
  by (simp_all add: lock_inv_def)

text \<open>Only the creator of the file can be in a place that needs it.\<close>

lemma at_place_other:
  "at_place (Some f) q x \<Longrightarrow> lf_creator f \<noteq> q \<Longrightarrow> at_place file' q x"
  by (cases x) simp_all

lemma lock_inv_file:
  assumes "lock_inv s" "lk_file s = Some f" "lf_creator f = p" "at_place file' p x"
  shows "lock_inv ((move p x s)\<lparr>lk_file := file'\<rparr>)"
  using assms at_place_other [of f] by (auto simp: lock_inv_def move_def)

lemma lock_inv_fresh:
  assumes "lock_inv s" "lk_file s = None" "at_place file' p x"
  shows "lock_inv ((move p x s)\<lparr>lk_file := file'\<rparr>)"
proof -
  have "at_place None q y \<Longrightarrow> at_place file' q y" for q y by (cases y) simp_all
  with assms show ?thesis by (auto simp: lock_inv_def move_def)
qed

lemma young_not_stale: "young opt s \<Longrightarrow> \<not> stale host_of (lo_stale opt) p s"
  by (auto simp: young_def stale_def split: option.splits)

lemma when_at_Some: "when_at p x s s' = Some t \<longleftrightarrow> lk_place s p = x \<and> t = s'"
  by (auto simp: when_at_def)

lemma lock_inv_step:
  assumes inv: "lock_inv s" and young: "young opt s" and step: "lock_step host_of opt a s = Some s'"
  shows "lock_inv s'"
proof (cases a)
  case (Open p)
  with step have at: "lk_place s p = Trying"
    and s': "s' = (case lk_file s of None \<Rightarrow> (move p Opened s)\<lparr>lk_file := Some \<lparr>lf_creator = p, lf_holder = None, lf_mtime = lk_now s\<rparr>\<rparr>
        | Some f \<Rightarrow> move p Refused s)" by (simp_all add: when_at_Some)
  show ?thesis unfolding s' using lock_inv_fresh [OF inv] lock_inv_move [OF inv] by (auto split: option.splits)
next
  case (Write p)
  with step have at: "lk_place s p = Opened" by (simp add: when_at_Some)
  with lock_inv_at [OF inv this] obtain f where f: "lk_file s = Some f" "lf_creator f = p" by auto
  with Write step have "s' = (move p Critical s)\<lparr>lk_file := Some (f\<lparr>lf_holder := Some p, lf_mtime := lk_now s\<rparr>)\<rparr>"
    by (simp add: when_at_Some)
  with f show ?thesis by (auto intro!: lock_inv_file [OF inv])
next
  case (Judge p)
  with step inv show ?thesis using young_not_stale [OF young, of host_of p]
    by (auto simp: when_at_Some intro: lock_inv_move)
next
  case (Read p)
  with step have "lk_place s p = Judged" by (simp add: when_at_Some)
  from lock_inv_at [OF inv this] show ?thesis by simp
next
  case (Check p)
  show ?thesis
  proof (cases "lk_place s p = Leaving")
    case True
    with lock_inv_at [OF inv this] Check step inv show ?thesis by (auto intro!: lock_inv_move)
  next
    case False
    with Check step lock_inv_at [OF inv refl, of p] show ?thesis by (simp split: place.splits option.splits)
  qed
next
  case (Unlink p)
  show ?thesis
  proof (cases "lk_place s p = LeaveChecked")
    case True
    with lock_inv_at [OF inv this] Unlink step show ?thesis by (auto intro!: lock_inv_file [OF inv])
  next
    case False
    with Unlink step lock_inv_at [OF inv refl, of p] show ?thesis by (simp split: place.splits option.splits)
  qed
next
  case (Leave p)
  with step have "lk_place s p = Critical" "s' = move p Leaving s" by (simp_all add: when_at_Some)
  with lock_inv_at [OF inv this(1)] show ?thesis by (auto intro!: lock_inv_move [OF inv])
next
  case (Crash p)
  with step have "s' = (move p Crashed s)\<lparr>lk_dead := insert p (lk_dead s)\<rparr>" by simp
  then show ?thesis using lock_inv_move [OF inv, of p Crashed] by simp
next
  case (Tick d)
  with step inv show ?thesis by (auto split: if_splits)
qed (use step inv in \<open>auto simp: when_at_Some intro: lock_inv_move split: if_splits\<close>)

lemma timely_inv: "timely host_of opt s \<Longrightarrow> lock_inv s \<and> (lk_file s = None \<or> young opt s)"
proof (induction rule: timely.induct)
  case start
  show ?case by (simp add: lock_inv_def lock_init_def)
next
  case (step s a s')
  then have "young opt s" by (auto simp: young_def)
  with step lock_inv_step show ?case by blast
qed

text \<open>C13: Mutual exclusion.  As long as no lock file grows older than the staleness limit, at most one
  caller at a time is inside the locked function, however the callers interleave, crash or fail to
  write.\<close>

theorem mutual_exclusion:
  assumes "timely host_of opt s" "lk_place s p = Critical" "lk_place s q = Critical"
  shows "p = q"
proof -
  have "lock_inv s" using timely_inv assms(1) by blast
  then have "at_place (lk_file s) p Critical" "at_place (lk_file s) q Critical"
    using lock_inv_at assms(2,3) by blast+
  then show ?thesis by auto
qed

theorem mutual_exclusion_witness:
  "\<exists>s. timely (\<lambda>_. 0) (lock_options_of None None None) s \<and> lk_place s 1 = Critical \<and> (\<forall>q. lk_place s q = Critical \<longrightarrow> q = 1)"
proof -
  let ?opt = "lock_options_of None None None"
  obtain s1 where s1: "lock_step (\<lambda>_. 0) ?opt (Begin 1) lock_init = Some s1" "young ?opt s1" "lk_place s1 1 = Trying" "lk_file s1 = None"
    by (simp add: when_at_def lock_init_def move_def young_def)
  obtain s2 where s2: "lock_step (\<lambda>_. 0) ?opt (Open 1) s1 = Some s2" "young ?opt s2" "lk_place s2 1 = Opened"
      "\<exists>f. lk_file s2 = Some f \<and> lf_creator f = 1"
    using s1 by (simp add: when_at_def move_def young_def lock_options_of_def)
  obtain s3 where s3: "lock_step (\<lambda>_. 0) ?opt (Write 1) s2 = Some s3" "young ?opt s3" "lk_place s3 1 = Critical"
    using s2 by (auto simp add: when_at_def move_def young_def lock_options_of_def)
  have "timely (\<lambda>_. 0) ?opt s3"
    using timely.step [OF timely.step [OF timely.step [OF timely.start s1(1,2)] s2(1,2)] s3(1,2)] .
  then show ?thesis using s3(3) mutual_exclusion by blast
qed

definition breaking_race :: "lock_act list" where
  "breaking_race =
     [Begin 0, Open 0, Write 0, Crash 0, Tick 30001,
      Begin 1, Open 1, Judge 1, Begin 2, Open 2, Judge 2,
      Read 1, Check 1, Unlink 1, Open 1, Write 1,
      Read 2, Check 2, Unlink 2, Open 2, Write 2]"

text \<open>The staleness break is not safe, although the code's comment says that the token check
  prevents the deletion of another owner's lock: the token it checks is read after the judgement.
  Two callers on one host that both judge the lock of a crashed third one stale can both end up
  inside the locked function.\<close>

lemma stale_break_race:
  "\<exists>s. lock_run (\<lambda>_. 0) (lock_options_of None None None) breaking_race lock_init = Some s
     \<and> lk_place s 1 = Critical \<and> lk_place s 2 = Critical"
  by (simp add: breaking_race_def lock_init_def lock_options_of_def when_at_def move_def stale_def readHolder_def)

end
