(* ===== verification/FileTree.thy ===== *)
theory FileTree
  imports Resources
begin

text \<open>
  The file tree that the effect contracts inspect: absolute paths as lists of names, nodes with
  symbolic links, and the calls of \<^verbatim>\<open>node:fs\<close> and \<^verbatim>\<open>node:path\<close> the code makes (POSIX).  The root is a
  directory; contents and texts are their UTF-8 bytes, and every file is readable.
\<close>

section \<open>Paths\<close>

type_synonym names = "string list"

definition path_text :: "names \<Rightarrow> string" where
  "path_text ns = CHR ''/'' # str_join ''/'' ns"

text \<open>\<open>resolve(p)\<close>: a relative path starts at the working directory.\<close>

definition resolve_path :: "names \<Rightarrow> string \<Rightarrow> names" where
  "resolve_path cwd p =
     (if starts_with ''/'' p then path_segments p else fold push_segment (str_split CHR ''/'' p) cwd)"

text \<open>\<open>relative(a, b)\<close> of absolute paths.\<close>

fun relative_path :: "names \<Rightarrow> names \<Rightarrow> names" where
  "relative_path (x # xs) (y # ys) =
     (if x = y then relative_path xs ys else replicate (length (x # xs)) ''..'' @ (y # ys))"
| "relative_path xs ys = replicate (length xs) ''..'' @ ys"

definition relative_text :: "names \<Rightarrow> names \<Rightarrow> string" where
  "relative_text a b = str_join ''/'' (relative_path a b)"

section \<open>Nodes\<close>

datatype node = NFile string | NDir int | NLink string | NOther int

type_synonym tree = "names \<Rightarrow> node option"

definition node_at :: "tree \<Rightarrow> names \<Rightarrow> node option" where
  "node_at T ns = (if ns = [] then Some (case T [] of Some (NDir n) \<Rightarrow> NDir n | _ \<Rightarrow> NDir 0) else T ns)"

definition is_dir :: "node \<Rightarrow> bool" where
  "is_dir n = (case n of NDir _ \<Rightarrow> True | _ \<Rightarrow> False)"

definition is_link :: "node \<Rightarrow> bool" where
  "is_link n = (case n of NLink _ \<Rightarrow> True | _ \<Rightarrow> False)"

text \<open>\<open>realpath\<close>: the names already resolved, the names left, and the links that may still be
  followed (a relative target starts at the directory of the link).\<close>

function walk :: "tree \<Rightarrow> nat \<Rightarrow> names \<Rightarrow> names \<Rightarrow> names option" where
  "walk T fuel here [] = Some here"
| "walk T fuel here (x # xs) =
     (case node_at T (here @ [x]) of
        None \<Rightarrow> None
      | Some (NLink target) \<Rightarrow>
          (case fuel of 0 \<Rightarrow> None | Suc fuel' \<Rightarrow> walk T fuel' [] (resolve_path here target @ xs))
      | Some n \<Rightarrow> if xs \<noteq> [] \<and> \<not> is_dir n then None else walk T fuel (here @ [x]) xs)"
  by pat_completeness auto

termination
  by (relation "measures [\<lambda>(T, fuel, here, left). fuel, \<lambda>(T, fuel, here, left). length left]") auto

text \<open>The kernel gives up after 40 links.\<close>

definition realpath :: "tree \<Rightarrow> names \<Rightarrow> names option" where
  "realpath T ns = walk T 40 [] ns"

definition existsSync :: "tree \<Rightarrow> names \<Rightarrow> bool" where
  "existsSync T ns \<longleftrightarrow> realpath T ns \<noteq> None"

definition stat_node :: "tree \<Rightarrow> names \<Rightarrow> node option" where
  "stat_node T ns = (case realpath T ns of None \<Rightarrow> None | Some r \<Rightarrow> node_at T r)"

definition lstat_node :: "tree \<Rightarrow> names \<Rightarrow> node option" where
  "lstat_node T ns =
     (if ns = [] then node_at T []
      else case realpath T (butlast ns) of None \<Rightarrow> None | Some r \<Rightarrow> node_at T (r @ [last ns]))"

fun node_size :: "node \<Rightarrow> int" where
  "node_size (NFile s) = int (length s)"
| "node_size (NDir n) = n"
| "node_size (NLink t) = int (length t)"
| "node_size (NOther n) = n"

section \<open>Canonical paths\<close>

text \<open>A path is canonical when no node on the way, nor the node itself, is a link.\<close>

definition canonical :: "tree \<Rightarrow> names \<Rightarrow> bool" where
  "canonical T ns \<longleftrightarrow> (\<forall>k n. k \<le> length ns \<longrightarrow> node_at T (take k ns) = Some n \<longrightarrow> \<not> is_link n)"

lemma canonical_Nil [simp]: "canonical T []"
  by (auto simp: canonical_def node_at_def is_link_def split: option.splits node.splits)

lemma canonical_snoc:
  "canonical T here \<Longrightarrow> (\<And>n. node_at T (here @ [x]) = Some n \<Longrightarrow> \<not> is_link n) \<Longrightarrow> canonical T (here @ [x])"
  by (auto simp: canonical_def le_Suc_eq)

lemma walk_invariant:
  assumes step: "\<And>here x xs n. P here (x # xs) \<Longrightarrow> node_at T (here @ [x]) = Some n \<Longrightarrow> \<not> is_link n \<Longrightarrow>
      (xs \<noteq> [] \<longrightarrow> is_dir n) \<Longrightarrow> P (here @ [x]) xs"
    and link: "\<And>here x xs ys. P here (x # xs) \<Longrightarrow> P [] ys"
    and run: "walk T fuel here left = Some r" "P here left"
  shows "P r []"
  using step run
proof (induction T fuel here "left" rule: walk.induct)
  case (2 T fuel here x xs)
  note IH = 2(1-4) and step = 2(5) and run = 2(6) and P = 2(7)
  show ?case
  proof (cases "node_at T (here @ [x])")
    case (Some n)
    show ?thesis
    proof (cases "is_link n")
      case True
      then obtain t where n: "n = NLink t" by (auto simp: is_link_def split: node.splits)
      with Some run obtain f where "fuel = Suc f" "walk T f [] (resolve_path here t @ xs) = Some r"
        by (auto split: nat.splits)
      with IH Some n step link [OF P] show ?thesis by blast
    next
      case False
      with Some run have w: "xs \<noteq> [] \<longrightarrow> is_dir n" "walk T fuel (here @ [x]) xs = Some r"
        by (auto simp: is_link_def split: node.splits if_splits)
      with step [OF P Some False] have "P (here @ [x]) xs" by blast
      moreover have "\<not> (xs \<noteq> [] \<and> \<not> is_dir n)" using w(1) by blast
      ultimately show ?thesis using IH Some False w(2) step
        by (cases n) (auto simp: is_link_def)
    qed
  qed (use run in simp)
qed simp

lemma walk_canonical:
  assumes "walk T fuel here left = Some r" "canonical T here"
  shows "canonical T r"
proof (rule walk_invariant [where P = "\<lambda>here left. canonical T here", OF _ _ assms])
  fix here x and xs :: names and n
  assume "canonical T here" "node_at T (here @ [x]) = Some n" "\<not> is_link n"
  then show "canonical T (here @ [x])" by (auto intro: canonical_snoc)
qed simp

lemma realpath_canonical: "realpath T ns = Some r \<Longrightarrow> canonical T r"
  using walk_canonical canonical_Nil by (auto simp: realpath_def)

text \<open>A canonical path that exists resolves to itself, so \<open>realpath\<close> is idempotent.\<close>

definition reachable_dirs :: "tree \<Rightarrow> names \<Rightarrow> names \<Rightarrow> bool" where
  "reachable_dirs T here left \<longleftrightarrow>
     (\<forall>k < length left. \<exists>n. node_at T (here @ take (Suc k) left) = Some n \<and> \<not> is_link n \<and> (Suc k < length left \<longrightarrow> is_dir n))"

lemma reachable_dirs_Cons:
  "reachable_dirs T here (x # xs) \<longleftrightarrow>
     (\<exists>n. node_at T (here @ [x]) = Some n \<and> \<not> is_link n \<and> (xs \<noteq> [] \<longrightarrow> is_dir n)) \<and> reachable_dirs T (here @ [x]) xs"
  by (auto simp: reachable_dirs_def less_Suc_eq_0_disj all_conj_distrib)

lemma walk_plain: "reachable_dirs T here left \<Longrightarrow> walk T fuel here left = Some (here @ left)"
proof (induction "left" arbitrary: here)
  case (Cons x xs)
  then obtain n where n: "node_at T (here @ [x]) = Some n" "\<not> is_link n" "xs \<noteq> [] \<longrightarrow> is_dir n"
    and "reachable_dirs T (here @ [x]) xs" by (auto simp: reachable_dirs_Cons)
  with Cons.IH have "walk T fuel (here @ [x]) xs = Some (here @ x # xs)" by simp
  with n show ?case by (cases n) (auto simp: is_link_def is_dir_def)
qed simp

lemma reachable_dirs_snoc:
  assumes "reachable_dirs T [] here" "\<exists>n. node_at T here = Some n \<and> is_dir n" "node_at T (here @ [x]) = Some n" "\<not> is_link n"
  shows "reachable_dirs T [] (here @ [x])"
  unfolding reachable_dirs_def
proof (intro allI impI)
  fix k assume k: "k < length (here @ [x])"
  show "\<exists>n. node_at T ([] @ take (Suc k) (here @ [x])) = Some n \<and> \<not> is_link n \<and> (Suc k < length (here @ [x]) \<longrightarrow> is_dir n)"
  proof (cases "Suc k < length (here @ [x])")
    case True
    then have kl: "k < length here" by simp
    with assms(1) obtain n where n: "node_at T (take (Suc k) here) = Some n" "\<not> is_link n" "Suc k < length here \<longrightarrow> is_dir n"
      unfolding reachable_dirs_def by auto
    then show ?thesis using assms(2) kl by (cases "Suc k = length here") auto
  next
    case False
    with k assms(3,4) show ?thesis by auto
  qed
qed

lemma root_dir: "\<exists>n. node_at T [] = Some n \<and> is_dir n"
  by (auto simp: node_at_def is_dir_def split: option.splits node.splits)

lemma walk_reachable:
  assumes "walk T fuel [] left = Some r"
  shows "reachable_dirs T [] r"
proof -
  let ?P = "\<lambda>here (left :: names). reachable_dirs T [] here \<and> (left \<noteq> [] \<longrightarrow> (\<exists>n. node_at T here = Some n \<and> is_dir n))"
  have nil: "?P [] ys" for ys :: names using root_dir by (simp add: reachable_dirs_def)
  have "?P r []"
  proof (rule walk_invariant [where P = ?P, OF _ _ assms nil])
    fix here x xs n
    assume "?P here (x # xs)" "node_at T (here @ [x]) = Some n" "\<not> is_link n" "xs \<noteq> [] \<longrightarrow> is_dir n"
    then show "?P (here @ [x]) xs" using reachable_dirs_snoc by auto
  qed (rule nil)
  then show ?thesis by simp
qed

lemma realpath_idem: "realpath T ns = Some r \<Longrightarrow> realpath T r = Some r"
  using walk_reachable [of T 40 ns r] walk_plain [of T "[]" r] by (simp add: realpath_def)

end
