(* ===== verification/EffectContract.thy ===== *)
theory EffectContract
  imports FileTree Receipt
begin

text \<open>
  Effect contracts, \<^verbatim>\<open>packages/core/src/execution/effect-contract.js\<close>: from the arguments of a local file
  tool the code infers, before the call, a postcondition it can check afterwards, or nothing.  The
  tree is the one of \<^verbatim>\<open>FileTree\<close>; its files are readable, so the \<open>catch\<close> branches of reads do not occur.
\<close>

section \<open>Operations\<close>

text \<open>\<open>replace(/([a-z0-9])([A-Z])/g, '$1_$2')\<close>.\<close>

definition lower_or_digit :: "char \<Rightarrow> bool" where
  "lower_or_digit c \<longleftrightarrow> char_range CHR ''a'' CHR ''z'' c \<or> is_digit c"

fun snake :: "string \<Rightarrow> string" where
  "snake (a # b # s) =
     (if lower_or_digit a \<and> char_range CHR ''A'' CHR ''Z'' b then a # CHR ''_'' # snake (b # s) else a # snake (b # s))"
| "snake s = s"

definition last_part :: "string \<Rightarrow> string" where
  "last_part s =
     (case filter (\<lambda>p. p \<noteq> []) (str_split CHR ''.'' (map (\<lambda>c. if c \<in> set '':/-'' \<or> c = CHR 0x5C then CHR ''.'' else c) s)) of
        [] \<Rightarrow> [] | ps \<Rightarrow> last ps)"

definition toolToken :: "string \<Rightarrow> string" where
  "toolToken v = last_part (str_lower (snake v))"

definition normalizeOperation :: "string \<Rightarrow> string" where
  "normalizeOperation name =
     (let token = toolToken name in
      if token \<in> set [''write'', ''write_file'', ''create_file'', ''put_file'', ''save_file''] then ''write''
      else if token \<in> set [''edit'', ''edit_file'', ''patch_file'', ''update_file''] then ''edit''
      else if token \<in> set [''create_directory'', ''mkdir'', ''make_directory''] then ''create_directory''
      else if token \<in> set [''move_file'', ''move'', ''rename'', ''rename_file''] then ''move''
      else if token \<in> set [''delete_file'', ''remove_file'', ''unlink'', ''delete'', ''remove''] then ''delete''
      else if token \<in> set [''delete_directory'', ''remove_directory'', ''rmdir''] then ''delete''
      else token)"

section \<open>Capture\<close>

definition DEFAULT_MAX_HASH_BYTES :: int where
  "DEFAULT_MAX_HASH_BYTES = 16 * 1024 * 1024"

definition digest_of :: "host \<Rightarrow> string \<Rightarrow> string" where
  "digest_of H s = ''sha256:'' @ sha256_hex H s"

text \<open>\<open>Math.max(lo, Number(v ?? DEFAULT))\<close>, which is \<open>NaN\<close> (here \<open>None\<close>) for no number; nothing is
  below or above \<open>NaN\<close>.\<close>

definition hash_limit :: "int \<Rightarrow> jval \<Rightarrow> int option" where
  "hash_limit lo v = (case to_number (jcoalesce v (JNum DEFAULT_MAX_HASH_BYTES)) of JNum n \<Rightarrow> Some (max lo n) | _ \<Rightarrow> None)"

definition limit_text :: "int option \<Rightarrow> string" where
  "limit_text l = (case l of Some n \<Rightarrow> int_str n | None \<Rightarrow> ''NaN'')"

fun node_kind :: "node \<Rightarrow> string" where
  "node_kind (NFile s) = ''file''"
| "node_kind (NDir n) = ''directory''"
| "node_kind (NLink t) = ''symlink''"
| "node_kind (NOther n) = ''other''"

definition capture_node :: "host \<Rightarrow> int option \<Rightarrow> node \<Rightarrow> jval" where
  "capture_node H limit n =
     JObj ([(''present'', JBool True), (''kind'', JStr (node_kind n)), (''size'', JNum (node_size n))]
       @ (case n of
            NFile s \<Rightarrow>
              (if (case limit of Some l \<Rightarrow> node_size n \<le> l | None \<Rightarrow> False) then [(''digest'', JStr (digest_of H s))]
               else [(''digest_unavailable_reason'', JStr (''file_exceeds_'' @ limit_text limit @ ''_bytes''))])
          | _ \<Rightarrow> []))"

definition absent_state :: jval where
  "absent_state = JObj [(''present'', JBool False), (''kind'', JStr ''absent'')]"

definition captureFilesystemState :: "host \<Rightarrow> tree \<Rightarrow> names \<Rightarrow> jval \<Rightarrow> int option \<Rightarrow> jval" where
  "captureFilesystemState H T cwd path limit =
     (if \<not> nonempty_str path
      then JObj [(''present'', JBool False), (''kind'', JStr ''unknown''), (''capture_error'', JStr ''path_required'')]
      else let ns = resolve_path cwd (str_of path) in
        case (lstat_node T ns, stat_node T ns) of
          (Some l, Some n) \<Rightarrow>
            if is_link l then JObj [(''present'', JBool True), (''kind'', JStr ''symlink''), (''size'', JNum (node_size l)),
              (''verification_unsupported_reason'', JStr ''symlink_target_not_auto_verified'')]
            else capture_node H limit n
        | _ \<Rightarrow> absent_state)"

section \<open>The path guard\<close>

fun existing_prefix :: "tree \<Rightarrow> nat \<Rightarrow> names \<Rightarrow> names" where
  "existing_prefix T n ns = (case n of 0 \<Rightarrow> [] | Suc m \<Rightarrow> if existsSync T (take n ns) then take n ns else existing_prefix T m ns)"

declare existing_prefix.simps [simp del]

text \<open>The deepest existing directory on the way is resolved, the rest is appended.\<close>

definition canonicalPotentialPath :: "tree \<Rightarrow> names \<Rightarrow> string \<Rightarrow> names option" where
  "canonicalPotentialPath T cwd value =
     (let absolute = resolve_path cwd value; probe = existing_prefix T (length absolute) absolute in
      case realpath T probe of None \<Rightarrow> None | Some real \<Rightarrow> Some (real @ drop (length probe) absolute))"

definition pathWithin :: "names \<Rightarrow> names \<Rightarrow> bool" where
  "pathWithin root target \<longleftrightarrow>
     (let r = relative_text root target in
      r = [] \<or> (r \<noteq> ''..'' \<and> \<not> starts_with ''../'' r \<and> \<not> starts_with ''/'' r))"

datatype guard = NoGuard | Allowed names names | Blocked string "names option"

definition real_roots :: "tree \<Rightarrow> names \<Rightarrow> jval list \<Rightarrow> names list" where
  "real_roots T cwd roots =
     List.map_filter (\<lambda>r. case realpath T (resolve_path cwd (to_str r)) of
         Some real \<Rightarrow> (case node_at T real of Some n \<Rightarrow> if is_dir n then Some real else None | None \<Rightarrow> None)
       | None \<Rightarrow> None) roots"

definition pathGuard :: "tree \<Rightarrow> names \<Rightarrow> jval \<Rightarrow> jval \<Rightarrow> guard" where
  "pathGuard T cwd path allowedRoots =
     (if \<not> is_arr allowedRoots then NoGuard
      else case canonicalPotentialPath T cwd (to_str path) of
        None \<Rightarrow> Blocked ''target_path_cannot_be_canonicalized'' None
      | Some target \<Rightarrow>
          (case find (\<lambda>root. pathWithin root target) (real_roots T cwd (arr_of allowedRoots)) of
             Some root \<Rightarrow> Allowed target root
           | None \<Rightarrow> Blocked ''target_outside_reviewed_effect_roots'' (Some target)))"

fun guard_ok :: "guard \<Rightarrow> bool" where
  "guard_ok (Blocked reason target) = False"
| "guard_ok g = True"

fun guard_value :: "guard \<Rightarrow> jval" where
  "guard_value (Allowed target root) =
     JObj [(''ok'', JBool True), (''canonical_path'', JStr (path_text target)), (''allowed_root'', JStr (path_text root))]"
| "guard_value g = JNull"

fun guard_path :: "guard \<Rightarrow> jval" where
  "guard_path (Allowed target root) = JStr (path_text target)"
| "guard_path g = JNull"

fun guard_root :: "guard \<Rightarrow> jval" where
  "guard_root (Allowed target root) = JStr (path_text root)"
| "guard_root g = JNull"

section \<open>Exact edits\<close>

text \<open>\<open>value.indexOf(old)\<close>: the text before the first occurrence.\<close>

fun before_first :: "string \<Rightarrow> string \<Rightarrow> string option" where
  "before_first old s =
     (if starts_with old s then Some []
      else case s of [] \<Rightarrow> None | c # r \<Rightarrow> (case before_first old r of None \<Rightarrow> None | Some p \<Rightarrow> Some (c # p)))"

declare before_first.simps [simp del]

primrec exactEditResult_from :: "string \<Rightarrow> jval list \<Rightarrow> string option" where
  "exactEditResult_from v [] = Some v"
| "exactEditResult_from v (e # es) =
     (let old = str_of (jget e ''oldText'') in
      if \<not> truthy e \<or> \<not> is_str (jget e ''oldText'') \<or> \<not> is_str (jget e ''newText'') \<or> old = [] then None
      else case before_first old v of
        None \<Rightarrow> None
      | Some p \<Rightarrow>
          (let rest = drop (length p + length old) v in
           if before_first old rest \<noteq> None then None
           else exactEditResult_from (p @ str_of (jget e ''newText'') @ rest) es))"

definition exactEditResult :: "string \<Rightarrow> jval \<Rightarrow> string option" where
  "exactEditResult beforeText edits =
     (if \<not> is_arr edits \<or> arr_of edits = [] then None else exactEditResult_from beforeText (arr_of edits))"

section \<open>Inference\<close>

text \<open>\<open>Buffer.from(s, 'base64')\<close>: characters outside the two alphabets are skipped, \<^verbatim>\<open>=\<close> ends the text.\<close>

definition base64_value :: "char \<Rightarrow> nat option" where
  "base64_value c =
     (let n = of_char c :: nat in
      if 65 \<le> n \<and> n \<le> 90 then Some (n - 65) else if 97 \<le> n \<and> n \<le> 122 then Some (n - 71)
      else if 48 \<le> n \<and> n \<le> 57 then Some (n + 4) else if c = CHR ''+'' \<or> c = CHR ''-'' then Some 62
      else if c = CHR ''/'' \<or> c = CHR ''_'' then Some 63 else None)"

fun base64_join :: "nat list \<Rightarrow> string" where
  "base64_join (a # b # c # d # r) =
     [char_of (a * 4 + b div 16), char_of (b mod 16 * 16 + c div 4), char_of (c mod 4 * 64 + d)] @ base64_join r"
| "base64_join [a, b, c] = [char_of (a * 4 + b div 16), char_of (b mod 16 * 16 + c div 4)]"
| "base64_join [a, b] = [char_of (a * 4 + b div 16)]"
| "base64_join _ = []"

definition base64_decode :: "string \<Rightarrow> string" where
  "base64_decode s = base64_join (List.map_filter base64_value (takeWhile (\<lambda>c. c \<noteq> CHR ''='') s))"

definition contract_base :: "string \<Rightarrow> string \<Rightarrow> props" where
  "contract_base operation confidence =
     [(''effect_contract_version'', JStr ''1.1''), (''kind'', JStr ''filesystem''), (''operation'', JStr operation),
      (''inference'', JStr ''bounded_local_filesystem''), (''retry_safe'', JBool (operation = ''create_directory'')),
      (''confidence'', JStr confidence)]"

definition path_contract :: "string \<Rightarrow> string \<Rightarrow> guard \<Rightarrow> jval \<Rightarrow> props \<Rightarrow> jval \<Rightarrow> bool \<Rightarrow> jval" where
  "path_contract operation confidence g path expected before idempotent =
     JObj (contract_base operation confidence @
       [(''path_guard'', guard_value g),
        (''verifier_spec'', JObj [(''kind'', JStr ''filesystem''), (''operation'', JStr operation), (''path'', path),
          (''expected'', JObj (expected @ [(''before'', before), (''canonical_path'', guard_path g), (''allowed_root'', guard_root g)])),
          (''idempotent'', JBool idempotent)])])"

definition is_symlink :: "jval \<Rightarrow> bool" where
  "is_symlink v \<longleftrightarrow> jget v ''kind'' = JStr ''symlink''"

definition over_limit :: "string \<Rightarrow> int option \<Rightarrow> bool" where
  "over_limit s limit = (case limit of Some l \<Rightarrow> int (length s) > l | None \<Rightarrow> False)"

definition write_content :: "jval \<Rightarrow> string option" where
  "write_content input =
     (if jget input ''content'' \<noteq> JUndef then Some (to_str (jget input ''content''))
      else if is_str (jget input ''content_base64'') then Some (base64_decode (str_of (jget input ''content_base64'')))
      else None)"

definition infer_write :: "host \<Rightarrow> jval \<Rightarrow> jval \<Rightarrow> guard \<Rightarrow> jval \<Rightarrow> int option \<Rightarrow> jval option" where
  "infer_write H input path g before limit =
     (case write_content input of
        None \<Rightarrow> None
      | Some content \<Rightarrow>
          if over_limit content limit \<or> is_symlink before then None
          else Some (path_contract ''write'' ''exact'' g path [(''sha256'', JStr (digest_of H content))] before
            (jget input ''idempotent'' = JBool True \<or> jget input ''retry_safe'' = JBool True)))"

definition infer_move ::
  "host \<Rightarrow> jval \<Rightarrow> (jval \<Rightarrow> guard) \<Rightarrow> (jval \<Rightarrow> jval) \<Rightarrow> jval option" where
  "infer_move H input guardFor capture =
     (let source = or_null [jget input ''source'', jget input ''from'', jget input ''path''];
          destination = or_null [jget input ''destination'', jget input ''to'', jget input ''target''];
          sg = guardFor source; dg = guardFor destination; sb = capture source; db = capture destination in
      if \<not> truthy source \<or> \<not> truthy destination \<or> strict_eq source destination then None
      else if \<not> guard_ok sg \<or> \<not> guard_ok dg then None
      else if is_symlink sb \<or> is_symlink db then None
      else Some (JObj (contract_base ''move'' (if truthy (jget sb ''present'') then ''exact_or_bounded'' else ''bounded'') @
        [(''path_guard'', JObj [(''source'', guard_value sg), (''destination'', guard_value dg)]),
         (''verifier_spec'', JObj [(''kind'', JStr ''filesystem''), (''operation'', JStr ''move''), (''source'', source),
           (''destination'', destination),
           (''expected'', JObj [(''source_before'', sb), (''destination_before'', db),
             (''source_canonical_path'', guard_path sg), (''destination_canonical_path'', guard_path dg),
             (''source_allowed_root'', guard_root sg), (''destination_allowed_root'', guard_root dg)]),
           (''idempotent'', JBool False)])])))"

definition infer_edit :: "host \<Rightarrow> tree \<Rightarrow> names \<Rightarrow> jval \<Rightarrow> jval \<Rightarrow> guard \<Rightarrow> jval \<Rightarrow> int option \<Rightarrow> jval option" where
  "infer_edit H T cwd input path g before limit =
     (if \<not> truthy (jget before ''present'') \<or> jget before ''kind'' \<noteq> JStr ''file'' \<or> \<not> truthy (jget before ''digest'') then None
      else case stat_node T (resolve_path cwd (to_str path)) of
        Some (NFile s) \<Rightarrow>
          (if over_limit s limit then None
           else case exactEditResult s (jget input ''edits'') of
             None \<Rightarrow> None
           | Some after \<Rightarrow> Some (path_contract ''edit'' ''exact_unique_edits'' g path [(''sha256'', JStr (digest_of H after))] before False))
      | _ \<Rightarrow> None)"

definition inferFilesystemEffectContract :: "host \<Rightarrow> tree \<Rightarrow> names \<Rightarrow> jval \<Rightarrow> jval \<Rightarrow> jval option" where
  "inferFilesystemEffectContract H T cwd input options =
     (let operation = normalizeOperation (to_str (jor (jor (jor (jget input ''operation'') (jget input ''name'')) (jget input ''tool'')) (JStr [])));
          path = or_null [jget input ''path'', jget input ''target''];
          limit = hash_limit 1024 (jget options ''maxHashBytes'');
          guardFor = (\<lambda>v. pathGuard T cwd v (jget options ''allowedRoots''));
          capture = (\<lambda>v. captureFilesystemState H T cwd v limit);
          g = guardFor path; before = capture path in
      if operation = ''move'' then infer_move H input guardFor capture
      else if \<not> truthy path \<or> \<not> guard_ok g then None
      else if operation = ''write'' then infer_write H input path g before limit
      else if operation = ''create_directory'' then
        (if is_symlink before then None
         else Some (path_contract ''create_directory'' ''exact'' g path [(''kind'', JStr ''directory'')] before True))
      else if operation = ''delete'' then
        (if is_symlink before then None
         else Some (path_contract ''delete'' ''exact'' g path [(''absent'', JBool True)] before False))
      else if operation = ''edit'' \<and> jget input ''dryRun'' \<noteq> JBool True \<and> jget input ''dry_run'' \<noteq> JBool True
      then infer_edit H T cwd input path g before limit
      else None)"

definition looks_filesystem :: "string \<Rightarrow> bool" where
  "looks_filesystem token \<longleftrightarrow>
     list_ex (\<lambda>w. str_includes w token) [''file'', ''directory'', ''mkdir'', ''rename'', ''move'']
     \<or> token \<in> set [''write'', ''edit'', ''delete'', ''remove'', ''unlink'']"

definition inferMcpEffectContract :: "host \<Rightarrow> tree \<Rightarrow> names \<Rightarrow> jval \<Rightarrow> jval \<Rightarrow> jval option" where
  "inferMcpEffectContract H T cwd item options =
     (let params = jget item ''params'';
          name = to_str (jor (jor (jget params ''name'') (jget params ''tool'')) (JStr []));
          args = (if is_obj (jget params ''arguments'') then jget params ''arguments'' else JObj []) in
      if \<not> looks_filesystem (toolToken name) then None
      else inferFilesystemEffectContract H T cwd (jspread (JObj [(''name'', JStr name), (''operation'', JStr name)]) args) options)"

end
