(* ===== verification/EffectReceipt.thy ===== *)
theory EffectReceipt
  imports Grant
begin

text \<open>
  Effect receipts, \<^verbatim>\<open>packages/core/src/execution/effect-receipt.js\<close>: what an executor observed of an
  effect, bound to the lease it used, with the quality and the boundary of the observation.
\<close>

definition DEFAULT_BOUNDARIES :: "(string \<times> string) list" where
  "DEFAULT_BOUNDARIES =
     [(''requested_only'', ''requested-action-only''), (''process_return_observed'', ''process-return''),
      (''local_state_observed'', ''local-state''), (''remote_response_observed'', ''remote-response''),
      (''complete_for_adapter'', ''adapter-defined-complete''), (''partial'', ''partial-observation''),
      (''ambiguous'', ''ambiguous-effect'')]"

definition normalizeQuality :: "jval \<Rightarrow> jval \<Rightarrow> jval res" where
  "normalizeQuality value version =
     (if version = JStr ''1.0'' then Inr (jor value (JStr ''unavailable''))
      else throw_if (one_of [''complete-for-adapter'', ''inferred'', ''unavailable''] value)
        (''legacy observation quality '' @ to_str value @ '' requires EffectReceipt v1.0 or an explicit Observation Quality value'')
        (Inr (jor value (JStr ''requested_only''))))"

definition capability_boundary :: "jval \<Rightarrow> jval \<Rightarrow> jval" where
  "capability_boundary descriptor quality =
     (if jget descriptor ''contract_version'' = JStr ''1.1''
      then find_or_null (\<lambda>c. strict_eq (jget c ''quality'') quality) (\<lambda>c. jget c ''boundary'') (arr_of (jget descriptor ''observation_capabilities''))
      else JNull)"

definition boundaryFor :: "jval \<Rightarrow> jval \<Rightarrow> jval \<Rightarrow> jval res" where
  "boundaryFor quality outcome options =
     (let given = jor (jget options ''observationBoundary'') (jget outcome ''observation_boundary'');
          declared = capability_boundary (jget options ''descriptor'') quality in
      if truthy given then Inr (JStr (to_str given))
      else if truthy declared then Inr declared
      else if one_of [''requested_only'', ''ambiguous''] quality then Inr (JStr (the (map_of DEFAULT_BOUNDARIES (str_of quality))))
      else Inl (Error (''EffectReceipt v1.1 '' @ to_str quality @ '' requires an adapter descriptor or explicit observationBoundary'')))"

definition signEffectReceipt :: "host \<Rightarrow> jval \<Rightarrow> jval \<Rightarrow> jval res" where
  "signEffectReceipt H receipt secret = sign_validated H ''effect receipt'' validateEffectReceipt receipt secret"

interpretation effect_signer: signer H "signEffectReceipt H" "\<lambda>v. validateEffectReceipt v = []" for H
  by unfold_locales (auto simp: signEffectReceipt_def sign_validated_Inr)

definition effect_fields ::
  "host \<Rightarrow> jval \<Rightarrow> jval \<Rightarrow> jval \<Rightarrow> jval \<Rightarrow> string \<Rightarrow> string \<Rightarrow> jval \<Rightarrow> jval \<Rightarrow> jval" where
  "effect_fields H lease outcome options version started completed quality boundary =
     (let v11 = version = JStr ''1.1'' in
      JObj ([(''effect_version'', version), (''effect_id'', jor (jget options ''effectId'') (JStr (''effect_'' @ fresh_uuid H 0))),
          (''lease_id'', jget lease ''lease_id''), (''decision_id'', jget lease ''decision_id''),
          (''adapter'', jor (jor (jget options ''adapter'') (jget outcome ''adapter'')) (JStr ''unknown-adapter''))]
        @ when_prop v11 ''adapter_contract_version''
            (jor (jor (jget (jget options ''descriptor'') ''contract_version'') (jget options ''adapterContractVersion'')) (JStr ''1.1''))
        @ [(''started_at'', JStr started), (''completed_at'', JStr completed),
          (''status'', jor (jget outcome ''status'') (JStr ''unknown'')), (''observation_quality'', quality)]
        @ when_prop v11 ''observation_boundary'' boundary
        @ [(''requested'', jor (jget outcome ''requested'') (JObj [])), (''observed'', jor (jget outcome ''observed'') (JObj [])),
          (''error'', jor (jget outcome ''error'') JNull)]))"

definition buildEffectReceipt :: "host \<Rightarrow> jval \<Rightarrow> jval \<Rightarrow> jval \<Rightarrow> jval res" where
  "buildEffectReceipt H lease outcome options =
     (let version = jor (jget options ''effectVersion'') (JStr ''1.1'') in
      throw_if (\<not> truthy (jget lease ''lease_id'')) ''effect receipt requires an execution lease''
     (bind_res (to_iso (date_or_now H (jor (jget options ''startedAt'') (jget outcome ''started_at'')))) (\<lambda>started.
      bind_res (to_iso (date_or_now H (jor (jget options ''completedAt'') (jget outcome ''completed_at'')))) (\<lambda>completed.
      bind_res (normalizeQuality (jget outcome ''observation_quality'') version) (\<lambda>quality.
      bind_res (if version = JStr ''1.1'' then boundaryFor quality outcome options else Inr JUndef) (\<lambda>boundary.
      let receipt = effect_fields H lease outcome options version started completed quality boundary in
      throw_if (validateEffectReceipt receipt \<noteq> []) (''invalid effect receipt: '' @ join_errors (validateEffectReceipt receipt))
     (if truthy (jget options ''secret'') then signEffectReceipt H receipt (jget options ''secret'') else Inr receipt)))))))"

definition effect_lease_errors :: "jval \<Rightarrow> jval \<Rightarrow> string list" where
  "effect_lease_errors receipt lease =
     (if \<not> truthy lease then []
      else err_if (\<not> strict_eq (jget receipt ''lease_id'') (jget lease ''lease_id'')) ''effect receipt lease mismatch''
        @ err_if (\<not> strict_eq (jget receipt ''decision_id'') (jget lease ''decision_id'')) ''effect receipt decision mismatch'')"

definition verifyEffectReceipt :: "host \<Rightarrow> jval \<Rightarrow> jval \<Rightarrow> string list res" where
  "verifyEffectReceipt H receipt options =
     (let lease = jget options ''lease''; secret = jget options ''secret''; required = not_false (jget options ''requireSignature'') in
      bind_res (signature_errors (signEffectReceipt H) ''signed effect receipt required'' ''effect receipt signature mismatch''
          False receipt secret) (\<lambda>sig.
      bind_res (if truthy lease
          then bind_res (evaluateObligations H (jor (jget lease ''obligations'') (JArr []))
              (jspread (jget options ''obligationContext'') (JObj [(''effectReceipt'', receipt)])) ''post'') (\<lambda>e. Inr (oe_errors e))
          else Inr []) (\<lambda>obligations.
        Inr (validateEffectReceipt receipt @ effect_lease_errors receipt lease
          @ err_if (time_lt (date_or_zero (jget receipt ''completed_at'')) (date_or_zero (jget receipt ''started_at'')))
              ''effect receipt completed_at precedes started_at''
          @ err_if (required \<and> \<not> truthy secret) ''effect receipt verification secret is required''
          @ sig @ obligations))))"

end
