(* ===== verification/EffectVerification.thy ===== *)
theory EffectVerification
  imports EffectContract EffectReceipt Envelope
begin

text \<open>
  Verification of effects, \<^verbatim>\<open>packages/core/src/execution/effect-verification.js\<close>: the checks of a
  postcondition on the file tree, on git, on an exit code or by a probe, their binding to a receipt
  and a lease, and the decision whether to retry.  The git program is a parameter, and so is the
  answer of an HTTP probe.
\<close>

section \<open>Verification records\<close>

definition vrecord :: "string \<Rightarrow> string \<Rightarrow> jval \<Rightarrow> jval" where
  "vrecord state reason evidence = JObj [(''state'', JStr state), (''reason'', JStr reason), (''evidence'', evidence)]"

definition normalizeExpected :: "jval \<Rightarrow> jval \<Rightarrow> jval" where
  "normalizeExpected requested options =
     jcoalesce (jcoalesce (jcoalesce (jget options ''expected'') (jget requested ''expected'')) (jget requested ''postcondition'')) (JObj [])"

definition retrySafeRequested :: "jval \<Rightarrow> jval \<Rightarrow> bool" where
  "retrySafeRequested requested options \<longleftrightarrow>
     jget options ''retrySafe'' = JBool True \<or> jget options ''idempotent'' = JBool True
     \<or> jget requested ''retry_safe'' = JBool True \<or> jget requested ''idempotent'' = JBool True"

definition verification_identifier :: "host \<Rightarrow> jval \<Rightarrow> jval \<Rightarrow> jval \<Rightarrow> jval" where
  "verification_identifier H receipt verification options =
     jor (jget options ''verificationId'') (JStr (''verify_'' @ take 24 (sha256_hex H (canonicalStringify (JObj [
       (''effect_id'', or_null [jget receipt ''effect_id'']), (''state'', jor (jget verification ''state'') (JStr ''invalid'')),
       (''evidence'', jor (jget verification ''evidence'') (JObj [])), (''nonce'', jor (jget options ''nonce'') (JStr []))])))))"

definition bindVerification :: "host \<Rightarrow> jval \<Rightarrow> jval \<Rightarrow> jval \<Rightarrow> jval res" where
  "bindVerification H receipt verification options =
     bind_res (to_iso (date_or_now H (jget options ''verifiedAt''))) (\<lambda>at.
       let out = JObj [(''verification_version'', JStr ''1.0''),
         (''verification_id'', verification_identifier H receipt verification options),
         (''effect_id'', or_null [jget receipt ''effect_id'']), (''lease_id'', or_null [jget receipt ''lease_id'']),
         (''decision_id'', or_null [jget receipt ''decision_id'']),
         (''action_digest'', or_null [jget (jget options ''lease'') ''action_digest'', jget options ''actionDigest'']),
         (''verified_at'', JStr at), (''state'', jor (jget verification ''state'') (JStr ''invalid'')),
         (''reason'', JStr (to_str (jor (jget verification ''reason'') (JStr ''verification result missing'')))),
         (''evidence'', jor (jget verification ''evidence'') (JObj []))] in
       Inr (jset out ''verification_digest'' (JStr (digest_of H (canonicalStringify out)))))"

definition buildEffectVerificationRecord :: "host \<Rightarrow> jval \<Rightarrow> jval \<Rightarrow> jval \<Rightarrow> jval res" where
  "buildEffectVerificationRecord H receipt verification options =
     (let lease = jget options ''lease'' in
      if \<not> truthy (jget lease ''lease_id'') \<or> \<not> truthy (jget lease ''action_digest'')
      then bindVerification H receipt (vrecord ''invalid'' ''effect verification requires the exact execution lease with action_digest''
        (JObj [(''binding_error'', JStr ''execution_lease_required'')])) options
      else bind_res (verifyEffectReceipt H receipt (JObj [(''lease'', lease), (''requireSignature'', JBool False)])) (\<lambda>errors.
        if errors \<noteq> [] then bindVerification H receipt (vrecord ''invalid'' (''invalid effect receipt: '' @ join_errors errors)
          (JObj [(''errors'', JArr (map JStr errors))])) options
        else if truthy (jget options ''actionDigest'') \<and> \<not> strict_eq (jget options ''actionDigest'') (jget lease ''action_digest'')
        then bindVerification H receipt (vrecord ''invalid'' ''action digest binding mismatch''
          (JObj [(''binding_error'', JStr ''action_digest_mismatch'')])) options
        else bindVerification H receipt verification options))"

section \<open>File postconditions\<close>

definition snapshot :: "host \<Rightarrow> tree \<Rightarrow> names \<Rightarrow> jval \<Rightarrow> jval" where
  "snapshot H T cwd target =
     (if \<not> truthy target then JObj [(''present'', JBool False), (''kind'', JStr ''unknown'')]
      else if \<not> is_str target then absent_state
      else let ns = resolve_path cwd (str_of target) in
        case (lstat_node T ns, stat_node T ns) of
          (Some l, Some n) \<Rightarrow>
            if is_link l then JObj [(''present'', JBool True), (''kind'', JStr ''symlink''), (''size'', JNum (node_size l))]
            else JObj ([(''present'', JBool True), (''kind'', JStr (node_kind n)), (''size'', JNum (node_size n))]
              @ (case n of NFile s \<Rightarrow> [(''digest'', JStr (digest_of H s))] | _ \<Rightarrow> []))
        | _ \<Rightarrow> absent_state)"

definition matches :: "jval \<Rightarrow> jval \<Rightarrow> bool" where
  "matches current before =
     (if \<not> is_obj before \<and> \<not> is_arr before then False
      else if truthy (jget current ''present'') \<noteq> truthy (jget before ''present'') then False
      else if \<not> truthy (jget before ''present'') then True
      else if truthy (jget before ''kind'') \<and> jget before ''kind'' \<noteq> JStr ''unknown''
          \<and> \<not> strict_eq (jget current ''kind'') (jget before ''kind'') then False
      else if truthy (jget before ''digest'') then strict_eq (jget current ''digest'') (jget before ''digest'')
      else is_int (jget before ''size'') \<and> jget before ''size'' = jget current ''size'')"

text \<open>The verifier's own containment test, and the re-check of the path before looking at it.\<close>

definition verifier_pathWithin :: "names \<Rightarrow> names \<Rightarrow> bool" where
  "verifier_pathWithin root target \<longleftrightarrow>
     (let r = relative_text root target in
      r = [] \<or> (\<not> starts_with ''..'' r \<and> \<not> starts_with (path_text root @ ''.'') (path_text target)))"

definition pathBinding :: "tree \<Rightarrow> names \<Rightarrow> jval \<Rightarrow> jval \<Rightarrow> jval \<Rightarrow> jval" where
  "pathBinding T cwd path expectedCanonical allowedRoot =
     (if \<not> truthy expectedCanonical \<and> \<not> truthy allowedRoot then JObj [(''ok'', JBool True)]
      else case (if truthy path then canonicalPotentialPath T cwd (to_str path) else None) of
        None \<Rightarrow> JObj [(''ok'', JBool False), (''reason'', JStr ''filesystem target path can no longer be canonicalized'')]
      | Some current \<Rightarrow>
          (let expected = resolve_path cwd (to_str expectedCanonical); root = resolve_path cwd (to_str allowedRoot) in
           if truthy expectedCanonical \<and> current \<noteq> expected
           then JObj [(''ok'', JBool False), (''reason'', JStr ''filesystem target canonical path changed after dispatch''),
             (''current'', JStr (path_text current)), (''expected'', JStr (path_text expected))]
           else if truthy allowedRoot \<and> \<not> verifier_pathWithin root current
           then JObj [(''ok'', JBool False), (''reason'', JStr ''filesystem target resolved outside the reviewed effect root''),
             (''current'', JStr (path_text current)), (''allowed_root'', JStr (path_text root))]
           else JObj [(''ok'', JBool True), (''current'', JStr (path_text current))]))"

definition binding_ok :: "jval \<Rightarrow> bool" where
  "binding_ok b \<longleftrightarrow> truthy (jget b ''ok'')"

text \<open>The evidence of a check: what was seen, whether the effect is applied, and whether a retry is safe.\<close>

definition applied :: "props \<Rightarrow> jval \<Rightarrow> bool \<Rightarrow> jval" where
  "applied seen effect safe = jspread (JObj seen) (JObj [(''effect_applied'', effect), (''retry_safe'', JBool safe)])"

definition seen_state :: "jval \<Rightarrow> jval \<Rightarrow> props" where
  "seen_state path current = props_of (jspread (JObj [(''path'', path)]) current)"

definition verify_move :: "host \<Rightarrow> tree \<Rightarrow> names \<Rightarrow> jval \<Rightarrow> jval \<Rightarrow> jval \<Rightarrow> bool \<Rightarrow> jval" where
  "verify_move H T cwd source destination expected safe =
     (let sb = pathBinding T cwd source (jor (jget expected ''source_canonical_path'') (jget expected ''sourceCanonicalPath''))
            (jor (jget expected ''source_allowed_root'') (jget expected ''sourceAllowedRoot''));
          db = pathBinding T cwd destination (jor (jget expected ''destination_canonical_path'') (jget expected ''destinationCanonicalPath''))
            (jor (jget expected ''destination_allowed_root'') (jget expected ''destinationAllowedRoot''));
          src = snapshot H T cwd source; dst = snapshot H T cwd destination;
          sbefore = or_null [jget expected ''source_before'', jget expected ''sourceBefore''];
          dbefore = or_null [jget expected ''destination_before'', jget expected ''destinationBefore''];
          seen = [(''source'', source), (''destination'', destination), (''source_state'', src), (''destination_state'', dst)];
          moved = truthy (jget dst ''present'') \<and> truthy (jget sbefore ''present'') \<and> jget sbefore ''kind'' = JStr ''file''
            \<and> truthy (jget sbefore ''digest'') \<and> jget dst ''kind'' = JStr ''file'' \<and> strict_eq (jget dst ''digest'') (jget sbefore ''digest'') in
      if \<not> truthy source \<or> \<not> truthy destination
      then vrecord ''unknown'' ''filesystem move verifier requires source and destination'' (JObj [])
      else if \<not> binding_ok sb \<or> \<not> binding_ok db
      then vrecord ''partial_or_ambiguous'' (str_join ''; '' (map to_str (filter truthy [jget sb ''reason'', jget db ''reason''])))
        (JObj [(''source'', source), (''destination'', destination), (''effect_applied'', JNull), (''retry_safe'', JBool False),
          (''path_binding'', JObj [(''source'', sb), (''destination'', db)])])
      else if \<not> truthy (jget src ''present'') \<and> moved
      then vrecord ''confirmed_success''
        ''filesystem move postcondition is confirmed: source is absent and destination matches the pre-dispatch source''
        (applied seen (JBool True) False)
      else if matches src sbefore \<and> matches dst dbefore
      then vrecord ''confirmed_failure''
        ''filesystem source and destination still match the captured pre-dispatch state; the requested move is not observed''
        (applied seen (JBool False) safe)
      else vrecord ''partial_or_ambiguous''
        ''filesystem move state differs from both the expected postcondition and captured pre-dispatch state''
        (applied seen JNull False))"

definition verify_delete :: "jval \<Rightarrow> jval \<Rightarrow> jval \<Rightarrow> bool \<Rightarrow> jval" where
  "verify_delete path current before safe =
     (if \<not> truthy (jget current ''present'')
      then vrecord ''confirmed_success'' ''target is absent after requested deletion''
        (applied [(''path'', path), (''present'', JBool False)] (JBool True) False)
      else if matches current before
      then vrecord ''confirmed_failure'' ''target still exactly matches the captured pre-dispatch state; deletion is not observed''
        (applied (seen_state path current) (JBool False) safe)
      else vrecord ''partial_or_ambiguous''
        ''target exists but no longer matches the captured pre-dispatch state; deletion/recreation or competing effects remain possible''
        (applied (seen_state path current) JNull False))"

definition verify_directory :: "jval \<Rightarrow> jval \<Rightarrow> jval \<Rightarrow> bool \<Rightarrow> jval" where
  "verify_directory path current before safe =
     (if truthy (jget current ''present'') \<and> jget current ''kind'' = JStr ''directory''
      then vrecord ''confirmed_success'' ''expected filesystem directory exists'' (applied (seen_state path current) (JBool True) False)
      else if matches current before
      then vrecord ''confirmed_failure''
        ''filesystem state still matches the captured pre-dispatch state; directory creation is not observed''
        (applied (seen_state path current) (JBool False) safe)
      else vrecord ''partial_or_ambiguous'' ''filesystem directory postcondition is not satisfied and no-effect is not proven''
        (applied (seen_state path current) JNull False))"

definition verify_absent :: "jval \<Rightarrow> jval \<Rightarrow> bool \<Rightarrow> jval" where
  "verify_absent path before safe =
     (if truthy before \<and> jget before ''present'' = JBool False
      then vrecord ''confirmed_failure''
        ''target remains absent exactly as captured before dispatch; requested create/write effect is not observed''
        (applied [(''path'', path), (''present'', JBool False)] (JBool False) safe)
      else vrecord ''partial_or_ambiguous''
        ''target is absent after requested create/write, but the captured pre-dispatch state does not prove the action never occurred''
        (applied [(''path'', path), (''present'', JBool False)] JNull False))"

definition without_scheme :: "string \<Rightarrow> string" where
  "without_scheme s = (if starts_with ''sha256:'' s then drop 7 s else s)"

definition verify_digest :: "props \<Rightarrow> jval \<Rightarrow> jval \<Rightarrow> jval \<Rightarrow> bool \<Rightarrow> jval" where
  "verify_digest seen current before wanted safe =
     (let expected = JStr (''sha256:'' @ without_scheme (to_str wanted));
          seen' = seen @ [(''digest'', jget current ''digest''), (''expected_digest'', expected)] in
      if jget current ''kind'' \<noteq> JStr ''file''
      then vrecord ''partial_or_ambiguous''
        ''filesystem target exists but is not a regular file; exact content postcondition is not satisfied'' (applied seen JNull False)
      else if jget current ''digest'' = expected
      then vrecord ''confirmed_success'' ''filesystem content digest matches expected postcondition'' (applied seen' (JBool True) False)
      else if matches current before
      then vrecord ''confirmed_failure''
        ''filesystem target still exactly matches the captured pre-dispatch state; requested content was not applied''
        (applied seen' (JBool False) safe)
      else vrecord ''partial_or_ambiguous''
        ''filesystem content digest does not match the expected postcondition or captured pre-dispatch state'' (applied seen' JNull False))"

definition verify_size :: "props \<Rightarrow> jval \<Rightarrow> jval \<Rightarrow> jval \<Rightarrow> bool \<Rightarrow> jval" where
  "verify_size seen current before wanted safe =
     (let seen' = seen @ [(''expected_size'', wanted)] in
      if jget current ''size'' = wanted
      then vrecord ''confirmed_success'' ''filesystem size matches expected postcondition'' (applied seen' (JBool True) False)
      else if matches current before
      then vrecord ''confirmed_failure''
        ''filesystem target still matches captured pre-dispatch state; requested size postcondition was not applied''
        (applied seen' (JBool False) safe)
      else vrecord ''partial_or_ambiguous''
        ''filesystem size does not match expected postcondition or captured pre-dispatch state'' (applied seen' JNull False))"

definition verify_content :: "jval \<Rightarrow> jval \<Rightarrow> jval \<Rightarrow> jval \<Rightarrow> bool \<Rightarrow> jval" where
  "verify_content path current before expected safe =
     (let seen = [(''path'', path), (''present'', JBool True), (''size'', jget current ''size''), (''kind'', jget current ''kind'')];
          wanted = jor (jget expected ''sha256'') (jget expected ''digest'') in
      if truthy wanted then verify_digest seen current before wanted safe
      else if is_int (jget expected ''size'') then verify_size seen current before (jget expected ''size'') safe
      else vrecord ''partial_or_ambiguous'' ''filesystem target exists, but no exact content postcondition was supplied''
        (applied seen JNull False))"

definition fs_operation :: "jval \<Rightarrow> jval \<Rightarrow> string" where
  "fs_operation requested options =
     str_lower (to_str (or_null [jget options ''operation'', jget requested ''operation'', jget requested ''action'', JStr []]))"

definition verifyFilesystemPostcondition :: "host \<Rightarrow> tree \<Rightarrow> names \<Rightarrow> jval \<Rightarrow> jval \<Rightarrow> jval" where
  "verifyFilesystemPostcondition H T cwd requested options =
     (let operation = fs_operation requested options; expected = normalizeExpected requested options;
          safe = retrySafeRequested requested options;
          path = jor (jor (jor (jget options ''path'') (jget requested ''path'')) (jget requested ''target'')) (jget requested ''resource'');
          binding = pathBinding T cwd path (jor (jget expected ''canonical_path'') (jget expected ''canonicalPath''))
            (jor (jget expected ''allowed_root'') (jget expected ''allowedRoot''));
          current = snapshot H T cwd path; before = or_null [jget expected ''before'', jget expected ''precondition''] in
      if str_includes ''move'' operation \<or> str_includes ''rename'' operation
      then verify_move H T cwd (jor (jor (jor (jget options ''source'') (jget requested ''source'')) (jget requested ''from'')) path)
        (jor (jor (jor (jget options ''destination'') (jget requested ''destination'')) (jget requested ''to'')) (jget requested ''target''))
        expected safe
      else if \<not> truthy path then vrecord ''unknown'' ''filesystem verifier requires an explicit path'' (JObj [])
      else if \<not> binding_ok binding
      then vrecord ''partial_or_ambiguous'' (to_str (jget binding ''reason''))
        (JObj [(''path'', path), (''effect_applied'', JNull), (''retry_safe'', JBool False), (''path_binding'', binding)])
      else if list_ex (\<lambda>v. str_includes v operation) [''delete'', ''remove'', ''unlink''] then verify_delete path current before safe
      else if str_includes ''create_directory'' operation \<or> str_includes ''mkdir'' operation \<or> jget expected ''kind'' = JStr ''directory''
      then verify_directory path current before safe
      else if \<not> truthy (jget current ''present'') then verify_absent path before safe
      else verify_content path current before expected safe)"

section \<open>Git, processes and probes\<close>

text \<open>The git program answers with its exit status (none if it could not start), output and errors.\<close>

record git_answer =
  ga_ok :: bool
  ga_value :: string
  ga_error :: string

type_synonym git = "string list \<Rightarrow> int option \<times> string \<times> string"

definition git_call :: "git \<Rightarrow> string \<Rightarrow> string list \<Rightarrow> git_answer" where
  "git_call git repo args =
     (case git ([''-C'', repo] @ args) of (status, out, err) \<Rightarrow>
        \<lparr>ga_ok = (status = Some 0), ga_value = str_trim out, ga_error = str_trim err\<rparr>)"

definition git_seen :: "jval \<Rightarrow> jval \<Rightarrow> jval \<Rightarrow> props" where
  "git_seen repo remote ref = [(''repo'', repo), (''remote'', remote), (''ref'', ref)]"

definition verify_branch :: "git \<Rightarrow> jval \<Rightarrow> jval \<Rightarrow> bool \<Rightarrow> jval" where
  "verify_branch git repo ref safe =
     (if \<not> truthy ref then vrecord ''unknown'' ''git branch verification requires expected.ref or branch'' (JObj [])
      else let r = git_call git (to_str repo) [''rev-parse'', ''--verify'', to_str ref] in
        if ga_ok r
        then vrecord ''confirmed_success'' ''expected git branch/ref exists''
          (jset (applied [(''repo'', repo), (''ref'', ref)] (JBool True) False) ''oid'' (JStr (ga_value r)))
        else vrecord ''confirmed_failure'' ''expected git branch/ref is absent''
          (jset (applied [(''repo'', repo), (''ref'', ref)] (JBool False) safe) ''error'' (JStr (ga_error r))))"

definition verify_commit :: "git \<Rightarrow> jval \<Rightarrow> jval \<Rightarrow> jval" where
  "verify_commit git repo expectedHead =
     (let head = git_call git (to_str repo) [''rev-parse'', ''HEAD'']; value = JStr (ga_value head) in
      if \<not> ga_ok head then vrecord ''unknown'' ''unable to read git HEAD''
        (JObj [(''repo'', repo), (''error'', JStr (ga_error head)), (''retry_safe'', JBool False)])
      else if truthy expectedHead then
        (if value = expectedHead
         then vrecord ''confirmed_success'' ''git HEAD matches expected commit''
           (applied [(''repo'', repo), (''head'', value)] (JBool True) False)
         else vrecord ''partial_or_ambiguous''
           ''git HEAD does not match expected commit; the attempted commit may still exist or history may have advanced''
           (applied [(''repo'', repo), (''head'', value), (''expected_head'', expectedHead)] JNull False))
      else vrecord ''partial_or_ambiguous'' ''git HEAD is observable, but no expected commit was supplied''
        (applied [(''repo'', repo), (''head'', value)] JNull False))"

definition first_word :: "string \<Rightarrow> string" where
  "first_word s = takeWhile (\<lambda>c. \<not> is_blank c) s"

definition verify_push :: "git \<Rightarrow> jval \<Rightarrow> jval \<Rightarrow> jval \<Rightarrow> bool \<Rightarrow> jval" where
  "verify_push git repo remote ref network =
     (if \<not> truthy ref then vrecord ''unknown'' ''git push verification requires a ref'' (JObj [])
      else if \<not> network
      then vrecord ''partial_or_ambiguous''
        ''remote push effect requires an explicit remote postcondition check; network verification is disabled by default''
        (applied (git_seen repo remote ref) JNull False)
      else
        let local = git_call git (to_str repo) [''rev-parse'', to_str ref]; remoteRef = git_call git (to_str repo) [''ls-remote'', to_str remote, to_str ref];
            remoteOid = first_word (ga_value remoteRef);
            seen = git_seen repo remote ref @ [(''local_oid'', JStr (ga_value local)), (''remote_oid'', JStr remoteOid)] in
        if \<not> ga_ok local \<or> \<not> ga_ok remoteRef
        then vrecord ''unknown'' ''unable to compare local and remote git refs''
          (JObj (git_seen repo remote ref @ [(''local_error'', JStr (ga_error local)), (''remote_error'', JStr (ga_error remoteRef)),
            (''retry_safe'', JBool False)]))
        else if remoteOid \<noteq> [] \<and> remoteOid = ga_value local
        then vrecord ''confirmed_success'' ''remote git ref matches local expected ref'' (applied seen (JBool True) False)
        else vrecord ''partial_or_ambiguous''
          ''remote git ref does not match local expected ref; remote history may have changed after or around the attempted push''
          (applied seen JNull False))"

definition verifyGitPostcondition :: "git \<Rightarrow> names \<Rightarrow> jval \<Rightarrow> jval \<Rightarrow> jval" where
  "verifyGitPostcondition git cwd requested options =
     (let repo = jor (jor (jor (jget options ''repo'') (jget requested ''repo'')) (jget requested ''cwd'')) (JStr (path_text cwd));
          operation = fs_operation requested options; expected = normalizeExpected requested options;
          ref = jor (jor (jget expected ''ref'') (jget requested ''ref'')) (jget requested ''branch'') in
      if str_includes ''branch'' operation then verify_branch git repo ref (retrySafeRequested requested options)
      else if str_includes ''commit'' operation
      then verify_commit git repo (jor (jor (jget expected ''head'') (jget expected ''oid'')) (jget requested ''expected_head''))
      else if str_includes ''push'' operation
      then verify_push git repo (jor (jor (jget expected ''remote'') (jget requested ''remote'')) (JStr ''origin'')) ref
        (jget options ''allowNetwork'' = JBool True)
      else vrecord ''unknown'' ''unsupported git postcondition operation''
        (JObj [(''repo'', repo), (''operation'', JStr operation), (''retry_safe'', JBool False)]))"

definition verifyProcessPostcondition :: "jval \<Rightarrow> jval \<Rightarrow> jval" where
  "verifyProcessPostcondition requested options =
     (let exitCode = jcoalesce (jget options ''exitCode'') (jget requested ''exit_code'');
          free = jget options ''sideEffectFree'' = JBool True \<or> jget requested ''side_effect_free'' = JBool True;
          seen = [(''exit_code'', exitCode)] in
      if \<not> is_int exitCode then vrecord ''unknown'' ''process verifier requires an observed integer exit code'' (JObj [])
      else if free then
        (if exitCode = JNum 0
         then vrecord ''confirmed_success'' ''side-effect-free process completed successfully'' (applied seen (JBool True) False)
         else vrecord ''confirmed_failure'' ''side-effect-free process failed'' (applied seen (JBool False) True))
      else vrecord ''partial_or_ambiguous''
        ''process return is observed, but external side effects are not proven by exit status alone'' (applied seen JNull False))"

text \<open>The probe: absent, or the function's answer, or what it throws.\<close>

definition verifyHttpPostcondition :: "jval \<Rightarrow> jval \<Rightarrow> jval res option \<Rightarrow> jval" where
  "verifyHttpPostcondition requested options probe =
     (case probe of
        None \<Rightarrow> vrecord ''partial_or_ambiguous''
          ''HTTP response alone does not prove an external side effect; provide an explicit postcondition probe''
          (applied [(''response_status'', jcoalesce (jcoalesce (jget options ''responseStatus'') (jget requested ''response_status'')) JNull)] JNull False)
      | Some (Inl e) \<Rightarrow> vrecord ''unknown'' ''HTTP/API postcondition probe failed''
          (applied [(''error'', JStr (error_message e))] JNull False)
      | Some (Inr result) \<Rightarrow>
          (let why = (\<lambda>d. to_str (jor (jget result ''reason'') (JStr d)));
               safe = jget result ''retry_safe'' = JBool True \<or> jget result ''retrySafe'' = JBool True \<or> jget result ''no_effect_proven'' = JBool True in
           if jget result ''confirmed'' = JBool True
           then vrecord ''confirmed_success'' (why ''HTTP/API postcondition probe confirmed the requested effect'')
             (applied (props_of result) (JBool True) False)
           else if jget result ''confirmed'' = JBool False \<and> jget result ''effect_applied'' = JBool False
           then vrecord ''confirmed_failure'' (why ''HTTP/API postcondition probe confirmed the requested postcondition is absent'')
             (applied (props_of result) (JBool False) safe)
           else vrecord ''partial_or_ambiguous'' (why ''HTTP/API postcondition probe did not establish a complete effect'')
             (applied (props_of result) (jcoalesce (jget result ''effect_applied'') JNull) False)))"

section \<open>Retry\<close>

datatype disposition = DoNotRetry | SafeToRetry | VerifyBeforeRetry | ManualReview

record retry_decision =
  rd_disposition :: disposition
  rd_reason :: string
  rd_new_authority :: bool

definition verificationBindingErrors :: "jval \<Rightarrow> jval \<Rightarrow> jval \<Rightarrow> string list" where
  "verificationBindingErrors receipt v lease =
     (if \<not> truthy v then []
      else
        err_if (\<not> strict_eq (jget v ''effect_id'') (jget receipt ''effect_id'')) ''verification effect_id does not match EffectReceipt''
        @ err_if (\<not> strict_eq (jget v ''lease_id'') (jget receipt ''lease_id'')) ''verification lease_id does not match EffectReceipt''
        @ err_if (\<not> strict_eq (jget v ''decision_id'') (jget receipt ''decision_id'')) ''verification decision_id does not match EffectReceipt''
        @ err_if (\<not> truthy (jget v ''action_digest'')) ''verification action_digest is missing''
        @ (if \<not> truthy lease then []
           else err_if (\<not> strict_eq (jget lease ''lease_id'') (jget receipt ''lease_id'')) ''retry lease does not match EffectReceipt''
             @ err_if (\<not> strict_eq (jget lease ''decision_id'') (jget receipt ''decision_id'')) ''retry lease decision does not match EffectReceipt''
             @ err_if (\<not> strict_eq (jget lease ''action_digest'') (jget v ''action_digest''))
                 ''verification action_digest does not match execution lease''))"

definition retry :: "disposition \<Rightarrow> string \<Rightarrow> retry_decision" where
  "retry d reason = \<lparr>rd_disposition = d, rd_reason = reason, rd_new_authority = (d \<noteq> DoNotRetry)\<rparr>"

definition decideEffectRetry :: "jval \<Rightarrow> jval \<Rightarrow> jval \<Rightarrow> retry_decision" where
  "decideEffectRetry receipt v options =
     (let errors = verificationBindingErrors receipt v (jget options ''lease''); state = jget v ''state'';
          evidence = jget v ''evidence''; quality = jget receipt ''observation_quality''; status = jget receipt ''status'' in
      if errors \<noteq> [] then retry ManualReview (join_errors errors)
      else if state = JStr ''invalid'' then retry ManualReview ''effect evidence or verification binding is invalid''
      else if state = JStr ''confirmed_success''
      then retry DoNotRetry ''requested effect is confirmed; retry could duplicate the side effect''
      else if state = JStr ''confirmed_failure'' \<and> jget evidence ''effect_applied'' = JBool False \<and> jget evidence ''retry_safe'' = JBool True
      then retry SafeToRetry
        ''postcondition plus verifier contract establish duplicate-safe retry; a retry still requires a fresh one-use execution authority''
      else if state = JStr ''confirmed_failure''
      then retry VerifyBeforeRetry
        ''the desired postcondition is absent, but no-effect/idempotency proof is missing; do not infer retry safety''
      else if one_of [''partial_or_ambiguous'', ''unknown''] state
      then retry VerifyBeforeRetry ''effect remains partial, ambiguous, or unknown; do not retry blindly''
      else if one_of [''ambiguous'', ''partial'', ''requested_only''] quality \<or> one_of [''partial'', ''unknown''] status
      then retry VerifyBeforeRetry ''EffectReceipt does not prove a complete outcome; verify the postcondition before retry''
      else if status = JStr ''success'' \<and> quality = JStr ''complete_for_adapter''
      then retry DoNotRetry ''adapter-complete EffectReceipt reports success; do not duplicate the action''
      else if status = JStr ''failure'' \<and> quality = JStr ''complete_for_adapter'' \<and> jget options ''completeFailureMeansNoEffect'' = JBool True
      then retry SafeToRetry ''adapter contract explicitly proves a complete failure with no effect''
      else retry VerifyBeforeRetry ''no proof that retry is duplicate-safe'')"

end
