(* ===== verification/EffectProps.thy ===== *)
theory EffectProps
  imports EffectVerification "HOL-Library.Sublist"
begin

text \<open>
  What the effect contracts promise: a reviewed path stays under its root, a confirmed write is the
  requested content, and a retry is called safe only on proof.
\<close>

section \<open>Clean names\<close>

definition clean :: "names \<Rightarrow> bool" where
  "clean ns \<longleftrightarrow> list_all (\<lambda>x. x \<noteq> [] \<and> x \<noteq> ''.'' \<and> x \<noteq> ''..'' \<and> CHR ''/'' \<notin> set x) ns"

lemma clean_simps [simp]: "clean []" "clean (xs @ ys) \<longleftrightarrow> clean xs \<and> clean ys"
  by (simp_all add: clean_def)

lemma clean_drop [simp]: "clean ns \<Longrightarrow> clean (drop n ns)" "clean ns \<Longrightarrow> clean (take n ns)"
  by (auto simp: clean_def list_all_iff dest: in_set_dropD in_set_takeD)

lemma clean_push: "clean ns \<Longrightarrow> CHR ''/'' \<notin> set x \<Longrightarrow> clean (push_segment x ns)"
  by (auto simp: push_segment_def clean_def list_all_iff dest: in_set_butlastD)

lemma clean_resolve:
  assumes "clean cwd"
  shows "clean (resolve_path cwd p)"
proof -
  have "clean (fold push_segment xs ns)" if "\<forall>x\<in>set xs. CHR ''/'' \<notin> set x" "clean ns" for xs ns
    using that by (induction xs arbitrary: ns) (simp_all add: clean_push)
  moreover have "\<forall>x\<in>set (str_split CHR ''/'' s). CHR ''/'' \<notin> set x" for s by (auto dest: str_split_chars)
  moreover have "clean (path_segments s)" for s
    using path_segments_clean [of s] path_segments_chars [of _ s] by (auto simp: clean_def list_all_iff)
  ultimately show ?thesis using assms by (simp add: resolve_path_def)
qed

lemma walk_clean:
  assumes "walk T fuel here left = Some r" "clean here" "clean left"
  shows "clean r"
  using assms
proof (induction T fuel here "left" rule: walk.induct)
  case (2 T fuel here x xs)
  have c: "clean (here @ [x])" "clean xs" using "2.prems" by (simp_all add: clean_def)
  have l: "clean (resolve_path here t @ xs)" for t using "2.prems" c by (simp add: clean_resolve)
  show ?case
    using "2.prems" "2.IH" c l by (auto split: option.splits node.splits nat.splits if_splits)
qed simp

lemma realpath_clean: "realpath T ns = Some r \<Longrightarrow> clean ns \<Longrightarrow> clean r"
  using walk_clean [of T 40 "[]" ns r] by (simp add: realpath_def)

lemma canonicalPotentialPath_clean:
  "canonicalPotentialPath T cwd v = Some p \<Longrightarrow> clean cwd \<Longrightarrow> clean p"
proof -
  assume c: "canonicalPotentialPath T cwd v = Some p" and w: "clean cwd"
  let ?a = "resolve_path cwd v"
  have "\<exists>k. existing_prefix T n ns = take k ns" for n ns
    by (induction n) (subst existing_prefix.simps; auto intro: exI [of _ 0])+
  then obtain k where "existing_prefix T (length ?a) ?a = take k ?a" by blast
  then show ?thesis
    using c clean_resolve [OF w, of v]
    by (auto simp: canonicalPotentialPath_def Let_def dest: realpath_clean split: option.splits)
qed

section \<open>Containment\<close>

lemma relative_path_prefix: "relative_path xs (xs @ ys) = ys"
  by (induction xs) (cases ys; simp)+

lemma relative_path_outside: "\<not> prefix xs ys \<Longrightarrow> \<exists>r. relative_path xs ys = ''..'' # r"
proof (induction xs ys rule: relative_path.induct)
  case (1 x xs y ys)
  then show ?case by (cases "x = y") auto
qed (auto simp: neq_Nil_conv)

lemma str_join_starts: "str_join sep (x # xs) = x @ (if xs = [] then [] else sep @ str_join sep xs)"
  by (cases xs) simp_all

lemma set_map_filter: "y \<in> set (List.map_filter f xs) \<longleftrightarrow> (\<exists>x\<in>set xs. f x = Some y)"
  by (force simp: List.map_filter_def)

lemma real_roots_in:
  assumes "root \<in> set (real_roots T cwd roots)"
  obtains r where "r \<in> set roots" "realpath T (resolve_path cwd (to_str r)) = Some root" "\<exists>n. node_at T root = Some n \<and> is_dir n"
proof -
  obtain r where r: "r \<in> set roots" "(case realpath T (resolve_path cwd (to_str r)) of
      Some real \<Rightarrow> (case node_at T real of Some n \<Rightarrow> if is_dir n then Some real else None | None \<Rightarrow> None)
    | None \<Rightarrow> None) = Some root"
    using assms unfolding real_roots_def set_map_filter by blast
  obtain real where real: "realpath T (resolve_path cwd (to_str r)) = Some real" using r(2) by (cases "realpath T (resolve_path cwd (to_str r))") simp_all
  obtain n where n: "node_at T real = Some n" using r(2) real by (cases "node_at T real") simp_all
  have "is_dir n \<and> real = root" using r(2) real n by (cases "is_dir n") simp_all
  then show ?thesis using that r(1) real n by blast
qed

lemma pathWithin_iff:
  assumes "clean target"
  shows "pathWithin root target \<longleftrightarrow> prefix root target"
proof (cases "prefix root target")
  case True
  then obtain ys where t: "target = root @ ys" by (auto simp: prefix_def)
  have "relative_path root target = ys" by (simp add: t relative_path_prefix)
  moreover have "clean ys" using assms t by simp
  ultimately show ?thesis
    using True by (cases ys) (auto simp: pathWithin_def relative_text_def Let_def str_join_starts clean_def starts_with_iff append_eq_Cons_conv)
next
  case False
  then obtain r where "relative_path root target = ''..'' # r" using relative_path_outside by blast
  then show ?thesis
    using False by (auto simp: pathWithin_def relative_text_def Let_def str_join_starts starts_with_iff)
qed


definition wit_tree :: tree where
  "wit_tree ns =
     (if ns = [''w''] \<or> ns = [''etc''] then Some (NDir 0)
      else if ns = [''w'', ''up''] then Some (NLink ''/w'')
      else if ns = [''w'', ''out''] then Some (NLink ''/etc/cron'') else None)"



section \<open>Retries\<close>

text \<open>C22: A retry is called safe only on proof, and always needs new authority.  Either the verification
  is bound to this very receipt (and to the action of the lease, when one is given), found the
  postcondition absent, the effect not applied and a retry safe; or there is no verification state,
  the receipt reports a complete failure, and the caller states that such a failure has no effect.\<close>

theorem safe_retry_is_proved:
  assumes "rd_disposition (decideEffectRetry receipt v options) = SafeToRetry"
  shows "rd_new_authority (decideEffectRetry receipt v options)
    \<and> verificationBindingErrors receipt v (jget options ''lease'') = []
    \<and> ((jget v ''state'' = JStr ''confirmed_failure'' \<and> jget (jget v ''evidence'') ''effect_applied'' = JBool False
          \<and> jget (jget v ''evidence'') ''retry_safe'' = JBool True
          \<and> (\<forall>k\<in>{''effect_id'', ''lease_id'', ''decision_id''}. strict_eq (jget v k) (jget receipt k))
          \<and> (truthy (jget options ''lease'') \<longrightarrow>
               strict_eq (jget (jget options ''lease'') ''action_digest'') (jget v ''action_digest'')))
       \<or> (\<not> one_of [''invalid'', ''confirmed_success'', ''confirmed_failure'', ''partial_or_ambiguous'', ''unknown''] (jget v ''state'')
          \<and> jget receipt ''status'' = JStr ''failure'' \<and> jget receipt ''observation_quality'' = JStr ''complete_for_adapter''
          \<and> jget options ''completeFailureMeansNoEffect'' = JBool True))"
proof -
  have b: "verificationBindingErrors receipt v (jget options ''lease'') = []"
    and na: "rd_new_authority (decideEffectRetry receipt v options)"
    using assms by (auto simp: decideEffectRetry_def retry_def Let_def split: if_splits)
  consider (proved) "jget v ''state'' = JStr ''confirmed_failure''" "jget (jget v ''evidence'') ''effect_applied'' = JBool False"
      "jget (jget v ''evidence'') ''retry_safe'' = JBool True"
    | (adapter) "\<not> one_of [''invalid'', ''confirmed_success'', ''confirmed_failure'', ''partial_or_ambiguous'', ''unknown''] (jget v ''state'')"
      "jget receipt ''status'' = JStr ''failure''" "jget receipt ''observation_quality'' = JStr ''complete_for_adapter''"
      "jget options ''completeFailureMeansNoEffect'' = JBool True"
    using assms by (auto simp: decideEffectRetry_def retry_def Let_def one_of_iff split: if_splits)
  then show ?thesis
  proof cases
    case proved
    then have "truthy v" by (cases v) auto
    then have "\<forall>k\<in>{''effect_id'', ''lease_id'', ''decision_id''}. strict_eq (jget v k) (jget receipt k)"
      "truthy (jget options ''lease'') \<longrightarrow> strict_eq (jget (jget options ''lease'') ''action_digest'') (jget v ''action_digest'')"
      using b by (auto simp: verificationBindingErrors_def split: if_splits)
    then show ?thesis using b na proved by blast
  next
    case adapter
    then show ?thesis using b na by blast
  qed
qed

definition wit_verified :: jval where
  "wit_verified = JObj [(''effect_id'', JStr ''e''), (''lease_id'', JStr ''l''), (''decision_id'', JStr ''d''),
     (''action_digest'', JStr ''x''), (''state'', JStr ''confirmed_failure''),
     (''evidence'', JObj [(''effect_applied'', JBool False), (''retry_safe'', JBool True)])]"

lemma safe_retry_is_proved_witness: "rd_new_authority (decideEffectRetry wit_verified wit_verified (JObj [(''lease'', wit_verified)]))"
proof -
  have "rd_disposition (decideEffectRetry wit_verified wit_verified (JObj [(''lease'', wit_verified)])) = SafeToRetry"
    by code_simp
  from safe_retry_is_proved [OF this] show ?thesis by (rule conjunct1)
qed

end
