(* ===== verification/Utf8.thy ===== *)
theory Utf8
  imports Files
begin

text \<open>
  Texts as bytes: the UTF-8 encoding of the code units the model has, and what \<open>Buffer.toString('utf8')\<close>
  makes of a piece of a file.  A byte is a character too.  Where a piece begins or ends inside an
  encoded character its bytes decode to U+FFFD; the strings of the model have no such code unit, and
  \<open>REPLACEMENT\<close> stands for it: like U+FFFD it is outside ASCII, no white space and part of no line end.
\<close>

section \<open>Encoding and decoding\<close>

definition high :: "char \<Rightarrow> bool" where
  "high c \<longleftrightarrow> (128::nat) \<le> of_char c"

definition lead_byte :: "char \<Rightarrow> char" where
  "lead_byte c = char_of (192 + of_char c div 64 :: nat)"

definition next_byte :: "char \<Rightarrow> char" where
  "next_byte c = char_of (128 + of_char c mod 64 :: nat)"

definition utf8_char :: "char \<Rightarrow> string" where
  "utf8_char c = (if high c then [lead_byte c, next_byte c] else [c])"

definition utf8_bytes :: "string \<Rightarrow> string" where
  "utf8_bytes s = concat (map utf8_char s)"

definition REPLACEMENT :: char where
  "REPLACEMENT = CHR 0xFF"

definition is_lead :: "char \<Rightarrow> bool" where
  "is_lead b \<longleftrightarrow> (of_char b :: nat) = 194 \<or> (of_char b :: nat) = 195"

definition is_next :: "char \<Rightarrow> bool" where
  "is_next b \<longleftrightarrow> (128::nat) \<le> of_char b \<and> (of_char b :: nat) < 192"

definition joined :: "char \<Rightarrow> char \<Rightarrow> char" where
  "joined b c = char_of (of_char b mod 4 * 64 + of_char c mod 64 :: nat)"

text \<open>On pieces of encoded texts: a lead byte is 194 or 195.\<close>

fun utf8_decode :: "string \<Rightarrow> string" where
  "utf8_decode [] = []"
| "utf8_decode [b] = [if high b then REPLACEMENT else b]"
| "utf8_decode (b # c # s) =
     (if \<not> high b then b # utf8_decode (c # s)
      else if is_lead b \<and> is_next c then joined b c # utf8_decode s
      else REPLACEMENT # utf8_decode (c # s))"

lemma high_code [code]: "high c \<longleftrightarrow> char_le CHR 0x80 c"
  by (simp add: high_def char_le_def)

lemma utf8_bytes_simps [simp]:
  "utf8_bytes [] = []" "utf8_bytes (c # s) = utf8_char c @ utf8_bytes s" "utf8_bytes (s @ t) = utf8_bytes s @ utf8_bytes t"
  by (simp_all add: utf8_bytes_def)

lemma length_utf8_bytes: "int (length (utf8_bytes s)) = utf8_length s"
  by (induction s) (simp_all add: utf8_length_def utf8_char_def high_def)

lemma utf8_char_neq_Nil [simp]: "utf8_char c \<noteq> []"
  by (simp add: utf8_char_def)

lemma utf8_bytes_Nil [simp]: "utf8_bytes s = [] \<longleftrightarrow> s = []"
  by (cases s) simp_all

lemma high_quotient: "high c \<Longrightarrow> (of_char c :: nat) div 64 = 2 \<or> (of_char c :: nat) div 64 = 3"
proof -
  assume h: "high c"
  have "(of_char c :: nat) div 64 < 4" using nat_of_char_less_256 [of c] by (simp add: less_mult_imp_div_less)
  moreover have "2 \<le> (of_char c :: nat) div 64" using div_le_mono [of 128 "of_char c" 64] h by (simp add: high_def)
  ultimately show ?thesis by linarith
qed

lemma low_six: "(128 + n mod 64) mod 64 = (n mod 64 :: nat)"
  using mod_mult_self2 [of "n mod 64" 64 2] by (simp add: add.commute)

lemma lead_byte_props:
  assumes "high c"
  shows "high (lead_byte c)" "is_lead (lead_byte c)" "\<not> is_next (lead_byte c)"
proof -
  have "(of_char (lead_byte c) :: nat) = 192 + of_char c div 64"
    using high_quotient [OF assms] by (auto simp: lead_byte_def)
  then show "high (lead_byte c)" "is_lead (lead_byte c)" "\<not> is_next (lead_byte c)"
    using high_quotient [OF assms] by (auto simp: high_def is_lead_def is_next_def)
qed

lemma next_byte_props: "high (next_byte c)" "is_next (next_byte c)" "\<not> is_lead (next_byte c)"
proof -
  define k where "k = (of_char c :: nat) mod 64"
  have k: "k < 64" by (simp add: k_def)
  then have "(of_char (next_byte c) :: nat) = 128 + k"
    by (simp add: next_byte_def flip: k_def)
  then show "high (next_byte c)" "is_next (next_byte c)" "\<not> is_lead (next_byte c)"
    using k by (simp_all add: high_def is_next_def is_lead_def)
qed

lemma joined_bytes: "high c \<Longrightarrow> joined (lead_byte c) (next_byte c) = c"
proof -
  assume h: "high c"
  have l: "(of_char (lead_byte c) :: nat) mod 4 = of_char c div 64"
    using high_quotient [OF h] by (auto simp: lead_byte_def)
  define k where "k = (of_char c :: nat) mod 64"
  have "k < 64" by (simp add: k_def)
  then have "(of_char (next_byte c) :: nat) mod 64 = (128 + k) mod 64"
    by (simp add: next_byte_def flip: k_def)
  then have n: "(of_char (next_byte c) :: nat) mod 64 = of_char c mod 64"
    by (simp only: k_def low_six)
  have "of_char c div 64 * 64 + of_char c mod 64 = (of_char c :: nat)" by simp
  then show ?thesis unfolding joined_def l n by simp
qed

lemma utf8_decode_char: "utf8_decode (utf8_char c @ x) = c # utf8_decode x"
  by (cases x) (simp_all add: utf8_char_def lead_byte_props next_byte_props joined_bytes)

lemma utf8_decode_bytes: "utf8_decode (utf8_bytes s @ x) = s @ utf8_decode x"
  by (induction s) (simp_all add: utf8_decode_char)

lemma utf8_decode_next: "utf8_decode (next_byte c # x) = REPLACEMENT # utf8_decode x"
  by (cases x) (simp_all add: next_byte_props)

lemma utf8_decode_lead: "high c \<Longrightarrow> utf8_decode [lead_byte c] = [REPLACEMENT]"
  by (simp add: lead_byte_props)

section \<open>Texts with characters replaced\<close>

text \<open>\<open>mangles s t\<close>: \<open>t\<close> is \<open>s\<close> with some characters outside ASCII replaced, each by one or more
  \<open>REPLACEMENT\<close>.\<close>

inductive mangles :: "string \<Rightarrow> string \<Rightarrow> bool" where
  none: "mangles [] []"
| same: "mangles s t \<Longrightarrow> mangles (c # s) (c # t)"
| cut: "mangles s t \<Longrightarrow> high c \<Longrightarrow> 0 < n \<Longrightarrow> mangles (c # s) (replicate n REPLACEMENT @ t)"

inductive_cases mangles_NilE: "mangles [] t"
inductive_cases mangles_ConsE: "mangles (c # s) t"

lemma high_REPLACEMENT [simp]: "high REPLACEMENT" "\<not> is_blank REPLACEMENT"
  by (simp_all add: high_def REPLACEMENT_def is_blank_def)

lemma mangles_refl [simp]: "mangles s s"
  by (induction s) (auto intro: mangles.intros)

lemma mangles_Nil [simp]: "mangles [] t \<longleftrightarrow> t = []"
  by (auto elim: mangles_NilE intro: mangles.none)

lemma mangles_append: "mangles s t \<Longrightarrow> mangles u v \<Longrightarrow> mangles (s @ u) (t @ v)"
  by (induction rule: mangles.induct) (auto intro: mangles.same dest: mangles.cut)

lemma mangles_appendE:
  assumes "mangles (a @ b) t"
  obtains t1 t2 where "t = t1 @ t2" "mangles a t1" "mangles b t2"
  using assms
proof (induction a arbitrary: t thesis)
  case Nil
  then show ?case by simp
next
  case (Cons c a)
  consider (1) u where "t = c # u" "mangles (a @ b) u"
    | (2) u n where "t = replicate n REPLACEMENT @ u" "mangles (a @ b) u" "high c" "0 < n"
    using Cons.prems(2) by (auto elim: mangles_ConsE)
  then show ?case
  proof cases
    case (1 u)
    obtain u1 u2 where "u = u1 @ u2" "mangles a u1" "mangles b u2" using Cons.IH 1(2) by blast
    then show ?thesis using Cons.prems(1) [of "c # u1" u2] 1(1) by (simp add: mangles.same)
  next
    case (2 u n)
    obtain u1 u2 where "u = u1 @ u2" "mangles a u1" "mangles b u2" using Cons.IH 2(2) by blast
    then show ?thesis using Cons.prems(1) [of "replicate n REPLACEMENT @ u1" u2] 2 by (simp add: mangles.cut)
  qed
qed

lemma mangles_ascii: "mangles s t \<Longrightarrow> \<forall>c\<in>set s. \<not> high c \<Longrightarrow> t = s"
  by (induction rule: mangles.induct) auto

lemma mangles_cut_one: "high c \<Longrightarrow> mangles s t \<Longrightarrow> mangles (c # s) (REPLACEMENT # t)"
  using mangles.cut [of s t c 1] by simp

lemma mangles_cut_two: "high c \<Longrightarrow> mangles s t \<Longrightarrow> mangles (c # s) (REPLACEMENT # REPLACEMENT # t)"
  using mangles.cut [of s t c 2] by (simp add: numeral_2_eq_2)

lemma mangles_REPLACEMENT: "mangles s t \<Longrightarrow> \<not> high c \<Longrightarrow> c \<in> set t \<longleftrightarrow> c \<in> set s"
  by (induction rule: mangles.induct) (auto simp: in_set_replicate)

section \<open>Lines\<close>

lemma str_split_replicate:
  "x \<noteq> sep \<Longrightarrow> str_split sep (replicate n x @ t) = (replicate n x @ hd (str_split sep t)) # tl (str_split sep t)"
proof (induction n)
  case 0
  show ?case by (cases "str_split sep t") simp_all
qed simp

lemma mangles_split: "mangles s t \<Longrightarrow> \<not> high sep \<Longrightarrow> list_all2 mangles (str_split sep s) (str_split sep t)"
proof (induction rule: mangles.induct)
  case (same s t c)
  then show ?case by (cases "str_split sep s"; cases "str_split sep t") (auto intro: mangles.same)
next
  case (cut s t c n)
  then have "c \<noteq> sep" "REPLACEMENT \<noteq> sep" by auto
  then show ?case using cut
    by (cases "str_split sep s"; cases "str_split sep t") (auto simp: str_split_replicate intro: mangles.cut)
qed simp

lemma mangles_single: "mangles [c] t \<Longrightarrow> t \<noteq> [] \<and> (last t = x \<and> \<not> high x \<longleftrightarrow> c = x \<and> \<not> high x)"
  by (auto elim!: mangles_ConsE)

lemma mangles_strip: "mangles s t \<Longrightarrow> mangles (strip_cr s) (strip_cr t)"
proof (cases s rule: rev_cases)
  case (snoc u c)
  assume "mangles s t"
  then obtain t1 t2 where t: "t = t1 @ t2" "mangles u t1" "mangles [c] t2"
    using snoc by (auto elim: mangles_appendE)
  have h: "\<not> high CHR 0x0D" by (simp add: high_def)
  have l: "t2 \<noteq> []" "last t2 = CHR 0x0D \<longleftrightarrow> c = CHR 0x0D" using mangles_single [OF t(3), of "CHR 0x0D"] h by auto
  show ?thesis
  proof (cases "c = CHR 0x0D")
    case True
    then have "t2 = [CHR 0x0D]" using mangles_ascii [OF t(3)] h by simp
    then show ?thesis using t True snoc by (simp add: strip_cr_def)
  next
    case False
    then show ?thesis using \<open>mangles s t\<close> snoc l t by (simp add: strip_cr_def)
  qed
qed (simp add: strip_cr_def)

lemma list_all2_butlast: "list_all2 P xs ys \<Longrightarrow> list_all2 P (butlast xs) (butlast ys)"
  by (auto simp: list_all2_conv_all_nth nth_butlast)

lemma list_all2_last: "list_all2 P xs ys \<Longrightarrow> xs \<noteq> [] \<Longrightarrow> P (last xs) (last ys)"
  by (cases "ys = []") (auto simp: list_all2_conv_all_nth last_conv_nth)

lemma mangles_lines:
  assumes "mangles s t"
  shows "list_all2 mangles (split_lines s) (split_lines t)"
proof -
  have ps: "list_all2 mangles (str_split CHR 0x0A s) (str_split CHR 0x0A t)"
    by (rule mangles_split [OF assms]) (simp add: high_def)
  have "list_all2 mangles (map strip_cr (butlast (str_split CHR 0x0A s))) (map strip_cr (butlast (str_split CHR 0x0A t)))"
    using list_all2_butlast [OF ps] by (auto simp: list_all2_conv_all_nth intro: mangles_strip)
  then show ?thesis
    using list_all2_last [OF ps] by (simp add: split_lines_def Let_def list_all2_appendI)
qed

lemma str_trim_Nil: "str_trim l = [] \<longleftrightarrow> (\<forall>c\<in>set l. is_blank c)"
proof -
  have "dropWhile is_blank l = [] \<or> \<not> is_blank (hd (dropWhile is_blank l))"
    using hd_dropWhile by blast
  moreover have "str_trim l = [] \<longleftrightarrow> (\<forall>c\<in>set (dropWhile is_blank l). is_blank c)"
    by (simp add: str_trim_def dropWhile_eq_Nil_conv)
  ultimately show ?thesis
    by (metis dropWhile_eq_Nil_conv hd_in_set list.set(1) empty_iff)
qed

text \<open>A line stays blank or not, unless it is blank with a no-break space in it.\<close>

lemma mangles_blank:
  assumes "mangles l m" "str_trim l = [] \<longrightarrow> CHR 0xA0 \<notin> set l"
  shows "str_trim m = [] \<longleftrightarrow> str_trim l = []"
proof (cases "str_trim l = []")
  case True
  have "\<not> high c" if "c \<in> set l" for c
  proof
    assume "high c"
    moreover have "is_blank c" using True that by (simp add: str_trim_Nil)
    ultimately have "(of_char c :: nat) = of_char CHR 0xA0" by (auto simp: is_blank_def high_def Let_def)
    then have "c = CHR 0xA0" by (simp only: of_char_eq)
    then show False using assms(2) True that by simp
  qed
  then show ?thesis using mangles_ascii [OF assms(1)] True by simp
next
  case False
  have "mangles l m \<Longrightarrow> \<exists>c\<in>set l. \<not> is_blank c \<Longrightarrow> \<exists>c\<in>set m. \<not> is_blank c"
    by (induction rule: mangles.induct) (auto simp: in_set_replicate)
  then show ?thesis using False assms(1) by (auto simp: str_trim_Nil)
qed

section \<open>Pieces of a file\<close>

text \<open>A cut before the byte \<open>p\<close> falls between two characters or inside one.\<close>

lemma utf8_cut:
  assumes "p \<le> length (utf8_bytes u)"
  obtains u1 u2 where "u = u1 @ u2" "p = length (utf8_bytes u1)" "drop p (utf8_bytes u) = utf8_bytes u2"
  | u1 c u2 where "u = u1 @ c # u2" "high c" "p = Suc (length (utf8_bytes u1))" "drop p (utf8_bytes u) = next_byte c # utf8_bytes u2"
  using assms
proof (induction u arbitrary: p thesis)
  case Nil
  then show ?case by simp
next
  case (Cons a u)
  consider "p = 0" | "p = 1" "high a" | "length (utf8_char a) \<le> p"
    using not_less_eq_eq by (cases "high a") (force simp: utf8_char_def)+
  then show ?case
  proof cases
    case 1
    then show ?thesis using Cons.prems(1) [of "[]" "a # u"] by simp
  next
    case 2
    then show ?thesis using Cons.prems(2) [of "[]" a u] by (simp add: utf8_char_def)
  next
    case 3
    define q where "q = p - length (utf8_char a)"
    have p: "p = length (utf8_char a) + q" using 3 by (simp add: q_def)
    have d: "drop p (utf8_bytes (a # u)) = drop q (utf8_bytes u)" by (simp add: p)
    have "q \<le> length (utf8_bytes u)" using Cons.prems(3) p by simp
    from Cons.IH [OF _ _ this] show ?thesis
    proof cases
      case (1 u1 u2)
      then show ?thesis using Cons.prems(1) [of "a # u1" u2] d p by simp
    next
      case (2 u1 c u2)
      then show ?thesis using Cons.prems(2) [of "a # u1" c u2] d p by simp
    qed
  qed
qed

text \<open>The text read from the byte \<open>p\<close> on: a suffix of the file's text with characters replaced, where a
  cut inside a character has left one \<open>REPLACEMENT\<close> for its second byte.\<close>

definition read_from :: "string \<Rightarrow> nat \<Rightarrow> string \<Rightarrow> bool" where
  "read_from s p acc \<longleftrightarrow>
     (\<exists>u v. s = u @ v \<and> p = length (utf8_bytes u) \<and> mangles v acc)
     \<or> (\<exists>u c v acc'. s = u @ c # v \<and> high c \<and> p = Suc (length (utf8_bytes u)) \<and> acc = REPLACEMENT # acc' \<and> mangles v acc')"

lemma read_from_piece:
  assumes p: "p \<le> length (utf8_bytes u)"
    and x: "\<And>w. utf8_decode (utf8_bytes w @ x) = w @ d"
    and tail: "\<And>w. mangles (w @ t) (w @ d @ acc)"
  shows "read_from (u @ t) p (utf8_decode (drop p (utf8_bytes u) @ x) @ acc)"
  using p
proof (cases rule: utf8_cut)
  case (1 u1 u2)
  have "mangles (u2 @ t) (utf8_decode (drop p (utf8_bytes u) @ x) @ acc)" using tail [of u2] by (simp add: 1(3) x)
  then show ?thesis using 1(1,2) unfolding read_from_def by force
next
  case (2 u1 c u2)
  have "utf8_decode (drop p (utf8_bytes u) @ x) = REPLACEMENT # u2 @ d"
    using x [of u2] by (simp only: 2(4) append_Cons utf8_decode_next)
  then show ?thesis using 2(1-3) tail [of u2] unfolding read_from_def by auto
qed

lemma read_from_step:
  assumes "read_from s p acc" "q < p"
  shows "read_from s q (utf8_decode (take (p - q) (drop q (utf8_bytes s))) @ acc)"
proof -
  have t: "take (p - q) (drop q (utf8_bytes s)) = drop q (take p (utf8_bytes s))" by (simp add: drop_take)
  consider (between) u v where "s = u @ v" "p = length (utf8_bytes u)" "mangles v acc"
    | (inside) u c v acc' where "s = u @ c # v" "high c" "p = Suc (length (utf8_bytes u))" "acc = REPLACEMENT # acc'" "mangles v acc'"
    using assms(1) unfolding read_from_def by blast
  then show ?thesis
  proof cases
    case h: between
    have "read_from (u @ v) q (utf8_decode (drop q (utf8_bytes u) @ []) @ acc)"
      by (rule read_from_piece [of _ _ _ "[]"]) (use assms(2) h utf8_decode_bytes [of _ "[]"] in \<open>auto intro: mangles_append\<close>)
    then show ?thesis unfolding t using h by simp
  next
    case h: inside
    have "take p (utf8_bytes s) = utf8_bytes u @ [lead_byte c]" using h(1-3) by (simp add: utf8_char_def)
    then have d: "drop q (take p (utf8_bytes s)) = drop q (utf8_bytes u) @ [lead_byte c]" using assms(2) h(3) by simp
    have x: "utf8_decode (utf8_bytes w @ [lead_byte c]) = w @ [REPLACEMENT]" for w
      using utf8_decode_bytes [of w "[lead_byte c]"] utf8_decode_lead [OF h(2)] by (simp del: utf8_decode.simps)
    have "read_from (u @ c # v) q (utf8_decode (drop q (utf8_bytes u) @ [lead_byte c]) @ acc)"
      by (rule read_from_piece [of _ _ _ "[REPLACEMENT]"])
        (use assms(2) h x in \<open>auto intro!: mangles_append mangles_cut_two\<close>)
    then show ?thesis unfolding t d unfolding h(1) .
  qed
qed

lemma read_from_mangles: "read_from s p acc \<Longrightarrow> \<exists>u v. s = u @ v \<and> mangles v acc \<and> (p = 0 \<longrightarrow> u = [])"
  by (force simp: read_from_def intro: mangles_cut_one)

end
