(* ===== verification/Recorder.thy ===== *)
theory Recorder
  imports Journal ProtocolEvidence Utf8
begin

text \<open>
  The evidence recorder, \<^verbatim>\<open>packages/core/src/protocol/recorder.js\<close>: an append-only file of JSON lines in
  which every event carries the hash of its predecessor.  An append runs under the file lock, so it
  is one step; the file is absent or a text.
\<close>

section \<open>Cloning\<close>

text \<open>\<open>JSON.parse(JSON.stringify(v))\<close>.\<close>

fun json_clone :: "jval \<Rightarrow> jval" where
  "json_clone JUndef = JNull"
| "json_clone JNaN = JNull"
| "json_clone (JArr xs) = JArr (map json_clone xs)"
| "json_clone (JObj ps) = JObj (map (\<lambda>(k, v). (k, json_clone v)) (filter (\<lambda>(k, v). v \<noteq> JUndef) ps))"
| "json_clone v = v"

text \<open>Objects have no two properties with one name.\<close>

fun jdistinct :: "jval \<Rightarrow> bool" where
  "jdistinct (JArr xs) = list_all jdistinct xs"
| "jdistinct (JObj ps) = (distinct (map fst ps) \<and> list_all (\<lambda>(k, v). jdistinct v) ps)"
| "jdistinct v = True"

lemma json_clone_defined [simp]: "json_clone v \<noteq> JUndef"
  by (cases v) simp_all

lemma json_text_clone: "json_text (json_clone v) = json_text v"
proof (induction v)
  case (JArr xs)
  then have "map json_text (map json_clone xs) = map json_text xs" by simp
  then show ?case unfolding json_clone.simps json_text.simps by (rule arg_cong)
next
  case (JObj ps)
  let ?qs = "filter (\<lambda>(k, v). v \<noteq> JUndef) ps"
  have "filter (\<lambda>(k, v). v \<noteq> JUndef) (map (\<lambda>(k, v). (k, json_clone v)) ?qs) = map (\<lambda>(k, v). (k, json_clone v)) ?qs"
    by (rule filter_True) auto
  moreover have "map (\<lambda>(k, v). (k, json_text v)) (map (\<lambda>(k, v). (k, json_clone v)) ?qs) = map (\<lambda>(k, v). (k, json_text v)) ?qs"
    using JObj by (auto simp: snds.simps fsts.simps)
  ultimately show ?case by (simp del: map_map filter_filter)
qed simp_all

lemma json_clone_storable: "jdistinct v \<Longrightarrow> json_storable (json_clone v)"
proof (induction v)
  case (JArr xs)
  then show ?case by (auto simp: list_all_iff)
next
  case (JObj ps)
  have "distinct (map fst (filter (\<lambda>(k, v). v \<noteq> JUndef) ps))"
    using JObj.prems by (auto intro: distinct_map_filter)
  then show ?case using JObj by (fastforce simp: list_all_iff split_beta comp_def snds.simps)
qed simp_all

lemma json_clone_parse: "jdistinct v \<Longrightarrow> json_parse (json_text v) = Some (json_clone v)"
  using json_parse_text [OF json_clone_storable [of v]] by (simp add: json_text_clone)

lemma jget_clone:
  assumes "is_obj v" "jdistinct v"
  shows "jget (json_clone v) k = (if jget v k = JUndef then JUndef else json_clone (jget v k))"
proof -
  obtain ps where v: "v = JObj ps" using assms(1) by (cases v) simp_all
  have "map_of (map (\<lambda>(k, v). (k, json_clone v)) (filter (\<lambda>(k, v). v \<noteq> JUndef) ps)) k
      = (case map_of ps k of Some x \<Rightarrow> if x = JUndef then None else Some (json_clone x) | None \<Rightarrow> None)"
    if "distinct (map fst ps)"
    using that
  proof (induction ps)
    case (Cons p ps)
    obtain a b where p: "p = (a, b)" by (cases p)
    have "map_of ps a = None" using Cons.prems by (simp add: p map_of_eq_None_iff)
    then show ?case using Cons by (auto simp: p split: option.splits)
  qed simp
  then show ?thesis using assms(2) by (auto simp: v jget_obj split: option.splits)
qed

section \<open>Reading\<close>

definition EVIDENCE_RECORDER_LIMITS :: limits where
  "EVIDENCE_RECORDER_LIMITS = \<lparr>maxBytes = 64 * 1024 * 1024, maxLineBytes = 1024 * 1024, maxRecords = 200000\<rparr>"

definition GENESIS_HASH :: string where
  "GENESIS_HASH = ''GENESIS''"

definition nonblank_lines :: "string \<Rightarrow> string list" where
  "nonblank_lines s = filter (\<lambda>l. str_trim l \<noteq> []) (split_lines s)"

text \<open>The last line is found by reading chunks of bytes backwards from the end of the file, each decoded on
  its own: the position in bytes, and the text read so far.\<close>

function read_back :: "nat \<Rightarrow> string \<Rightarrow> nat \<Rightarrow> string \<Rightarrow> string option" where
  "read_back chunk bytes position accumulated =
     (if position = 0 \<or> chunk = 0 then None
      else
        let len = min chunk position; position' = position - len;
            accumulated' = utf8_decode (take len (drop position' bytes)) @ accumulated; lines = nonblank_lines accumulated' in
        if length lines \<ge> 2 \<or> (position' = 0 \<and> length lines \<ge> 1) then Some (last lines)
        else read_back chunk bytes position' accumulated')"
  by pat_completeness auto

termination by (relation "measure (\<lambda>(chunk, bytes, position, accumulated). position)") auto

declare read_back.simps [simp del]

definition readLastNonEmptyLine :: "files \<Rightarrow> string \<Rightarrow> string option" where
  "readLastNonEmptyLine fs path =
     (case fs path of
        None \<Rightarrow> None
      | Some s \<Rightarrow> let bytes = utf8_bytes s in if bytes = [] then None else read_back 8192 bytes (length bytes) [])"

definition loadJsonLines :: "string \<Rightarrow> jval list res" where
  "loadJsonLines s =
     map_res (\<lambda>(i, l). case json_parse l of Some v \<Rightarrow> Inr v | None \<Rightarrow> Inl (Error (''Invalid JSONL line '' @ nat_str (i + 1))))
       (enumerate 0 (file_lines s))"

primrec line_too_long :: "int \<Rightarrow> nat \<Rightarrow> string list \<Rightarrow> unit res" where
  "line_too_long limit i [] = Inr ()"
| "line_too_long limit i (l # ls) =
     throw_if (utf8_length l > limit) (''evidence line '' @ nat_str (i + 1) @ '' exceeds maxLineBytes ('' @ int_str limit @ '')'')
       (line_too_long limit (i + 1) ls)"

definition readEvents :: "files \<Rightarrow> limits \<Rightarrow> string \<Rightarrow> jval list res" where
  "readEvents fs L path =
     bind_res (readBoundedFileSync fs path (maxBytes L) ''evidence log'') (\<lambda>v.
       case v of
         None \<Rightarrow> Inr []
       | Some s \<Rightarrow>
           throw_if (int (length (file_lines s)) > maxRecords L) (''evidence log exceeds maxEvents ('' @ int_str (maxRecords L) @ '')'')
             (bind_res (line_too_long (maxLineBytes L) 0 (file_lines s)) (\<lambda>_. loadJsonLines s)))"

definition readLastEvent :: "files \<Rightarrow> string \<Rightarrow> jval res" where
  "readLastEvent fs path =
     (case readLastNonEmptyLine fs path of
        None \<Rightarrow> Inr JNull
      | Some line \<Rightarrow> (case json_parse line of Some v \<Rightarrow> Inr v | None \<Rightarrow> Inl (Error ''invalid final evidence JSONL line'')))"

section \<open>Appending\<close>

text \<open>The recorder writes the key-sorting serialiser out once more.\<close>

definition recorderCanonicalStringify :: "jval \<Rightarrow> string" where
  "recorderCanonicalStringify = canonicalStringify"

definition eventHash :: "host \<Rightarrow> string \<Rightarrow> jval \<Rightarrow> string" where
  "eventHash H previousHash eventWithoutHash = sha256_hex H (previousHash @ recorderCanonicalStringify eventWithoutHash)"

definition without_block :: "jval \<Rightarrow> jval" where
  "without_block decision =
     (if truthy decision \<and> jget decision ''action'' = JStr ''block'' then jset decision ''action'' (JStr ''deny'') else decision)"

definition event_content :: "host \<Rightarrow> jval \<Rightarrow> jval \<Rightarrow> jval \<Rightarrow> int \<Rightarrow> jval \<Rightarrow> jval" where
  "event_content H lastEvent action decision t options =
     (let receipt = jget (without_block decision) ''receipt'' in
      JObj ([(''schema_version'', JStr ''2.0''), (''event_id'', JStr (''evt_'' @ fresh_uuid H 0)),
          (''index'', jplus1 (jor (jget lastEvent ''index'') (JNum 0))), (''timestamp'', JStr (iso_string t)),
          (''action'', action), (''decision'', without_block decision),
          (''previousHash'', jor (jget lastEvent ''hash'') (JStr GENESIS_HASH))]
        @ (if truthy receipt then [(''decision_id'', jget receipt ''decision_id''), (''action_digest'', jget receipt ''action_digest''),
             (''policy_digest'', jget receipt ''policy_digest'')] else [])
        @ when_prop (truthy (jget options ''eventType'')) ''event_type'' (jget options ''eventType'')
        @ when_prop (truthy (jget options ''effectReceipt'')) ''effect_receipt'' (jget options ''effectReceipt'')
        @ when_prop (truthy (jget options ''ledgerPayload'')) ''ledger_payload'' (jget options ''ledgerPayload'')))"

definition sealed_event :: "host \<Rightarrow> jval \<Rightarrow> jval" where
  "sealed_event H content = jset content ''hash'' (JStr (eventHash H (to_str (jget content ''previousHash'')) content))"

definition file_text :: "files \<Rightarrow> string \<Rightarrow> string" where
  "file_text fs path = (case fs path of None \<Rightarrow> [] | Some s \<Rightarrow> s)"

definition append_event :: "host \<Rightarrow> files \<Rightarrow> limits \<Rightarrow> string \<Rightarrow> jval \<Rightarrow> jval \<Rightarrow> jval \<Rightarrow> jval \<Rightarrow> (files \<times> jval) res" where
  "append_event H fs L path action decision timestamp options =
     (case (if present timestamp then to_date timestamp else Some (now_ms H)) of
        None \<Rightarrow> Inl (Error ''evidence event timestamp must be a valid date-time'')
      | Some t \<Rightarrow>
          bind_res (readLastEvent fs path) (\<lambda>lastEvent.
          let event = sealed_event H (json_clone (event_content H lastEvent action decision t options));
              serialized = json_text event @ [CHR 0x0A] in
          throw_if (validateEvidenceEvent event \<noteq> []) (''invalid evidence event: '' @ join_errors (validateEvidenceEvent event))
         (throw_if (num_of (jget event ''index'') > maxRecords L) (''evidence log exceeds maxEvents ('' @ int_str (maxRecords L) @ '')'')
         (throw_if (utf8_length serialized > maxLineBytes L) (''evidence event exceeds maxLineBytes ('' @ int_str (maxLineBytes L) @ '')'')
         (throw_if (utf8_length (file_text fs path) + utf8_length serialized > maxBytes L)
            (''evidence log exceeds maxBytes ('' @ int_str (maxBytes L) @ '')'')
         (Inr (fs(path := Some (file_text fs path @ serialized)), event)))))))"

text \<open>\<open>RuleOakFlightRecorder.writeEvent\<close>.\<close>

definition writeEvent :: "host \<Rightarrow> files \<Rightarrow> limits \<Rightarrow> string \<Rightarrow> jval \<Rightarrow> jval \<Rightarrow> jval \<Rightarrow> jval \<Rightarrow> (files \<times> jval) res" where
  "writeEvent H fs L path action decision matchedRule timestamp =
     append_event H fs L path action (jset decision ''matchedRule''
       (jor (jor (jor matchedRule (jget decision ''matchedRule'')) (jget decision ''matchedPattern'')) JNull)) timestamp (JObj [])"

section \<open>Verification\<close>

definition receipt_mismatch :: "jval \<Rightarrow> string \<Rightarrow> string \<Rightarrow> string list" where
  "receipt_mismatch event line k =
     (let own = jget event k; theirs = jget (jget (jget event ''decision'') ''receipt'') k in
      err_if (truthy theirs \<and> truthy own \<and> \<not> strict_eq theirs own) (line @ k @ '' mismatch''))"

definition event_errors :: "host \<Rightarrow> jval \<Rightarrow> nat \<Rightarrow> jval \<Rightarrow> string list" where
  "event_errors H previousHash idx event =
     (let line = ''line '' @ nat_str (idx + 1) @ '': ''; errors = validateEvidenceEvent event in
      err_if (errors \<noteq> []) (line @ join_errors errors)
      @ err_if (jget event ''index'' \<noteq> JNum (int idx + 1))
          (line @ ''expected index '' @ nat_str (idx + 1) @ '', got '' @ to_str (jget event ''index''))
      @ err_if (\<not> strict_eq (jget event ''previousHash'') previousHash) (line @ ''previousHash mismatch'')
      @ err_if (jget event ''hash'' \<noteq> JStr (eventHash H (to_str previousHash) (jomit ''hash'' event))) (line @ ''hash mismatch'')
      @ receipt_mismatch event line ''decision_id'' @ receipt_mismatch event line ''action_digest''
      @ receipt_mismatch event line ''policy_digest'')"

primrec verify_from :: "host \<Rightarrow> jval \<Rightarrow> nat \<Rightarrow> jval list \<Rightarrow> string list res" where
  "verify_from H previousHash idx [] = Inr []"
| "verify_from H previousHash idx (event # events) =
     (if jnullish event then Inl TypeError
      else bind_res (verify_from H (jget event ''hash'') (idx + 1) events) (\<lambda>errors.
        Inr (event_errors H previousHash idx event @ errors)))"

definition verifyEvidence :: "host \<Rightarrow> jval list \<Rightarrow> string list res" where
  "verifyEvidence H events = verify_from H (JStr GENESIS_HASH) 0 events"

end
