(* ===== verification/Utf8Json.thy ===== *)
theory Utf8Json
  imports Utf8
begin

text \<open>
  JSON whose characters outside ASCII have been replaced: it is still JSON, and an object that is read from it
  has the ASCII members it had.  This is what a reader gets that decodes a file piece by piece.
\<close>

section \<open>ASCII\<close>

definition ascii :: "string \<Rightarrow> bool" where
  "ascii s \<longleftrightarrow> (\<forall>c\<in>set s. \<not> high c)"

lemma ascii_simps [simp]:
  "ascii []" "ascii (c # s) \<longleftrightarrow> \<not> high c \<and> ascii s" "ascii (s @ t) \<longleftrightarrow> ascii s \<and> ascii t"
  by (auto simp: ascii_def)

lemma mangles_from_ascii: "mangles s t \<Longrightarrow> ascii s \<Longrightarrow> t = s"
  by (simp add: ascii_def mangles_ascii)

lemma mangles_to_ascii: "mangles s t \<Longrightarrow> ascii t \<Longrightarrow> s = t"
proof (induction rule: mangles.induct)
  case (cut s t c n)
  then have "REPLACEMENT \<in> set (replicate n REPLACEMENT @ t)" by simp
  with cut show ?case by (metis ascii_def high_REPLACEMENT(1))
qed simp_all

text \<open>Between ASCII text nothing moves.\<close>

lemma mangles_ascii_append:
  assumes "mangles (a @ s) t" "ascii a"
  obtains t' where "t = a @ t'" "mangles s t'"
proof -
  obtain t1 t2 where "t = t1 @ t2" "mangles a t1" "mangles s t2" using assms(1) by (rule mangles_appendE)
  then show ?thesis using that mangles_from_ascii assms(2) by blast
qed

lemma mangles_append_ascii:
  assumes "mangles (s @ a) t" "ascii a"
  obtains t' where "t = t' @ a" "mangles s t'"
proof -
  obtain t1 t2 where "t = t1 @ t2" "mangles s t1" "mangles a t2" using assms(1) by (rule mangles_appendE)
  then show ?thesis using that mangles_from_ascii assms(2) by blast
qed

lemma mangles_join:
  "mangles (str_join sep xs) t \<Longrightarrow> ascii sep \<Longrightarrow> \<exists>ts. t = str_join sep ts \<and> list_all2 mangles xs ts"
proof (induction sep xs arbitrary: t rule: str_join.induct)
  case (1 sep)
  then show ?case by (intro exI [of _ "[]"]) simp
next
  case (2 sep x)
  then show ?case by (intro exI [of _ "[t]"]) simp
next
  case (3 sep x y xs)
  from 3(2) obtain t1 t2 where t: "t = t1 @ t2" "mangles x t1" "mangles (sep @ str_join sep (y # xs)) t2"
    by (auto elim: mangles_appendE)
  obtain t3 where t3: "t2 = sep @ t3" "mangles (str_join sep (y # xs)) t3"
    using mangles_ascii_append [OF t(3) 3(3)] by blast
  obtain ts where ts: "t3 = str_join sep ts" "list_all2 mangles (y # xs) ts" using 3(1) [OF t3(2) 3(3)] by blast
  then obtain u us where "ts = u # us" by (cases ts) simp_all
  then show ?case using t t3 ts by (intro exI [of _ "t1 # ts"]) simp
qed

section \<open>JSON\<close>

lemma json_esc_high: "high c \<Longrightarrow> json_esc c = [c]"
  by (auto simp: json_esc_def high_def Let_def)

lemma hex_char_low: "n < 16 \<Longrightarrow> \<not> high (hex_char n)"
  by (simp add: hex_char_def high_def)

lemma json_esc_ascii: "\<not> high c \<Longrightarrow> ascii (json_esc c)"
proof -
  assume c: "\<not> high c"
  have "(of_char c :: nat) div 16 < 16" using nat_of_char_less_256 [of c] by (simp add: less_mult_imp_div_less)
  then have h: "\<not> high (hex_char (of_char c div 16))" "\<not> high (hex_char (of_char c mod 16))"
    by (simp_all add: hex_char_low)
  have l: "\<not> high CHR 0x22" "\<not> high CHR 0x5C" "\<not> high CHR ''b''" "\<not> high CHR ''f''" "\<not> high CHR ''n''"
    "\<not> high CHR ''r''" "\<not> high CHR ''t''" "\<not> high CHR ''u''" "\<not> high CHR ''0''"
    by (simp_all add: high_def)
  show ?thesis using c h l by (simp add: json_esc_def Let_def)
qed

lemma mangles_body:
  "mangles (concat (map json_esc s)) t \<Longrightarrow> \<exists>s'. t = concat (map json_esc s') \<and> mangles s s'"
proof (induction s arbitrary: t)
  case Nil
  then show ?case by (intro exI [of _ "[]"]) simp
next
  case (Cons c s)
  obtain t1 t2 where t: "t = t1 @ t2" "mangles (json_esc c) t1" "mangles (concat (map json_esc s)) t2"
    using Cons.prems by (auto elim: mangles_appendE)
  obtain s' where s': "t2 = concat (map json_esc s')" "mangles s s'" using Cons.IH [OF t(3)] by blast
  show ?case
  proof (cases "high c")
    case False
    then have "t1 = json_esc c" using mangles_from_ascii [OF t(2)] json_esc_ascii by blast
    then show ?thesis using t(1) s' by (intro exI [of _ "c # s'"]) (simp add: mangles.same)
  next
    case True
    then have "mangles [c] t1" using t(2) by (simp add: json_esc_high)
    then have "\<forall>x\<in>set t1. high x" using True by (auto elim!: mangles_ConsE simp: in_set_replicate)
    then have "t1 = concat (map json_esc t1)" by (induction t1) (simp_all add: json_esc_high)
    moreover have "mangles (c # s) (t1 @ s')" using mangles_append [OF \<open>mangles [c] t1\<close> s'(2)] by simp
    ultimately show ?thesis using t(1) s'(1) by (intro exI [of _ "t1 @ s'"]) simp
  qed
qed

lemma mangles_quote: "mangles (json_quote s) t \<Longrightarrow> \<exists>s'. t = json_quote s' \<and> mangles s s'"
proof -
  assume m: "mangles (json_quote s) t"
  have q: "ascii [CHR 0x22]" by (simp add: high_def)
  obtain t1 where t1: "t = [CHR 0x22] @ t1" "mangles (concat (map json_esc s) @ [CHR 0x22]) t1"
    using mangles_ascii_append [OF _ q] m by (simp add: json_quote_def) (metis append_Cons append_Nil)
  obtain t2 where "t1 = t2 @ [CHR 0x22]" "mangles (concat (map json_esc s)) t2"
    using mangles_append_ascii [OF t1(2) q] by blast
  then show ?thesis using mangles_body [of s t2] t1(1) by (auto simp: json_quote_def)
qed

text \<open>The members of an object whose text has been replaced.\<close>

definition member_of :: "string \<times> jval \<Rightarrow> string \<times> jval \<Rightarrow> bool" where
  "member_of p q \<longleftrightarrow> mangles (fst p) (fst q) \<and> json_defined (snd q) \<and> (ascii (json_text (snd p)) \<longrightarrow> snd q = snd p)"

lemma ascii_marks: "ascii ''[''" "ascii '']''" "ascii ''{''" "ascii ''}''" "ascii '',''" "ascii '':''" "ascii ''null''" "ascii ''true''" "ascii ''false''"
  by (simp_all add: high_def)

lemma ascii_int_str: "ascii (int_str n)"
  using int_str_chars [of _ n] by (fastforce simp: ascii_def is_digit_def high_def)

lemma mangles_bracket:
  assumes "mangles (a @ s @ b) t" "ascii a" "ascii b"
  obtains t' where "t = a @ t' @ b" "mangles s t'"
proof -
  obtain t1 where t1: "t = a @ t1" "mangles (s @ b) t1" using assms(1,2) by (rule mangles_ascii_append)
  obtain t2 where "t1 = t2 @ b" "mangles s t2" using t1(2) assms(3) by (rule mangles_append_ascii)
  then show ?thesis using that t1(1) by blast
qed

lemma list_all2_pick:
  assumes "list_all2 P xs ts" "\<And>x t. x \<in> set xs \<Longrightarrow> P x t \<Longrightarrow> \<exists>y. t = f y \<and> Q x y"
  shows "\<exists>ys. ts = map f ys \<and> list_all2 Q xs ys"
  using assms
proof (induction rule: list_all2_induct)
  case Nil
  then show ?case by (intro exI [of _ "[]"]) simp
next
  case (Cons x xs t ts)
  obtain y where y: "t = f y" "Q x y" using Cons.prems [of x t] Cons.hyps(1) by auto
  obtain ys where "ts = map f ys" "list_all2 Q xs ys" using Cons.IH Cons.prems by auto
  then show ?case using y by (intro exI [of _ "y # ys"]) simp
qed

lemma mangles_members:
  assumes "mangles (json_text (JObj ps)) t" "list_all (\<lambda>(k, v). json_defined v) ps"
    and val: "\<And>p t. p \<in> set ps \<Longrightarrow> mangles (json_text (snd p)) t \<Longrightarrow>
      \<exists>v'. t = json_text v' \<and> json_defined v' \<and> (ascii (json_text (snd p)) \<longrightarrow> v' = snd p)"
  shows "\<exists>qs. t = json_text (JObj qs) \<and> list_all (\<lambda>(k, v). json_defined v) qs \<and> list_all2 member_of ps qs"
proof -
  obtain t' where t': "t = ''{'' @ t' @ ''}''" "mangles (str_join '','' (map member_text ps)) t'"
    using assms(1) unfolding json_text_obj [OF assms(2)] by (rule mangles_bracket) (simp_all only: ascii_marks)
  obtain ts where ts: "t' = str_join '','' ts" "list_all2 mangles (map member_text ps) ts"
    using mangles_join [OF t'(2) ascii_marks(5)] by blast
  have "\<exists>q. u = member_text q \<and> member_of p q" if "p \<in> set ps" "mangles (member_text p) u" for p u
  proof -
    have "mangles (json_quote (fst p) @ '':'' @ json_text (snd p)) u" using that(2) by (simp only: member_text_def)
    then obtain u1 u2 where u: "u = u1 @ u2" "mangles (json_quote (fst p)) u1" "mangles ('':'' @ json_text (snd p)) u2"
      by (rule mangles_appendE)
    obtain u3 where u3: "u2 = '':'' @ u3" "mangles (json_text (snd p)) u3"
      using mangles_ascii_append [OF u(3) ascii_marks(6)] by blast
    show ?thesis using mangles_quote [OF u(2)] val [OF that(1) u3(2)] u(1) u3(1)
      by (force simp: member_text_def member_of_def)
  qed
  then obtain qs where qs: "ts = map member_text qs" "list_all2 member_of ps qs"
    using list_all2_pick [of "\<lambda>p. mangles (member_text p)" ps ts member_text member_of] ts(2)
    by (auto simp: list_all2_map1)
  have d: "list_all (\<lambda>(k, v). json_defined v) qs"
    using qs(2) by (auto simp: list_all_length list_all2_conv_all_nth member_of_def split_beta)
  have "t = json_text (JObj qs)" by (simp only: json_text_obj [OF d] t'(1) ts(1) qs(1))
  then show ?thesis using qs(2) d by blast
qed

lemma mangles_json_text:
  assumes "json_defined v" "mangles (json_text v) t"
  shows "\<exists>v'. t = json_text v' \<and> json_defined v' \<and> (ascii (json_text v) \<longrightarrow> v' = v)"
  using assms
proof (induction v arbitrary: t)
  case (JStr s)
  show ?case
  proof (cases "ascii (json_quote s)")
    case True
    then show ?thesis using mangles_from_ascii JStr.prems by (intro exI [of _ "JStr s"]) simp
  next
    case False
    obtain s' where "t = json_quote s'" using mangles_quote [of s t] JStr.prems by auto
    then show ?thesis using False by (intro exI [of _ "JStr s'"]) simp
  qed
next
  case (JArr xs)
  show ?case
  proof (cases "ascii (json_text (JArr xs))")
    case True
    then show ?thesis using mangles_from_ascii JArr.prems by blast
  next
    case False
    have "mangles (''['' @ str_join '','' (map json_text xs) @ '']'') t" using JArr.prems(2) by simp
    then obtain t' where t': "t = ''['' @ t' @ '']''" "mangles (str_join '','' (map json_text xs)) t'"
      by (rule mangles_bracket) (simp_all only: ascii_marks)
    obtain ts where ts: "t' = str_join '','' ts" "list_all2 mangles (map json_text xs) ts"
      using mangles_join [OF t'(2) ascii_marks(5)] by blast
    have "\<exists>y. u = json_text y \<and> json_defined y" if "x \<in> set xs" "mangles (json_text x) u" for x u
      using JArr.IH [OF that(1) _ that(2)] JArr.prems(1) that(1) by (auto simp: list_all_iff)
    then obtain ys where ys: "ts = map json_text ys" "list_all2 (\<lambda>x. json_defined) xs ys"
      using list_all2_pick [of "\<lambda>x. mangles (json_text x)" xs ts json_text "\<lambda>x. json_defined"] ts(2)
      by (auto simp: list_all2_map1)
    have "list_all json_defined ys" using ys(2) by (auto simp: list_all_length list_all2_conv_all_nth)
    moreover have "t = json_text (JArr ys)" using t'(1) ts(1) ys(1) by simp
    ultimately show ?thesis using False json_defined.simps(3) by blast
  qed
next
  case (JObj ps)
  show ?case
  proof (cases "ascii (json_text (JObj ps))")
    case True
    then show ?thesis using mangles_from_ascii JObj.prems by blast
  next
    case False
    have d: "list_all (\<lambda>(k, v). json_defined v) ps" using JObj.prems(1) by simp
    have "\<exists>v'. u = json_text v' \<and> json_defined v' \<and> (ascii (json_text (snd p)) \<longrightarrow> v' = snd p)"
      if "p \<in> set ps" "mangles (json_text (snd p)) u" for p u
      by (rule JObj.IH [OF that(1) _ _ that(2)]) (use d that(1) in \<open>auto simp: list_all_iff snds.simps\<close>)
    from mangles_members [OF JObj.prems(2) d this] obtain qs
      where "t = json_text (JObj qs)" "list_all (\<lambda>(k, v). json_defined v) qs" by blast
    then show ?thesis using False json_defined.simps(4) by blast
  qed
qed (auto dest!: mangles_from_ascii simp: ascii_marks ascii_int_str simp del: ascii_simps split: if_splits)

section \<open>Reading an object back\<close>

lemma jget_from_members: "jget (from_members ms) k = (case map_of (rev ms) k of None \<Rightarrow> JUndef | Some v \<Rightarrow> v)"
proof (induction ms rule: rev_induct)
  case (snoc p ms)
  obtain a b where p: "p = (a, b)" by force
  have "from_members (ms @ [p]) = jset (from_members ms) a b" by (simp add: from_members_def p)
  then show ?case using snoc by (simp add: p jget_jset)
qed (simp add: from_members_def)

lemma member_lookup:
  assumes "list_all2 member_of ps qs" "ascii k"
  shows "case map_of ps k of None \<Rightarrow> map_of qs k = None
    | Some v \<Rightarrow> ascii (json_text v) \<longrightarrow> map_of qs k = Some v"
  using assms(1)
proof (induction rule: list_all2_induct)
  case (Cons p ps q qs)
  have "fst p = k \<longleftrightarrow> fst q = k"
    using Cons.hyps(1) mangles_from_ascii [of "fst p" "fst q"] mangles_to_ascii [of "fst p" "fst q"] assms(2)
    by (auto simp: member_of_def)
  then show ?case using Cons.IH Cons.hyps(1)
    by (cases p; cases q) (auto simp: member_of_def split: option.splits)
qed simp

lemma mangled_object_read:
  assumes "json_storable v" "is_obj v" "mangles (json_text v) t"
  obtains v' where "json_parse t = Some v'"
    "\<And>k. ascii k \<Longrightarrow> jget v k = JUndef \<Longrightarrow> jget v' k = JUndef"
    "\<And>k. ascii k \<Longrightarrow> jget v k \<noteq> JUndef \<Longrightarrow> ascii (json_text (jget v k)) \<Longrightarrow> jget v' k = jget v k"
proof -
  obtain ps where v: "v = JObj ps" using assms(2) by (rule is_obj_cases)
  have st: "list_all (\<lambda>(k, v). json_storable v) ps" "distinct (map fst ps)" using assms(1) v by simp_all
  obtain qs where q: "t = json_text (JObj qs)" "list_all (\<lambda>(k, v). json_defined v) qs" "list_all2 member_of ps qs"
    using mangles_members [OF assms(3) [unfolded v] storable_members [OF st(1)] mangles_json_text]
      storable_members [OF st(1)] by (fastforce simp: list_all_iff)
  have r: "list_all2 member_of (rev ps) (rev qs)" using q(3) by (simp add: list_all2_rev)
  have m: "map_of (rev ps) = map_of ps" using st(2) by (rule map_of_rev_distinct)
  define w where "w = read_as (JObj qs)"
  have g: "jget w k = (case map_of (rev qs) k of None \<Rightarrow> JUndef | Some x \<Rightarrow> read_as x)" for k
    by (simp add: w_def jget_from_members rev_map map_of_map split: option.split)
  have p: "json_parse t = Some w" using json_parse_defined [of "JObj qs"] q(1,2) by (simp add: w_def)
  have d: "x \<noteq> JUndef \<and> read_as x = x" if "map_of ps k = Some x" for k x
    using st(1) map_of_SomeD [OF that] by (auto simp: list_all_iff read_as_storable)
  show ?thesis
  proof (rule that [OF p])
    fix k assume k: "ascii k"
    note l = member_lookup [OF r k, unfolded m]
    show "jget v k = JUndef \<Longrightarrow> jget w k = JUndef"
      using l d [of k] by (auto simp: g v jget_obj split: option.splits)
    show "jget v k \<noteq> JUndef \<Longrightarrow> ascii (json_text (jget v k)) \<Longrightarrow> jget w k = jget v k"
      using l d [of k] by (auto simp: g v jget_obj split: option.splits)
  qed
qed

end
