(* ===== verification/RecorderProps.thy ===== *)
theory RecorderProps
  imports Recorder Utf8Json
begin

text \<open>
  What the evidence recorder guarantees: the last event is found however the file is cut into
  chunks, a log written by appends can be read back and verifies, and the last hash of a verified
  log determines the whole log.
\<close>

section \<open>The last line\<close>

lemma str_split_append:
  "str_split c (u @ v) = butlast (str_split c u) @ (last (str_split c u) @ hd (str_split c v)) # tl (str_split c v)"
proof (induction u)
  case Nil
  show ?case by (cases "str_split c v") simp_all
next
  case (Cons a u)
  show ?case
  proof (cases "a = c")
    case True
    then show ?thesis using Cons by simp
  next
    case False
    obtain p ps where u: "str_split c u = p # ps" by (cases "str_split c u") simp_all
    then show ?thesis using Cons False by (cases ps) simp_all
  qed
qed

lemma split_lines_append: "\<exists>xs x. split_lines (u @ v) = xs @ x # tl (split_lines v)"
proof -
  obtain p ps where v: "str_split CHR 0x0A v = p # ps" by (cases "str_split CHR 0x0A v") simp_all
  show ?thesis
  proof (cases "ps = []")
    case True
    then show ?thesis using v by (auto simp: split_lines_def str_split_append [of _ u v] Let_def butlast_append)
  next
    case False
    then show ?thesis using v
      by (auto simp: split_lines_def str_split_append [of _ u v] Let_def butlast_append)
  qed
qed

text \<open>The lines of a text with characters replaced are the lines of the text with characters replaced.\<close>

definition clear_line :: "string \<Rightarrow> bool" where
  "clear_line l \<longleftrightarrow> str_trim l = [] \<longrightarrow> CHR 0xA0 \<notin> set l"

lemma mangles_filter:
  "list_all2 mangles ls ms \<Longrightarrow> list_all clear_line ls \<Longrightarrow>
     list_all2 mangles (filter (\<lambda>l. str_trim l \<noteq> []) ls) (filter (\<lambda>l. str_trim l \<noteq> []) ms)"
proof (induction rule: list_all2_induct)
  case (Cons l ls m ms)
  have "str_trim m = [] \<longleftrightarrow> str_trim l = []"
    using Cons by (intro mangles_blank) (simp_all add: clear_line_def)
  with Cons show ?case by simp
qed simp

lemma split_lines_neq_Nil [simp]: "split_lines s \<noteq> []"
  by (simp add: split_lines_def Let_def)

text \<open>With two lines in the text read so far, the last one is the last of the file.\<close>

lemma last_line_of_suffix:
  assumes m: "mangles v acc" and c: "list_all clear_line (split_lines (u @ v))" and two: "2 \<le> length (nonblank_lines acc)"
  shows "nonblank_lines (u @ v) \<noteq> [] \<and> mangles (last (nonblank_lines (u @ v))) (last (nonblank_lines acc))"
proof -
  let ?nb = "filter (\<lambda>l. str_trim l \<noteq> [])"
  obtain xs x where s: "split_lines (u @ v) = xs @ x # tl (split_lines v)" using split_lines_append by blast
  obtain h t where v: "split_lines v = h # t" by (cases "split_lines v") simp_all
  obtain h' t' where a: "split_lines acc = h' # t'" by (cases "split_lines acc") simp_all
  have "list_all2 mangles t t'" using mangles_lines [OF m] by (simp add: v a)
  then have r: "list_all2 mangles (?nb t) (?nb t')" by (rule mangles_filter) (use c s v in simp)
  have t': "?nb t' \<noteq> []" using two by (auto simp: nonblank_lines_def a split: if_splits)
  with r have t: "?nb t \<noteq> []" by auto
  have "last (nonblank_lines (u @ v)) = last (?nb t)" "last (nonblank_lines acc) = last (?nb t')"
    using t t' by (simp_all add: nonblank_lines_def s v a)
  then show ?thesis using list_all2_last [OF r t] t by (simp add: nonblank_lines_def s v)
qed

lemma last_line_of_all:
  assumes "mangles s acc" "list_all clear_line (split_lines s)"
  shows "list_all2 mangles (nonblank_lines s) (nonblank_lines acc)"
  unfolding nonblank_lines_def by (rule mangles_filter [OF mangles_lines [OF assms(1)] assms(2)])

definition last_found :: "string \<Rightarrow> string option \<Rightarrow> bool" where
  "last_found s r \<longleftrightarrow> (case r of None \<Rightarrow> nonblank_lines s = []
     | Some line \<Rightarrow> nonblank_lines s \<noteq> [] \<and> mangles (last (nonblank_lines s)) line)"

lemma read_back_last:
  assumes "0 < chunk" "list_all clear_line (split_lines s)" "0 < position" "read_from s position acc"
  shows "last_found s (read_back chunk (utf8_bytes s) position acc)"
  using assms(3,4)
proof (induction position arbitrary: acc rule: less_induct)
  case (less position)
  define p where "p = position - min chunk position"
  define acc' where "acc' = utf8_decode (take (min chunk position) (drop p (utf8_bytes s))) @ acc"
  have p: "p < position" "position - p = min chunk position" using assms(1) less.prems(1) by (auto simp: p_def)
  have r: "read_from s p acc'" using read_from_step [OF less.prems(2) p(1)] unfolding acc'_def p(2) .
  have step: "read_back chunk (utf8_bytes s) position acc =
      (if 2 \<le> length (nonblank_lines acc') \<or> p = 0 \<and> 1 \<le> length (nonblank_lines acc')
       then Some (last (nonblank_lines acc')) else read_back chunk (utf8_bytes s) p acc')"
    using assms(1) less.prems(1) by (subst read_back.simps) (auto simp: Let_def p_def acc'_def)
  obtain u v where uv: "s = u @ v" "mangles v acc'" "p = 0 \<longrightarrow> u = []" using read_from_mangles [OF r] by blast
  consider "2 \<le> length (nonblank_lines acc')" | "\<not> 2 \<le> length (nonblank_lines acc')" "p = 0"
    | "\<not> 2 \<le> length (nonblank_lines acc')" "p \<noteq> 0" by blast
  then show ?case
  proof cases
    case 1
    then have "nonblank_lines s \<noteq> [] \<and> mangles (last (nonblank_lines s)) (last (nonblank_lines acc'))"
      using last_line_of_suffix [OF uv(2), of u] assms(2) uv(1) by simp
    then show ?thesis using 1 by (simp add: step last_found_def)
  next
    case 2
    have l: "list_all2 mangles (nonblank_lines s) (nonblank_lines acc')"
      using last_line_of_all [of s acc'] uv 2(2) assms(2) by simp
    have "read_back chunk (utf8_bytes s) 0 acc' = None" by (subst read_back.simps) simp
    moreover have "nonblank_lines s \<noteq> [] \<longleftrightarrow> nonblank_lines acc' \<noteq> []" using l by auto
    ultimately show ?thesis using 2 list_all2_last [OF l] by (simp add: step last_found_def Suc_le_eq)
  next
    case 3
    then show ?thesis using less.IH [OF p(1) _ r] by (simp add: step)
  qed
qed

lemma readLastNonEmptyLine_found:
  assumes "fs path = Some s" "list_all clear_line (split_lines s)"
  shows "last_found s (readLastNonEmptyLine fs path)"
proof (cases "s = []")
  case True
  then show ?thesis using assms(1)
    by (simp add: readLastNonEmptyLine_def last_found_def nonblank_lines_def split_lines_def strip_cr_def str_trim_def)
next
  case False
  have "read_from s (length (utf8_bytes s)) []" unfolding read_from_def by (rule disjI1) (rule exI [of _ s], simp)
  then show ?thesis
    using read_back_last [of 8192 s "length (utf8_bytes s)" "[]"] assms False by (simp add: readLastNonEmptyLine_def Let_def)
qed

text \<open>C29: Reading the file backwards in chunks of 8192 bytes, each decoded on its own, finds the last non-blank
  line of the whole file wherever the chunks cut it, and finds none exactly when there is none.  The line is the
  file's, but for characters outside ASCII that a chunk boundary has split, each of which comes back as
  replacement characters; a line of ASCII text comes back as it is.  A line that is blank only by a no-break
  space, which a boundary could turn into visible text, is excluded.\<close>

theorem last_line_found:
  assumes "fs path = Some s" "\<forall>l\<in>set (split_lines s). str_trim l = [] \<longrightarrow> CHR 0xA0 \<notin> set l"
  shows "case readLastNonEmptyLine fs path of
      None \<Rightarrow> nonblank_lines s = []
    | Some line \<Rightarrow> nonblank_lines s \<noteq> [] \<and> mangles (last (nonblank_lines s)) line
        \<and> ((\<forall>c\<in>set (last (nonblank_lines s)). \<not> high c) \<longrightarrow> line = last (nonblank_lines s))"
  using readLastNonEmptyLine_found [of fs path s] assms mangles_ascii
  by (auto simp: last_found_def clear_line_def list_all_iff split: option.splits)

definition wit_lines :: string where
  "wit_lines = [CHR 0xE9, CHR 0x0A] @ ''last'' @ [CHR 0x0D, CHR 0x0A]"

theorem last_line_found_witness:
  "readLastNonEmptyLine (\<lambda>_. Some wit_lines) ''log'' = Some ''last'' \<and> nonblank_lines wit_lines = [[CHR 0xE9], ''last'']"
proof -
  have n: "nonblank_lines wit_lines = [[CHR 0xE9], ''last'']" by code_simp
  have c: "\<forall>l\<in>set (split_lines wit_lines). str_trim l = [] \<longrightarrow> CHR 0xA0 \<notin> set l" by code_simp
  have "\<forall>c\<in>set ''last''. \<not> high c" by code_simp
  then show ?thesis using last_line_found [of "\<lambda>_. Some wit_lines" "''log''", OF refl c] n
    by (auto split: option.splits)
qed

section \<open>Events\<close>

lemma storable_jdistinct: "json_storable v \<Longrightarrow> jdistinct v"
  by (induction v) (auto simp: list_all_iff snds.simps)

lemma jdistinct_jget: "jdistinct v \<Longrightarrow> jdistinct (jget v k)"
  by (cases v) (auto simp: jget_obj list_all_iff split: option.splits dest: map_of_SomeD)

lemma set_update_D: "p \<in> set (AList.update k x ps) \<Longrightarrow> p = (k, x) \<or> p \<in> set ps"
  by (induction ps) (auto split: if_splits)

lemma jdistinct_jset:
  assumes "jdistinct v" "jdistinct x"
  shows "jdistinct (jset v k x)"
proof -
  have "distinct (map fst (props_of v)) \<and> list_all (\<lambda>(k, v). jdistinct v) (props_of v)"
    using assms(1) by (cases v) auto
  then show ?thesis
    using assms(2) by (auto simp: jset_def list_all_iff distinct_update dest: set_update_D)
qed

lemma storable_jset:
  assumes "json_storable v" "is_obj v" "json_storable x"
  shows "json_storable (jset v k x)"
  using assms by (cases v) (auto simp: jset_def list_all_iff distinct_update dest: set_update_D)

lemma jomit_jset: "is_obj v \<Longrightarrow> jget v k = JUndef \<Longrightarrow> json_storable v \<Longrightarrow> jomit k (jset v k x) = v"
proof (cases v)
  case (JObj ps)
  assume "jget v k = JUndef" "json_storable v"
  then have "k \<notin> fst ` set ps" using JObj by (auto simp: jget_obj list_all_iff split: option.splits dest: map_of_is_SomeI)
  then show ?thesis using JObj by (simp add: jomit_def jset_def delete_update_same delete_id)
qed simp_all

lemma eventHash_clock [simp]: "eventHash (H\<lparr>now_ms := n, fresh_uuid := f\<rparr>) = eventHash H"
  by (intro ext) (simp add: eventHash_def)

section \<open>Chains\<close>

definition last_hash :: "jval \<Rightarrow> jval list \<Rightarrow> jval" where
  "last_hash start es = (if es = [] then start else jget (last es) ''hash'')"

lemma verify_from_snoc:
  "verify_from H start i (es @ [e]) = Inr [] \<longleftrightarrow>
     verify_from H start i es = Inr [] \<and> \<not> jnullish e \<and> event_errors H (last_hash start es) (i + length es) e = []"
proof (induction es arbitrary: start i)
  case (Cons x es)
  have "last_hash (jget x ''hash'') es = last_hash start (x # es)" by (simp add: last_hash_def)
  then show ?case using Cons.IH [of "jget x ''hash''" "i + 1"] by (auto simp: res_simps)
qed (auto simp: last_hash_def res_simps)

lemma event_errors_Nil:
  assumes "event_errors H start i e = []"
  shows "validateEvidenceEvent e = []" "jget e ''index'' = JNum (int i + 1)" "strict_eq (jget e ''previousHash'') start"
    "jget e ''hash'' = JStr (eventHash H (to_str start) (jomit ''hash'' e))"
  using assms by (simp_all add: event_errors_def Let_def)

lemma verified_last:
  assumes "verify_from H start i es = Inr []" "es \<noteq> []"
  obtains es' where "es = es' @ [last es]" "verify_from H start i es' = Inr []"
    "event_errors H (last_hash start es') (i + length es') (last es) = []"
proof -
  have "es = butlast es @ [last es]" using assms(2) by simp
  then show ?thesis using assms(1) that [of "butlast es"] verify_from_snoc [of H start i "butlast es" "last es"] by simp
qed

section \<open>Appending keeps the log\<close>

text \<open>A log: the file holds the lines of the events, the events verify, and the limits are kept.\<close>

definition log_of :: "host \<Rightarrow> limits \<Rightarrow> files \<Rightarrow> string \<Rightarrow> jval list \<Rightarrow> bool" where
  "log_of H L fs path es \<longleftrightarrow>
     fs path = (if es = [] then None else Some (lines_text es)) \<and> list_all (\<lambda>e. json_storable e \<and> is_obj e) es \<and> verifyEvidence H es = Inr []
     \<and> (es \<noteq> [] \<longrightarrow> utf8_length (lines_text es) \<le> maxBytes L \<and> int (length es) \<le> maxRecords L)
     \<and> list_all (\<lambda>e. utf8_length (json_text e) \<le> maxLineBytes L) es"

lemma log_text: "log_of H L fs path es \<Longrightarrow> file_text fs path = lines_text es"
  by (simp add: log_of_def file_text_def lines_text_def)

lemma trim_json_text:
  assumes "json_storable e" "is_obj e"
  shows "str_trim (json_text e) \<noteq> []"
proof -
  obtain ps where e: "e = JObj ps" using assms(2) by (cases e) simp_all
  obtain s where s: "json_text e = CHR ''{'' # s" using assms(1) json_text_obj [OF storable_members, of ps] by (auto simp: e simp del: json_text.simps)
  have "\<not> is_blank CHR ''{''" by (simp add: is_blank_def)
  then show ?thesis by (auto simp: str_trim_def s dropWhile_eq_Nil_conv)
qed

lemma nonblank_log:
  assumes "list_all (\<lambda>e. json_storable e \<and> is_obj e) es"
  shows "nonblank_lines (lines_text es) = map json_text es"
proof -
  have "nonblank_lines s = filter (\<lambda>l. str_trim l \<noteq> []) (file_lines s)" for s
    by (auto simp: nonblank_lines_def file_lines_def str_trim_def intro: filter_cong)
  moreover have "file_lines (lines_text es) = map json_text es"
    using assms by (intro file_lines_text) (auto simp: list_all_iff)
  ultimately show ?thesis
    using assms trim_json_text by (auto simp: list_all_iff filter_empty_conv filter_id_conv)
qed

text \<open>The last event read back: its text may have been cut, but its index and its hash are ASCII.\<close>

lemma clear_log:
  assumes "list_all (\<lambda>e. json_storable e \<and> is_obj e) es"
  shows "list_all clear_line (split_lines (lines_text es))"
proof -
  have "file_lines (lines_text es) = map json_text es"
    using assms by (intro file_lines_text) (auto simp: list_all_iff)
  then have "{l \<in> set (split_lines (lines_text es)). l \<noteq> []} = json_text ` set es"
    unfolding file_lines_def by (metis list.set_map set_filter)
  then have "l = [] \<or> l \<in> json_text ` set es" if "l \<in> set (split_lines (lines_text es))" for l
    using that by blast
  then show ?thesis using assms trim_json_text by (fastforce simp: list_all_iff clear_line_def)
qed

lemma ascii_hash: "ascii (json_text (JStr (sha256_hex H s)))"
proof -
  have "\<not> high c" if "c \<in> set (sha256_hex H s)" for c
  proof -
    have "c \<in> set ''0123456789abcdef''" using that sha256_hex_chars by blast
    then show ?thesis by (auto simp: high_def)
  qed
  then have "ascii (concat (map json_esc (sha256_hex H s)))" using json_esc_ascii by (fastforce simp: ascii_def)
  then show ?thesis by (simp add: json_quote_def high_def)
qed

lemma event_content_last:
  "jget a ''hash'' = jget b ''hash'' \<Longrightarrow> jget a ''index'' = jget b ''index'' \<Longrightarrow> event_content H a = event_content H b"
  by (intro ext) (simp add: event_content_def)

lemma verified_event_ascii:
  assumes "verifyEvidence H es = Inr []" "es \<noteq> []"
  shows "\<exists>s. jget (last es) ''hash'' = JStr (sha256_hex H s)" "\<exists>n. jget (last es) ''index'' = JNum n"
proof -
  obtain es' where "event_errors H (last_hash (JStr GENESIS_HASH) es') (0 + length es') (last es) = []"
    using assms verified_last unfolding verifyEvidence_def by metis
  from event_errors_Nil(2,4) [OF this]
  show "\<exists>s. jget (last es) ''hash'' = JStr (sha256_hex H s)" "\<exists>n. jget (last es) ''index'' = JNum n"
    by (auto simp: eventHash_def)
qed

lemma readLastEvent_log:
  assumes "log_of H L fs path es"
  obtains lastEvent where "readLastEvent fs path = Inr lastEvent"
    "\<And>K. event_content K lastEvent = event_content K (if es = [] then JNull else last es)"
proof (cases "es = []")
  case True
  then show ?thesis using assms that [of JNull] by (simp add: log_of_def readLastEvent_def readLastNonEmptyLine_def)
next
  case False
  have es: "list_all (\<lambda>e. json_storable e \<and> is_obj e) es" "verifyEvidence H es = Inr []" and f: "fs path = Some (lines_text es)"
    using assms False by (simp_all add: log_of_def)
  obtain line where l: "readLastNonEmptyLine fs path = Some line" "mangles (json_text (last es)) line"
    using readLastNonEmptyLine_found [of fs path "lines_text es"] f clear_log [OF es(1)] nonblank_log [OF es(1)] False
    by (auto simp: last_found_def last_map split: option.splits)
  have "json_storable (last es)" "is_obj (last es)" using es(1) False by (simp_all add: list_all_iff)
  from this l(2) obtain v where v: "json_parse line = Some v"
    "\<And>k. ascii k \<Longrightarrow> jget (last es) k \<noteq> JUndef \<Longrightarrow> ascii (json_text (jget (last es) k)) \<Longrightarrow> jget v k = jget (last es) k"
    by (rule mangled_object_read) blast
  obtain s n where g: "jget (last es) ''hash'' = JStr (sha256_hex H s)" "jget (last es) ''index'' = JNum n"
    using verified_event_ascii [OF es(2) False] by blast
  have k: "ascii ''hash''" "ascii ''index''" by (simp_all add: high_def)
  have "jget (last es) ''hash'' \<noteq> JUndef" "ascii (json_text (jget (last es) ''hash''))"
    unfolding g(1) by (simp, rule ascii_hash)
  from v(2) [OF k(1) this] have "jget v ''hash'' = jget (last es) ''hash''" .
  moreover have "jget (last es) ''index'' \<noteq> JUndef" "ascii (json_text (jget (last es) ''index''))"
    unfolding g(2) by (simp_all add: ascii_int_str)
  from v(2) [OF k(2) this] have "jget v ''index'' = jget (last es) ''index''" .
  ultimately have "event_content K v = event_content K (last es)" for K by (intro event_content_last)
  then show ?thesis using that [of v] False by (simp add: readLastEvent_def l(1) v(1))
qed

lemma jget_clone_cases:
  assumes "jdistinct v"
  shows "jget (json_clone v) k = (if jget v k = JUndef then JUndef else json_clone (jget v k))"
proof (cases "is_obj v")
  case True
  then show ?thesis using assms by (rule jget_clone)
next
  case False
  then show ?thesis by (cases v) simp_all
qed

lemma json_clone_kind [simp]:
  "is_str (json_clone v) \<longleftrightarrow> is_str v" "is_obj (json_clone v) \<longleftrightarrow> is_obj v"
  by (cases v; simp)+

lemma json_clone_scalar: "is_str v \<or> is_int v \<Longrightarrow> json_clone v = v"
  by (cases v) simp_all

lemma validateDecisionReceipt_strings:
  assumes "validateDecisionReceipt r = []" "k \<in> {''decision_id'', ''action_digest'', ''policy_digest''}"
  shows "nonempty_str (jget r k)"
proof -
  have "required_strings r [''decision_id'', ''evaluated_at'', ''expires_at'', ''action_digest'',
      ''policy_digest'', ''decision'', ''risk''] '' is required'' = []"
    using assms(1) by (simp add: validateDecisionReceipt_def split: if_splits)
  then show ?thesis using assms(2) unfolding required_strings_ok by auto
qed

lemma validateEvidenceEvent_parts:
  assumes "validateEvidenceEvent e = []"
  shows "is_obj e" "is_obj (jget e ''decision'')"
    "present (jget (jget e ''decision'') ''receipt'') \<Longrightarrow> validateDecisionReceipt (jget (jget e ''decision'') ''receipt'') = []"
  using assms by (auto simp: validateEvidenceEvent_def Let_def split: if_splits)

text \<open>What an event is made of.\<close>

lemma event_content_get:
  fixes H t and lastEvent action decision options :: jval
  defines "c \<equiv> event_content H lastEvent action decision t options"
  defines "r \<equiv> jget (without_block decision) ''receipt''"
  shows "is_obj c" "jget c ''hash'' = JUndef"
    "jget c ''index'' = jplus1 (jor (jget lastEvent ''index'') (JNum 0))"
    "jget c ''previousHash'' = jor (jget lastEvent ''hash'') (JStr GENESIS_HASH)"
    "jget c ''decision'' = without_block decision"
    "k \<in> {''decision_id'', ''action_digest'', ''policy_digest''} \<Longrightarrow> jget c k = (if truthy r then jget r k else JUndef)"
  by (auto simp: c_def r_def event_content_def Let_def when_prop_def)

lemma jdistinct_jplus1: "jdistinct (jplus1 v)"
proof -
  have "\<exists>n. to_number v = JNum n \<or> to_number v = JNaN" for v by (simp add: to_number_def digits_to_num_def str_to_num_def split: jval.splits list.splits)
  then show ?thesis by (cases v) (auto simp: jplus1_def split: jval.splits)
qed

lemma event_content_jdistinct:
  assumes "jdistinct lastEvent" "jdistinct action" "jdistinct decision" "jdistinct options"
  shows "jdistinct (event_content H lastEvent action decision t options)"
proof -
  have d: "jdistinct (without_block decision)"
    using assms(3) by (simp add: without_block_def jdistinct_jset)
  have i: "jdistinct (jplus1 (jor (jget lastEvent ''index'') (JNum 0)))"
    by (rule jdistinct_jplus1)
  have h: "jdistinct (jor (jget lastEvent ''hash'') (JStr GENESIS_HASH))"
    using assms(1) by (simp add: jor_def jdistinct_jget)
  show ?thesis
    using assms(2,4) d i h
    by (cases "truthy (jget (without_block decision) ''receipt'')"; cases "truthy (jget options ''eventType'')";
        cases "truthy (jget options ''effectReceipt'')"; cases "truthy (jget options ''ledgerPayload'')";
        simp add: event_content_def Let_def when_prop_def jdistinct_jget)
qed

text \<open>A sealed event verifies in its place.\<close>

lemma sealed_event_verifies:
  fixes H t and lastEvent action decision options :: jval
  defines "c \<equiv> json_clone (event_content H lastEvent action decision t options)"
  assumes "jdistinct lastEvent" "jdistinct action" "jdistinct decision" "jdistinct options"
    and valid: "validateEvidenceEvent (sealed_event H c) = []"
    and start: "jor (jget lastEvent ''hash'') (JStr GENESIS_HASH) = JStr start"
    and index: "jor (jget lastEvent ''index'') (JNum 0) = JNum (int i)"
  shows "event_errors H (JStr start) i (sealed_event H c) = []" "json_storable (sealed_event H c)" "is_obj (sealed_event H c)"
    "jget (sealed_event H c) ''index'' = JNum (int i + 1)"
proof -
  let ?c0 = "event_content H lastEvent action decision t options" and ?e = "sealed_event H c"
  let ?d = "without_block decision"
  let ?r = "jget ?d ''receipt''"
  have d: "jdistinct ?c0" by (rule event_content_jdistinct) fact+
  have dd: "jdistinct ?d" using assms(4) by (simp add: without_block_def jdistinct_jset)
  have c: "is_obj c" "json_storable c"
    using d by (simp_all add: c_def event_content_get(1) json_clone_storable)
  have get: "jget c k = (if jget ?c0 k = JUndef then JUndef else json_clone (jget ?c0 k))" for k
    unfolding c_def by (rule jget_clone_cases [OF d])
  have e: "jget ?e k = (if k = ''hash'' then JStr (eventHash H (to_str (jget c ''previousHash'')) c) else jget c k)" for k
    by (simp add: sealed_event_def jget_jset)
  have hash: "jget c ''hash'' = JUndef" by (simp add: get event_content_get(2))
  have prev: "jget c ''previousHash'' = JStr start" by (simp add: get event_content_get(4) start)
  have ix: "jget c ''index'' = JNum (int i + 1)" by (simp add: get event_content_get(3) index)
  show st: "json_storable ?e" "is_obj ?e" using c by (simp_all add: sealed_event_def storable_jset)
  show ie: "jget ?e ''index'' = JNum (int i + 1)" using ix by (simp add: e)
  have omit: "jomit ''hash'' ?e = c" using c hash by (simp add: sealed_event_def jomit_jset)
  have mismatch: "receipt_mismatch ?e line k = []" if k: "k \<in> {''decision_id'', ''action_digest'', ''policy_digest''}" for line k
  proof -
    have kh: "k \<noteq> ''hash''" using k by auto
    have own: "jget ?e k = (if truthy ?r then jget (json_clone ?r) k else JUndef)"
      using kh get [of k] event_content_get(6) [OF k, of H lastEvent action decision t options]
        jget_clone_cases [OF jdistinct_jget [OF dd], of "''receipt''" k]
      by (simp add: e)
    have dec: "jget ?e ''decision'' = (if ?d = JUndef then JUndef else json_clone ?d)"
      by (simp add: e get event_content_get(5))
    then have theirs: "jget (jget ?e ''decision'') ''receipt'' = (if ?r = JUndef then JUndef else json_clone ?r)"
      using jget_clone_cases [OF dd, of "''receipt''"] by auto
    show ?thesis
    proof (cases "truthy ?r")
      case True
      then have "?r \<noteq> JUndef" by auto
      then have r: "jget (jget ?e ''decision'') ''receipt'' = json_clone ?r" using theirs by simp
      then have "validateDecisionReceipt (json_clone ?r) = []"
        using validateEvidenceEvent_parts(3) [OF valid] by (simp add: present_def)
      then have "nonempty_str (jget (json_clone ?r) k)" using k by (rule validateDecisionReceipt_strings)
      then show ?thesis using True r own by (auto simp: receipt_mismatch_def Let_def nonempty_str_iff strict_eq_def)
    next
      case False
      then show ?thesis using own by (simp add: receipt_mismatch_def Let_def)
    qed
  qed
  show "event_errors H (JStr start) i ?e = []"
    using valid ie prev by (simp add: event_errors_def Let_def mismatch omit e)
qed

lemma log_lasts:
  assumes "log_of H L fs path es" "\<forall>s. sha256_hex H s \<noteq> []"
  defines "lastEvent \<equiv> if es = [] then JNull else last es"
  obtains start where "jdistinct lastEvent" "last_hash (JStr GENESIS_HASH) es = JStr start"
    "jor (jget lastEvent ''hash'') (JStr GENESIS_HASH) = JStr start"
    "jor (jget lastEvent ''index'') (JNum 0) = JNum (int (length es))"
proof (cases "es = []")
  case True
  then show ?thesis using that by (simp add: lastEvent_def last_hash_def jor_def)
next
  case False
  have v: "verify_from H (JStr GENESIS_HASH) 0 es = Inr []" "json_storable (last es)"
    using assms(1) False by (simp_all add: log_of_def verifyEvidence_def list_all_iff)
  obtain es' where es: "es = es' @ [last es]"
    and e: "event_errors H (last_hash (JStr GENESIS_HASH) es') (0 + length es') (last es) = []"
    using verified_last [OF v(1) False] by metis
  have len: "length es = Suc (length es')" using es by (metis length_append_singleton)
  let ?h = "eventHash H (to_str (last_hash (JStr GENESIS_HASH) es')) (jomit ''hash'' (last es))"
  have h: "jget (last es) ''hash'' = JStr ?h" and i: "jget (last es) ''index'' = JNum (int (length es))"
    using event_errors_Nil(4,2) [OF e] len by simp_all
  have "?h \<noteq> []" using assms(2) by (simp add: eventHash_def)
  then show ?thesis
    using that [of ?h] False h i v(2) len by (simp add: lastEvent_def last_hash_def jor_def storable_jdistinct)
qed

lemma lines_text_snoc: "lines_text (es @ [e]) = lines_text es @ json_text e @ [CHR 0x0A]"
  by (simp add: lines_text_concat)

lemma utf8_length_append [simp]: "utf8_length (s @ t) = utf8_length s + utf8_length t"
  by (simp add: utf8_length_def)

lemma utf8_length_nonneg [simp]: "0 \<le> utf8_length s"
  by (simp add: utf8_length_def)

lemma append_event_log:
  assumes log: "log_of H L fs path es" and sha: "\<forall>s. sha256_hex H s \<noteq> []"
    and "jdistinct action" "jdistinct decision" "jdistinct options"
    and app: "append_event (H\<lparr>now_ms := n, fresh_uuid := f\<rparr>) fs L path action decision timestamp options = Inr (fs', e)"
  shows "log_of H L fs' path (es @ [e])"
proof -
  let ?H = "H\<lparr>now_ms := n, fresh_uuid := f\<rparr>"
  let ?last = "if es = [] then JNull else last es"
  obtain start where st: "jdistinct ?last" "last_hash (JStr GENESIS_HASH) es = JStr start"
    "jor (jget ?last ''hash'') (JStr GENESIS_HASH) = JStr start"
    "jor (jget ?last ''index'') (JNum 0) = JNum (int (length es))"
    by (rule log_lasts [OF log sha])
  obtain lastEvent where rl: "readLastEvent fs path = Inr lastEvent"
    and content: "\<And>K. event_content K lastEvent = event_content K ?last" by (rule readLastEvent_log [OF log]) blast
  obtain t where e: "e = sealed_event ?H (json_clone (event_content ?H ?last action decision t options))"
    and valid: "validateEvidenceEvent e = []" and ix: "num_of (jget e ''index'') \<le> maxRecords L"
    and line: "utf8_length (json_text e @ [CHR 0x0A]) \<le> maxLineBytes L"
    and bytes: "utf8_length (lines_text es) + utf8_length (json_text e @ [CHR 0x0A]) \<le> maxBytes L"
    and fs': "fs' = fs(path \<mapsto> lines_text es @ json_text e @ [CHR 0x0A])"
    using app unfolding append_event_def rl log_text [OF log]
    by (auto simp: res_simps Let_def content split: option.splits)
  note sealed = sealed_event_verifies [OF st(1) assms(3-5) valid [unfolded e] st(3,4), folded e]
  have "verifyEvidence H (es @ [e]) = Inr []"
    using log sealed(1,3) st(2)
    by (auto simp: verifyEvidence_def verify_from_snoc log_of_def event_errors_def Let_def jnullish_def)
  moreover have "int (length es) + 1 \<le> maxRecords L" using ix sealed(4) by simp
  moreover have "utf8_length (json_text e) \<le> maxLineBytes L"
    using line utf8_length_nonneg [of "[CHR 0x0A]"] unfolding utf8_length_append by linarith
  ultimately show ?thesis
    using log sealed(2,3) bytes by (simp add: log_of_def fs' lines_text_snoc)
qed

lemma loadJsonLines_log: "list_all json_storable es \<Longrightarrow> loadJsonLines (lines_text es) = Inr es"
  by (auto simp: loadJsonLines_def file_lines_text map_res_eq_Inr list_all2_conv_all_nth nth_enumerate_eq json_parse_text list_all_length)

lemma line_too_long_ok: "list_all (\<lambda>l. utf8_length l \<le> limit) ls \<Longrightarrow> line_too_long limit i ls = Inr ()"
  by (induction ls arbitrary: i) simp_all

lemma readEvents_log:
  assumes "log_of H L fs path es"
  shows "readEvents fs L path = Inr es"
proof (cases "es = []")
  case False
  have st: "list_all json_storable es" using assms by (auto simp: log_of_def list_all_iff)
  have "0 < utf8_length (lines_text es)"
    using False by (cases es rule: rev_cases) (auto simp: lines_text_snoc utf8_length_def)
  then have "readBoundedFileSync fs path (maxBytes L) ''evidence log'' = Inr (Some (lines_text es))"
    using assms False by (simp add: log_of_def readBoundedFileSync_def Let_def)
  moreover have "line_too_long (maxLineBytes L) 0 (map json_text es) = Inr ()"
    using assms by (intro line_too_long_ok) (auto simp: log_of_def list_all_iff)
  ultimately show ?thesis
    using assms False st by (simp add: readEvents_def file_lines_text loadJsonLines_log log_of_def)
qed (use assms in \<open>simp add: readEvents_def log_of_def readBoundedFileSync_def Let_def\<close>)

text \<open>A run of appends, each at its own time and with its own identifiers; one that throws leaves the
  log alone.  The events are those returned.\<close>

record append_request =
  ar_now :: int
  ar_uuid :: "nat \<Rightarrow> string"
  ar_action :: jval
  ar_decision :: jval
  ar_time :: jval
  ar_options :: jval

fun append_all :: "host \<Rightarrow> limits \<Rightarrow> string \<Rightarrow> append_request list \<Rightarrow> files \<Rightarrow> files \<times> jval list" where
  "append_all H L path [] fs = (fs, [])"
| "append_all H L path (q # qs) fs =
     (case append_event (H\<lparr>now_ms := ar_now q, fresh_uuid := ar_uuid q\<rparr>) fs L path (ar_action q) (ar_decision q)
         (ar_time q) (ar_options q) of
        Inl e \<Rightarrow> append_all H L path qs fs
      | Inr (fs', event) \<Rightarrow> (case append_all H L path qs fs' of (fs'', events) \<Rightarrow> (fs'', event # events)))"

definition proper_request :: "append_request \<Rightarrow> bool" where
  "proper_request q \<longleftrightarrow> jdistinct (ar_action q) \<and> jdistinct (ar_decision q) \<and> jdistinct (ar_options q)"

lemma append_all_log:
  assumes "log_of H L fs path es" "\<forall>s. sha256_hex H s \<noteq> []" "\<forall>q\<in>set qs. proper_request q"
    and "append_all H L path qs fs = (fs', es')"
  shows "log_of H L fs' path (es @ es')"
  using assms(1,3,4)
proof (induction qs arbitrary: fs es es')
  case (Cons q qs)
  let ?r = "append_event (H\<lparr>now_ms := ar_now q, fresh_uuid := ar_uuid q\<rparr>) fs L path (ar_action q) (ar_decision q)
    (ar_time q) (ar_options q)"
  show ?case
  proof (cases ?r)
    case (Inl e)
    then show ?thesis using Cons by simp
  next
    case (Inr r)
    obtain fs1 event where r: "?r = Inr (fs1, event)" using Inr by (cases r) simp
    obtain events where rest: "append_all H L path qs fs1 = (fs', events)" "es' = event # events"
      using Cons.prems(3) r by (auto split: prod.splits)
    have "log_of H L fs1 path (es @ [event])"
      using Cons.prems(1,2) r by (intro append_event_log [OF _ assms(2) _ _ _ r]) (simp_all add: proper_request_def)
    then show ?thesis using Cons.IH [of fs1 "es @ [event]" events] rest Cons.prems(2) by simp
  qed
qed simp

text \<open>C15: The log is always readable and intact.  From a missing file, after any run of appends by
  any callers, of which some may throw, reading the log gives exactly the events the appends
  returned, in order, and the chain of hashes verifies.\<close>

theorem log_reads_back:
  assumes "fs path = None" "\<forall>s. sha256_hex H s \<noteq> []" "\<forall>q\<in>set qs. proper_request q"
    and "append_all H L path qs fs = (fs', es)"
  shows "readEvents fs' L path = Inr es \<and> verifyEvidence H es = Inr []"
proof -
  have "log_of H L fs path []" using assms(1) by (simp add: log_of_def verifyEvidence_def)
  then have "log_of H L fs' path ([] @ es)" by (rule append_all_log [OF _ assms(2-4)])
  then show ?thesis using readEvents_log by (simp add: log_of_def)
qed

definition wit_recorder :: host where
  "wit_recorder = \<lparr>sha256 = (\<lambda>s. ''d''), hmac_hex = (\<lambda>k s. s), now_ms = 1767225600000, fresh_uuid = (\<lambda>n. ''u''),
     locale_compare = (\<lambda>a b. 0), nfkc = (\<lambda>s. s)\<rparr>"

definition wit_append :: append_request where
  "wit_append = \<lparr>ar_now = 1767225600000, ar_uuid = (\<lambda>n. ''u''), ar_action = JObj [(''type'', JStr ''file.read''), (''target'', JStr ''a'')],
     ar_decision = JObj [(''action'', JStr ''block'')], ar_time = JUndef, ar_options = JObj []\<rparr>"

lemma log_reads_back_witness:
  "\<exists>fs' es. append_all wit_recorder EVIDENCE_RECORDER_LIMITS ''log'' [wit_append] (\<lambda>_. None) = (fs', es)
     \<and> length es = 1 \<and> readEvents fs' EVIDENCE_RECORDER_LIMITS ''log'' = Inr es \<and> verifyEvidence wit_recorder es = Inr []"
proof -
  let ?run = "append_all wit_recorder EVIDENCE_RECORDER_LIMITS ''log'' [wit_append] (\<lambda>_. None)"
  have len: "length (snd ?run) = 1" by code_simp
  have proper: "\<forall>q\<in>set [wit_append]. proper_request q" by (simp add: wit_append_def proper_request_def)
  have sha: "\<forall>s. sha256_hex wit_recorder s \<noteq> []" by (simp add: wit_recorder_def)
  have "?run = (fst ?run, snd ?run)" by simp
  from log_reads_back [OF refl sha proper this] len this show ?thesis by blast
qed

section \<open>Tampering\<close>

text \<open>The texts that are hashed along a log.\<close>

fun hashed_texts :: "jval \<Rightarrow> jval list \<Rightarrow> string set" where
  "hashed_texts start [] = {}"
| "hashed_texts start (e # es) =
     insert (to_str start @ recorderCanonicalStringify (jomit ''hash'' e)) (hashed_texts (jget e ''hash'') es)"

lemma hashed_texts_snoc:
  "hashed_texts start (es @ [e]) =
     insert (to_str (last_hash start es) @ recorderCanonicalStringify (jomit ''hash'' e)) (hashed_texts start es)"
proof (induction es arbitrary: start)
  case (Cons x es)
  have "last_hash (jget x ''hash'') es = last_hash start (x # es)" by (simp add: last_hash_def)
  then show ?case using Cons.IH [of "jget x ''hash''"] by auto
qed (simp add: last_hash_def)

lemma storable_clean: "json_storable v \<Longrightarrow> json_clean v"
  by (induction v) (auto simp: list_all_iff snds.simps)

lemma storable_jomit: "json_storable v \<Longrightarrow> json_storable (jomit k v)"
  by (cases v) (auto simp: jomit_def list_all_iff AList.delete_eq distinct_map_filter)

lemma canonical_object: "\<exists>s. canonicalStringify (jomit k v) = CHR ''{'' # s"
  by (simp add: jomit_def)

lemma split_at_brace:
  assumes "p @ CHR ''{'' # s = q @ CHR ''{'' # t" "CHR ''{'' \<notin> set p" "CHR ''{'' \<notin> set q"
  shows "p = q \<and> s = t"
proof -
  have "\<forall>c\<in>set p. c \<noteq> CHR ''{''" "\<forall>c\<in>set q. c \<noteq> CHR ''{''" using assms(2,3) by auto
  then have "takeWhile (\<lambda>c. c \<noteq> CHR ''{'') (p @ CHR ''{'' # s) = p" "takeWhile (\<lambda>c. c \<noteq> CHR ''{'') (q @ CHR ''{'' # t) = q"
    by (simp_all add: takeWhile_append2)
  then have "p = q" using assms(1) by simp
  then show ?thesis using assms(1) by simp
qed

definition same_event :: "jval \<Rightarrow> jval \<Rightarrow> bool" where
  "same_event e f \<longleftrightarrow> jnorm (jomit ''hash'' e) = jnorm (jomit ''hash'' f) \<and> jget e ''hash'' = jget f ''hash''"

text \<open>The start of a chain and what its hashes look like.\<close>

definition hex_hashes :: "host \<Rightarrow> bool" where
  "hex_hashes H \<longleftrightarrow> (\<forall>s. sha256_hex H s \<noteq> [] \<and> list_all hex_digit (sha256_hex H s))"

lemma last_hash_text:
  assumes "verify_from H (JStr GENESIS_HASH) 0 es = Inr []" "hex_hashes H"
  obtains p where "last_hash (JStr GENESIS_HASH) es = JStr p" "CHR ''{'' \<notin> set p" "CHR ''G'' \<in> set p \<longleftrightarrow> es = []"
proof (cases "es = []")
  case True
  then show ?thesis using that by (simp add: last_hash_def GENESIS_HASH_def)
next
  case False
  obtain es' where e: "event_errors H (last_hash (JStr GENESIS_HASH) es') (0 + length es') (last es) = []"
    by (rule verified_last [OF assms(1) False]) simp
  let ?p = "eventHash H (to_str (last_hash (JStr GENESIS_HASH) es')) (jomit ''hash'' (last es))"
  have "last_hash (JStr GENESIS_HASH) es = JStr ?p" using False event_errors_Nil(4) [OF e] by (simp add: last_hash_def)
  moreover have "list_all hex_digit ?p" using assms(2) by (simp add: eventHash_def hex_hashes_def)
  then have "CHR ''{'' \<notin> set ?p" "CHR ''G'' \<notin> set ?p" by (auto simp: list_all_iff hex_digit_def is_digit_def)
  ultimately show ?thesis using that False by simp
qed

text \<open>C9: A log cannot be changed unnoticed.  Two logs that both verify and end in the same hash are
  the same event for event, whatever their lengths, provided SHA-256 does not collide on the texts
  hashed along them: changing, inserting, dropping or reordering events changes the last hash.\<close>

theorem tamper_evident:
  assumes "hex_hashes H" "verifyEvidence H es = Inr []" "verifyEvidence H fs = Inr []"
    and "list_all json_storable es" "list_all json_storable fs"
    and "last_hash (JStr GENESIS_HASH) es = last_hash (JStr GENESIS_HASH) fs"
    and "inj_on (sha256_hex H) (hashed_texts (JStr GENESIS_HASH) es \<union> hashed_texts (JStr GENESIS_HASH) fs)"
  shows "list_all2 same_event es fs"
  using assms(2-7) unfolding verifyEvidence_def
proof (induction es arbitrary: fs rule: rev_induct)
  case Nil
  obtain p q where "last_hash (JStr GENESIS_HASH) [] = JStr p" "CHR ''G'' \<in> set p"
    "last_hash (JStr GENESIS_HASH) fs = JStr q" "CHR ''G'' \<in> set q \<longleftrightarrow> fs = []"
    by (metis Nil.prems(1,2) assms(1) last_hash_text)
  then show ?case using Nil.prems(5) by simp
next
  case (snoc e es)
  obtain p where p: "last_hash (JStr GENESIS_HASH) (es @ [e]) = JStr p" "CHR ''G'' \<notin> set p"
    by (metis snoc.prems(1) assms(1) last_hash_text snoc_eq_iff_butlast)
  obtain q where "last_hash (JStr GENESIS_HASH) fs = JStr q" "CHR ''G'' \<in> set q \<longleftrightarrow> fs = []"
    by (metis snoc.prems(2) assms(1) last_hash_text)
  then have "fs \<noteq> []" using p snoc.prems(5) by auto
  then obtain f fs' where fs: "fs = fs' @ [f]" by (cases fs rule: rev_cases) auto
  let ?ph = "last_hash (JStr GENESIS_HASH) es" and ?qh = "last_hash (JStr GENESIS_HASH) fs'"
  have e: "verify_from H (JStr GENESIS_HASH) 0 es = Inr []" "event_errors H ?ph (0 + length es) e = []"
    and f: "verify_from H (JStr GENESIS_HASH) 0 fs' = Inr []" "event_errors H ?qh (0 + length fs') f = []"
    using snoc.prems(1,2) by (simp_all add: verify_from_snoc fs)
  obtain a where a: "?ph = JStr a" "CHR ''{'' \<notin> set a" by (rule last_hash_text [OF e(1) assms(1)])
  obtain b where b: "?qh = JStr b" "CHR ''{'' \<notin> set b" by (rule last_hash_text [OF f(1) assms(1)])
  let ?ce = "canonicalStringify (jomit ''hash'' e)" and ?cf = "canonicalStringify (jomit ''hash'' f)"
  have heads: "jget e ''hash'' = jget f ''hash''" using snoc.prems(5) by (simp add: last_hash_def fs)
  then have "sha256_hex H (a @ ?ce) = sha256_hex H (b @ ?cf)"
    using event_errors_Nil(4) [OF e(2)] event_errors_Nil(4) [OF f(2)] a(1) b(1)
    by (simp add: eventHash_def recorderCanonicalStringify_def)
  then have texts: "a @ ?ce = b @ ?cf"
    by (rule inj_onD [OF snoc.prems(6)]) (simp_all add: fs hashed_texts_snoc recorderCanonicalStringify_def a(1) b(1))
  obtain s t where "?ce = CHR ''{'' # s" "?cf = CHR ''{'' # t" using canonical_object by blast
  then have ab: "a = b" "?ce = ?cf" using split_at_brace [of a s b t] texts a(2) b(2) by auto
  have "jnorm (jomit ''hash'' e) = jnorm (jomit ''hash'' f)"
    using snoc.prems(3,4) by (intro canonicalStringify_inject [OF _ _ ab(2)] storable_clean storable_jomit) (simp_all add: fs)
  then have "same_event e f" using heads by (simp add: same_event_def)
  moreover have "inj_on (sha256_hex H) (hashed_texts (JStr GENESIS_HASH) es \<union> hashed_texts (JStr GENESIS_HASH) fs')"
    by (rule inj_on_subset [OF snoc.prems(6)]) (auto simp: fs hashed_texts_snoc)
  then have "list_all2 same_event es fs'"
    using snoc.prems(3,4) a(1) b(1) ab(1) by (intro snoc.IH [OF e(1) f(1)]) (simp_all add: fs)
  ultimately show ?case by (simp add: fs list_all2_appendI)
qed

definition wit_event :: jval where
  "wit_event = JObj [(''schema_version'', JStr ''2.0''), (''event_id'', JStr ''evt_u''), (''index'', JNum 1),
     (''timestamp'', JStr ''2026-01-01T00:00:00.000Z''), (''action'', JObj [(''type'', JStr ''file.read''), (''target'', JStr ''a'')]),
     (''decision'', JObj [(''action'', JStr ''deny'')]), (''previousHash'', JStr ''GENESIS''), (''hash'', JStr ''64'')]"

definition wit_reordered :: jval where
  "wit_reordered = JObj (rev (props_of wit_event))"

lemma tamper_evident_witness:
  "list_all2 same_event [wit_event] [wit_reordered]"
proof -
  let ?c = "\<lambda>e. recorderCanonicalStringify (jomit ''hash'' e)"
  have hex: "hex_hashes wit_recorder"
    by (simp add: hex_hashes_def wit_recorder_def sha256_hex_def hex_of_byte_def hex_digit_def is_digit_def)
  have v: "verifyEvidence wit_recorder [wit_event] = Inr []" "verifyEvidence wit_recorder [wit_reordered] = Inr []"
    by code_simp+
  have st: "list_all json_storable [wit_event]" "list_all json_storable [wit_reordered]" by code_simp+
  have h: "last_hash (JStr GENESIS_HASH) [wit_event] = last_hash (JStr GENESIS_HASH) [wit_reordered]" by code_simp
  have "?c wit_event = ?c wit_reordered" by code_simp
  then have inj: "inj_on (sha256_hex wit_recorder)
      (hashed_texts (JStr GENESIS_HASH) [wit_event] \<union> hashed_texts (JStr GENESIS_HASH) [wit_reordered])"
    by simp
  show ?thesis by (rule tamper_evident [OF hex v st h inj])
qed

end
