(* ===== verification/GatewayProps.thy ===== *)
theory GatewayProps
  imports Gateway
begin

text \<open>
  What an allow decision of the gateway rests on, and the guards that no policy can override.
\<close>

section \<open>The stages\<close>

definition request_grant :: "jval \<Rightarrow> jval \<Rightarrow> jval \<Rightarrow> jval" where
  "request_grant input call options =
     or_three (jget options ''authorityGrant'') (jget (jget call ''context'') ''authority_grant'') (jget input ''authority_grant'')"

definition request_envelope :: "jval \<Rightarrow> jval \<Rightarrow> jval \<Rightarrow> jval" where
  "request_envelope input call options =
     or_three (jget options ''authorityEnvelope'') (jget (jget call ''context'') ''authority_envelope'') (jget input ''authority_envelope'')"

lemma evaluate_cases:
  assumes "evaluatePermissionRequest H rvk input policy options = Inr result"
  obtains call az pids decided where
    "normalizeToolCall H input options = Inr call"
    "gateway_authority H rvk call (request_grant input call options) (request_envelope input call options) options = Inr az"
    "gateway_decision H call (gateway_action H call (classifyRisk call) (request_grant input call options)
       (request_envelope input call options) az pids) (classifyRisk call) (request_grant input call options) az policy options = Inr decided"
    "jget (jget result ''decision'') ''action'' = jget decided ''action''"
proof -
  have "jget (jset (with_cache_key H call d) ''receipt'' r) ''action'' = jget d ''action''" for call d r
    by (simp add: with_cache_key_def jget_jset)
  then show ?thesis
    using assms that
    by (auto simp: evaluatePermissionRequest_def res_simps Let_def request_grant_def request_envelope_def jget_jset)
qed

lemma guard_decision_action [simp]: "jget (guard_decision action reason rule trace) ''action'' = JStr action"
  by (simp add: guard_decision_def)

lemma withRisk_action [simp]: "jget (withRisk d c source) ''action'' = jget d ''action''"
  by (simp add: withRisk_def jget_jspread jhas_def)

lemma denials_deny [simp]:
  "jget (authority_denial grant a) ''action'' = JStr ''deny''" "jget exfiltration_denial ''action'' = JStr ''deny''"
  "jget injection_denial ''action'' = JStr ''deny''"
  by (simp_all add: authority_denial_def exfiltration_denial_def injection_denial_def)

text \<open>What each risk asks of a policy decision that is to stay an allow.\<close>

definition risk_accepts :: "classification \<Rightarrow> jval \<Rightarrow> bool" where
  "risk_accepts c d \<longleftrightarrow>
     (cl_risk c = Critical \<longrightarrow> isExplicitAllow d \<and> jget d ''allowCritical'' = JBool True)
     \<and> (cl_risk c = Medium \<or> cl_risk c = High \<longrightarrow> isExplicitAllow d)
     \<and> \<not> (cl_injection c \<and> cl_effect c = ''read_only'')"

lemma risk_upgraded_allow:
  "jget (risk_upgraded c d) ''action'' = JStr ''allow'' \<longleftrightarrow> jget d ''action'' = JStr ''allow'' \<and> risk_accepts c d"
  by (auto simp: risk_upgraded_def risk_accepts_def Let_def)

lemma risk_upgraded_needs_approval:
  "jget (risk_upgraded c d) ''action'' = JStr ''needs_approval'' \<Longrightarrow> jget d ''action'' \<noteq> JStr ''deny''"
  by (auto simp: risk_upgraded_def Let_def split: if_splits)

definition session_allows :: "host \<Rightarrow> jval \<Rightarrow> jval \<Rightarrow> bool" where
  "session_allows H call options \<longleftrightarrow>
     jget (jget (jor (jor (jget options ''sessionDecisionCache'') (jget options ''sessionDecisions'')) (JObj []))
       (approvalFingerprint H call)) ''decision'' = JStr ''allow_session''"

lemma policy_stage_allow:
  assumes "policy_stage H call action c policy options = Inr d" "jget d ''action'' = JStr ''allow''"
  obtains p where "evaluatePolicy H action policy = Inr p" "jget p ''action'' \<noteq> JStr ''deny''"
    "(jget p ''action'' = JStr ''allow'' \<and> risk_accepts c p) \<or> (cl_risk c \<noteq> Critical \<and> session_allows H call options)"
proof -
  obtain p where p: "evaluatePolicy H action policy = Inr p"
    "d = (if cl_risk c = Critical then risk_upgraded c p
       else applySessionDecision H (risk_upgraded c p) call
         (jor (jor (jget options ''sessionDecisionCache'') (jget options ''sessionDecisions'')) (JObj [])))"
    using assms(1) by (auto simp: policy_stage_def res_simps Let_def)
  consider "jget (risk_upgraded c p) ''action'' = JStr ''allow''"
    | "cl_risk c \<noteq> Critical" "jget (risk_upgraded c p) ''action'' = JStr ''needs_approval''" "session_allows H call options"
    using assms(2) p(2) applySessionDecision_action [of H "risk_upgraded c p" call
        "jor (jor (jget options ''sessionDecisionCache'') (jget options ''sessionDecisions'')) (JObj [])"]
    by (cases "cl_risk c = Critical") (auto simp: session_allows_def)
  then show ?thesis
  proof cases
    case 1
    then show ?thesis using that [OF p(1)] by (auto simp: risk_upgraded_allow)
  next
    case 2
    then show ?thesis using that [OF p(1)] risk_upgraded_needs_approval by blast
  qed
qed

text \<open>C1: An allow decision of the gateway has passed every guard: the call carries no secret across a
  trust boundary and no injection into a side effect, the authority it presents (if any) permits it,
  the policy does not deny it, and either the policy itself allows it as strictly as its risk
  demands (an explicit rule from medium risk on, with \<open>allowCritical\<close> for a critical call) or, below
  critical risk, the session has approved this very call.\<close>

theorem gateway_allow_guarded:
  assumes "evaluatePermissionRequest H rvk input policy options = Inr result"
    and "jget (jget result ''decision'') ''action'' = JStr ''allow''"
  shows "\<exists>call az pids p. normalizeToolCall H input options = Inr call
    \<and> gateway_authority H rvk call (request_grant input call options) (request_envelope input call options) options = Inr az
    \<and> (\<forall>a. az = Some a \<longrightarrow> az_errors a = [])
    \<and> \<not> cl_exfiltration (classifyRisk call) \<and> \<not> cl_injection_effect (classifyRisk call)
    \<and> evaluatePolicy H (gateway_action H call (classifyRisk call) (request_grant input call options)
        (request_envelope input call options) az pids) policy = Inr p \<and> jget p ''action'' \<noteq> JStr ''deny''
    \<and> ((jget p ''action'' = JStr ''allow'' \<and> risk_accepts (classifyRisk call) p)
       \<or> (cl_risk (classifyRisk call) \<noteq> Critical \<and> session_allows H call options))"
proof (rule evaluate_cases [OF assms(1)])
  fix call az pids decided
  let ?g = "request_grant input call options" and ?e = "request_envelope input call options" and ?c = "classifyRisk call"
  let ?action = "gateway_action H call ?c ?g ?e az pids"
  assume n: "normalizeToolCall H input options = Inr call" and a: "gateway_authority H rvk call ?g ?e options = Inr az"
    and d: "gateway_decision H call ?action ?c ?g az policy options = Inr decided"
    and r: "jget (jget result ''decision'') ''action'' = jget decided ''action''"
  have allow: "jget decided ''action'' = JStr ''allow''" using assms(2) r by simp
  have guards: "\<forall>a. az = Some a \<longrightarrow> az_errors a = []" "\<not> cl_exfiltration ?c" "\<not> cl_injection_effect ?c"
    and stage: "policy_stage H call ?action ?c policy options = Inr decided"
    using d allow by (auto simp: gateway_decision_def split: option.splits if_splits)
  from stage allow obtain p where "evaluatePolicy H ?action policy = Inr p" "jget p ''action'' \<noteq> JStr ''deny''"
    "(jget p ''action'' = JStr ''allow'' \<and> risk_accepts ?c p) \<or> (cl_risk ?c \<noteq> Critical \<and> session_allows H call options)"
    by (rule policy_stage_allow)
  then show ?thesis using n a guards by blast
qed

definition wit_gateway :: host where
  "wit_gateway = \<lparr>sha256 = (\<lambda>s. ''d''), hmac_hex = (\<lambda>k s. s), now_ms = 1767225600000, fresh_uuid = (\<lambda>n. ''u''),
     locale_compare = (\<lambda>a b. 0), nfkc = (\<lambda>s. s)\<rparr>"

definition wit_call :: jval where
  "wit_call = JObj [(''call_id'', JStr ''c1''), (''timestamp'', JStr ''2026-01-01T00:00:00.000Z''),
     (''actor'', JObj [(''type'', JStr ''agent''), (''name'', JStr ''a''), (''session_id'', JStr ''s'')]),
     (''tool'', JObj [(''name'', JStr ''read_file''), (''category'', JStr ''filesystem''), (''operation'', JStr ''read'')]),
     (''target'', JObj [(''resource'', JStr []), (''scope'', JStr []), (''sensitivity'', JStr ''public'')]),
     (''arguments'', JObj [])]"

definition wit_allow_policy :: jval where
  "wit_allow_policy = JObj [(''allowedActions'', JArr [JStr ''*''])]"

definition wit_class :: classification where
  "wit_class = \<lparr>cl_risk = Safe, cl_reasons = [''read-only public resource''], cl_secrets = False, cl_injection = False,
     cl_exfiltration = False, cl_injection_effect = False, cl_flow = ''local'', cl_effect = ''read_only''\<rparr>"

lemma wit_quiet:
  "\<not> detectedSecrets wit_call" "\<not> detectedPromptInjection wit_call" "classifyDataFlow wit_call = ''local''"
  "classifySideEffect wit_call = ''read_only''"
proof -
  have p: "args_of wit_call = JObj []" "jor (jget (jget wit_call ''target'') ''resource'') (JStr []) = JStr []"
    "jor (jget wit_call ''context'') (JObj []) = JObj []" "call_operation wit_call = JStr ''read''"
    "call_category wit_call = JStr ''filesystem''" "jor (jget (jget wit_call ''target'') ''scope'') (JStr []) = JStr []"
    by (simp_all add: args_of_def wit_call_def jor_def call_operation_def call_category_def)
  have i: "\<not> containsPromptInjection (JObj [])" by code_simp
  have "list_all (\<lambda>p. \<not> rx_test p []) SECRET_PATTERNS" by code_simp
  then have s: "\<not> containsSecretLikeString (JStr [])"
    by (simp add: containsSecretLikeString_def jcoalesce_def list_ex_iff list_all_iff)
  have e: "rx_test EXTERNAL_SCOPE [] = False" by code_simp
  show "\<not> detectedSecrets wit_call" "\<not> detectedPromptInjection wit_call"
    using s i by (simp_all add: detectedSecrets_def detectedPromptInjection_def p)
  show "classifyDataFlow wit_call = ''local''"
    by (simp add: classifyDataFlow_def Let_def p e one_of_def EXTERNAL_CATEGORIES_def str_lower_def)
  show "classifySideEffect wit_call = ''read_only''"
    by (simp add: classifySideEffect_def Let_def p one_of_def READ_ONLY_OPERATIONS_def)
qed

lemma wit_class: "classifyRisk wit_call = wit_class"
proof -
  have p: "operation_of wit_call = JStr ''read''" "category_of wit_call = JStr ''filesystem''"
    "sensitivity_of wit_call = JStr ''public''"
    by (simp_all add: operation_of_def category_of_def sensitivity_of_def wit_call_def jor_def)
  have h: "signals wit_call = (True, Safe, ''read-only public resource'') # tl (signals wit_call)"
    and t: "\<forall>x\<in>set (tl (signals wit_call)). \<not> fst x"
    by (simp_all add: signals_def file_signal_def p one_of_def wit_quiet Let_def)
  have f: "fold raise_signal xs st = st" if "\<forall>x\<in>set xs. \<not> fst x" for xs st
    using that by (induction xs arbitrary: st) (auto split: prod.splits)
  have "fold raise_signal (signals wit_call) (Safe, []) = (Safe, [''read-only public resource''])"
    by (subst h) (simp add: f [OF t] maxRisk_two)
  then show ?thesis
    by (simp add: classifyRisk_def wit_class_def wit_quiet secretExfiltrationRisk_def promptInjectionSideEffectRisk_def Let_def uniq_def)
qed

lemma wit_normal: "normalizeToolCall wit_gateway wit_call options = Inr wit_call"
  by (rule normalizeToolCall_normal) code_simp

lemma wit_receipt:
  assumes "jget result ''normalizedCall'' = wit_call"
  shows "\<exists>r. buildDecisionReceipt wit_gateway result wit_allow_policy (receipt_options (JObj [])) = Inr r"
proof -
  let ?o = "receipt_options (JObj [])"
  let ?at = "JStr (iso_string (now_ms wit_gateway))"
  have o: "truthy (jget ?o ''secret'') = False" "jget ?o ''ttlMs'' = JUndef" "jget ?o ''expiresAt'' = JUndef"
    "jget ?o ''evaluatedAt'' = JUndef"
    by (simp_all add: receipt_options_def)
  have "now_ms wit_gateway = 1767225600000" by (simp add: wit_gateway_def)
  then have "\<exists>x. receipt_expiry ?at ?o = Inr x"
    by (simp add: receipt_expiry_def o ttl_of_def time_clip_def to_iso_def max_time_def)
  then obtain x where x: "receipt_expiry ?at ?o = Inr x" ..
  have t: "truthy wit_call" by (simp add: wit_call_def)
  have "actionDigest wit_gateway (jor (jor (jget result ''normalizedCall'') (jget result ''action'')) (JObj [])) ?o
      = Inr (canonicalDigest wit_gateway (JObj [(''actor'', jget wit_call ''actor''), (''tool'', jget wit_call ''tool''),
         (''target'', jget wit_call ''target''), (''arguments'', jget wit_call ''arguments''), (''context'', jget wit_call ''context'')]))"
    using assms t by (simp add: actionDigest_def jor_def wit_normal)
  moreover have "jor (jget ?o ''evaluatedAt'') ?at = ?at" by (simp add: o jor_def)
  ultimately show ?thesis by (simp add: buildDecisionReceipt_def x o(1) Let_def)
qed

lemma gateway_allow_guarded_witness:
  "\<exists>result p action. evaluatePermissionRequest wit_gateway None wit_call wit_allow_policy (JObj []) = Inr result
     \<and> evaluatePolicy wit_gateway action wit_allow_policy = Inr p \<and> jget p ''action'' \<noteq> JStr ''deny''"
proof -
  let ?o = "JObj []"
  let ?action = "gateway_action wit_gateway wit_call wit_class JNull JNull None []"
  let ?p = "decide wit_gateway ?action (normalizePolicy wit_allow_policy)"
  have c: "\<not> cl_exfiltration wit_class" "\<not> cl_injection_effect wit_class" "cl_risk wit_class \<noteq> Critical"
    by (simp_all add: wit_class_def)
  have g: "or_three JUndef (jget (jget wit_call ''context'') ''authority_grant'') (jget wit_call ''authority_grant'') = JNull"
    "or_three JUndef (jget (jget wit_call ''context'') ''authority_envelope'') (jget wit_call ''authority_envelope'') = JNull"
    by (simp_all add: or_three_def or_null_def jor_def wit_call_def)
  have v: "validateActionEnvelope ?action = []" "validatePolicy wit_allow_policy = []" by code_simp+
  have a: "verdict (risk_upgraded wit_class ?p) = JStr ''allow''" by code_simp
  have d: "gateway_decision wit_gateway wit_call ?action wit_class JNull None wit_allow_policy ?o = Inr (risk_upgraded wit_class ?p)"
    using a by (simp add: gateway_decision_def policy_stage_def evaluatePolicy_valid [OF v] applySessionDecision_other c)
  have k: "with_cache_key wit_gateway wit_call (risk_upgraded wit_class ?p) = risk_upgraded wit_class ?p"
    using a by (simp add: with_cache_key_def)
  obtain result where r: "evaluatePermissionRequest wit_gateway None wit_call wit_allow_policy ?o = Inr result"
    "verdict (jget result ''decision'') = JStr ''allow''"
    using wit_receipt [of "JObj [(''normalizedCall'', wit_call), (''action'', ?action), (''classification'', classification_value wit_class),
        (''decision'', risk_upgraded wit_class ?p), (''authority'', authority_value None)]"] a
    by (auto simp: evaluatePermissionRequest_def wit_normal wit_class g gateway_authority_def principal_ids_def d k Let_def jnullish_def jget_jset)
  from gateway_allow_guarded [OF this] r(1) show ?thesis by blast
qed

end
