(* ===== verification/ConsumeProps.thy ===== *)
theory ConsumeProps
  imports Lease
begin

text \<open>
  One use: a decision receipt, an execution lease and an approval result are each consumed at most
  once, whoever asks, in whatever order, with whatever options.  The clients of the marker store
  are shown to make one claim per accepted request, and the store's contract does the rest.
\<close>

section \<open>Spending\<close>

context one_use
begin

text \<open>A service spends keys when it grants a request only by using its key up, and never gives a used
  key back.\<close>

definition spends :: "('s \<Rightarrow> 'q \<Rightarrow> bool \<times> 's) \<Rightarrow> ('q \<Rightarrow> 'k) \<Rightarrow> bool" where
  "spends f key \<longleftrightarrow>
     (\<forall>s q. (fst (f s q) \<longrightarrow> \<not> used s (key q) \<and> used (snd (f s q)) (key q)) \<and> (\<forall>k. used s k \<longrightarrow> used (snd (f s q)) k))"

lemma spends_used:
  assumes "spends f key" "used s k"
  shows "filter (\<lambda>(q, b). b \<and> key q = k) (outcomes f s qs) = []"
  using assms(2)
proof (induction qs arbitrary: s)
  case (Cons q qs)
  have "used (snd (f s q)) k" "\<not> (fst (f s q) \<and> key q = k)" using assms(1) Cons.prems by (auto simp: spends_def)
  then show ?case using Cons.IH by simp
qed simp

lemma spends_once:
  assumes "spends f key"
  shows "length (filter (\<lambda>(q, b). b \<and> key q = k) (outcomes f s qs)) \<le> 1"
proof (induction qs arbitrary: s)
  case (Cons q qs)
  show ?case
  proof (cases "fst (f s q) \<and> key q = k")
    case True
    then have "used (snd (f s q)) k" using assms by (auto simp: spends_def)
    then show ?thesis using spends_used [OF assms] True by simp
  next
    case False
    then show ?thesis using Cons.IH [of "snd (f s q)"] by auto
  qed
qed simp

text \<open>A claim, conditional on the request, spends its key.\<close>

lemma claim_spends:
  assumes "\<And>s q. \<not> fst (f s q) \<and> snd (f s q) = s \<or> (\<exists>v. f s q = claim s (key q) v)"
  shows "spends f key"
  unfolding spends_def
proof (intro allI)
  fix s q
  show "(fst (f s q) \<longrightarrow> \<not> used s (key q) \<and> used (snd (f s q)) (key q)) \<and> (\<forall>k. used s k \<longrightarrow> used (snd (f s q)) k)"
    using assms [of s q] claim_iff [of s "key q"] used_claim [of s "key q"] by auto
qed

end

section \<open>Execution leases\<close>

text \<open>A request to consume a lease, at its own time and with its own revocation registry.\<close>

record lease_request =
  lq_now :: int
  lq_registry :: "revocation_source option"
  lq_lease :: jval
  lq_input :: jval
  lq_policy :: jval
  lq_options :: jval

definition serve_lease :: "host \<Rightarrow> files \<Rightarrow> lease_request \<Rightarrow> bool \<times> files" where
  "serve_lease H fs q =
     (case consumeExecutionLease (H\<lparr>now_ms := lq_now q\<rparr>) fs (lq_registry q) (lq_lease q) (lq_input q) (lq_policy q) (lq_options q) of
        Inl e \<Rightarrow> (False, fs) | Inr (u, fs') \<Rightarrow> (lu_consumed u, fs'))"

definition lease_key :: "host \<Rightarrow> lease_request \<Rightarrow> string" where
  "lease_key H q = lease_marker_path H (jget (lq_options q) ''storeDir'') (lq_lease q)"

lemma lease_refused_flags [simp]: "\<not> lu_consumed (lease_refused r es)" "\<not> lu_consumed (lease_consumed_already l u)"
  by (simp_all add: lease_refused_def lease_consumed_already_def)

lemma lease_claims: "marker.spends (serve_lease H) (lease_key H)"
proof (rule marker.claim_spends)
  fix fs q
  have k: "lease_marker_path (H\<lparr>now_ms := lq_now q\<rparr>) (jget (lq_options q) ''storeDir'') (lq_lease q) = lease_key H q"
    by (simp add: lease_key_def lease_marker_path_def lease_marker_name_def)
  show "\<not> fst (serve_lease H fs q) \<and> snd (serve_lease H fs q) = fs
      \<or> (\<exists>v. serve_lease H fs q = durableExclusiveCreateSync fs (lease_key H q) v)"
    by (auto simp: serve_lease_def consumeExecutionLease_def consumeUnlocked_def k Let_def
        durableExclusiveCreateSync_simp bind_res_def split: sum.split option.split)
qed

text \<open>C5: A lease is used once.  Among any requests to consume leases, by any callers, at any times
  and under any options, at most one is answered with a consumption for one marker; the marker is
  determined by the lease's id, its nonce and its action digest, and by the store.\<close>

theorem lease_consumed_once:
  "length (filter (\<lambda>(q, consumed). consumed \<and> lease_key H q = k) (marker.outcomes (serve_lease H) fs qs)) \<le> 1"
  by (rule marker.spends_once [OF lease_claims])

section \<open>Decision receipts\<close>

record grant_request =
  gq_now :: int
  gq_receipt :: jval
  gq_input :: jval
  gq_policy :: jval
  gq_secret :: jval
  gq_options :: jval

definition serve_grant :: "host \<Rightarrow> files \<Rightarrow> grant_request \<Rightarrow> bool \<times> files" where
  "serve_grant H fs q =
     (case consumeExecutionGrant (H\<lparr>now_ms := gq_now q\<rparr>) fs (gq_receipt q) (gq_input q) (gq_policy q) (gq_secret q) (gq_options q) of
        Inl e \<Rightarrow> (False, fs) | Inr (u, fs') \<Rightarrow> (co_consumed u, fs'))"

definition grant_key :: "host \<Rightarrow> grant_request \<Rightarrow> string" where
  "grant_key H q = to_str (jget (gq_options q) ''storeDir'') @ ''/'' @ safeMarkerName H (gq_receipt q) @ ''.json''"

lemma grant_claims: "marker.spends (serve_grant H) (grant_key H)"
proof (rule marker.claim_spends)
  fix fs q
  have k: "executionGrantMarkerPath (H\<lparr>now_ms := gq_now q\<rparr>) (jget (gq_options q) ''storeDir'') (gq_receipt q)
      = Inr (grant_key H q)" if "truthy (jget (gq_options q) ''storeDir'')"
    using that by (simp add: executionGrantMarkerPath_def grant_key_def safeMarkerName_def)
  show "\<not> fst (serve_grant H fs q) \<and> snd (serve_grant H fs q) = fs
      \<or> (\<exists>v. serve_grant H fs q = durableExclusiveCreateSync fs (grant_key H q) v)"
    by (auto simp: serve_grant_def consumeExecutionGrant_def k Let_def refused_def bind_res_def
        durableExclusiveCreateSync_simp split: sum.split option.split)
qed

text \<open>C6: A decision receipt authorises one execution.  Among any requests to consume receipts, at most
  one is answered with a consumption for one marker, which the receipt's decision id, nonce and
  action digest determine within a store.\<close>

theorem grant_consumed_once:
  "length (filter (\<lambda>(q, consumed). consumed \<and> grant_key H q = k) (marker.outcomes (serve_grant H) fs qs)) \<le> 1"
  by (rule marker.spends_once [OF grant_claims])

section \<open>Approval results\<close>

lemma consumeApproval_cases:
  assumes "consumeApprovalResultForLease H fs request result options = Inr (u, fs')"
  defines "path \<equiv> approval_use_path H (jget options ''storeDir'') (jget result ''approval_result_id'')"
  shows "(au_ok u \<longrightarrow> fs path = None \<and> fs' path \<noteq> None) \<and> (\<forall>k. fs k \<noteq> None \<longrightarrow> fs' k \<noteq> None)"
  using assms(1) unfolding path_def
  by (auto simp: consumeApprovalResultForLease_def res_simps Let_def use_refused_def already_used_def
      durableExclusiveCreateSync_simp split: option.splits if_splits)

text \<open>A request to issue a lease; only leases bound to an approval count.\<close>

record issue_request =
  iq_now :: int
  iq_uuid :: "nat \<Rightarrow> string"
  iq_registry :: "revocation_source option"
  iq_result :: jval
  iq_policy :: jval
  iq_options :: jval

definition approval_bound_request :: "issue_request \<Rightarrow> bool" where
  "approval_bound_request q \<longleftrightarrow> is_approval_bound (jget (jget (iq_result q) ''decision'') ''receipt'')"

definition serve_issue :: "host \<Rightarrow> files \<Rightarrow> issue_request \<Rightarrow> bool \<times> files" where
  "serve_issue H fs q =
     (case issueExecutionLease (H\<lparr>now_ms := iq_now q, fresh_uuid := iq_uuid q\<rparr>) fs (iq_registry q) (iq_result q) (iq_policy q)
         (iq_options q) of
        (fs', r) \<Rightarrow> (approval_bound_request q \<and> (case r of Inr lease \<Rightarrow> True | Inl e \<Rightarrow> False), fs'))"

definition approval_key :: "host \<Rightarrow> issue_request \<Rightarrow> string" where
  "approval_key H q = approval_use_path H (jget (iq_options q) ''approvalUseStoreDir'')
     (jget (jget (iq_options q) ''approvalResult'') ''approval_result_id'')"

lemma issue_spends: "marker.spends (serve_issue H) (approval_key H)"
  unfolding marker.spends_def
proof (intro allI)
  fix fs and q :: issue_request
  let ?H = "H\<lparr>now_ms := iq_now q, fresh_uuid := iq_uuid q\<rparr>"
  have k: "approval_use_path ?H d i = approval_use_path H d i" for d i by (simp add: approval_use_path_def)
  show "(fst (serve_issue H fs q) \<longrightarrow> \<not> fs (approval_key H q) \<noteq> None \<and> snd (serve_issue H fs q) (approval_key H q) \<noteq> None)
      \<and> (\<forall>k. fs k \<noteq> None \<longrightarrow> snd (serve_issue H fs q) k \<noteq> None)"
    unfolding serve_issue_def issueExecutionLease_def Let_def approval_bound_request_def approval_key_def
    by (auto split: sum.splits if_splits dest!: consumeApproval_cases simp: k)
qed

text \<open>C7: An approval buys one lease in a use store.  Among any requests to issue approval-bound leases, at most one
  per approval result and use store yields a lease (the caller names the store, so a caller who changes it buys
  another); a request that consumes the approval and then fails
  to build its lease has spent it too.\<close>

theorem approval_issues_once:
  "length (filter (\<lambda>(q, issued). issued \<and> approval_key H q = k) (marker.outcomes (serve_issue H) fs qs)) \<le> 1"
  by (rule marker.spends_once [OF issue_spends])

end
