(* ===== verification/AuthorityProps.thy ===== *)
theory AuthorityProps
  imports Envelope BudgetProps
begin

text \<open>
  Delegation of authority.  What a grant permits is a predicate on uses: an action on a resource at a
  time, with a usage so far and a context of obligations.  The attenuation check of the code is
  sound for it, so authority narrows along every chain of delegations.
\<close>

section \<open>What a grant permits\<close>

record grant_use =
  gu_action :: string
  gu_resource :: string
  gu_time :: int
  gu_usage :: jval
  gu_context :: jval
  gu_phase :: string

definition grant_window :: "jval \<Rightarrow> int \<Rightarrow> bool" where
  "grant_window g t \<longleftrightarrow>
     time_le (date_or_zero (jget g ''not_before'')) (Some t) \<and> time_lt (Some t) (date_or_zero (jget g ''expires_at''))"

definition obligations_hold :: "host \<Rightarrow> jval \<Rightarrow> jval \<Rightarrow> string \<Rightarrow> bool" where
  "obligations_hold H obligations ctx phase \<longleftrightarrow> 
     (case evaluateObligations H obligations ctx phase of Inl e \<Rightarrow> False | Inr r \<Rightarrow> oe_errors r = [])"

lemma obligations_hold_iff:
  "obligations_hold H obligations ctx phase \<longleftrightarrow> (\<exists>e. evaluateObligations H obligations ctx phase = Inr e \<and> oe_errors e = [])"
  by (auto simp: obligations_hold_def split: sum.splits)

definition grant_permits :: "host \<Rightarrow> jval \<Rightarrow> grant_use \<Rightarrow> bool" where
  "grant_permits H g u \<longleftrightarrow>
     one_line (gu_action u) \<and> one_line (gu_resource u)
     \<and> list_ex (capability_permits (gu_action u) (gu_resource u)) (arr_of (jget g ''capabilities''))
     \<and> grant_window g (gu_time u)
     \<and> (is_v11 g \<longrightarrow> budget_permits (jor (jget g ''budget'') (JObj [])) (gu_usage u)
          \<and> obligations_hold H (jor (jget g ''obligations'') (JArr [])) (gu_context u) (gu_phase u))"

text \<open>The grants the soundness of the check is stated for: valid, with patterns that are literals, \<^verbatim>\<open>*\<close>
  or subtrees.\<close>

definition plain_patterns :: "jval \<Rightarrow> bool" where
  "plain_patterns vs \<longleftrightarrow> list_all (\<lambda>p. plain_parent (to_str p)) (arr_of vs)"

definition plain_grant :: "jval \<Rightarrow> bool" where
  "plain_grant g \<longleftrightarrow> validateAuthorityGrant g = []
     \<and> list_all (\<lambda>c. plain_patterns (jget c ''actions'') \<and> plain_patterns (jget c ''resources'')) (arr_of (jget g ''capabilities''))"

definition grant_le :: "host \<Rightarrow> jval \<Rightarrow> jval \<Rightarrow> bool" where
  "grant_le H child parent \<longleftrightarrow> isAuthorityGrantAttenuated H parent child = Inr []"

section \<open>The check is sound\<close>

lemma patterns_within_match:
  assumes "patterns_within cs ps" "plain_patterns ps" "patterns_match cs v" "one_line v"
  shows "patterns_match ps v"
proof -
  obtain c where c: "c \<in> set (arr_of cs)" "authorityPatternMatches (to_str c) v"
    using assms(3) by (auto simp: patterns_match_def list_ex_iff)
  then obtain p where p: "p \<in> set (arr_of ps)" "authorityPatternIsWithin (to_str c) (to_str p)"
    using assms(1) by (auto simp: patterns_within_def list_all_iff list_ex_iff)
  then have "plain_parent (to_str p)" using assms(2) by (simp add: plain_patterns_def list_all_iff)
  then have "authorityPatternMatches (to_str p) v" using within_sound p(2) c(2) assms(4) by blast
  then show ?thesis using p(1) by (auto simp: patterns_match_def list_ex_iff)
qed

lemma concat_map_Nil: "concat (map f xs) = [] \<longleftrightarrow> (\<forall>x\<in>set xs. f x = [])"
  by auto

lemma attenuated_parts:
  assumes "grant_le H child parent"
  shows "capability_errors parent child = []"
    "\<not> time_lt (date_or_zero (jget child ''not_before'')) (date_or_zero (jget parent ''not_before''))"
    "\<not> time_lt (date_or_zero (jget parent ''expires_at'')) (date_or_zero (jget child ''expires_at''))"
    "attenuation_11_errors H parent child = Inr []"
  using assms by (auto simp: grant_le_def isAuthorityGrantAttenuated_def res_simps)

lemma attenuated_11:
  assumes "grant_le H child parent" "is_v11 parent"
  obtains b o' where "is_v11 child"
    "budgetIsWithin (jor (jget child ''budget'') (JObj [])) (jor (jget parent ''budget'') (JObj [])) = Inr b" "within_errors b = []"
    "obligationsAreWithin H (jor (jget child ''obligations'') (JArr [])) (jor (jget parent ''obligations'') (JArr [])) = Inr o'"
    "within_errors o' = []"
  using attenuated_parts(4) [OF assms(1)] assms(2) that
  by (auto simp: attenuation_11_errors_def is_v11_def res_simps split: if_splits)

lemma valid_grant_dates:
  assumes "validateAuthorityGrant g = []"
  obtains a b where "date_or_zero (jget g ''not_before'') = Some a" "date_or_zero (jget g ''expires_at'') = Some b" "a < b"
proof -
  have "period_errors g ''issued_at'' = []" using assms by (auto simp: validateAuthorityGrant_def split: if_splits)
  then obtain a b where "iso_time (jget g ''not_before'') = Some a" "iso_time (jget g ''expires_at'') = Some b" "a < b"
    by (auto simp: period_errors_ok)
  moreover have "iso_time v = Some t \<Longrightarrow> date_or_zero v = Some t" for v t
    by (auto dest!: iso_time_Some simp: date_or_zero_def to_date_def)
  ultimately show ?thesis using that by blast
qed

lemma grant_le_permits:
  assumes "validateAuthorityGrant child = []" "plain_grant parent" "grant_le H child parent" "grant_permits H child u"
  shows "grant_permits H parent u"
proof -
  note ap = attenuated_parts [OF assms(3)]
  obtain c where c: "c \<in> set (arr_of (jget child ''capabilities''))" "capability_permits (gu_action u) (gu_resource u) c"
    and lines: "one_line (gu_action u)" "one_line (gu_resource u)" and win: "grant_window child (gu_time u)"
    using assms(4) by (auto simp: grant_permits_def list_ex_iff)
  obtain p where p: "p \<in> set (arr_of (jget parent ''capabilities''))" "capability_within c p"
    using ap(1) c(1) by (auto simp: capability_errors_def concat_map_Nil list_ex_iff)
  have "plain_patterns (jget p ''actions'')" "plain_patterns (jget p ''resources'')"
    using assms(2) p(1) by (auto simp: plain_grant_def list_all_iff)
  then have "capability_permits (gu_action u) (gu_resource u) p"
    using p(2) c(2) lines by (auto simp: capability_within_def capability_permits_def intro: patterns_within_match)
  moreover have "grant_window parent (gu_time u)"
    using win ap(2,3) assms(1,2)
    by (auto simp: grant_window_def plain_grant_def elim!: valid_grant_dates)
  moreover have "budget_permits (jor (jget parent ''budget'') (JObj [])) (gu_usage u)
      \<and> obligations_hold H (jor (jget parent ''obligations'') (JArr [])) (gu_context u) (gu_phase u)" if v: "is_v11 parent"
  proof -
    obtain b o' where w: "is_v11 child"
      "budgetIsWithin (jor (jget child ''budget'') (JObj [])) (jor (jget parent ''budget'') (JObj [])) = Inr b" "within_errors b = []"
      "obligationsAreWithin H (jor (jget child ''obligations'') (JArr [])) (jor (jget parent ''obligations'') (JArr [])) = Inr o'"
      "within_errors o' = []"
      by (rule attenuated_11 [OF assms(3) v])
    have "budget_permits (jor (jget child ''budget'') (JObj [])) (gu_usage u)"
      "obligations_hold H (jor (jget child ''obligations'') (JArr [])) (gu_context u) (gu_phase u)"
      using assms(4) w(1) by (auto simp: grant_permits_def)
    then show ?thesis
      using budgets.sound [OF TrueI TrueI] obligations_narrow [OF w(4,5)] w(2,3)
      by (auto simp: budget_le_def obligations_hold_iff)
  qed
  ultimately show ?thesis using lines p(1) by (auto simp: grant_permits_def list_ex_iff)
qed

interpretation grants: attenuation plain_grant "grant_le H" "grant_permits H" for H
  by unfold_locales (rule grant_le_permits, simp_all add: plain_grant_def)


definition wit_principal :: "string \<Rightarrow> jval" where
  "wit_principal i = JObj [(''type'', JStr ''agent''), (''id'', JStr i)]"

definition wit_grant :: "string \<Rightarrow> string \<Rightarrow> string list \<Rightarrow> string \<Rightarrow> jval \<Rightarrow> int \<Rightarrow> jval" where
  "wit_grant gid issuer chain resources parent depth =
     JObj [(''grant_version'', JStr ''1.0''), (''grant_id'', JStr gid), (''issuer'', JStr issuer),
       (''subject'', wit_principal (last chain)), (''principal_chain'', JArr (map wit_principal chain)),
       (''capabilities'', JArr [JObj [(''id'', JStr ''cap_1''), (''actions'', JArr [JStr ''*'']), (''resources'', JArr [JStr resources])]]),
       (''issued_at'', JStr ''2026-01-01T00:00:00.000Z''), (''not_before'', JStr ''2026-01-01T00:00:00.000Z''),
       (''expires_at'', JStr ''2026-02-01T00:00:00.000Z''), (''parent_grant_id'', parent), (''delegation_depth'', JNum depth)]"

definition wit_parent :: jval where
  "wit_parent = wit_grant ''g1'' ''root'' [''a''] ''f/**'' JNull 0"

definition wit_child :: jval where
  "wit_child = wit_grant ''g2'' ''a'' [''a'', ''b''] ''f/p/**'' (JStr ''g1'') 1"

definition wit_use :: grant_use where
  "wit_use = \<lparr>gu_action = ''read'', gu_resource = ''f/p/x'', gu_time = 1767312000000, gu_usage = JObj [], gu_context = JNull, gu_phase = ''pre''\<rparr>"

definition wit_authority :: host where
  "wit_authority = \<lparr>sha256 = (\<lambda>s. ''d''), hmac_hex = (\<lambda>k s. s), now_ms = 1767225600000, fresh_uuid = (\<lambda>n. ''u''),
     locale_compare = (\<lambda>a b. 0), nfkc = (\<lambda>s. s)\<rparr>"

lemma wit_plain: "plain_grant wit_parent" "plain_grant wit_child"
proof -
  have v: "validateAuthorityGrant wit_parent = []" "validateAuthorityGrant wit_child = []" by code_simp+
  have "subtree_pattern ''f/**''" "subtree_pattern ''f/p/**''"
    by (auto simp: subtree_pattern_def is_wild_def intro: exI [of _ "''f/''"] exI [of _ "''f/p/''"])
  then show "plain_grant wit_parent" "plain_grant wit_child"
    using v by (simp_all add: plain_grant_def wit_parent_def wit_child_def wit_grant_def plain_patterns_def plain_parent_def)
qed

lemma wit_attenuated: "grant_le wit_authority wit_child wit_parent"
proof -
  have "isAuthorityGrantAttenuated wit_authority wit_parent wit_child = Inr []" by code_simp
  then show ?thesis by (simp add: grant_le_def)
qed

lemma wit_permitted: "grant_permits wit_authority wit_child wit_use"
  by code_simp


section \<open>Delegation\<close>

lemma grant_permits_signed [simp]: "grant_permits H (with_signature K g secret) u = grant_permits H g u"
  by (simp add: grant_permits_def grant_window_def is_v11_def jget_with_signature)

lemma buildAuthorityGrant_unsigned:
  "buildAuthorityGrant H spec (jset options ''secret'' JUndef) = Inr g \<Longrightarrow> validateAuthorityGrant g = []"
  by (auto simp: buildAuthorityGrant_def res_simps Let_def)


definition wit_delegation :: "(jval \<times> budget_source option) res" where
  "wit_delegation = delegateAuthorityGrant wit_authority ''tmp'' None None wit_parent
     (JObj [(''subject'', wit_principal ''b''), (''capabilities'', JArr [JObj [(''action'', JStr ''*''), (''resource'', JStr ''f/p/**'')]])])
     JUndef (JObj [(''now'', JStr ''2026-01-02T00:00:00.000Z''), (''requireSignature'', JBool False)])"


section \<open>Wildcards inside a parent pattern\<close>

lemma wit_patterns:
  "has_wild ''a/c/*''" "has_wild ''a/*/b/**''" "ends_with ''**'' ''a/*/b/**''"
  "starts_with (staticPrefix ''a/*/b/**'') (staticPrefix ''a/c/*'')"
  "rx_test (wildcardToRegExp ''a/c/*'') ''a/c/d''" "\<not> rx_test (wildcardToRegExp ''a/*/b/**'') ''a/c/d''"
  by code_simp+

text \<open>The containment of patterns is not sound for every parent: with a wildcard before the final two stars only the
  literal prefixes are compared, and a child pattern can be called contained that matches a resource the parent
  does not, as here.  This is why the properties above ask for plain grants.\<close>

lemma containment_unsound:
  "authorityPatternIsWithin ''a/c/*'' ''a/*/b/**'' \<and> authorityPatternMatches ''a/c/*'' ''a/c/d''
   \<and> \<not> authorityPatternMatches ''a/*/b/**'' ''a/c/d''"
  by (simp add: authorityPatternIsWithin_def authorityPatternMatches_def wit_patterns)

end
