(* ===== verification/Migration.thy ===== *)
theory Migration
  imports PolicyEngineProps
begin

text \<open>
  The migration of a version 1 policy, \<^verbatim>\<open>packages/core/src/migration/policy.js\<close>: the three pattern lists
  become structured rules of fixed priorities.  \<open>migratePolicyToV2\<close> is the function of that name; the
  property compares the decisions of the two policies.
\<close>

section \<open>The migration\<close>

definition slug_char :: "char \<Rightarrow> bool" where
  "slug_char c \<longleftrightarrow> char_range CHR ''a'' CHR ''z'' c \<or> is_digit c"

text \<open>\<open>replace(/[^a-z0-9]+/g, '-')\<close>: a run of other characters is one dash; the flag tells whether the
  last character was part of one.\<close>

fun dash_runs :: "bool \<Rightarrow> string \<Rightarrow> string" where
  "dash_runs inside [] = []"
| "dash_runs inside (c # s) =
     (if slug_char c then c # dash_runs False s
      else if inside then dash_runs True s
      else CHR ''-'' # dash_runs True s)"

text \<open>\<open>replace(/^-|-$/g, '')\<close>.\<close>

definition strip_dashes :: "string \<Rightarrow> string" where
  "strip_dashes s =
     (let t = (if starts_with ''-'' s then tl s else s)
      in if ends_with ''-'' t then butlast t else t)"

definition slug :: "jval \<Rightarrow> string" where
  "slug v =
     (let s = take 64 (strip_dashes (dash_runs False (str_lower (to_str (jor v (JStr ''rule''))))))
      in if s = [] then ''rule'' else s)"

definition detectPolicyVersion :: "jval \<Rightarrow> int" where
  "detectPolicyVersion policy =
     (if jget policy ''policyVersion'' = JNum 2 \<or> is_arr (jget policy ''rules'') then 2 else 1)"

text \<open>The helper \<open>array\<close>: the non-empty strings of an array, none of another value.\<close>

definition pattern_array :: "jval \<Rightarrow> string list" where
  "pattern_array v = map str_of (filter nonempty_str (arr_of v))"

definition migrated_rule :: "string \<Rightarrow> string \<Rightarrow> string \<Rightarrow> string \<Rightarrow> int \<Rightarrow> nat \<times> string \<Rightarrow> jval" where
  "migrated_rule prefix word list_name effect priority ip =
     JObj [(''id'', JStr (prefix @ ''-'' @ word @ ''-'' @ nat_str (Suc (fst ip)) @ ''-'' @ slug (JStr (snd ip)))),
       (''description'', JStr (''Migrated from '' @ list_name @ '' entry '' @ snd ip)),
       (''effect'', JStr effect), (''priority'', JNum priority), (''actions'', JArr [JStr (snd ip)])]"

definition migrated_rules :: "string \<Rightarrow> jval \<Rightarrow> jval list" where
  "migrated_rules prefix policy =
     map (migrated_rule prefix ''deny'' ''blockedActions'' ''deny'' 300)
       (enumerate 0 (pattern_array (jget policy ''blockedActions'')))
     @ map (migrated_rule prefix ''approve'' ''approvalRequired'' ''needs_approval'' 200)
       (enumerate 0 (pattern_array (jget policy ''approvalRequired'')))
     @ map (migrated_rule prefix ''allow'' ''allowedActions'' ''allow'' 100)
       (enumerate 0 (pattern_array (jget policy ''allowedActions'')))"

definition migration_warnings :: "jval \<Rightarrow> jval \<Rightarrow> string list" where
  "migration_warnings policy defaultAction =
     err_if (''*'' \<in> set (pattern_array (jget policy ''blockedActions'') @ pattern_array (jget policy ''approvalRequired'')
         @ pattern_array (jget policy ''allowedActions'')))
       ''legacy wildcard rule migrated; review its scope before production use''
     @ err_if (defaultAction = JStr ''allow'')
       ''legacy defaultAction=allow preserved; deny or needs_approval is safer''"

definition migrated_default :: "jval \<Rightarrow> jval" where
  "migrated_default policy = normalizeDecisionAction (jor (jget policy ''defaultAction'') (JStr ''needs_approval''))"

definition migrated_policy :: "host \<Rightarrow> jval \<Rightarrow> jval \<Rightarrow> jval" where
  "migrated_policy H policy options =
     jomit ''blockedActions'' (jomit ''approvalRequired'' (jomit ''allowedActions''
       (jspread policy (JObj [
          (''policyVersion'', JNum 2),
          (''defaultAction'', migrated_default policy),
          (''rules'', JArr (migrated_rules (to_str (jor (jget options ''idPrefix'') (JStr ''migrated''))) policy)),
          (''exactActionRules'', if is_arr (jget policy ''exactActionRules'') then jget policy ''exactActionRules'' else JArr []),
          (''migration'', JObj [(''migration_version'', JStr ''1.0''), (''from_policy_version'', JNum 1),
             (''migrated_at'', jor (jget options ''migratedAt'') (JStr (iso_string (now_ms H)))),
             (''tool'', JStr ''@ruleoak/core''), (''review_required'', JBool True)])]))))"

record migration_result =
  mg_changed :: bool
  mg_from :: int
  mg_to :: int
  mg_policy :: jval
  mg_warnings :: "string list"
  mg_summary :: jval

definition migratePolicyToV2 :: "host \<Rightarrow> jval \<Rightarrow> jval \<Rightarrow> migration_result res" where
  "migratePolicyToV2 H policy options =
     throw_if (validatePolicy policy \<noteq> []) (''cannot migrate invalid policy: '' @ join_errors (validatePolicy policy))
    (if detectPolicyVersion policy = 2 then
       Inr \<lparr>mg_changed = False, mg_from = 2, mg_to = 2, mg_policy = policy, mg_warnings = [],
         mg_summary = JObj [(''rulesCreated'', JNum 0)]\<rparr>
     else
       let migrated = migrated_policy H policy options;
           count = (\<lambda>k. JNum (int (length (pattern_array (jget policy k))))) in
       throw_if (validatePolicy migrated \<noteq> []) (''migrated policy is invalid: '' @ join_errors (validatePolicy migrated))
      (Inr \<lparr>mg_changed = True, mg_from = 1, mg_to = 2, mg_policy = migrated,
         mg_warnings = migration_warnings policy (migrated_default policy),
         mg_summary = JObj [(''rulesCreated'', JNum (int (length (arr_of (jget migrated ''rules''))))),
           (''denyRules'', count ''blockedActions''), (''approvalRules'', count ''approvalRequired''),
           (''allowRules'', count ''allowedActions'')]\<rparr>))"

section \<open>The rules it creates\<close>

lemma migrated_rule_get [simp]:
  "jget (migrated_rule prefix w l e p ip) ''effect'' = JStr e"
  "jget (migrated_rule prefix w l e p ip) ''priority'' = JNum p"
  "jget (migrated_rule prefix w l e p ip) ''actions'' = JArr [JStr (snd ip)]"
  by (simp_all add: migrated_rule_def)

lemma migrated_rule_undef:
  "k \<in> {''disabled'', ''status'', ''resources'', ''conditions'', ''riskAtLeast'', ''riskAtMost''} \<Longrightarrow>
     jget (migrated_rule prefix w l e p ip) k = JUndef"
  by (auto simp: migrated_rule_def jget_def)

lemma conditions_match_empty: "conditions_match (JObj []) m"
  by (simp add: conditions_match_def matchesAny_def matchesAnyOverlap_def)

text \<open>A created rule applies to the actions its pattern matches, whatever else they carry.\<close>

lemma migrated_rule_applies [simp]:
  "rule_applies (migrated_rule prefix w l e p ip) a \<longleftrightarrow> matchesPattern (snd ip) (actionKey a)"
proof -
  have en: "enabled (migrated_rule prefix w l e p ip)"
    unfolding enabled_def by (simp add: migrated_rule_undef) (simp add: migrated_rule_def)
  show ?thesis
    by (simp add: rule_applies_def en migrated_rule_undef patterns_or_star_def str_list_def conditions_match_empty
        risk_in_range_def Let_def matchesResourcePattern_def)
qed

lemma migrated_rule_effect [simp]:
  "e \<in> {''deny'', ''needs_approval'', ''allow''} \<Longrightarrow> effect_of (migrated_rule prefix w l e p ip) = JStr e"
  by (auto simp: effect_of_def normalizeDecisionAction_def)

lemma pattern_array_strings [simp]: "[] \<notin> set ss \<Longrightarrow> pattern_array (JArr (map JStr ss)) = ss"
  by (induction ss) (auto simp: pattern_array_def nonempty_str_iff)

lemma pattern_array_undef [simp]: "pattern_array JUndef = []"
  by (simp add: pattern_array_def)

lemma pattern_array_valid:
  assumes "v = JUndef \<or> validateStringArray v path False = []"
  shows "pattern_array v = str_list v"
proof -
  from assms consider "v = JUndef" | ss where "v = JArr (map JStr ss)" "[] \<notin> set ss"
    by (auto simp: validateStringArray_strings_any)
  then show ?thesis by cases (simp_all add: str_list_def comp_def)
qed

lemma ex_enumerate:
  "(\<exists>ip\<in>set (enumerate n xs). matchesPattern (snd ip) key) \<longleftrightarrow> (\<exists>x\<in>set xs. matchesPattern x key)"
proof -
  have "set xs = snd ` set (enumerate n xs)" by (metis list.set_map map_snd_enumerate)
  then show ?thesis by simp
qed

text \<open>Some created rule of an effect applies exactly when a pattern of its list matches.\<close>

lemma ex_migrated_rule_of:
  assumes "e \<in> {''deny'', ''needs_approval'', ''allow''}"
  shows "(\<exists>r\<in>set (map (migrated_rule prefix w l e p) (enumerate 0 xs)). rule_applies r a \<and> effect_of r = JStr e')
    \<longleftrightarrow> e = e' \<and> (\<exists>q\<in>set xs. matchesPattern q (actionKey a))"
proof -
  have "rule_applies (migrated_rule prefix w l e p ip) a \<and> effect_of (migrated_rule prefix w l e p ip) = JStr e'
      \<longleftrightarrow> e = e' \<and> matchesPattern (snd ip) (actionKey a)" for ip
    unfolding migrated_rule_effect [OF assms] by auto
  then show ?thesis using ex_enumerate [of 0 xs "actionKey a"] by (simp only: set_map bex_simps)
qed

lemma ex_migrated_rule:
  "(\<exists>r\<in>set (migrated_rules prefix p). rule_applies r a \<and> effect_of r = JStr e) \<longleftrightarrow>
     (''deny'' = e \<and> (\<exists>q\<in>set (pattern_array (jget p ''blockedActions'')). matchesPattern q (actionKey a)))
     \<or> (''needs_approval'' = e \<and> (\<exists>q\<in>set (pattern_array (jget p ''approvalRequired'')). matchesPattern q (actionKey a)))
     \<or> (''allow'' = e \<and> (\<exists>q\<in>set (pattern_array (jget p ''allowedActions'')). matchesPattern q (actionKey a)))"
proof -
  have mem: "''deny'' \<in> {''deny'', ''needs_approval'', ''allow''}" "''needs_approval'' \<in> {''deny'', ''needs_approval'', ''allow''}"
    "''allow'' \<in> {''deny'', ''needs_approval'', ''allow''}" by simp_all
  show ?thesis unfolding migrated_rules_def set_append bex_Un
    by (simp only: ex_migrated_rule_of [OF mem(1)] ex_migrated_rule_of [OF mem(2)] ex_migrated_rule_of [OF mem(3)])
qed

lemma migrated_rule_ranks:
  assumes "r \<in> set (migrated_rules prefix p)"
  shows "(effect_of r = JStr ''deny'' \<and> jget r ''priority'' = JNum 300)
    \<or> (effect_of r = JStr ''needs_approval'' \<and> jget r ''priority'' = JNum 200)
    \<or> (effect_of r = JStr ''allow'' \<and> jget r ''priority'' = JNum 100)"
  using assms by (auto simp: migrated_rules_def)

section \<open>The decisions of the two policies\<close>

text \<open>The verdict on an undenied action, stage by stage.\<close>

lemma undenied_verdict:
  assumes "\<not> denied_by p a"
  shows "verdict (decide H a p) =
    (if \<exists>r\<in>set (exact_rules_for p a). effect_of r = JStr ''needs_approval'' then JStr ''needs_approval''
     else if \<exists>r\<in>set (exact_rules_for p a). effect_of r = JStr ''allow'' then JStr ''allow''
     else case chooseStructuredMatch H (structured_matches p a) of Some m \<Rightarrow> m_effect m
       | None \<Rightarrow> (case legacyDecision p (actionKey a) of Some d \<Rightarrow> verdict d
         | None \<Rightarrow> jor (jget p ''defaultAction'') (JStr ''needs_approval'')))"
proof -
  let ?ex = "exact_rules_for p a" and ?ms = "structured_matches p a"
  have ex: "exactActionRulesFor (arr_of (jget p ''exactActionRules'')) a = ?ex"
    by (simp add: exact_rules_for_def)
  have 1: "find_effect ''deny'' ?ex = None" "chooseStructuredMatch H (filter is_deny ?ms) = None"
    "bestMatch (str_list (jget p ''blockedActions'')) (actionKey a) = None"
    using assms by (auto simp: denied_by_def find_effect_None deny_matches_Nil)
  note dec = decide_def [of H a p, unfolded Let_def ex 1 option.case]
  have sel: "find_effect e ?ex = (if \<exists>r\<in>set ?ex. effect_of r = JStr e then Some (the (find_effect e ?ex)) else None)"
    "(\<exists>r\<in>set ?ex. effect_of r = JStr e) \<longrightarrow> effect_of (the (find_effect e ?ex)) = JStr e" for e
    using find_effect_None [of e ?ex] find_effect_Some [of e ?ex] by (cases "find_effect e ?ex"; auto)+
  show ?thesis
    by (subst dec, subst (1) sel(1), subst (2) sel(1)) (use sel(2) in \<open>auto split: option.splits\<close>)
qed

text \<open>The pattern lists alone.\<close>

lemma legacyDecision_None:
  "legacyDecision p key = None \<longleftrightarrow>
     (\<forall>q\<in>set (str_list (jget p ''allowedActions'')) \<union> set (str_list (jget p ''approvalRequired'')). \<not> matchesPattern q key)"
proof -
  let ?al = "bestMatch (str_list (jget p ''allowedActions'')) key"
    and ?ap = "bestMatch (str_list (jget p ''approvalRequired'')) key"
  have "(\<forall>q\<in>set (str_list (jget p ''allowedActions'')) \<union> set (str_list (jget p ''approvalRequired'')). \<not> matchesPattern q key)
      \<longleftrightarrow> ?al = None \<and> ?ap = None" by auto
  then show ?thesis
    by (cases ?al; cases ?ap) (simp_all add: legacyDecision_def del: bestMatch_None)
qed

lemma chosen_priority:
  assumes "collation_ok H" "chooseStructuredMatch H (structured_matches q a) = Some m"
    and "r \<in> set (arr_of (jget q ''rules''))" "rule_applies r a" "jget r ''priority'' = JNum k"
  shows "k \<le> m_priority m"
proof -
  obtain m' where m': "structuredRuleMatch r a = Some m'" using structuredRuleMatch_None assms(4) by blast
  then have "m' \<in> set (structured_matches q a)" using assms(3) structured_matches_iff by blast
  from chooseStructuredMatch_least [OF assms(1,2) this] structuredRuleMatch_Some [OF m'] assms(5) show ?thesis
    by (auto simp: compare_matches_def is_int_def split: if_splits)
qed

text \<open>The created rules: the highest priority that applies decides.\<close>

lemma migrated_choice:
  assumes "collation_ok H" "jget q ''rules'' = JArr (migrated_rules prefix p)"
    and "\<not> (\<exists>x\<in>set (pattern_array (jget p ''blockedActions'')). matchesPattern x (actionKey a))"
  shows "(case chooseStructuredMatch H (structured_matches q a) of Some m \<Rightarrow> m_effect m | None \<Rightarrow> d) =
    (if \<exists>x\<in>set (pattern_array (jget p ''approvalRequired'')). matchesPattern x (actionKey a) then JStr ''needs_approval''
     else if \<exists>x\<in>set (pattern_array (jget p ''allowedActions'')). matchesPattern x (actionKey a) then JStr ''allow''
     else d)"
proof -
  let ?rs = "migrated_rules prefix p"
  let ?on = "\<lambda>e. \<exists>r\<in>set ?rs. rule_applies r a \<and> effect_of r = JStr e"
  have on: "?on ''needs_approval'' \<longleftrightarrow> (\<exists>x\<in>set (pattern_array (jget p ''approvalRequired'')). matchesPattern x (actionKey a))"
    "?on ''allow'' \<longleftrightarrow> (\<exists>x\<in>set (pattern_array (jget p ''allowedActions'')). matchesPattern x (actionKey a))"
    "\<not> ?on ''deny''"
    using assms(3) by (simp_all add: ex_migrated_rule)
  have rs: "arr_of (jget q ''rules'') = ?rs" by (simp add: assms(2))
  show ?thesis
  proof (cases "chooseStructuredMatch H (structured_matches q a)")
    case None
    have "\<not> rule_applies r a" if "r \<in> set ?rs" for r
    proof
      assume "rule_applies r a"
      then obtain m where "structuredRuleMatch r a = Some m" using structuredRuleMatch_None by blast
      then have "m \<in> set (structured_matches q a)" using that rs by (auto simp: structured_matches_iff)
      then show False using None by simp
    qed
    then show ?thesis using None on by (simp only: option.case) (metis)
  next
    case (Some m)
    obtain r where r: "r \<in> set ?rs" "rule_applies r a" "m_effect m = effect_of r" "m_rule m = r"
      using structured_verdict [OF Some] rs by metis
    have top: "k \<le> l" if "r' \<in> set ?rs" "rule_applies r' a" "jget r' ''priority'' = JNum k" "jget r ''priority'' = JNum l"
      for r' k l
      using chosen_priority [OF assms(1) Some, of r' k] that rs r(2,4) chooseStructuredMatch_in [OF Some]
      by (auto simp: structured_matches_iff is_int_def dest: structuredRuleMatch_Some)
    have nd: "effect_of r \<noteq> JStr ''deny''" using on(3) r(1,2) by blast
    show ?thesis
    proof (cases "?on ''needs_approval''")
      case True
      then obtain r' where r': "r' \<in> set ?rs" "rule_applies r' a" "effect_of r' = JStr ''needs_approval''" by blast
      then have "jget r' ''priority'' = JNum 200" using migrated_rule_ranks [OF r'(1)] by auto
      then have "effect_of r = JStr ''needs_approval''"
        using migrated_rule_ranks [OF r(1)] top [OF r'(1,2), of 200 100] nd by auto
      then show ?thesis using Some r(3) True on(1) by simp
    next
      case False
      then have "effect_of r = JStr ''allow''" using migrated_rule_ranks [OF r(1)] nd r(1,2) by blast
      then show ?thesis using Some r(1-3) False on(1,2) by auto
    qed
  qed
qed

lemma jget_migrated:
  "jget (migrated_policy H p opts) ''rules'' =
     JArr (migrated_rules (to_str (jor (jget opts ''idPrefix'') (JStr ''migrated''))) p)"
  "jget (migrated_policy H p opts) ''exactActionRules'' =
     (if is_arr (jget p ''exactActionRules'') then jget p ''exactActionRules'' else JArr [])"
  "jget (migrated_policy H p opts) ''defaultAction'' = migrated_default p"
  "jget (migrated_policy H p opts) ''blockedActions'' = JUndef"
  "jget (migrated_policy H p opts) ''approvalRequired'' = JUndef"
  "jget (migrated_policy H p opts) ''allowedActions'' = JUndef"
  by (simp_all add: migrated_policy_def jget_jspread jget_jomit jhas_def)

lemma legacy_rules:
  assumes "validatePolicy p = []" "detectPolicyVersion p \<noteq> 2"
  shows "jget p ''rules'' = JUndef"
  using validatePolicy_ok [OF assms(1)] assms(2) by (auto simp: policy_ok_def detectPolicyVersion_def split: if_splits)

lemma legacy_lists:
  assumes "validatePolicy p = []" "k \<in> {''allowedActions'', ''approvalRequired'', ''blockedActions''}"
  shows "pattern_array (jget p k) = str_list (jget p k)"
proof (rule pattern_array_valid)
  show "jget p k = JUndef \<or> validateStringArray (jget p k) (''policy.'' @ k) False = []"
    using assms unfolding validatePolicy_Nil_iff present_def by auto
qed

lemma exact_rules_migrated:
  assumes "validatePolicy p = []"
  shows "exact_rules_for (migrated_policy H p opts) a = exact_rules_for p a"
  using validatePolicy_ok [OF assms]
  by (auto simp: exact_rules_for_def jget_migrated policy_ok_def arr_of_def)

lemma denied_migrated:
  assumes "validatePolicy p = []" "detectPolicyVersion p \<noteq> 2"
  shows "denied_by (migrated_policy H p opts) a = denied_by p a"
  using legacy_lists [OF assms(1), of "''blockedActions''"] legacy_rules [OF assms]
  by (simp add: denied_by_def exact_rules_migrated [OF assms(1)] jget_migrated ex_migrated_rule str_list_def arr_of_def)

lemma legacy_verdict_overlap:
  assumes "legacyDecision p key = Some d"
  shows "verdict d =
      (if \<exists>q\<in>set (str_list (jget p ''approvalRequired'')). matchesPattern q key then JStr ''needs_approval''
       else JStr ''allow'')
    \<or> verdict d = JStr ''allow'' \<and> (\<exists>q\<in>set (str_list (jget p ''approvalRequired'')). matchesPattern q key)"
proof -
  let ?ap = "bestMatch (str_list (jget p ''approvalRequired'')) key"
  have ap: "(\<exists>q\<in>set (str_list (jget p ''approvalRequired'')). matchesPattern q key) \<longleftrightarrow> ?ap \<noteq> None" by auto
  show ?thesis unfolding ap using assms legacy_verdict [OF assms]
    by (cases ?ap) (auto simp: legacyDecision_def simp del: bestMatch_None split: option.splits if_splits)
qed

text \<open>The two policies, action by action.\<close>

lemma migrated_decide:
  fixes a opts :: jval
  assumes "collation_ok H" "validatePolicy p = []" "detectPolicyVersion p \<noteq> 2"
  defines "old \<equiv> verdict (decide H a (normalizePolicy p))"
    and "new \<equiv> verdict (decide H a (normalizePolicy (migrated_policy H p opts)))"
  shows "new = old \<or> (old = JStr ''allow'' \<and> new = JStr ''needs_approval''
    \<and> (\<exists>q\<in>set (str_list (jget p ''approvalRequired'')). matchesPattern q (actionKey a)))"
proof (cases "denied_by p a")
  case True
  then show ?thesis by (simp add: old_def new_def decide_deny denied_migrated [OF assms(2,3)])
next
  case nd: False
  let ?q = "migrated_policy H p opts" and ?key = "actionKey a"
  let ?al = "\<exists>x\<in>set (str_list (jget p ''allowedActions'')). matchesPattern x ?key"
    and ?ap = "\<exists>x\<in>set (str_list (jget p ''approvalRequired'')). matchesPattern x ?key"
  let ?d = "jor (migrated_default p) (JStr ''needs_approval'')"
  let ?by_exact = "\<lambda>rest. if \<exists>r\<in>set (exact_rules_for p a). effect_of r = JStr ''needs_approval'' then JStr ''needs_approval''
     else if \<exists>r\<in>set (exact_rules_for p a). effect_of r = JStr ''allow'' then JStr ''allow'' else rest"
  have ex: "exact_rules_for (normalizePolicy p) a = exact_rules_for p a"
    "exact_rules_for (normalizePolicy ?q) a = exact_rules_for p a"
    by (simp_all add: exact_rules_for_def jget_normalizePolicy exact_rules_migrated [OF assms(2), unfolded exact_rules_for_def])
  have lists: "legacyDecision (normalizePolicy p) ?key = legacyDecision p ?key"
    "legacyDecision (normalizePolicy ?q) ?key = None"
    by (simp add: legacyDecision_def jget_normalizePolicy)
      (simp add: legacyDecision_None jget_normalizePolicy jget_migrated str_list_def arr_of_def)
  have none: "structured_matches (normalizePolicy p) a = []"
    by (simp add: structured_matches_def jget_normalizePolicy legacy_rules [OF assms(2,3)] arr_of_def)
  have default: "jget (normalizePolicy p) ''defaultAction'' = migrated_default p"
    "jget (normalizePolicy ?q) ''defaultAction'' = migrated_default p"
    by (simp_all only: normalizePolicy_default jget_migrated migrated_default_def)
      (simp add: jor_def)
  have old: "old = ?by_exact (case legacyDecision p ?key of Some d \<Rightarrow> verdict d | None \<Rightarrow> ?d)"
    using undenied_verdict [of "normalizePolicy p" a H, unfolded ex lists none default] nd by (simp add: old_def)
  have blocked: "\<not> (\<exists>x\<in>set (pattern_array (jget p ''blockedActions'')). matchesPattern x ?key)"
    using nd legacy_lists [OF assms(2), of "''blockedActions''"] by (auto simp: denied_by_def)
  have rules: "jget (normalizePolicy ?q) ''rules'' =
      JArr (migrated_rules (to_str (jor (jget opts ''idPrefix'') (JStr ''migrated''))) p)"
    by (simp add: jget_normalizePolicy jget_migrated)
  have choice: "(case chooseStructuredMatch H (structured_matches (normalizePolicy ?q) a) of Some m \<Rightarrow> m_effect m | None \<Rightarrow> ?d)
      = (if ?ap then JStr ''needs_approval'' else if ?al then JStr ''allow'' else ?d)"
    using migrated_choice [OF assms(1) rules blocked, of ?d] legacy_lists [OF assms(2)] by simp
  have new: "new = ?by_exact (if ?ap then JStr ''needs_approval'' else if ?al then JStr ''allow'' else ?d)"
    using undenied_verdict [of "normalizePolicy ?q" a H, unfolded ex lists default option.case choice] nd
    by (simp add: new_def denied_migrated [OF assms(2,3)])
  show ?thesis
  proof (cases "legacyDecision p ?key")
    case None
    then have "\<not> ?ap" "\<not> ?al" by (auto simp: legacyDecision_None)
    then show ?thesis by (simp add: old new None)
  next
    case (Some d)
    then have "?ap \<or> ?al" using legacyDecision_None [of p ?key] by auto
    then show ?thesis using legacy_verdict_overlap [OF Some] by (auto simp: old new Some)
  qed
qed

section \<open>The property\<close>

definition wit_legacy :: jval where
  "wit_legacy = JObj [(''allowedActions'', JArr [JStr ''file.read'']), (''approvalRequired'', JArr [JStr ''file.*'']),
     (''blockedActions'', JArr [JStr ''file.delete''])]"

definition wit_reading :: jval where
  "wit_reading = JObj [(''type'', JStr ''file.read'')]"

text \<open>C24: Migration never loosens a policy.  When \<open>migratePolicyToV2\<close> turns a version 1 policy into
  structured rules, every action the old policy decides gets the verdict from the migrated one that the old
  one gave, but for one case: an action the old policy allowed and that also matches one of its approval
  patterns may now need approval.\<close>

theorem migration_only_tightens:
  assumes "collation_ok H" "migratePolicyToV2 H p opts = Inr r" "mg_changed r" "evaluatePolicy H a p = Inr d"
  shows "\<exists>d'. evaluatePolicy H a (mg_policy r) = Inr d' \<and>
    (verdict d' = verdict d \<or> (verdict d = JStr ''allow'' \<and> verdict d' = JStr ''needs_approval''
      \<and> (\<exists>q\<in>set (str_list (jget p ''approvalRequired'')). matchesPattern q (actionKey a))))"
proof -
  have m: "validatePolicy p = []" "detectPolicyVersion p \<noteq> 2" "mg_policy r = migrated_policy H p opts"
    "validatePolicy (migrated_policy H p opts) = []"
    using assms(2,3) by (auto simp: migratePolicyToV2_def Let_def res_simps split: if_splits)
  show ?thesis
  proof (cases "validateActionEnvelope a = []")
    case True
    then show ?thesis using assms(4) migrated_decide [OF assms(1) m(1,2), of a opts] m(1,3,4)
      by (simp add: evaluatePolicy_valid)
  next
    case False
    then show ?thesis using assms(4) by (simp add: evaluatePolicy_def)
  qed
qed

theorem migration_only_tightens_witness:
  "\<exists>r d. migratePolicyToV2 wit_host wit_legacy (JObj []) = Inr r
     \<and> evaluatePolicy wit_host wit_reading (mg_policy r) = Inr d
     \<and> (verdict d = JStr ''allow'' \<or> verdict d = JStr ''needs_approval'')"
proof -
  have c: "collation_ok wit_host" by (auto simp: collation_ok_def total_preorder_def wit_host_def)
  have ch: "(case migratePolicyToV2 wit_host wit_legacy (JObj []) of Inr r \<Rightarrow> mg_changed r | Inl _ \<Rightarrow> False)"
    by code_simp
  then obtain r where r: "migratePolicyToV2 wit_host wit_legacy (JObj []) = Inr r" "mg_changed r"
    by (auto split: sum.splits)
  have e: "evaluatePolicy wit_host wit_reading wit_legacy = Inr (decide wit_host wit_reading (normalizePolicy wit_legacy))"
    by (rule evaluatePolicy_valid; code_simp)
  have "verdict (decide wit_host wit_reading (normalizePolicy wit_legacy)) = JStr ''allow''" by code_simp
  then show ?thesis using migration_only_tightens [OF c r e] r(1) by auto
qed

end
