(* ===== verification/ApprovalProvider.thy ===== *)
theory ApprovalProvider
  imports Approval
begin

text \<open>
  Approval providers, \<^verbatim>\<open>packages/core/src/approval/provider.js\<close>: the check of a provider, the broker that
  calls one under a deadline, and the provider that keeps its requests in memory.  The functions of
  a provider are not in the repository: they are fields of a record, and a call of one answers after
  a number of milliseconds, or never.
\<close>

section \<open>Deadlines\<close>

definition APPROVAL_PROVIDER_API_VERSIONS :: "string list" where
  "APPROVAL_PROVIDER_API_VERSIONS = [''1.0'', ''1.1'']"

definition APPROVAL_DECISIONS :: "string list" where
  "APPROVAL_DECISIONS = [''allow_once'', ''deny_once'', ''allow_session'', ''deny_session'', ''always_ask'', ''always_allow'', ''always_block'']"

definition APPROVAL_PROVIDER_TIMEOUT_MS :: int where
  "APPROVAL_PROVIDER_TIMEOUT_MS = 30000"

definition boundedTimeoutMs :: "jval \<Rightarrow> int \<Rightarrow> int res" where
  "boundedTimeoutMs v fallback =
     (if jnullish v then Inr fallback
      else case to_number v of
        JNum n \<Rightarrow> throw_if (n < 1 \<or> n > 5 * 60000) ''approval provider timeoutMs must be between 1 and 300000'' (Inr n)
      | _ \<Rightarrow> Inl (Error ''approval provider timeoutMs must be between 1 and 300000''))"

text \<open>What a provider's promise comes to: its result and the milliseconds it takes, \<open>None\<close> for ever.  At
  the deadline itself the timer, which was set first, has won.\<close>

record 'a promise =
  pm_after :: "int option"
  pm_result :: "'a res"

definition withProviderDeadline :: "'a promise \<Rightarrow> string \<Rightarrow> int \<Rightarrow> 'a res" where
  "withProviderDeadline p label timeoutMs =
     (if (case pm_after p of None \<Rightarrow> False | Some t \<Rightarrow> t < timeoutMs) then pm_result p
      else Inl (Error (label @ '' timed out after '' @ int_str timeoutMs @ ''ms'')))"

section \<open>Providers\<close>

text \<open>A property that should hold a function.\<close>

datatype 'f member = Missing | NotFunction | Function 'f

type_synonym 's request_fn = "'s \<Rightarrow> jval \<Rightarrow> jval \<Rightarrow> jval promise \<times> 's"
type_synonym 's decide_fn = "'s \<Rightarrow> jval \<Rightarrow> jval \<Rightarrow> jval \<Rightarrow> jval promise \<times> 's"
type_synonym 's list_fn = "'s \<Rightarrow> jval \<Rightarrow> jval promise \<times> 's"

record 's provider =
  pv_self :: jval
  pv_request :: "'s request_fn member"
  pv_decide :: "'s decide_fn member"
  pv_list :: "'s list_fn member"

definition is_function :: "'f member \<Rightarrow> bool" where
  "is_function m = (case m of Function _ \<Rightarrow> True | _ \<Rightarrow> False)"

definition is_missing :: "'f member \<Rightarrow> bool" where
  "is_missing m = (case m of Missing \<Rightarrow> True | _ \<Rightarrow> False)"

definition validateApprovalProvider :: "'s provider \<Rightarrow> string list" where
  "validateApprovalProvider p =
     (let self = pv_self p in
      if \<not> is_obj self \<and> \<not> is_arr self then [''approval provider must be an object'']
      else
        err_if (\<not> one_of APPROVAL_PROVIDER_API_VERSIONS (jget self ''apiVersion''))
          (''approval provider apiVersion must be one of '' @ str_join '', '' APPROVAL_PROVIDER_API_VERSIONS)
        @ err_if (\<not> nonempty_str (jget self ''name'')) ''approval provider name is required''
        @ err_if (jget self ''apiVersion'' = JStr ''1.1'' \<and> \<not> nonempty_str (jget self ''providerId''))
            ''approval provider providerId is required for apiVersion 1.1''
        @ err_if (\<not> is_function (pv_request p)) ''approval provider request(request, context) function is required''
        @ err_if (\<not> is_missing (pv_decide p) \<and> \<not> is_function (pv_decide p)) ''approval provider decide must be a function when present''
        @ err_if (\<not> is_missing (pv_list p) \<and> \<not> is_function (pv_list p)) ''approval provider list must be a function when present'')"

section \<open>The broker\<close>

record 's broker =
  bk_provider :: "'s provider"
  bk_timeout :: int

definition new_broker :: "'s provider \<Rightarrow> jval \<Rightarrow> 's broker res" where
  "new_broker p options =
     throw_if (validateApprovalProvider p \<noteq> []) (''invalid approval provider: '' @ join_errors (validateApprovalProvider p))
    (bind_res (boundedTimeoutMs (jget options ''timeoutMs'') APPROVAL_PROVIDER_TIMEOUT_MS) (\<lambda>t.
       Inr \<lparr>bk_provider = p, bk_timeout = t\<rparr>))"

definition broker_name :: "'s broker \<Rightarrow> string" where
  "broker_name b = to_str (jget (pv_self (bk_provider b)) ''name'')"

definition broker_id :: "'s broker \<Rightarrow> jval" where
  "broker_id b = jor (jget (pv_self (bk_provider b)) ''providerId'') (jget (pv_self (bk_provider b)) ''name'')"

text \<open>The call of a member: a missing one is a \<open>TypeError\<close>; the provider's state after the call.\<close>

definition call_under_deadline ::
  "'f member \<Rightarrow> ('f \<Rightarrow> jval promise \<times> 's) \<Rightarrow> string \<Rightarrow> int \<Rightarrow> 's \<Rightarrow> jval res \<times> 's" where
  "call_under_deadline m call label timeoutMs s =
     (case m of
        Function f \<Rightarrow> (case call f of (p, s') \<Rightarrow> (withProviderDeadline p label timeoutMs, s'))
      | _ \<Rightarrow> (Inl TypeError, s))"

definition broker_request :: "host \<Rightarrow> 's broker \<Rightarrow> 's \<Rightarrow> jval \<Rightarrow> jval \<Rightarrow> jval res \<times> 's" where
  "broker_request H b s pr options =
     (case buildApprovalRequest H pr (jspread options (JObj [
             (''providerId'', jor (jget options ''providerId'') (broker_id b)),
             (''audience'', jor (jget options ''audience'') (JStr (''approval-provider:'' @ to_str (broker_id b))))])) of
        Inl e \<Rightarrow> (Inl e, s)
      | Inr request \<Rightarrow>
          (case boundedTimeoutMs (jget options ''timeoutMs'') (bk_timeout b) of
             Inl e \<Rightarrow> (Inl e, s)
           | Inr t \<Rightarrow>
               (case call_under_deadline (pv_request (bk_provider b)) (\<lambda>f. f s request (jor (jget options ''context'') (JObj [])))
                       (''approval provider '' @ broker_name b @ '' request'') t s of
                  (r, s') \<Rightarrow>
                    (bind_res r (\<lambda>response. Inr (JObj [(''request'', request), (''response'', response),
                        (''provider'', jget (pv_self (bk_provider b)) ''name''), (''providerId'', broker_id b)])), s'))))"

definition broker_decide :: "'s broker \<Rightarrow> 's \<Rightarrow> jval \<Rightarrow> jval \<Rightarrow> jval \<Rightarrow> jval res \<times> 's" where
  "broker_decide b s approvalId decision options =
     (if \<not> one_of APPROVAL_DECISIONS decision then (Inl (Error (''unsupported approval decision: '' @ to_str decision)), s)
      else if \<not> is_function (pv_decide (bk_provider b))
        then (Inl (Error (''approval provider '' @ broker_name b @ '' does not support decide'')), s)
      else case boundedTimeoutMs (jget options ''timeoutMs'') (bk_timeout b) of
        Inl e \<Rightarrow> (Inl e, s)
      | Inr t \<Rightarrow> call_under_deadline (pv_decide (bk_provider b))
          (\<lambda>f. f s approvalId decision (jor (jget options ''context'') (JObj [])))
          (''approval provider '' @ broker_name b @ '' decide'') t s)"

definition broker_list :: "'s broker \<Rightarrow> 's \<Rightarrow> jval \<Rightarrow> jval res \<times> 's" where
  "broker_list b s options =
     (if \<not> is_function (pv_list (bk_provider b))
      then (Inl (Error (''approval provider '' @ broker_name b @ '' does not support list'')), s)
      else case boundedTimeoutMs (jget options ''timeoutMs'') (bk_timeout b) of
        Inl e \<Rightarrow> (Inl e, s)
      | Inr t \<Rightarrow> call_under_deadline (pv_list (bk_provider b)) (\<lambda>f. f s (jor (jget options ''context'') (JObj [])))
          (''approval provider '' @ broker_name b @ '' list'') t s)"

section \<open>The provider in memory\<close>

text \<open>The map from approval ids to entries; an id is a primitive value, so the keys of the map compare as
  values do.\<close>

record mem_entry =
  me_request :: jval
  me_result :: "jval option"

record mem_provider =
  mp_name :: jval
  mp_providerId :: jval
  mp_secret :: jval
  mp_approver :: jval
  mp_requests :: "(jval \<times> mem_entry) list"

definition new_mem_provider :: "jval \<Rightarrow> mem_provider" where
  "new_mem_provider options =
     (let name = jor (jget options ''name'') (JStr ''memory'');
          pid = jor (jget options ''providerId'') (JStr ''ruleoak.memory'') in
      \<lparr>mp_name = name, mp_providerId = pid, mp_secret = jget options ''secret'',
       mp_approver = jor (jget options ''approver'') (JObj [(''type'', JStr ''service''), (''id'', pid), (''name'', name)]),
       mp_requests = []\<rparr>)"

definition mem_request :: "mem_provider \<Rightarrow> jval \<Rightarrow> jval \<times> mem_provider" where
  "mem_request s request =
     (JObj [(''accepted'', JBool True), (''approval_id'', jget request ''approval_id''), (''status'', JStr ''pending'')],
      s\<lparr>mp_requests := AList.update (jget request ''approval_id'') \<lparr>me_request = request, me_result = None\<rparr> (mp_requests s)\<rparr>)"

definition mem_list :: "mem_provider \<Rightarrow> jval" where
  "mem_list s = JArr (map (\<lambda>(_, e). case me_result e of
        Some r \<Rightarrow> jspread (me_request e) (JObj [(''status'', JStr ''decided''), (''approval_result'', r)])
      | None \<Rightarrow> jspread (me_request e) (JObj [(''status'', JStr ''pending'')])) (mp_requests s))"

definition mem_options :: "mem_provider \<Rightarrow> jval \<Rightarrow> jval" where
  "mem_options s context =
     JObj [(''providerId'', mp_providerId s), (''providerName'', mp_name s), (''approver'', mp_approver s),
       (''secret'', mp_secret s), (''decidedAt'', jget context ''decidedAt''), (''ttlMs'', jget context ''ttlMs''),
       (''reason'', jget context ''reason'')]"

definition mem_decide :: "host \<Rightarrow> mem_provider \<Rightarrow> jval \<Rightarrow> jval \<Rightarrow> jval \<Rightarrow> jval res \<times> mem_provider" where
  "mem_decide H s approvalId decision context =
     (case map_of (mp_requests s) approvalId of
        None \<Rightarrow> (Inl (Error (''approval not found: '' @ to_str approvalId)), s)
      | Some e \<Rightarrow>
          (if me_result e \<noteq> None then (Inl (Error (''approval already decided: '' @ to_str approvalId)), s)
           else case buildApprovalResult H (me_request e) decision (mem_options s context) of
             Inl err \<Rightarrow> (Inl err, s)
           | Inr r \<Rightarrow> (Inr r, s\<lparr>mp_requests := AList.update approvalId (e\<lparr>me_result := Some r\<rparr>) (mp_requests s)\<rparr>)))"

text \<open>The object as a provider: its methods answer at once.\<close>

definition at_once :: "'a res \<Rightarrow> 'a promise" where
  "at_once r = \<lparr>pm_after = Some 0, pm_result = r\<rparr>"

definition mem_as_provider :: "host \<Rightarrow> mem_provider \<Rightarrow> mem_provider provider" where
  "mem_as_provider H s =
     \<lparr>pv_self = JObj [(''apiVersion'', JStr ''1.1''), (''name'', mp_name s), (''providerId'', mp_providerId s)],
      pv_request = Function (\<lambda>t request _. case mem_request t request of (r, t') \<Rightarrow> (at_once (Inr r), t')),
      pv_decide = Function (\<lambda>t i d c. case mem_decide H t i d c of (r, t') \<Rightarrow> (at_once r, t')),
      pv_list = Function (\<lambda>t _. (at_once (Inr (mem_list t)), t))\<rparr>"

end
