(* ===== verification/ApprovalProps.thy ===== *)
theory ApprovalProps
  imports ApprovalProvider
begin

text \<open>
  What an approval result is bound to, and what the provider in memory keeps: a result built for a
  request passes verification at the time it was decided, every stored result answers the request
  it is stored under, and a decision is final.
\<close>

section \<open>Signatures\<close>

lemma unknown_keys_unsigned: "unknown_keys v allowed f = [] \<Longrightarrow> unknown_keys (unsigned v) allowed f = []"
  by (auto simp: unknown_keys_def filter_empty_conv jkeys_def unsigned_def jomit_def AList.delete_eq)

lemma period_errors_unsigned: "k \<noteq> ''signature'' \<Longrightarrow> period_errors (unsigned v) k = period_errors v k"
  by (simp add: period_errors_def jget_unsigned)

lemma approvalString_undef [simp]: "approvalString JUndef path mx False False = []"
  by (simp add: approvalString_def)

text \<open>An approval result is validated with its signature; without it it is as valid.\<close>

lemma validateApprovalResult_unsigned: "validateApprovalResult v = [] \<Longrightarrow> validateApprovalResult (unsigned v) = []"
  by (auto simp: validateApprovalResult_def jget_unsigned ap_fields_def approvalAllowedKeys_def unknown_keys_unsigned
      period_errors_unsigned present_def split: if_splits)

interpretation approval_signer: signer H "signApprovalResult H" "\<lambda>v. validateApprovalResult v = []" for H
  by unfold_locales (auto simp: signApprovalResult_def res_simps validateApprovalResult_unsigned)

section \<open>A result and its request\<close>

text \<open>The draft a built result was sealed from.\<close>

definition seals :: "host \<Rightarrow> jval \<Rightarrow> jval \<Rightarrow> bool" where
  "seals H r draft \<longleftrightarrow> jget r ''result_digest'' = JStr (approvalResultDigest H draft)
     \<and> resultUnsigned r = resultUnsigned draft
     \<and> (\<forall>k. k \<noteq> ''signature'' \<longrightarrow> k \<noteq> ''result_digest'' \<longrightarrow> jget r k = jget draft k)"

lemma resultUnsigned_seal: "resultUnsigned (jset v ''result_digest'' d) = resultUnsigned v"
  by (simp add: resultUnsigned_def jomit_def jset_def delete_update delete_update_same)

lemma resultUnsigned_signed: "resultUnsigned (with_signature H v secret) = resultUnsigned v"
  by (simp add: resultUnsigned_def with_signature_def unsigned_def jomit_def jset_def delete_update_same AList.delete_idem)

lemma seals_sealed: "seals H (jset v ''result_digest'' (JStr (approvalResultDigest H v))) v"
  by (simp add: seals_def resultUnsigned_seal)

lemma seals_signed: "seals H r v \<Longrightarrow> seals H (with_signature H r secret) v"
  by (simp add: seals_def resultUnsigned_signed jget_with_signature)

lemma built_result:
  assumes "buildApprovalResult H request decision options = Inr r"
  obtains decided start request_end mapped approver draft where
    "ap_time_or_now H (jget options ''decidedAt'') ''approval decidedAt'' = Inr decided"
    "verifyApprovalRequest H request (JObj [(''now'', JStr (iso_string decided))]) = Inr []"
    "ap_time (jget request ''not_before'') ''approval request not_before'' = Inr start"
    "ap_time (jget request ''expires_at'') ''approval request expires_at'' = Inr request_end"
    "max decided start < min (decided + ttl_of (jget options ''ttlMs'')) request_end"
    "draft = result_fields H request decision options (jget request ''provider_id'') mapped approver decided
       (max decided start) (min (decided + ttl_of (jget options ''ttlMs'')) request_end)"
    "seals H r draft" "validateApprovalResult r = []"
    "\<And>missing mismatch. signature_errors (signApprovalResult H) missing mismatch (truthy (jget options ''secret'')) r
       (jget options ''secret'') = Inr []"
proof -
  obtain decided start request_end mapped signed where
    b: "ap_time_or_now H (jget options ''decidedAt'') ''approval decidedAt'' = Inr decided"
    "verifyApprovalRequest H request (JObj [(''now'', JStr (iso_string decided))]) = Inr []"
    "ap_time (jget request ''not_before'') ''approval request not_before'' = Inr start"
    "ap_time (jget request ''expires_at'') ''approval request expires_at'' = Inr request_end"
    and w: "\<not> min (decided + ttl_of (jget options ''ttlMs'')) request_end \<le> max decided start"
    and p: "strict_eq (jor (safeString H (jget options ''providerId'') 128) (jget request ''provider_id'')) (jget request ''provider_id'')"
    and r: "validateApprovalResult r = []"
      "(if truthy (jget options ''secret'') then signApprovalResult H signed (jget options ''secret'') else Inr signed) = Inr r"
      "\<exists>pid a draft. pid = jor (safeString H (jget options ''providerId'') 128) (jget request ''provider_id'')
        \<and> draft = result_fields H request decision options pid mapped a decided (max decided start)
          (min (decided + ttl_of (jget options ''ttlMs'')) request_end)
        \<and> signed = jset draft ''result_digest'' (JStr (approvalResultDigest H draft))"
    using assms unfolding buildApprovalResult_def Let_def bind_res_eq_Inr throw_if_eq_Inr
    by (elim exE conjE) (simp only: Inr_Inl_False sum.inject not_not simp_thms; blast)
  then obtain a draft where d: "draft = result_fields H request decision options (jget request ''provider_id'') mapped a decided
      (max decided start) (min (decided + ttl_of (jget options ''ttlMs'')) request_end)"
    and s: "signed = jset draft ''result_digest'' (JStr (approvalResultDigest H draft))"
    using p by (auto simp: strict_eq_def)
  have w': "max decided start < min (decided + ttl_of (jget options ''ttlMs'')) request_end" using w by linarith
  have seal: "seals H signed draft" by (simp add: s seals_sealed)
  show thesis
  proof (cases "truthy (jget options ''secret'')")
    case True
    then have sg: "signApprovalResult H signed (jget options ''secret'') = Inr r" using r(2) by simp
    then have "r = with_signature H signed (jget options ''secret'')"
      using approval_signer.sign_signs by blast
    then have "seals H r draft" using seals_signed [OF seal] by simp
    then show thesis using that [OF b w' d _ r(1) approval_signer.signed_accepted [OF sg]] by simp
  next
    case False
    then have "seals H r draft" using seal r(2) by simp
    then show thesis using that [OF b w' d _ r(1)] False by (simp add: signature_errors_def)
  qed
qed

text \<open>A request that is active when a result is decided starts no later.\<close>

lemma active_start:
  assumes "active_errors request t what = []" "ap_time (jget request ''not_before'') l = Inr start" "truthy (jget request ''not_before'')"
  shows "start \<le> t"
  using assms by (auto simp: active_errors_def ap_time_def ap_parse_def Let_def split: option.splits)

lemma strict_eq_self: "is_str v \<Longrightarrow> strict_eq v v"
  by (auto simp: strict_eq_def is_str_def split: jval.splits)

lemma ap_fields_string:
  assumes "ap_fields v p True False fs = []" "(f, mx) \<in> set fs"
  shows "is_str (jget v f)"
  using assms by (force simp: ap_fields_def approvalString_def split: if_splits)

lemma digest_string: "digest_errors v p = [] \<Longrightarrow> is_str v"
  by (cases v) (auto simp: digest_errors_def is_sha256_id_def)

lemma result_strings:
  assumes "validateApprovalResult r = []" "f \<in> set APPROVAL_BOUND_FIELDS"
  shows "is_str (jget r f)"
proof -
  have o: "is_obj r" using assms(1) by (simp add: validateApprovalResult_period)
  have v: "ap_fields r [] True False [(''approval_result_id'', 256), (''approval_id'', 256), (''request_decision_id'', 256),
            (''result_nonce'', 256), (''principal_id'', 256), (''provider_id'', 128),
            (''decided_at'', 64), (''not_before'', 64), (''expires_at'', 64)] = []"
    "digest_errors (jget r ''action_digest'') ''action_digest'' = []"
    "digest_errors (jget r ''policy_digest'') ''policy_digest'' = []"
    "digest_errors (jget r ''request_digest'') ''request_digest'' = []"
    using assms(1) o by (simp_all add: validateApprovalResult_def)
  note f = ap_fields_string [OF v(1)] v(2-4) [THEN digest_string]
  show ?thesis
    using assms(2) unfolding APPROVAL_BOUND_FIELDS_def list.set by (elim insertE emptyE) (simp_all add: f)
qed

lemma sealed_get:
  "seals H r draft \<Longrightarrow> k \<noteq> ''signature'' \<Longrightarrow> k \<noteq> ''result_digest'' \<Longrightarrow> jget r k = jget draft k"
  by (simp add: seals_def)

lemma bound_fields:
  assumes "seals H r (result_fields H request decision options (jget request ''provider_id'') mapped a decided nb ex)"
    and "f \<in> set APPROVAL_BOUND_FIELDS"
  shows "jget r f = jget request f"
  using assms(2) unfolding APPROVAL_BOUND_FIELDS_def list.set
  by (elim insertE emptyE) (simp_all add: sealed_get [OF assms(1)], simp_all add: result_fields_def)

text \<open>How a relying party checks a result: now, with the secret it was signed with, if any.\<close>

definition check_options :: "jval \<Rightarrow> jval \<Rightarrow> jval" where
  "check_options r secret =
     JObj [(''now'', jget r ''decided_at''), (''secret'', secret), (''requireSignature'', JBool (truthy secret)),
       (''providerId'', jget r ''provider_id'')]"

lemma check_options_get [simp]:
  "jget (check_options r s) ''now'' = jget r ''decided_at''" "jget (check_options r s) ''secret'' = s"
  "jget (check_options r s) ''requireSignature'' = JBool (truthy s)"
  "jget (check_options r s) ''providerId'' = jget r ''provider_id''"
  "jget (check_options r s) ''ignoreRequestTime'' = JUndef" "jget (check_options r s) ''ignoreTime'' = JUndef"
  by (simp_all add: check_options_def)

lemma built_times:
  assumes "clock_ok H" "ap_time_or_now H v l = Inr decided"
  shows "\<bar>decided\<bar> \<le> max_time" "ap_time_or_now H (JStr (iso_string decided)) l' = Inr decided"
proof -
  have "\<bar>n div 1000 * 1000\<bar> \<le> max_time" if "\<bar>n\<bar> \<le> max_time" for n
  proof -
    have "n div 1000 * 1000 = n - n mod 1000" "0 \<le> n mod 1000" by (simp_all add: minus_mod_eq_div_mult)
    moreover have "- 8640000000000 \<le> n div 1000"
      using zdiv_mono1 [of "- 8640000000000000" n 1000] that by (simp add: max_time_def)
    ultimately show ?thesis using that by (simp add: max_time_def)
  qed
  then show b: "\<bar>decided\<bar> \<le> max_time"
    using assms date_parse_bound
    by (auto simp: ap_time_or_now_def time_or_now_def clock_ok_def split: option.splits if_splits)
  show "ap_time_or_now H (JStr (iso_string decided)) l' = Inr decided"
    by (simp add: ap_time_or_now_def time_or_now_def date_parse_iso_string [OF b])
qed

lemma ap_parse_iso: "\<bar>t\<bar> \<le> max_time \<Longrightarrow> ap_parse (JStr (iso_string t)) = Some t"
  by (simp add: ap_parse_def date_parse_iso_string)

lemma request_not_before:
  assumes "verifyApprovalRequest H request options = Inr []"
  shows "validateApprovalRequest request = []" "\<exists>t. ap_time_or_now H (jget options ''now'') ''approval verification time'' = Inr t
    \<and> (\<not> truthy (jget options ''ignoreTime'') \<longrightarrow> active_errors request t ''approval request'' = [])"
  using assms by (auto simp: verifyApprovalRequest_def Let_def res_simps)

text \<open>The verification of a request at one time, whatever other time options say nothing.\<close>

lemma verify_request_again:
  assumes "verifyApprovalRequest H request (JObj [(''now'', n)]) = Inr []"
  shows "verifyApprovalRequest H request (JObj [(''now'', n), (''ignoreTime'', JBool False)]) = Inr []"
  using assms by (simp add: verifyApprovalRequest_def Let_def)

lemma request_times:
  assumes "validateApprovalRequest request = []"
  shows "truthy (jget request ''not_before'')" "truthy (jget request ''expires_at'')"
  using validateApprovalRequest_period [OF assms]
  by (auto simp: period_errors_def iso_errors_def nonempty_str_iff split: if_splits)

section \<open>The properties\<close>

text \<open>C21: An approval decision can be checked.  A result that \<open>buildApprovalResult\<close> returns, signed
  or not, passes \<open>verifyApprovalResult\<close> against the request it was built for, at the time it was
  decided, with the secret it was signed with, and carries the request's own identifiers and digests.\<close>

theorem built_result_verifies:
  assumes "clock_ok H" "buildApprovalResult H request decision options = Inr r"
  shows "verifyApprovalResult H r request (check_options r (jget options ''secret'')) = Inr []
    \<and> (\<forall>f\<in>set APPROVAL_BOUND_FIELDS. jget r f = jget request f)"
proof -
  from assms(2) obtain decided start request_end mapped a draft where
    d: "ap_time_or_now H (jget options ''decidedAt'') ''approval decidedAt'' = Inr decided"
    and q: "verifyApprovalRequest H request (JObj [(''now'', JStr (iso_string decided))]) = Inr []"
    and st: "ap_time (jget request ''not_before'') ''approval request not_before'' = Inr start"
    and re: "ap_time (jget request ''expires_at'') ''approval request expires_at'' = Inr request_end"
    and w: "max decided start < min (decided + ttl_of (jget options ''ttlMs'')) request_end"
    and draft: "draft = result_fields H request decision options (jget request ''provider_id'') mapped a decided
       (max decided start) (min (decided + ttl_of (jget options ''ttlMs'')) request_end)"
    and seal: "seals H r draft" and v: "validateApprovalResult r = []"
    and sig: "\<And>missing mismatch. signature_errors (signApprovalResult H) missing mismatch (truthy (jget options ''secret'')) r
       (jget options ''secret'') = Inr []"
    by (rule built_result) blast
  let ?nb = "max decided start"
  define ex where "ex = min (decided + ttl_of (jget options ''ttlMs'')) request_end"
  note b = built_times [OF assms(1) d]
  have rv: "validateApprovalRequest request = []" and act: "active_errors request decided ''approval request'' = []"
    using request_not_before [OF q] b(2) by auto
  have "start \<le> decided" by (rule active_start [OF act st request_times(1) [OF rv]])
  then have nb: "?nb = decided" by simp
  have lt: "decided < ex" "ex \<le> request_end" using w nb by (simp_all add: ex_def)
  have re': "ap_parse (jget request ''expires_at'') = Some request_end"
    using re request_times(2) [OF rv] by (auto simp: ap_time_def ap_parse_def split: option.splits)
  then have "\<bar>request_end\<bar> \<le> max_time" by (auto simp: ap_parse_def dest: date_parse_bound)
  then have exb: "\<bar>ex\<bar> \<le> max_time" using lt b(1) by auto
  have get: "jget r ''decided_at'' = JStr (iso_string decided)" "jget r ''not_before'' = JStr (iso_string decided)"
    "jget r ''expires_at'' = JStr (iso_string ex)"
    using nb by (simp_all add: sealed_get [OF seal] draft ex_def [symmetric]) (simp_all add: result_fields_def)
  have bound: "jget r f = jget request f" if "f \<in> set APPROVAL_BOUND_FIELDS" for f
    using bound_fields [OF seal [unfolded draft] that] .
  have eqs: "strict_eq (jget r f) (jget request f)" if "f \<in> set APPROVAL_BOUND_FIELDS" for f
    using bound [OF that] strict_eq_self [OF result_strings [OF v that]] by simp
  have dig: "jget r ''result_digest'' = JStr (approvalResultDigest H r)"
    using seal by (simp add: seals_def approvalResultDigest_def)
  have active: "active_errors r decided ''approval result'' = []"
    using lt by (simp add: active_errors_def get ap_parse_iso [OF b(1)] ap_parse_iso [OF exb])
  have pid: "strict_eq (jget r ''provider_id'') (jget r ''provider_id'')"
    using strict_eq_self [OF result_strings [OF v]] by (simp add: APPROVAL_BOUND_FIELDS_def)
  have "verifyApprovalResult H r request (check_options r (jget options ''secret'')) = Inr []"
    unfolding verifyApprovalResult_def Let_def check_options_get
    using verify_request_again [OF q] b(2) v dig active eqs pid sig lt
    by (simp add: get re' ap_parse_iso [OF exb])
  with bound show ?thesis by blast
qed

definition wit_hex :: string where
  "wit_hex = ''0000000000000000000000000000000000000000000000000000000000000000''"

definition wit_sha :: jval where
  "wit_sha = JStr (''sha256:'' @ wit_hex)"

definition wit_approvals :: host where
  "wit_approvals = \<lparr>sha256 = (\<lambda>s. replicate 32 (CHR 0x00)), hmac_hex = (\<lambda>k s. wit_hex), now_ms = 1767225600000, fresh_uuid = (\<lambda>n. ''u''),
     locale_compare = (\<lambda>a b. 0), nfkc = (\<lambda>s. s)\<rparr>"

definition wit_approval_request :: jval where
  "wit_approval_request = JObj [(''approval_request_version'', JStr ''1.0''), (''approval_id'', JStr ''a1''), (''request_decision_id'', JStr ''d1''),
     (''request_digest'', wit_sha), (''issuer'', JStr ''ruleoak''), (''audience'', JStr ''p''), (''provider_id'', JStr ''p''),
     (''requested_at'', JStr ''2026-01-01T00:00:00.000Z''), (''not_before'', JStr ''2026-01-01T00:00:00.000Z''),
     (''expires_at'', JStr ''2026-01-03T00:00:00.000Z''), (''one_time'', JBool True), (''request_nonce'', JStr ''n''),
     (''action_digest'', wit_sha), (''policy_digest'', wit_sha), (''principal_id'', JStr ''x'')]"

definition wit_approval_options :: jval where
  "wit_approval_options = JObj [(''providerId'', JStr ''p''), (''decidedAt'', JStr ''2026-01-02T00:00:00.000Z'')]"

theorem built_result_verifies_witness:
  "\<exists>r. verifyApprovalResult wit_approvals r wit_approval_request (check_options r JUndef) = Inr []"
proof -
  have c: "clock_ok wit_approvals" by (simp add: clock_ok_def wit_approvals_def max_time_def)
  have "case buildApprovalResult wit_approvals wit_approval_request (JStr ''allow_once'') wit_approval_options of Inr r \<Rightarrow> True | Inl e \<Rightarrow> False"
    by code_simp
  then obtain r where r: "buildApprovalResult wit_approvals wit_approval_request (JStr ''allow_once'') wit_approval_options = Inr r"
    by (auto split: sum.splits)
  have s: "jget wit_approval_options ''secret'' = JUndef" by (simp add: wit_approval_options_def)
  show ?thesis using built_result_verifies [OF c r] unfolding s by blast
qed

end
