(* ===== verification/ApprovalTrace.thy ===== *)
theory ApprovalTrace
  imports ApprovalProps
begin

text \<open>
  The provider in memory as a transition system: the calls of its methods, in any order, and what
  holds in every state they can reach.
\<close>

section \<open>Runs\<close>

datatype provider_call = CallRequest jval | CallDecide jval jval jval | CallList

fun provider_step :: "host \<Rightarrow> mem_provider \<Rightarrow> provider_call \<Rightarrow> jval res \<times> mem_provider" where
  "provider_step H s (CallRequest request) = (case mem_request s request of (r, s') \<Rightarrow> (Inr r, s'))"
| "provider_step H s (CallDecide i d c) = mem_decide H s i d c"
| "provider_step H s CallList = (Inr (mem_list s), s)"

text \<open>Each call is made on its own host: the clock and the fresh identifiers differ from call to call.\<close>

inductive provider_reaches :: "mem_provider \<Rightarrow> (host \<times> provider_call) list \<Rightarrow> mem_provider \<Rightarrow> bool" for s where
  stay: "provider_reaches s [] s"
| call: "provider_reaches s cs s' \<Longrightarrow> provider_step H s' c = (r, s'') \<Longrightarrow> provider_reaches s (cs @ [(H, c)]) s''"

definition entry_ok :: "mem_provider \<Rightarrow> jval \<Rightarrow> mem_entry \<Rightarrow> bool" where
  "entry_ok s i e \<longleftrightarrow> jget (me_request e) ''approval_id'' = i
     \<and> (\<forall>r. me_result e = Some r \<longrightarrow> (\<exists>H d c. buildApprovalResult H (me_request e) d (mem_options s c) = Inr r))"

definition mem_inv :: "mem_provider \<Rightarrow> bool" where
  "mem_inv s \<longleftrightarrow> (\<forall>i e. map_of (mp_requests s) i = Some e \<longrightarrow> entry_ok s i e)"

lemma mem_options_requests [simp]: "mem_options (s\<lparr>mp_requests := m\<rparr>) c = mem_options s c"
  by (simp add: mem_options_def)

lemma mem_inv_update:
  assumes "mem_inv s" "entry_ok s i e"
  shows "mem_inv (s\<lparr>mp_requests := AList.update i e (mp_requests s)\<rparr>)"
  using assms by (auto simp: mem_inv_def entry_ok_def update_conv')

lemma mem_inv_request: "mem_inv s \<Longrightarrow> mem_inv (snd (mem_request s request))"
  by (simp add: mem_request_def mem_inv_update entry_ok_def)

lemma mem_inv_decide:
  assumes "mem_inv s"
  shows "mem_inv (snd (mem_decide H s i d c))"
proof (cases "map_of (mp_requests s) i")
  case (Some e)
  then have e: "entry_ok s i e" using assms by (simp add: mem_inv_def)
  have "entry_ok s i (e\<lparr>me_result := Some r\<rparr>)" if "buildApprovalResult H (me_request e) d (mem_options s c) = Inr r" for r
    using e that by (auto simp: entry_ok_def)
  then show ?thesis using Some assms mem_inv_update by (auto simp: mem_decide_def split: sum.split)
qed (simp add: mem_decide_def assms)

lemma provider_step_inv: "mem_inv s \<Longrightarrow> provider_step H s c = (r, s') \<Longrightarrow> mem_inv s'"
proof -
  have "mem_inv s \<Longrightarrow> mem_inv (snd (provider_step H s c))"
    by (cases c) (simp_all add: mem_inv_request mem_inv_decide case_prod_beta)
  then show "mem_inv s \<Longrightarrow> provider_step H s c = (r, s') \<Longrightarrow> mem_inv s'" by simp
qed

lemma reaches_inv: "provider_reaches s cs s' \<Longrightarrow> mem_inv s \<Longrightarrow> mem_inv s'"
  by (induction rule: provider_reaches.induct) (auto dest: provider_step_inv)

lemma new_mem_inv: "mem_inv (new_mem_provider options)"
  by (simp add: mem_inv_def new_mem_provider_def Let_def)

section \<open>Finality\<close>

definition decided_as :: "mem_provider \<Rightarrow> jval \<Rightarrow> jval \<Rightarrow> bool" where
  "decided_as s i r \<longleftrightarrow> (\<exists>e. map_of (mp_requests s) i = Some e \<and> me_result e = Some r)"

definition asks_again :: "jval \<Rightarrow> provider_call \<Rightarrow> bool" where
  "asks_again i c = (case c of CallRequest q \<Rightarrow> jget q ''approval_id'' = i | _ \<Rightarrow> False)"

lemma decided_step:
  assumes "decided_as s i r" "\<not> asks_again i c" "provider_step H s c = (x, s')"
  shows "decided_as s' i r"
  using assms
  by (cases c) (auto simp: decided_as_def asks_again_def mem_request_def mem_decide_def update_conv'
      split: option.splits sum.splits if_splits)

lemma decided_reaches:
  "provider_reaches s cs s' \<Longrightarrow> decided_as s i r \<Longrightarrow> (\<forall>c\<in>set cs. \<not> asks_again i (snd c)) \<Longrightarrow> decided_as s' i r"
  by (induction rule: provider_reaches.induct) (auto dest: decided_step)

section \<open>The properties\<close>

text \<open>C20: The provider in memory only holds answers to the questions it was asked.  In every state that
  calls of its methods reach, an entry is stored under the approval id of its request, and a decided
  entry's result carries the identifiers and digests of that very request and is a valid result.\<close>

theorem stored_results_bound:
  assumes "provider_reaches (new_mem_provider options) cs s" "map_of (mp_requests s) i = Some e"
  shows "jget (me_request e) ''approval_id'' = i
    \<and> (\<forall>r. me_result e = Some r \<longrightarrow> validateApprovalResult r = []
        \<and> (\<forall>f\<in>set APPROVAL_BOUND_FIELDS. jget r f = jget (me_request e) f))"
proof -
  have ok: "entry_ok s i e"
    using reaches_inv [OF assms(1) new_mem_inv] assms(2) by (simp add: mem_inv_def)
  have "validateApprovalResult r = [] \<and> (\<forall>f\<in>set APPROVAL_BOUND_FIELDS. jget r f = jget (me_request e) f)"
    if r: "me_result e = Some r" for r
  proof -
    obtain H d c where "buildApprovalResult H (me_request e) d (mem_options s c) = Inr r"
      using ok r by (auto simp: entry_ok_def)
    then show ?thesis by (rule built_result) (use bound_fields in blast)
  qed
  then show ?thesis using ok by (simp add: entry_ok_def)
qed

definition wit_filed :: jval where
  "wit_filed = JObj [(''approval_id'', JStr ''a1''), (''risk'', JStr ''low'')]"

definition wit_entry :: mem_entry where
  "wit_entry = \<lparr>me_request = wit_filed, me_result = None\<rparr>"

lemma wit_filed_reached:
  "provider_reaches (new_mem_provider (JObj [])) ([] @ [(wit_approvals, CallRequest wit_filed)])
     (snd (mem_request (new_mem_provider (JObj [])) wit_filed))"
  by (rule provider_reaches.call [OF provider_reaches.stay]) (simp add: case_prod_beta)

theorem stored_results_bound_witness: "jget (me_request wit_entry) ''approval_id'' = JStr ''a1''"
proof -
  have "map_of (mp_requests (snd (mem_request (new_mem_provider (JObj [])) wit_filed))) (JStr ''a1'') = Some wit_entry"
    by (simp add: mem_request_def new_mem_provider_def Let_def wit_filed_def wit_entry_def)
  from stored_results_bound [OF wit_filed_reached this] show ?thesis by blast
qed

text \<open>C19: An approval decision is final.  Once an approval is decided in memory, no sequence of calls that
  does not file a request under the same id again changes the result, and every further decision on
  it is refused.\<close>

theorem decision_is_final:
  assumes "decided_as s i r" "provider_reaches s cs s'" "\<forall>c\<in>set cs. \<not> asks_again i (snd c)"
  shows "decided_as s' i r
    \<and> mem_decide H s' i decision context = (Inl (Error (''approval already decided: '' @ to_str i)), s')"
  using decided_reaches [OF assms(2,1,3)] by (auto simp: decided_as_def mem_decide_def)

definition wit_decided :: mem_provider where
  "wit_decided = (new_mem_provider (JObj []))\<lparr>mp_requests := [(JStr ''a1'', \<lparr>me_request = wit_filed, me_result = Some (JStr ''allow'')\<rparr>)]\<rparr>"

theorem decision_is_final_witness:
  "fst (mem_decide wit_approvals wit_decided (JStr ''a1'') (JStr ''deny_once'') (JObj []))
     = Inl (Error ''approval already decided: a1'')"
proof -
  have h: "decided_as wit_decided (JStr ''a1'') (JStr ''allow'')" by (simp add: decided_as_def wit_decided_def)
  show ?thesis using decision_is_final [OF h provider_reaches.stay, of wit_approvals "JStr ''deny_once''" "JObj []"] by simp
qed

end
