(* ===== verification/AuthorityGraph.thy ===== *)
theory AuthorityGraph
  imports ProtocolGraph ProtocolAuthority Receipt Recorder
begin

text \<open>
  The authority graph, \<^verbatim>\<open>packages/core/src/authority/graph.js\<close>: nodes and edges for the grants,
  envelopes, decisions, approvals, leases and effects of a run, the query of a graph and the
  explanation of a node by its ancestry.  A table of nodes is the map of the code with its insertion
  order; \<open>reach_back\<close> is the walk that \<^verbatim>\<open>evidence/graph.js\<close> repeats.
\<close>

section \<open>Helpers\<close>

fun fold_res :: "('s \<Rightarrow> 'a \<Rightarrow> 's res) \<Rightarrow> 's \<Rightarrow> 'a list \<Rightarrow> 's res" where
  "fold_res f s [] = Inr s"
| "fold_res f s (x # xs) = bind_res (f s x) (\<lambda>s'. fold_res f s' xs)"

definition graph_id_of :: "string \<Rightarrow> jval \<Rightarrow> string" where
  "graph_id_of kind ref = kind @ '':'' @ to_str ref"

definition cleanString :: "host \<Rightarrow> jval \<Rightarrow> nat \<Rightarrow> jval" where
  "cleanString H v max_len =
     (if jnullish v then JNull
      else let s = str_trim (nfkc H (to_str v)) in if s = [] then JNull else JStr (take max_len s))"

definition cleanTime :: "jval \<Rightarrow> jval" where
  "cleanTime v =
     (if jnullish v then JNull
      else case date_parse (to_str v) of None \<Rightarrow> JNull | Some t \<Rightarrow> JStr (iso_string t))"

definition strictTime :: "jval \<Rightarrow> string \<Rightarrow> jval res" where
  "strictTime v label =
     (if jnullish v then Inr JNull
      else throw_if (cleanTime v = JNull) (label @ '' must be a valid date-time'') (Inr (cleanTime v)))"

definition boundary_head :: "char \<Rightarrow> bool" where
  "boundary_head c \<longleftrightarrow> char_range CHR ''a'' CHR ''z'' c \<or> is_digit c"

definition safeObservationBoundary :: "jval \<Rightarrow> jval" where
  "safeObservationBoundary v =
     (case v of
        JStr (c # s) \<Rightarrow>
          if boundary_head c \<and> length s \<le> 127 \<and> list_all (\<lambda>x. boundary_head x \<or> char_in ''._:-'' x) s then v else JNull
      | _ \<Rightarrow> JNull)"

definition safeConstraints :: "jval \<Rightarrow> jval" where
  "safeConstraints v =
     JObj (concat (map (\<lambda>k. when_prop (is_int (jget v k) \<and> num_of (jget v k) \<ge> 0) k (jget v k))
         [''max_executions'', ''max_objects'', ''max_bytes'', ''max_amount'', ''max_external_calls''])
       @ when_prop (one_of [''deny'', ''inherit'', ''allow''] (jget v ''network'')) ''network'' (jget v ''network'')
       @ when_prop (is_bool (jget v ''delegation_allowed'')) ''delegation_allowed'' (jget v ''delegation_allowed''))"

definition safeDelegation :: "jval \<Rightarrow> jval" where
  "safeDelegation v =
     (if \<not> is_obj v then JNull
      else let ps = when_prop (is_bool (jget v ''allowed'')) ''allowed'' (jget v ''allowed'')
             @ when_prop (is_int (jget v ''max_depth'') \<and> num_of (jget v ''max_depth'') \<ge> 0) ''max_depth'' (jget v ''max_depth'')
             @ when_prop (one_of [''inherit'', ''partition''] (jget v ''budget_mode'')) ''budget_mode'' (jget v ''budget_mode'')
        in if ps = [] then JNull else JObj ps)"

text \<open>A list of identifiers: \<open>Array.isArray(v) ? v.map(x => cleanString(x)).filter(Boolean) : []\<close>.\<close>

definition clean_list :: "host \<Rightarrow> jval \<Rightarrow> jval" where
  "clean_list H v = JArr (if is_arr v then filter truthy (map (\<lambda>x. cleanString H x 256) (arr_of v)) else [])"

section \<open>Nodes and edges\<close>

type_synonym node_table = "(string \<times> jval) list"

definition graph_node :: "host \<Rightarrow> string \<Rightarrow> jval \<Rightarrow> jval \<Rightarrow> jval res" where
  "graph_node H kind ref data =
     (let r = cleanString H ref 256 in
      throw_if (kind \<notin> set AUTHORITY_GRAPH_NODE_KINDS) (''unsupported authority graph node kind: '' @ kind)
     (throw_if (r = JNull) (kind @ '' ref id is required'')
     (Inr (JObj [(''node_id'', JStr (graph_id_of kind r)), (''kind'', JStr kind), (''ref_id'', r), (''data'', data)]))))"

definition graph_edge :: "host \<Rightarrow> string \<Rightarrow> string \<Rightarrow> string \<Rightarrow> jval" where
  "graph_edge H a relation b =
     JObj [(''edge_id'', JStr (canonicalDigest H (JObj [(''from'', JStr a), (''relation'', JStr relation), (''to'', JStr b)]))),
       (''from'', JStr a), (''to'', JStr b), (''relation'', JStr relation)]"

text \<open>The data of two mentions of one node: what the later one adds, when they do not disagree.\<close>

definition merge_data :: "string \<Rightarrow> jval \<Rightarrow> string \<times> jval \<Rightarrow> jval res" where
  "merge_data nid data kv =
     (case kv of (k, v) \<Rightarrow>
        if jnullish v then Inr data
        else throw_if (\<not> jnullish (jget data k) \<and> canonicalStringify (jget data k) \<noteq> canonicalStringify v)
          (''conflicting authority graph node data: '' @ nid @ ''.'' @ k) (Inr (jset data k v)))"

definition addNode :: "node_table \<Rightarrow> jval \<Rightarrow> node_table res" where
  "addNode nodes n =
     (let nid = str_of (jget n ''node_id'') in
      case map_of nodes nid of
        None \<Rightarrow> Inr (AList.update nid n nodes)
      | Some prior \<Rightarrow>
          throw_if (\<not> strict_eq (jget prior ''kind'') (jget n ''kind'') \<or> \<not> strict_eq (jget prior ''ref_id'') (jget n ''ref_id''))
            (''conflicting authority graph node: '' @ nid)
         (bind_res (fold_res (merge_data nid) (jget prior ''data'') (props_of (jget n ''data''))) (\<lambda>data.
            Inr (AList.update nid (jset prior ''data'' data) nodes))))"

definition add_graph_node :: "host \<Rightarrow> string \<Rightarrow> jval \<Rightarrow> jval \<Rightarrow> node_table \<Rightarrow> node_table res" where
  "add_graph_node H kind ref data nodes = bind_res (graph_node H kind ref data) (addNode nodes)"

definition approvalDecisionId :: "host \<Rightarrow> jval \<Rightarrow> jval" where
  "approvalDecisionId H a =
     cleanString H (jor (jor (jor (jor (jget a ''request_decision_id'') (jget (jget a ''approval_result'') ''request_decision_id''))
       (jget (jget a ''decision_receipt'') ''decision_id'')) (jget a ''decision_id'')) JNull) 256"

definition safeApproval :: "host \<Rightarrow> jval \<Rightarrow> jval res" where
  "safeApproval H a =
     (let aid = cleanString H (jget a ''approval_id'') 256; r = jor (jget a ''approval_result'') JNull;
          status = jor (cleanString H (jget a ''status'') 64) (JStr ''unknown'') in
      throw_if (aid = JNull) ''approval.approval_id is required''
     (throw_if (\<not> one_of [''pending'', ''decided'', ''unknown''] status) (''approval '' @ to_str aid @ '' status is invalid'')
     (bind_res (strictTime (jget a ''requested_at'') (''approval '' @ to_str aid @ '' requested_at'')) (\<lambda>requested.
      bind_res (strictTime (jor (jget r ''decided_at'') (jget a ''decided_at'')) (''approval '' @ to_str aid @ '' decided_at'')) (\<lambda>decided.
        Inr (JObj [(''approval_id'', aid), (''status'', status),
          (''decision'', cleanString H (jor (jget r ''decision'') (jget a ''decision'')) 64),
          (''requested_at'', requested), (''decided_at'', decided), (''decision_id'', approvalDecisionId H a),
          (''decision_key'', cleanString H (jget a ''decision_key'') 256), (''risk'', cleanString H (jget a ''risk'') 64),
          (''approval_result_id'', cleanString H (jor (jget r ''approval_result_id'') (jget a ''approval_result_id'')) 256),
          (''provider_id'', cleanString H (jget r ''provider_id'') 256),
          (''approver_id'', cleanString H (jget (jget r ''approver'') ''id'') 256)]))))))"

section \<open>The nodes of each kind of record\<close>

definition clean_field :: "host \<Rightarrow> jval \<Rightarrow> string \<Rightarrow> string \<times> jval" where
  "clean_field H v k = (k, cleanString H (jget v k) 256)"

definition time_field :: "jval \<Rightarrow> string \<Rightarrow> string \<times> jval" where
  "time_field v k = (k, cleanTime (jget v k))"

definition plain_field :: "jval \<Rightarrow> string \<Rightarrow> string \<times> jval" where
  "plain_field v k = (k, jget v k)"

text \<open>\<open>(v || []).length\<close>.\<close>

definition count_field :: "string \<Rightarrow> jval \<Rightarrow> string \<times> jval" where
  "count_field k v = (k, JNum (int (length (arr_of v))))"

definition principal_data :: "host \<Rightarrow> jval \<Rightarrow> jval" where
  "principal_data H p =
     JObj [plain_field p ''type'', plain_field p ''id'', clean_field H p ''name'', clean_field H p ''issuer'']"

definition invalid_record :: "string \<Rightarrow> jval \<Rightarrow> string \<Rightarrow> string list \<Rightarrow> 'a res \<Rightarrow> 'a res" where
  "invalid_record what v id_field errors k =
     throw_if (errors \<noteq> []) (''invalid authority graph '' @ what @ '' '' @ to_str (jor (jget v id_field) (JStr ''<unknown>''))
       @ '': '' @ join_errors errors) k"

definition grant_node_data :: "host \<Rightarrow> jval \<Rightarrow> jval" where
  "grant_node_data H g =
     JObj [plain_field g ''grant_version'', clean_field H g ''issuer'', (''subject_id'', jget (jget g ''subject'') ''id''),
       clean_field H g ''parent_grant_id'', plain_field g ''delegation_depth'',
       (''ancestor_grant_ids'', clean_list H (jget g ''ancestor_grant_ids'')),
       time_field g ''issued_at'', time_field g ''not_before'', time_field g ''expires_at'',
       count_field ''capability_count'' (jget g ''capabilities''), (''budget'', safeConstraints (jor (jget g ''budget'') (JObj []))),
       count_field ''obligation_count'' (jget g ''obligations''), (''delegation'', safeDelegation (jget g ''delegation'')),
       clean_field H g ''intent_id'', clean_field H g ''task_id'', clean_field H g ''session_id'']"

definition add_grant :: "host \<Rightarrow> node_table \<Rightarrow> jval \<Rightarrow> node_table res" where
  "add_grant H nodes g =
     invalid_record ''grant'' g ''grant_id'' (validateAuthorityGrant g)
    (bind_res (fold_res (\<lambda>ns p. add_graph_node H ''principal'' (jget p ''id'') (principal_data H p) ns) nodes
         (arr_of (jget g ''principal_chain''))) (\<lambda>ns.
       add_graph_node H ''grant'' (jget g ''grant_id'') (grant_node_data H g) ns))"

definition envelope_node_data :: "host \<Rightarrow> jval \<Rightarrow> jval \<Rightarrow> jval" where
  "envelope_node_data H e p =
     JObj [plain_field e ''grant_id'', (''principal_id'', jor (jget p ''id'') JNull), clean_field H e ''policy_digest'',
       time_field e ''issued_at'', time_field e ''not_before'', time_field e ''expires_at'',
       count_field ''capability_count'' (jget e ''capabilities''),
       (''constraints'', safeConstraints (jor (jget e ''constraints'') (JObj []))), count_field ''obligation_count'' (jget e ''obligations'')]"

definition add_envelope :: "host \<Rightarrow> node_table \<Rightarrow> jval \<Rightarrow> node_table res" where
  "add_envelope H nodes e =
     invalid_record ''envelope'' e ''envelope_id'' (validateAuthorityEnvelope e)
    (let p = jlast (arr_of (jget e ''principal_chain'')) in
     bind_res (if truthy (jget p ''id'') then add_graph_node H ''principal'' (jget p ''id'') (principal_data H p) nodes else Inr nodes)
       (add_graph_node H ''envelope'' (jget e ''envelope_id'') (envelope_node_data H e p)))"

definition decision_node_data :: "host \<Rightarrow> jval \<Rightarrow> jval" where
  "decision_node_data H d =
     JObj [plain_field d ''decision'', plain_field d ''risk'', clean_field H d ''source'', clean_field H d ''matched_rule'',
       plain_field d ''policy_digest'', clean_field H d ''authority_grant_id'', clean_field H d ''authority_envelope_id'',
       clean_field H d ''principal_id'', clean_field H d ''canonical_action'', clean_field H d ''canonical_resource'',
       time_field d ''evaluated_at'', time_field d ''expires_at'', clean_field H d ''call_id'', clean_field H d ''approval_id'',
       clean_field H d ''approval_result_id'', clean_field H d ''approval_request_decision_id'', clean_field H d ''approval_provider_id'']"

definition add_decision :: "host \<Rightarrow> node_table \<Rightarrow> jval \<Rightarrow> node_table res" where
  "add_decision H nodes d =
     invalid_record ''decision'' d ''decision_id'' (validateDecisionReceipt d)
    (bind_res (if truthy (jget d ''principal_id'')
        then add_graph_node H ''principal'' (jget d ''principal_id'') (JObj [(''id'', jget d ''principal_id'')]) nodes
        else Inr nodes)
      (add_graph_node H ''decision'' (jget d ''decision_id'') (decision_node_data H d)))"

definition add_approval :: "host \<Rightarrow> node_table \<Rightarrow> jval \<Rightarrow> node_table res" where
  "add_approval H nodes a0 =
     bind_res (safeApproval H a0) (\<lambda>a. add_graph_node H ''approval'' (jget a ''approval_id'') a nodes)"

definition lease_node_data :: "host \<Rightarrow> jval \<Rightarrow> jval" where
  "lease_node_data H l =
     JObj [plain_field l ''lease_version'', plain_field l ''decision_id'', plain_field l ''principal_id'',
       clean_field H l ''authority_grant_id'', clean_field H l ''authority_envelope_id'',
       (''authority_ancestor_grant_ids'', clean_list H (jget l ''authority_ancestor_grant_ids'')),
       (''authority_principal_ids'', clean_list H (jget l ''authority_principal_ids'')),
       plain_field l ''action_digest'', plain_field l ''policy_digest'', clean_field H l ''canonical_action'',
       clean_field H l ''canonical_resource'', time_field l ''issued_at'', time_field l ''not_before'', time_field l ''expires_at'',
       plain_field l ''max_uses'', (''budget'', safeConstraints (jor (jget l ''budget'') (JObj []))),
       count_field ''obligation_count'' (jget l ''obligations''), clean_field H l ''approval_id'', clean_field H l ''approval_result_id'']"

definition add_lease :: "host \<Rightarrow> node_table \<Rightarrow> jval \<Rightarrow> node_table res" where
  "add_lease H nodes l =
     invalid_record ''lease'' l ''lease_id'' (validateExecutionLease l)
    (bind_res (add_graph_node H ''principal'' (jget l ''principal_id'') (JObj [(''id'', jget l ''principal_id'')]) nodes)
      (add_graph_node H ''lease'' (jget l ''lease_id'') (lease_node_data H l)))"

definition effect_node_data :: "host \<Rightarrow> jval \<Rightarrow> jval" where
  "effect_node_data H e =
     JObj [plain_field e ''lease_id'', plain_field e ''decision_id'', clean_field H e ''adapter'', time_field e ''started_at'',
       time_field e ''completed_at'', plain_field e ''status'', plain_field e ''observation_quality'',
       (''observation_boundary'', safeObservationBoundary (jget e ''observation_boundary'')), plain_field e ''effect_version'']"

definition add_effect :: "host \<Rightarrow> node_table \<Rightarrow> jval \<Rightarrow> node_table res" where
  "add_effect H nodes e =
     invalid_record ''effect'' e ''effect_id'' (validateEffectReceipt e)
    (add_graph_node H ''effect'' (jget e ''effect_id'') (effect_node_data H e) nodes)"

section \<open>Links\<close>

record links =
  lk_edges :: "jval list"
  lk_unresolved :: "jval list"

definition unresolved_ref :: "string \<Rightarrow> string \<Rightarrow> string \<Rightarrow> string \<Rightarrow> jval" where
  "unresolved_ref source relation kind ref =
     JObj [(''source_node_id'', JStr source), (''relation'', JStr relation), (''target_kind'', JStr kind), (''target_ref_id'', JStr ref)]"

definition link :: "host \<Rightarrow> node_table \<Rightarrow> string \<Rightarrow> jval \<Rightarrow> string \<Rightarrow> string \<Rightarrow> jval \<Rightarrow> links \<Rightarrow> links" where
  "link H nodes sourceKind sourceRef relation targetKind targetRef ls =
     (if \<not> truthy sourceRef \<or> \<not> truthy targetRef then ls
      else let a = graph_id_of sourceKind sourceRef; b = graph_id_of targetKind targetRef;
               hasFrom = map_of nodes a \<noteq> None; hasTo = map_of nodes b \<noteq> None in
        if hasFrom \<and> hasTo then ls\<lparr>lk_edges := lk_edges ls @ [graph_edge H a relation b]\<rparr>
        else if hasFrom then ls\<lparr>lk_unresolved := lk_unresolved ls @ [unresolved_ref a relation targetKind (to_str targetRef)]\<rparr>
        else if hasTo then ls\<lparr>lk_unresolved := lk_unresolved ls @ [unresolved_ref b (''missing_source:'' @ relation) sourceKind (to_str sourceRef)]\<rparr>
        else ls)"

definition link_grant :: "host \<Rightarrow> node_table \<Rightarrow> jval \<Rightarrow> links \<Rightarrow> links" where
  "link_grant H nodes g ls =
     (let gid = jget g ''grant_id'';
          l1 = fold (\<lambda>p. link H nodes ''principal'' (jget p ''id'')
              (if strict_eq (jget p ''id'') (jget (jget g ''subject'') ''id'') then ''holds_grant'' else ''principal_chain_member'')
              ''grant'' gid) (arr_of (jget g ''principal_chain'')) ls;
          l2 = link H nodes ''grant'' (jget g ''parent_grant_id'') ''delegates_to'' ''grant'' gid l1
      in fold (\<lambda>x. link H nodes ''grant'' x ''ancestor_of'' ''grant'' gid)
           (filter (\<lambda>x. \<not> strict_eq x (jget g ''parent_grant_id'')) (arr_of (jget g ''ancestor_grant_ids''))) l2)"

definition link_envelope :: "host \<Rightarrow> node_table \<Rightarrow> jval \<Rightarrow> links \<Rightarrow> links" where
  "link_envelope H nodes e ls =
     link H nodes ''principal'' (jget (jlast (arr_of (jget e ''principal_chain''))) ''id'') ''scopes_envelope'' ''envelope'' (jget e ''envelope_id'')
    (link H nodes ''grant'' (jget e ''grant_id'') ''bounds_envelope'' ''envelope'' (jget e ''envelope_id'') ls)"

definition link_decision :: "host \<Rightarrow> node_table \<Rightarrow> jval \<Rightarrow> links \<Rightarrow> links" where
  "link_decision H nodes d ls =
     (let did = jget d ''decision_id'' in
      fold (\<lambda>(kind, field, relation). link H nodes kind (jget d field) relation ''decision'' did)
        [(''principal'', ''principal_id'', ''requests_decision''), (''approval'', ''approval_id'', ''resolves_to_decision''),
         (''decision'', ''approval_request_decision_id'', ''approval_resolves_to''),
         (''grant'', ''authority_grant_id'', ''context_for_decision''), (''envelope'', ''authority_envelope_id'', ''context_for_decision'')] ls)"

definition link_approval :: "host \<Rightarrow> node_table \<Rightarrow> jval \<Rightarrow> links \<Rightarrow> links" where
  "link_approval H nodes a ls =
     link H nodes ''decision'' (approvalDecisionId H a) ''requires_approval'' ''approval'' (jget a ''approval_id'') ls"

definition link_lease :: "host \<Rightarrow> node_table \<Rightarrow> jval \<Rightarrow> links \<Rightarrow> links" where
  "link_lease H nodes l ls =
     (let lid = jget l ''lease_id'' in
      fold (\<lambda>(kind, field, relation). link H nodes kind (jget l field) relation ''lease'' lid)
        [(''decision'', ''decision_id'', ''authorizes_lease''), (''approval'', ''approval_id'', ''approves_lease''),
         (''principal'', ''principal_id'', ''executes_as''), (''grant'', ''authority_grant_id'', ''bounds_lease''),
         (''envelope'', ''authority_envelope_id'', ''bounds_lease'')] ls)"

definition link_effect :: "host \<Rightarrow> node_table \<Rightarrow> jval \<Rightarrow> links \<Rightarrow> links" where
  "link_effect H nodes e ls =
     link H nodes ''decision'' (jget e ''decision_id'') ''correlates_effect'' ''effect'' (jget e ''effect_id'')
    (link H nodes ''lease'' (jget e ''lease_id'') ''produces_effect'' ''effect'' (jget e ''effect_id'') ls)"

section \<open>The graph\<close>

text \<open>\<open>[...new Map(xs.map(x => [key(x), x])).values()]\<close>: the place of the first, the value of the last.\<close>

definition last_by_key :: "(jval \<Rightarrow> string) \<Rightarrow> jval list \<Rightarrow> jval list" where
  "last_by_key key xs = map snd (fold (\<lambda>x. AList.update (key x) x) xs [])"

definition sort_text :: "host \<Rightarrow> (jval \<Rightarrow> string) \<Rightarrow> jval list \<Rightarrow> jval list" where
  "sort_text H key xs = sort_by (\<lambda>a b. locale_compare H (key a) (key b) \<le> 0) xs"

definition str_field :: "string \<Rightarrow> jval \<Rightarrow> string" where
  "str_field k v = str_of (jget v k)"

definition authorityGraphDigestPayload :: "jval \<Rightarrow> jval" where
  "authorityGraphDigestPayload graph =
     JObj (map (plain_field graph) [''graph_version'', ''nodes'', ''edges'', ''unresolved_references''])"

definition verifyAuthorityGraphDigest :: "host \<Rightarrow> jval \<Rightarrow> bool" where
  "verifyAuthorityGraphDigest H graph \<longleftrightarrow>
     jget graph ''graph_id'' = JStr (canonicalDigest H (authorityGraphDigestPayload graph))"

definition graph_nodes :: "host \<Rightarrow> jval \<Rightarrow> node_table res" where
  "graph_nodes H input =
     (let recs = \<lambda>k. arr_of (jget input k) in
      bind_res (fold_res (add_grant H) [] (recs ''grants'')) (\<lambda>n1.
      bind_res (fold_res (add_envelope H) n1 (recs ''envelopes'')) (\<lambda>n2.
      bind_res (fold_res (add_decision H) n2 (recs ''decisions'')) (\<lambda>n3.
      bind_res (fold_res (add_approval H) n3 (recs ''approvals'')) (\<lambda>n4.
      bind_res (fold_res (add_lease H) n4 (recs ''leases''))
        (\<lambda>n5. fold_res (add_effect H) n5 (recs ''effects'')))))))"

definition graph_links :: "host \<Rightarrow> jval \<Rightarrow> node_table \<Rightarrow> links" where
  "graph_links H input nodes =
     (let recs = \<lambda>k. arr_of (jget input k) in
      fold (link_effect H nodes) (recs ''effects'')
     (fold (link_lease H nodes) (recs ''leases'')
     (fold (link_approval H nodes) (recs ''approvals'')
     (fold (link_decision H nodes) (recs ''decisions'')
     (fold (link_envelope H nodes) (recs ''envelopes'')
     (fold (link_grant H nodes) (recs ''grants'') \<lparr>lk_edges = [], lk_unresolved = []\<rparr>))))))"

definition assemble_graph :: "host \<Rightarrow> jval \<Rightarrow> node_table \<Rightarrow> links \<Rightarrow> jval" where
  "assemble_graph H options nodes ls =
     JObj [(''graph_version'', JStr ''1.0''), (''graph_id'', JStr []),
       (''generated_at'', if truthy (jget options ''generatedAt'') then cleanTime (jget options ''generatedAt'') else JNull),
       (''nodes'', JArr (sort_text H (str_field ''node_id'') (map snd nodes))),
       (''edges'', JArr (sort_text H (str_field ''edge_id'') (last_by_key (str_field ''edge_id'') (lk_edges ls)))),
       (''unresolved_references'', JArr (sort_text H canonicalStringify (last_by_key canonicalStringify (lk_unresolved ls))))]"

definition buildAuthorityGraph :: "host \<Rightarrow> jval \<Rightarrow> jval \<Rightarrow> jval res" where
  "buildAuthorityGraph H input options =
     bind_res (graph_nodes H input) (\<lambda>nodes.
       let draft = assemble_graph H options nodes (graph_links H input nodes);
           graph = jset draft ''graph_id'' (JStr (canonicalDigest H (authorityGraphDigestPayload draft))) in
       throw_if (truthy (jget options ''generatedAt'') \<and> \<not> truthy (jget draft ''generated_at''))
         ''authority graph generatedAt must be a valid date-time''
      (throw_if (validateAuthorityGraph graph \<noteq> []) (''invalid authority graph: '' @ join_errors (validateAuthorityGraph graph))
      (Inr graph)))"

section \<open>Queries\<close>

definition checked_graph :: "host \<Rightarrow> jval \<Rightarrow> 'a res \<Rightarrow> 'a res" where
  "checked_graph H graph k =
     throw_if (validateAuthorityGraph graph \<noteq> []) (''invalid authority graph: '' @ join_errors (validateAuthorityGraph graph))
    (throw_if (\<not> verifyAuthorityGraphDigest H graph) ''authority graph digest mismatch'' k)"

definition keep_if :: "jval \<Rightarrow> (jval \<Rightarrow> bool) \<Rightarrow> jval list \<Rightarrow> jval list" where
  "keep_if v f xs = (if truthy v then filter f xs else xs)"

definition queryAuthorityGraph :: "host \<Rightarrow> jval \<Rightarrow> jval \<Rightarrow> jval res" where
  "queryAuthorityGraph H graph query =
     checked_graph H graph
    (let kind = jget query ''kind''; ref = jget query ''refId''; nid = jget query ''nodeId''; pid = jget query ''principalId'' in
     throw_if (truthy kind \<and> \<not> one_of AUTHORITY_GRAPH_NODE_KINDS kind) ''authority graph query kind is invalid''
    (let nodes = keep_if pid (\<lambda>n. jget n ''kind'' = JStr ''principal'' \<and> strict_eq (jget n ''ref_id'') pid)
                (keep_if nid (\<lambda>n. strict_eq (jget n ''node_id'') nid)
                (keep_if ref (\<lambda>n. strict_eq (jget n ''ref_id'') ref)
                (keep_if kind (\<lambda>n. strict_eq (jget n ''kind'') kind) (arr_of (jget graph ''nodes'')))));
         ids = map (\<lambda>n. jget n ''node_id'') nodes in
     Inr (JObj [(''graph_id'', jget graph ''graph_id''), (''nodes'', JArr nodes),
       (''edges'', JArr (filter (\<lambda>e. jget e ''from'' \<in> set ids \<or> jget e ''to'' \<in> set ids) (arr_of (jget graph ''edges'')))),
       (''unresolved_references'', JArr (filter (\<lambda>r. jget r ''source_node_id'' \<in> set ids)
          (arr_of (jget graph ''unresolved_references''))))])))"

text \<open>The walk against the edges, one round per depth: node ids are strings.\<close>

fun round_back :: "jval list \<Rightarrow> jval list \<Rightarrow> jval list \<Rightarrow> jval list \<Rightarrow> jval list \<times> jval list" where
  "round_back frontier keep found [] = (keep, found)"
| "round_back frontier keep found (e # es) =
     (if jget e ''to'' \<in> set frontier \<and> jget e ''from'' \<notin> set keep
      then round_back frontier (keep @ [jget e ''from'']) (found @ [jget e ''from'']) es
      else round_back frontier keep found es)"

fun reach_back :: "nat \<Rightarrow> jval list \<Rightarrow> jval list \<Rightarrow> jval list \<Rightarrow> jval list" where
  "reach_back 0 edges frontier keep = keep"
| "reach_back (Suc d) edges frontier keep =
     (if frontier = [] then keep
      else case round_back frontier keep [] edges of (keep', found) \<Rightarrow> reach_back d edges found keep')"

definition depth_of :: "jval \<Rightarrow> int \<Rightarrow> nat" where
  "depth_of v fallback = nat (if is_int v then max 0 (min (num_of v) 32) else fallback)"

definition node_names :: "jval list \<Rightarrow> jval list" where
  "node_names nodes = map (\<lambda>n. JStr (to_str (jget n ''kind'') @ '':'' @ to_str (jget n ''ref_id''))) nodes"

definition explainAuthorityGraph :: "host \<Rightarrow> jval \<Rightarrow> jval \<Rightarrow> jval \<Rightarrow> jval res" where
  "explainAuthorityGraph H graph targetNodeId options =
     checked_graph H graph
    (case find (\<lambda>n. strict_eq (jget n ''node_id'') targetNodeId) (arr_of (jget graph ''nodes'')) of
       None \<Rightarrow> Inl (Error (''authority graph node not found: '' @ to_str targetNodeId))
     | Some target \<Rightarrow>
         let start = [jget target ''node_id''];
             keep = reach_back (depth_of (jget options ''maxDepth'') 12) (arr_of (jget graph ''edges'')) start start;
             nodes = filter (\<lambda>n. jget n ''node_id'' \<in> set keep) (arr_of (jget graph ''nodes''));
             edges = filter (\<lambda>e. jget e ''from'' \<in> set keep \<and> jget e ''to'' \<in> set keep) (arr_of (jget graph ''edges''));
             unresolved = filter (\<lambda>r. jget r ''source_node_id'' \<in> set keep) (arr_of (jget graph ''unresolved_references''));
             count = (\<lambda>xs. int_str (int (length xs))) in
         Inr (JObj [(''graph_id'', jget graph ''graph_id''), (''target'', json_clone target), (''nodes'', JArr nodes),
           (''edges'', JArr edges), (''unresolved_references'', JArr unresolved), (''complete'', JBool (unresolved = [])),
           (''summary'', JStr (''Authority explanation for '' @ to_str (jget target ''kind'') @ '' '' @ to_str (jget target ''ref_id'') @ '': ''
              @ count nodes @ '' node(s), '' @ count edges @ '' relationship(s), '' @ count unresolved @ '' unresolved reference(s).'')),
           (''chain'', JArr (node_names nodes))]))"

end
