(* ===== verification/PolicyPath.thy ===== *)
theory PolicyPath
  imports PolicyEngineProps FileTree
begin

text \<open>
  The classification of file operations and the default policy,
  \<^verbatim>\<open>packages/core/src/runtime/policy-path.js\<close>, with what the default policy decides about the classified
  operations.  Paths are POSIX, absolute ones are lists of names; the working directory and the home
  directory are parameters.
\<close>

section \<open>Classification\<close>

definition isInside :: "names \<Rightarrow> names \<Rightarrow> bool" where
  "isInside child parent \<longleftrightarrow>
     (let r = relative_text parent child in r = [] \<or> (\<not> starts_with ''..'' r \<and> \<not> starts_with ''/'' r))"

definition classifyFilesystemAction :: "names \<Rightarrow> names \<Rightarrow> string \<Rightarrow> string \<Rightarrow> string \<Rightarrow> jval" where
  "classifyFilesystemAction cwd home operation target projectRoot =
     (let root = resolve_path cwd projectRoot; abs = resolve_path root target;
          protectedPrefixes = [root @ [''.git''], home @ [''.ssh'']] in
      JObj [(''type'', JStr (if operation = ''read'' then ''filesystem.read''
               else if operation = ''write'' then ''filesystem.write'' else ''filesystem.delete'')),
        (''target'', JStr (path_text abs)),
        (''metadata'', JObj [(''operation'', JStr operation), (''projectRoot'', JStr (path_text root)),
           (''outsideProject'', JBool (\<not> isInside abs root)),
           (''protectedPath'', JBool (list_ex (isInside abs) protectedPrefixes))])])"

section \<open>The default policy\<close>

definition deny_protected :: "names \<Rightarrow> names \<Rightarrow> jval" where
  "deny_protected root home =
     JObj [(''id'', JStr ''deny-protected-local-resources''),
       (''description'', JStr ''Protect source-control metadata and SSH credentials''),
       (''effect'', JStr ''deny''), (''priority'', JNum 200),
       (''actions'', JArr [JStr ''filesystem.*'', JStr ''mcp.filesystem.*'']),
       (''resources'', JArr [JStr (path_text (root @ [''.git'', ''**''])), JStr (path_text (home @ [''.ssh'', ''**''])), JStr ''~/.ssh/**''])]"

definition default_rules :: "names \<Rightarrow> names \<Rightarrow> jval list" where
  "default_rules root home =
     [deny_protected root home,
      JObj [(''id'', JStr ''deny-destructive-and-financial''), (''effect'', JStr ''deny''), (''priority'', JNum 100),
        (''actions'', JArr [JStr ''filesystem.delete'', JStr ''mcp.filesystem.delete'', JStr ''payment.*'', JStr ''mcp.payment.*''])],
      JObj [(''id'', JStr ''allow-low-risk-local-read''), (''effect'', JStr ''allow''), (''priority'', JNum 30),
        (''actions'', JArr [JStr ''filesystem.read'', JStr ''mcp.filesystem.read'']), (''riskAtMost'', JStr ''low''),
        (''conditions'', JObj [(''dataFlows'', JArr [JStr ''local'']), (''sideEffects'', JArr [JStr ''read_only''])])],
      JObj [(''id'', JStr ''review-side-effects''), (''effect'', JStr ''needs_approval''), (''priority'', JNum 20),
        (''actions'', JArr [JStr ''filesystem.write'', JStr ''email.send'', JStr ''network.*'', JStr ''memory.read'',
           JStr ''memory.write'', JStr ''shell.run'', JStr ''mcp.*''])]]"

definition defaultPolicy :: "names \<Rightarrow> names \<Rightarrow> string \<Rightarrow> jval" where
  "defaultPolicy cwd home projectRoot =
     (let root = resolve_path cwd projectRoot in
      JObj [(''policyVersion'', JNum 2), (''defaultAction'', JStr ''needs_approval''), (''projectRoot'', JStr (path_text root)),
        (''rules'', JArr (default_rules root home))])"

section \<open>What the policy decides\<close>

lemma defaultPolicy_valid: "validatePolicy (defaultPolicy cwd home projectRoot) = []"
  by (simp add: defaultPolicy_def default_rules_def deny_protected_def Let_def) code_simp

lemma str_join_append:
  assumes "xs \<noteq> []" "ys \<noteq> []"
  shows "str_join sep (xs @ ys) = str_join sep xs @ sep @ str_join sep ys"
  using assms
proof (induction xs)
  case (Cons x xs)
  then show ?case by (cases xs; cases ys) simp_all
qed simp

text \<open>A path below a protected directory, with no line terminator in it.\<close>

lemma protected_matches:
  assumes "\<not> has_wild (path_text dir)" "one_line (path_text (dir @ rest))" "rest \<noteq> []" "dir \<noteq> []"
  shows "matchesResourcePattern (path_text (dir @ [''**''])) (path_text (dir @ rest))"
proof -
  have join: "str_join ''/'' (dir @ xs) = str_join ''/'' dir @ ''/'' @ str_join ''/'' xs" if "xs \<noteq> []" for xs
    by (rule str_join_append [OF assms(4) that])
  let ?q = "path_text dir @ ''/''"
  have p: "path_text (dir @ [''**'']) = ?q @ ''**''" using join [of "[''**'']"] by (simp add: path_text_def)
  have t: "path_text (dir @ rest) = ?q @ str_join ''/'' rest" using join [OF assms(3)] by (simp add: path_text_def)
  have w: "\<not> has_wild ?q" using assms(1) by (simp add: is_wild_def)
  have "one_line (str_join ''/'' rest)" using assms(2) unfolding t by (simp add: one_line_def)
  then have "glob_accepts (glob_tokens (?q @ ''**'')) (?q @ str_join ''/'' rest)"
    by (simp only: glob_tokens_literal_append [OF w]) (simp add: glob_accepts_chars one_line_def)
  then show ?thesis by (simp add: matchesResourcePattern_def globToRegExp_accepts p t del: append_assoc)
qed

lemma classified_valid: "validateActionEnvelope (classifyFilesystemAction cwd home operation target projectRoot) = []"
  by (simp add: validateActionEnvelope_def classifyFilesystemAction_def Let_def present_def nonempty_str_iff optional_strings_ok)

lemma classified_get:
  "actionKey (classifyFilesystemAction cwd home operation target projectRoot) \<in> {''filesystem.read'', ''filesystem.write'', ''filesystem.delete''}"
  "jget (classifyFilesystemAction cwd home operation target projectRoot) ''target''
     = JStr (path_text (resolve_path (resolve_path cwd projectRoot) target))"
  by (simp_all add: classifyFilesystemAction_def Let_def actionKey_def)

lemma deny_protected_applies:
  assumes "dir = root @ [''.git''] \<or> dir = home @ [''.ssh'']" "\<not> has_wild (path_text dir)" "one_line (path_text (dir @ rest))" "rest \<noteq> []"
    and "actionKey a \<in> {''filesystem.read'', ''filesystem.write'', ''filesystem.delete''}" "jget a ''target'' = JStr (path_text (dir @ rest))"
  shows "rule_applies (deny_protected root home) a"
proof -
  let ?r = "deny_protected root home"
  have en: "enabled ?r" by (simp add: enabled_def deny_protected_def)
  have acts: "\<exists>p\<in>set (patterns_or_star (jget ?r ''actions'')). matchesPattern p (actionKey a)"
  proof -
    have "''filesystem.*'' \<in> set (patterns_or_star (jget ?r ''actions''))"
      by (simp add: deny_protected_def patterns_or_star_def str_list_def)
    moreover have "matchesPattern ''filesystem.*'' (actionKey a)"
      using assms(5) unfolding insert_iff empty_iff by (elim disjE) (simp_all add: matchesPattern_def ends_with_def)
    ultimately show ?thesis by blast
  qed
  have "path_text (dir @ [''**'']) \<in> set (patterns_or_star (jget ?r ''resources''))"
    using assms(1) by (auto simp: deny_protected_def patterns_or_star_def str_list_def)
  moreover have "matchesResourcePattern (path_text (dir @ [''**''])) (path_text (dir @ rest))"
    using protected_matches [OF assms(2,3,4)] assms(1) by auto
  moreover have "str_of (jor (jget a ''target'') (JStr [])) = path_text (dir @ rest)"
    using assms(6) by (simp add: path_text_def)
  ultimately have res: "\<exists>p\<in>set (patterns_or_star (jget ?r ''resources'')).
      matchesResourcePattern p (str_of (jor (jget a ''target'') (JStr [])))" by auto
  have "conditions_match (jor (jget ?r ''conditions'') (JObj [])) m" "risk_in_range ?r m" for m
    by (simp_all add: deny_protected_def conditions_match_def matchesAny_def matchesAnyOverlap_def risk_in_range_def Let_def)
  then show ?thesis using en acts res by (simp add: rule_applies_def)
qed

section \<open>The properties\<close>

text \<open>C25: The default policy keeps agents out of the repository's \<^verbatim>\<open>.git\<close> and of \<^verbatim>\<open>~/.ssh\<close>, where the path of the
  directory has no glob character and the target no line terminator (which would evade the deny pattern).
  Whatever the operation, a file operation whose resolved target lies below such a directory is denied by the
  default policy.\<close>

theorem default_policy_protects:
  assumes "resolve_path (resolve_path cwd projectRoot) target = dir @ rest" "rest \<noteq> []"
    and "dir = resolve_path cwd projectRoot @ [''.git''] \<or> dir = home @ [''.ssh'']"
    and "\<not> has_wild (path_text dir)" "one_line (path_text (dir @ rest))"
  shows "\<exists>d. evaluatePolicy H (classifyFilesystemAction cwd home operation target projectRoot) (defaultPolicy cwd home projectRoot) = Inr d
    \<and> verdict d = JStr ''deny''"
proof -
  let ?a = "classifyFilesystemAction cwd home operation target projectRoot" and ?p = "defaultPolicy cwd home projectRoot"
  let ?r = "deny_protected (resolve_path cwd projectRoot) home"
  have "jget ?a ''target'' = JStr (path_text (dir @ rest))" by (simp only: classified_get(2) assms(1))
  then have "rule_applies ?r ?a"
    by (rule deny_protected_applies [OF assms(3,4,5,2) classified_get(1)])
  moreover have "?r \<in> set (arr_of (jget ?p ''rules''))" by (simp add: defaultPolicy_def Let_def default_rules_def)
  moreover have "effect_of ?r = JStr ''deny''" by (simp add: effect_of_def deny_protected_def normalizeDecisionAction_def)
  ultimately have "denied_by ?p ?a" by (auto simp: denied_by_def)
  then have "denied_by (normalizePolicy ?p) ?a" by simp
  then show ?thesis using evaluatePolicy_valid [OF classified_valid defaultPolicy_valid] decide_deny by simp
qed

theorem default_policy_protects_witness:
  "\<exists>d. evaluatePolicy wit_host (classifyFilesystemAction [''w''] [''h''] ''read'' ''.git/config'' ''p'') (defaultPolicy [''w''] [''h''] ''p'') = Inr d
    \<and> verdict d = JStr ''deny''"
proof -
  have h: "resolve_path (resolve_path [''w''] ''p'') ''.git/config'' = [''w'', ''p'', ''.git''] @ [''config'']"
    "[''w'', ''p'', ''.git''] = resolve_path [''w''] ''p'' @ [''.git'']"
    "\<not> has_wild (path_text [''w'', ''p'', ''.git''])" "one_line (path_text ([''w'', ''p'', ''.git''] @ [''config'']))"
    by code_simp+
  show ?thesis by (rule default_policy_protects [OF h(1) _ disjI1 [OF h(2)] h(3,4)]) simp
qed

text \<open>A file below \<^verbatim>\<open>.git\<close> whose name starts with two dots is not reported as protected, and a file of the
  project of such a name is reported as outside the project: \<open>isInside\<close> takes every relative path that
  starts with two dots for one that leaves the directory.\<close>

lemma dotdot_names_misclassified:
  "jget (jget (classifyFilesystemAction [''p''] [''h''] ''write'' ''.git/..x'' ''.'') ''metadata'') ''protectedPath'' = JBool False
   \<and> jget (jget (classifyFilesystemAction [''p''] [''h''] ''write'' ''..x'' ''.'') ''metadata'') ''outsideProject'' = JBool True"
  by code_simp

end
