(* ===== verification/EvidenceSink.thy ===== *)
theory EvidenceSink
  imports Files ProtocolGraph JSRegex
begin

text \<open>
  Evidence sinks, \<^verbatim>\<open>packages/core/src/evidence/sink.js\<close>: the descriptor of a sink, the registry that
  delivers a bundle to every sink in turn, and the sink that writes it to a local directory.  The
  implementation of a sink is a function of the state it works on, which is not in the repository;
  what it throws is the text the registry records.
\<close>

section \<open>Descriptors\<close>

definition EVIDENCE_SINK_SPI_VERSION :: string where
  "EVIDENCE_SINK_SPI_VERSION = ''1.0''"

definition EVIDENCE_SINK_NETWORK_MODES :: "string list" where
  "EVIDENCE_SINK_NETWORK_MODES = [''none'', ''optional'', ''required'']"

definition safe_id_char :: "char \<Rightarrow> bool" where
  "safe_id_char c \<longleftrightarrow> is_word c \<or> char_in ''.:-'' c"

definition safeId :: "jval \<Rightarrow> bool" where
  "safeId v = (case v of JStr s \<Rightarrow> s \<noteq> [] \<and> length s \<le> 128 \<and> list_all safe_id_char s | _ \<Rightarrow> False)"

fun profile_errors :: "jval list \<Rightarrow> jval list \<Rightarrow> string list" where
  "profile_errors seen [] = []"
| "profile_errors seen (p # ps) =
     err_if (\<not> one_of EVIDENCE_PRIVACY_PROFILES p) (''accepted_profiles contains invalid profile: '' @ to_str p)
     @ err_if (jincludes seen p) (''accepted_profiles contains duplicate profile: '' @ to_str p)
     @ profile_errors (p # seen) ps"

definition validateEvidenceSinkDescriptor :: "jval \<Rightarrow> string list" where
  "validateEvidenceSinkDescriptor d =
     (if \<not> is_obj d then [''evidence sink descriptor must be an object'']
      else
        err_if (jget d ''sink_spi_version'' \<noteq> JStr EVIDENCE_SINK_SPI_VERSION) ''sink_spi_version must be 1.0''
        @ err_if (\<not> safeId (jget d ''sink_id'')) ''sink_id is invalid''
        @ err_if (\<not> one_of EVIDENCE_SINK_NETWORK_MODES (jget d ''network'')) ''network is invalid''
        @ (if \<not> is_arr (jget d ''accepted_profiles'') \<or> arr_of (jget d ''accepted_profiles'') = []
           then [''accepted_profiles must be a non-empty array'']
           else profile_errors [] (arr_of (jget d ''accepted_profiles'')))
        @ err_if (present (jget d ''description'')
            \<and> (\<not> is_str (jget d ''description'') \<or> length (str_of (jget d ''description'')) > 512)) ''description is invalid'')"

section \<open>The registry\<close>

text \<open>\<open>write\<close> of an implementation: bytes, manifest and context to a response, or the text of what it
  throws.  A sink without one has \<open>None\<close>.\<close>

type_synonym 's writer = "'s \<Rightarrow> string \<Rightarrow> jval \<Rightarrow> jval \<Rightarrow> (string + jval) \<times> 's"

record 's sink =
  sk_descriptor :: jval
  sk_write :: "'s writer option"

record 's sink_entry =
  se_descriptor :: jval
  se_write :: "'s writer"

type_synonym 's sinks = "(string \<times> 's sink_entry) list"

definition register_sink :: "'s sinks \<Rightarrow> 's sink \<Rightarrow> (jval \<times> 's sinks) res" where
  "register_sink sinks s =
     (let d = sk_descriptor s; id' = str_of (jget d ''sink_id'') in
      throw_if (validateEvidenceSinkDescriptor d \<noteq> []) (''invalid evidence sink: '' @ join_errors (validateEvidenceSinkDescriptor d))
     (case sk_write s of
        None \<Rightarrow> Inl (Error ''evidence sink implementation requires write()'')
      | Some w \<Rightarrow>
          throw_if (map_of sinks id' \<noteq> None) (''duplicate evidence sink: '' @ id')
            (Inr (d, AList.update id' \<lparr>se_descriptor = d, se_write = w\<rparr> sinks))))"

definition list_sinks :: "'s sinks \<Rightarrow> jval list" where
  "list_sinks sinks = map (\<lambda>(_, e). se_descriptor e) sinks"

text \<open>A bundle: its bytes, when they are a \<^verbatim>\<open>Buffer\<close>, and its manifest.\<close>

record evidence_bundle =
  bn_bytes :: "string option"
  bn_manifest :: jval

definition deliver_to :: "string \<Rightarrow> jval \<Rightarrow> jval \<Rightarrow> 's \<Rightarrow> 's sink_entry \<Rightarrow> jval \<times> 's" where
  "deliver_to bytes manifest context s e =
     (let sid = jget (se_descriptor e) ''sink_id'' in
      if \<not> jincludes (arr_of (jget (se_descriptor e) ''accepted_profiles'')) (jget manifest ''privacy_profile'')
      then (JObj [(''sink_id'', sid), (''ok'', JBool False), (''error'', JStr ''privacy profile is not accepted by sink'')], s)
      else case se_write e s bytes manifest context of
        (Inr response, s') \<Rightarrow> (JObj [(''sink_id'', sid), (''ok'', JBool True), (''response'', response)], s')
      | (Inl message, s') \<Rightarrow> (JObj [(''sink_id'', sid), (''ok'', JBool False), (''error'', JStr message)], s'))"

fun deliver_all :: "string \<Rightarrow> jval \<Rightarrow> jval \<Rightarrow> 's \<Rightarrow> 's sink_entry list \<Rightarrow> jval list \<times> 's" where
  "deliver_all bytes manifest context s [] = ([], s)"
| "deliver_all bytes manifest context s (e # es) =
     (case deliver_to bytes manifest context s e of (r, s') \<Rightarrow>
        (case deliver_all bytes manifest context s' es of (rs, s'') \<Rightarrow> (r # rs, s'')))"

definition deliver :: "'s sinks \<Rightarrow> 's \<Rightarrow> evidence_bundle \<Rightarrow> jval \<Rightarrow> (jval list \<times> 's) res" where
  "deliver sinks s b context =
     (case bn_bytes b of
        None \<Rightarrow> Inl (Error ''evidence bundle bytes must be a Buffer'')
      | Some bytes \<Rightarrow>
          throw_if (validateEvidenceBundleManifest (bn_manifest b) \<noteq> [])
            (''invalid evidence bundle manifest: '' @ join_errors (validateEvidenceBundleManifest (bn_manifest b)))
            (Inr (deliver_all bytes (bn_manifest b) context s (map snd sinks))))"

section \<open>The local directory\<close>

text \<open>The directory is absolute, and the bundle id, which \<open>deliver\<close> has validated, has no slash.\<close>

record local_sink =
  ls_directory :: string
  ls_descriptor :: jval

definition new_local_sink :: "jval \<Rightarrow> jval \<Rightarrow> local_sink res" where
  "new_local_sink directory id' =
     throw_if (\<not> nonempty_str directory) ''local evidence sink directory is required''
    (Inr \<lparr>ls_directory = str_of directory,
       ls_descriptor = JObj [(''sink_spi_version'', JStr ''1.0''),
         (''sink_id'', if id' = JUndef then JStr ''local-file-evidence-sink'' else id'), (''network'', JStr ''none''),
         (''accepted_profiles'', JArr (map JStr EVIDENCE_PRIVACY_PROFILES)),
         (''description'', JStr ''Writes an already-created RuleOak evidence bundle to a local directory.'')]\<rparr>)"

fun dash_first_colon :: "string \<Rightarrow> string" where
  "dash_first_colon [] = []"
| "dash_first_colon (c # s) = (if c = CHR '':'' then CHR ''-'' # s else c # dash_first_colon s)"

definition bundle_path :: "local_sink \<Rightarrow> jval \<Rightarrow> string" where
  "bundle_path l manifest =
     ls_directory l @ ''/ruleoak-evidence-'' @ dash_first_colon (to_str (jget manifest ''bundle_id'')) @ ''.zip''"

definition MAX_BUNDLE_BYTES :: nat where
  "MAX_BUNDLE_BYTES = 256 * 1024 * 1024"

definition local_write :: "string \<Rightarrow> local_sink \<Rightarrow> files writer" where
  "local_write temp l fs bytes manifest context =
     (if length bytes > MAX_BUNDLE_BYTES then (Inl ''evidence bundle exceeds maxBytes (268435456)'', fs)
      else case fs_run (atomic_ops (bundle_path l manifest) temp bytes) fs of
        None \<Rightarrow> (Inl ''EEXIST'', fs(temp := None))
      | Some fs' \<Rightarrow>
          (Inr (JObj [(''path'', JStr (bundle_path l manifest)), (''bundle_id'', jget manifest ''bundle_id''),
             (''bytes'', JNum (int (length bytes)))]), fs'))"

definition as_sink :: "string \<Rightarrow> local_sink \<Rightarrow> files sink" where
  "as_sink temp l = \<lparr>sk_descriptor = ls_descriptor l, sk_write = Some (local_write temp l)\<rparr>"

section \<open>Facts\<close>

text \<open>A registry holds each sink under its own valid id, once.\<close>

definition sinks_ok :: "'s sinks \<Rightarrow> bool" where
  "sinks_ok sinks \<longleftrightarrow> distinct (map fst sinks)
     \<and> (\<forall>(k, e)\<in>set sinks. validateEvidenceSinkDescriptor (se_descriptor e) = [] \<and> jget (se_descriptor e) ''sink_id'' = JStr k)"

lemma update_new: "k \<notin> fst ` set m \<Longrightarrow> AList.update k v m = m @ [(k, v)]"
  by (induction m) auto

lemma register_sink_ok:
  assumes "sinks_ok sinks" "register_sink sinks s = Inr (d, sinks')"
  shows "sinks_ok sinks'"
proof -
  from assms(2) obtain w where w: "validateEvidenceSinkDescriptor d = []" "map_of sinks (str_of (jget d ''sink_id'')) = None"
    "sinks' = AList.update (str_of (jget d ''sink_id'')) \<lparr>se_descriptor = d, se_write = w\<rparr> sinks"
    by (auto simp: register_sink_def Let_def res_simps split: option.splits)
  have sid: "jget d ''sink_id'' = JStr (str_of (jget d ''sink_id''))"
    using w(1) by (auto simp: validateEvidenceSinkDescriptor_def safeId_def split: if_splits jval.splits)
  have new: "sinks' = sinks @ [(str_of (jget d ''sink_id''), \<lparr>se_descriptor = d, se_write = w\<rparr>)]"
    using w(2,3) update_new by (simp add: map_of_eq_None_iff)
  show ?thesis using assms(1) w(1,2) sid by (auto simp: new sinks_ok_def map_of_eq_None_iff)
qed

end
