(* ===== verification/Adapters.thy ===== *)
theory Adapters
  imports Gateway EffectReceipt
begin

text \<open>
  The adapters, \<^verbatim>\<open>packages/core/src/adapters/index.js\<close> and \<^verbatim>\<open>conformance.js\<close>: each turns one way of
  asking for a tool call into a normalised call, \<open>authorize\<close> sends it to the permission gateway, and
  \<open>guardFunction\<close> wraps a function so that it runs only when the gateway, or the approval callback,
  allows it.  The functions a caller passes are functions of the state of the world.
\<close>

section \<open>Helpers\<close>

text \<open>\<open>a || b || ... || z\<close>.\<close>

fun jors :: "jval list \<Rightarrow> jval" where
  "jors [] = JUndef"
| "jors [v] = v"
| "jors (v # w # vs) = (if truthy v then v else jors (w # vs))"

definition object :: "jval \<Rightarrow> jval" where
  "object v = (if is_obj v then v else JObj [])"

definition actorFrom :: "jval \<Rightarrow> jval" where
  "actorFrom options =
     (let actor = object (jget options ''actor'') in
      JObj [(''type'', jors [jget actor ''type'', jget options ''actorType'', JStr ''agent'']),
        (''name'', jors [jget actor ''name'', jget options ''actorName'', JStr ''unknown-agent'']),
        (''session_id'', jors [jget actor ''session_id'', jget options ''sessionId'', JStr ''default-session''])])"

definition unknownFields :: "jval \<Rightarrow> string list \<Rightarrow> jval" where
  "unknownFields source known = JObj (filter (\<lambda>(k, v). k \<notin> set known) (props_of (object source)))"

definition KNOWN_CATEGORIES :: "string list" where
  "KNOWN_CATEGORIES = [''file'', ''filesystem'', ''shell'', ''email'', ''web'', ''memory'', ''payment'', ''calendar'', ''custom'']"

definition normalizeCategory :: "jval \<Rightarrow> string" where
  "normalizeCategory category =
     (let v = (if category = JStr ''filesystem'' then ''file'' else to_str (jor category (JStr ''custom'')))
      in if v \<in> set KNOWN_CATEGORIES then v else ''custom'')"

definition name_text :: "jval \<Rightarrow> string" where
  "name_text name = (if name = JUndef then [] else to_str name)"

definition categoryFromName :: "jval \<Rightarrow> string" where
  "categoryFromName name =
     normalizeCategory (JStr (if str_includes ''.'' (name_text name) then hd (str_split CHR ''.'' (name_text name)) else ''custom''))"

definition inferOperation :: "jval \<Rightarrow> string" where
  "inferOperation name =
     (let low = str_lower (last (str_split CHR ''.'' (name_text name))); terminal = (if low = [] then ''execute'' else low) in
      if terminal \<in> set [''read'', ''get'', ''list'', ''search'', ''query'', ''inspect'', ''describe''] then ''read''
      else if terminal \<in> set [''delete'', ''remove'', ''destroy''] then ''delete''
      else if terminal \<in> set [''write'', ''update'', ''create'', ''send'', ''execute'', ''run'']
        then (if terminal = ''run'' then ''execute'' else terminal)
      else ''execute'')"

definition scopeForCategory :: "jval \<Rightarrow> jval \<Rightarrow> string" where
  "scopeForCategory category operation =
     (if one_of [''email'', ''web'', ''payment'', ''calendar'', ''http''] category \<or> operation = JStr ''send'' then ''external''
      else if one_of [''file'', ''shell'', ''memory''] category then ''local''
      else ''unknown'')"

section \<open>Adapter descriptors\<close>

definition capability :: "string \<times> string \<times> string list \<Rightarrow> jval" where
  "capability c = (case c of (quality, boundary, statuses) \<Rightarrow>
     JObj [(''quality'', JStr quality), (''boundary'', JStr boundary), (''statuses'', strs statuses)])"

definition descriptor_of :: "string \<Rightarrow> string \<Rightarrow> (string \<times> string \<times> string list) list \<Rightarrow> string \<times> jval" where
  "descriptor_of name mode caps =
     (name, JObj [(''contract_version'', JStr ''1.1''), (''adapter_id'', JStr name), (''mode'', JStr mode),
        (''observation_capabilities'', JArr (map capability caps))])"

definition BUILTIN_ADAPTER_DESCRIPTORS :: props where
  "BUILTIN_ADAPTER_DESCRIPTORS =
     [descriptor_of ''authorization-request'' ''normalize'' [(''requested_only'', ''authorization-request'', [''unknown''])],
      descriptor_of ''openai-tool-call'' ''normalize'' [(''requested_only'', ''openai-tool-request'', [''unknown''])],
      descriptor_of ''mcp-tools-call'' ''normalize'' [(''requested_only'', ''mcp-tool-request'', [''unknown''])],
      descriptor_of ''mcp-http-gateway'' ''execute'' [(''remote_response_observed'', ''mcp-upstream-http-response'', [''unknown'']),
        (''ambiguous'', ''mcp-upstream-no-response'', [''unknown''])],
      descriptor_of ''mcp-stdio-gateway'' ''execute'' [(''process_return_observed'', ''mcp-child-stdio-response'', [''unknown'']),
        (''ambiguous'', ''mcp-child-no-response'', [''unknown''])],
      descriptor_of ''ruleoak-sdk-guard'' ''execute'' [(''process_return_observed'', ''guarded-function-return'', [''unknown'']),
        (''ambiguous'', ''guarded-function-exception'', [''unknown''])],
      descriptor_of ''shell-command'' ''normalize'' [(''requested_only'', ''shell-command-request'', [''unknown''])],
      descriptor_of ''filesystem-action'' ''normalize'' [(''requested_only'', ''filesystem-action-request'', [''unknown''])],
      descriptor_of ''http-action'' ''normalize'' [(''requested_only'', ''http-action-request'', [''unknown''])],
      descriptor_of ''git-action'' ''execute''
        [(''process_return_observed'', ''git-process-return'', [''success'', ''failure'']),
         (''local_state_observed'', ''git-local-state'', [''success'', ''failure'', ''partial'', ''unknown'']),
         (''remote_response_observed'', ''git-remote-response'', [''success'', ''failure'', ''unknown'']),
         (''complete_for_adapter'', ''git-adapter-complete'', [''success'', ''failure'']),
         (''partial'', ''git-partial-observation'', [''partial'', ''unknown'']),
         (''ambiguous'', ''git-ambiguous-effect'', [''unknown''])]]"

text \<open>The look-up by own properties: the ids the code passes are not names of the object's prototype.\<close>

definition adapterDescriptor :: "jval \<Rightarrow> jval" where
  "adapterDescriptor adapterId =
     (case map_of BUILTIN_ADAPTER_DESCRIPTORS (to_str adapterId) of None \<Rightarrow> JNull | Some d \<Rightarrow> d)"

definition observationCapability :: "jval \<Rightarrow> jval \<Rightarrow> jval" where
  "observationCapability descriptor quality =
     (if jget descriptor ''contract_version'' \<noteq> JStr ''1.1'' then JNull
      else case find (\<lambda>c. strict_eq (jget c ''quality'') quality) (arr_of (jget descriptor ''observation_capabilities'')) of
        None \<Rightarrow> JNull | Some c \<Rightarrow> c)"

definition annotateAdapterContract :: "jval \<Rightarrow> jval \<Rightarrow> jval" where
  "annotateAdapterContract call adapterId =
     (let d = adapterDescriptor adapterId in
      if d = JNull then call
      else let contract = JObj ([(''contract_version'', jget d ''contract_version''), (''adapter_id'', jget d ''adapter_id''),
              (''mode'', jget d ''mode'')]
            @ (if jget d ''contract_version'' = JStr ''1.1''
               then [(''observation_capabilities'', jget d ''observation_capabilities''),
                     (''observation_qualities'', JArr (map (\<lambda>c. jget c ''quality'') (arr_of (jget d ''observation_capabilities''))))]
               else [(''observation_qualities'', jget d ''observation_qualities'')]))
        in jset call ''context'' (jset (object (jget call ''context'')) ''adapter_contract'' contract))"

section \<open>Building a call\<close>

text \<open>The argument of \<open>buildCall\<close>.\<close>

record call_parts =
  cp_name :: jval
  cp_category :: jval
  cp_operation :: jval
  cp_target :: jval
  cp_arguments :: jval
  cp_context :: jval
  cp_actor :: jval
  cp_callId :: jval
  cp_timestamp :: jval
  cp_scope :: jval
  cp_sensitivity :: jval

definition buildCall :: "host \<Rightarrow> call_parts \<Rightarrow> jval" where
  "buildCall H p =
     (let name = cp_name p; head_name = hd (str_split CHR ''.'' (to_str (jor name (JStr ''custom.execute''))));
          category = normalizeCategory (jor (cp_category p) (jor (JStr head_name) (JStr ''custom'')));
          operation = jor (cp_operation p) (JStr (inferOperation name));
          call = JObj [
            (''call_id'', jor (cp_callId p) (JStr (''call_'' @ int_str (now_ms H)))),
            (''timestamp'', jor (cp_timestamp p) (JStr (iso_string (now_ms H)))),
            (''actor'', actorFrom (JObj [(''actor'', cp_actor p)])),
            (''tool'', JObj [(''name'', JStr (to_str (jor name (JStr (category @ ''.'' @ to_str operation))))),
               (''category'', JStr category), (''operation'', operation)]),
            (''target'', JObj [(''resource'', JStr (to_str (jor (cp_target p) (JStr [])))),
               (''scope'', jor (cp_scope p) (JStr (scopeForCategory (JStr category) operation))),
               (''sensitivity'', jor (cp_sensitivity p) (JStr ''unknown''))]),
            (''arguments'', object (cp_arguments p)), (''context'', object (cp_context p))]
      in annotateAdapterContract call (jget (jget call ''context'') ''adapter''))"

text \<open>\<open>{...object(options.context), adapter, ...more}\<close>.\<close>

definition adapter_context :: "jval \<Rightarrow> string \<Rightarrow> props \<Rightarrow> jval" where
  "adapter_context base adapter rest = jspread base (JObj ((''adapter'', JStr adapter) # rest))"

definition adaptAuthorizationRequest :: "host \<Rightarrow> jval \<Rightarrow> jval \<Rightarrow> jval" where
  "adaptAuthorizationRequest H request options =
     (let source = object request;
          action = (if is_str (jget source ''action'') then JObj [(''name'', jget source ''action'')] else object (jget source ''action''));
          resource = (if is_str (jget source ''resource'') then JObj [(''resource'', jget source ''resource'')] else object (jget source ''resource''));
          name = jors [jget action ''name'', jget action ''type'', jget source ''type'', jget source ''tool'', JStr ''custom.execute'']
      in buildCall H \<lparr>
        cp_name = name,
        cp_category = jors [jget action ''category'', jget source ''category'', JStr (categoryFromName name)],
        cp_operation = jors [jget action ''operation'', jget source ''operation'', JStr (inferOperation name)],
        cp_target = jors [jget resource ''resource'', jget resource ''target'', jget source ''target'', jget source ''path'', jget source ''url'', JStr []],
        cp_arguments = jget source ''arguments'',
        cp_context = adapter_context (jspread (object (jget source ''context'')) (object (jget options ''context''))) ''authorization-request''
          [(''adapter_metadata'', unknownFields source [''actor'', ''action'', ''resource'', ''arguments'', ''context'', ''type'', ''tool'',
              ''category'', ''operation'', ''target'', ''path'', ''url'', ''call_id'', ''timestamp'', ''scope'', ''sensitivity''])],
        cp_actor = jor (jget source ''actor'') (jget options ''actor''),
        cp_callId = jor (jget source ''call_id'') (jget options ''callId''),
        cp_timestamp = jor (jget source ''timestamp'') (jget options ''timestamp''),
        cp_scope = jors [jget resource ''scope'', jget source ''scope'', jget options ''scope''],
        cp_sensitivity = jors [jget resource ''sensitivity'', jget source ''sensitivity'', jget options ''sensitivity''] \<rparr>)"

definition parsed_arguments :: "jval \<Rightarrow> jval" where
  "parsed_arguments v =
     (case v of
        JStr s \<Rightarrow> (case json_parse s of Some a \<Rightarrow> a | None \<Rightarrow> JObj [(''raw_arguments'', JStr s)])
      | _ \<Rightarrow> v)"

definition adaptOpenAIToolCall :: "host \<Rightarrow> jval \<Rightarrow> jval \<Rightarrow> jval" where
  "adaptOpenAIToolCall H payload options =
     (let source = object payload; fn = object (jget source ''function'');
          args = parsed_arguments (jcoalesce (jcoalesce (jget fn ''arguments'') (jget source ''arguments'')) (JObj []));
          name = jors [jget fn ''name'', jget source ''name'', jget source ''tool_name'', JStr ''unknown_tool''];
          category = jor (jget options ''category'') (JStr (categoryFromName name));
          operation = jor (jget options ''operation'') (JStr (inferOperation name)); a = object args
      in buildCall H \<lparr>
        cp_name = name, cp_category = category, cp_operation = operation,
        cp_target = jors [jget options ''target'', jget a ''path'', jget a ''target'', jget a ''url'', jget a ''to'', name],
        cp_arguments = args,
        cp_context = adapter_context (object (jget options ''context'')) ''openai-tool-call''
          [(''adapter_metadata'', unknownFields source [''id'', ''type'', ''function'', ''name'', ''tool_name'', ''arguments''])],
        cp_actor = jget options ''actor'', cp_callId = jor (jget source ''id'') (jget options ''callId''),
        cp_timestamp = jget options ''timestamp'',
        cp_scope = jor (jget options ''scope'') (JStr (scopeForCategory (JStr (normalizeCategory category)) operation)),
        cp_sensitivity = jor (jget options ''sensitivity'') (jget a ''sensitivity'') \<rparr>)"

definition adaptMcpToolCall :: "host \<Rightarrow> jval \<Rightarrow> jval \<Rightarrow> jval" where
  "adaptMcpToolCall H payload options =
     (let source = object payload; params = object (jget source ''params''); args = object (jget params ''arguments'');
          name = jors [jget params ''name'', jget params ''tool'', jget source ''name'', JStr ''unknown_tool''];
          category = jor (jget options ''category'') (JStr (categoryFromName name));
          operation = jor (jget options ''operation'') (JStr (inferOperation name)); mid = jget source ''id''
      in buildCall H \<lparr>
        cp_name = JStr (''mcp.'' @ to_str name), cp_category = category, cp_operation = operation,
        cp_target = jors [jget options ''target'', jget args ''path'', jget args ''target'', jget args ''url'', jget args ''to'', name],
        cp_arguments = args,
        cp_context = adapter_context (object (jget options ''context'')) ''mcp-tools-call''
          [(''jsonrpc_id'', jcoalesce mid JNull), (''method'', jor (jget source ''method'') (JStr ''tools/call'')),
           (''protocol_version'', jors [jget (object (jget params ''_meta'')) ''protocolVersion'', jget params ''protocolVersion'', JNull]),
           (''is_notification'', JBool (mid = JUndef)),
           (''adapter_metadata'', unknownFields source [''jsonrpc'', ''id'', ''method'', ''params'', ''name''])],
        cp_actor = jor (jget options ''actor'') (JObj [(''type'', JStr ''agent''), (''name'', JStr ''mcp-client''),
          (''session_id'', jor (jget options ''sessionId'') (JStr (''jsonrpc-'' @ to_str (jcoalesce mid (JStr ''notification'')))))]),
        cp_callId = jor (jget options ''callId'') (JStr (''mcp_'' @ to_str (jcoalesce mid (JNum (now_ms H))))),
        cp_timestamp = jget options ''timestamp'',
        cp_scope = jor (jget options ''scope'') (JStr (scopeForCategory (JStr (normalizeCategory category)) operation)),
        cp_sensitivity = jor (jget options ''sensitivity'') (jget args ''sensitivity'') \<rparr>)"

definition adaptShellCommand :: "host \<Rightarrow> jval \<Rightarrow> jval \<Rightarrow> jval \<Rightarrow> jval" where
  "adaptShellCommand H command args options =
     (let text = JStr (to_str (jor command (JStr []))); argv = map (\<lambda>x. JStr (to_str x)) (arr_of args)
      in buildCall H \<lparr>
        cp_name = jor (jget options ''name'') (JStr ''shell.execute''), cp_category = JStr ''shell'', cp_operation = JStr ''execute'',
        cp_target = jor (jget options ''target'') text,
        cp_arguments = JObj [(''command'', text), (''args'', JArr argv), (''cwd'', jor (jget options ''cwd'') JUndef)],
        cp_context = adapter_context (object (jget options ''context'')) ''shell-command''
          [(''adapter_metadata'', object (jget options ''metadata''))],
        cp_actor = jget options ''actor'', cp_callId = jget options ''callId'', cp_timestamp = jget options ''timestamp'',
        cp_scope = jor (jget options ''scope'') (JStr ''local''),
        cp_sensitivity = jor (jget options ''sensitivity'') (JStr ''unknown'') \<rparr>)"

definition adaptFilesystemAction :: "host \<Rightarrow> jval \<Rightarrow> jval \<Rightarrow> jval \<Rightarrow> jval \<Rightarrow> jval" where
  "adaptFilesystemAction H operation path args options =
     (let op = (if operation = JStr ''remove'' then JStr ''delete'' else jor operation (JStr ''read''));
          text = JStr (to_str (jor path (JStr [])))
      in buildCall H \<lparr>
        cp_name = jor (jget options ''name'') (JStr (''filesystem.'' @ to_str op)), cp_category = JStr ''file'', cp_operation = op,
        cp_target = text, cp_arguments = jset (object args) ''path'' text,
        cp_context = adapter_context (object (jget options ''context'')) ''filesystem-action''
          [(''adapter_metadata'', object (jget options ''metadata''))],
        cp_actor = jget options ''actor'', cp_callId = jget options ''callId'', cp_timestamp = jget options ''timestamp'',
        cp_scope = jor (jget options ''scope'') (JStr ''local''),
        cp_sensitivity = jor (jget options ''sensitivity'') (JStr ''unknown'') \<rparr>)"

definition adaptHttpAction :: "host \<Rightarrow> jval \<Rightarrow> jval \<Rightarrow> jval" where
  "adaptHttpAction H request options =
     (let source = object request;
          method = str_upper (to_str (jors [jget source ''method'', jget options ''method'', JStr ''GET'']));
          url = jors [jget source ''url'', jget options ''url'', JStr []]
      in buildCall H \<lparr>
        cp_name = jor (jget options ''name'') (JStr (''http.'' @ str_lower method)), cp_category = JStr ''web'',
        cp_operation = JStr (if method \<in> set [''GET'', ''HEAD'', ''OPTIONS''] then ''read'' else ''send''),
        cp_target = url,
        cp_arguments = JObj [(''method'', JStr method), (''url'', url), (''headers'', object (jget source ''headers'')), (''body'', jget source ''body'')],
        cp_context = adapter_context (object (jget options ''context'')) ''http-action''
          [(''adapter_metadata'', unknownFields source [''method'', ''url'', ''headers'', ''body'', ''sensitivity''])],
        cp_actor = jget options ''actor'', cp_callId = jget options ''callId'', cp_timestamp = jget options ''timestamp'',
        cp_scope = JStr ''external'',
        cp_sensitivity = jors [jget options ''sensitivity'', jget source ''sensitivity'', JStr ''unknown''] \<rparr>)"

definition adaptAction :: "host \<Rightarrow> jval \<Rightarrow> jval \<Rightarrow> jval" where
  "adaptAction H input options =
     (let adapter = jget options ''adapter'' in
      if adapter = JStr ''openai'' then adaptOpenAIToolCall H input options
      else if adapter = JStr ''mcp'' then adaptMcpToolCall H input options
      else if adapter = JStr ''http'' then adaptHttpAction H input options
      else if jget input ''jsonrpc'' = JStr ''2.0'' \<and> jget input ''method'' = JStr ''tools/call'' then adaptMcpToolCall H input options
      else if jget input ''type'' = JStr ''function'' \<and> truthy (jget input ''function'') then adaptOpenAIToolCall H input options
      else if truthy (jget input ''action'') \<or> truthy (jget input ''resource'') \<or> adapter = JStr ''authorization''
        then adaptAuthorizationRequest H input options
      else input)"

definition authorize :: "host \<Rightarrow> revocation_source option \<Rightarrow> jval \<Rightarrow> jval \<Rightarrow> jval res" where
  "authorize H rvk request options =
     evaluatePermissionRequest H rvk (adaptAction H request options) (jor (jget options ''policy'') (JObj [])) options"

end
