(* ===== verification/AdapterGuard.thy ===== *)
theory AdapterGuard
  imports Adapters ProtocolEvidence
begin

text \<open>
  The rest of the adapters: \<open>guardFunction\<close> and \<open>guardTools\<close> of \<^verbatim>\<open>packages/core/src/adapters/index.js\<close>, and the
  conformance checks of \<^verbatim>\<open>conformance.js\<close>.  The functions that the caller passes (the guarded function,
  \<open>buildRequest\<close>, \<open>mapArguments\<close>, \<open>onDecision\<close>, \<open>onApproval\<close>, \<open>normalize\<close>) are code outside the package: they
  are arguments, partial procedures over a state \<open>'s\<close> of the world that may change it and may throw.  They receive
  values: in the code \<open>onDecision\<close> and \<open>onApproval\<close> are handed the result object itself, whose action is read again
  afterwards, so a callback that writes into the object it is handed is outside the model.
\<close>

section \<open>Procedures of the caller\<close>

type_synonym ('s, 'a) act = "'s \<Rightarrow> 's \<times> 'a res"

type_synonym 's proc = "jval list \<Rightarrow> ('s, jval) act"

definition give :: "'a res \<Rightarrow> ('s, 'a) act" where
  "give r w = (w, r)"

definition after :: "('s, 'a) act \<Rightarrow> ('a \<Rightarrow> ('s, 'b) act) \<Rightarrow> ('s, 'b) act" where
  "after m f w = (case m w of (w', Inl e) \<Rightarrow> (w', Inl e) | (w', Inr a) \<Rightarrow> f a w')"

section \<open>The guarded function\<close>

record 's guard_options =
  go_values :: jval
  go_onDecision :: "'s proc option"
  go_onApproval :: "'s proc option"

record 's descriptor =
  gd_values :: jval
  gd_buildRequest :: "'s proc option"
  gd_mapArguments :: "'s proc option"

definition authorization_error :: "jval \<Rightarrow> js_error" where
  "authorization_error result =
     (let d = jget result ''decision'' in
      Error (''RuleOak authorization '' @ to_str (jor (jget d ''action'') (JStr ''failed'')) @ '': ''
        @ to_str (jor (jget d ''reason'') (JStr ''unknown reason''))))"

definition approval_answer :: "jval \<Rightarrow> jval" where
  "approval_answer d = (if is_str d then d else jors [jget d ''action'', jget d ''decision'', JStr ''deny''])"

definition result_action :: "jval \<Rightarrow> jval" where
  "result_action result = jget (jget result ''decision'') ''action''"

definition resolveApproval :: "'s guard_options \<Rightarrow> jval \<Rightarrow> ('s, jval) act" where
  "resolveApproval options result =
     (if result_action result \<noteq> JStr ''needs_approval'' then give (Inr (result_action result))
      else case go_onApproval options of
        None \<Rightarrow> give (Inr (JStr ''deny''))
      | Some f \<Rightarrow> after (f [result]) (\<lambda>d. give (Inr (approval_answer d))))"

definition guarded_name :: "jval \<Rightarrow> string \<Rightarrow> jval" where
  "guarded_name descriptor fn_name = jors [jget descriptor ''name'', JStr fn_name, JStr ''custom.execute'']"

definition guard_request :: "'s guard_options \<Rightarrow> 's descriptor \<Rightarrow> string \<Rightarrow> jval list \<Rightarrow> ('s, jval) act" where
  "guard_request options descriptor fn_name args =
     (let d = gd_values descriptor; name = guarded_name d fn_name in
      case gd_buildRequest descriptor of
        Some f \<Rightarrow> f [JArr args]
      | None \<Rightarrow>
          after (case gd_mapArguments descriptor of
                   Some f \<Rightarrow> f [JArr args]
                 | None \<Rightarrow> give (Inr (JObj [(''args'', JArr args)])))
            (\<lambda>arguments. give (Inr (JObj
              [(''actor'', jget (go_values options) ''actor''),
               (''action'', JObj [(''name'', name), (''category'', jget d ''category''), (''operation'', jget d ''operation'')]),
               (''resource'', JObj [(''resource'', jor (jget d ''target'') name), (''scope'', jget d ''scope''),
                 (''sensitivity'', jget d ''sensitivity'')]),
               (''arguments'', arguments),
               (''context'', jset (object (jget (go_values options) ''context'')) ''guarded_function'' name)]))))"

definition RUN_ACTIONS :: "string list" where
  "RUN_ACTIONS = [''allow'', ''allow_once'', ''allow_session'', ''always_allow'']"

text \<open>The function that \<open>guardFunction\<close> returns.\<close>

definition guardFunction :: "host \<Rightarrow> revocation_source option \<Rightarrow> 's proc \<Rightarrow> string \<Rightarrow> 's descriptor
    \<Rightarrow> 's guard_options \<Rightarrow> 's proc" where
  "guardFunction H rvk fn fn_name descriptor options args =
     after (guard_request options descriptor fn_name args) (\<lambda>request.
     after (give (authorize H rvk request (go_values options))) (\<lambda>result.
     after (case go_onDecision options of Some f \<Rightarrow> f [result] | None \<Rightarrow> give (Inr JUndef)) (\<lambda>_.
     after (if result_action result = JStr ''needs_approval'' then resolveApproval options result
            else give (Inr (result_action result))) (\<lambda>action.
     if \<not> one_of RUN_ACTIONS action then give (Inl (authorization_error result)) else fn args))))"

section \<open>Guarding a set of tools\<close>

text \<open>A tool with its data and the functions it may carry.\<close>

record 's tool =
  tl_values :: jval
  tl_execute :: "'s proc option"
  tl_invoke :: "'s proc option"
  tl_handler :: "'s proc option"
  tl_buildRequest :: "'s proc option"
  tl_mapArguments :: "'s proc option"

definition first_of :: "'a option list \<Rightarrow> 'a option" where
  "first_of xs = (case filter (\<lambda>x. x \<noteq> None) xs of [] \<Rightarrow> None | x # _ \<Rightarrow> x)"

definition executorKey :: "'s tool \<Rightarrow> nat \<Rightarrow> jval" where
  "executorKey t index =
     (let v = tl_values t in jors [jget (jget v ''function'') ''name'', jget v ''name'', jget v ''id'', JStr (nat_str index)])"

definition put_wrapped :: "'s tool \<Rightarrow> 's proc \<Rightarrow> 's tool" where
  "put_wrapped t wrapped =
     (if tl_execute t \<noteq> None then t\<lparr>tl_execute := Some wrapped\<rparr>
      else if tl_invoke t \<noteq> None then t\<lparr>tl_invoke := Some wrapped\<rparr>
      else if tl_handler t \<noteq> None then t\<lparr>tl_handler := Some wrapped\<rparr>
      else t\<lparr>tl_execute := Some wrapped\<rparr>)"

text \<open>The array form; \<open>executors\<close> is \<open>options.executors\<close>.  Every function here has the name \<open>fn_name\<close>, which
  is used only when the key is empty.\<close>

definition guard_listed_tool :: "host \<Rightarrow> revocation_source option \<Rightarrow> 's guard_options \<Rightarrow> (string \<Rightarrow> 's proc option)
    \<Rightarrow> string \<Rightarrow> 's tool \<Rightarrow> nat \<Rightarrow> 's tool" where
  "guard_listed_tool H rvk options executors fn_name t index =
     (let key = executorKey t index; v = tl_values t in
      case first_of [tl_execute t, tl_invoke t, tl_handler t, executors (to_str key)] of
        None \<Rightarrow> t
      | Some executor \<Rightarrow>
          put_wrapped t (guardFunction H rvk executor fn_name
            \<lparr>gd_values = JObj [(''name'', key), (''category'', jget v ''category''), (''operation'', jget v ''operation''),
               (''target'', jget v ''target''), (''sensitivity'', jget v ''sensitivity'')],
             gd_buildRequest = None, gd_mapArguments = tl_mapArguments t\<rparr> options))"

definition guardTools_list :: "host \<Rightarrow> revocation_source option \<Rightarrow> 's guard_options \<Rightarrow> (string \<Rightarrow> 's proc option)
    \<Rightarrow> string \<Rightarrow> 's tool list \<Rightarrow> 's tool list" where
  "guardTools_list H rvk options executors fn_name tools =
     map (\<lambda>(i, t). guard_listed_tool H rvk options executors fn_name t i) (enumerate 0 tools)"

text \<open>The object form: an entry is a function, an object or any other value.\<close>

datatype 's tool_entry = Func "'s proc" | Tool "'s tool" | Plain jval

definition guard_entry :: "host \<Rightarrow> revocation_source option \<Rightarrow> 's guard_options \<Rightarrow> string \<Rightarrow> string \<times> 's tool_entry
    \<Rightarrow> string \<times> 's tool_entry" where
  "guard_entry H rvk options fn_name p =
     (case p of
        (name, Func f) \<Rightarrow> (name, Func (guardFunction H rvk f fn_name
           \<lparr>gd_values = JObj [(''name'', JStr name)], gd_buildRequest = None, gd_mapArguments = None\<rparr> options))
      | (name, Tool t) \<Rightarrow>
          (case first_of [tl_execute t, tl_invoke t, tl_handler t] of
             None \<Rightarrow> (name, Tool t)
           | Some executor \<Rightarrow> (name, Tool (put_wrapped t (guardFunction H rvk executor fn_name
               \<lparr>gd_values = jspread (JObj [(''name'', JStr name)]) (tl_values t),
                gd_buildRequest = tl_buildRequest t, gd_mapArguments = tl_mapArguments t\<rparr> options))))
      | (name, Plain v) \<Rightarrow> (name, Plain v))"

definition guardTools_object :: "host \<Rightarrow> revocation_source option \<Rightarrow> 's guard_options \<Rightarrow> string
    \<Rightarrow> (string \<times> 's tool_entry) list \<Rightarrow> (string \<times> 's tool_entry) list" where
  "guardTools_object H rvk options fn_name = map (guard_entry H rvk options fn_name)"

section \<open>Conformance\<close>

definition mentions :: "string \<Rightarrow> jval \<Rightarrow> string" where
  "mentions alternative v = to_str (jor v (JStr alternative))"

text \<open>The checks of a version 1.1 receipt against the capability the descriptor declares for its quality.\<close>

definition capability_mismatches :: "jval \<Rightarrow> jval \<Rightarrow> string list" where
  "capability_mismatches receipt descriptor =
     (let name = to_str (jget descriptor ''adapter_id''); quality = jget receipt ''observation_quality'';
          cap = observationCapability descriptor quality in
      if cap = JNull then [''adapter '' @ name @ '' does not declare observation quality '' @ to_str quality]
      else err_if (\<not> strict_eq (jget receipt ''observation_boundary'') (jget cap ''boundary''))
             (''adapter '' @ name @ '' observation boundary mismatch: expected '' @ to_str (jget cap ''boundary''))
         @ err_if (\<not> jincludes (arr_of (jget cap ''statuses'')) (jget receipt ''status''))
             (''adapter '' @ name @ '' does not permit status '' @ to_str (jget receipt ''status'') @ '' for '' @ to_str quality))"

definition version_mismatches :: "jval \<Rightarrow> jval \<Rightarrow> string list" where
  "version_mismatches receipt descriptor =
     err_if (\<not> strict_eq (jget receipt ''adapter_contract_version'') (jget descriptor ''contract_version''))
       (''adapter contract version mismatch: receipt '' @ mentions ''missing'' (jget receipt ''adapter_contract_version'')
        @ '' vs descriptor '' @ mentions ''missing'' (jget descriptor ''contract_version''))"

definition validateEffectReceiptAgainstAdapter :: "jval \<Rightarrow> jval \<Rightarrow> string list" where
  "validateEffectReceiptAgainstAdapter receipt descriptor =
     (let quality = jget receipt ''observation_quality''; name = jget descriptor ''adapter_id'' in
      validateAdapterDescriptor descriptor @ validateEffectReceipt receipt
      @ err_if (truthy (jget receipt ''adapter'') \<and> truthy name \<and> \<not> strict_eq (jget receipt ''adapter'') name)
          (''effect receipt adapter mismatch: expected '' @ to_str name)
      @ err_if (jget receipt ''effect_version'' = JStr ''1.0'' \<and> jget descriptor ''contract_version'' = JStr ''1.0'' \<and> truthy quality
            \<and> \<not> jincludes (arr_of (jget descriptor ''observation_qualities'')) quality)
          (''adapter '' @ mentions ''unknown'' name @ '' does not declare observation quality '' @ to_str quality)
      @ (if jget receipt ''effect_version'' \<noteq> JStr ''1.1'' then []
         else version_mismatches receipt descriptor
            @ (if jget descriptor ''contract_version'' \<noteq> JStr ''1.1'' then [''EffectReceipt v1.1 requires Adapter Contract v1.1'']
               else capability_mismatches receipt descriptor)))"

text \<open>The harness: an adapter is its descriptor with the functions it has, a fixture the input and the options
  of one call.  The messages of a rejected fixture are those of the validator, or the thrown message.\<close>

record 's adapter =
  ad_descriptor :: jval
  ad_normalize :: "'s proc option"
  ad_execute :: "'s proc option"

definition fixture_errors :: "jval \<Rightarrow> nat \<Rightarrow> jval \<Rightarrow> string list" where
  "fixture_errors descriptor index call =
     (let at = ''fixture '' @ nat_str index @ '': ''; errors = validateNormalizedToolCall call;
          contract = jget (jget call ''context'') ''adapter_contract'' in
      err_if (errors \<noteq> []) (at @ str_join ''; '' errors)
      @ err_if (\<not> truthy contract \<or> \<not> strict_eq (jget contract ''adapter_id'') (jget descriptor ''adapter_id''))
          (at @ ''normalized call missing matching adapter contract''))"

fun run_fixtures :: "jval \<Rightarrow> 's proc \<Rightarrow> nat \<Rightarrow> jval list \<Rightarrow> 's \<Rightarrow> 's \<times> string list \<times> jval list" where
  "run_fixtures descriptor norm index [] w = (w, [], [])"
| "run_fixtures descriptor norm index (x # xs) w =
     (let (w1, r) = norm [jget x ''input'', jor (jget x ''options'') (JObj [])] w;
          (errors, result) =
            (case r of
               Inr call \<Rightarrow> (fixture_errors descriptor index call,
                 JObj [(''index'', JNum (int index)), (''valid'', JBool (validateNormalizedToolCall call = [])), (''call'', call)])
             | Inl e \<Rightarrow> ([''fixture '' @ nat_str index @ '': '' @ error_message e],
                 JObj [(''index'', JNum (int index)), (''valid'', JBool False), (''error'', JStr (error_message e))]));
          (w2, errors', results) = run_fixtures descriptor norm (Suc index) xs w1
      in (w2, errors @ errors', result # results))"

definition runAdapterConformance :: "'s adapter \<Rightarrow> jval list \<Rightarrow> 's \<Rightarrow> 's \<times> string list \<times> jval list" where
  "runAdapterConformance adapter fixtures w =
     (let descriptor = ad_descriptor adapter;
          errors = validateAdapterDescriptor descriptor
            @ err_if (ad_normalize adapter = None) ''adapter.normalize is required''
            @ err_if (jget descriptor ''mode'' = JStr ''execute'' \<and> ad_execute adapter = None) ''execute-mode adapter.execute is required''
      in case ad_normalize adapter of
           Some norm \<Rightarrow> if errors \<noteq> [] then (w, errors, []) else run_fixtures descriptor norm 0 fixtures w
         | None \<Rightarrow> (w, errors, []))"

section \<open>The guard\<close>

lemma resolve_cases:
  assumes "resolveApproval options result w = (w', Inr a)" "one_of RUN_ACTIONS a"
    and "result_action result = JStr ''needs_approval''"
  obtains f answer where "go_onApproval options = Some f" "f [result] w = (w', Inr answer)" "a = approval_answer answer"
  using assms
  by (auto simp: resolveApproval_def give_def after_def RUN_ACTIONS_def one_of_def split: option.splits prod.splits sum.splits)

definition allowed_to_run :: "'s guard_options \<Rightarrow> jval \<Rightarrow> 's \<Rightarrow> 's \<Rightarrow> bool" where
  "allowed_to_run options result w w' \<longleftrightarrow>
     one_of RUN_ACTIONS (result_action result)
     \<or> result_action result = JStr ''needs_approval''
       \<and> (\<exists>f answer. go_onApproval options = Some f \<and> f [result] w = (w', Inr answer)
            \<and> one_of RUN_ACTIONS (approval_answer answer))"

definition ask :: "'s guard_options \<Rightarrow> jval \<Rightarrow> ('s, jval) act" where
  "ask options result =
     (if result_action result = JStr ''needs_approval'' then resolveApproval options result else give (Inr (result_action result)))"

lemma ask_allows:
  "ask options result w = (w', Inr action) \<Longrightarrow> one_of RUN_ACTIONS action \<Longrightarrow> allowed_to_run options result w w'"
  by (auto simp: ask_def allowed_to_run_def give_def elim: resolve_cases split: if_splits)

text \<open>The wrapped function is called last, and only when the question has an allowing answer.\<close>

lemma asked_run:
  assumes "ask options result w1 = (w2, r2)"
    and run: "\<And>fn. guarded fn = after (ask options result) (\<lambda>action.
      if \<not> one_of RUN_ACTIONS action then give (Inl (authorization_error result)) else fn args) w1"
  shows "(\<exists>w' e. \<forall>fn. guarded fn = (w', Inl e))
    \<or> allowed_to_run options result w1 w2 \<and> (\<forall>fn. guarded fn = fn args w2)"
proof (cases r2)
  case (Inr action)
  then show ?thesis using assms(1) ask_allows [of options result w1 w2 action] run
    by (cases "one_of RUN_ACTIONS action") (auto simp: after_def give_def)
qed (use assms(1) in \<open>auto simp: after_def run\<close>)

text \<open>C12: The guarded function runs only when it is authorised.  A call of the function that \<open>guardFunction\<close>
  returns either fails in the same way whatever the wrapped function is, so that function was not called, or is the
  call of the wrapped function after \<open>authorize\<close> gave a result for the request that allows it, or needs approval and
  the approval callback, asked with that result, answered with one of the four allowing answers.\<close>

theorem guard_runs_only_allowed:
  "(\<exists>w' e. \<forall>fn. guardFunction H rvk fn fn_name descriptor options args w = (w', Inl e))
   \<or> (\<exists>w0 request result w1 w2.
        guard_request options descriptor fn_name args w = (w0, Inr request)
      \<and> authorize H rvk request (go_values options) = Inr result
      \<and> (one_of RUN_ACTIONS (result_action result)
         \<or> result_action result = JStr ''needs_approval''
           \<and> (\<exists>f answer. go_onApproval options = Some f \<and> f [result] w1 = (w2, Inr answer)
                \<and> one_of RUN_ACTIONS (approval_answer answer)))
      \<and> (\<forall>fn. guardFunction H rvk fn fn_name descriptor options args w = fn args w2))"
proof -
  let ?call = "\<lambda>fn. guardFunction H rvk fn fn_name descriptor options args w"
  obtain w0 r0 where q: "guard_request options descriptor fn_name args w = (w0, r0)" by fastforce
  note defs = guardFunction_def after_def give_def
  show ?thesis
  proof (cases r0)
    case (Inl e)
    then show ?thesis using q by (auto simp: defs)
  next
    case request: (Inr request)
    show ?thesis
    proof (cases "authorize H rvk request (go_values options)")
      case (Inl e)
      then show ?thesis using q request by (auto simp: defs)
    next
      case result: (Inr result)
      obtain w1 r1 where n: "(case go_onDecision options of Some f \<Rightarrow> f [result] | None \<Rightarrow> give (Inr JUndef)) w0 = (w1, r1)"
        by fastforce
      obtain w2 r2 where a: "ask options result w1 = (w2, r2)" by fastforce
      show ?thesis
      proof (cases r1)
        case (Inl e)
        then show ?thesis using q request result n by (auto simp: defs)
      next
        case (Inr u)
        then have "?call fn = after (ask options result) (\<lambda>action.
            if \<not> one_of RUN_ACTIONS action then give (Inl (authorization_error result)) else fn args) w1" for fn
          using q request result n by (simp add: guardFunction_def ask_def after_def give_def)
        from asked_run [of _ _ _ _ _ ?call, OF a this] show ?thesis
          using q request result unfolding allowed_to_run_def by blast
      qed
    qed
  qed
qed

text \<open>A listed tool with two executors: only the first is guarded, the other stays as it was.\<close>

lemma second_executor_unguarded:
  "tl_execute t = Some f \<Longrightarrow> tl_invoke (guard_listed_tool H rvk options executors fn_name t i) = tl_invoke t
     \<and> tl_handler (guard_listed_tool H rvk options executors fn_name t i) = tl_handler t"
  by (simp add: guard_listed_tool_def first_of_def put_wrapped_def Let_def)

end
