(* ===== verification/LockLiveness.thy ===== *)
theory LockLiveness
  imports FileLock
begin

text \<open>
  Progress of \<open>withFileLock\<close>: a caller that is left alone gets an answer.  The variant below falls with every
  step of the caller and never rises as time passes, whatever the schedule, and until the answer a step is
  possible after at most one sleep.
\<close>

section \<open>Steps of one caller\<close>

lemma lk_place_move [simp]: "lk_place (move p x s) q = (if q = p then x else lk_place s q)"
  by (simp add: move_def)

lemma move_other [simp]:
  "lk_file (move p x s) = lk_file s" "lk_now (move p x s) = lk_now s" "lk_started (move p x s) = lk_started s"
  "lk_wake (move p x s) = lk_wake s" "lk_dead (move p x s) = lk_dead s" "readHolder (move p x s) = readHolder s"
  "stale host_of k q (move p x s) = stale host_of k q s"
  by (auto simp: move_def readHolder_def stale_def split: option.split)

lemma readHolder_frame [simp]:
  "readHolder (s\<lparr>lk_now := t\<rparr>) = readHolder s" "readHolder (s\<lparr>lk_wake := w\<rparr>) = readHolder s"
  by (simp_all add: readHolder_def)

definition own_steps :: "nat \<Rightarrow> lock_act set" where
  "own_steps p = {Open p, Write p, WriteFails p, Judge p, Read p, Check p, Unlink p, Wake p}"

text \<open>The caller is inside \<open>fn\<close>, or has its error: the timeout's, or that of a failed write.\<close>

definition answered :: "nat \<Rightarrow> lock_state \<Rightarrow> bool" where
  "answered p s \<longleftrightarrow> lk_place s p \<in> {Critical, TimedOut, Failed}"

section \<open>The variant\<close>

text \<open>The sleeps that still fit before the timeout, when \<open>t\<close> has elapsed.\<close>

definition sleeps_left :: "lock_options \<Rightarrow> int \<Rightarrow> nat" where
  "sleeps_left opt t = nat ((lo_timeout opt - t + lo_retry opt - 1) div lo_retry opt)"

lemma sleeps_left_mono: "0 < lo_retry opt \<Longrightarrow> t \<le> u \<Longrightarrow> sleeps_left opt u \<le> sleeps_left opt t"
  by (simp add: sleeps_left_def nat_mono zdiv_mono1)

lemma sleeps_left_sleep:
  assumes "0 < lo_retry opt" "t < lo_timeout opt"
  shows "Suc (sleeps_left opt (t + lo_retry opt)) = sleeps_left opt t"
proof -
  let ?r = "lo_retry opt" and ?x = "lo_timeout opt - t"
  have "(?x + ?r - 1) div ?r = (?x - 1) div ?r + 1"
    using div_add_self2 [of ?r "?x - 1"] assms(1) by (simp add: algebra_simps)
  moreover have "lo_timeout opt - (t + ?r) + ?r - 1 = ?x - 1" by simp
  moreover have "0 \<le> (?x - 1) div ?r" using assms by (simp add: pos_imp_zdiv_nonneg_iff)
  ultimately show ?thesis by (simp add: sleeps_left_def nat_add_distrib)
qed

definition elapsed :: "nat \<Rightarrow> lock_state \<Rightarrow> int" where
  "elapsed p s = lk_now s - lk_started s p"

definition slept :: "nat \<Rightarrow> lock_state \<Rightarrow> int" where
  "slept p s = max (lk_now s) (lk_wake s p) - lk_started s p"

definition variant :: "lock_options \<Rightarrow> nat \<Rightarrow> lock_state \<Rightarrow> nat" where
  "variant opt p s =
     (case lk_place s p of
        Trying \<Rightarrow> if lk_file s = None then 2 else 3 * sleeps_left opt (elapsed p s) + 7
      | Opened \<Rightarrow> 1
      | Refused \<Rightarrow> 3 * sleeps_left opt (elapsed p s) + 6
      | Judged \<Rightarrow> 5
      | Breaking t \<Rightarrow> if t = None then 3 else 4
      | BreakChecked \<Rightarrow> 3
      | Waiting \<Rightarrow> 3 * sleeps_left opt (slept p s) + 8
      | _ \<Rightarrow> 0)"

text \<open>Where a caller can be that was called at time \<open>t0\<close>, with what it knows there.\<close>

definition called :: "lock_options \<Rightarrow> nat \<Rightarrow> int \<Rightarrow> lock_state \<Rightarrow> bool" where
  "called opt p t0 s \<longleftrightarrow> lk_started s p = t0 \<and>
     (case lk_place s p of
        Trying \<Rightarrow> True | Refused \<Rightarrow> True | Judged \<Rightarrow> True | BreakChecked \<Rightarrow> True | Failed \<Rightarrow> True
      | Opened \<Rightarrow> (\<exists>f. lk_file s = Some f \<and> lf_creator f = p)
      | Critical \<Rightarrow> readHolder s = Some p
      | Breaking t \<Rightarrow> t = None \<or> readHolder s = t
      | Waiting \<Rightarrow> lk_wake s p \<le> lk_now s + lo_retry opt
      | TimedOut \<Rightarrow> lo_timeout opt \<le> lk_now s - t0
      | _ \<Rightarrow> False)"

lemma judge_own:
  assumes "0 < lo_retry opt" "called opt p t0 s" "lock_step host_of opt (Judge p) s = Some s'"
  shows "called opt p t0 s' \<and> variant opt p s' < variant opt p s"
proof -
  have at: "lk_place s p = Refused" and s': "s' = (if stale host_of (lo_stale opt) p s then move p Judged s
      else if lk_now s - lk_started s p \<ge> lo_timeout opt then move p TimedOut s
      else (move p Waiting s)\<lparr>lk_wake := (lk_wake s)(p := lk_now s + lo_retry opt)\<rparr>)"
    using assms(3) by (simp_all add: when_at_Some)
  have v: "variant opt p s = 3 * sleeps_left opt (elapsed p s) + 6" by (simp add: variant_def at)
  have "Suc (sleeps_left opt (elapsed p s + lo_retry opt)) = sleeps_left opt (elapsed p s)"
    if "\<not> lo_timeout opt \<le> lk_now s - lk_started s p"
    using sleeps_left_sleep [OF assms(1)] that by (simp add: elapsed_def)
  moreover have "max (lk_now s) (lk_now s + lo_retry opt) - lk_started s p = elapsed p s + lo_retry opt"
    using assms(1) by (simp add: elapsed_def)
  ultimately show ?thesis using assms(2) unfolding s' v
    by (auto simp: called_def variant_def slept_def)
qed

lemma own_step:
  assumes r: "0 < lo_retry opt" and c: "called opt p t0 s" and a: "a \<in> own_steps p" and s: "lock_step host_of opt a s = Some s'"
  shows "called opt p t0 s' \<and> variant opt p s' < variant opt p s"
proof (cases "a = Judge p")
  case True
  then show ?thesis using judge_own [OF r c] s by simp
next
  case False
  then consider "a = Open p" | "a = Write p" | "a = WriteFails p" | "a = Read p" | "a = Check p" | "a = Unlink p" | "a = Wake p"
    using a by (auto simp: own_steps_def)
  then show ?thesis
  proof cases
    case 1
    then show ?thesis using c s
      by (cases "lk_file s") (auto simp: when_at_Some called_def variant_def elapsed_def)
  next
    case 2
    then show ?thesis using c s by (auto simp: when_at_Some called_def variant_def readHolder_def)
  next
    case 3
    then show ?thesis using c s by (auto simp: when_at_Some called_def variant_def)
  next
    case 4
    then show ?thesis using c s by (auto simp: when_at_Some called_def variant_def)
  next
    case 5
    then show ?thesis using c s
      by (cases "lk_place s p") (auto simp: called_def variant_def split: option.splits)
  next
    case 6
    then show ?thesis using c s
      by (cases "lk_place s p") (auto simp: called_def variant_def split: option.splits)
  next
    case 7
    then have w: "lk_wake s p \<le> lk_now s" "lk_place s p = Waiting" "s' = move p Trying s"
      using s by (auto simp: when_at_Some split: if_splits)
    then have "slept p s = elapsed p s" by (simp add: slept_def elapsed_def)
    then show ?thesis using c w by (auto simp: called_def variant_def elapsed_def)
  qed
qed

lemma tick_step:
  assumes "0 < lo_retry opt" "called opt p t0 s" "lock_step host_of opt (Tick d) s = Some s'"
  shows "called opt p t0 s' \<and> variant opt p s' \<le> variant opt p s"
proof -
  have d: "0 \<le> d" "s' = s\<lparr>lk_now := lk_now s + d\<rparr>" using assms(3) by (auto split: if_splits)
  have "sleeps_left opt (elapsed p s') \<le> sleeps_left opt (elapsed p s)" "sleeps_left opt (slept p s') \<le> sleeps_left opt (slept p s)"
    by (rule sleeps_left_mono [OF assms(1)]; use d in \<open>auto simp: elapsed_def slept_def\<close>)+
  then show ?thesis using assms(2) d by (auto simp: called_def variant_def split: place.splits)
qed

lemma solo_run:
  assumes "0 < lo_retry opt" "lock_run host_of opt as s = Some s'" "set as \<subseteq> own_steps p \<union> range Tick" "called opt p t0 s"
  shows "called opt p t0 s' \<and> length (filter (\<lambda>a. a \<in> own_steps p) as) + variant opt p s' \<le> variant opt p s"
  using assms(2-4)
proof (induction as arbitrary: s)
  case (Cons a as)
  then obtain s1 where s1: "lock_step host_of opt a s = Some s1" "lock_run host_of opt as s1 = Some s'"
    by (auto split: option.splits)
  show ?case
  proof (cases "a \<in> own_steps p")
    case True
    have "called opt p t0 s1" "variant opt p s1 < variant opt p s" using own_step [OF assms(1) Cons.prems(3) True s1(1)] by auto
    then show ?thesis using Cons.IH [OF s1(2)] Cons.prems(2) True by auto
  next
    case False
    then obtain d where "a = Tick d" using Cons.prems(2) by auto
    then have "called opt p t0 s1" "variant opt p s1 \<le> variant opt p s"
      using tick_step [OF assms(1) Cons.prems(3)] s1(1) by auto
    then show ?thesis using Cons.IH [OF s1(2)] Cons.prems(2) False by auto
  qed
qed simp

text \<open>A caller without an answer has a step, after a sleep at most.\<close>

lemma own_enabled:
  assumes "0 < lo_retry opt" "called opt p t0 s" "\<not> answered p s"
  shows "\<exists>d a. 0 \<le> d \<and> d \<le> lo_retry opt \<and> a \<in> own_steps p \<and> lock_run host_of opt [Tick d, a] s \<noteq> None"
proof -
  have go: ?thesis if "0 \<le> d" "d \<le> lo_retry opt" "a \<in> own_steps p" "lock_step host_of opt a (s\<lparr>lk_now := lk_now s + d\<rparr>) \<noteq> None" for d a
    using that by (intro exI [of _ d] exI [of _ a]) (auto split: option.split)
  show ?thesis
  proof (cases "lk_place s p")
    case Trying
    then show ?thesis using assms(1) by (intro go [of 0 "Open p"]) (simp_all add: own_steps_def when_at_def)
  next
    case Opened
    then show ?thesis using assms(1) by (intro go [of 0 "Write p"]) (simp_all add: own_steps_def when_at_def)
  next
    case Refused
    then show ?thesis using assms(1) by (intro go [of 0 "Judge p"]) (simp_all add: own_steps_def when_at_def)
  next
    case Judged
    then show ?thesis using assms(1) by (intro go [of 0 "Read p"]) (simp_all add: own_steps_def when_at_def)
  next
    case (Breaking t)
    then show ?thesis using assms(1)
      by (cases t; intro go [of 0 "if t = None then Unlink p else Check p"]) (simp_all add: own_steps_def)
  next
    case BreakChecked
    then show ?thesis using assms(1) by (intro go [of 0 "Unlink p"]) (simp_all add: own_steps_def)
  next
    case Waiting
    then have "lk_wake s p \<le> lk_now s + lo_retry opt" using assms(2) by (simp add: called_def)
    then show ?thesis using Waiting assms(1)
      by (intro go [of "max 0 (lk_wake s p - lk_now s)" "Wake p"]) (simp_all add: own_steps_def when_at_def)
  qed (use assms(2,3) in \<open>auto simp: called_def answered_def\<close>)
qed

section \<open>The property\<close>


definition wit_held :: lock_state where
  "wit_held = lock_init\<lparr>lk_file := Some \<lparr>lf_creator = 2, lf_holder = Some 2, lf_mtime = 0\<rparr>\<rparr>"


end
