(* ===== verification/CrashProps.thy ===== *)
theory CrashProps
  imports RevocationProps BudgetProps
begin

text \<open>
  What a crash can do to a registry file: the calls of an atomic replacement may stop after any of
  them, and what is loaded afterwards is what was there before or what was being stored.
\<close>

context journal
begin

lemma crash_load:
  assumes "persist_registry W temp fs reg rs = Inr (fs', reg')" "reg_path reg = Some p" "temp \<noteq> p"
    and "mid \<in> crash_states (atomic_ops p temp (lines_text rs)) fs"
  shows "load_registry W chk st0 mid reg = load_registry W chk st0 fs reg
    \<or> load_registry W chk st0 mid reg = load_registry W chk st0 fs' reg'"
proof -
  have after: "fs' p = Some (lines_text rs)" "reg' = reg"
    using assms(1-3) by (auto simp: persist_registry_def res_simps atomicWriteFileSync_def atomic_ops_def
        split: if_splits option.splits prod.splits)
  have cong: "load_registry W chk st0 a reg = load_registry W chk st0 b reg" if "a p = b p" for a b
    using that by (simp add: load_registry_def readBoundedFileSync_def assms(2))
  from atomic_crash [OF assms(4,3)] show ?thesis
  proof
    assume "mid p = fs p"
    then show ?thesis using cong by blast
  next
    assume "mid p = Some (lines_text rs)"
    then show ?thesis using cong [of mid fs'] after by simp
  qed
qed

end

text \<open>C23: A crash while a revocation is stored does not damage the registry.  At whatever call the
  atomic replacement of the registry file stops, the list that is loaded afterwards is either the list
  from before, or the one that the completed revocation leaves.\<close>

theorem revocation_crash_safe:
  assumes "revoke H temp (fs, reg) type sid options = Inr ((fs', reg'), r)" "reg_path reg = Some p" "temp \<noteq> p"
    and "list_revocations H fs reg = Inr existing"
    and "mid \<in> crash_states (atomic_ops p temp (lines_text (existing @ [r]))) fs"
  shows "list_revocations H mid reg = Inr existing \<or> list_revocations H mid reg = list_revocations H fs' reg'"
proof -
  have "persist_registry revocation_words temp fs reg (existing @ [r]) = Inr (fs', reg')"
    using assms(1,4) by (auto elim!: revoke_cases)
  then have "load_registry revocation_words (check_revocation H) 0 mid reg
        = load_registry revocation_words (check_revocation H) 0 fs reg
      \<or> load_registry revocation_words (check_revocation H) 0 mid reg
        = load_registry revocation_words (check_revocation H) 0 fs' reg'"
    by (rule revocations.crash_load [OF _ assms(2,3,5)])
  then show ?thesis using assms(4) by (simp add: list_revocations_def)
qed

definition wit_file_registry :: registry where
  "wit_file_registry = new_revocation_registry (Some ''r'') REGISTRY_LIMITS"

theorem revocation_crash_safe_witness:
  "\<exists>fs' reg' r. list_revocations wit_hosting (\<lambda>_. None) wit_file_registry = Inr []
     \<and> (\<forall>mid\<in>crash_states (atomic_ops ''r'' ''t'' (lines_text [r])) (\<lambda>_. None).
          list_revocations wit_hosting mid wit_file_registry = Inr []
          \<or> list_revocations wit_hosting mid wit_file_registry = list_revocations wit_hosting fs' reg')"
proof -
  let ?do = "revoke wit_hosting ''t'' (\<lambda>_. None, wit_file_registry) (JStr ''authority_grant'') (JStr ''g1'') (JObj [])"
  have "case ?do of Inr r \<Rightarrow> True | Inl e \<Rightarrow> False" by code_simp
  then obtain fs' reg' r where d: "?do = Inr ((fs', reg'), r)" by (auto split: sum.splits)
  have l: "list_revocations wit_hosting (\<lambda>_. None) wit_file_registry = Inr []"
    by (simp add: list_revocations_def load_registry_def wit_file_registry_def new_revocation_registry_def readBoundedFileSync_def)
  have p: "reg_path wit_file_registry = Some ''r''" by (simp add: wit_file_registry_def new_revocation_registry_def)
  have "list_revocations wit_hosting mid wit_file_registry = Inr []
      \<or> list_revocations wit_hosting mid wit_file_registry = list_revocations wit_hosting fs' reg'"
    if "mid \<in> crash_states (atomic_ops ''r'' ''t'' (lines_text [r])) (\<lambda>_. None)" for mid
    using revocation_crash_safe [OF d p _ l] that by simp
  with l show ?thesis by blast
qed

end
