(* ===== verification/AuthorityLedger.thy ===== *)
theory AuthorityLedger
  imports RecorderProps JSRegex
begin

text \<open>
  The ledger of authority events, \<^verbatim>\<open>packages/core/src/recorder/authority-ledger.js\<close>: each operation appends
  one event to the recorder's file.  The property is that the ledger refines a list of events.
\<close>

section \<open>Operations\<close>

definition ledger_char :: "char \<Rightarrow> char" where
  "ledger_char c = (if is_word c \<or> char_in ''.-'' c then c else CHR ''_'')"

definition safe_event_type :: "jval \<Rightarrow> string" where
  "safe_event_type eventType = map ledger_char (to_str (jor eventType (JStr ''unknown'')))"

definition ledger_action :: "string \<Rightarrow> jval \<Rightarrow> jval" where
  "ledger_action safeType payload =
     JObj [(''type'', JStr (''ruleoak.ledger.'' @ safeType)),
       (''target'', jor (jor (jor (jor (jget payload ''subject_id'') (jget payload ''lease_id'')) (jget payload ''envelope_id''))
          (jget payload ''grant_id'')) (JStr ''ruleoak://ledger'')),
       (''arguments'', JObj []), (''metadata'', JObj [(''event_type'', JStr safeType)])]"

definition ledger_decision :: "string \<Rightarrow> jval \<Rightarrow> jval" where
  "ledger_decision safeType payload =
     JObj [(''action'', JStr ''allow''), (''reason'', JStr ''RuleOak authority ledger event''),
       (''matchedRule'', JStr ''authority-ledger''), (''ledger_event_type'', JStr safeType), (''ledger_payload'', payload)]"

text \<open>\<open>payload = {}\<close> stands for a payload that is not given; \<open>null\<close> has no \<open>subject_id\<close> to read.\<close>

definition ledger_append :: "host \<Rightarrow> files \<Rightarrow> limits \<Rightarrow> string \<Rightarrow> jval \<Rightarrow> jval \<Rightarrow> jval \<Rightarrow> (files \<times> jval) res" where
  "ledger_append H fs L path eventType given timestamp =
     (let safeType = safe_event_type eventType; payload = (if given = JUndef then JObj [] else given) in
      if payload = JNull then Inl TypeError
      else append_event H fs L path (ledger_action safeType payload) (ledger_decision safeType payload) timestamp
        (JObj [(''eventType'', JStr safeType), (''ledgerPayload'', payload)]))"

text \<open>The five operations, as the payload each appends.\<close>

datatype ledger_op = GrantCreated jval | Revoked jval | LeaseIssued jval | LeaseConsumed jval jval | EffectRecorded jval

fun op_type :: "ledger_op \<Rightarrow> string" where
  "op_type (GrantCreated g) = ''grant.created''"
| "op_type (Revoked r) = ''authority.revoked''"
| "op_type (LeaseIssued l) = ''lease.issued''"
| "op_type (LeaseConsumed l m) = ''lease.consumed''"
| "op_type (EffectRecorded e) = ''effect.recorded''"

fun op_payload :: "ledger_op \<Rightarrow> jval" where
  "op_payload (GrantCreated g) = JObj [(''grant_id'', jget g ''grant_id''), (''subject_id'', jget (jget g ''subject'') ''id''),
     (''parent_grant_id'', jor (jget g ''parent_grant_id'') JNull)]"
| "op_payload (Revoked r) = r"
| "op_payload (LeaseIssued l) = JObj [(''lease_id'', jget l ''lease_id''), (''decision_id'', jget l ''decision_id''),
     (''principal_id'', jget l ''principal_id'')]"
| "op_payload (LeaseConsumed l m) = JObj [(''lease_id'', jget l ''lease_id''), (''decision_id'', jget l ''decision_id''),
     (''consumed_at'', jget m ''consumed_at'')]"
| "op_payload (EffectRecorded e) = JObj [(''effect_id'', jget e ''effect_id''), (''lease_id'', jget e ''lease_id''),
     (''status'', jget e ''status''), (''observation_quality'', jget e ''observation_quality'')]"

text \<open>The operations that build a payload read the properties of their first argument.\<close>

fun op_reads :: "ledger_op \<Rightarrow> jval option" where
  "op_reads (GrantCreated g) = Some g"
| "op_reads (Revoked r) = None"
| "op_reads (LeaseIssued l) = Some l"
| "op_reads (LeaseConsumed l m) = Some l"
| "op_reads (EffectRecorded e) = Some e"

definition ledger_do :: "host \<Rightarrow> files \<Rightarrow> limits \<Rightarrow> string \<Rightarrow> ledger_op \<Rightarrow> (files \<times> jval) res" where
  "ledger_do H fs L path x =
     (case op_reads x of
        Some v \<Rightarrow> if jnullish v then Inl TypeError
                  else ledger_append H fs L path (JStr (op_type x)) (op_payload x) (JStr (iso_string (now_ms H)))
      | None \<Rightarrow> ledger_append H fs L path (JStr (op_type x)) (op_payload x) (JStr (iso_string (now_ms H))))"

section \<open>The abstract ledger\<close>

text \<open>A ledger is a list of typed payloads; an operation adds one at the end.\<close>

definition ledger_view :: "jval list \<Rightarrow> (jval \<times> jval) list" where
  "ledger_view es = map (\<lambda>e. (jget e ''event_type'', jget e ''ledger_payload'')) es"

definition abstract_do :: "ledger_op \<Rightarrow> (jval \<times> jval) list \<Rightarrow> (jval \<times> jval) list" where
  "abstract_do x view = view @ [(JStr (op_type x), json_clone (op_payload x))]"

definition op_proper :: "ledger_op \<Rightarrow> bool" where
  "op_proper x \<longleftrightarrow> is_obj (op_payload x) \<and> jdistinct (op_payload x)"

lemma safe_event_type_op: "safe_event_type (JStr (op_type x)) = op_type x"
  by (cases x) (simp_all only: op_type.simps; code_simp)+

lemma op_type_truthy: "truthy (JStr (op_type x))"
  by (cases x) simp_all

lemma jdistinct_jor: "jdistinct a \<Longrightarrow> jdistinct b \<Longrightarrow> jdistinct (jor a b)"
  by (simp add: jor_def)

lemma ledger_parts_distinct:
  assumes "jdistinct payload"
  shows "jdistinct (ledger_action t payload)" "jdistinct (ledger_decision t payload)"
    "jdistinct (JObj [(''eventType'', JStr t), (''ledgerPayload'', payload)])"
  using assms by (simp_all add: ledger_action_def ledger_decision_def jdistinct_jor jdistinct_jget)

lemma appended_event_get:
  assumes log: "log_of H L fs path es" and sha: "\<forall>s. sha256_hex H s \<noteq> []"
    and d: "jdistinct action" "jdistinct decision" "jdistinct options"
    and app: "append_event H' fs L path action decision timestamp options = Inr (fs', e)"
    and k: "k = ''event_type'' \<and> k' = ''eventType'' \<or> k = ''ledger_payload'' \<and> k' = ''ledgerPayload''" "truthy (jget options k')"
  shows "jget e k = json_clone (jget options k')"
proof -
  let ?last = "if es = [] then JNull else last es"
  obtain start where st: "jdistinct ?last" by (rule log_lasts [OF log sha])
  obtain lastEvent where rl: "readLastEvent fs path = Inr lastEvent"
    and content: "\<And>K. event_content K lastEvent = event_content K ?last" by (rule readLastEvent_log [OF log]) blast
  obtain t where e: "e = sealed_event H' (json_clone (event_content H' ?last action decision t options))"
    using app unfolding append_event_def rl by (auto simp: res_simps Let_def content split: option.splits)
  let ?c = "event_content H' ?last action decision t options"
  have "jget ?c k = jget options k'"
    using k unfolding event_content_def Let_def when_prop_def by (elim disjE conjE) (simp_all split: if_split)
  moreover have "jget options k' \<noteq> JUndef" using k(2) by auto
  moreover have "k \<noteq> ''hash''" using k(1) by auto
  ultimately show ?thesis
    using jget_clone_cases [OF event_content_jdistinct [OF st d], of H' t k] by (simp add: e sealed_event_def)
qed

section \<open>The property\<close>

text \<open>C16: The ledger refines a list of typed payloads.  Whenever an operation of the ledger returns, on a
  log that earlier operations have written, the new file is a log again, what is read from it is the
  old events with the returned one at the end, and its view as a list is the abstract operation's:
  one more entry, of the operation's type and payload, with nothing before it changed.\<close>

theorem ledger_refines_list:
  assumes "log_of H L fs path es" "\<forall>s. sha256_hex H s \<noteq> []" "op_proper x"
    and "ledger_do (H\<lparr>now_ms := n, fresh_uuid := f\<rparr>) fs L path x = Inr (fs', e)"
  shows "log_of H L fs' path (es @ [e]) \<and> readEvents fs' L path = Inr (es @ [e])
    \<and> ledger_view (es @ [e]) = abstract_do x (ledger_view es)"
proof -
  let ?opts = "JObj [(''eventType'', JStr (op_type x)), (''ledgerPayload'', op_payload x)]"
  note d = ledger_parts_distinct [of "op_payload x" "op_type x"]
  have p: "jdistinct (op_payload x)" "is_obj (op_payload x)" using assms(3) by (simp_all add: op_proper_def)
  have tr: "truthy (jget ?opts ''eventType'')" "truthy (jget ?opts ''ledgerPayload'')"
    using p(2) op_type_truthy by (auto elim: is_obj_cases)
  have app: "append_event (H\<lparr>now_ms := n, fresh_uuid := f\<rparr>) fs L path (ledger_action (op_type x) (op_payload x))
      (ledger_decision (op_type x) (op_payload x)) (JStr (iso_string n)) ?opts = Inr (fs', e)"
    using assms(4) p(2) by (auto simp: ledger_do_def ledger_append_def Let_def safe_event_type_op split: option.splits if_splits)
  have log: "log_of H L fs' path (es @ [e])"
    by (rule append_event_log [OF assms(1,2) d(1-3) app]) (rule p)+
  have "jget e ''event_type'' = json_clone (jget ?opts ''eventType'')"
    by (rule appended_event_get [OF assms(1,2) d(1-3) app _ tr(1)]) (simp_all add: p)
  moreover have "jget e ''ledger_payload'' = json_clone (jget ?opts ''ledgerPayload'')"
    by (rule appended_event_get [OF assms(1,2) d(1-3) app _ tr(2)]) (simp_all add: p)
  ultimately show ?thesis using log readEvents_log [OF log] by (simp add: ledger_view_def abstract_do_def)
qed

definition wit_issued :: ledger_op where
  "wit_issued = LeaseIssued (JObj [(''lease_id'', JStr ''l1''), (''decision_id'', JStr ''d1''), (''principal_id'', JStr ''a'')])"

theorem ledger_refines_list_witness:
  "\<exists>fs' e. readEvents fs' EVIDENCE_RECORDER_LIMITS ''log'' = Inr [e] \<and> ledger_view [e] = abstract_do wit_issued []"
proof -
  let ?H = "wit_recorder\<lparr>now_ms := 1767225600000, fresh_uuid := (\<lambda>n. ''u'')\<rparr>"
  have log: "log_of wit_recorder EVIDENCE_RECORDER_LIMITS (\<lambda>_. None) ''log'' []"
    by (simp add: log_of_def verifyEvidence_def)
  have sha: "\<forall>s. sha256_hex wit_recorder s \<noteq> []" by (simp add: wit_recorder_def)
  have ok: "op_proper wit_issued" by code_simp
  have "case ledger_do ?H (\<lambda>_. None) EVIDENCE_RECORDER_LIMITS ''log'' wit_issued of Inr r \<Rightarrow> True | Inl e \<Rightarrow> False"
    by code_simp
  then obtain fs' e where "ledger_do ?H (\<lambda>_. None) EVIDENCE_RECORDER_LIMITS ''log'' wit_issued = Inr (fs', e)"
    by (auto split: sum.splits)
  from ledger_refines_list [OF log sha ok this] show ?thesis by (auto simp: ledger_view_def)
qed

end
