(* ===== verification/GraphProps.thy ===== *)
theory GraphProps
  imports AuthorityGraph AuthorityProps ApprovalProps
begin

text \<open>
  The properties of authority graphs: the explanation of a node is its ancestry up to the depth
  asked for, and a graph that was built passes the checks its readers make.
\<close>

section \<open>The walk\<close>

definition edge_rel :: "jval list \<Rightarrow> (jval \<times> jval) set" where
  "edge_rel es = (\<lambda>e. (jget e ''from'', jget e ''to'')) ` set es"

definition preds :: "jval list \<Rightarrow> jval set \<Rightarrow> jval set" where
  "preds es X = {a. \<exists>b\<in>X. (a, b) \<in> edge_rel es}"

lemma preds_Cons:
  "preds (e # es) X = (if jget e ''to'' \<in> X then insert (jget e ''from'') (preds es X) else preds es X)"
  by (auto simp: preds_def edge_rel_def)

lemma round_back_sets:
  "round_back F K found es = (K', found') \<Longrightarrow>
     set K' = set K \<union> preds es (set F) \<and> set found' = set found \<union> (preds es (set F) - set K)"
proof (induction F K found es arbitrary: K' found' rule: round_back.induct)
  case (1 F K found)
  then show ?case by (simp add: preds_def edge_rel_def)
next
  case (2 F K found e es)
  show ?case
  proof (cases "jget e ''to'' \<in> set F \<and> jget e ''from'' \<notin> set K")
    case True
    then have "round_back F (K @ [jget e ''from'']) (found @ [jget e ''from'']) es = (K', found')"
      using "2.prems" by simp
    from "2.IH"(1) [OF True this] True show ?thesis by (simp add: preds_Cons) blast
  next
    case False
    then have "round_back F K found es = (K', found')" using "2.prems" by (simp only: round_back.simps if_False)
    from "2.IH"(2) [OF False this] False show ?thesis by (simp only: preds_Cons) (auto split: if_split)
  qed
qed

text \<open>What reaches a set in at most so many steps.\<close>

definition within_steps :: "jval list \<Rightarrow> nat \<Rightarrow> jval set \<Rightarrow> jval set" where
  "within_steps es d X = {a. \<exists>k\<le>d. \<exists>b\<in>X. (a, b) \<in> edge_rel es ^^ k}"

lemma within_steps_0 [simp]: "within_steps es 0 X = X"
  by (auto simp: within_steps_def)

text \<open>When the predecessors of all but the frontier are known, one round is one more step.\<close>

lemma within_steps_round:
  assumes "F \<subseteq> K" "preds es (K - F) \<subseteq> K"
  shows "within_steps es d (K \<union> preds es F) = within_steps es (Suc d) K"
proof
  show "within_steps es d (K \<union> preds es F) \<subseteq> within_steps es (Suc d) K"
  proof
    fix a assume "a \<in> within_steps es d (K \<union> preds es F)"
    then obtain k b where k: "k \<le> d" "(a, b) \<in> edge_rel es ^^ k" "b \<in> K \<union> preds es F" by (auto simp: within_steps_def)
    show "a \<in> within_steps es (Suc d) K"
    proof (cases "b \<in> K")
      case True
      then show ?thesis using k by (auto simp: within_steps_def intro!: exI [of _ k])
    next
      case False
      then obtain c where "c \<in> K" "(b, c) \<in> edge_rel es" using k(3) assms(1) by (auto simp: preds_def)
      then have "(a, c) \<in> edge_rel es ^^ Suc k" using k(2) by auto
      then show ?thesis using k(1) \<open>c \<in> K\<close> unfolding within_steps_def by blast
    qed
  qed
next
  show "within_steps es (Suc d) K \<subseteq> within_steps es d (K \<union> preds es F)"
  proof
    fix a assume "a \<in> within_steps es (Suc d) K"
    then obtain k b where k: "k \<le> Suc d" "(a, b) \<in> edge_rel es ^^ k" "b \<in> K" by (auto simp: within_steps_def)
    show "a \<in> within_steps es d (K \<union> preds es F)"
    proof (cases k)
      case 0
      then show ?thesis using k by (auto simp: within_steps_def intro!: exI [of _ 0])
    next
      case (Suc j)
      then obtain c where c: "(a, c) \<in> edge_rel es ^^ j" "(c, b) \<in> edge_rel es" using k(2) by auto
      have "c \<in> K \<union> preds es F" using c(2) k(3) assms(2) by (cases "b \<in> F") (auto simp: preds_def)
      then show ?thesis using c(1) Suc k(1) unfolding within_steps_def by fastforce
    qed
  qed
qed

lemma within_steps_closed:
  assumes "preds es K \<subseteq> K"
  shows "within_steps es d K = K"
proof (induction d)
  case (Suc d)
  have "within_steps es d (K \<union> preds es {}) = within_steps es (Suc d) K"
    by (rule within_steps_round) (use assms in auto)
  then show ?case using Suc by (simp add: preds_def)
qed simp

theorem reach_back_steps:
  assumes "set F \<subseteq> set K" "preds es (set K - set F) \<subseteq> set K"
  shows "set (reach_back d es F K) = within_steps es d (set K)"
  using assms
proof (induction d arbitrary: F K)
  case (Suc d)
  show ?case
  proof (cases "F = []")
    case True
    then show ?thesis using Suc.prems within_steps_closed [of es "set K" "Suc d"] by simp
  next
    case False
    obtain K' F' where r: "round_back F K [] es = (K', F')" by force
    note s = round_back_sets [OF r]
    have "set K' - set F' \<subseteq> set K" using s by auto
    then have "preds es (set K' - set F') \<subseteq> preds es (set K)" by (auto simp: preds_def)
    also have "\<dots> \<subseteq> set K'" using Suc.prems(2) s by (auto simp: preds_def)
    finally have "set (reach_back d es F' K') = within_steps es d (set K')"
      using s by (intro Suc.IH) auto
    then show ?thesis using False r s within_steps_round [OF Suc.prems] by simp
  qed
qed simp

section \<open>The properties\<close>

definition ancestor_within :: "jval \<Rightarrow> nat \<Rightarrow> jval \<Rightarrow> jval \<Rightarrow> bool" where
  "ancestor_within graph d a b \<longleftrightarrow> (\<exists>k\<le>d. (a, b) \<in> edge_rel (arr_of (jget graph ''edges'')) ^^ k)"

text \<open>C32: The explanation of a node is its ancestry.  \<open>explainAuthorityGraph\<close> returns exactly the nodes from
  which the target is reached along edges in at most the depth asked for (12 when none is asked for,
  32 at most), and calls the explanation complete exactly when none of them has an unresolved
  reference.\<close>

theorem explanation_is_ancestry:
  assumes "explainAuthorityGraph H graph t options = Inr r"
  shows "jget r ''nodes'' = JArr (filter (\<lambda>n. ancestor_within graph (depth_of (jget options ''maxDepth'') 12) (jget n ''node_id'') t)
      (arr_of (jget graph ''nodes'')))
    \<and> (jget r ''complete'' = JBool True \<longleftrightarrow> (\<forall>u\<in>set (arr_of (jget graph ''unresolved_references'')).
        \<not> ancestor_within graph (depth_of (jget options ''maxDepth'') 12) (jget u ''source_node_id'') t))"
proof -
  let ?d = "depth_of (jget options ''maxDepth'') 12" and ?es = "arr_of (jget graph ''edges'')"
  obtain target where f: "find (\<lambda>n. strict_eq (jget n ''node_id'') t) (arr_of (jget graph ''nodes'')) = Some target"
    using assms by (auto simp: explainAuthorityGraph_def checked_graph_def res_simps split: option.splits)
  have t: "jget target ''node_id'' = t" using f by (auto simp: find_Some_iff strict_eq_def)
  have keep: "set (reach_back ?d ?es [t] [t]) = within_steps ?es ?d {t}"
    using reach_back_steps [of "[t]" "[t]" ?es ?d] by (simp add: preds_def)
  have mem: "x \<in> within_steps ?es ?d {t} \<longleftrightarrow> ancestor_within graph ?d x t" for x
    by (auto simp: within_steps_def ancestor_within_def)
  show ?thesis using assms
    by (auto simp: explainAuthorityGraph_def checked_graph_def res_simps f Let_def t keep mem filter_empty_conv)
qed

section \<open>Nothing is dropped\<close>

definition has_node :: "node_table \<Rightarrow> string \<Rightarrow> bool" where
  "has_node nodes k \<longleftrightarrow> map_of nodes k \<noteq> None"

text \<open>A step that keeps the nodes there are, and so does a sequence of them.\<close>

definition keeps_nodes :: "(node_table \<Rightarrow> node_table res) \<Rightarrow> bool" where
  "keeps_nodes f \<longleftrightarrow> (\<forall>ns ns' k. f ns = Inr ns' \<longrightarrow> has_node ns k \<longrightarrow> has_node ns' k)"

lemma keeps_nodes_fold:
  assumes "\<And>x. keeps_nodes (\<lambda>ns. f ns x)"
  shows "keeps_nodes (\<lambda>ns. fold_res f ns xs)"
proof (induction xs)
  case (Cons x xs)
  then show ?case using assms [of x] by (auto simp: keeps_nodes_def res_simps)
qed (simp add: keeps_nodes_def)

lemma fold_res_has:
  assumes "fold_res f s xs = Inr s'" "x \<in> set xs" "\<And>y. keeps_nodes (\<lambda>ns. f ns y)"
    and "\<And>ns ns'. f ns x = Inr ns' \<Longrightarrow> has_node ns' k"
  shows "has_node s' k"
  using assms(1,2)
proof (induction xs arbitrary: s)
  case (Cons y ys)
  then obtain m where m: "f s y = Inr m" "fold_res f m ys = Inr s'" by (auto simp: res_simps)
  show ?case
  proof (cases "x = y")
    case True
    then show ?thesis using m assms(4) keeps_nodes_fold [of f ys, OF assms(3)] by (auto simp: keeps_nodes_def)
  next
    case False
    then show ?thesis using Cons m by simp
  qed
qed simp

lemma addNode_keeps: "keeps_nodes (\<lambda>ns. addNode ns n)"
  by (auto simp: keeps_nodes_def has_node_def addNode_def Let_def res_simps update_conv' split: option.splits if_splits)

lemma add_graph_node_keeps: "keeps_nodes (add_graph_node H kind ref data)"
  using addNode_keeps by (auto simp: keeps_nodes_def add_graph_node_def res_simps)

lemma add_graph_node_has:
  "add_graph_node H kind ref data ns = Inr ns' \<Longrightarrow> has_node ns' (graph_id_of kind (cleanString H ref 256))"
  by (auto simp: add_graph_node_def graph_node_def addNode_def has_node_def Let_def res_simps update_conv'
      split: option.splits if_splits)

lemma keeps_nodes_bind:
  "keeps_nodes f \<Longrightarrow> keeps_nodes g \<Longrightarrow> keeps_nodes (\<lambda>ns. bind_res (f ns) g)"
  by (auto simp: keeps_nodes_def res_simps)

lemma keeps_nodes_guarded: "keeps_nodes f \<Longrightarrow> keeps_nodes (\<lambda>ns. invalid_record w v i e (f ns))"
  by (auto simp: keeps_nodes_def invalid_record_def res_simps)

lemma keeps_nodes_if: "keeps_nodes f \<Longrightarrow> keeps_nodes (\<lambda>ns. if b then f ns else Inr ns)"
  by (auto simp: keeps_nodes_def)

lemma keeps_nodes_after: "(\<And>a. keeps_nodes (f a)) \<Longrightarrow> keeps_nodes (\<lambda>ns. bind_res c (\<lambda>a. f a ns))"
  by (auto simp: keeps_nodes_def res_simps)

lemma steps_keep:
  "keeps_nodes (\<lambda>ns. add_grant H ns v)" "keeps_nodes (\<lambda>ns. add_envelope H ns v)" "keeps_nodes (\<lambda>ns. add_decision H ns v)"
  "keeps_nodes (\<lambda>ns. add_approval H ns v)" "keeps_nodes (\<lambda>ns. add_lease H ns v)" "keeps_nodes (\<lambda>ns. add_effect H ns v)"
  unfolding add_grant_def add_envelope_def add_decision_def add_approval_def add_lease_def add_effect_def Let_def
  by (intro keeps_nodes_guarded keeps_nodes_bind keeps_nodes_fold keeps_nodes_if keeps_nodes_after add_graph_node_keeps)+

lemma grant_has_node:
  assumes "graph_nodes H input = Inr nodes" "g \<in> set (arr_of (jget input ''grants''))"
  shows "has_node nodes (graph_id_of ''grant'' (cleanString H (jget g ''grant_id'') 256))"
proof -
  let ?k = "graph_id_of ''grant'' (cleanString H (jget g ''grant_id'') 256)"
  obtain n1 where n1: "fold_res (add_grant H) [] (arr_of (jget input ''grants'')) = Inr n1"
    using assms(1) by (auto simp: graph_nodes_def Let_def res_simps)
  have "has_node n1 ?k"
  proof (rule fold_res_has [OF n1 assms(2) steps_keep(1)])
    show "add_grant H ns g = Inr ns' \<Longrightarrow> has_node ns' ?k" for ns ns'
      by (auto simp: add_grant_def invalid_record_def res_simps dest: add_graph_node_has)
  qed
  then show ?thesis
    using assms(1) n1 keeps_nodes_fold [of "add_envelope H", OF steps_keep(2)] keeps_nodes_fold [of "add_decision H", OF steps_keep(3)]
      keeps_nodes_fold [of "add_approval H", OF steps_keep(4)] keeps_nodes_fold [of "add_lease H", OF steps_keep(5)]
      keeps_nodes_fold [of "add_effect H", OF steps_keep(6)]
    unfolding keeps_nodes_def by (auto simp: graph_nodes_def Let_def res_simps)
qed

text \<open>Links are only added.\<close>

definition links_le :: "links \<Rightarrow> links \<Rightarrow> bool" where
  "links_le a b \<longleftrightarrow> set (lk_edges a) \<subseteq> set (lk_edges b) \<and> set (lk_unresolved a) \<subseteq> set (lk_unresolved b)"

lemma links_le_refl [simp]: "links_le a a"
  by (simp add: links_le_def)

lemma links_le_trans: "links_le a b \<Longrightarrow> links_le b c \<Longrightarrow> links_le a c"
  by (auto simp: links_le_def)

lemma link_after: "links_le a b \<Longrightarrow> links_le a (link H nodes sk sr rel tk tr b)"
  by (rule links_le_trans) (auto simp: links_le_def link_def Let_def)

lemma fold_after:
  assumes "links_le a b" "\<And>x ls. links_le ls (f x ls)"
  shows "links_le a (fold f xs b)"
  using assms(1)
proof (induction xs arbitrary: b)
  case (Cons x xs)
  have "links_le a (f x b)" using links_le_trans [OF Cons.prems assms(2)] .
  then show ?case using Cons.IH by simp
qed simp

lemma link_steps_le:
  "links_le ls (link_grant H nodes v ls)" "links_le ls (link_envelope H nodes v ls)" "links_le ls (link_decision H nodes v ls)"
  "links_le ls (link_approval H nodes v ls)" "links_le ls (link_lease H nodes v ls)" "links_le ls (link_effect H nodes v ls)"
  unfolding link_grant_def link_envelope_def link_decision_def link_approval_def link_lease_def link_effect_def Let_def
  by (intro link_after fold_after links_le_refl; simp add: link_after split: prod.split)+

lemma fold_has:
  assumes "x \<in> set xs" "\<And>y ls. links_le ls (f y ls)" "\<And>ls. P (f x ls)" "\<And>a b. P a \<Longrightarrow> links_le a b \<Longrightarrow> P b"
  shows "P (fold f xs s)"
  using assms(1)
proof (induction xs arbitrary: s)
  case (Cons y ys)
  show ?case
  proof (cases "x = y")
    case True
    have "links_le (f y s) (fold f ys (f y s))" using fold_after [OF links_le_refl assms(2)] .
    moreover have "P (f y s)" using assms(3) True by simp
    ultimately have "P (fold f ys (f y s))" by (rule assms(4) [rotated])
    then show ?thesis by simp
  next
    case False
    then show ?thesis using Cons by simp
  qed
qed simp

text \<open>The delegation of a grant, as an edge or as a missing source.\<close>

definition delegation_edge :: "host \<Rightarrow> jval \<Rightarrow> jval" where
  "delegation_edge H g = graph_edge H (graph_id_of ''grant'' (jget g ''parent_grant_id'')) ''delegates_to''
     (graph_id_of ''grant'' (jget g ''grant_id''))"

definition missing_parent :: "jval \<Rightarrow> jval" where
  "missing_parent g = unresolved_ref (graph_id_of ''grant'' (jget g ''grant_id'')) ''missing_source:delegates_to'' ''grant''
     (to_str (jget g ''parent_grant_id''))"

definition delegation_kept :: "host \<Rightarrow> jval \<Rightarrow> links \<Rightarrow> bool" where
  "delegation_kept H g ls \<longleftrightarrow> delegation_edge H g \<in> set (lk_edges ls) \<or> missing_parent g \<in> set (lk_unresolved ls)"

lemma delegation_kept_mono: "delegation_kept H g a \<Longrightarrow> links_le a b \<Longrightarrow> delegation_kept H g b"
  by (auto simp: delegation_kept_def links_le_def)

lemma link_grant_kept:
  assumes "has_node nodes (graph_id_of ''grant'' (jget g ''grant_id''))" "truthy (jget g ''parent_grant_id'')" "truthy (jget g ''grant_id'')"
  shows "delegation_kept H g (link_grant H nodes g ls)"
proof -
  have "delegation_kept H g (link H nodes ''grant'' (jget g ''parent_grant_id'') ''delegates_to'' ''grant'' (jget g ''grant_id'') l)" for l
    using assms by (auto simp: link_def delegation_kept_def delegation_edge_def missing_parent_def has_node_def Let_def)
  from delegation_kept_mono [OF this] show ?thesis unfolding link_grant_def Let_def
    by this (rule fold_after, rule links_le_refl, rule link_after, rule links_le_refl)
qed

lemma graph_links_kept:
  assumes "g \<in> set (arr_of (jget input ''grants''))" "has_node nodes (graph_id_of ''grant'' (jget g ''grant_id''))"
    and "truthy (jget g ''parent_grant_id'')" "truthy (jget g ''grant_id'')"
  shows "delegation_kept H g (graph_links H input nodes)"
proof -
  have "delegation_kept H g (fold (link_grant H nodes) (arr_of (jget input ''grants'')) ls)" for ls
  proof (rule fold_has [where P = "delegation_kept H g"])
    show "g \<in> set (arr_of (jget input ''grants''))" by (rule assms(1))
    show "links_le ls (link_grant H nodes y ls)" for y ls by (rule link_steps_le)
    show "delegation_kept H g (link_grant H nodes g ls)" for ls by (rule link_grant_kept [OF assms(2-4)])
  qed (rule delegation_kept_mono)
  then show ?thesis unfolding graph_links_def Let_def
    by (rule delegation_kept_mono) (rule fold_after, rule fold_after, rule fold_after, rule fold_after, rule fold_after,
      rule links_le_refl, (rule link_steps_le)+)
qed

lemma last_by_key_has:
  assumes "x \<in> set xs"
  shows "\<exists>y\<in>set (last_by_key key xs). key y = key x"
proof -
  have keyed: "\<forall>(k, y)\<in>set m. k = key y \<Longrightarrow> \<forall>(k, y)\<in>set (fold (\<lambda>x. AList.update (key x) x) xs m). k = key y" for m
  proof (induction xs arbitrary: m)
    case (Cons x xs)
    have "\<forall>(k, y)\<in>set (AList.update (key x) x m). k = key y"
      using Cons.prems by (induction m) (auto split: if_splits)
    then show ?case using Cons.IH by simp
  qed simp
  have "key x \<in> fst ` set (fold (\<lambda>x. AList.update (key x) x) xs m)" for m
    using assms
  proof (induction xs arbitrary: m)
    case (Cons z zs)
    have stay: "k \<in> fst ` set m \<Longrightarrow> k \<in> fst ` set (fold (\<lambda>x. AList.update (key x) x) zs m)" for k m
      by (induction zs arbitrary: m) (auto simp: dom_update [symmetric] dom_map_of_conv_image_fst [symmetric] update_conv')
    show ?case
    proof (cases "x = z")
      case True
      have "key z \<in> fst ` set (AList.update (key z) z m)"
        by (simp add: dom_map_of_conv_image_fst [symmetric] update_conv')
      then show ?thesis using True stay by simp
    next
      case False
      then show ?thesis using Cons by simp
    qed
  qed simp
  then obtain p where p: "p \<in> set (fold (\<lambda>x. AList.update (key x) x) xs [])" "fst p = key x" by force
  then have "key (snd p) = key x" using keyed [of "[]"] by (cases p) auto
  then show ?thesis using p(1) by (auto simp: last_by_key_def)
qed

lemma set_sort_text [simp]: "set (sort_text H key xs) = set xs"
  by (simp add: sort_text_def)

text \<open>C31: No delegation of a grant with a clean id is dropped from the authority graph; an id is clean when \<open>cleanString\<close>
  leaves it as it is: in NFKC form, without surrounding blanks, of at most 256 characters.  When
  \<open>buildAuthorityGraph\<close> succeeds, every such grant of its input with a parent has the edge from the parent, under
  the digest that identifies it, or an unresolved reference that names the parent; and the graph it returns
  passes the validation and the digest check of its readers.\<close>

theorem delegations_accounted:
  assumes "buildAuthorityGraph H input options = Inr graph" "g \<in> set (arr_of (jget input ''grants''))"
    and "truthy (jget g ''parent_grant_id'')" "truthy (jget g ''grant_id'')" "cleanString H (jget g ''grant_id'') 256 = jget g ''grant_id''"
  shows "((\<exists>e\<in>set (arr_of (jget graph ''edges'')). str_field ''edge_id'' e = str_field ''edge_id'' (delegation_edge H g))
      \<or> (\<exists>u\<in>set (arr_of (jget graph ''unresolved_references'')). canonicalStringify u = canonicalStringify (missing_parent g)))
    \<and> validateAuthorityGraph graph = [] \<and> verifyAuthorityGraphDigest H graph"
proof -
  obtain nodes where n: "graph_nodes H input = Inr nodes" using assms(1) by (auto simp: buildAuthorityGraph_def res_simps)
  let ?ls = "graph_links H input nodes"
  let ?draft = "assemble_graph H options nodes ?ls"
  have g: "graph = jset ?draft ''graph_id'' (JStr (canonicalDigest H (authorityGraphDigestPayload ?draft)))"
    and v: "validateAuthorityGraph graph = []"
    using assms(1) n by (auto simp: buildAuthorityGraph_def res_simps Let_def)
  have get: "arr_of (jget graph ''edges'') = sort_text H (str_field ''edge_id'') (last_by_key (str_field ''edge_id'') (lk_edges ?ls))"
    "arr_of (jget graph ''unresolved_references'')
      = sort_text H canonicalStringify (last_by_key canonicalStringify (lk_unresolved ?ls))"
    by (simp_all add: g assemble_graph_def)
  have "has_node nodes (graph_id_of ''grant'' (jget g ''grant_id''))"
    using grant_has_node [OF n assms(2)] assms(5) by simp
  from graph_links_kept [OF assms(2) this assms(3,4)]
  have "(\<exists>e\<in>set (arr_of (jget graph ''edges'')). str_field ''edge_id'' e = str_field ''edge_id'' (delegation_edge H g))
      \<or> (\<exists>u\<in>set (arr_of (jget graph ''unresolved_references'')). canonicalStringify u = canonicalStringify (missing_parent g))"
    unfolding delegation_kept_def get set_sort_text using last_by_key_has by blast
  moreover have "authorityGraphDigestPayload graph = authorityGraphDigestPayload ?draft"
    by (simp add: g authorityGraphDigestPayload_def plain_field_def)
  then have "verifyAuthorityGraphDigest H graph" by (simp add: verifyAuthorityGraphDigest_def g)
  ultimately show ?thesis using v by blast
qed

section \<open>A concrete graph\<close>

definition wit_graph_input :: jval where
  "wit_graph_input = JObj [(''grants'', JArr [wit_child])]"

definition wit_graph :: "jval \<Rightarrow> jval res" where
  "wit_graph options = buildAuthorityGraph wit_approvals wit_graph_input options"

lemma wit_graph_explained:
  "\<exists>graph r. wit_graph (JObj []) = Inr graph \<and> explainAuthorityGraph wit_approvals graph (JStr ''grant:g2'') (JObj []) = Inr r"
proof -
  have e: "case wit_graph (JObj []) of Inl e \<Rightarrow> False
    | Inr graph \<Rightarrow> (case explainAuthorityGraph wit_approvals graph (JStr ''grant:g2'') (JObj []) of Inr r \<Rightarrow> True | Inl e \<Rightarrow> False)"
    by code_simp
  then obtain graph where g: "wit_graph (JObj []) = Inr graph" by (cases "wit_graph (JObj [])") auto
  then obtain r where "explainAuthorityGraph wit_approvals graph (JStr ''grant:g2'') (JObj []) = Inr r"
    using e by (cases "explainAuthorityGraph wit_approvals graph (JStr ''grant:g2'') (JObj [])") auto
  then show ?thesis using g by blast
qed

theorem delegations_accounted_witness:
  "\<exists>graph. wit_graph (JObj []) = Inr graph \<and> validateAuthorityGraph graph = [] \<and> verifyAuthorityGraphDigest wit_approvals graph"
proof -
  obtain graph where g: "wit_graph (JObj []) = Inr graph" using wit_graph_explained by blast
  have "cleanString wit_approvals (jget wit_child ''grant_id'') 256 = jget wit_child ''grant_id''"
    and "truthy (jget wit_child ''parent_grant_id'')" "truthy (jget wit_child ''grant_id'')"
    by code_simp+
  then show ?thesis using g delegations_accounted [of wit_approvals wit_graph_input "JObj []" graph wit_child]
    by (simp add: wit_graph_def wit_graph_input_def)
qed

theorem explanation_is_ancestry_witness:
  "\<exists>graph r. wit_graph (JObj []) = Inr graph \<and> explainAuthorityGraph wit_approvals graph (JStr ''grant:g2'') (JObj []) = Inr r
     \<and> jget r ''nodes'' = JArr (filter (\<lambda>n. ancestor_within graph 12 (jget n ''node_id'') (JStr ''grant:g2'')) (arr_of (jget graph ''nodes'')))"
proof -
  obtain graph r where g: "wit_graph (JObj []) = Inr graph"
    and r: "explainAuthorityGraph wit_approvals graph (JStr ''grant:g2'') (JObj []) = Inr r"
    using wit_graph_explained by blast
  have "depth_of (jget (JObj []) ''maxDepth'') 12 = 12" by code_simp
  then show ?thesis using explanation_is_ancestry [OF r] g r by auto
qed

end
