(* ===== verification/EvidenceGraph.thy ===== *)
theory EvidenceGraph
  imports AuthorityGraph
begin

text \<open>
  The evidence graph, \<^verbatim>\<open>packages/core/src/evidence/graph.js\<close>: the authority graph of a run joined with the
  events of its log.  Every event is a node linked to the decision, approval, effect and authority
  objects it mentions, every effect is linked to the adapter that observed it, and a lease that was
  consumed without an effect receipt is reported as an unresolved reference.
\<close>

section \<open>Helpers\<close>

definition time_keys :: "string \<Rightarrow> string list" where
  "time_keys kind =
     (if kind = ''effect'' then [''completed_at'', ''started_at'']
      else if kind = ''approval'' then [''decided_at'', ''requested_at'']
      else if kind = ''decision'' then [''evaluated_at'']
      else [''issued_at'', ''timestamp'', ''not_before''])"

definition occurredAt :: "string \<Rightarrow> jval \<Rightarrow> jval" where
  "occurredAt kind data =
     (case filter truthy (map (\<lambda>k. cleanTime (jget data k)) (time_keys kind)) of [] \<Rightarrow> JNull | v # _ \<Rightarrow> v)"

definition receipt_of :: "jval \<Rightarrow> jval" where
  "receipt_of event = jget (jget event ''decision'') ''receipt''"

definition bound_field :: "jval \<Rightarrow> string \<Rightarrow> jval" where
  "bound_field event k = jor (jget event k) (jget (receipt_of event) k)"

definition safeEventData :: "host \<Rightarrow> jval \<Rightarrow> jval" where
  "safeEventData H event =
     JObj [(''index'', jget event ''index''),
       (''schema_version'', cleanString H (jget event ''schema_version'') 32),
       (''event_type'', cleanString H (jget event ''event_type'') 128),
       (''hash'', cleanString H (jget event ''hash'') 128),
       (''previous_hash'', cleanString H (jget event ''previousHash'') 128),
       (''decision_id'', cleanString H (bound_field event ''decision_id'') 256),
       (''action_digest'', cleanString H (bound_field event ''action_digest'') 256),
       (''policy_digest'', cleanString H (bound_field event ''policy_digest'') 256),
       (''effect_id'', cleanString H (jget (jget event ''effect_receipt'') ''effect_id'') 256),
       (''action_type'', cleanString H (jget (jget event ''action'') ''type'') 128)]"

definition eventRef :: "host \<Rightarrow> jval \<Rightarrow> jval" where
  "eventRef H event =
     jor (cleanString H (jget event ''event_id'') 256) (JStr (''index-'' @ to_str (jget event ''index'')))"

definition add_evidence_node :: "node_table \<Rightarrow> jval \<Rightarrow> node_table res" where
  "add_evidence_node nodes n =
     (let nid = str_of (jget n ''node_id'') in
      case map_of nodes nid of
        None \<Rightarrow> Inr (nodes @ [(nid, n)])
      | Some prior \<Rightarrow>
          throw_if (canonicalStringify prior \<noteq> canonicalStringify n) (''conflicting evidence graph node: '' @ nid) (Inr nodes))"

definition addUnresolved :: "host \<Rightarrow> string \<Rightarrow> string \<Rightarrow> string \<Rightarrow> jval \<Rightarrow> links \<Rightarrow> links" where
  "addUnresolved H source relation targetKind targetRef ls =
     (let r = cleanString H targetRef 256 in
      if \<not> truthy r then ls
      else ls\<lparr>lk_unresolved := lk_unresolved ls @ [unresolved_ref source relation targetKind (to_str r)]\<rparr>)"

definition evidenceGraphDigestPayload :: "jval \<Rightarrow> jval" where
  "evidenceGraphDigestPayload graph =
     JObj (map (plain_field graph) [''evidence_graph_version'', ''source'', ''nodes'', ''edges'', ''unresolved_references''])"

definition verifyEvidenceGraphDigest :: "host \<Rightarrow> jval \<Rightarrow> bool" where
  "verifyEvidenceGraphDigest H graph \<longleftrightarrow>
     jget graph ''graph_id'' = JStr (canonicalDigest H (evidenceGraphDigestPayload graph))"

section \<open>Events\<close>

definition has_ref :: "node_table \<Rightarrow> string \<Rightarrow> jval \<Rightarrow> bool" where
  "has_ref nodes kind ref \<longleftrightarrow> map_of nodes (graph_id_of kind ref) \<noteq> None"

definition link_event :: "host \<Rightarrow> node_table \<Rightarrow> string \<Rightarrow> string \<Rightarrow> string \<Rightarrow> jval \<Rightarrow> links \<Rightarrow> links" where
  "link_event H nodes a relation targetKind targetRef ls =
     (if \<not> truthy targetRef \<or> map_of nodes a = None then ls
      else if has_ref nodes targetKind targetRef
      then ls\<lparr>lk_edges := lk_edges ls @ [graph_edge H a relation (graph_id_of targetKind targetRef)]\<rparr>
      else addUnresolved H a relation targetKind targetRef ls)"

definition PAYLOAD_LINKS :: "(string \<times> string \<times> string) list" where
  "PAYLOAD_LINKS =
     [(''grant_id'', ''grant'', ''records_grant''), (''envelope_id'', ''envelope'', ''records_envelope''),
      (''lease_id'', ''lease'', ''records_lease''), (''effect_id'', ''effect'', ''records_effect''),
      (''decision_id'', ''decision'', ''records_decision''), (''approval_id'', ''approval'', ''records_approval'')]"

definition link_payload :: "host \<Rightarrow> node_table \<Rightarrow> string \<Rightarrow> jval \<Rightarrow> string \<times> string \<times> string \<Rightarrow> links \<Rightarrow> links" where
  "link_payload H nodes a payload p ls =
     (case p of (key, kind, relation) \<Rightarrow>
        if is_str (jget payload key) then link_event H nodes a relation kind (jget payload key) ls else ls)"

text \<open>What an event mentions; the approval is looked up in the decision and its receipt.\<close>

definition link_mentions :: "host \<Rightarrow> node_table \<Rightarrow> string \<Rightarrow> jval \<Rightarrow> links \<Rightarrow> links" where
  "link_mentions H nodes a event ls =
     (let d = jget event ''decision'';
          approval = jor (jor (jget d ''approval_id'') (jget d ''approvalId'')) (jget (receipt_of event) ''approval_id'');
          l1 = link_event H nodes a ''records_decision'' ''decision'' (bound_field event ''decision_id'') ls;
          l2 = link_event H nodes a ''records_approval'' ''approval'' approval l1;
          l3 = link_event H nodes a ''records_effect'' ''effect'' (jget (jget event ''effect_receipt'') ''effect_id'') l2
      in fold (link_payload H nodes a (jget event ''ledger_payload'')) PAYLOAD_LINKS l3)"

definition event_node :: "host \<Rightarrow> jval \<Rightarrow> jval" where
  "event_node H event =
     (let ref = eventRef H event in
      JObj [(''node_id'', JStr (graph_id_of ''recorder_event'' ref)), (''kind'', JStr ''recorder_event''), (''ref_id'', ref),
        (''occurred_at'', cleanTime (jget event ''timestamp'')), (''data'', safeEventData H event)])"

definition add_event :: "host \<Rightarrow> node_table \<times> links \<Rightarrow> jval \<Rightarrow> (node_table \<times> links) res" where
  "add_event H st event =
     (case st of (nodes, ls) \<Rightarrow>
      bind_res (add_evidence_node nodes (event_node H event)) (\<lambda>nodes'.
        Inr (nodes', link_mentions H nodes' (graph_id_of ''recorder_event'' (eventRef H event)) event ls)))"

section \<open>Effects and leases\<close>

definition effect_nodes :: "node_table \<Rightarrow> jval list" where
  "effect_nodes nodes = filter (\<lambda>n. jget n ''kind'' = JStr ''effect'') (map snd nodes)"

definition lease_of :: "host \<Rightarrow> jval \<Rightarrow> jval" where
  "lease_of H v = cleanString H (jget v ''lease_id'') 256"

definition add_adapter :: "host \<Rightarrow> node_table \<times> links \<Rightarrow> jval \<Rightarrow> (node_table \<times> links) res" where
  "add_adapter H st effect =
     (case st of (nodes, ls) \<Rightarrow>
      let data = jget effect ''data''; adapter = jor (cleanString H (jget data ''adapter'') 256) (JStr ''unknown-adapter'');
          b = graph_id_of ''adapter'' adapter; lease = lease_of H data in
      bind_res (add_evidence_node nodes (JObj [(''node_id'', JStr b), (''kind'', JStr ''adapter''), (''ref_id'', adapter),
          (''occurred_at'', JNull), (''data'', JObj [(''adapter_id'', adapter)])])) (\<lambda>nodes'.
        Inr (nodes', ls\<lparr>lk_edges := lk_edges ls
          @ (if truthy lease \<and> has_ref nodes' ''lease'' lease
             then [graph_edge H (graph_id_of ''lease'' lease) ''executes_through'' b] else [])
          @ [graph_edge H b ''observes_effect'' (str_of (jget effect ''node_id''))]\<rparr>)))"

definition leases_with_effect :: "host \<Rightarrow> node_table \<Rightarrow> jval list" where
  "leases_with_effect H nodes = filter truthy (map (\<lambda>n. lease_of H (jget n ''data'')) (effect_nodes nodes))"

definition flag_consumed :: "host \<Rightarrow> node_table \<Rightarrow> jval \<Rightarrow> links \<Rightarrow> links" where
  "flag_consumed H nodes event ls =
     (let lease = lease_of H (jget event ''ledger_payload'') in
      if jget event ''event_type'' = JStr ''lease.consumed'' \<and> truthy lease \<and> has_ref nodes ''lease'' lease
         \<and> lease \<notin> set (leases_with_effect H nodes)
      then addUnresolved H (graph_id_of ''lease'' lease) ''consumed_without_effect_receipt'' ''effect''
             (JStr (''lease-'' @ to_str lease)) ls
      else ls)"

section \<open>Building the graph\<close>

definition timed_node :: "jval \<Rightarrow> jval" where
  "timed_node n = jset (json_clone n) ''occurred_at'' (occurredAt (str_of (jget n ''kind'')) (jget n ''data''))"

text \<open>The nodes and the links of the graph before they are sorted.\<close>

definition evidence_parts :: "host \<Rightarrow> jval \<Rightarrow> jval list \<Rightarrow> (node_table \<times> links) res" where
  "evidence_parts H authorityGraph events =
     bind_res (fold_res add_evidence_node [] (map timed_node (arr_of (jget authorityGraph ''nodes'')))) (\<lambda>n0.
     bind_res (fold_res (add_event H) (n0, \<lparr>lk_edges = map json_clone (arr_of (jget authorityGraph ''edges'')),
         lk_unresolved = map json_clone (arr_of (jget authorityGraph ''unresolved_references''))\<rparr>) events) (\<lambda>st.
     bind_res (fold_res (add_adapter H) st (effect_nodes (fst st))) (\<lambda>st'.
       Inr (fst st', fold (flag_consumed H (fst st')) events (snd st')))))"

definition assemble_evidence_graph :: "host \<Rightarrow> jval \<Rightarrow> jval \<Rightarrow> jval list \<Rightarrow> node_table \<Rightarrow> links \<Rightarrow> jval" where
  "assemble_evidence_graph H options authorityGraph events nodes ls =
     JObj [(''evidence_graph_version'', JStr ''1.0''), (''graph_id'', JStr []),
       (''generated_at'', if truthy (jget options ''generatedAt'') then cleanTime (jget options ''generatedAt'') else JNull),
       (''source'', JObj [(''authority_graph_id'', jget authorityGraph ''graph_id''), (''evidence_event_count'', JNum (int (length events))),
          (''evidence_chain_final_hash'', if events = [] then JStr GENESIS_HASH else jor (jget (last events) ''hash'') (JStr GENESIS_HASH)),
          (''evidence_verified'', JBool True)]),
       (''nodes'', JArr (sort_text H (str_field ''node_id'') (map snd nodes))),
       (''edges'', JArr (sort_text H (str_field ''edge_id'') (last_by_key (str_field ''edge_id'') (lk_edges ls)))),
       (''unresolved_references'', JArr (sort_text H canonicalStringify (last_by_key canonicalStringify (lk_unresolved ls))))]"

definition buildEvidenceGraph :: "host \<Rightarrow> jval \<Rightarrow> jval \<Rightarrow> jval res" where
  "buildEvidenceGraph H input options =
     (let ag = jget input ''authorityGraph''; events = arr_of (jget input ''events''); av = validateAuthorityGraph ag in
      throw_if (av \<noteq> []) (''invalid authority graph for evidence graph: '' @ join_errors av)
     (throw_if (\<not> verifyAuthorityGraphDigest H ag) ''authority graph digest mismatch''
     (bind_res (verifyEvidence H events) (\<lambda>errors.
      throw_if (errors \<noteq> []) (''evidence chain verification failed: '' @ join_errors errors)
     (bind_res (evidence_parts H ag events) (\<lambda>parts.
      let draft = assemble_evidence_graph H options ag events (fst parts) (snd parts);
          graph = jset draft ''graph_id'' (JStr (canonicalDigest H (evidenceGraphDigestPayload draft))) in
      throw_if (truthy (jget options ''generatedAt'') \<and> \<not> truthy (jget draft ''generated_at''))
        ''evidence graph generatedAt must be a valid date-time''
     (throw_if (validateEvidenceGraph graph \<noteq> []) (''invalid evidence graph: '' @ join_errors (validateEvidenceGraph graph))
     (Inr graph))))))))"

section \<open>Queries\<close>

definition assertGraph :: "host \<Rightarrow> jval \<Rightarrow> 'a res \<Rightarrow> 'a res" where
  "assertGraph H graph k =
     throw_if (validateEvidenceGraph graph \<noteq> []) (''invalid evidence graph: '' @ join_errors (validateEvidenceGraph graph))
    (throw_if (\<not> verifyEvidenceGraphDigest H graph) ''evidence graph digest mismatch'' k)"

definition node_time :: "jval \<Rightarrow> int option" where
  "node_time n = date_parse (to_str (jget n ''occurred_at''))"

text \<open>\<open>from === null || t >= from\<close>: a comparison with an invalid date is false.\<close>

definition bound_holds :: "(int \<Rightarrow> int \<Rightarrow> bool) \<Rightarrow> jval \<Rightarrow> jval \<Rightarrow> bool" where
  "bound_holds le bound n \<longleftrightarrow>
     \<not> truthy bound \<or> (case (node_time n, date_parse (to_str bound)) of (Some t, Some b) \<Rightarrow> le b t | _ \<Rightarrow> False)"

definition timeline_le :: "host \<Rightarrow> jval \<Rightarrow> jval \<Rightarrow> bool" where
  "timeline_le H a b =
     (case (node_time a, node_time b) of
        (Some s, Some t) \<Rightarrow> if s = t then locale_compare H (str_field ''node_id'' a) (str_field ''node_id'' b) \<le> 0 else s < t
      | _ \<Rightarrow> locale_compare H (str_field ''node_id'' a) (str_field ''node_id'' b) \<le> 0)"

definition timeline_limit :: "jval \<Rightarrow> nat" where
  "timeline_limit v = nat (if is_int v then max 1 (min (num_of v) 5000) else 5000)"

definition queryEvidenceTimeline :: "host \<Rightarrow> jval \<Rightarrow> jval \<Rightarrow> jval res" where
  "queryEvidenceTimeline H graph query =
     assertGraph H graph
    (let kind = jget query ''kind''; after = jget query ''from''; before = jget query ''to'' in
     throw_if (truthy kind \<and> \<not> one_of EVIDENCE_GRAPH_NODE_KINDS kind) ''evidence timeline kind is invalid''
    (throw_if (truthy after \<and> date_parse (to_str after) = None) ''evidence timeline from must be a valid date-time''
    (throw_if (truthy before \<and> date_parse (to_str before) = None) ''evidence timeline to must be a valid date-time''
    (let nodes = sort_by (timeline_le H)
           (filter (\<lambda>n. truthy (jget n ''occurred_at'') \<and> bound_holds (\<lambda>b t. b \<le> t) after n \<and> bound_holds (\<lambda>b t. t \<le> b) before n)
             (keep_if (jget query ''refId'') (\<lambda>n. strict_eq (jget n ''ref_id'') (jget query ''refId''))
             (keep_if kind (\<lambda>n. strict_eq (jget n ''kind'') kind) (arr_of (jget graph ''nodes'')))));
         limit = timeline_limit (jget query ''limit'') in
     Inr (JObj [(''graph_id'', jget graph ''graph_id''), (''items'', JArr (take limit nodes)),
       (''truncated'', JBool (length nodes > limit))])))))"

definition traceEvidenceGraph :: "host \<Rightarrow> jval \<Rightarrow> jval \<Rightarrow> jval \<Rightarrow> jval res" where
  "traceEvidenceGraph H graph targetNodeId options =
     assertGraph H graph
    (case find (\<lambda>n. strict_eq (jget n ''node_id'') targetNodeId) (arr_of (jget graph ''nodes'')) of
       None \<Rightarrow> Inl (Error (''evidence graph node not found: '' @ to_str targetNodeId))
     | Some target \<Rightarrow>
         let start = [jget target ''node_id''];
             keep = reach_back (depth_of (jget options ''maxDepth'') 16) (arr_of (jget graph ''edges'')) start start;
             nodes = filter (\<lambda>n. jget n ''node_id'' \<in> set keep) (arr_of (jget graph ''nodes''));
             edges = filter (\<lambda>e. jget e ''from'' \<in> set keep \<and> jget e ''to'' \<in> set keep) (arr_of (jget graph ''edges''));
             unresolved = filter (\<lambda>r. jget r ''source_node_id'' \<in> set keep) (arr_of (jget graph ''unresolved_references''));
             count = (\<lambda>xs. int_str (int (length xs))) in
         Inr (JObj [(''graph_id'', jget graph ''graph_id''), (''target'', json_clone target), (''nodes'', JArr nodes),
           (''edges'', JArr edges), (''unresolved_references'', JArr unresolved), (''complete'', JBool (unresolved = [])),
           (''summary'', JStr (''Evidence trace for '' @ to_str (jget target ''kind'') @ '' '' @ to_str (jget target ''ref_id'') @ '': ''
              @ count nodes @ '' node(s), '' @ count edges @ '' relationship(s), '' @ count unresolved @ '' unresolved reference(s).''))]))"

end
