(* ===== verification/CrashLab.thy ===== *)
theory CrashLab
  imports ProtocolCrashLab Recorder
begin

text \<open>
  The synthetic fault runner, \<^verbatim>\<open>packages/core/src/crashlab/index.js\<close>, for scenarios of the versions 1 and 2: a
  target that counts its effects, a retry loop in which one fault is injected, and the checks of what was observed
  against what the scenario expects.  \<open>authorize\<close> is the callback of the caller, a function of the attempt and the
  request that returns or throws a value of any shape; a run is the record of what the loop has counted.  The loops
  are the \<open>while (attempts < maxAttempts)\<close> of the code, with the count of attempts as an argument.
\<close>

section \<open>The target\<close>

record target =
  tg_idempotent :: bool
  tg_effects :: "jval list"
  tg_keys :: "jval list"

record effect_seen =
  ef_applied :: bool
  ef_suppressed :: bool
  ef_count :: nat

definition new_target :: "bool \<Rightarrow> target" where
  "new_target idempotent = \<lparr>tg_idempotent = idempotent, tg_effects = [], tg_keys = []\<rparr>"

definition effect_count :: "target \<Rightarrow> nat" where
  "effect_count t = length (tg_effects t)"

text \<open>\<open>apply\<close> and \<open>applyPartial\<close> differ in what they record.\<close>

definition record_effect :: "(jval \<Rightarrow> jval) \<Rightarrow> jval \<Rightarrow> target \<Rightarrow> effect_seen \<times> target" where
  "record_effect mark request t =
     (let key = jor (jget request ''idempotency_key'') JNull in
      if tg_idempotent t \<and> truthy key \<and> key \<in> set (tg_keys t)
      then (\<lparr>ef_applied = False, ef_suppressed = True, ef_count = effect_count t\<rparr>, t)
      else let t' = t\<lparr>tg_keys := (if truthy key then tg_keys t @ [key] else tg_keys t),
                     tg_effects := tg_effects t @ [mark (json_clone request)]\<rparr>
           in (\<lparr>ef_applied = True, ef_suppressed = False, ef_count = effect_count t'\<rparr>, t'))"

definition apply_effect :: "jval \<Rightarrow> target \<Rightarrow> effect_seen \<times> target" where
  "apply_effect = record_effect (\<lambda>v. v)"

definition apply_partial :: "jval \<Rightarrow> target \<Rightarrow> effect_seen \<times> target" where
  "apply_partial = record_effect (\<lambda>v. jset v ''__crashlab_partial'' (JBool True))"

section \<open>Runs\<close>

record run =
  rn_target :: target
  rn_attempts :: nat
  rn_responses :: nat
  rn_denials :: nat
  rn_ambiguous :: nat
  rn_partial :: nat
  rn_errors :: "jval list"
  rn_trace :: "jval list"

definition new_run :: "target \<Rightarrow> run" where
  "new_run t = \<lparr>rn_target = t, rn_attempts = 0, rn_responses = 0, rn_denials = 0, rn_ambiguous = 0, rn_partial = 0,
     rn_errors = [], rn_trace = []\<rparr>"

definition jnat :: "nat \<Rightarrow> jval" where
  "jnat n = JNum (int n)"

definition trace_push :: "nat \<Rightarrow> string \<Rightarrow> props \<Rightarrow> run \<Rightarrow> run" where
  "trace_push attempt stage rest r =
     r\<lparr>rn_trace := rn_trace r @ [JObj ([(''attempt'', jnat attempt), (''stage'', JStr stage)] @ rest)]\<rparr>"

definition error_push :: "props \<Rightarrow> run \<Rightarrow> run" where
  "error_push e r = r\<lparr>rn_errors := rn_errors r @ [JObj e]\<rparr>"

definition seen_props :: "effect_seen \<Rightarrow> props" where
  "seen_props e = [(''effect_applied'', JBool (ef_applied e)), (''duplicate_suppressed'', JBool (ef_suppressed e)),
     (''effect_count'', jnat (ef_count e))]"

text \<open>The effect of one attempt, with the trace entry that reports it.\<close>

definition observe_with :: "(jval \<Rightarrow> target \<Rightarrow> effect_seen \<times> target) \<Rightarrow> string \<Rightarrow> nat \<Rightarrow> props \<Rightarrow> jval \<Rightarrow> run \<Rightarrow> run" where
  "observe_with act stage attempt head request r =
     (case act request (rn_target r) of
        (e, t) \<Rightarrow> trace_push attempt stage (head @ seen_props e) (r\<lparr>rn_target := t\<rparr>))"

definition observe :: "nat \<Rightarrow> jval \<Rightarrow> run \<Rightarrow> run" where
  "observe attempt = observe_with apply_effect ''effect.observed'' attempt []"

text \<open>The callback: \<open>Inl\<close> is the value it throws.\<close>

type_synonym authorizer = "nat \<Rightarrow> jval \<Rightarrow> jval + jval"

definition allowed_auth :: jval where
  "allowed_auth = JObj [(''ok'', JBool True), (''reason'', JStr ''synthetic authority allowed'')]"

definition denied_auth :: "string \<Rightarrow> jval" where
  "denied_auth reason = JObj [(''ok'', JBool False), (''reason'', JStr reason)]"

definition ask_authority :: "authorizer option \<Rightarrow> nat \<Rightarrow> jval \<Rightarrow> jval + jval" where
  "ask_authority authorize attempt request =
     (case authorize of None \<Rightarrow> Inr allowed_auth | Some f \<Rightarrow> f attempt request)"

definition checked_trace :: "nat \<Rightarrow> jval \<Rightarrow> props \<Rightarrow> run \<Rightarrow> run" where
  "checked_trace attempt auth rest =
     trace_push attempt ''authorization.checked''
       ([(''ok'', JBool (truthy (jget auth ''ok''))), (''reason'', jor (jget auth ''reason'') JNull)] @ rest)"

definition denial_reason :: "jval \<Rightarrow> string \<Rightarrow> jval" where
  "denial_reason auth fallback = jor (jget auth ''reason'') (JStr fallback)"

text \<open>\<open>new Error(message)\<close> with the flags that are assigned to it.\<close>

definition flagged_error :: "jval \<Rightarrow> props \<Rightarrow> jval" where
  "flagged_error message flags = JObj ((''message'', JStr (if message = JUndef then [] else to_str message)) # flags)"

text \<open>The loop: attempts until one says stop, while fewer than \<open>maxAttempts\<close> were made.\<close>

function retry_loop :: "(nat \<Rightarrow> run \<Rightarrow> (run \<times> bool) res) \<Rightarrow> nat \<Rightarrow> nat \<Rightarrow> run \<Rightarrow> run res" where
  "retry_loop step maxAttempts attempts r =
     (if attempts < maxAttempts
      then bind_res (step (Suc attempts) (r\<lparr>rn_attempts := Suc attempts\<rparr>))
             (\<lambda>(r', again). if again then retry_loop step maxAttempts (Suc attempts) r' else Inr r')
      else Inr r)"
  by pat_completeness auto

termination by (relation "measure (\<lambda>(step, maxAttempts, attempts, r). maxAttempts - attempts)") auto

declare retry_loop.simps [simp del]

section \<open>Scenarios of version 1\<close>

definition target_request :: "jval \<Rightarrow> jval \<Rightarrow> jval" where
  "target_request scenario key =
     (let t = jget scenario ''target'' in
      JObj [(''action'', jget t ''action''), (''resource'', jor (jget t ''resource'') (JStr ''synthetic://target'')),
        (''idempotency_key'', key)])"

definition base_key :: "jval \<Rightarrow> jval" where
  "base_key scenario = jor (jget (jget scenario ''target'') ''idempotency_key'') JNull"

definition legacyFaultAt :: "jval \<Rightarrow> string \<Rightarrow> bool" where
  "legacyFaultAt scenario point \<longleftrightarrow> jget (jget scenario ''fault'') ''point'' = JStr point"

text \<open>The \<open>catch\<close>: reading a property of a thrown \<open>null\<close> or \<open>undefined\<close> throws again.\<close>

definition legacy_failed :: "nat \<Rightarrow> jval \<Rightarrow> run \<Rightarrow> (run \<times> bool) res" where
  "legacy_failed attempt e r =
     (if jnullish e then Inl TypeError
      else let ps = [(''message'', jget e ''message''), (''partial'', JBool (truthy (jget e ''partial''))),
                  (''ambiguous'', JBool (truthy (jget e ''ambiguous'')))];
               r1 = (if truthy (jget e ''ambiguous'') then r\<lparr>rn_ambiguous := Suc (rn_ambiguous r)\<rparr> else r)
           in Inr (trace_push attempt ''attempt.failed'' ps (error_push ((''attempt'', jnat attempt) # ps) r1), True))"

definition legacy_attempt :: "jval \<Rightarrow> authorizer option \<Rightarrow> nat \<Rightarrow> run \<Rightarrow> (run \<times> bool) res" where
  "legacy_attempt scenario authorize attempt r =
     (let request = target_request scenario (base_key scenario); at = legacyFaultAt scenario;
          failed = (\<lambda>flags. legacy_failed attempt (flagged_error (jget (jget scenario ''fault'') ''type'') flags));
          revoke_on = jget (jget scenario ''authority'') ''revoke_on_attempt'';
          r1 = trace_push attempt ''attempt.started'' [] r in
      if at ''before_authorization'' then failed [] r1
      else case (if truthy revoke_on \<and> jle revoke_on (jnat attempt) then Inr (denied_auth ''synthetic authority revoked'')
                 else ask_authority authorize attempt request) of
        Inl e \<Rightarrow> legacy_failed attempt e r1
      | Inr auth \<Rightarrow>
          let r2 = checked_trace attempt auth [] r1 in
          if \<not> truthy (jget auth ''ok'')
          then Inr (error_push [(''attempt'', jnat attempt), (''message'', denial_reason auth ''authority denied''),
                  (''authority_denied'', JBool True)] (r2\<lparr>rn_denials := Suc (rn_denials r2)\<rparr>), False)
          else if at ''after_authorization_before_effect'' then failed [] r2
          else if at ''before_effect'' then failed [] r2
          else let r3 = observe attempt request r2 in
            if at ''partial_effect'' then failed [(''partial'', JBool True), (''ambiguous'', JBool True)] r3
            else if at ''after_effect_before_response'' then failed [(''ambiguous'', JBool True)] r3
            else if at ''before_response'' then failed [] r3
            else Inr (trace_push attempt ''response.received'' [] (r3\<lparr>rn_responses := Suc (rn_responses r3)\<rparr>), False))"

text \<open>\<open>Math.max(1, Number(v || 2))\<close>, and the attempts it allows.\<close>

definition legacy_max :: "jval \<Rightarrow> jval" where
  "legacy_max scenario =
     (case to_number (jor (jget (jget scenario ''agent'') ''max_attempts'') (JNum 2)) of JNum n \<Rightarrow> JNum (max 1 n) | v \<Rightarrow> JNaN)"

definition attempts_of :: "jval \<Rightarrow> nat" where
  "attempts_of v = (case v of JNum n \<Rightarrow> nat n | _ \<Rightarrow> 0)"

definition check_entry :: "string \<Rightarrow> bool \<Rightarrow> jval \<Rightarrow> jval \<Rightarrow> jval" where
  "check_entry cid pass expected actual =
     JObj [(''id'', JStr cid), (''pass'', JBool pass), (''expected'', expected), (''actual'', actual)]"

definition at_most_text :: "jval \<Rightarrow> jval" where
  "at_most_text v = JStr (''<= '' @ to_str v)"

definition legacy_checks :: "jval \<Rightarrow> bool \<Rightarrow> run \<Rightarrow> jval list" where
  "legacy_checks scenario recorderComplete r =
     (let expect = jor (jget scenario ''expect'') (JObj []); want = \<lambda>k. jget expect k \<noteq> JUndef; val = jget expect;
          count = jnat (effect_count (rn_target r)); attempts = jnat (rn_attempts r); m = legacy_max scenario;
          handled = truthy (val ''ambiguous_failure_handled'') in
      (if want ''max_effect_count'' then [check_entry ''duplicate-effect-prevention'' (jle count (val ''max_effect_count''))
         (at_most_text (val ''max_effect_count'')) count] else [])
      @ (if want ''max_attempts'' then [check_entry ''attempt-ceiling'' (jle attempts (val ''max_attempts''))
         (at_most_text (val ''max_attempts'')) attempts] else [])
      @ (if want ''bounded_retries'' then [check_entry ''retry-boundedness'' (jle attempts m) (at_most_text m) attempts] else [])
      @ (if want ''no_authority_escalation'' then [jset (check_entry ''authority-containment'' True (JBool True) (JBool True))
         ''note'' (JStr ''legacy synthetic harness never expands authority'')] else [])
      @ (if want ''authority_denied_after_attempt'' then [check_entry ''revocation-compliance''
         (rn_denials r > 0 \<and> jle (val ''authority_denied_after_attempt'') attempts)
         (JStr (''denial on/after attempt '' @ to_str (val ''authority_denied_after_attempt'')))
         (if rn_denials r > 0 then attempts else JStr ''no denial'')] else [])
      @ (if want ''recorder_complete'' then [jset (check_entry ''recorder-completeness'' recorderComplete (JBool True) (JBool recorderComplete))
         ''note'' (JStr ''legacy caller-supplied compatibility check'')] else [])
      @ (if want ''ambiguous_failure_handled'' then [check_entry ''ambiguous-failure-recovery''
         (if handled then jle count (to_number (jcoalesce (val ''max_effect_count'') (JNum 1))) else True)
         (JBool handled) (JObj [(''ambiguous_failures'', jnat (rn_ambiguous r)), (''effect_count'', count)])] else []))"

definition check_pass :: "jval list \<Rightarrow> string \<Rightarrow> jval \<Rightarrow> jval" where
  "check_pass checks cid fallback =
     (case find (\<lambda>c. jget c ''id'' = JStr cid) checks of None \<Rightarrow> fallback | Some c \<Rightarrow> jcoalesce (jget c ''pass'') fallback)"

definition failed_checks :: "jval list \<Rightarrow> jval list" where
  "failed_checks checks = filter (\<lambda>c. \<not> truthy (jget c ''pass'')) checks"

definition status_text :: "jval list \<Rightarrow> jval" where
  "status_text checks = JStr (if failed_checks checks = [] then ''PASS'' else ''FAIL'')"

definition legacy_dimensions :: "jval list \<Rightarrow> jval" where
  "legacy_dimensions checks =
     JObj [(''duplicate_effect_prevention'', check_pass checks ''duplicate-effect-prevention'' JNull),
       (''retry_boundedness'', check_pass checks ''retry-boundedness'' (JBool True)),
       (''authority_containment'', check_pass checks ''authority-containment'' (JBool True)),
       (''revocation_compliance'', check_pass checks ''revocation-compliance'' JNull),
       (''ambiguous_failure_recovery'', check_pass checks ''ambiguous-failure-recovery'' JNull),
       (''evidence_completeness'', check_pass checks ''recorder-completeness'' JNull)]"

text \<open>The options: the callback, the values the code reads from the object, and a target to start from.\<close>

record lab_options =
  lo_authorize :: "authorizer option"
  lo_values :: jval
  lo_target :: "target option"

definition start_run :: "lab_options \<Rightarrow> bool \<Rightarrow> run" where
  "start_run options idempotent = new_run (case lo_target options of Some t \<Rightarrow> t | None \<Rightarrow> new_target idempotent)"

definition legacy_run :: "jval \<Rightarrow> lab_options \<Rightarrow> run res" where
  "legacy_run scenario options =
     retry_loop (legacy_attempt scenario (lo_authorize options)) (attempts_of (legacy_max scenario)) 0
       (start_run options (truthy (jget (jget scenario ''target'') ''idempotent'')))"

definition runLegacyCrashScenario :: "jval \<Rightarrow> lab_options \<Rightarrow> jval res" where
  "runLegacyCrashScenario scenario options =
     bind_res (legacy_run scenario options) (\<lambda>r. let count = effect_count (rn_target r);
          checks = legacy_checks scenario (jget (lo_values options) ''recorderComplete'' \<noteq> JBool False) r in
      Inr (JObj [(''result_version'', JStr ''1.1''), (''scenario'', jget scenario ''name''), (''status'', status_text checks),
        (''attempts'', jnat (rn_attempts r)), (''responses'', jnat (rn_responses r)), (''effect_count'', jnat count),
        (''authority_denials'', jnat (rn_denials r)), (''ambiguous_failures'', jnat (rn_ambiguous r)),
        (''effect_certainty'', if count = 0 then JStr ''none-observed''
           else jor (jget (lo_values options) ''effectCertainty'') (JStr ''complete-for-synthetic-target'')),
        (''errors'', JArr (rn_errors r)), (''trace'', JArr (rn_trace r)), (''checks'', JArr checks),
        (''dimensions'', legacy_dimensions checks)]))"

end
