(* ===== verification/CrashLabV2.thy ===== *)
theory CrashLabV2
  imports CrashLab
begin

text \<open>
  Scenarios of the versions 2.0 and 2.1 in \<^verbatim>\<open>packages/core/src/crashlab/index.js\<close>: the retry loop with its faults, the
  concurrent, stale-state and eventual-consistency schedules, the evidence and the checks of a run, and
  \<open>runCrashScenario\<close>, which validates a scenario and chooses the runner.
\<close>

section \<open>Reading a scenario\<close>

definition fault_field :: "jval \<Rightarrow> string \<Rightarrow> jval" where
  "fault_field scenario k = jget (jget scenario ''fault'') k"

definition retry_field :: "jval \<Rightarrow> string \<Rightarrow> jval" where
  "retry_field scenario k = jget (jget scenario ''retry'') k"

definition expect_field :: "jval \<Rightarrow> string \<Rightarrow> jval" where
  "expect_field scenario k = jget (jget scenario ''expect'') k"

definition effect_range :: "jval \<Rightarrow> string \<Rightarrow> jval" where
  "effect_range scenario k = jget (expect_field scenario ''effect_count'') k"

definition revoke_at :: "jval \<Rightarrow> jval" where
  "revoke_at scenario = jget (jget scenario ''authority'') ''revoke_on_attempt''"

definition initial_authority :: "jval \<Rightarrow> jval" where
  "initial_authority scenario = jget (jget scenario ''authority'') ''initial_state''"

definition fault_class :: "jval \<Rightarrow> string" where
  "fault_class scenario = to_str (fault_field scenario ''class'')"

definition v2FaultActive :: "jval \<Rightarrow> nat \<Rightarrow> string \<Rightarrow> bool" where
  "v2FaultActive scenario attempt phase \<longleftrightarrow>
     fault_field scenario ''phase'' = JStr phase
     \<and> (if fault_field scenario ''repeat'' = JStr ''once'' then fault_field scenario ''on_attempt'' = jnat attempt
        else jle (fault_field scenario ''on_attempt'') (jnat attempt))"

text \<open>The key of an attempt: kept, or one of its own.\<close>

definition attempt_request :: "jval \<Rightarrow> nat \<Rightarrow> jval" where
  "attempt_request scenario attempt =
     (let key = base_key scenario in
      target_request scenario
        (if truthy (retry_field scenario ''preserve_idempotency_key'') then key
         else if truthy key then JStr (to_str key @ ''#'' @ nat_str attempt) else JNull))"

definition v2_target :: "jval \<Rightarrow> lab_options \<Rightarrow> run" where
  "v2_target scenario options = start_run options (jget (jget scenario ''target'') ''idempotency'' \<noteq> JStr ''none'')"

section \<open>The retry loop\<close>

definition v2Error :: "jval \<Rightarrow> bool \<Rightarrow> bool \<Rightarrow> jval" where
  "v2Error scenario partial ambiguous =
     JObj [(''message'', JStr (''CrashLab '' @ fault_class scenario)), (''failureClass'', fault_field scenario ''class''),
       (''partial'', JBool partial), (''ambiguous'', JBool ambiguous)]"

text \<open>The \<open>catch\<close>: the thrown value says itself what class it has and whether it is partial or ambiguous.\<close>

definition v2_failed :: "jval \<Rightarrow> nat \<Rightarrow> jval \<Rightarrow> run \<Rightarrow> (run \<times> bool) res" where
  "v2_failed scenario attempt e r =
     (if jnullish e then Inl TypeError
      else let partial = truthy (jget e ''partial''); ambiguous = truthy (jget e ''ambiguous'');
               fc = jor (jget e ''failureClass'') (fault_field scenario ''class'');
               flags = [(''partial'', JBool partial), (''ambiguous'', JBool ambiguous)];
               r1 = r\<lparr>rn_ambiguous := rn_ambiguous r + (if ambiguous then 1 else 0), rn_partial := rn_partial r + (if partial then 1 else 0)\<rparr>;
               r2 = error_push ([(''attempt'', jnat attempt), (''failure_class'', fc), (''message'', jget e ''message'')] @ flags) r1
           in Inr (trace_push attempt ''attempt.failed'' ((''failure_class'', fc) # flags) r2,
                retry_field scenario ''strategy'' \<noteq> JStr ''none''))"

definition v2_authority :: "jval \<Rightarrow> authorizer option \<Rightarrow> nat \<Rightarrow> jval \<Rightarrow> jval + jval" where
  "v2_authority scenario authorize attempt request =
     (let revokedByState = initial_authority scenario = JStr ''revoked'';
          revokedByAttempt = is_int (revoke_at scenario) \<and> jle (revoke_at scenario) (jnat attempt) in
      if revokedByAttempt \<or> revokedByState then Inr (denied_auth ''synthetic authority revoked'')
      else if initial_authority scenario = JStr ''denied'' then Inr (denied_auth ''synthetic authority denied'')
      else ask_authority authorize attempt (json_clone request))"

definition v2_denied :: "nat \<Rightarrow> jval \<Rightarrow> run \<Rightarrow> run" where
  "v2_denied attempt auth r =
     error_push [(''attempt'', jnat attempt), (''failure_class'', JStr ''authority_denial''),
       (''message'', denial_reason auth ''authority denied''), (''authority_denied'', JBool True)]
       (r\<lparr>rn_denials := Suc (rn_denials r)\<rparr>)"

definition responded :: "nat \<Rightarrow> run \<Rightarrow> run" where
  "responded attempt r = trace_push attempt ''response.received'' [] (r\<lparr>rn_responses := Suc (rn_responses r)\<rparr>)"

definition attempt_started :: "jval \<Rightarrow> nat \<Rightarrow> run \<Rightarrow> run" where
  "attempt_started scenario attempt =
     trace_push attempt ''attempt.started''
       [(''failure_phase'', fault_field scenario ''phase''), (''failure_class'', fault_field scenario ''class'')]"

text \<open>After the authority has allowed the attempt.\<close>

definition v2_effect :: "jval \<Rightarrow> nat \<Rightarrow> jval \<Rightarrow> run \<Rightarrow> (run \<times> bool) res" where
  "v2_effect scenario attempt request r =
     (let active = v2FaultActive scenario attempt; failed = (\<lambda>partial ambiguous. v2_failed scenario attempt (v2Error scenario partial ambiguous)) in
      if active ''after_authorization_before_effect'' \<or> active ''before_effect'' then failed False False r
      else if active ''partial_effect''
      then failed True True (observe_with apply_partial ''effect.partial_observed'' attempt [] request r)
      else let r' = observe attempt request r in
        if active ''after_effect_before_response'' \<or> active ''before_response'' then failed False True r'
        else Inr (responded attempt r', False))"

definition v2_attempt :: "jval \<Rightarrow> authorizer option \<Rightarrow> nat \<Rightarrow> run \<Rightarrow> (run \<times> bool) res" where
  "v2_attempt scenario authorize attempt r =
     (let request = attempt_request scenario attempt; r1 = attempt_started scenario attempt r in
      if v2FaultActive scenario attempt ''before_authorization''
      then v2_failed scenario attempt (v2Error scenario False False) r1
      else case v2_authority scenario authorize attempt request of
        Inl e \<Rightarrow> v2_failed scenario attempt e r1
      | Inr auth \<Rightarrow>
          let r2 = checked_trace attempt auth [] r1 in
          if truthy (jget auth ''ok'') then v2_effect scenario attempt request r2 else Inr (v2_denied attempt auth r2, False))"

definition max_attempts :: "jval \<Rightarrow> nat" where
  "max_attempts scenario = attempts_of (retry_field scenario ''max_attempts'')"

definition v2_run :: "jval \<Rightarrow> lab_options \<Rightarrow> run res" where
  "v2_run scenario options =
     retry_loop (v2_attempt scenario (lo_authorize options)) (max_attempts scenario) 0 (v2_target scenario options)"

section \<open>Evidence and checks\<close>

definition evidence_of :: "string \<Rightarrow> string \<Rightarrow> bool \<Rightarrow> jval" where
  "evidence_of quality status preserve =
     JObj [(''quality'', JStr quality), (''status'', JStr status), (''ambiguity'', JStr (if preserve then ''preserve'' else ''none''))]"

definition v2Evidence :: "run \<Rightarrow> jval" where
  "v2Evidence r =
     (if effect_count (rn_target r) > 0
      then evidence_of (if rn_partial r > 0 then ''partial'' else ''local_state_observed'')
             (if rn_partial r > 0 then ''partial'' else ''success'') (rn_ambiguous r > 0)
      else if rn_attempts r > 0 then evidence_of ''requested_only'' ''unknown'' (rn_ambiguous r > 0)
      else evidence_of ''none_observed'' ''none'' False)"

definition v21Evidence :: "run \<Rightarrow> jval" where
  "v21Evidence r =
     (if effect_count (rn_target r) > 0 then evidence_of ''local_state_observed'' ''success'' (rn_ambiguous r > 0)
      else evidence_of ''requested_only'' ''unknown'' (rn_ambiguous r > 0))"

definition staged :: "string list \<Rightarrow> jval \<Rightarrow> bool" where
  "staged stages e \<longleftrightarrow> one_of stages (jget e ''stage'')"

definition effect_entry :: "jval \<Rightarrow> bool" where
  "effect_entry = staged [''effect.observed'', ''effect.partial_observed'']"

definition checked_entry :: "bool \<Rightarrow> jval \<Rightarrow> bool" where
  "checked_entry ok e \<longleftrightarrow> staged [''authorization.checked''] e \<and> jget e ''ok'' = JBool ok"

definition from_attempt :: "jval \<Rightarrow> jval \<Rightarrow> bool" where
  "from_attempt start e \<longleftrightarrow> jle start (jget e ''attempt'')"

definition count_entries :: "(jval \<Rightarrow> bool) \<Rightarrow> run \<Rightarrow> int" where
  "count_entries P r = int (length (filter P (rn_trace r)))"

definition some_entry :: "(jval \<Rightarrow> bool) \<Rightarrow> run \<Rightarrow> bool" where
  "some_entry P r \<longleftrightarrow> list_ex P (rn_trace r)"

definition denial_count :: "run \<Rightarrow> string \<times> jval" where
  "denial_count r = (''authority_denials'', jnat (rn_denials r))"

definition actor_count :: "jval \<Rightarrow> int \<Rightarrow> jval" where
  "actor_count scenario fallback = jor (jget (jget scenario ''concurrency'') ''actors'') (JNum fallback)"

definition one_replay_each :: "jval \<Rightarrow> int \<Rightarrow> bool" where
  "one_replay_each actors replayed \<longleftrightarrow> replayed = max 0 (num_of actors - 1)"

definition verdict_props :: "bool \<Rightarrow> jval \<Rightarrow> jval \<Rightarrow> props" where
  "verdict_props pass expected actual = [(''pass'', JBool pass), (''expected'', expected), (''actual'', actual)]"

definition revocation_observed :: "jval \<Rightarrow> run \<Rightarrow> bool \<times> bool" where
  "revocation_observed start r =
     (rn_denials r > 0 \<and> some_entry (\<lambda>e. checked_entry False e \<and> from_attempt start e) r,
      some_entry (\<lambda>e. effect_entry e \<and> from_attempt start e) r)"

definition v2AuthorityExpectation :: "jval \<Rightarrow> run \<Rightarrow> props" where
  "v2AuthorityExpectation scenario r =
     (let behavior = expect_field scenario ''authority_behavior'' in
      if behavior = JStr ''unchanged'' then verdict_props True (JStr ''unchanged'') (JObj [denial_count r])
      else if behavior = JStr ''allow''
      then (let pass = some_entry (checked_entry True) r \<and> rn_denials r = 0 in
            verdict_props pass (JStr ''observed allow'')
              (JStr (if pass then ''allow'' else if rn_denials r > 0 then ''deny'' else ''not_checked'')))
      else if behavior = JStr ''deny''
      then verdict_props (rn_denials r > 0 \<and> \<not> some_entry effect_entry r) (JStr ''deny with no effect'')
             (JObj [denial_count r, (''effects'', JNum (count_entries effect_entry r))])
      else if behavior = JStr ''one_winner''
      then (let authorized = count_entries (checked_entry True) r; consumed = count_entries (staged [''lease.consumed'']) r;
                replayed = count_entries (staged [''lease.replayed'']) r; actors = actor_count scenario authorized in
            verdict_props (JNum authorized = actors \<and> consumed = 1 \<and> one_replay_each actors replayed)
              (JStr ''all contenders are pre-authorized; exactly one consumes the shared one-use authority and all later consumers are replay-denied'')
              (JObj [(''authorized'', JNum authorized), (''consumed'', JNum consumed), (''replayed'', JNum replayed), denial_count r]))
      else (case revocation_observed (revoke_at scenario) r of
        (denied, effectAfter) \<Rightarrow>
          verdict_props (denied \<and> \<not> effectAfter)
            (JStr (''deny on/after revocation attempt '' @ to_str (revoke_at scenario) @ '' with no later effect''))
            (JObj [denial_count r, (''effect_after_revoke'', JBool effectAfter)])))"

definition evidence_matches :: "jval \<Rightarrow> jval \<Rightarrow> bool" where
  "evidence_matches scenario evidence \<longleftrightarrow>
     list_all (\<lambda>k. strict_eq (jget evidence k) (jget (expect_field scenario ''evidence'') k)) [''quality'', ''status'', ''ambiguity'']"

definition within_range :: "jval \<Rightarrow> run \<Rightarrow> bool" where
  "within_range scenario r \<longleftrightarrow>
     jle (effect_range scenario ''min'') (jnat (effect_count (rn_target r)))
     \<and> jle (jnat (effect_count (rn_target r))) (effect_range scenario ''max'')"

definition not_above :: "jval \<Rightarrow> run \<Rightarrow> bool" where
  "not_above scenario r \<longleftrightarrow> jle (jnat (effect_count (rn_target r))) (effect_range scenario ''max'')"

text \<open>No effect in an attempt whose authorization was denied.\<close>

definition containment :: "run \<Rightarrow> bool" where
  "containment r \<longleftrightarrow>
     list_all (\<lambda>d. checked_entry False d \<longrightarrow> \<not> some_entry (\<lambda>e. strict_eq (jget e ''attempt'') (jget d ''attempt'') \<and> effect_entry e) r)
       (rn_trace r)"

definition authority_recovered :: "jval \<Rightarrow> run \<Rightarrow> bool" where
  "authority_recovered scenario r \<longleftrightarrow>
     (let behavior = expect_field scenario ''authority_behavior'' in
      if behavior = JStr ''allow'' then rn_denials r = 0 \<and> count_entries (checked_entry True) r > 0
      else if one_of [''deny'', ''deny_after_revoke''] behavior then rn_denials r > 0
      else if behavior = JStr ''one_winner'' then count_entries (staged [''lease.consumed'']) r = 1
      else True)"

definition invariant_result :: "jval \<Rightarrow> run \<Rightarrow> jval \<Rightarrow> string \<Rightarrow> bool \<times> jval \<times> jval" where
  "invariant_result scenario r evidence cid =
     (let count = jnat (effect_count (rn_target r)); attempts = jnat (rn_attempts r);
          effects = JNum (count_entries effect_entry r);
          consumed = count_entries (staged [''lease.consumed'']) r; replayed = count_entries (staged [''lease.replayed'']) r;
          expected_evidence = expect_field scenario ''evidence''; behavior = expect_field scenario ''authority_behavior'' in
      if cid = ''duplicate_effect_resistance''
      then (not_above scenario r, JStr (''effect_count <= '' @ to_str (effect_range scenario ''max'')), count)
      else if cid = ''retry_boundedness''
      then (jle attempts (retry_field scenario ''max_attempts''),
            JStr (''attempts <= '' @ to_str (retry_field scenario ''max_attempts'')), attempts)
      else if cid = ''authority_containment''
      then (containment r, JStr ''no effect after an authorization denial in the same attempt'', JBool (containment r))
      else if cid = ''revocation_compliance''
      then (case (if is_int (revoke_at scenario) then revocation_observed (revoke_at scenario) r else (False, False)) of
        (denied, effectAfter) \<Rightarrow>
          (if behavior = JStr ''deny_after_revoke'' then denied \<and> \<not> effectAfter else \<not> effectAfter \<or> behavior = JStr ''allow'',
           JStr (if behavior = JStr ''deny_after_revoke'' then ''deny on/after revocation with no later effect''
                 else ''no unauthorized post-revocation effect''),
           JObj [denial_count r, (''effect_after_revoke'', JBool effectAfter)]))
      else if cid = ''ambiguity_preservation''
      then (strict_eq (jget evidence ''ambiguity'') (jget expected_evidence ''ambiguity''), jget expected_evidence ''ambiguity'',
            jget evidence ''ambiguity'')
      else if cid = ''evidence_completeness'' then (evidence_matches scenario evidence, expected_evidence, evidence)
      else if cid = ''recovery_correctness''
      then (within_range scenario r \<and> authority_recovered scenario r,
            JObj [(''effect_count'', expect_field scenario ''effect_count''), (''authority_behavior'', behavior)],
            JObj [(''effect_count'', count), denial_count r, (''allowed'', JNum (count_entries (checked_entry True) r)),
              (''consumed'', JNum consumed)])
      else if cid = ''one_use_authority''
      then (consumed = 1 \<and> one_replay_each (actor_count scenario 1) replayed \<and> count_entries effect_entry r \<le> 1,
            JStr ''exactly one shared one-use authority consumption, every later contender replay-denied, and at most one effect'',
            JObj [(''consumed'', JNum consumed), (''replayed'', JNum replayed), (''effects'', effects), (''actors'', actor_count scenario 1)])
      else if cid = ''stale_state_rejection''
      then (count_entries (staged [''state.stale_detected'']) r > 0 \<and> count_entries effect_entry r = 0,
            JStr ''stale state is detected before any effect'',
            JObj [(''stale_detections'', JNum (count_entries (staged [''state.stale_detected'']) r)), (''effects'', effects)])
      else if cid = ''eventual_consistency_handling''
      then (let hidden = some_entry (staged [''consistency.not_visible'']) r; visible = some_entry (staged [''consistency.visible'']) r in
            (hidden \<and> visible \<and> not_above scenario r,
             JStr ''temporary invisibility is preserved and later convergence is observed without excess effects'',
             JObj [(''not_visible'', JBool hidden), (''visible'', JBool visible), (''effect_count'', count)]))
      else (False, JStr ''known invariant'', JStr ''unknown invariant''))"

definition checkV2Invariant :: "jval \<Rightarrow> run \<Rightarrow> jval \<Rightarrow> jval \<Rightarrow> jval" where
  "checkV2Invariant scenario r evidence cid =
     (case invariant_result scenario r evidence (to_str cid) of
        (pass, expected, actual) \<Rightarrow> JObj ((''id'', cid) # verdict_props pass expected actual))"

definition expected_invariants :: "jval \<Rightarrow> jval list" where
  "expected_invariants scenario = arr_of (expect_field scenario ''invariants'')"

definition v2_checks :: "jval \<Rightarrow> run \<Rightarrow> jval \<Rightarrow> jval list" where
  "v2_checks scenario r evidence =
     [JObj ((''id'', JStr ''effect_count_range'') # verdict_props (within_range scenario r) (expect_field scenario ''effect_count'')
        (jnat (effect_count (rn_target r)))),
      JObj ((''id'', JStr ''authority_behavior'') # v2AuthorityExpectation scenario r),
      JObj ((''id'', JStr ''evidence_expectation'') # verdict_props (evidence_matches scenario evidence)
        (expect_field scenario ''evidence'') evidence)]
     @ map (checkV2Invariant scenario r evidence) (expected_invariants scenario)"

definition v2_result :: "jval \<Rightarrow> jval \<Rightarrow> run \<Rightarrow> jval \<Rightarrow> jval" where
  "v2_result version scenario r evidence =
     (let checks = v2_checks scenario r evidence; t = jget scenario ''target'' in
      JObj [(''result_version'', version), (''scenario_id'', jget scenario ''scenario_id''), (''scenario'', jget scenario ''name''),
        (''taxonomy'', JObj [(''failure_phase'', fault_field scenario ''phase''), (''failure_class'', fault_field scenario ''class''),
           (''target_domain'', jget t ''domain''), (''adapter_id'', jget t ''adapter_id'')]),
        (''status'', status_text checks), (''attempts'', jnat (rn_attempts r)), (''responses'', jnat (rn_responses r)),
        (''effect_count'', jnat (effect_count (rn_target r))), (''authority_denials'', jnat (rn_denials r)),
        (''ambiguous_failures'', jnat (rn_ambiguous r)), (''partial_failures'', jnat (rn_partial r)), (''evidence'', evidence),
        (''errors'', JArr (rn_errors r)), (''trace'', JArr (rn_trace r)), (''checks'', JArr checks),
        (''invariants'', fold (\<lambda>cid o'. jset o' (to_str cid) (check_pass checks (to_str cid) (JBool False)))
           (expected_invariants scenario) (JObj []))])"

definition CRASHLAB_SYNTHETIC_SUPPORTED_FAILURE_CLASSES :: "string list" where
  "CRASHLAB_SYNTHETIC_SUPPORTED_FAILURE_CLASSES =
     [''timeout'', ''response_loss'', ''token_expiry'', ''revocation_race'', ''concurrent_race'', ''stale_capability'', ''stale_policy'',
      ''stale_approved_baseline'', ''eventual_consistency'', ''transport_failure'', ''local_process_crash'', ''duplicate_retry'',
      ''synthetic_error'']"

definition runV2CrashScenario :: "jval \<Rightarrow> lab_options \<Rightarrow> jval res" where
  "runV2CrashScenario scenario options =
     throw_if (\<not> one_of CRASHLAB_SYNTHETIC_SUPPORTED_FAILURE_CLASSES (fault_field scenario ''class''))
       (''CrashLab scenario '' @ to_str (jget scenario ''scenario_id'') @ '' is valid, but failure class '' @ fault_class scenario
        @ '' is not executable by the current synthetic runner; execution is deferred'')
     (bind_res (v2_run scenario options)
       (\<lambda>r. Inr (v2_result (jget scenario ''scenario_version'') scenario r (v2Evidence r))))"

end
