(* ===== verification/CrashLabRun.thy ===== *)
theory CrashLabRun
  imports CrashLabV2
begin

text \<open>
  The schedules of version 2.1 in \<^verbatim>\<open>packages/core/src/crashlab/index.js\<close> (contention for one authority, stale state,
  late visibility) and \<open>runCrashScenario\<close>, which chooses the runner.
\<close>

section \<open>Contention\<close>

text \<open>What the callback throws here is not caught: the schedule is abandoned, and its caller sees the message.\<close>

definition uncaught :: "jval + jval \<Rightarrow> jval res" where
  "uncaught answer = (case answer of Inl e \<Rightarrow> Inl (Error (to_str (jget e ''message''))) | Inr v \<Rightarrow> Inr v)"

definition actor_name :: "nat \<Rightarrow> string \<times> jval" where
  "actor_name actor = (''actor'', JStr (''actor-'' @ nat_str actor))"

definition actor_request :: "jval \<Rightarrow> nat \<Rightarrow> jval" where
  "actor_request scenario actor =
     (case actor_name actor of (k, v) \<Rightarrow> jset (target_request scenario (base_key scenario)) k v)"

definition race_authority :: "authorizer option \<Rightarrow> nat \<Rightarrow> jval \<Rightarrow> jval + jval" where
  "race_authority authorize actor request =
     (case authorize of
        None \<Rightarrow> Inr (JObj [(''ok'', JBool True),
          (''reason'', JStr ''synthetic authority pre-authorized before shared one-use consumption barrier'')])
      | Some f \<Rightarrow> f actor (json_clone request))"

definition actor_denied :: "jval \<Rightarrow> nat \<Rightarrow> jval \<Rightarrow> run \<Rightarrow> run" where
  "actor_denied scenario actor message r =
     error_push [(''attempt'', jnat actor), (''failure_class'', fault_field scenario ''class''), (''message'', message),
       (''authority_denied'', JBool True)] (r\<lparr>rn_denials := Suc (rn_denials r)\<rparr>)"

text \<open>The actors that pass the authority, with the run so far.\<close>

fun race_authorize :: "jval \<Rightarrow> authorizer option \<Rightarrow> nat list \<Rightarrow> run \<Rightarrow> (nat list \<times> run) res" where
  "race_authorize scenario authorize [] r = Inr ([], r)"
| "race_authorize scenario authorize (a # as) r =
     bind_res (uncaught (race_authority authorize a (actor_request scenario a))) (\<lambda>auth.
       let r1 = checked_trace a auth [actor_name a] r in
       if truthy (jget auth ''ok'')
       then bind_res (race_authorize scenario authorize as r1) (\<lambda>(winners, r2). Inr (a # winners, r2))
       else race_authorize scenario authorize as
              (actor_denied scenario a (denial_reason auth ''authority denied before one-use consumption barrier'') r1))"

definition actor_effect :: "jval \<Rightarrow> nat \<Rightarrow> run \<Rightarrow> run" where
  "actor_effect scenario a r =
     (let r' = observe_with apply_effect ''effect.observed'' a [actor_name a] (actor_request scenario a) r
      in r'\<lparr>rn_responses := Suc (rn_responses r')\<rparr>)"

definition replay_message :: jval where
  "replay_message = JStr ''shared one-use authority already consumed''"

fun race_consume :: "jval \<Rightarrow> bool \<Rightarrow> nat list \<Rightarrow> run \<Rightarrow> run" where
  "race_consume scenario consumed [] r = r"
| "race_consume scenario consumed (a # as) r =
     (let r1 = trace_push a ''lease.consume_attempt'' [actor_name a] r in
      if consumed
      then race_consume scenario True as
             (error_push [(''attempt'', jnat a), (''failure_class'', fault_field scenario ''class''), (''message'', replay_message),
                (''replayed'', JBool True)]
               (trace_push a ''lease.replayed'' [actor_name a, (''reason'', replay_message)] r1))
      else race_consume scenario True as (actor_effect scenario a (trace_push a ''lease.consumed'' [actor_name a] r1)))"

fun revocation_schedule :: "jval \<Rightarrow> nat list \<Rightarrow> run \<Rightarrow> run" where
  "revocation_schedule scenario [] r = r"
| "revocation_schedule scenario (a # as) r =
     (let ok = jlt (jnat a) (revoke_at scenario);
          reason = (if ok then ''synthetic authority allowed'' else ''synthetic authority revoked during concurrent schedule'');
          r1 = trace_push a ''authorization.checked'' [(''ok'', JBool ok), (''reason'', JStr reason), actor_name a] r
      in revocation_schedule scenario as (if ok then actor_effect scenario a r1 else actor_denied scenario a (JStr reason) r1))"

definition actors_of :: "jval \<Rightarrow> nat list" where
  "actors_of scenario = [1..<Suc (attempts_of (jget (jget scenario ''concurrency'') ''actors''))]"

definition concurrent_run :: "jval \<Rightarrow> lab_options \<Rightarrow> run res" where
  "concurrent_run scenario options =
     (let c = jget scenario ''concurrency'';
          r = trace_push 0 ''concurrency.barrier'' (map (\<lambda>k. (k, jget c k)) [''actors'', ''schedule'', ''shared_authority''])
                (v2_target scenario options) in
      if fault_field scenario ''class'' = JStr ''concurrent_race''
      then bind_res (race_authorize scenario (lo_authorize options) (actors_of scenario) r)
             (\<lambda>(winners, r'). Inr (race_consume scenario False winners r'))
      else Inr (revocation_schedule scenario (actors_of scenario) r))"

definition runV21ConcurrentScenario :: "jval \<Rightarrow> lab_options \<Rightarrow> jval res" where
  "runV21ConcurrentScenario scenario options =
     bind_res (concurrent_run scenario options) (\<lambda>r.
       let r' = r\<lparr>rn_attempts := length (actors_of scenario)\<rparr>
       in Inr (v2_result (JStr ''2.1'') scenario r' (v21Evidence r')))"

section \<open>Stale state and late visibility\<close>

definition refused_initially :: "jval \<Rightarrow> bool" where
  "refused_initially scenario \<longleftrightarrow> one_of [''denied'', ''revoked''] (initial_authority scenario)"

definition v21_authority :: "jval \<Rightarrow> authorizer option \<Rightarrow> nat \<Rightarrow> jval \<Rightarrow> jval + jval" where
  "v21_authority scenario authorize attempt request =
     (if refused_initially scenario then Inr (denied_auth ''synthetic authority unavailable'')
      else ask_authority authorize attempt request)"

definition staleStatePair :: "jval \<Rightarrow> string \<times> jval" where
  "staleStatePair scenario =
     (let c = fault_field scenario ''class'';
          kind = (if c = JStr ''stale_capability'' then ''capability'' else if c = JStr ''stale_policy'' then ''policy'' else ''approved_baseline'')
      in (kind, jget (jget scenario ''state'') kind))"

definition stale_detected :: "jval \<Rightarrow> nat \<Rightarrow> run \<Rightarrow> run" where
  "stale_detected scenario attempt r =
     (case staleStatePair scenario of (kind, pair) \<Rightarrow>
        error_push [(''attempt'', jnat attempt), (''failure_class'', fault_field scenario ''class''),
          (''message'', JStr (''stale '' @ kind @ '' rejected'')), (''stale_state'', JBool True)]
         (trace_push attempt ''state.stale_detected''
           [(''state_kind'', JStr kind), (''expected'', jget pair ''expected''), (''current'', jget pair ''current'')] r))"

definition retries :: "jval \<Rightarrow> bool" where
  "retries scenario \<longleftrightarrow> retry_field scenario ''strategy'' \<noteq> JStr ''none''"

definition denied_run :: "run \<Rightarrow> run \<times> bool" where
  "denied_run r = (r\<lparr>rn_denials := Suc (rn_denials r)\<rparr>, False)"

definition stale_attempt :: "jval \<Rightarrow> authorizer option \<Rightarrow> nat \<Rightarrow> run \<Rightarrow> (run \<times> bool) res" where
  "stale_attempt scenario authorize attempt r =
     (let r1 = attempt_started scenario attempt r; t = target_request scenario JUndef in
      if fault_field scenario ''phase'' = JStr ''before_authorization'' then Inr (stale_detected scenario attempt r1, retries scenario)
      else bind_res (uncaught (v21_authority scenario authorize attempt
             (JObj [(''action'', jget t ''action''), (''resource'', jget t ''resource'')])))
        (\<lambda>auth. let r2 = checked_trace attempt auth [] r1 in
          if \<not> truthy (jget auth ''ok'') then Inr (denied_run r2)
          else Inr (stale_detected scenario attempt r2, retries scenario)))"

definition runV21StaleScenario :: "jval \<Rightarrow> lab_options \<Rightarrow> jval res" where
  "runV21StaleScenario scenario options =
     bind_res (retry_loop (stale_attempt scenario (lo_authorize options)) (max_attempts scenario) 0 (v2_target scenario options))
       (\<lambda>r. Inr (v2_result (JStr ''2.1'') scenario (r\<lparr>rn_responses := 0\<rparr>) (v21Evidence r)))"

definition visible_on :: "jval \<Rightarrow> jval" where
  "visible_on scenario = jget (jget (jget scenario ''state'') ''consistency'') ''visible_on_attempt''"

definition consistency_attempt :: "jval \<Rightarrow> authorizer option \<Rightarrow> nat \<Rightarrow> run \<Rightarrow> (run \<times> bool) res" where
  "consistency_attempt scenario authorize attempt r =
     (let request = attempt_request scenario attempt; r1 = attempt_started scenario attempt r;
          seen = [(''visible_on_attempt'', visible_on scenario)] in
      bind_res (uncaught (v21_authority scenario authorize attempt (json_clone request))) (\<lambda>auth.
        let r2 = checked_trace attempt auth [] r1 in
        if \<not> truthy (jget auth ''ok'') then Inr (denied_run r2)
        else let r3 = observe attempt request r2 in
          if jlt (jnat attempt) (visible_on scenario)
          then Inr (error_push [(''attempt'', jnat attempt), (''failure_class'', JStr ''eventual_consistency''),
                 (''message'', JStr ''effect not yet visible''), (''ambiguous'', JBool True)]
               (trace_push attempt ''consistency.not_visible'' seen (r3\<lparr>rn_ambiguous := Suc (rn_ambiguous r3)\<rparr>)), retries scenario)
          else Inr (let r4 = trace_push attempt ''consistency.visible'' seen r3
                    in r4\<lparr>rn_responses := Suc (rn_responses r4)\<rparr>, False)))"

definition runV21EventualConsistencyScenario :: "jval \<Rightarrow> lab_options \<Rightarrow> jval res" where
  "runV21EventualConsistencyScenario scenario options =
     bind_res (retry_loop (consistency_attempt scenario (lo_authorize options)) (max_attempts scenario) 0 (v2_target scenario options))
       (\<lambda>r. Inr (v2_result (JStr ''2.1'') scenario r (v21Evidence r)))"

section \<open>The runner\<close>

definition V21_ONLY_FAILURE_CLASSES :: "string list" where
  "V21_ONLY_FAILURE_CLASSES =
     [''token_expiry'', ''revocation_race'', ''concurrent_race'', ''stale_capability'', ''stale_policy'', ''stale_approved_baseline'',
      ''eventual_consistency'']"

definition runCrashScenario :: "jval \<Rightarrow> lab_options \<Rightarrow> jval res" where
  "runCrashScenario scenario options =
     bind_res (validateCrashLabScenario scenario) (\<lambda>errors.
     throw_if (errors \<noteq> []) (''invalid CrashLab scenario: '' @ join_errors errors)
     (let version = jget scenario ''scenario_version''; c = fault_field scenario ''class'' in
      if one_of [''1.0'', ''1.1''] version then runLegacyCrashScenario scenario options
      else if version = JStr ''2.0'' \<and> one_of V21_ONLY_FAILURE_CLASSES c
      then Inl (Error (''CrashLab failure class '' @ to_str c @ '' requires Scenario v2.1 execution semantics''))
      else if version = JStr ''2.1'' \<and> one_of [''concurrent_race'', ''revocation_race''] c
      then runV21ConcurrentScenario scenario options
      else if version = JStr ''2.1'' \<and> one_of [''stale_capability'', ''stale_policy'', ''stale_approved_baseline''] c
      then runV21StaleScenario scenario options
      else if version = JStr ''2.1'' \<and> c = JStr ''eventual_consistency''
      then runV21EventualConsistencyScenario scenario options
      else runV2CrashScenario scenario options))"

end
