(* ===== verification/CrashLabProps.thy ===== *)
theory CrashLabProps
  imports CrashLabRun
begin

text \<open>
  What every run of the fault runner guarantees: bounded attempts, one effect an attempt at most, one effect under
  one idempotency key, no effect after a denied authorization, and one winner of a race for a one-use authority.
\<close>

section \<open>One attempt\<close>

lemmas run_simps = trace_push_def error_push_def checked_trace_def v2_denied_def responded_def attempt_started_def

lemmas entry_simps = checked_entry_def effect_entry_def staged_def

definition effects_in :: "jval list \<Rightarrow> nat" where
  "effects_in es = length (filter effect_entry es)"

lemma effects_in_simps [simp]:
  "effects_in [] = 0" "effects_in (es @ fs) = effects_in es + effects_in fs"
  "effects_in (e # es) = (if effect_entry e then Suc (effects_in es) else effects_in es)"
  by (simp_all add: effects_in_def)

lemma effects_in_0: "effects_in es = 0 \<longleftrightarrow> \<not> list_ex effect_entry es"
  by (simp add: effects_in_def list_ex_iff filter_empty_conv)

definition target_step :: "jval \<Rightarrow> target \<Rightarrow> target \<Rightarrow> bool" where
  "target_step request t t' \<longleftrightarrow> t' = t \<or> t' = snd (apply_effect request t) \<or> t' = snd (apply_partial request t)"

text \<open>What an attempt adds: entries of its own; an entry for the effect when the target was called, and one at most;
  a denied authorization comes with no effect, and it is the last attempt.\<close>

definition attempt_adds :: "jval \<Rightarrow> nat \<Rightarrow> run \<Rightarrow> run \<times> bool \<Rightarrow> bool" where
  "attempt_adds request attempt r ra \<longleftrightarrow>
     rn_attempts (fst ra) = rn_attempts r \<and> target_step request (rn_target r) (rn_target (fst ra))
     \<and> (\<exists>es. rn_trace (fst ra) = rn_trace r @ es \<and> (\<forall>e\<in>set es. jget e ''attempt'' = jnat attempt) \<and> effects_in es \<le> 1
          \<and> (rn_target (fst ra) \<noteq> rn_target r \<longrightarrow> effects_in es = 1)
          \<and> (list_ex (checked_entry False) es \<longrightarrow> effects_in es = 0 \<and> \<not> snd ra))"

text \<open>The second half of an attempt, after entries without an effect or a denial.\<close>

lemma attempt_adds_after:
  assumes "attempt_adds request attempt r1 ra" "rn_trace r1 = rn_trace r @ fs" "rn_attempts r1 = rn_attempts r" "rn_target r1 = rn_target r"
    and "\<forall>e\<in>set fs. jget e ''attempt'' = jnat attempt \<and> \<not> effect_entry e \<and> \<not> checked_entry False e"
  shows "attempt_adds request attempt r ra"
proof -
  obtain es where "rn_trace (fst ra) = rn_trace r1 @ es" "\<forall>e\<in>set es. jget e ''attempt'' = jnat attempt" "effects_in es \<le> 1"
      "rn_target (fst ra) \<noteq> rn_target r1 \<longrightarrow> effects_in es = 1"
      "list_ex (checked_entry False) es \<longrightarrow> effects_in es = 0 \<and> \<not> snd ra"
    using assms(1) by (auto simp: attempt_adds_def)
  moreover have "effects_in fs = 0" "\<not> list_ex (checked_entry False) fs" using assms(5) by (auto simp: list_ex_iff effects_in_0)
  ultimately have "rn_trace (fst ra) = rn_trace r @ fs @ es" "effects_in (fs @ es) \<le> 1"
      "rn_target (fst ra) \<noteq> rn_target r \<longrightarrow> effects_in (fs @ es) = 1" "\<forall>e\<in>set (fs @ es). jget e ''attempt'' = jnat attempt"
      "list_ex (checked_entry False) (fs @ es) \<longrightarrow> effects_in (fs @ es) = 0 \<and> \<not> snd ra"
    using assms(2,4,5) by auto
  then show ?thesis using assms(1,3,4) unfolding attempt_adds_def by metis
qed

lemma v2_failed_adds: "v2_failed scenario attempt e r = Inr ra \<Longrightarrow> attempt_adds request attempt r ra"
  by (auto simp: v2_failed_def attempt_adds_def target_step_def run_simps Let_def entry_simps split: if_splits)

lemma observed_trace:
  assumes "stage \<in> {''effect.observed'', ''effect.partial_observed''}"
  obtains e where "rn_trace (observe_with act stage attempt [] request r) = rn_trace r @ [e]" "effect_entry e"
    "\<not> checked_entry False e" "jget e ''attempt'' = jnat attempt"
    "rn_target (observe_with act stage attempt [] request r) = snd (act request (rn_target r))"
    "rn_attempts (observe_with act stage attempt [] request r) = rn_attempts r"
  using assms by (cases "act request (rn_target r)") (auto simp: observe_with_def run_simps entry_simps)

text \<open>What follows the effect adds neither an effect nor a denial.\<close>

lemma observed_adds:
  assumes "act = apply_effect \<or> act = apply_partial" "stage \<in> {''effect.observed'', ''effect.partial_observed''}"
    and "rn_trace (fst ra) = rn_trace (observe_with act stage attempt [] request r) @ fs"
    and "rn_attempts (fst ra) = rn_attempts (observe_with act stage attempt [] request r)"
    and "rn_target (fst ra) = rn_target (observe_with act stage attempt [] request r)"
    and "\<forall>e\<in>set fs. jget e ''attempt'' = jnat attempt \<and> \<not> effect_entry e \<and> \<not> checked_entry False e"
  shows "attempt_adds request attempt r ra"
proof -
  obtain e where e: "rn_trace (observe_with act stage attempt [] request r) = rn_trace r @ [e]" "effect_entry e"
      "\<not> checked_entry False e" "jget e ''attempt'' = jnat attempt"
      "rn_target (observe_with act stage attempt [] request r) = snd (act request (rn_target r))"
      "rn_attempts (observe_with act stage attempt [] request r) = rn_attempts r"
    using observed_trace [OF assms(2)] .
  moreover have "effects_in fs = 0" "\<not> list_ex (checked_entry False) fs" using assms(6) by (auto simp: list_ex_iff effects_in_0)
  ultimately have "rn_trace (fst ra) = rn_trace r @ e # fs" "effects_in (e # fs) = 1" "\<not> list_ex (checked_entry False) (e # fs)"
      "\<forall>x\<in>set (e # fs). jget x ''attempt'' = jnat attempt"
    using assms(3,6) by auto
  moreover have "target_step request (rn_target r) (rn_target (fst ra))" using assms(1,5) e(5) by (auto simp: target_step_def)
  ultimately show ?thesis using assms(4) e(6) unfolding attempt_adds_def by (metis order_refl)
qed

lemma v2_failed_trace:
  assumes "v2_failed scenario attempt e r = Inr ra"
  obtains x where "rn_trace (fst ra) = rn_trace r @ [x]" "jget x ''attempt'' = jnat attempt" "\<not> effect_entry x"
    "\<not> checked_entry False x" "rn_attempts (fst ra) = rn_attempts r" "rn_target (fst ra) = rn_target r"
  using assms by (auto simp: v2_failed_def run_simps Let_def entry_simps split: if_splits)

lemma failed_adds:
  assumes "v2_failed scenario attempt e r = Inr ra"
  shows "attempt_adds request attempt r ra"
proof -
  obtain x where "rn_trace (fst ra) = rn_trace r @ [x]" "jget x ''attempt'' = jnat attempt" "\<not> effect_entry x"
      "\<not> checked_entry False x" "rn_attempts (fst ra) = rn_attempts r" "rn_target (fst ra) = rn_target r"
    using v2_failed_trace [OF assms] .
  then show ?thesis by (auto simp: attempt_adds_def target_step_def)
qed

lemma observed_failed_adds:
  assumes "v2_failed scenario attempt e (observe_with act stage attempt [] request r) = Inr ra"
    and "act = apply_effect \<or> act = apply_partial" "stage \<in> {''effect.observed'', ''effect.partial_observed''}"
  shows "attempt_adds request attempt r ra"
proof -
  obtain x where x: "rn_trace (fst ra) = rn_trace (observe_with act stage attempt [] request r) @ [x]"
      "jget x ''attempt'' = jnat attempt" "\<not> effect_entry x" "\<not> checked_entry False x"
      "rn_attempts (fst ra) = rn_attempts (observe_with act stage attempt [] request r)"
      "rn_target (fst ra) = rn_target (observe_with act stage attempt [] request r)"
    using v2_failed_trace [OF assms(1)] .
  then have "\<forall>e\<in>set [x]. jget e ''attempt'' = jnat attempt \<and> \<not> effect_entry e \<and> \<not> checked_entry False e" by simp
  then show ?thesis using observed_adds [OF assms(2,3) x(1) x(5) x(6)] by blast
qed

lemma responded_adds: "attempt_adds request attempt r (responded attempt (observe attempt request r), False)"
  by (rule observed_adds [where act = apply_effect and stage = "''effect.observed''"
        and fs = "[JObj [(''attempt'', jnat attempt), (''stage'', JStr ''response.received'')]]"])
    (simp_all add: observe_def run_simps entry_simps)

lemma v2_effect_cases:
  assumes "v2_effect scenario attempt request r = Inr ra"
  obtains e where "v2_failed scenario attempt e r = Inr ra"
  | e where "v2_failed scenario attempt e (observe_with apply_partial ''effect.partial_observed'' attempt [] request r) = Inr ra"
  | e where "v2_failed scenario attempt e (observe_with apply_effect ''effect.observed'' attempt [] request r) = Inr ra"
  | "ra = (responded attempt (observe attempt request r), False)"
  using assms unfolding v2_effect_def Let_def observe_def by (metis Inr_inject)

lemma v2_effect_adds:
  assumes "v2_effect scenario attempt request r = Inr ra"
  shows "attempt_adds request attempt r ra"
  using assms by (rule v2_effect_cases) (auto intro: failed_adds observed_failed_adds responded_adds)

lemma v2_attempt_adds:
  assumes "v2_attempt scenario authorize attempt r = Inr ra"
  shows "attempt_adds (attempt_request scenario attempt) attempt r ra"
proof -
  let ?q = "attempt_request scenario attempt" and ?r1 = "attempt_started scenario attempt r"
  obtain s where s: "rn_trace ?r1 = rn_trace r @ [s]" "rn_attempts ?r1 = rn_attempts r" "rn_target ?r1 = rn_target r"
      "\<forall>e\<in>set [s]. jget e ''attempt'' = jnat attempt \<and> \<not> effect_entry e \<and> \<not> checked_entry False e"
    by (simp add: run_simps entry_simps)
  consider (failed) e where "v2_failed scenario attempt e ?r1 = Inr ra"
    | (went) auth where "truthy (jget auth ''ok'')" "v2_effect scenario attempt ?q (checked_trace attempt auth [] ?r1) = Inr ra"
    | (denied) auth where "\<not> truthy (jget auth ''ok'')" "ra = (v2_denied attempt auth (checked_trace attempt auth [] ?r1), False)"
    using assms by (fastforce simp: v2_attempt_def Let_def split: if_splits sum.splits)
  then show ?thesis
  proof cases
    case failed
    show ?thesis using attempt_adds_after [OF failed_adds [OF failed] s] .
  next
    case went
    obtain c where "rn_trace (checked_trace attempt auth [] ?r1) = rn_trace ?r1 @ [c]"
        "\<forall>e\<in>set [c]. jget e ''attempt'' = jnat attempt \<and> \<not> effect_entry e \<and> \<not> checked_entry False e"
      using went(1) by (simp add: checked_trace_def trace_push_def entry_simps)
    then show ?thesis using attempt_adds_after [OF attempt_adds_after [OF v2_effect_adds [OF went(2)], of ?r1] s]
      by (simp add: checked_trace_def trace_push_def)
  next
    case denied
    then show ?thesis using s by (auto simp: attempt_adds_def target_step_def run_simps entry_simps)
  qed
qed

section \<open>The loop\<close>

text \<open>What holds after an attempt, and before the first: \<open>key\<close> is the key every request carries, when there is one.\<close>

definition quiet_after_denial :: "jval list \<Rightarrow> bool" where
  "quiet_after_denial es \<longleftrightarrow> (\<forall>u d v. es = u @ d # v \<and> checked_entry False d \<longrightarrow> effects_in v = 0)"

definition one_key :: "jval option \<Rightarrow> target \<Rightarrow> bool" where
  "one_key key t \<longleftrightarrow> (case key of None \<Rightarrow> True
     | Some v \<Rightarrow> tg_idempotent t \<and> (tg_effects t \<noteq> [] \<longrightarrow> v \<in> set (tg_keys t)) \<and> effect_count t \<le> 1)"

definition run_ok :: "jval option \<Rightarrow> run \<times> bool \<Rightarrow> bool" where
  "run_ok key ra \<longleftrightarrow> (case ra of (r, again) \<Rightarrow>
     effect_count (rn_target r) \<le> effects_in (rn_trace r)
     \<and> (\<forall>e\<in>set (rn_trace r). \<exists>k\<le>rn_attempts r. jget e ''attempt'' = jnat k)
     \<and> (\<forall>k. effects_in (filter (\<lambda>e. jget e ''attempt'' = jnat k) (rn_trace r)) \<le> 1)
     \<and> quiet_after_denial (rn_trace r) \<and> containment r
     \<and> (again \<longrightarrow> \<not> list_ex (checked_entry False) (rn_trace r))
     \<and> one_key key (rn_target r))"

lemma target_step_count: "target_step request t t' \<Longrightarrow> effect_count t' \<le> Suc (effect_count t)"
  by (auto simp: target_step_def apply_effect_def apply_partial_def record_effect_def effect_count_def Let_def)

lemma target_step_key:
  assumes "target_step request t t'" "one_key key t" "\<And>v. key = Some v \<Longrightarrow> truthy v \<and> jget request ''idempotency_key'' = v"
  shows "one_key key t'"
  using assms
  by (cases key)
    (auto simp: one_key_def target_step_def apply_effect_def apply_partial_def record_effect_def effect_count_def Let_def jor_def)

lemma containment_append:
  assumes "containment r" "rn_trace r' = rn_trace r @ es" "\<forall>e\<in>set (rn_trace r). jget e ''attempt'' \<noteq> v"
    and "\<forall>e\<in>set es. jget e ''attempt'' = v" "list_ex (checked_entry False) es \<longrightarrow> \<not> list_ex effect_entry es"
  shows "containment r'"
  using assms by (auto simp: containment_def some_entry_def list_all_iff list_ex_iff strict_eq_def)

lemma quiet_append:
  assumes "\<not> list_ex (checked_entry False) es" "list_ex (checked_entry False) fs \<longrightarrow> effects_in fs = 0"
  shows "quiet_after_denial (es @ fs)"
proof (unfold quiet_after_denial_def, intro allI impI)
  fix u d v assume a: "es @ fs = u @ d # v \<and> checked_entry False d"
  then obtain w where "fs = w @ d # v" using assms(1) by (auto simp: append_eq_append_conv2 append_eq_Cons_conv Cons_eq_append_conv)
  then show "effects_in v = 0" using a assms(2) by (simp split: if_splits)
qed

lemma filter_attempt_other:
  assumes "\<forall>e\<in>set es. jget e ''attempt'' = jnat n"
  shows "filter (\<lambda>e. jget e ''attempt'' = jnat k) es = (if k = n then es else [])"
  using assms by (induction es) (auto simp: jnat_def)

lemma run_ok_attempt:
  assumes "run_ok key (r, True)" "attempt_adds request (Suc (rn_attempts r)) (r\<lparr>rn_attempts := Suc (rn_attempts r)\<rparr>) ra"
    and "\<And>v. key = Some v \<Longrightarrow> truthy v \<and> jget request ''idempotency_key'' = v"
  shows "run_ok key ra \<and> rn_attempts (fst ra) = Suc (rn_attempts r)"
proof -
  let ?n = "Suc (rn_attempts r)"
  obtain r' again where ra: "ra = (r', again)" by force
  obtain es where t: "rn_trace r' = rn_trace r @ es" "\<forall>e\<in>set es. jget e ''attempt'' = jnat ?n" "effects_in es \<le> 1"
      "rn_target r' \<noteq> rn_target r \<longrightarrow> effects_in es = 1"
      "list_ex (checked_entry False) es \<longrightarrow> effects_in es = 0 \<and> \<not> again"
    and n: "rn_attempts r' = ?n" and g: "target_step request (rn_target r) (rn_target r')"
    using assms(2) by (auto simp: attempt_adds_def ra)
  have old: "\<forall>e\<in>set (rn_trace r). \<exists>k\<le>rn_attempts r. jget e ''attempt'' = jnat k"
      "effect_count (rn_target r) \<le> effects_in (rn_trace r)" "\<not> list_ex (checked_entry False) (rn_trace r)" "containment r"
      "\<And>k. effects_in (filter (\<lambda>e. jget e ''attempt'' = jnat k) (rn_trace r)) \<le> 1" "one_key key (rn_target r)"
    using assms(1) by (simp_all add: run_ok_def)
  have fresh: "\<forall>e\<in>set (rn_trace r). jget e ''attempt'' \<noteq> jnat ?n" using old(1) by (fastforce simp: jnat_def)
  then have none: "filter (\<lambda>e. jget e ''attempt'' = jnat ?n) (rn_trace r) = []" by (simp add: filter_empty_conv)
  have "containment r'" using old(4) t fresh containment_append [of r r' es] by (simp add: effects_in_0)
  moreover have "\<forall>e\<in>set (rn_trace r'). \<exists>k\<le>?n. jget e ''attempt'' = jnat k" using old(1) t(1,2) le_Suc_eq by auto
  moreover have "effect_count (rn_target r') \<le> effects_in (rn_trace r')"
    using target_step_count [OF g] old(2) t(1,4) by (cases "rn_target r' = rn_target r") auto
  moreover have "effects_in (filter (\<lambda>e. jget e ''attempt'' = jnat k) (rn_trace r')) \<le> 1" for k
    using old(5) [of k] t(1,3) none filter_attempt_other [OF t(2), of k] by (cases "k = ?n") simp_all
  moreover have "quiet_after_denial (rn_trace r')" using quiet_append [OF old(3)] t(1,5) by simp
  moreover have "again \<longrightarrow> \<not> list_ex (checked_entry False) (rn_trace r')" using old(3) t(1,5) by auto
  ultimately show ?thesis using n target_step_key [OF g old(6) assms(3)] by (simp add: run_ok_def ra)
qed

lemma retry_loop_next:
  "n < m \<Longrightarrow> retry_loop step m n r = bind_res (step (Suc n) (r\<lparr>rn_attempts := Suc n\<rparr>))
     (\<lambda>ra. if snd ra then retry_loop step m (Suc n) (fst ra) else Inr (fst ra))"
  by (subst retry_loop.simps) (simp add: split_def)

lemma retry_loop_ok:
  assumes "\<And>n r ra. run_ok key (r, True) \<Longrightarrow> rn_attempts r = n \<Longrightarrow> step (Suc n) (r\<lparr>rn_attempts := Suc n\<rparr>) = Inr ra
      \<Longrightarrow> run_ok key ra \<and> rn_attempts (fst ra) = Suc n"
    and "run_ok key (r, True)" "rn_attempts r = n" "n \<le> m" "retry_loop step m n r = Inr r'"
  shows "\<exists>again. run_ok key (r', again) \<and> rn_attempts r' \<le> m"
  using assms(2-)
proof (induction "m - n" arbitrary: n r)
  case (Suc k)
  then have "n < m" by simp
  then obtain ra where ra: "step (Suc n) (r\<lparr>rn_attempts := Suc n\<rparr>) = Inr ra"
      "(if snd ra then retry_loop step m (Suc n) (fst ra) else Inr (fst ra)) = Inr r'"
    using Suc.prems(4) by (auto simp: retry_loop_next bind_res_def split: sum.splits)
  have ok: "run_ok key ra" "rn_attempts (fst ra) = Suc n" using assms(1) Suc.prems(1,2) ra(1) by blast+
  show ?case
  proof (cases "snd ra")
    case True
    then have "run_ok key (fst ra, True)" using ok(1) by (metis prod.collapse)
    then show ?thesis using Suc.hyps(1) [of "Suc n" "fst ra"] Suc.hyps(2) ok(2) \<open>n < m\<close> ra(2) True by simp
  next
    case False
    then show ?thesis using ok ra(2) \<open>n < m\<close> by (cases ra) auto
  qed
qed (auto simp: retry_loop.simps)

lemma retry_loop_throws: "retry_loop step m n r = Inl e \<Longrightarrow> \<exists>k r'. step k r' = Inl e"
proof (induction "m - n" arbitrary: n r)
  case (Suc k)
  then have next': "retry_loop step m n r = bind_res (step (Suc n) (r\<lparr>rn_attempts := Suc n\<rparr>))
     (\<lambda>ra. if snd ra then retry_loop step m (Suc n) (fst ra) else Inr (fst ra))" using retry_loop_next by simp
  show ?case
  proof (cases "step (Suc n) (r\<lparr>rn_attempts := Suc n\<rparr>)")
    case (Inr ra)
    then have "retry_loop step m (Suc n) (fst ra) = Inl e"
      using Suc.prems next' by (auto simp: bind_res_def split: if_splits)
    then show ?thesis using Suc.hyps(1) [of "Suc n" "fst ra"] Suc.hyps(2) by simp
  next
    case (Inl e')
    then show ?thesis using Suc.prems next' by (auto simp: bind_res_def)
  qed
qed (simp add: retry_loop.simps)

text \<open>An attempt throws only when the callback has thrown \<open>null\<close> or \<open>undefined\<close>.\<close>

lemma v2_attempt_throws:
  assumes "v2_attempt scenario authorize attempt r = Inl x"
  shows "\<exists>f q v. authorize = Some f \<and> f attempt q = Inl v \<and> jnullish v"
proof -
  have "\<not> jnullish (v2Error scenario p a)" for p a by (simp add: v2Error_def jnullish_def)
  then have "v2_failed scenario attempt (v2Error scenario p a) r' \<noteq> Inl x" "v2_effect scenario attempt q r' \<noteq> Inl x" for p a r' q
    by (simp_all add: v2_failed_def v2_effect_def Let_def)
  then obtain e r' where e: "v2_authority scenario authorize attempt (attempt_request scenario attempt) = Inl e"
      "v2_failed scenario attempt e r' = Inl x"
    using assms by (auto simp: v2_attempt_def Let_def split: if_splits sum.splits)
  then have "jnullish e" by (simp add: v2_failed_def Let_def split: if_splits)
  then show ?thesis using e(1) by (auto simp: v2_authority_def ask_authority_def Let_def split: if_splits option.splits)
qed

text \<open>C28: The retry loop of the fault runner is bounded and contained.  A run of a version 2 scenario on a fresh
  target returns, unless the callback that is asked for authority throws \<open>null\<close> or \<open>undefined\<close>.  It makes at most the
  attempts the scenario allows; each attempt reports at most one effect, and the target holds no more effects than
  were reported; after the entry of a denied authorization the trace reports no effect, in that attempt or a later
  one, and an attempt with a denial reports none at all; and when the target is idempotent and every retry carries
  the same key, the whole run has at most one effect, whatever fault is injected, whenever it is repeated, and
  whatever the authority answers or throws.\<close>

theorem synthetic_run_bounded:
  assumes "lo_target options = None"
  shows "case v2_run scenario options of
      Inl e \<Rightarrow> \<exists>f n q v. lo_authorize options = Some f \<and> f n q = Inl v \<and> jnullish v
    | Inr r \<Rightarrow> rn_attempts r \<le> max_attempts scenario
        \<and> (\<forall>k. effects_in (filter (\<lambda>e. jget e ''attempt'' = jnat k) (rn_trace r)) \<le> 1)
        \<and> effect_count (rn_target r) \<le> effects_in (rn_trace r)
        \<and> (\<forall>before d after. rn_trace r = before @ d # after \<and> checked_entry False d \<longrightarrow> effects_in after = 0)
        \<and> containment r
        \<and> (jget (jget scenario ''target'') ''idempotency'' \<noteq> JStr ''none'' \<and> truthy (base_key scenario)
             \<and> truthy (retry_field scenario ''preserve_idempotency_key'')
           \<longrightarrow> effect_count (rn_target r) \<le> 1)"
proof (cases "v2_run scenario options")
  case (Inl e)
  then show ?thesis using retry_loop_throws v2_attempt_throws by (fastforce simp: v2_run_def)
next
  case (Inr r)
  let ?step = "v2_attempt scenario (lo_authorize options)" and ?r0 = "v2_target scenario options"
  have run: "\<exists>again. run_ok key (r, again) \<and> rn_attempts r \<le> max_attempts scenario"
    if k: "\<And>v. key = Some v \<Longrightarrow> truthy v \<and> tg_idempotent (rn_target ?r0) \<and> (\<forall>n. jget (attempt_request scenario n) ''idempotency_key'' = v)"
    for key
  proof (rule retry_loop_ok [of key ?step ?r0 0])
    show "run_ok key (?r0, True)"
      using k assms by (auto simp: run_ok_def v2_target_def start_run_def new_run_def new_target_def effect_count_def
          containment_def one_key_def quiet_after_denial_def split: option.split)
    show "rn_attempts ?r0 = 0" by (simp add: v2_target_def start_run_def new_run_def)
    show "retry_loop ?step (max_attempts scenario) 0 ?r0 = Inr r" using Inr by (simp add: v2_run_def)
    show "run_ok key ra \<and> rn_attempts (fst ra) = Suc n"
      if "run_ok key (q, True)" "rn_attempts q = n" "?step (Suc n) (q\<lparr>rn_attempts := Suc n\<rparr>) = Inr ra" for n q ra
      using run_ok_attempt [OF that(1), of "attempt_request scenario (Suc n)"] v2_attempt_adds [OF that(3)] that(2) k by blast
  qed simp
  have "effect_count (rn_target r) \<le> 1"
    if "jget (jget scenario ''target'') ''idempotency'' \<noteq> JStr ''none''" "truthy (base_key scenario)"
      "truthy (retry_field scenario ''preserve_idempotency_key'')"
    using run [of "Some (base_key scenario)"] that assms
    by (auto simp: run_ok_def one_key_def attempt_request_def target_request_def v2_target_def start_run_def new_run_def new_target_def Let_def)
  then show ?thesis using run [of None] Inr by (auto simp: run_ok_def quiet_after_denial_def)
qed

definition wit_scenario :: jval where
  "wit_scenario = JObj [(''target'', JObj [(''action'', JStr ''a''), (''idempotency'', JStr ''required''), (''idempotency_key'', JStr ''k'')]),
     (''authority'', JObj [(''initial_state'', JStr ''valid'')]),
     (''fault'', JObj [(''phase'', JStr ''before_response''), (''class'', JStr ''response_loss''), (''on_attempt'', JNum 1), (''repeat'', JStr ''once'')]),
     (''retry'', JObj [(''max_attempts'', JNum 3), (''strategy'', JStr ''immediate''), (''preserve_idempotency_key'', JBool True)])]"

definition wit_lab :: lab_options where
  "wit_lab = \<lparr>lo_authorize = Some (\<lambda>n q. if n = 1 then Inr allowed_auth else Inr (denied_auth ''no'')), lo_values = JObj [], lo_target = None\<rparr>"

text \<open>The response of the first attempt is lost after its effect; the authority denies the second, the last of three.\<close>

theorem synthetic_run_bounded_witness:
  "case v2_run wit_scenario wit_lab of Inl e \<Rightarrow> False
   | Inr r \<Rightarrow> rn_attempts r = 2 \<and> rn_denials r = 1 \<and> effects_in (rn_trace r) = 1 \<and> effect_count (rn_target r) \<le> 1 \<and> containment r"
proof -
  have run: "case v2_run wit_scenario wit_lab of Inl e \<Rightarrow> False
     | Inr r \<Rightarrow> rn_attempts r = 2 \<and> rn_denials r = 1 \<and> effects_in (rn_trace r) = 1" by code_simp
  have "jget (jget wit_scenario ''target'') ''idempotency'' \<noteq> JStr ''none''" "truthy (base_key wit_scenario)"
    "truthy (retry_field wit_scenario ''preserve_idempotency_key'')" "lo_target wit_lab = None"
    by code_simp+
  then show ?thesis using synthetic_run_bounded [of wit_lab wit_scenario] run by (auto split: sum.splits)
qed

section \<open>A race for one authority\<close>

definition consumed_entries :: "run \<Rightarrow> nat" where
  "consumed_entries r = length (filter (staged [''lease.consumed'']) (rn_trace r))"

lemma actor_effect_adds:
  "consumed_entries (actor_effect scenario a r) = consumed_entries r
   \<and> effect_count (rn_target (actor_effect scenario a r)) \<le> Suc (effect_count (rn_target r))"
  using target_step_count [of "actor_request scenario a" "rn_target r" "snd (apply_effect (actor_request scenario a) (rn_target r))"]
  by (cases "apply_effect (actor_request scenario a) (rn_target r)")
    (simp add: actor_effect_def observe_with_def run_simps consumed_entries_def staged_def target_step_def Let_def)

lemma race_after:
  "consumed_entries (race_consume scenario True as r) = consumed_entries r
   \<and> rn_target (race_consume scenario True as r) = rn_target r"
  by (induction scenario True as r rule: race_consume.induct)
    (simp_all add: run_simps consumed_entries_def staged_def Let_def)

text \<open>One contender consumes the shared authority, and it alone has an effect.\<close>

lemma race_one_winner:
  "consumed_entries (race_consume scenario False (a # as) r) = Suc (consumed_entries r)
   \<and> effect_count (rn_target (race_consume scenario False (a # as) r)) \<le> Suc (effect_count (rn_target r))"
proof -
  let ?r = "trace_push a ''lease.consumed'' [actor_name a] (trace_push a ''lease.consume_attempt'' [actor_name a] r)"
  have "consumed_entries ?r = Suc (consumed_entries r)" "rn_target ?r = rn_target r"
    by (simp_all add: run_simps consumed_entries_def staged_def)
  then show ?thesis using actor_effect_adds [of scenario a ?r] race_after [of scenario as "actor_effect scenario a ?r"]
    by (simp add: Let_def)
qed

end
