(* ===== verification/Mcp.thy ===== *)
theory Mcp
  imports Receipt
begin

text \<open>
  The checks on MCP requests in \<^verbatim>\<open>packages/core/src/mcp\<close>: the headers of a request against its body
  (\<^verbatim>\<open>protocol.js\<close>), and a tool call against the capability surface that was pinned (\<^verbatim>\<open>capability-pin.js\<close>).
\<close>

section \<open>Requests\<close>

definition MCP_PROTOCOL_2026_07_28 :: string where
  "MCP_PROTOCOL_2026_07_28 = ''2026-07-28''"

definition MCP_PROTOCOL_2025_06_18 :: string where
  "MCP_PROTOCOL_2025_06_18 = ''2025-06-18''"

definition SUPPORTED_MCP_PROTOCOLS :: "string list" where
  "SUPPORTED_MCP_PROTOCOLS = [MCP_PROTOCOL_2026_07_28, MCP_PROTOCOL_2025_06_18]"

text \<open>The header names in lower case; of headers that then agree the last one stays.\<close>

definition header_value :: "jval \<Rightarrow> jval" where
  "header_value v = (case v of JArr [] \<Rightarrow> JUndef | JArr (x # xs) \<Rightarrow> x | _ \<Rightarrow> v)"

definition lowerHeaders :: "jval \<Rightarrow> jval" where
  "lowerHeaders headers = fold (\<lambda>(k, v) h. jset h (str_lower k) (header_value v)) (props_of headers) (JObj [])"

record mcp_request =
  mr_errors :: "string list"
  mr_warnings :: "string list"
  mr_version :: string
  mr_generation :: string
  mr_method :: jval
  mr_name :: jval

definition header_mismatches :: "jval \<Rightarrow> jval \<Rightarrow> string list" where
  "header_mismatches h body =
     (let methodHeader = jget h ''mcp-method''; nameHeader = jget h ''mcp-name''; m = jget body ''method'';
          n = jget (jget body ''params'') ''name'' in
      err_if (truthy methodHeader \<and> truthy m \<and> to_str methodHeader \<noteq> to_str m) ''Mcp-Method header/body mismatch''
      @ err_if (m = JStr ''tools/call'' \<and> truthy nameHeader \<and> truthy n \<and> to_str nameHeader \<noteq> to_str n)
          ''Mcp-Name header/body mismatch'')"

definition inspectMcpRequest :: "jval \<Rightarrow> jval \<Rightarrow> mcp_request" where
  "inspectMcpRequest headers body =
     (let h = lowerHeaders headers; m = jget body ''method'';
          version = to_str (jor (jor (jor (jget h ''mcp-protocol-version'') (jget body ''protocolVersion''))
            (jget body ''protocol_version'')) (JStr MCP_PROTOCOL_2025_06_18));
          stateless = (version = MCP_PROTOCOL_2026_07_28) in
      \<lparr>mr_errors = err_if (version \<notin> set SUPPORTED_MCP_PROTOCOLS) (''unsupported MCP protocol version: '' @ version)
         @ (if stateless then header_mismatches h body else []),
       mr_warnings = err_if (stateless \<and> one_of [''initialize'', ''notifications/initialized''] m)
         ''legacy initialization method observed on 2026 stateless path'',
       mr_version = version,
       mr_generation = (if stateless then ''2026-stateless'' else ''2025-session-compatible''),
       mr_method = jor (jor m (jget h ''mcp-method'')) JNull,
       mr_name = jor (jor (jget (jget body ''params'') ''name'') (jget h ''mcp-name'')) JNull\<rparr>)"

section \<open>Capability pins\<close>

definition semantic_tool :: "jval \<Rightarrow> jval" where
  "semantic_tool t =
     JObj ((''name'', JStr (to_str (jor (jget t ''name'') (JStr []))))
       # map (\<lambda>k. (k, jor (jget t k) JNull)) [''schema_digest'', ''description_digest'', ''annotations_digest''])"

definition by_name :: "host \<Rightarrow> jval list \<Rightarrow> jval list" where
  "by_name H = sort_by (\<lambda>a b. locale_compare H (str_of (jget a ''name'')) (str_of (jget b ''name'')) \<le> 0)"

definition semanticToolFingerprint :: "host \<Rightarrow> jval \<Rightarrow> string" where
  "semanticToolFingerprint H manifest =
     canonicalDigest H (JArr (by_name H (map semantic_tool (arr_of (jget manifest ''tools'')))))"

definition pinned_tool :: "jval \<Rightarrow> jval" where
  "pinned_tool t =
     JObj [(''name'', JStr (to_str (jget t ''name''))), (''schema_digest'', jor (jget t ''schema_digest'') JNull)]"

definition pin_ttl :: "jval \<Rightarrow> int" where
  "pin_ttl v = (if is_int v then max 1000 (num_of v) else 24 * 60 * 60 * 1000)"

definition buildMcpCapabilityPin :: "host \<Rightarrow> jval \<Rightarrow> jval \<Rightarrow> jval res" where
  "buildMcpCapabilityPin H manifest options =
     throw_if (\<not> truthy (jget manifest ''fingerprint'')) ''MCP capability pin requires a capability manifest fingerprint''
     (let created = date_or_now H (jget options ''createdAt'') in
      bind_res (to_iso created) (\<lambda>createdAt.
      bind_res (to_iso (Option.bind created (\<lambda>t. time_clip (t + pin_ttl (jget options ''ttlMs''))))) (\<lambda>expiresAt.
        Inr (JObj [(''pin_version'', JStr ''1.0''), (''fingerprint'', jget manifest ''fingerprint''),
          (''semantic_definition_fingerprint'', JStr (semanticToolFingerprint H manifest)),
          (''identity'', jor (jget manifest ''identity'') (JObj [])), (''created_at'', JStr createdAt), (''expires_at'', JStr expiresAt),
          (''tools'', JArr (by_name H (map pinned_tool (arr_of (jget manifest ''tools'')))))]))))"

text \<open>An invalid \<open>options.now\<close> is no number, and no date is at or before it.\<close>

definition pin_expired :: "host \<Rightarrow> jval \<Rightarrow> jval \<Rightarrow> bool" where
  "pin_expired H pin options \<longleftrightarrow>
     (case date_or_zero (jget pin ''expires_at'') of
        None \<Rightarrow> True
      | Some e \<Rightarrow> (case (to_date (jget pin ''expires_at''), date_or_now H (jget options ''now'')) of
          (Some t, Some n) \<Rightarrow> t \<le> n | _ \<Rightarrow> False))"

definition verifyMcpToolCallAgainstPin :: "host \<Rightarrow> jval \<Rightarrow> jval \<Rightarrow> jval \<Rightarrow> string list" where
  "verifyMcpToolCallAgainstPin H payload pin options =
     (let name = to_str (jor (jget (jget payload ''params'') ''name'') (JStr [])); current = jget options ''currentManifest'';
          pinned = jget pin ''semantic_definition_fingerprint'' in
      err_if (jget pin ''pin_version'' \<noteq> JStr ''1.0'') ''unsupported or missing MCP capability pin version''
      @ err_if (pin_expired H pin options) ''MCP capability pin has expired''
      @ (if name = [] then [''MCP tools/call is missing params.name'']
         else err_if (\<not> list_ex (\<lambda>t. jget t ''name'' = JStr name) (arr_of (jget pin ''tools'')))
           (''MCP tool is outside pinned capability surface: '' @ name))
      @ err_if (truthy (jget current ''fingerprint'') \<and> \<not> strict_eq (jget current ''fingerprint'') (jget pin ''fingerprint''))
          ''MCP capability surface fingerprint changed; re-inspection and re-pinning required''
      @ err_if (truthy current \<and> truthy pinned \<and> pinned \<noteq> JStr (semanticToolFingerprint H current))
          ''MCP tool semantic definition changed; explicit review and re-pinning required'')"

section \<open>A pin accepts its own manifest\<close>

lemma set_by_name [simp]: "set (by_name H xs) = set xs"
  by (simp add: by_name_def)

text \<open>A pin without \<open>expires_at\<close> is never expired: the first test reads a missing date as 0, the second as
  no date.\<close>

lemma pin_without_expiry: "\<not> pin_expired H (JObj [(''pin_version'', JStr ''1.0'')]) options"
  by (simp add: pin_expired_def date_or_zero_def to_date_def)

text \<open>A call of a tool of the manifest that was pinned passes until the pin expires, and no other tool does.\<close>

lemma pin_accepts:
  assumes "buildMcpCapabilityPin H manifest options = Inr pin" "clock_ok H"
    and "date_or_now H (jget options ''createdAt'') = Some created" "date_or_now H (jget check ''now'') = Some now"
    and "created \<le> now" "now < created + pin_ttl (jget options ''ttlMs'')" "\<bar>created + pin_ttl (jget options ''ttlMs'')\<bar> \<le> max_time"
    and "jget check ''currentManifest'' = manifest" "is_str (jget manifest ''fingerprint'')"
    and "to_str (jor (jget (jget payload ''params'') ''name'') (JStr [])) = name" "name \<noteq> []"
  shows "verifyMcpToolCallAgainstPin H payload pin check = []
    \<longleftrightarrow> list_ex (\<lambda>t. to_str (jget t ''name'') = name) (arr_of (jget manifest ''tools''))"
proof -
  let ?expires = "created + pin_ttl (jget options ''ttlMs'')"
  have p: "jget pin ''pin_version'' = JStr ''1.0''" "jget pin ''fingerprint'' = jget manifest ''fingerprint''"
    "jget pin ''semantic_definition_fingerprint'' = JStr (semanticToolFingerprint H manifest)"
    "jget pin ''expires_at'' = JStr (iso_string ?expires)"
    "jget pin ''tools'' = JArr (by_name H (map pinned_tool (arr_of (jget manifest ''tools''))))"
    using assms(1,3,7) by (auto simp: buildMcpCapabilityPin_def res_simps Let_def time_clip_def to_iso_eq_Inr)
  have "to_date (jget pin ''expires_at'') = Some ?expires" using p(4) assms(7) by (simp add: to_date_iso)
  then have "\<not> pin_expired H pin check" using assms(4,6) p(4) by (simp add: pin_expired_def date_or_zero_def)
  moreover have "strict_eq (jget manifest ''fingerprint'') (jget pin ''fingerprint'')"
    using assms(9) p(2) by (auto simp: is_str_def strict_eq_def split: jval.splits)
  moreover have "list_ex (\<lambda>t. jget t ''name'' = JStr name) (arr_of (jget pin ''tools''))
      = list_ex (\<lambda>t. to_str (jget t ''name'') = name) (arr_of (jget manifest ''tools''))"
    by (simp add: p(5) list_ex_iff pinned_tool_def)
  ultimately show ?thesis using assms(8,10,11) p(1,3) by (simp add: verifyMcpToolCallAgainstPin_def Let_def)
qed

end
