(* ===== verification/Extensions.thy ===== *)
theory Extensions
  imports ProtocolEvidence ProtocolCrashLab
begin

text \<open>
  The extension registry, \<^verbatim>\<open>packages/core/src/extensions/spi.js\<close>.  The implementation of an extension is code outside
  the repository: its methods are procedures over a state \<open>'s\<close> that return a value or throw.  What an extension
  returns is checked before it is passed on: a policy must be valid, an enrichment may carry no authority field.
\<close>

section \<open>Extensions\<close>

definition RULEOAK_EXTENSION_SPI_VERSION :: string where
  "RULEOAK_EXTENSION_SPI_VERSION = ''1.0''"

definition METHOD_BY_KIND :: "(string \<times> string) list" where
  "METHOD_BY_KIND =
     [(''organization_policy'', ''getPolicy''), (''approval'', ''request''), (''event_sink'', ''emit''),
      (''inspector_intelligence'', ''enrich''), (''crashlab_scenario'', ''listScenarios'')]"

definition FORBIDDEN_INTELLIGENCE_KEYS :: "string list" where
  "FORBIDDEN_INTELLIGENCE_KEYS =
     [''decision'', ''effect'', ''allow'', ''deny'', ''policy'', ''execution_lease'', ''authority_envelope'']"

type_synonym 's ext_call = "'s \<Rightarrow> jval list \<Rightarrow> 's \<times> jval res"

text \<open>An implementation by the names of its members, \<open>None\<close> a member that is not a function; an extension may have
  no implementation object.\<close>

type_synonym 's implementation = "(string \<times> 's ext_call option) list"

record 's extension =
  ex_descriptor :: jval
  ex_implementation :: "'s implementation option"

definition member :: "'s implementation \<Rightarrow> string \<Rightarrow> 's ext_call option" where
  "member impl name = (case map_of impl name of None \<Rightarrow> None | Some f \<Rightarrow> f)"

definition implementation_errors :: "jval \<Rightarrow> 's implementation option \<Rightarrow> string list" where
  "implementation_errors kind impl =
     (case impl of
        None \<Rightarrow> [''implementation must be an object'']
      | Some m \<Rightarrow>
          (case map_of METHOD_BY_KIND (str_of kind) of
             Some name \<Rightarrow> err_if (is_str kind \<and> member m name = None) (str_of kind @ '' implementation requires '' @ name @ ''()'')
           | None \<Rightarrow> [])
          @ err_if (kind = JStr ''crashlab_scenario'' \<and> map_of m ''loadScenario'' = Some None)
              ''crashlab_scenario loadScenario must be a function when present'')"

definition validateRuleOakExtension :: "'s extension \<Rightarrow> string list" where
  "validateRuleOakExtension e =
     validateExtensionDescriptor (ex_descriptor e)
     @ implementation_errors (jget (ex_descriptor e) ''kind'') (ex_implementation e)"

definition validateIntelligenceResult :: "jval \<Rightarrow> string list" where
  "validateIntelligenceResult v =
     (if jnullish v then []
      else if \<not> is_obj v then [''Inspector intelligence result must be an object'']
      else concat (map (\<lambda>k. err_if (str_lower k \<in> set FORBIDDEN_INTELLIGENCE_KEYS)
          (''Inspector intelligence may not return authority field: '' @ k)) (jkeys v)))"

section \<open>The registry\<close>

record 's registered =
  rg_descriptor :: jval
  rg_implementation :: "'s implementation"

type_synonym 's extensions = "(string \<times> 's registered) list"

definition register_extension :: "'s extensions \<Rightarrow> 's extension \<Rightarrow> (jval \<times> 's extensions) res" where
  "register_extension exts e =
     (let errors = validateRuleOakExtension e; d = ex_descriptor e; eid = str_of (jget d ''extension_id'') in
      throw_if (errors \<noteq> []) (''invalid RuleOak extension: '' @ join_errors errors)
     (throw_if (map_of exts eid \<noteq> None) (''duplicate RuleOak extension: '' @ eid)
     (case ex_implementation e of
        None \<Rightarrow> Inl TypeError
      | Some m \<Rightarrow> Inr (d, exts @ [(eid, \<lparr>rg_descriptor = d, rg_implementation = m\<rparr>)]))))"

definition of_kind :: "string \<Rightarrow> 's extensions \<Rightarrow> 's registered list" where
  "of_kind kind exts = filter (\<lambda>x. jget (rg_descriptor x) ''kind'' = JStr kind) (map snd exts)"

definition list_extensions :: "'s extensions \<Rightarrow> string option \<Rightarrow> jval list" where
  "list_extensions exts kind =
     map rg_descriptor (case kind of None \<Rightarrow> map snd exts | Some k \<Rightarrow> if k = [] then map snd exts else of_kind k exts)"

definition get_extension :: "'s extensions \<Rightarrow> string \<Rightarrow> 's registered option" where
  "get_extension exts eid = map_of exts eid"

definition ext_id :: "'s registered \<Rightarrow> jval" where
  "ext_id x = jget (rg_descriptor x) ''extension_id''"

text \<open>A member that is not a function cannot be called.\<close>

definition call_member :: "'s registered \<Rightarrow> string \<Rightarrow> jval list \<Rightarrow> 's \<Rightarrow> 's \<times> jval res" where
  "call_member x name args w =
     (case member (rg_implementation x) name of None \<Rightarrow> (w, Inl TypeError) | Some f \<Rightarrow> f w args)"

text \<open>One extension after the other, each result checked before the next is asked.\<close>

fun ask_each :: "string \<Rightarrow> jval list \<Rightarrow> ('s registered \<Rightarrow> jval \<Rightarrow> jval list res) \<Rightarrow> 's registered list \<Rightarrow> 's \<Rightarrow> 's \<times> jval list res" where
  "ask_each name args check [] w = (w, Inr [])"
| "ask_each name args check (x # xs) w =
     (case call_member x name args w of
        (w', Inl e) \<Rightarrow> (w', Inl e)
      | (w', Inr v) \<Rightarrow>
          (case check x v of
             Inl e \<Rightarrow> (w', Inl e)
           | Inr out \<Rightarrow> (case ask_each name args check xs w' of (w'', r) \<Rightarrow> (w'', bind_res r (\<lambda>rest. Inr (out @ rest))))))"

definition tagged :: "'s registered \<Rightarrow> string \<Rightarrow> jval \<Rightarrow> jval" where
  "tagged x key v = JObj [(''extension_id'', ext_id x), (key, v)]"

definition organizationPolicies :: "'s extensions \<Rightarrow> jval \<Rightarrow> 's \<Rightarrow> 's \<times> jval list res" where
  "organizationPolicies exts context =
     ask_each ''getPolicy'' [context] (\<lambda>x policy. let errors = validatePolicy policy in
        throw_if (errors \<noteq> []) (''organization policy extension '' @ to_str (ext_id x) @ '' returned invalid policy: '' @ join_errors errors)
          (Inr [tagged x ''policy'' policy]))
       (of_kind ''organization_policy'' exts)"

definition requestApproval :: "'s extensions \<Rightarrow> jval \<Rightarrow> jval \<Rightarrow> 's \<Rightarrow> 's \<times> jval res" where
  "requestApproval exts request context w =
     (case of_kind ''approval'' exts of
        [x] \<Rightarrow> (case call_member x ''request'' [request, context] w of (w', r) \<Rightarrow> (w', bind_res r (\<lambda>v. Inr (tagged x ''response'' v))))
      | xs \<Rightarrow> (w, Inl (Error (''exactly one approval extension is required, found '' @ nat_str (length xs)))))"

definition emitEvent :: "'s extensions \<Rightarrow> jval \<Rightarrow> jval \<Rightarrow> 's \<Rightarrow> 's \<times> jval list res" where
  "emitEvent exts event context =
     ask_each ''emit'' [event, context] (\<lambda>x v. Inr [tagged x ''response'' v]) (of_kind ''event_sink'' exts)"

definition enrichInspector :: "'s extensions \<Rightarrow> jval \<Rightarrow> jval \<Rightarrow> 's \<Rightarrow> 's \<times> jval list res" where
  "enrichInspector exts manifest context =
     ask_each ''enrich'' [manifest, context] (\<lambda>x v. let errors = validateIntelligenceResult v in
        throw_if (errors \<noteq> [])
          (''Inspector intelligence extension '' @ to_str (ext_id x) @ '' violated authority boundary: '' @ join_errors errors)
          (Inr [tagged x ''value'' v]))
       (of_kind ''inspector_intelligence'' exts)"

definition check_scenarios :: "'s registered \<Rightarrow> jval \<Rightarrow> jval list res" where
  "check_scenarios x v =
     throw_if (\<not> is_arr v) (''CrashLab extension '' @ to_str (ext_id x) @ '' must return an array'')
       (map_res (\<lambda>s. bind_res (validateCrashLabScenario s) (\<lambda>errors.
          throw_if (errors \<noteq> []) (''CrashLab extension '' @ to_str (ext_id x) @ '' returned invalid scenario: '' @ join_errors errors)
            (Inr (tagged x ''scenario'' s)))) (arr_of v))"

definition crashlabScenarios :: "'s extensions \<Rightarrow> jval \<Rightarrow> 's \<Rightarrow> 's \<times> jval list res" where
  "crashlabScenarios exts context = ask_each ''listScenarios'' [context] check_scenarios (of_kind ''crashlab_scenario'' exts)"

section \<open>The built-in extensions\<close>

definition builtin_descriptor :: "string \<Rightarrow> string \<Rightarrow> string \<Rightarrow> jval" where
  "builtin_descriptor eid kind access =
     JObj [(''spi_version'', JStr ''1.0''), (''extension_id'', JStr eid), (''kind'', JStr kind),
       (''data_access'', JArr [JStr access]), (''network'', JStr ''none'')]"

text \<open>The sink keeps its events in the state.\<close>

definition memory_event_sink :: "string \<Rightarrow> jval list extension" where
  "memory_event_sink eid =
     \<lparr>ex_descriptor = builtin_descriptor eid ''event_sink'' ''effect_metadata'',
      ex_implementation = Some [(''emit'', Some (\<lambda>events args.
        let events' = events @ take 1 args in
        (events', Inr (JObj [(''accepted'', JBool True), (''count'', JNum (int (length events')))]))))]\<rparr>"

definition static_policy_provider :: "jval \<Rightarrow> string \<Rightarrow> 's extension" where
  "static_policy_provider policy eid =
     \<lparr>ex_descriptor = builtin_descriptor eid ''organization_policy'' ''authority_metadata'',
      ex_implementation = Some [(''getPolicy'', Some (\<lambda>w args. (w, Inr policy)))]\<rparr>"

section \<open>What the registry lets through\<close>

definition registry_ok :: "'s extensions \<Rightarrow> bool" where
  "registry_ok exts \<longleftrightarrow> distinct (map fst exts)
     \<and> (\<forall>(eid, x)\<in>set exts. validateExtensionDescriptor (rg_descriptor x) = [] \<and> ext_id x = JStr eid)"

lemma register_extension_ok:
  assumes "registry_ok exts" "register_extension exts e = Inr (d, exts')"
  shows "registry_ok exts'"
proof -
  from assms(2) obtain m where m: "validateExtensionDescriptor d = []" "map_of exts (str_of (jget d ''extension_id'')) = None"
    "exts' = exts @ [(str_of (jget d ''extension_id''), \<lparr>rg_descriptor = d, rg_implementation = m\<rparr>)]"
    by (auto simp: register_extension_def validateRuleOakExtension_def Let_def res_simps split: option.splits)
  have "jget d ''extension_id'' = JStr (str_of (jget d ''extension_id''))"
    using m(1) by (auto simp: validateExtensionDescriptor_def nonempty_str_iff split: if_splits)
  then show ?thesis using assms(1) m by (auto simp: registry_ok_def ext_id_def map_of_eq_None_iff)
qed

lemma ask_each_out:
  "ask_each name args check xs w = (w', Inr out) \<Longrightarrow> o' \<in> set out \<Longrightarrow> \<exists>x\<in>set xs. \<exists>v ys. check x v = Inr ys \<and> o' \<in> set ys"
proof (induction xs arbitrary: w out)
  case (Cons x xs)
  then obtain v w1 ys rest where c: "call_member x name args w = (w1, Inr v)" "check x v = Inr ys"
      "ask_each name args check xs w1 = (w', Inr rest)" "out = ys @ rest"
    by (auto simp: res_simps split: prod.splits sum.splits)
  show ?case
  proof (cases "o' \<in> set ys")
    case False
    then have "o' \<in> set rest" using Cons.prems(2) c(4) by simp
    from Cons.IH [OF c(3) this] show ?thesis by auto
  qed (use c in auto)
qed simp

text \<open>Whatever its extensions return, the registry hands on valid policies only.\<close>

lemma organization_policies_valid:
  "organizationPolicies exts context w = (w', Inr out) \<Longrightarrow> p \<in> set out \<Longrightarrow> validatePolicy (jget p ''policy'') = []"
  unfolding organizationPolicies_def by (drule (1) ask_each_out) (auto simp: res_simps Let_def tagged_def)

text \<open>An enrichment carries no field that names authority, in any case.\<close>

lemma enrichments_carry_no_authority:
  assumes "enrichInspector exts manifest context w = (w', Inr out)" "p \<in> set out"
    and "is_obj (jget p ''value'')" "k \<in> set (jkeys (jget p ''value''))"
  shows "str_lower k \<notin> set FORBIDDEN_INTELLIGENCE_KEYS"
proof -
  have "validateIntelligenceResult (jget p ''value'') = []"
    using ask_each_out [OF assms(1) [unfolded enrichInspector_def] assms(2)] by (auto simp: res_simps Let_def tagged_def)
  moreover have "\<not> jnullish (jget p ''value'')" using assms(3) by (auto simp: jnullish_def)
  ultimately show ?thesis using assms(3,4) by (auto simp: validateIntelligenceResult_def)
qed

end
