(* ===== verification/Scorecard.thy ===== *)
theory Scorecard
  imports CrashLabRun
begin

text \<open>
  The reliability scorecard, \<^verbatim>\<open>packages/core/src/crashlab/scorecard.js\<close>: the results of the fault runner sorted into six
  dimensions, with the summaries that are printed.  The version of the package is a parameter; the indented JSON
  texts are not modelled.
\<close>

section \<open>Dimensions\<close>

definition RELIABILITY_SCORECARD_DIMENSIONS :: "string list" where
  "RELIABILITY_SCORECARD_DIMENSIONS =
     [''duplicate_effect_resistance'', ''revocation_compliance'', ''ambiguity_handling'', ''retry_boundedness'', ''evidence_completeness'',
      ''recovery_correctness'']"

definition RELIABILITY_SCORECARD_INVARIANT_DIMENSIONS :: "(string \<times> string) list" where
  "RELIABILITY_SCORECARD_INVARIANT_DIMENSIONS =
     [(''duplicate_effect_resistance'', ''duplicate_effect_resistance''), (''retry_boundedness'', ''retry_boundedness''),
      (''authority_containment'', ''recovery_correctness''), (''revocation_compliance'', ''revocation_compliance''),
      (''ambiguity_preservation'', ''ambiguity_handling''), (''evidence_completeness'', ''evidence_completeness''),
      (''recovery_correctness'', ''recovery_correctness''), (''one_use_authority'', ''duplicate_effect_resistance''),
      (''stale_state_rejection'', ''recovery_correctness''), (''eventual_consistency_handling'', ''ambiguity_handling'')]"

definition text_le :: "jval \<Rightarrow> jval \<Rightarrow> bool" where
  "text_le a b \<longleftrightarrow> to_str a \<le> to_str b"

text \<open>\<open>compareText(a, b) || compareText(c, d)\<close>.\<close>

definition text_le2 :: "(jval \<Rightarrow> jval) \<Rightarrow> (jval \<Rightarrow> jval) \<Rightarrow> jval \<Rightarrow> jval \<Rightarrow> bool" where
  "text_le2 f g a b \<longleftrightarrow> (if to_str (f a) = to_str (f b) then text_le (g a) (g b) else text_le (f a) (f b))"

definition scenarioIdentity :: "jval \<Rightarrow> jval" where
  "scenarioIdentity r =
     jor (jget r ''scenario_id'') (JStr (''legacy:'' @ to_str (jor (jget r ''scenario'') (JStr ''<unnamed>''))))"

definition checkId :: "jval \<Rightarrow> string" where
  "checkId c = to_str (jor (jget c ''id'') (JStr ''unknown_check''))"

definition dimensionForInvariant :: "string \<Rightarrow> string" where
  "dimensionForInvariant cid =
     (case map_of RELIABILITY_SCORECARD_INVARIANT_DIMENSIONS cid of Some d \<Rightarrow> d | None \<Rightarrow> ''recovery_correctness'')"

definition failure_class_of :: "jval \<Rightarrow> jval" where
  "failure_class_of r = jget (jget r ''taxonomy'') ''failure_class''"

definition dimensionForCheck :: "jval \<Rightarrow> jval \<Rightarrow> string" where
  "dimensionForCheck c r =
     (let cid = checkId c in
      if cid \<in> set [''duplicate_effect_resistance'', ''duplicate-effect-prevention'', ''one_use_authority'']
      then ''duplicate_effect_resistance''
      else if cid \<in> set [''revocation_compliance'', ''revocation-compliance''] then ''revocation_compliance''
      else if cid \<in> set [''ambiguity_preservation'', ''eventual_consistency_handling'', ''ambiguous-failure-recovery'']
      then ''ambiguity_handling''
      else if cid \<in> set [''retry_boundedness'', ''retry-boundedness'', ''attempt-ceiling''] then ''retry_boundedness''
      else if cid \<in> set [''evidence_completeness'', ''evidence_expectation'', ''recorder-completeness''] then ''evidence_completeness''
      else if cid = ''authority_behavior'' \<and> failure_class_of r = JStr ''revocation_race'' then ''revocation_compliance''
      else if cid = ''effect_count_range''
           \<and> jlt (to_number (jget (jget c ''expected'') ''max'')) (to_number (jget c ''actual'')) then ''duplicate_effect_resistance''
      else ''recovery_correctness'')"

section \<open>Normal forms\<close>

definition entry_head :: "jval \<Rightarrow> props" where
  "entry_head r =
     [(''scenario_id'', scenarioIdentity r), (''scenario'', JStr (to_str (jor (jget r ''scenario'') (scenarioIdentity r)))),
      (''result_version'', JStr (to_str (jor (jget r ''result_version'') (JStr ''unknown'')))),
      (''failure_class'', jor (failure_class_of r) JNull)]"

definition normalizeCheck :: "jval \<Rightarrow> jval \<Rightarrow> jval" where
  "normalizeCheck c r =
     JObj (entry_head r
       @ [(''check_id'', JStr (checkId c)), (''pass'', JBool (truthy (jget c ''pass''))),
          (''expected'', json_clone (jcoalesce (jget c ''expected'') JNull)), (''actual'', json_clone (jcoalesce (jget c ''actual'') JNull))]
       @ when_prop (truthy (jget c ''note'')) ''note'' (JStr (to_str (jget c ''note''))))"

definition finite_or_null :: "jval \<Rightarrow> jval" where
  "finite_or_null v = (case to_number v of JNum n \<Rightarrow> JNum n | _ \<Rightarrow> JNull)"

definition result_checks :: "jval \<Rightarrow> jval list" where
  "result_checks r = arr_of (jget r ''checks'')"

definition normalizeScenarioResult :: "jval \<Rightarrow> jval res" where
  "normalizeScenarioResult r =
     throw_if (\<not> is_obj r \<and> \<not> is_arr r) ''Reliability scorecard requires CrashLab result objects''
       (Inr (JObj (entry_head r
         @ [(''status'', JStr (if jget r ''status'' = JStr ''PASS'' then ''PASS'' else ''FAIL'')),
            (''attempts'', finite_or_null (jget r ''attempts'')), (''effect_count'', finite_or_null (jget r ''effect_count'')),
            (''failed_checks'', JArr (sort_by text_le (map (\<lambda>c. JStr (checkId c)) (failed_checks (result_checks r)))))])))"

section \<open>The scorecard\<close>

type_synonym buckets = "(string \<times> jval list) list"

definition put_check :: "string \<Rightarrow> jval \<Rightarrow> buckets \<Rightarrow> buckets" where
  "put_check d c bs = map (\<lambda>(k, cs). (k, if k = d then cs @ [c] else cs)) bs"

definition false_invariants :: "jval \<Rightarrow> string list" where
  "false_invariants r = map fst (filter (\<lambda>(k, v). v = JBool False) (props_of (jget r ''invariants'')))"

definition derived_check :: "jval \<Rightarrow> string \<Rightarrow> jval" where
  "derived_check r cid =
     JObj (entry_head r @ [(''check_id'', JStr cid), (''pass'', JBool False), (''expected'', JBool True), (''actual'', JBool False),
       (''note'', JStr ''derived from explicit CrashLab invariant result; matching check record was absent'')])"

definition status_check :: "jval \<Rightarrow> jval" where
  "status_check r =
     JObj (entry_head r @ [(''check_id'', JStr ''scenario_status''), (''pass'', JBool False), (''expected'', JStr ''PASS''),
       (''actual'', JStr (to_str (jor (jget r ''status'') (JStr ''FAIL''))))])"

definition add_result :: "jval \<Rightarrow> buckets \<Rightarrow> buckets" where
  "add_result r bs =
     (let checks = result_checks r; ids = map checkId checks; bad = false_invariants r;
          b1 = fold (\<lambda>c. put_check (dimensionForCheck c r) (normalizeCheck c r)) checks bs;
          b2 = fold (\<lambda>cid b. if cid \<in> set ids then b else put_check (dimensionForInvariant cid) (derived_check r cid) b) bad b1
      in if jget r ''status'' \<noteq> JStr ''PASS'' \<and> failed_checks checks = [] \<and> bad = []
         then put_check ''recovery_correctness'' (status_check r) b2 else b2)"

definition failing_of :: "jval \<Rightarrow> jval list" where
  "failing_of r =
     map (\<lambda>cid. JObj [(''scenario_id'', scenarioIdentity r), (''invariant'', JStr cid), (''dimension'', JStr (dimensionForInvariant cid))])
       (false_invariants r)"

record dimension =
  dm_status :: string
  dm_checks :: "jval list"

definition dm_passed :: "dimension \<Rightarrow> jval list" where
  "dm_passed d = filter (\<lambda>c. truthy (jget c ''pass'')) (dm_checks d)"

definition close_dimension :: "jval list \<Rightarrow> dimension" where
  "close_dimension checks =
     \<lparr>dm_status = (if checks = [] then ''NOT_APPLICABLE'' else if failed_checks checks \<noteq> [] then ''FAIL'' else ''PASS''),
      dm_checks = sort_by (text_le2 (\<lambda>c. jget c ''scenario_id'') (\<lambda>c. jget c ''check_id'')) checks\<rparr>"

record scorecard =
  sc_version :: string
  sc_status :: string
  sc_scenarios :: "jval list"
  sc_dimensions :: "(string \<times> dimension) list"
  sc_failing :: "jval list"

definition duplicate_identity :: "jval list \<Rightarrow> jval option" where
  "duplicate_identity rs =
     (case filter (\<lambda>(i, r). jincludes (map scenarioIdentity (take i rs)) (scenarioIdentity r)) (enumerate 0 rs) of
        [] \<Rightarrow> None | (i, r) # _ \<Rightarrow> Some (scenarioIdentity r))"

definition passing :: "jval list \<Rightarrow> jval list" where
  "passing scenarios = filter (\<lambda>s. jget s ''status'' = JStr ''PASS'') scenarios"

definition buildReliabilityScorecard :: "string \<Rightarrow> jval list \<Rightarrow> scorecard res" where
  "buildReliabilityScorecard core_version results =
     throw_if (results = []) ''Reliability scorecard requires at least one CrashLab result''
     (let sorted = sort_by (text_le2 scenarioIdentity (\<lambda>r. jget r ''scenario'')) results in
      case duplicate_identity sorted of
        Some v \<Rightarrow> Inl (Error (''Reliability scorecard duplicate scenario identity: '' @ to_str v))
      | None \<Rightarrow>
          bind_res (map_res normalizeScenarioResult sorted) (\<lambda>scenarios.
            let dims = map (\<lambda>(k, cs). (k, close_dimension cs))
                  (fold add_result sorted (map (\<lambda>k. (k, [])) RELIABILITY_SCORECARD_DIMENSIONS)) in
            Inr \<lparr>sc_version = core_version,
              sc_status = (if length (passing scenarios) = length scenarios \<and> list_all (\<lambda>(k, d). dm_status d \<noteq> ''FAIL'') dims
                           then ''PASS'' else ''FAIL''),
              sc_scenarios = scenarios, sc_dimensions = dims,
              sc_failing = sort_by (text_le2 (\<lambda>x. jget x ''scenario_id'') (\<lambda>x. jget x ''invariant'')) (concat (map failing_of sorted))\<rparr>))"

definition reliabilityScorecardExitCode :: "scorecard \<Rightarrow> nat" where
  "reliabilityScorecardExitCode s = (if sc_status s = ''PASS'' then 0 else 2)"

section \<open>Reports\<close>

definition renderValue :: "jval \<Rightarrow> string" where
  "renderValue v = (case v of JStr s \<Rightarrow> s | _ \<Rightarrow> json_text v)"

definition middle_dot :: string where
  "middle_dot = '' '' @ [CHR 0xB7] @ '' ''"

definition pad_end :: "nat \<Rightarrow> string \<Rightarrow> string" where
  "pad_end n s = s @ replicate (n - length s) CHR '' ''"

definition field_text :: "jval \<Rightarrow> string \<Rightarrow> string" where
  "field_text c k = to_str (jget c k)"

definition count_text :: "'a list \<Rightarrow> string" where
  "count_text xs = nat_str (length xs)"

definition fail_line :: "jval \<Rightarrow> string" where
  "fail_line c =
     ''  FAIL '' @ field_text c ''scenario_id'' @ middle_dot @ field_text c ''check_id'' @ middle_dot @ ''actual ''
     @ renderValue (jget c ''actual'') @ middle_dot @ ''expected '' @ renderValue (jget c ''expected'')"

definition dimension_lines :: "string \<times> dimension \<Rightarrow> string list" where
  "dimension_lines kd =
     (case kd of (k, d) \<Rightarrow>
        (pad_end 14 (dm_status d) @ '' '' @ k @ middle_dot @ count_text (dm_passed d) @ ''/'' @ count_text (dm_checks d) @ '' checks passed'')
        # map fail_line (failed_checks (dm_checks d)))"

definition newline :: string where
  "newline = [CHR 0x0A]"

definition renderReliabilityScorecardSummary :: "scorecard \<Rightarrow> string" where
  "renderReliabilityScorecardSummary s =
     (let pass = length (passing (sc_scenarios s)); total = length (sc_scenarios s) in
      str_join newline
        ([''RuleOak Reliability Scorecard v1.0'' @ middle_dot @ ''RuleOak '' @ sc_version s,
          ''Result: '' @ sc_status s,
          ''Scenarios: '' @ nat_str pass @ '' PASS / '' @ nat_str (total - pass) @ '' FAIL / '' @ nat_str total @ '' total'',
          []]
         @ concat (map dimension_lines (sc_dimensions s))
         @ (if sc_failing s = [] then []
            else [[], ''Failing invariants: '' @ str_join '', ''
              (map (\<lambda>x. field_text x ''scenario_id'' @ '':'' @ field_text x ''invariant'') (sc_failing s))]))
      @ newline)"

definition xml_char :: "char \<Rightarrow> string" where
  "xml_char c =
     (if c = CHR ''&'' then ''&amp;'' else if c = CHR ''<'' then ''&lt;'' else if c = CHR ''>'' then ''&gt;''
      else if c = CHR 0x22 then ''&quot;'' else if c = CHR 0x27 then ''&apos;'' else [c])"

definition xmlEscape :: "string \<Rightarrow> string" where
  "xmlEscape s = concat (map xml_char s)"

definition xml_attr :: "string \<Rightarrow> string \<Rightarrow> string" where
  "xml_attr name v = '' '' @ name @ ''='' @ [CHR 0x22] @ v @ [CHR 0x22]"

definition junit_failure :: "dimension \<Rightarrow> string" where
  "junit_failure d =
     (let bad = failed_checks (dm_checks d);
          body = str_join newline (map (\<lambda>c. field_text c ''scenario_id'' @ '':'' @ field_text c ''check_id'' @ '' actual=''
            @ renderValue (jget c ''actual'') @ '' expected='' @ renderValue (jget c ''expected'')) bad) in
      ''    <failure'' @ xml_attr ''message'' (count_text bad @ '' reliability check(s) failed'') @ ''>'' @ xmlEscape body @ ''</failure>'')"

definition junit_case :: "string \<times> dimension \<Rightarrow> string list" where
  "junit_case kd =
     (case kd of (k, d) \<Rightarrow>
        [''  <testcase'' @ xml_attr ''classname'' ''ruleoak.reliability'' @ xml_attr ''name'' (xmlEscape k) @ ''>'']
        @ (if dm_status d = ''NOT_APPLICABLE'' then [''    <skipped'' @ xml_attr ''message'' ''No applicable CrashLab checks'' @ ''/>'']
           else if dm_status d = ''FAIL'' then [junit_failure d] else [])
        @ [''  </testcase>''])"

definition with_status :: "string \<Rightarrow> scorecard \<Rightarrow> (string \<times> dimension) list" where
  "with_status v s = filter (\<lambda>(k, d). dm_status d = v) (sc_dimensions s)"

definition junit_property :: "string \<Rightarrow> string \<Rightarrow> string" where
  "junit_property name v = ''    <property'' @ xml_attr ''name'' name @ xml_attr ''value'' v @ ''/>''"

definition serializeReliabilityScorecardJUnit :: "scorecard \<Rightarrow> string" where
  "serializeReliabilityScorecardJUnit s =
     str_join newline
       ([''<?xml'' @ xml_attr ''version'' ''1.0'' @ xml_attr ''encoding'' ''UTF-8'' @ ''?>'',
         ''<testsuite'' @ xml_attr ''name'' ''RuleOak Reliability Scorecard'' @ xml_attr ''tests'' (count_text (sc_dimensions s))
           @ xml_attr ''failures'' (count_text (with_status ''FAIL'' s)) @ xml_attr ''skipped'' (count_text (with_status ''NOT_APPLICABLE'' s)) @ ''>'',
         ''  <properties>'', junit_property ''scorecard_version'' ''1.0'', junit_property ''ruleoak_version'' (xmlEscape (sc_version s)),
         junit_property ''scenario_count'' (count_text (sc_scenarios s)), ''  </properties>'']
        @ concat (map junit_case (sc_dimensions s)) @ [''</testsuite>''])
     @ newline"

definition sarif_result :: "string \<Rightarrow> jval \<Rightarrow> jval" where
  "sarif_result k c =
     JObj [(''ruleId'', JStr k), (''level'', JStr ''error''),
       (''message'', JObj [(''text'', JStr (field_text c ''scenario_id'' @ '': '' @ field_text c ''check_id'' @ '' failed''))]),
       (''properties'', JObj (map (\<lambda>f. (f, jget c f)) [''scenario_id'', ''scenario'', ''check_id'', ''failure_class'', ''expected'', ''actual'']))]"

definition sarif_rule :: "string \<Rightarrow> jval" where
  "sarif_rule k =
     JObj [(''id'', JStr k), (''name'', JStr k), (''shortDescription'', JObj [(''text'', JStr (''RuleOak reliability dimension: '' @ k))])]"

definition buildReliabilityScorecardSarif :: "scorecard \<Rightarrow> jval" where
  "buildReliabilityScorecardSarif s =
     JObj [(''$schema'', JStr ''https://json.schemastore.org/sarif-2.1.0.json''), (''version'', JStr ''2.1.0''),
       (''runs'', JArr [JObj
         [(''tool'', JObj [(''driver'', JObj [(''name'', JStr ''RuleOak CrashLab''), (''semanticVersion'', JStr (sc_version s)),
             (''rules'', JArr (map sarif_rule RELIABILITY_SCORECARD_DIMENSIONS))])]),
          (''properties'', JObj [(''scorecard_version'', JStr ''1.0''), (''scorecard_status'', JStr (sc_status s))]),
          (''results'', JArr (concat (map (\<lambda>(k, d). map (sarif_result k) (failed_checks (dm_checks d))) (sc_dimensions s))))]])]"

section \<open>A passing scorecard loses nothing\<close>

definition bucketed :: "buckets \<Rightarrow> jval \<Rightarrow> bool" where
  "bucketed bs c \<longleftrightarrow> (\<exists>p\<in>set bs. c \<in> set (snd p))"

definition six :: "buckets \<Rightarrow> bool" where
  "six bs \<longleftrightarrow> map fst bs = RELIABILITY_SCORECARD_DIMENSIONS"

lemma recovery_dimension: "''recovery_correctness'' \<in> set RELIABILITY_SCORECARD_DIMENSIONS"
  by code_simp

lemma dimension_in:
  "dimensionForCheck c r \<in> set RELIABILITY_SCORECARD_DIMENSIONS" "dimensionForInvariant cid \<in> set RELIABILITY_SCORECARD_DIMENSIONS"
proof -
  show "dimensionForCheck c r \<in> set RELIABILITY_SCORECARD_DIMENSIONS"
    unfolding dimensionForCheck_def RELIABILITY_SCORECARD_DIMENSIONS_def Let_def
    by (simp only: list.set insert_iff simp_thms if_cancel split: if_split)
  have "snd ` set RELIABILITY_SCORECARD_INVARIANT_DIMENSIONS \<subseteq> set RELIABILITY_SCORECARD_DIMENSIONS"
    by code_simp
  then show "dimensionForInvariant cid \<in> set RELIABILITY_SCORECARD_DIMENSIONS"
    using recovery_dimension by (force simp: dimensionForInvariant_def dest: map_of_SomeD split: option.split)
qed

lemma put_check_six: "six bs \<Longrightarrow> six (put_check d c bs)"
  by (simp add: six_def put_check_def comp_def case_prod_beta)

lemma bucketed_put: "bucketed (put_check d c bs) x \<longleftrightarrow> bucketed bs x \<or> x = c \<and> d \<in> set (map fst bs)"
proof (induction bs)
  case (Cons p bs)
  have "bucketed (put_check d c (p # bs)) x
      \<longleftrightarrow> x \<in> set (if fst p = d then snd p @ [c] else snd p) \<or> bucketed (put_check d c bs) x"
    by (simp add: bucketed_def put_check_def case_prod_beta)
  then show ?case using Cons by (auto simp: bucketed_def)
qed (simp add: bucketed_def put_check_def)

lemma put_check_keeps: "bucketed bs x \<Longrightarrow> bucketed (put_check d c bs) x"
  by (simp add: bucketed_put)

lemma put_check_has: "six bs \<Longrightarrow> d \<in> set RELIABILITY_SCORECARD_DIMENSIONS \<Longrightarrow> bucketed (put_check d c bs) c"
  by (simp add: bucketed_put six_def)

text \<open>Steps that keep the six buckets and what is in them.\<close>

definition keeps :: "(buckets \<Rightarrow> buckets) \<Rightarrow> bool" where
  "keeps f \<longleftrightarrow> (\<forall>bs. six bs \<longrightarrow> six (f bs) \<and> (\<forall>x. bucketed bs x \<longrightarrow> bucketed (f bs) x))"

lemma keeps_put: "keeps (put_check d c)"
  by (simp add: keeps_def put_check_six put_check_keeps)

lemma keeps_fold: "(\<And>x. keeps (f x)) \<Longrightarrow> keeps (fold f xs)"
  by (induction xs) (simp_all add: keeps_def)

lemma keeps_if: "keeps f \<Longrightarrow> keeps g \<Longrightarrow> keeps (\<lambda>b. if p then f b else g b)"
  by (simp add: keeps_def)

lemma keeps_id: "keeps (\<lambda>b. b)"
  by (simp add: keeps_def)

lemma keeps_add: "keeps (add_result r)"
proof -
  have "keeps (fold (\<lambda>c. put_check (dimensionForCheck c r) (normalizeCheck c r)) xs)" for xs
    by (intro keeps_fold keeps_put)
  moreover have "keeps (fold (\<lambda>cid b. if cid \<in> ids then b else put_check (dimensionForInvariant cid) (derived_check r cid) b) xs)"
    for ids xs by (intro keeps_fold keeps_if keeps_put keeps_id)
  ultimately show ?thesis using keeps_put by (auto simp: add_result_def keeps_def Let_def)
qed

lemma fold_puts:
  assumes "x \<in> set xs" "six bs" "\<And>y. keeps (f y)" "\<And>bs. six bs \<Longrightarrow> bucketed (f x bs) c"
  shows "bucketed (fold f xs bs) c"
  using assms(1,2)
proof (induction xs arbitrary: bs)
  case (Cons y ys)
  have "six (f y bs)" using assms(3) Cons.prems(2) by (simp add: keeps_def)
  then show ?case
    using Cons keeps_fold [of f ys, OF assms(3)] assms(4) [OF Cons.prems(2)] by (cases "x = y") (auto simp: keeps_def)
qed simp

lemma add_result_has:
  assumes "six bs" "c \<in> set (result_checks r)"
  shows "bucketed (add_result r bs) (normalizeCheck c r)"
proof -
  let ?put = "\<lambda>c. put_check (dimensionForCheck c r) (normalizeCheck c r)"
  let ?inv = "\<lambda>cid b. if cid \<in> set (map checkId (result_checks r)) then b else put_check (dimensionForInvariant cid) (derived_check r cid) b"
  have "bucketed (fold ?put (result_checks r) bs) (normalizeCheck c r)" and "six (fold ?put (result_checks r) bs)"
    using fold_puts [OF assms(2,1), of ?put] put_check_has dimension_in(1) keeps_put keeps_fold [of ?put] assms(1)
    by (simp_all add: keeps_def)
  moreover have "keeps (fold ?inv (false_invariants r))" by (intro keeps_fold keeps_if keeps_put keeps_id)
  ultimately have "bucketed (fold ?inv (false_invariants r) (fold ?put (result_checks r) bs)) (normalizeCheck c r)"
    by (simp add: keeps_def)
  note this put_check_keeps [OF this, of "''recovery_correctness''" "status_check r"]
  then show ?thesis by (simp only: add_result_def Let_def split: if_split) simp
qed

text \<open>When the scorecard says PASS, every scenario passed and so did every check of every scenario.\<close>

lemma scorecard_pass_complete:
  assumes "buildReliabilityScorecard v results = Inr s" "sc_status s = ''PASS''" "r \<in> set results"
  shows "jget r ''status'' = JStr ''PASS'' \<and> failed_checks (result_checks r) = []"
proof -
  let ?sorted = "sort_by (text_le2 scenarioIdentity (\<lambda>r. jget r ''scenario'')) results"
  let ?bs = "fold add_result ?sorted (map (\<lambda>k. (k, [])) RELIABILITY_SCORECARD_DIMENSIONS)"
  obtain scenarios where n: "map_res normalizeScenarioResult ?sorted = Inr scenarios"
    and p: "length (passing scenarios) = length scenarios"
    and d: "list_all (\<lambda>(k, d). dm_status d \<noteq> ''FAIL'') (map (\<lambda>(k, cs). (k, close_dimension cs)) ?bs)"
    using assms(1,2) by (auto simp: buildReliabilityScorecard_def Let_def res_simps split: option.splits if_splits)
  have r: "r \<in> set ?sorted" using assms(3) by simp
  obtain x where x: "normalizeScenarioResult r = Inr x" "x \<in> set scenarios"
  proof -
    obtain i where "i < length ?sorted" "r = ?sorted ! i" using r by (metis in_set_conv_nth)
    then have "normalizeScenarioResult r = Inr (scenarios ! i)" "i < length scenarios"
      using n by (simp_all add: map_res_eq_Inr list_all2_conv_all_nth)
    then show ?thesis using that by simp
  qed
  have "jget x ''status'' = JStr ''PASS''"
  proof (rule ccontr)
    assume "jget x ''status'' \<noteq> JStr ''PASS''"
    then have "length (passing scenarios) < length scenarios" unfolding passing_def by (rule length_filter_less [OF x(2)])
    then show False using p by simp
  qed
  moreover have "jget x ''status'' = JStr (if jget r ''status'' = JStr ''PASS'' then ''PASS'' else ''FAIL'')"
    using x(1) unfolding normalizeScenarioResult_def throw_if_eq_Inr by (auto simp: entry_head_def)
  ultimately have status: "jget r ''status'' = JStr ''PASS''" by (simp split: if_splits)
  have "six (map (\<lambda>k. (k, [])) RELIABILITY_SCORECARD_DIMENSIONS)" by (simp add: six_def comp_def)
  then have in_bucket: "bucketed ?bs (normalizeCheck c r)" if "c \<in> set (result_checks r)" for c
    by (rule fold_puts [where f = add_result, OF r _ keeps_add]) (auto intro: add_result_has [OF _ that])
  have "truthy (jget c ''pass'')" if c: "c \<in> set (result_checks r)" for c
  proof (rule ccontr)
    assume "\<not> truthy (jget c ''pass'')"
    then have "normalizeCheck c r \<in> set (failed_checks cs)" if "normalizeCheck c r \<in> set cs" for cs
      using that by (simp add: failed_checks_def normalizeCheck_def entry_head_def)
    then show False using in_bucket [OF c] d by (fastforce simp: bucketed_def list_all_iff close_dimension_def split: if_splits)
  qed
  then show ?thesis using status by (simp add: failed_checks_def)
qed

end
