(* ===== verification/Spec2Isabelle.thy ===== *)
theory Spec2Isabelle
  imports PolicyEngineProps BudgetProps RevocationProps Envelope ProtocolApproval ProtocolCrashLab
    PolicyTools Lease FileLock EffectProps RecorderProps GatewayProps ConsumeProps AuthorityProps
    Migration ApprovalTrace AuthorityGraph
    PolicyPath EvidenceSink AdapterGuard LockLiveness CrashProps AuthorityLedger GraphProps EvidenceGraph CrashLabProps
    Mcp Extensions Scorecard
begin

text \<open>
  Verification library of the RuleOak packages.

  RuleOak stands between an agent and the tools it calls.  A requested tool call is normalised,
  classified and redacted, checked against signed authority (grants that delegate to grants,
  envelopes for one task, budgets, obligations, revocations) and evaluated against a policy; an
  allowed call gets a decision receipt, from which a one-use execution lease is issued, if need be with a
  human approval; what the execution did is described by an effect receipt and its verification, and
  everything is recorded in a hash-chained log.  The library models the code of
  \<^verbatim>\<open>src/packages/core/src\<close> and of \<^verbatim>\<open>src/packages/protocol/src/index.js\<close> that does this.

  \<^bold>\<open>The language.\<close>  \<^verbatim>\<open>JSValue\<close> is the prelude: JavaScript values with \<open>undefined\<close> and \<open>null\<close>, objects as lists of
  properties in insertion order, property access, truthiness, \<open>String(v)\<close>, comparison, the results of
  functions that throw (\<open>res\<close>, an \<open>Error\<close> with its message or a \<open>TypeError\<close>) with the collection of rules the proofs
  use, and the \<open>host\<close>: the bytes of a digest, the clock, fresh identifiers, collation and Unicode normalisation are
  parameters.  \<^verbatim>\<open>JSDate\<close> parses and prints dates (the host's time zone is UTC), \<^verbatim>\<open>JSRegex\<close> is a backtracking matcher,
  \<^verbatim>\<open>CanonicalJson\<close> and \<^verbatim>\<open>JsonParse\<close> hold the serialisers and \<open>JSON.parse\<close>, with the proofs that the canonical
  text determines the value and that parsing inverts printing.  \<^verbatim>\<open>Utf8\<close> and \<^verbatim>\<open>Utf8Json\<close> are the encoding of a text as
  bytes and its decoding from a piece cut anywhere, and what such a cut does to a line of JSON.  Numbers are
  integers; characters are those up to U+00FF.

  \<^bold>\<open>Documents.\<close>  \<^verbatim>\<open>Protocol\<close>, \<^verbatim>\<open>ProtocolAuthority\<close>, \<^verbatim>\<open>ProtocolEvidence\<close>, \<^verbatim>\<open>ProtocolApproval\<close>, \<^verbatim>\<open>ProtocolGraph\<close> and
  \<^verbatim>\<open>ProtocolCrashLab\<close> are the validators of \<^verbatim>\<open>protocol/src/index.js\<close>; each returns the list of error messages of the code,
  and a document is valid when the list is empty.

  \<^bold>\<open>Policy.\<close>  \<^verbatim>\<open>Patterns\<close> compiles the globs of policies and of grants (\<^verbatim>\<open>engine/evaluator.js\<close>, \<^verbatim>\<open>authority/grant.js\<close>) and proves the
  compiled expression equal to a direct reading of the pattern; \<^verbatim>\<open>PolicyEngine\<close> is \<^verbatim>\<open>engine/evaluator.js\<close>, with its
  properties in \<^verbatim>\<open>PolicyEngineProps\<close> (deny wins, every allow has a source, evaluation of a normalised policy agrees);
  \<^verbatim>\<open>PolicyTools\<close> is lint, simulation and diff; \<^verbatim>\<open>Migration\<close> is \<^verbatim>\<open>migration/policy.js\<close> with the comparison of a policy and its
  migration; \<^verbatim>\<open>PolicyPath\<close> is \<^verbatim>\<open>runtime/policy-path.js\<close> with what its default policy protects.

  \<^bold>\<open>The permission pipeline.\<close>  \<^verbatim>\<open>Redactor\<close>, \<^verbatim>\<open>Classifier\<close>, \<^verbatim>\<open>Normalizer\<close>, \<^verbatim>\<open>Gateway\<close> (\<^verbatim>\<open>permission/*.js\<close>) compose the stages in the
  order of \<open>evaluatePermissionRequest\<close>; \<^verbatim>\<open>GatewayProps\<close> shows what an allow of the gateway implies.  \<^verbatim>\<open>Adapters\<close> and
  \<^verbatim>\<open>AdapterGuard\<close> are \<^verbatim>\<open>adapters/index.js\<close> and \<^verbatim>\<open>conformance.js\<close>: the functions of a caller are procedures over an
  arbitrary state of the world, and a guarded function is shown to run only when it is authorised.

  \<^bold>\<open>Authority.\<close>  \<^verbatim>\<open>Resources\<close>, \<^verbatim>\<open>Signing\<close>, \<^verbatim>\<open>Grant\<close>, \<^verbatim>\<open>Envelope\<close>, \<^verbatim>\<open>Obligations\<close>, \<^verbatim>\<open>Budget\<close>, \<^verbatim>\<open>Revocation\<close> (\<^verbatim>\<open>authority/*.js\<close>).
  \<^verbatim>\<open>AuthorityProps\<close>, \<^verbatim>\<open>BudgetProps\<close> and \<^verbatim>\<open>RevocationProps\<close> hold the theorems: a chain of grants only narrows, partitions
  never exceed the parent's budget, a revocation stands.  The two registries share \<^verbatim>\<open>Files\<close> (a map from paths to
  contents, with bounded reads, atomic replacement and its crash states, exclusive creation) and \<^verbatim>\<open>Journal\<close>
  (loading and persisting a file of JSON lines); \<^verbatim>\<open>CrashProps\<close> is about a crash while a registry is written.

  \<^bold>\<open>Use.\<close>  \<^verbatim>\<open>Receipt\<close> (\<^verbatim>\<open>decision/*.js\<close>), \<^verbatim>\<open>Approval\<close>, \<^verbatim>\<open>ApprovalProvider\<close> (\<^verbatim>\<open>approval/*.js\<close>), \<^verbatim>\<open>Lease\<close>, \<^verbatim>\<open>EffectContract\<close>, \<^verbatim>\<open>EffectReceipt\<close>,
  \<^verbatim>\<open>EffectVerification\<close> (\<^verbatim>\<open>execution/*.js\<close>) over the file trees of \<^verbatim>\<open>FileTree\<close>; \<^verbatim>\<open>ConsumeProps\<close> shows that receipts,
  approvals and leases are spent once, \<^verbatim>\<open>ApprovalProps\<close> and \<^verbatim>\<open>ApprovalTrace\<close> that results verify and stay what they are,
  \<^verbatim>\<open>EffectProps\<close> that the path guard confines and when a retry is called safe.

  \<^bold>\<open>Records.\<close>  \<^verbatim>\<open>Recorder\<close> (\<^verbatim>\<open>protocol/recorder.js\<close>), \<^verbatim>\<open>AuthorityLedger\<close> (\<^verbatim>\<open>recorder/authority-ledger.js\<close>), \<^verbatim>\<open>EvidenceSink\<close>
  (\<^verbatim>\<open>evidence/sink.js\<close>), \<^verbatim>\<open>AuthorityGraph\<close> (\<^verbatim>\<open>authority/graph.js\<close>), \<^verbatim>\<open>EvidenceGraph\<close> (\<^verbatim>\<open>evidence/graph.js\<close>); \<^verbatim>\<open>RecorderProps\<close> shows that the log is read back (the
  last line from the end of the file, in chunks of bytes that are decoded one by one) and that tampering is found, the ledger refines a list of typed payloads, \<^verbatim>\<open>GraphProps\<close> that a graph drops no delegation and that
  an explanation is an ancestry.

  \<^bold>\<open>Fault injection.\<close>  \<^verbatim>\<open>CrashLab\<close>, \<^verbatim>\<open>CrashLabV2\<close> and \<^verbatim>\<open>CrashLabRun\<close> are the synthetic fault runner \<^verbatim>\<open>crashlab/index.js\<close>; \<^verbatim>\<open>CrashLabProps\<close>
  shows that its retry loop ends within the attempts of the scenario, has no effect after a denial, one for each
  attempt at most, and one in all under a preserved key; \<^verbatim>\<open>Scorecard\<close> is
  \<^verbatim>\<open>crashlab/scorecard.js\<close>, with the proof that a passing scorecard has lost no failed check.

  \<^bold>\<open>Edges.\<close>  \<^verbatim>\<open>Mcp\<close> (\<^verbatim>\<open>mcp/*.js\<close>) checks MCP requests and pinned capability surfaces; \<^verbatim>\<open>Extensions\<close> (\<^verbatim>\<open>extensions/spi.js\<close>) is the
  registry of extensions, with the proof that invalid policies and enrichments that name authority do not pass it.

  \<^bold>\<open>Interfaces.\<close>  \<open>signer\<close> (in \<^verbatim>\<open>Signing\<close>) is what signing owes its clients, interpreted by receipts, grants, envelopes,
  leases, approvals and effect receipts; \<open>attenuation\<close> (in \<^verbatim>\<open>Clock\<close>) is an order on authority under which what is permitted
  narrows, interpreted by budgets, obligations and grants; \<open>journal\<close> is a registry whose records are checked
  in order, interpreted by allocations and revocations; \<open>blocklist\<close> extends what a list only grows to revocation;
  \<open>one_use\<close> (in \<^verbatim>\<open>Files\<close>) is a store in which a claim succeeds once, interpreted by exclusive creation.

  \<^bold>\<open>Concurrency.\<close>  \<^verbatim>\<open>FileLock\<close> is \<^verbatim>\<open>io/file-lock.js\<close> as a transition system in which callers interleave at every access to
  the lock file, may crash, and may judge a lock stale; it has the exclusion while no lock is older than
  the limit, the race beyond it, and in \<^verbatim>\<open>LockLiveness\<close> that a caller left alone has its answer after a number of steps
  that the timeout and the sleep between retries determine, on every schedule of its steps and of time.
  Everywhere else an operation under the lock is one step.

  \<^bold>\<open>Bounds and fuel.\<close>  All definitions are total.  \<open>rx_star\<close> gets the length of the rest of the text, each round consumes a
  character; \<open>json_parse\<close> gets the length of the text, which bounds the nesting; the walk of an explanation gets
  the depth asked for, 32 at most, as the code; links are followed as often as the host's limit allows.  The retry
  loop of the fault runner has no fuel: its termination measure is the number of attempts still allowed.

  \<^bold>\<open>Not modelled.\<close>  The signature and digest functions themselves (parameters, with no property assumed but freedom from
  collisions or the length of a digest, where a theorem says so); callbacks that write into the objects they are
  handed; fractions, dates outside the range of JavaScript; file permissions and
  the synchronisation of directories; \<^verbatim>\<open>runtime/client.js\<close> and \<^verbatim>\<open>node-preload.js\<close> (HTTP and patching of node modules),
  \<^verbatim>\<open>adapters/git.js\<close> (runs git); \<^verbatim>\<open>release\<close> (thresholds are
  fractions) and \<^verbatim>\<open>inspector\<close>, reports over recorded data that decide nothing on the enforcement path; the document formats of the development tools and the
  command line, which read arguments, call the modelled functions and print.
\<close>

end
